(* ===== verification/Prelude.thy ===== *)
theory Prelude
  imports Main "HOL-Library.List_Lexorder" "HOL-Library.Char_ord" "HOL-Library.Sublist"
begin

text \<open>
  The shared ground of the development: results and first-error validation
  (Python's sequence of \<open>raise\<close> statements), the table primitives that stand for
  the SQL statements of the persistence layer, the transaction combinator, and
  the interfaces (locales) that several components share.
\<close>

section \<open>Errors and results\<close>

text \<open>The exceptions that the domain records raise, with their messages.\<close>

datatype error = ValueError string | TypeError string

text \<open>
  A constructor's checks run in source order and the first that fails raises.
  A check is \<open>None\<close> when it passes; all of them are pure, so the first failing
  entry of the list is the exception the code raises.
\<close>

fun first_error :: "'e option list \<Rightarrow> 'e option" where
  "first_error [] = None"
| "first_error (c # cs) = (case c of Some e \<Rightarrow> Some e | None \<Rightarrow> first_error cs)"

definition require :: "bool \<Rightarrow> 'e \<Rightarrow> 'e option" where
  "require ok e = (if ok then None else Some e)"

definition build_record :: "('r \<Rightarrow> 'e option) \<Rightarrow> 'r \<Rightarrow> 'e + 'r" where
  "build_record post_init r = (case post_init r of Some e \<Rightarrow> Inl e | None \<Rightarrow> Inr r)"

definition attempt :: "'e + 'a \<Rightarrow> ('a \<Rightarrow> 'e + 'b) \<Rightarrow> 'e + 'b" where
  "attempt m f = (case m of Inl e \<Rightarrow> Inl e | Inr x \<Rightarrow> f x)"

definition map_error :: "('e \<Rightarrow> 'f) \<Rightarrow> 'e + 'a \<Rightarrow> 'f + 'a" where
  "map_error g m = (case m of Inl e \<Rightarrow> Inl (g e) | Inr x \<Rightarrow> Inr x)"

text \<open>A check that yields no value, as a step of a computation.\<close>

definition checked :: "'e option \<Rightarrow> 'e + 'a \<Rightarrow> 'e + 'a" where
  "checked c k = (case c of Some e \<Rightarrow> Inl e | None \<Rightarrow> k)"

lemma first_error_None_iff [simp]:
  "first_error cs = None \<longleftrightarrow> list_all (\<lambda>c. c = None) cs"
  by (induction cs) (auto split: option.splits)

lemma list_all_concat_map [simp]:
  "list_all P (concat (map f xs)) \<longleftrightarrow> (\<forall>x \<in> set xs. list_all P (f x))"
  by (auto simp: list_all_iff)

lemma list_all_map_iff [simp]: "list_all P (map f xs) \<longleftrightarrow> (\<forall>x \<in> set xs. P (f x))"
  by (auto simp: list_all_iff)

text \<open>Validity is read off by the lemma above; evaluation names the equations.\<close>

declare first_error.simps [simp del]

lemma require_None_iff [simp]: "require ok e = None \<longleftrightarrow> ok"
  by (simp add: require_def)

lemma require_Some_iff: "require ok e = Some e' \<longleftrightarrow> \<not> ok \<and> e' = e"
  by (auto simp: require_def)

lemma build_record_Inr_iff: "build_record p r = Inr x \<longleftrightarrow> p r = None \<and> x = r"
  by (auto simp: build_record_def split: option.splits)

lemma build_record_Inl_iff: "build_record p r = Inl e \<longleftrightarrow> p r = Some e"
  by (auto simp: build_record_def split: option.splits)

lemma attempt_simps [simp]:
  "attempt (Inl e) f = Inl e" "attempt (Inr x) f = f x"
  by (simp_all add: attempt_def)

lemma attempt_Inr_iff: "attempt m f = Inr y \<longleftrightarrow> (\<exists>x. m = Inr x \<and> f x = Inr y)"
  by (cases m) (auto simp: attempt_def)

lemma attempt_Inl_iff:
  "attempt m f = Inl e \<longleftrightarrow> m = Inl e \<or> (\<exists>x. m = Inr x \<and> f x = Inl e)"
  by (cases m) (auto simp: attempt_def)

lemma map_error_simps [simp]:
  "map_error g (Inl e) = Inl (g e)" "map_error g (Inr x) = Inr x"
  by (simp_all add: map_error_def)

lemma map_error_Inr_iff [simp]: "map_error g m = Inr x \<longleftrightarrow> m = Inr x"
  by (cases m) (auto simp: map_error_def)

lemma map_error_Inl_iff: "map_error g m = Inl e \<longleftrightarrow> (\<exists>e'. m = Inl e' \<and> e = g e')"
  by (cases m) (auto simp: map_error_def)

lemma checked_simps [simp]:
  "checked None k = k" "checked (Some e) k = Inl e"
  by (simp_all add: checked_def)

lemma checked_Inr_iff: "checked c k = Inr x \<longleftrightarrow> c = None \<and> k = Inr x"
  by (cases c) (auto simp: checked_def)

lemma checked_Inl_iff: "checked c k = Inl e \<longleftrightarrow> c = Some e \<or> c = None \<and> k = Inl e"
  by (cases c) (auto simp: checked_def)

lemmas result_iffs =
  attempt_Inr_iff map_error_Inr_iff checked_Inr_iff build_record_Inr_iff

section \<open>Tables\<close>

text \<open>
  A table is the list of its rows in insertion order.  \<open>List.find\<close> is a
  \<open>SELECT\<close> on a unique key; the other statements are below.  \<open>key\<close> is the
  projection of a row on its primary or unique key.
\<close>

abbreviation lookup_row :: "('r \<Rightarrow> 'k) \<Rightarrow> 'k \<Rightarrow> 'r list \<Rightarrow> 'r option" where
  "lookup_row key k rows \<equiv> List.find (\<lambda>r. key r = k) rows"

definition has_key :: "('r \<Rightarrow> 'k) \<Rightarrow> 'k \<Rightarrow> 'r list \<Rightarrow> bool" where
  "has_key key k rows \<longleftrightarrow> (\<exists>r \<in> set rows. key r = k)"

definition update_where :: "('r \<Rightarrow> bool) \<Rightarrow> ('r \<Rightarrow> 'r) \<Rightarrow> 'r list \<Rightarrow> 'r list" where
  "update_where p f rows = map (\<lambda>r. if p r then f r else r) rows"

definition rowcount :: "('r \<Rightarrow> bool) \<Rightarrow> 'r list \<Rightarrow> nat" where
  "rowcount p rows = length (filter p rows)"

definition delete_where :: "('r \<Rightarrow> bool) \<Rightarrow> 'r list \<Rightarrow> 'r list" where
  "delete_where p rows = filter (\<lambda>r. \<not> p r) rows"

definition upsert :: "('r \<Rightarrow> 'k) \<Rightarrow> 'r \<Rightarrow> 'r list \<Rightarrow> 'r list" where
  "upsert key r rows =
     (if has_key key (key r) rows
      then update_where (\<lambda>x. key x = key r) (\<lambda>_. r) rows
      else rows @ [r])"

definition unique_key :: "('r \<Rightarrow> 'k) \<Rightarrow> 'r list \<Rightarrow> bool" where
  "unique_key key rows \<longleftrightarrow> distinct (map key rows)"

lemma has_key_simps [simp]:
  "has_key key k [] = False"
  "has_key key k (r # rs) = (key r = k \<or> has_key key k rs)"
  "has_key key k (xs @ ys) = (has_key key k xs \<or> has_key key k ys)"
  by (auto simp: has_key_def)

lemma has_key_iff_image: "has_key key k rows \<longleftrightarrow> k \<in> key ` set rows"
  by (auto simp: has_key_def)

lemma lookup_row_None_iff: "lookup_row key k rows = None \<longleftrightarrow> \<not> has_key key k rows"
  by (auto simp: has_key_def find_None_iff)

lemma lookup_row_SomeD:
  "lookup_row key k rows = Some r \<Longrightarrow> r \<in> set rows \<and> key r = k"
  by (induction rows) (auto split: if_splits)

lemma lookup_row_append:
  "lookup_row key k (xs @ ys)
     = (case lookup_row key k xs of Some r \<Rightarrow> Some r | None \<Rightarrow> lookup_row key k ys)"
  by (induction xs) auto

lemma lookup_row_unique:
  "unique_key key rows \<Longrightarrow> r \<in> set rows \<Longrightarrow> lookup_row key (key r) rows = Some r"
  by (induction rows) (auto simp: unique_key_def)

lemma unique_keyD:
  "unique_key key rows \<Longrightarrow> r \<in> set rows \<Longrightarrow> s \<in> set rows \<Longrightarrow> key r = key s \<Longrightarrow> r = s"
  by (metis lookup_row_unique option.inject)

lemma unique_key_Nil [simp]: "unique_key key []"
  by (simp add: unique_key_def)

lemma unique_key_snoc:
  "unique_key key (rows @ [r]) \<longleftrightarrow> unique_key key rows \<and> \<not> has_key key (key r) rows"
  by (auto simp: unique_key_def has_key_iff_image)

lemma map_update_where_same_key:
  "(\<And>r. r \<in> set rows \<Longrightarrow> p r \<Longrightarrow> key (f r) = key r)
     \<Longrightarrow> map key (update_where p f rows) = map key rows"
  by (auto simp: update_where_def)

lemma unique_key_update_where:
  "(\<And>r. r \<in> set rows \<Longrightarrow> p r \<Longrightarrow> key (f r) = key r)
     \<Longrightarrow> unique_key key (update_where p f rows) = unique_key key rows"
  by (simp add: unique_key_def map_update_where_same_key)

lemma has_key_update_where:
  "(\<And>r. r \<in> set rows \<Longrightarrow> p r \<Longrightarrow> key (f r) = key r)
     \<Longrightarrow> has_key key k (update_where p f rows) = has_key key k rows"
  unfolding has_key_iff_image using map_update_where_same_key[of rows p key f]
  by (metis set_map)

lemma set_update_where:
  "set (update_where p f rows) = {f r | r. r \<in> set rows \<and> p r} \<union> {r \<in> set rows. \<not> p r}"
  by (auto simp: update_where_def)

lemma lookup_update_where:
  "(\<And>r. r \<in> set rows \<Longrightarrow> p r \<Longrightarrow> key (f r) = key r)
     \<Longrightarrow> lookup_row key k (update_where p f rows)
         = map_option (\<lambda>r. if p r then f r else r) (lookup_row key k rows)"
  unfolding update_where_def by (induction rows) auto

lemma unique_key_upsert [simp]:
  assumes "unique_key key rows"
  shows "unique_key key (upsert key r rows)"
proof (cases "has_key key (key r) rows")
  case True
  have "unique_key key (update_where (\<lambda>x. key x = key r) (\<lambda>_. r) rows)"
    using assms by (intro unique_key_update_where [THEN iffD2]) auto
  with True show ?thesis by (simp add: upsert_def)
next
  case False
  with assms show ?thesis by (simp add: upsert_def unique_key_snoc)
qed

lemma lookup_upsert:
  "lookup_row key k (upsert key r rows) = (if k = key r then Some r else lookup_row key k rows)"
proof (cases "has_key key (key r) rows")
  case True
  then obtain x where x: "lookup_row key (key r) rows = Some x" "key x = key r"
    using lookup_row_None_iff [of key "key r" rows] by (metis lookup_row_SomeD not_None_eq)
  have "lookup_row key k (upsert key r rows)
      = map_option (\<lambda>x. if key x = key r then r else x) (lookup_row key k rows)"
    unfolding upsert_def using True by (subst lookup_update_where [symmetric]) auto
  also have "\<dots> = (if k = key r then Some r else lookup_row key k rows)"
  proof (cases "k = key r")
    case True
    with x show ?thesis by simp
  next
    case False
    then show ?thesis
      by (cases "lookup_row key k rows") (auto dest: lookup_row_SomeD)
  qed
  finally show ?thesis .
next
  case False
  then have "lookup_row key (key r) rows = None" by (simp add: lookup_row_None_iff)
  with False show ?thesis
    by (auto simp: upsert_def lookup_row_append split: option.splits)
qed

lemma set_upsert_unique:
  "set (upsert key r rows) = insert r {x \<in> set rows. key x \<noteq> key r}"
  by (auto simp: upsert_def set_update_where has_key_def)

lemma unique_key_delete_where [simp]:
  "unique_key key rows \<Longrightarrow> unique_key key (delete_where p rows)"
  unfolding unique_key_def delete_where_def by (induction rows) auto

lemma lookup_delete_key:
  "lookup_row key k (delete_where (\<lambda>r. key r = j) rows)
     = (if k = j then None else lookup_row key k rows)"
  unfolding delete_where_def by (induction rows) auto

lemma set_delete_where: "set (delete_where p rows) = {r \<in> set rows. \<not> p r}"
  by (auto simp: delete_where_def)

lemma filter_fresh_key:
  "key a \<notin> key ` set rows \<Longrightarrow> filter (\<lambda>r. key r = key a \<and> q r) rows = []"
  by (metis (mono_tags, lifting) filter_False imageI)

lemma rowcount_key:
  "unique_key key rows \<Longrightarrow>
     rowcount (\<lambda>r. key r = k \<and> q r) rows
       = (case lookup_row key k rows of Some r \<Rightarrow> if q r then 1 else 0 | None \<Rightarrow> 0)"
proof (induction rows)
  case Nil
  then show ?case by (simp add: rowcount_def)
next
  case (Cons a rows)
  then have u: "unique_key key rows" and fresh: "key a \<notin> key ` set rows"
    by (auto simp: unique_key_def)
  show ?case
  proof (cases "key a = k")
    case True
    with filter_fresh_key [OF fresh, of q] show ?thesis by (auto simp: rowcount_def)
  next
    case False
    with Cons.IH [OF u] show ?thesis by (simp add: rowcount_def)
  qed
qed

lemma rowcount_key_eq_1:
  "unique_key key rows \<Longrightarrow>
     rowcount (\<lambda>r. key r = k \<and> q r) rows = 1
       \<longleftrightarrow> (\<exists>r. lookup_row key k rows = Some r \<and> q r)"
  by (auto simp: rowcount_key split: option.splits)

section \<open>Transactions\<close>

text \<open>
  \<open>SQLiteDatabase.transaction\<close> commits when its body returns and rolls the
  connection back when the body raises.  The body maps the state at \<open>BEGIN
  IMMEDIATE\<close> to a raised error, or to a value and the state to commit.
\<close>

definition transaction :: "('s \<Rightarrow> 'e + 'a \<times> 's) \<Rightarrow> 's \<Rightarrow> ('e + 'a) \<times> 's" where
  "transaction body s =
     (case body s of Inl e \<Rightarrow> (Inl e, s) | Inr (a, s') \<Rightarrow> (Inr a, s'))"

lemma transaction_error: "body s = Inl e \<Longrightarrow> transaction body s = (Inl e, s)"
  by (simp add: transaction_def)

lemma transaction_ok: "body s = Inr (a, s') \<Longrightarrow> transaction body s = (Inr a, s')"
  by (simp add: transaction_def)

lemma transaction_Inr_iff:
  "transaction body s = (Inr a, s') \<longleftrightarrow> body s = Inr (a, s')"
  by (auto simp: transaction_def split: sum.splits)

lemma transaction_Inl_iff:
  "transaction body s = (Inl e, s') \<longleftrightarrow> body s = Inl e \<and> s' = s"
  by (auto simp: transaction_def split: sum.splits)

lemma transaction_cases:
  assumes "\<And>a s'. body s = Inr (a, s') \<Longrightarrow> P s'" "P s"
  shows "P (snd (transaction body s))"
  using assms by (auto simp: transaction_def split: sum.splits)

text \<open>A call that did not raise, for the witnesses.\<close>

lemma call_returned: "\<not> isl (fst r) \<Longrightarrow> r = (Inr (projr (fst r)), snd r)"
  by (cases r) auto

section \<open>Runs of operations, invariants and append-only logs\<close>

text \<open>
  A component's operations, seen as one step function over a command type, and
  a run of commands.  An invariant kept by each step holds after every run.
\<close>

fun run_ops :: "('s \<Rightarrow> 'c \<Rightarrow> 's) \<Rightarrow> 's \<Rightarrow> 'c list \<Rightarrow> 's" where
  "run_ops step s [] = s"
| "run_ops step s (c # cs) = run_ops step (step s c) cs"

lemma run_ops_append: "run_ops step s (cs @ ds) = run_ops step (run_ops step s cs) ds"
  by (induction cs arbitrary: s) auto

locale invariant_machine =
  fixes step :: "'s \<Rightarrow> 'c \<Rightarrow> 's"
    and inv :: "'s \<Rightarrow> bool"
  assumes step_inv: "inv s \<Longrightarrow> inv (step s c)"
begin

lemma run_inv: "inv s \<Longrightarrow> inv (run_ops step s cs)"
  by (induction cs arbitrary: s) (auto intro: step_inv)

end

text \<open>
  A machine whose log only grows: the evidence tables protected by the schema's
  triggers.  Every earlier log is a prefix of every later one.
\<close>

locale append_only_machine = invariant_machine step inv
  for step :: "'s \<Rightarrow> 'c \<Rightarrow> 's" and inv :: "'s \<Rightarrow> bool" +
  fixes log :: "'s \<Rightarrow> 'e list"
  assumes step_log: "inv s \<Longrightarrow> prefix (log s) (log (step s c))"
begin

lemma run_log_prefix: "inv s \<Longrightarrow> prefix (log s) (log (run_ops step s cs))"
proof (induction cs arbitrary: s)
  case Nil
  then show ?case by simp
next
  case (Cons c cs)
  then have "prefix (log s) (log (step s c))" by (simp add: step_log)
  moreover have "prefix (log (step s c)) (log (run_ops step (step s c) cs))"
    using Cons by (simp add: step_inv)
  ultimately show ?case by (simp add: prefix_order.trans)
qed

lemma run_log_member: "inv s \<Longrightarrow> e \<in> set (log s) \<Longrightarrow> e \<in> set (log (run_ops step s cs))"
  using run_log_prefix [of s cs] by (auto simp: prefix_def)

end

text \<open>
  A machine with a per-scope counter that no step lowers: fencing tokens and
  workflow versions.
\<close>

locale monotone_counter = invariant_machine step inv
  for step :: "'s \<Rightarrow> 'c \<Rightarrow> 's" and inv :: "'s \<Rightarrow> bool" +
  fixes counter :: "'s \<Rightarrow> 'k \<Rightarrow> int"
  assumes step_counter: "inv s \<Longrightarrow> counter s k \<le> counter (step s c) k"
begin

lemma run_counter_mono: "inv s \<Longrightarrow> counter s k \<le> counter (run_ops step s cs) k"
proof (induction cs arbitrary: s)
  case Nil
  then show ?case by simp
next
  case (Cons c cs)
  then have "counter s k \<le> counter (step s c) k" by (simp add: step_counter)
  also have "\<dots> \<le> counter (run_ops step (step s c) cs) k"
    using Cons by (simp add: step_inv)
  finally show ?case by simp
qed

end

end
