(* ===== verification/Timestamps.thy ===== *)
theory Timestamps
  imports Prelude
begin

text \<open>
  Aware datetimes and the timestamp text of \<open>_transactional_writers.py\<close>.
  Python compares and equates aware datetimes by their UTC instant, so a
  datetime is modelled by its seven UTC fields, ordered field by field.
\<close>

section \<open>Datetimes\<close>

datatype datetime = Datetime
  (dt_year: nat) (dt_month: nat) (dt_day: nat)
  (dt_hour: nat) (dt_minute: nat) (dt_second: nat) (dt_micro: nat)

definition dt_fields :: "datetime \<Rightarrow> nat list" where
  "dt_fields t =
     [dt_year t, dt_month t, dt_day t, dt_hour t, dt_minute t, dt_second t, dt_micro t]"

lemma dt_fields_inject: "dt_fields s = dt_fields t \<longleftrightarrow> s = t"
  by (cases s; cases t) (simp add: dt_fields_def)

instantiation datetime :: linorder
begin

definition less_eq_datetime :: "datetime \<Rightarrow> datetime \<Rightarrow> bool" where
  "less_eq_datetime s t \<longleftrightarrow> dt_fields s \<le> dt_fields t"

definition less_datetime :: "datetime \<Rightarrow> datetime \<Rightarrow> bool" where
  "less_datetime s t \<longleftrightarrow> dt_fields s < dt_fields t"

instance
  by standard
    (auto simp: less_eq_datetime_def less_datetime_def dt_fields_inject order_le_less,
      metis dt_fields_inject linorder_less_linear)

end

text \<open>The ranges that \<open>datetime\<close> itself enforces (a coarse bound on the day).\<close>

definition dt_valid :: "datetime \<Rightarrow> bool" where
  "dt_valid t \<longleftrightarrow> 1 \<le> dt_year t \<and> dt_year t \<le> 9999 \<and> 1 \<le> dt_month t \<and> dt_month t \<le> 12
     \<and> 1 \<le> dt_day t \<and> dt_day t \<le> 31 \<and> dt_hour t < 24 \<and> dt_minute t < 60
     \<and> dt_second t < 60 \<and> dt_micro t < 1000000"

section \<open>Timestamp text\<close>

definition digit_char :: "nat \<Rightarrow> char" where
  "digit_char d = char_of (48 + d)"

fun pad :: "nat \<Rightarrow> nat \<Rightarrow> string" where
  "pad 0 n = []"
| "pad (Suc w) n = pad w (n div 10) @ [digit_char (n mod 10)]"

text \<open>
  \<open>value.astimezone(utc).isoformat().replace("+00:00", "Z")\<close>: the fraction is
  printed only when the microseconds are not zero.
\<close>

definition iso_fraction :: "datetime \<Rightarrow> string" where
  "iso_fraction t = (if dt_micro t = 0 then '''' else ''.'' @ pad 6 (dt_micro t))"

definition encode_utc_timestamp :: "datetime \<Rightarrow> string" where
  "encode_utc_timestamp t =
     pad 4 (dt_year t) @ ''-'' @ pad 2 (dt_month t) @ ''-'' @ pad 2 (dt_day t) @ ''T''
     @ pad 2 (dt_hour t) @ '':'' @ pad 2 (dt_minute t) @ '':'' @ pad 2 (dt_second t)
     @ iso_fraction t @ ''Z''"

section \<open>The order of the text\<close>

lemma less_append_iff:
  fixes a b :: "'a::linorder list"
  shows "length a = length b \<Longrightarrow> a @ x < b @ y \<longleftrightarrow> a < b \<or> a = b \<and> x < y"
  by (induction a b rule: list_induct2) auto

lemma length_pad [simp]: "length (pad w n) = w"
  by (induction w arbitrary: n) auto

lemma digit_char_less: "d < 10 \<Longrightarrow> e < 10 \<Longrightarrow> digit_char d < digit_char e \<longleftrightarrow> d < e"
  by (simp add: digit_char_def less_char_def)

lemma digit_char_inject: "d < 10 \<Longrightarrow> e < 10 \<Longrightarrow> digit_char d = digit_char e \<longleftrightarrow> d = e"
  by (metis digit_char_less less_irrefl linorder_neqE_nat)

lemma pad_inject:
  "n < 10 ^ w \<Longrightarrow> m < 10 ^ w \<Longrightarrow> pad w n = pad w m \<longleftrightarrow> n = m"
proof (induction w arbitrary: n m)
  case 0
  then show ?case by simp
next
  case (Suc w)
  then have "n div 10 < 10 ^ w" "m div 10 < 10 ^ w" by auto
  with Suc.IH show ?case
    by (auto simp: digit_char_inject) (metis div_mult_mod_eq)
qed

lemma decimal_less_iff:
  "n div 10 < m div 10 \<or> n div 10 = m div 10 \<and> n mod 10 < m mod 10 \<longleftrightarrow> n < (m::nat)"
proof -
  have "n = 10 * (n div 10) + n mod 10" "m = 10 * (m div 10) + m mod 10"
    "n mod 10 < 10" "m mod 10 < 10" by simp_all
  then show ?thesis by linarith
qed

lemma pad_less_iff:
  "n < 10 ^ w \<Longrightarrow> m < 10 ^ w \<Longrightarrow> pad w n < pad w m \<longleftrightarrow> n < m"
proof (induction w arbitrary: n m)
  case 0
  then show ?case by simp
next
  case (Suc w)
  then have b: "n div 10 < 10 ^ w" "m div 10 < 10 ^ w" by auto
  have "pad (Suc w) n < pad (Suc w) m
    \<longleftrightarrow> n div 10 < m div 10 \<or> n div 10 = m div 10 \<and> n mod 10 < m mod 10"
    using Suc.IH [OF b] b by (simp add: less_append_iff pad_inject digit_char_less)
  also have "\<dots> \<longleftrightarrow> n < m" by (rule decimal_less_iff)
  finally show ?case .
qed

lemma pad_append_less_iff:
  "n < 10 ^ w \<Longrightarrow> m < 10 ^ w \<Longrightarrow> pad w n @ x < pad w m @ y \<longleftrightarrow> n < m \<or> n = m \<and> x < y"
  by (simp add: less_append_iff pad_less_iff pad_inject)

lemma pad_append_eq_iff:
  "n < 10 ^ w \<Longrightarrow> m < 10 ^ w \<Longrightarrow> pad w n @ x = pad w m @ y \<longleftrightarrow> n = m \<and> x = y"
  by (simp add: pad_inject)

lemma iso_fraction_less_iff:
  assumes "dt_micro s < 1000000" "dt_micro t < 1000000"
    and "(dt_micro s = 0) = (dt_micro t = 0)"
  shows "iso_fraction s @ z < iso_fraction t @ z \<longleftrightarrow> dt_micro s < dt_micro t"
  using assms by (auto simp: iso_fraction_def pad_append_less_iff)

lemma encode_utc_timestamp_less_iff:
  assumes "dt_valid s" "dt_valid t" "(dt_micro s = 0) = (dt_micro t = 0)"
  shows "encode_utc_timestamp s < encode_utc_timestamp t \<longleftrightarrow> s < t"
  using assms
  by (simp add: encode_utc_timestamp_def pad_append_less_iff iso_fraction_less_iff dt_valid_def
      less_datetime_def dt_fields_def)

lemma encode_utc_timestamp_le_iff:
  assumes "dt_valid s" "dt_valid t" "(dt_micro s = 0) = (dt_micro t = 0)"
  shows "encode_utc_timestamp s \<le> encode_utc_timestamp t \<longleftrightarrow> s \<le> t"
proof -
  have "encode_utc_timestamp t < encode_utc_timestamp s \<longleftrightarrow> t < s"
    using assms by (intro encode_utc_timestamp_less_iff) auto
  then show ?thesis by (simp add: linorder_not_less [symmetric])
qed

end
