(* ===== verification/Values.thy ===== *)
theory Values
  imports Timestamps Complex_Main "HOL-Library.Code_Target_Numeral"
begin

text \<open>
  The validated value types of \<open>domain/values.py\<close>: text, collection and UUID
  checks, the enumerations, digests, revisions with their wire form, freshness
  evidence, locators and quantities.  Each \<open>_post_init\<close> is the list of checks
  of the dataclass in source order.  Checks of the dynamic type of an argument
  (\<open>isinstance\<close>) have no counterpart: the fields are typed.  Strings are lists
  of code points below 256.
\<close>

section \<open>Text of Python: strip, decimal text, int()\<close>

definition is_space :: "char \<Rightarrow> bool" where
  "is_space c \<longleftrightarrow> (let n = (of_char c :: nat) in
     9 \<le> n \<and> n \<le> 13 \<or> 28 \<le> n \<and> n \<le> 32 \<or> n = 133 \<or> n = 160)"

definition strip_text :: "string \<Rightarrow> string" where
  "strip_text s = rev (dropWhile is_space (rev (dropWhile is_space s)))"

fun nat_str :: "nat \<Rightarrow> string" where
  "nat_str n = (if n < 10 then [digit_char n] else nat_str (n div 10) @ [digit_char (n mod 10)])"

declare nat_str.simps [simp del]

definition int_str :: "int \<Rightarrow> string" where
  "int_str i = (if i < 0 then ''-'' @ nat_str (nat (- i)) else nat_str (nat i))"

definition digit_value :: "char \<Rightarrow> nat option" where
  "digit_value c = (let n = (of_char c :: nat) in
     if 48 \<le> n \<and> n \<le> 57 then Some (n - 48)
     else if 97 \<le> n \<and> n \<le> 122 then Some (n - 87)
     else if 65 \<le> n \<and> n \<le> 90 then Some (n - 55)
     else None)"

text \<open>Digits of a base, with single underscores allowed between two digits.\<close>

fun digits_value :: "nat \<Rightarrow> bool \<Rightarrow> nat \<Rightarrow> string \<Rightarrow> nat option" where
  "digits_value b seen acc [] = (if seen then Some acc else None)"
| "digits_value b seen acc (c # cs) =
     (if c = CHR ''_'' then (if seen then digits_value b False acc cs else None)
      else case digit_value c of
             None \<Rightarrow> None
           | Some d \<Rightarrow> if d < b then digits_value b True (acc * b + d) cs else None)"

text \<open>\<open>int(text, base)\<close> for base 10 and base 16; \<open>None\<close> is \<open>ValueError\<close>.\<close>

definition drop_hex_prefix :: "string \<Rightarrow> string" where
  "drop_hex_prefix s = (case s of
      (z # x # r) \<Rightarrow> if z = CHR ''0'' \<and> (x = CHR ''x'' \<or> x = CHR ''X'')
                     then (case r of (u # r') \<Rightarrow> if u = CHR ''_'' then r' else r | [] \<Rightarrow> r)
                     else s
    | _ \<Rightarrow> s)"

definition py_int :: "nat \<Rightarrow> string \<Rightarrow> int option" where
  "py_int b s = (let t = strip_text s;
       neg = (case t of c # _ \<Rightarrow> c = CHR ''-'' | [] \<Rightarrow> False);
       u = (case t of c # r \<Rightarrow> if c = CHR ''-'' \<or> c = CHR ''+'' then r else t | [] \<Rightarrow> t);
       v = (if b = 16 then drop_hex_prefix u else u)
     in map_option (\<lambda>n. if neg then - int n else int n) (digits_value b False 0 v))"

section \<open>Checks of text, collections, timestamps and UUIDs\<close>

definition MAX_TEXT_LENGTH :: nat where "MAX_TEXT_LENGTH = 4096"
definition MAX_COLLECTION_LENGTH :: nat where "MAX_COLLECTION_LENGTH = 10000"
definition MAX_PAGE_SIZE :: int where "MAX_PAGE_SIZE = 100"

definition require_text_max :: "nat \<Rightarrow> string \<Rightarrow> string \<Rightarrow> error option" where
  "require_text_max maximum value name = first_error
     [require (value \<noteq> [] \<and> value = strip_text value)
        (ValueError (name @ '' must be nonempty and have no surrounding whitespace'')),
      require (length value \<le> maximum)
        (ValueError (name @ '' exceeds '' @ nat_str maximum @ '' characters''))]"

definition require_text :: "string \<Rightarrow> string \<Rightarrow> error option" where
  "require_text = require_text_max MAX_TEXT_LENGTH"

definition require_collection :: "bool \<Rightarrow> 'a list \<Rightarrow> string \<Rightarrow> error option" where
  "require_collection allow_empty value name = first_error
     [require (allow_empty \<or> value \<noteq> []) (ValueError (name @ '' must not be empty'')),
      require (length value \<le> MAX_COLLECTION_LENGTH)
        (ValueError (name @ '' exceeds '' @ nat_str MAX_COLLECTION_LENGTH @ '' entries''))]"

text \<open>
  \<open>uuid.UUID(value)\<close>: drop \<open>urn:\<close> and \<open>uuid:\<close>, surrounding braces and all
  hyphens; what is left must be 32 characters that \<open>int(_, 16)\<close> reads as a
  value below \<open>2 ^ 128\<close>.
\<close>

fun replace_text :: "string \<Rightarrow> string \<Rightarrow> string" where
  "replace_text pat [] = []"
| "replace_text pat (c # cs) =
     (if pat \<noteq> [] \<and> take (length pat) (c # cs) = pat
      then replace_text pat (drop (length pat - 1) cs) else c # replace_text pat cs)"

definition strip_braces :: "string \<Rightarrow> string" where
  "strip_braces s = (let p = (\<lambda>c. c = CHR ''{'' \<or> c = CHR ''}'') in
     rev (dropWhile p (rev (dropWhile p s))))"

definition uuid_int :: "string \<Rightarrow> int option" where
  "uuid_int value =
     (let hex = filter (\<lambda>c. c \<noteq> CHR ''-'')
                  (strip_braces (replace_text ''uuid:'' (replace_text ''urn:'' value)))
      in if length hex \<noteq> 32 then None
         else case py_int 16 hex of
                None \<Rightarrow> None
              | Some i \<Rightarrow> if 0 \<le> i \<and> i < 2 ^ 128 then Some i else None)"

definition is_lower_hex :: "char \<Rightarrow> bool" where
  "is_lower_hex c \<longleftrightarrow> (let n = (of_char c :: nat) in 48 \<le> n \<and> n \<le> 57 \<or> 97 \<le> n \<and> n \<le> 102)"

text \<open>
  \<open>parsed.version == 4 and str(parsed) == value\<close>: the canonical text has
  lowercase hex digits in groups of 8, 4, 4, 4 and 12, the third group starts
  with the version 4 and the fourth with an RFC 4122 variant digit.
\<close>

definition canonical_uuid4 :: "string \<Rightarrow> bool" where
  "canonical_uuid4 value \<longleftrightarrow> length value = 36
     \<and> list_all (\<lambda>(i, c). if i \<in> set [8, 13, 18, 23] then c = CHR ''-'' else is_lower_hex c)
          (zip [0..<36] value)
     \<and> value ! 14 = CHR ''4'' \<and> value ! 19 \<in> set ''89ab''"

definition require_uuid4 :: "string \<Rightarrow> string \<Rightarrow> error option" where
  "require_uuid4 value name = first_error
     [require_text_max 36 value name,
      require (uuid_int value \<noteq> None) (ValueError (name @ '' must be a UUID'')),
      require (canonical_uuid4 value)
        (ValueError (name @ '' must be a canonical lowercase UUIDv4''))]"

text \<open>
  A timestamp is aware by its type here: \<open>require_aware\<close> refuses naive
  datetimes, which \<open>datetime\<close> does not contain.  The range check is the one
  the \<open>datetime\<close> class itself makes.
\<close>

definition require_aware :: "datetime \<Rightarrow> string \<Rightarrow> error option" where
  "require_aware t name = require (dt_valid t) (ValueError (name @ '' must be timezone-aware''))"

definition require_optional :: "('a \<Rightarrow> error option) \<Rightarrow> 'a option \<Rightarrow> error option" where
  "require_optional check value = (case value of None \<Rightarrow> None | Some x \<Rightarrow> check x)"

section \<open>Enumerations\<close>

datatype freshness_level = CACHED | VERIFIED | LIVE
datatype completeness_state = COMPLETE | CONSERVATIVE | UNSUPPORTED
datatype asset_kind = AREA | BUS | LINE | LOAD | TERMINAL | TRANSFORMER
datatype locator_kind = NATIVE_CANDIDATE | CANONICAL_PATH_FALLBACK
datatype locator_trust = CANDIDATE | FALLBACK | VERIFIED_NATIVE | REJECTED_LOCATOR
datatype identity_lifecycle_state = ACTIVE | UNRESOLVED | TOMBSTONED
datatype operation_type = AREA_LOAD_SCALING | ATTRIBUTE_CHANGE | ROLLBACK_OPERATION
datatype mutation_strategy = DIRECT_LEDGER | SCENARIO_ISOLATION
datatype convergence_state = CONVERGED | NOT_CONVERGED | CALCULATION_FAILED
datatype violation_severity = INFO | WARNING | CRITICAL

fun asset_kind_value :: "asset_kind \<Rightarrow> string" where
  "asset_kind_value AREA = ''area''"
| "asset_kind_value BUS = ''bus''"
| "asset_kind_value LINE = ''line''"
| "asset_kind_value LOAD = ''load''"
| "asset_kind_value TERMINAL = ''terminal''"
| "asset_kind_value TRANSFORMER = ''transformer''"

fun identity_lifecycle_state_value :: "identity_lifecycle_state \<Rightarrow> string" where
  "identity_lifecycle_state_value ACTIVE = ''active''"
| "identity_lifecycle_state_value UNRESOLVED = ''unresolved''"
| "identity_lifecycle_state_value TOMBSTONED = ''tombstoned''"

section \<open>Identities, provenance and digests\<close>

datatype product_identity = ProductIdentity (pi_value: string)

definition ProductIdentity_post_init :: "product_identity \<Rightarrow> error option" where
  "ProductIdentity_post_init p = require_uuid4 (pi_value p) ''ProductIdentity.value''"

record project_provenance =
  pp_installation_id :: string
  pp_profile_id :: string
  pp_project_key :: string
  pp_project_evidence :: string

definition ProjectProvenance_post_init :: "project_provenance \<Rightarrow> error option" where
  "ProjectProvenance_post_init p = first_error
     [require_text_max 256 (pp_installation_id p) ''ProjectProvenance.installation_id'',
      require_text_max 256 (pp_profile_id p) ''ProjectProvenance.profile_id'',
      require_text_max 512 (pp_project_key p) ''ProjectProvenance.project_key'',
      require_text (pp_project_evidence p) ''ProjectProvenance.project_evidence'']"

fun split_on :: "char \<Rightarrow> string \<Rightarrow> string list" where
  "split_on c [] = [[]]"
| "split_on c (x # xs) =
     (if x = c then [] # split_on c xs
      else case split_on c xs of [] \<Rightarrow> [[x]] | p # ps \<Rightarrow> (x # p) # ps)"

definition is_lower :: "char \<Rightarrow> bool" where
  "is_lower c \<longleftrightarrow> (let n = (of_char c :: nat) in 97 \<le> n \<and> n \<le> 122)"

definition is_digit :: "char \<Rightarrow> bool" where
  "is_digit c \<longleftrightarrow> (let n = (of_char c :: nat) in 48 \<le> n \<and> n \<le> 57)"

text \<open>
  \<open>_DIGEST_RE\<close>: four parts separated by colons, none of which may hold a colon:
  kind \<open>[a-z][a-z0-9-]*\<close>, schema \<open>[a-z0-9][a-z0-9.-]*\<close>, the word \<open>sha256\<close>, and
  64 lowercase hex digits.
\<close>

definition digest_kind_ok :: "string \<Rightarrow> bool" where
  "digest_kind_ok k \<longleftrightarrow> k \<noteq> [] \<and> is_lower (hd k)
     \<and> list_all (\<lambda>c. is_lower c \<or> is_digit c \<or> c = CHR ''-'') (tl k)"

definition digest_schema_ok :: "string \<Rightarrow> bool" where
  "digest_schema_ok k \<longleftrightarrow> k \<noteq> [] \<and> (is_lower (hd k) \<or> is_digit (hd k))
     \<and> list_all (\<lambda>c. is_lower c \<or> is_digit c \<or> c = CHR ''.'' \<or> c = CHR ''-'') (tl k)"

definition match_digest :: "string \<Rightarrow> (string \<times> string) option" where
  "match_digest value = (case split_on (CHR '':'') value of
      [kind, schema, alg, hex] \<Rightarrow>
        if digest_kind_ok kind \<and> digest_schema_ok schema \<and> alg = ''sha256''
           \<and> length hex = 64 \<and> list_all is_lower_hex hex
        then Some (kind, schema) else None
    | _ \<Rightarrow> None)"

definition require_typed_digest :: "string \<Rightarrow> string \<Rightarrow> string \<Rightarrow> string \<Rightarrow> error option" where
  "require_typed_digest value kind schema name =
     require (match_digest value = Some (kind, schema))
       (ValueError (name @ ''.value must be '' @ kind @ '':'' @ schema @ '':sha256:<lowercase-hex>''))"

datatype configuration_key = ConfigurationKey (ck_value: string)
datatype live_state_fingerprint = LiveStateFingerprint (lf_value: string)
datatype calculation_input_digest = CalculationInputDigest (cid_value: string)
datatype content_digest = ContentDigest (cd_value: string)

definition ConfigurationKey_post_init :: "configuration_key \<Rightarrow> error option" where
  "ConfigurationKey_post_init k =
     require_typed_digest (ck_value k) ''configuration-key'' ''v1'' ''ConfigurationKey''"

definition LiveStateFingerprint_post_init :: "live_state_fingerprint \<Rightarrow> error option" where
  "LiveStateFingerprint_post_init k =
     require_typed_digest (lf_value k) ''live-state-fingerprint'' ''v1'' ''LiveStateFingerprint''"

definition CalculationInputDigest_post_init :: "calculation_input_digest \<Rightarrow> error option" where
  "CalculationInputDigest_post_init k =
     require_typed_digest (cid_value k) ''calculation-input'' ''v1'' ''CalculationInputDigest''"

definition ContentDigest_post_init :: "content_digest \<Rightarrow> error option" where
  "ContentDigest_post_init k =
     require_typed_digest (cd_value k) ''content'' ''v1'' ''ContentDigest''"

section \<open>Revisions\<close>

text \<open>The three revision classes share their fields; the kind gives the wire prefix.\<close>

record revision =
  scope_id :: string
  counter :: int

type_synonym workflow_version = revision
type_synonym workspace_revision = revision
type_synonym extraction_revision = revision

datatype revision_kind = ExtractionRevision | WorkspaceRevision | WorkflowVersion

fun wire_kind :: "revision_kind \<Rightarrow> string" where
  "wire_kind ExtractionRevision = ''extraction-revision''"
| "wire_kind WorkspaceRevision = ''workspace-revision''"
| "wire_kind WorkflowVersion = ''workflow-version''"

fun revision_class_name :: "revision_kind \<Rightarrow> string" where
  "revision_class_name ExtractionRevision = ''ExtractionRevision''"
| "revision_class_name WorkspaceRevision = ''WorkspaceRevision''"
| "revision_class_name WorkflowVersion = ''WorkflowVersion''"

definition Revision_post_init :: "revision_kind \<Rightarrow> revision \<Rightarrow> error option" where
  "Revision_post_init k r = first_error
     [require_uuid4 (scope_id r) (revision_class_name k @ ''.scope_id''),
      require (0 \<le> counter r)
        (ValueError (revision_class_name k @ ''.counter must be a nonnegative integer''))]"

definition wire :: "revision_kind \<Rightarrow> revision \<Rightarrow> string" where
  "wire k r = wire_kind k @ ''/v1:'' @ scope_id r @ '':'' @ int_str (counter r)"

definition rsplit_once :: "char \<Rightarrow> string \<Rightarrow> (string \<times> string) option" where
  "rsplit_once c s = (let r = rev s in
     case dropWhile (\<lambda>x. x \<noteq> c) r of
       [] \<Rightarrow> None
     | _ # rest \<Rightarrow> Some (rev rest, rev (takeWhile (\<lambda>x. x \<noteq> c) r)))"

definition from_wire :: "revision_kind \<Rightarrow> string \<Rightarrow> error + revision" where
  "from_wire k w = (let prefix = wire_kind k @ ''/v1:'' in
     if take (length prefix) w \<noteq> prefix
     then Inl (ValueError (''revision wire value must start with '' @ prefix))
     else case rsplit_once (CHR '':'') (drop (length prefix) w) of
            None \<Rightarrow> Inl (ValueError ''revision wire value is malformed'')
          | Some (scope, text) \<Rightarrow>
             (case py_int 10 text of
                None \<Rightarrow> Inl (ValueError ''revision wire value is malformed'')
              | Some c \<Rightarrow> build_record (Revision_post_init k) \<lparr>scope_id = scope, counter = c\<rparr>))"

section \<open>Locators, freshness and quantities\<close>

record locator_evidence_schema =
  les_name :: string
  les_version :: string
  les_gateway_adapter_version :: string

definition LocatorEvidenceSchema_post_init :: "locator_evidence_schema \<Rightarrow> error option" where
  "LocatorEvidenceSchema_post_init s = first_error
     [require_text_max 128 (les_name s) ''LocatorEvidenceSchema.name'',
      require_text_max 64 (les_version s) ''LocatorEvidenceSchema.version'',
      require_text_max 128 (les_gateway_adapter_version s)
        ''LocatorEvidenceSchema.gateway_adapter_version'']"

record powerfactory_locator =
  pl_locator_version_id :: string
  pl_locator_kind :: locator_kind
  pl_project_provenance :: project_provenance
  pl_object_class :: string
  pl_native_field :: "string option"
  pl_native_value :: "string option"
  pl_canonical_path :: "string option"
  pl_evidence_schema :: locator_evidence_schema
  pl_observed_at :: datetime
  pl_session_id :: string
  pl_trust :: locator_trust
  pl_native_evidence_accepted :: bool

definition PowerFactoryLocator_post_init :: "powerfactory_locator \<Rightarrow> error option" where
  "PowerFactoryLocator_post_init l = first_error
     [require_uuid4 (pl_locator_version_id l) ''PowerFactoryLocator.locator_version_id'',
      require_text_max 128 (pl_object_class l) ''PowerFactoryLocator.object_class'',
      require_aware (pl_observed_at l) ''PowerFactoryLocator.observed_at'',
      require_text_max 256 (pl_session_id l) ''PowerFactoryLocator.session_id'',
      require ((pl_native_field l = None) = (pl_native_value l = None))
        (ValueError ''native_field and native_value must both be present or absent''),
      require_optional (\<lambda>x. require_text_max 128 x ''PowerFactoryLocator.native_field'')
        (pl_native_field l),
      require_optional (\<lambda>x. require_text x ''PowerFactoryLocator.native_value'')
        (pl_native_value l),
      require_optional (\<lambda>x. require_text x ''PowerFactoryLocator.canonical_path'')
        (pl_canonical_path l),
      require (\<not> (pl_locator_kind l = NATIVE_CANDIDATE \<and> pl_native_value l = None))
        (ValueError ''native_candidate locators require native evidence''),
      require (\<not> (pl_locator_kind l = CANONICAL_PATH_FALLBACK \<and> pl_canonical_path l = None))
        (ValueError ''canonical_path_fallback locators require a canonical path''),
      require (\<not> (pl_trust l = VERIFIED_NATIVE \<and> \<not> pl_native_evidence_accepted l))
        (ValueError ''verified_native requires explicit accepted Windows evidence'')]"

record versioned_pair =
  vp_name :: string
  vp_version :: string

definition DependencySetIdentity_post_init :: "versioned_pair \<Rightarrow> error option" where
  "DependencySetIdentity_post_init d = first_error
     [require_text_max 128 (vp_name d) ''DependencySetIdentity.name'',
      require_text_max 64 (vp_version d) ''DependencySetIdentity.version'']"

record freshness_evidence =
  fe_level :: freshness_level
  fe_observed_at :: datetime
  fe_session_id :: string
  fe_configuration_key :: configuration_key
  fe_dependency_set :: versioned_pair
  fe_evidence_reference :: string
  fe_policy_name :: string
  fe_policy_version :: string
  fe_operation_active :: bool

definition FreshnessEvidence_post_init :: "freshness_evidence \<Rightarrow> error option" where
  "FreshnessEvidence_post_init f = first_error
     [require_aware (fe_observed_at f) ''FreshnessEvidence.observed_at'',
      require_text_max 256 (fe_session_id f) ''FreshnessEvidence.session_id'',
      require_text (fe_evidence_reference f) ''FreshnessEvidence.evidence_reference'',
      require_text_max 128 (fe_policy_name f) ''FreshnessEvidence.policy_name'',
      require_text_max 64 (fe_policy_version f) ''FreshnessEvidence.policy_version'',
      require (\<not> (fe_level f = LIVE \<and> \<not> fe_operation_active f))
        (ValueError ''LIVE freshness is valid only during an active serialized operation'')]"

text \<open>
  A finite \<open>Decimal\<close> is compared and equated by its number, which is a rational.
  The constructor takes what the caller passed: a \<open>Decimal\<close>, an integer, text
  with the outcome of \<open>Decimal(text)\<close>, or one of the two forbidden types.
\<close>

datatype py_decimal = Finite rat | NonFinite

datatype quantity_input =
  FromBool bool | FromFloat | FromDecimal py_decimal | FromInt int | FromText "py_decimal option"

record quantity =
  q_value :: rat
  q_unit :: string

definition quantity_number :: "quantity_input \<Rightarrow> error + py_decimal" where
  "quantity_number v = (case v of
      FromBool _ \<Rightarrow> Inl (TypeError ''Quantity.value must be Decimal, integer, or canonical decimal string; float is forbidden'')
    | FromFloat \<Rightarrow> Inl (TypeError ''Quantity.value must be Decimal, integer, or canonical decimal string; float is forbidden'')
    | FromDecimal d \<Rightarrow> Inr d
    | FromInt i \<Rightarrow> Inr (Finite (of_int i))
    | FromText None \<Rightarrow> Inl (ValueError ''Quantity.value is not a valid decimal'')
    | FromText (Some d) \<Rightarrow> Inr d)"

definition make_quantity :: "quantity_input \<Rightarrow> string \<Rightarrow> error + quantity" where
  "make_quantity v unit = attempt (quantity_number v) (\<lambda>d.
     case d of
       NonFinite \<Rightarrow> Inl (ValueError ''Quantity.value must be finite'')
     | Finite x \<Rightarrow> checked (require_text_max 64 unit ''Quantity.unit'')
                     (Inr \<lparr>q_value = x, q_unit = unit\<rparr>))"

section \<open>Lemmas\<close>

lemma require_text_max_None_iff:
  "require_text_max m v n = None \<longleftrightarrow> v \<noteq> [] \<and> v = strip_text v \<and> length v \<le> m"
  by (simp add: require_text_max_def)

lemma require_collection_None_iff:
  "require_collection e v n = None \<longleftrightarrow> (e \<or> v \<noteq> []) \<and> length v \<le> MAX_COLLECTION_LENGTH"
  by (simp add: require_collection_def)

lemma require_uuid4_canonical: "require_uuid4 v n = None \<Longrightarrow> canonical_uuid4 v"
  by (simp add: require_uuid4_def)

lemma require_optional_None_iff:
  "require_optional c v = None \<longleftrightarrow> (\<forall>x. v = Some x \<longrightarrow> c x = None)"
  by (simp add: require_optional_def split: option.splits)

lemma Revision_post_init_None_iff:
  "Revision_post_init k r = None
     \<longleftrightarrow> require_uuid4 (scope_id r) (revision_class_name k @ ''.scope_id'') = None \<and> 0 \<le> counter r"
  by (simp add: Revision_post_init_def)

subsection \<open>Decimal text reads back\<close>

lemma of_char_digit: "d < 10 \<Longrightarrow> (of_char (digit_char d) :: nat) = 48 + d"
  by (simp add: digit_char_def)

lemma digit_value_digit_char [simp]: "d < 10 \<Longrightarrow> digit_value (digit_char d) = Some d"
  by (simp add: digit_value_def of_char_digit)

lemma digit_char_not_underscore: "d < 10 \<Longrightarrow> digit_char d \<noteq> CHR ''_''"
proof
  assume d: "d < 10" and "digit_char d = CHR ''_''"
  then have "(of_char (digit_char d) :: nat) = of_char (CHR ''_'')" by simp
  with d show False by (simp add: of_char_digit)
qed

lemma nat_str_nonempty [simp]: "nat_str n \<noteq> []"
  by (subst nat_str.simps) simp

lemma nat_str_digits: "\<forall>c \<in> set (nat_str n). \<exists>d < 10. c = digit_char d"
proof (induction n rule: nat_str.induct)
  case (1 n)
  have "n mod 10 < 10" by simp
  with "1.IH" show ?case
    by (subst nat_str.simps) (auto intro: exI [of _ "n mod 10"])
qed

lemma digits_value_append_digit:
  "d < 10 \<Longrightarrow> (\<forall>c \<in> set s. \<exists>e < 10. c = digit_char e) \<Longrightarrow> s \<noteq> [] \<Longrightarrow>
     digits_value 10 seen acc (s @ [digit_char d])
       = map_option (\<lambda>v. v * 10 + d) (digits_value 10 seen acc s)"
proof (induction s arbitrary: acc seen)
  case Nil
  then show ?case by simp
next
  case (Cons c s)
  then obtain e where "e < 10" "c = digit_char e" by auto
  with Cons show ?case
    by (cases s) (auto simp: digit_char_not_underscore)
qed

lemma digits_value_nat_str: "digits_value 10 False 0 (nat_str n) = Some n"
proof (induction n rule: nat_str.induct)
  case (1 n)
  show ?case
  proof (cases "n < 10")
    case True
    then show ?thesis by (subst nat_str.simps) (simp add: digit_char_not_underscore)
  next
    case False
    with "1.IH" show ?thesis
      by (subst nat_str.simps) (simp add: digits_value_append_digit nat_str_digits)
  qed
qed

lemma digit_char_not_special:
  assumes "d < 10"
  shows "\<not> is_space (digit_char d)" "digit_char d \<noteq> CHR ''-''" "digit_char d \<noteq> CHR ''+''"
    "digit_char d \<noteq> CHR '':''"
proof -
  note v = of_char_digit [OF assms]
  show "\<not> is_space (digit_char d)" using assms by (simp add: is_space_def v)
  have "digit_char d = c \<Longrightarrow> 48 \<le> (of_char c :: nat) \<and> (of_char c :: nat) < 58" for c
    using v assms by auto
  then show "digit_char d \<noteq> CHR ''-''" "digit_char d \<noteq> CHR ''+''" "digit_char d \<noteq> CHR '':''"
    by fastforce+
qed

lemma strip_text_no_space: "(\<forall>c \<in> set s. \<not> is_space c) \<Longrightarrow> strip_text s = s"
  unfolding strip_text_def
  by (metis dropWhile_eq_self_iff hd_in_set rev_is_Nil_conv rev_rev_ident set_rev)

lemma py_int_nat_str: "py_int 10 (nat_str n) = Some (int n)"
proof -
  have digits: "\<forall>c \<in> set (nat_str n). \<exists>d < 10. c = digit_char d" by (rule nat_str_digits)
  then have "strip_text (nat_str n) = nat_str n"
    by (intro strip_text_no_space) (auto dest: digit_char_not_special)
  moreover obtain c cs where "nat_str n = c # cs" by (cases "nat_str n") auto
  moreover from this digits obtain d where "c = digit_char d" "d < 10" by auto
  ultimately show ?thesis
    using digit_char_not_special [of d] digits_value_nat_str [of n]
    by (simp add: py_int_def)
qed

lemma rsplit_once_last: "c \<notin> set t \<Longrightarrow> rsplit_once c (s @ c # t) = Some (s, t)"
proof -
  assume "c \<notin> set t"
  then have "dropWhile (\<lambda>x. x \<noteq> c) (rev t @ c # rev s) = c # rev s"
    and "takeWhile (\<lambda>x. x \<noteq> c) (rev t @ c # rev s) = rev t"
    by (subst dropWhile_append2 takeWhile_append2; auto)+
  then show ?thesis by (simp add: rsplit_once_def Let_def)
qed

lemma from_wire_wire:
  assumes "Revision_post_init k r = None"
  shows "from_wire k (wire k r) = Inr r"
proof -
  from assms have c: "0 \<le> counter r" by (simp add: Revision_post_init_None_iff)
  have "CHR '':'' \<notin> set (nat_str (nat (counter r)))"
    using nat_str_digits [of "nat (counter r)"] digit_char_not_special(4) by metis
  then have "rsplit_once (CHR '':'') (scope_id r @ CHR '':'' # nat_str (nat (counter r)))
      = Some (scope_id r, nat_str (nat (counter r)))"
    by (rule rsplit_once_last)
  with c assms show ?thesis
    by (cases r) (simp add: from_wire_def wire_def int_str_def py_int_nat_str build_record_def Let_def)
qed

subsection \<open>Canonical UUID text is accepted\<close>

lemma replace_text_absent: "hd pat \<notin> set s \<Longrightarrow> pat \<noteq> [] \<Longrightarrow> replace_text pat s = s"
proof (induction s)
  case (Cons c s)
  then have "take (length pat) (c # s) \<noteq> pat" by (cases pat) auto
  with Cons show ?case by simp
qed simp

lemma dropWhile_none: "\<forall>c \<in> set s. \<not> p c \<Longrightarrow> dropWhile p s = s"
  by (cases s) auto

lemma strip_none: "\<forall>c \<in> set s. \<not> p c \<Longrightarrow> rev (dropWhile p (rev (dropWhile p s))) = s"
  by (simp add: dropWhile_none)

lemma lower_hex_not:
  "is_lower_hex c \<Longrightarrow> c \<noteq> CHR ''-'' \<and> c \<noteq> CHR ''u'' \<and> c \<noteq> CHR ''{'' \<and> c \<noteq> CHR ''}''
     \<and> c \<noteq> CHR ''+'' \<and> c \<noteq> CHR ''x'' \<and> c \<noteq> CHR ''X'' \<and> c \<noteq> CHR ''_'' \<and> \<not> is_space c"
  by (auto simp: is_lower_hex_def is_space_def Let_def)

lemma lower_hex_digit: "is_lower_hex c \<Longrightarrow> \<exists>n < 16. digit_value c = Some n"
  by (auto simp: is_lower_hex_def digit_value_def Let_def)

lemma digits_value_hex:
  "\<forall>c \<in> set s. is_lower_hex c \<Longrightarrow> s \<noteq> [] \<or> seen \<Longrightarrow>
     \<exists>n < (acc + 1) * 16 ^ length s. digits_value 16 seen acc s = Some n"
proof (induction s arbitrary: seen acc)
  case (Cons c s)
  from Cons.prems lower_hex_digit obtain m where m: "m < 16" "digit_value c = Some m" by auto
  from Cons.IH [of True "acc * 16 + m"] Cons.prems obtain n
    where n: "n < (acc * 16 + m + 1) * 16 ^ length s" "digits_value 16 True (acc * 16 + m) s = Some n" by auto
  have "(acc * 16 + m + 1) * 16 ^ length s \<le> (acc * 16 + 16) * 16 ^ length s"
    using m by (intro mult_right_mono) auto
  also have "\<dots> = (acc + 1) * 16 ^ length (c # s)" by (simp add: algebra_simps)
  finally show ?case using n m lower_hex_not [of c] Cons.prems by auto
qed simp

lemma py_int_hex:
  assumes "\<forall>c \<in> set s. is_lower_hex c" "length s = 32"
  shows "\<exists>i. py_int 16 s = Some i \<and> 0 \<le> i \<and> i < 2 ^ 128"
proof -
  have t: "strip_text s = s" using assms lower_hex_not unfolding strip_text_def by (blast intro: strip_none)
  have h: "drop_hex_prefix s = s"
    using assms lower_hex_not by (auto simp: drop_hex_prefix_def split: list.splits)
  have "(case s of [] \<Rightarrow> False | c # _ \<Rightarrow> c = CHR ''-'') = False"
    and u: "(case s of [] \<Rightarrow> s | c # r \<Rightarrow> if c = CHR ''-'' \<or> c = CHR ''+'' then r else s) = s"
    using assms lower_hex_not by (auto split: list.splits)
  moreover have "s \<noteq> []" using assms(2) by auto
  moreover from this obtain n where "n < (0 + 1) * 16 ^ length s" "digits_value 16 False 0 s = Some n"
    using digits_value_hex [of s False 0] assms by auto
  ultimately show ?thesis using assms(2) t h by (simp add: py_int_def Let_def)
qed

lemma hyphen_layout:
  assumes "length v = 36"
    and "list_all (\<lambda>(i, c). if i \<in> set [8, 13, 18, 23] then c = CHR ''-'' else is_lower_hex c) (zip [0..<36] v)"
  shows "length (filter (\<lambda>c. c \<noteq> CHR ''-'') v) = 32"
    and "\<forall>c \<in> set v. c = CHR ''-'' \<or> is_lower_hex c"
proof -
  have at: "if i \<in> set [8, 13, 18, 23] then v ! i = CHR ''-'' else is_lower_hex (v ! i)" if "i < 36" for i
    using assms that by (auto simp: list_all_length)
  then show "\<forall>c \<in> set v. c = CHR ''-'' \<or> is_lower_hex c"
    using assms(1) by (metis in_set_conv_nth)
  have "(\<lambda>i. v ! i \<noteq> CHR ''-'') i = (i \<notin> set [8, 13, 18, 23])" if "i < 36" for i
    using at [OF that] lower_hex_not by (auto split: if_splits)
  then have "filter (\<lambda>i. v ! i \<noteq> CHR ''-'') [0..<36] = filter (\<lambda>i. i \<notin> set [8, 13, 18, 23]) [0..<36]"
    by (intro filter_cong) auto
  moreover have "filter (\<lambda>c. c \<noteq> CHR ''-'') v = map ((!) v) (filter (\<lambda>i. v ! i \<noteq> CHR ''-'') [0..<36])"
    using assms(1) by (subst map_nth [of v, symmetric]) (simp add: filter_map o_def)
  ultimately show "length (filter (\<lambda>c. c \<noteq> CHR ''-'') v) = 32" by (simp add: upt_rec)
qed

lemma require_uuid4_iff: "require_uuid4 v n = None \<longleftrightarrow> canonical_uuid4 v"
proof
  assume "canonical_uuid4 v"
  then have len: "length v = 36"
    and l: "list_all (\<lambda>(i, c). if i \<in> set [8, 13, 18, 23] then c = CHR ''-'' else is_lower_hex c) (zip [0..<36] v)"
    by (simp_all add: canonical_uuid4_def)
  note layout = hyphen_layout [OF len l]
  have no: "CHR ''u'' \<notin> set v" "\<forall>c \<in> set v. \<not> (c = CHR ''{'' \<or> c = CHR ''}'')" "\<forall>c \<in> set v. \<not> is_space c"
    using layout(2) lower_hex_not by (force simp: is_space_def)+
  have "strip_braces (replace_text ''uuid:'' (replace_text ''urn:'' v)) = v"
    using no by (simp add: replace_text_absent strip_braces_def dropWhile_none Let_def)
  moreover obtain i where "py_int 16 (filter (\<lambda>c. c \<noteq> CHR ''-'') v) = Some i" "0 \<le> i" "i < 2 ^ 128"
    using py_int_hex [OF _ layout(1)] layout(2) by auto
  ultimately have "uuid_int v \<noteq> None" using layout(1) by (simp add: uuid_int_def Let_def)
  moreover have "strip_text v = v" using no(3) unfolding strip_text_def by (rule strip_none)
  ultimately show "require_uuid4 v n = None"
    using len \<open>canonical_uuid4 v\<close> by (auto simp: require_uuid4_def require_text_max_None_iff)
qed (simp add: require_uuid4_canonical)

text \<open>Faster equations for the evaluation of concrete records.\<close>

lemma is_lower_hex_code [code]:
  "is_lower_hex (Char b0 b1 b2 b3 b4 b5 b6 b7) \<longleftrightarrow> \<not> b7 \<and> b5 \<and>
     (if b6 then \<not> b4 \<and> \<not> b3 \<and> (b0 \<or> b1 \<or> b2) \<and> \<not> (b0 \<and> b1 \<and> b2)
      else b4 \<and> (\<not> b3 \<or> \<not> b2 \<and> \<not> b1))"
  by (cases b0; cases b1; cases b2; cases b3; cases b4; cases b5; cases b6; cases b7)
    (simp_all add: is_lower_hex_def of_char_def)

lemma require_uuid4_code [code]:
  "require_uuid4 v n = (if canonical_uuid4 v then None else first_error
     [require_text_max 36 v n, require (uuid_int v \<noteq> None) (ValueError (n @ '' must be a UUID'')),
      Some (ValueError (n @ '' must be a canonical lowercase UUIDv4''))])"
  using require_uuid4_iff [of v n] by (auto simp: require_uuid4_def require_def)

end
