(* ===== verification/Json.thy ===== *)
theory Json
  imports Values
begin

text \<open>
  The JSON text that every durable row and digest of \<open>serialization.py\<close> consists
  of: the writer \<open>json.dumps(..., ensure_ascii=False, separators=(",", ":"),
  sort_keys=True)\<close> and the reader \<open>json.loads\<close> with a constant parser that
  raises, as the standard library defines them on text of code points below 256.
  An object is the list of its members; the writer orders them by key.
\<close>

datatype json =
    JNull | JBool bool | JInt int | JFloat string | JStr string
  | JArr "json list" | JObj "(string \<times> json) list"

section \<open>The writer\<close>

definition hex_char :: "nat \<Rightarrow> char" where
  "hex_char d = (if d < 10 then char_of (48 + d) else char_of (87 + d))"

definition escape_char :: "char \<Rightarrow> string" where
  "escape_char c = (let n = (of_char c :: nat) in
     if n = 34 then [CHR 0x5C, CHR 0x22]
     else if n = 92 then [CHR 0x5C, CHR 0x5C]
     else if n = 10 then [CHR 0x5C, CHR ''n'']
     else if n = 13 then [CHR 0x5C, CHR ''r'']
     else if n = 9 then [CHR 0x5C, CHR ''t'']
     else if n = 12 then [CHR 0x5C, CHR ''f'']
     else if n = 8 then [CHR 0x5C, CHR ''b'']
     else if n < 32 then [CHR 0x5C, CHR ''u'', CHR ''0'', CHR ''0'', hex_char (n div 16), hex_char (n mod 16)]
     else [c])"

definition quote_text :: "string \<Rightarrow> string" where
  "quote_text s = CHR 0x22 # concat (map escape_char s) @ [CHR 0x22]"

fun join_comma :: "string list \<Rightarrow> string" where
  "join_comma [] = []"
| "join_comma [x] = x"
| "join_comma (x # y # zs) = x @ CHR '','' # join_comma (y # zs)"

definition member_text :: "string \<Rightarrow> string \<Rightarrow> string" where
  "member_text k v = quote_text k @ CHR '':'' # v"

fun json_dumps :: "json \<Rightarrow> string" where
  "json_dumps JNull = ''null''"
| "json_dumps (JBool b) = (if b then ''true'' else ''false'')"
| "json_dumps (JInt i) = int_str i"
| "json_dumps (JFloat t) = t"
| "json_dumps (JStr s) = quote_text s"
| "json_dumps (JArr xs) = CHR ''['' # join_comma (map json_dumps xs) @ '']''"
| "json_dumps (JObj kvs) =
     CHR ''{'' # join_comma (map (\<lambda>(k, v). member_text k (json_dumps v)) (sort_key fst kvs)) @ ''}''"

section \<open>The reader\<close>

definition is_json_space :: "char \<Rightarrow> bool" where
  "is_json_space c \<longleftrightarrow> c = CHR '' '' \<or> c = CHR 0x09 \<or> c = CHR 0x0A \<or> c = CHR 0x0D"

definition skip_space :: "string \<Rightarrow> string" where
  "skip_space = dropWhile is_json_space"

definition simple_escape :: "char \<Rightarrow> char option" where
  "simple_escape e =
     (if e = CHR 0x22 \<or> e = CHR 0x5C \<or> e = CHR ''/'' then Some e
      else if e = CHR ''n'' then Some (CHR 0x0A) else if e = CHR ''r'' then Some (CHR 0x0D)
      else if e = CHR ''t'' then Some (CHR 0x09) else if e = CHR ''f'' then Some (CHR 0x0C)
      else if e = CHR ''b'' then Some (CHR 0x08) else None)"

definition hex_value :: "char \<Rightarrow> nat option" where
  "hex_value c = (case digit_value c of None \<Rightarrow> None | Some d \<Rightarrow> if d < 16 then Some d else None)"

definition unicode_escape :: "string \<Rightarrow> char option" where
  "unicode_escape s = (case map hex_value s of
      [Some a, Some b, Some c, Some d] \<Rightarrow>
        if a = 0 \<and> b = 0 then Some (char_of (16 * c + d)) else None
    | _ \<Rightarrow> None)"

text \<open>The characters of a string literal after its opening quote, and what follows it.\<close>

function scan_string :: "string \<Rightarrow> (string \<times> string) option" where
  "scan_string [] = None"
| "scan_string (c # cs) =
     (if c = CHR 0x22 then Some ([], cs)
      else if c = CHR 0x5C then
        (case cs of [] \<Rightarrow> None
         | e # r \<Rightarrow>
            if e = CHR ''u'' then
              (case unicode_escape (take 4 r) of None \<Rightarrow> None
               | Some d \<Rightarrow> (case scan_string (drop 4 r) of None \<Rightarrow> None | Some (t, r') \<Rightarrow> Some (d # t, r')))
            else
              (case simple_escape e of None \<Rightarrow> None
               | Some d \<Rightarrow> (case scan_string r of None \<Rightarrow> None | Some (t, r') \<Rightarrow> Some (d # t, r'))))
      else if (of_char c :: nat) < 32 then None
      else (case scan_string cs of None \<Rightarrow> None | Some (t, r') \<Rightarrow> Some (c # t, r')))"
  by pat_completeness auto
termination by (relation "measure length") auto

definition is_json_digit :: "char \<Rightarrow> bool" where
  "is_json_digit c \<longleftrightarrow> (let n = (of_char c :: nat) in 48 \<le> n \<and> n \<le> 57)"

definition decimal_value :: "string \<Rightarrow> nat" where
  "decimal_value s = fold (\<lambda>c n. 10 * n + (of_char c - 48)) s 0"

definition starts_with :: "string \<Rightarrow> string \<Rightarrow> bool" where
  "starts_with p s \<longleftrightarrow> take (length p) s = p"

text \<open>The integer part, fraction and exponent that the number pattern matches.\<close>

definition scan_fraction :: "string \<Rightarrow> string" where
  "scan_fraction s = (case s of c # r \<Rightarrow>
      if c = CHR ''.'' \<and> takeWhile is_json_digit r \<noteq> [] then c # takeWhile is_json_digit r else [] | [] \<Rightarrow> [])"

definition scan_exponent :: "string \<Rightarrow> string" where
  "scan_exponent s = (case s of c # r \<Rightarrow>
      if c = CHR ''e'' \<or> c = CHR ''E'' then
        (let g = (case r of x # _ \<Rightarrow> if x = CHR ''+'' \<or> x = CHR ''-'' then [x] else [] | [] \<Rightarrow> []);
             ds = takeWhile is_json_digit (drop (length g) r)
         in if ds \<noteq> [] then c # g @ ds else [])
      else [] | [] \<Rightarrow> [])"

definition scan_number :: "string \<Rightarrow> (json \<times> string) option" where
  "scan_number s =
     (let neg = starts_with ''-'' s;
          u = (if neg then tl s else s);
          ds = (if starts_with ''0'' u then ''0'' else takeWhile is_json_digit u);
          r = drop (length ds) u;
          f = scan_fraction r; e = scan_exponent (drop (length f) r)
      in if ds = [] then None
         else if f = [] \<and> e = [] then Some (JInt (if neg then - int (decimal_value ds) else int (decimal_value ds)), r)
         else Some (JFloat ((if neg then ''-'' else []) @ ds @ f @ e), drop (length e) (drop (length f) r)))"

text \<open>A repeated key keeps its first place and takes the last value, as in a \<open>dict\<close>.\<close>

fun dict_set :: "string \<Rightarrow> 'a \<Rightarrow> (string \<times> 'a) list \<Rightarrow> (string \<times> 'a) list" where
  "dict_set k v [] = [(k, v)]"
| "dict_set k v ((k', v') # m) = (if k' = k then (k, v) # m else (k', v') # dict_set k v m)"

definition dict_of :: "(string \<times> 'a) list \<Rightarrow> (string \<times> 'a) list" where
  "dict_of kvs = foldl (\<lambda>m (k, v). dict_set k v m) [] kvs"

text \<open>
  Values, the elements of an array and the members of an object, with fuel for
  the nesting and the items.  The text itself has enough of it: every call
  consumes a character (\<open>json_loads\<close> below).
\<close>

fun scan_value :: "nat \<Rightarrow> string \<Rightarrow> (json \<times> string) option"
and scan_elements :: "nat \<Rightarrow> string \<Rightarrow> (json list \<times> string) option"
and scan_members :: "nat \<Rightarrow> string \<Rightarrow> ((string \<times> json) list \<times> string) option" where
  "scan_value 0 s = None"
| "scan_value (Suc n) s =
     (if starts_with [CHR 0x22] s then map_option (\<lambda>(t, r). (JStr t, r)) (scan_string (tl s))
      else if starts_with ''{'' s then
        (let r = skip_space (tl s) in
         if starts_with ''}'' r then Some (JObj [], tl r)
         else map_option (\<lambda>(ms, r'). (JObj (dict_of ms), r')) (scan_members n r))
      else if starts_with ''['' s then
        (let r = skip_space (tl s) in
         if starts_with '']'' r then Some (JArr [], tl r)
         else map_option (\<lambda>(xs, r'). (JArr xs, r')) (scan_elements n r))
      else if starts_with ''null'' s then Some (JNull, drop 4 s)
      else if starts_with ''true'' s then Some (JBool True, drop 4 s)
      else if starts_with ''false'' s then Some (JBool False, drop 5 s)
      else scan_number s)"
| "scan_elements 0 s = None"
| "scan_elements (Suc n) s =
     (case scan_value n s of None \<Rightarrow> None
      | Some (x, r) \<Rightarrow>
          (let r1 = skip_space r in
           if starts_with '']'' r1 then Some ([x], tl r1)
           else if starts_with '','' r1
           then map_option (\<lambda>(xs, r2). (x # xs, r2)) (scan_elements n (skip_space (tl r1)))
           else None))"
| "scan_members 0 s = None"
| "scan_members (Suc n) s =
     (if \<not> starts_with [CHR 0x22] s then None
      else case scan_string (tl s) of None \<Rightarrow> None
      | Some (k, r) \<Rightarrow>
          (let r1 = skip_space r in
           if \<not> starts_with '':'' r1 then None
           else case scan_value n (skip_space (tl r1)) of None \<Rightarrow> None
           | Some (v, r2) \<Rightarrow>
               (let r3 = skip_space r2 in
                if starts_with ''}'' r3 then Some ([(k, v)], tl r3)
                else if starts_with '','' r3
                then map_option (\<lambda>(ms, r4). ((k, v) # ms, r4)) (scan_members n (skip_space (tl r3)))
                else None)))"

definition json_loads :: "string \<Rightarrow> json option" where
  "json_loads s = (case scan_value (Suc (length s)) (skip_space s) of
      Some (j, r) \<Rightarrow> if skip_space r = [] then Some j else None
    | None \<Rightarrow> None)"

section \<open>Canonical trees\<close>

text \<open>What a value reads back as: the members of each object in key order.\<close>

fun canonical :: "json \<Rightarrow> json" where
  "canonical (JArr xs) = JArr (map canonical xs)"
| "canonical (JObj kvs) = JObj (dict_of (map (\<lambda>(k, v). (k, canonical v)) (sort_key fst kvs)))"
| "canonical j = j"

text \<open>Trees without floating-point numbers, and those whose objects also have distinct keys.\<close>

fun no_floats :: "json \<Rightarrow> bool" where
  "no_floats (JFloat t) = False"
| "no_floats (JArr xs) = (\<forall>x \<in> set xs. no_floats x)"
| "no_floats (JObj kvs) = (\<forall>m \<in> set kvs. no_floats (snd m))"
| "no_floats j = True"

fun json_ok :: "json \<Rightarrow> bool" where
  "json_ok (JFloat t) = False"
| "json_ok (JArr xs) = (\<forall>x \<in> set xs. json_ok x)"
| "json_ok (JObj kvs) = (distinct (map fst kvs) \<and> (\<forall>m \<in> set kvs. json_ok (snd m)))"
| "json_ok j = True"

section \<open>Reading a string back\<close>

lemma unicode_escape_hex:
  assumes "n < 32"
  shows "unicode_escape [CHR ''0'', CHR ''0'', hex_char (n div 16), hex_char (n mod 16)] = Some (char_of n)"
proof -
  have "list_all (\<lambda>n. unicode_escape [CHR ''0'', CHR ''0'', hex_char (n div 16), hex_char (n mod 16)]
      = Some (char_of n)) [0 ..< 32]" by code_simp
  with assms show ?thesis by (simp add: list_all_iff)
qed

lemma char_eq_iff: "c = d \<longleftrightarrow> (of_char c :: nat) = of_char d"
  by (metis char_of_char)

lemma scan_string_escape:
  "scan_string (escape_char c @ r) = (case scan_string r of None \<Rightarrow> None | Some (t, r') \<Rightarrow> Some (c # t, r'))"
proof -
  let ?n = "of_char c :: nat"
  have special: "?n = 34 \<Longrightarrow> c = CHR 0x22" "?n = 92 \<Longrightarrow> c = CHR 0x5C" "?n = 10 \<Longrightarrow> c = CHR 0x0A"
    "?n = 13 \<Longrightarrow> c = CHR 0x0D" "?n = 9 \<Longrightarrow> c = CHR 0x09" "?n = 12 \<Longrightarrow> c = CHR 0x0C" "?n = 8 \<Longrightarrow> c = CHR 0x08"
    by (simp_all add: char_eq_iff)
  have control: "?n < 32 \<Longrightarrow> unicode_escape [CHR ''0'', CHR ''0'', hex_char (?n div 16), hex_char (?n mod 16)] = Some c"
    using unicode_escape_hex [of ?n] by simp
  have plain: "c \<noteq> CHR 0x22 \<and> c \<noteq> CHR 0x5C" if "?n \<noteq> 34" "?n \<noteq> 92" using that by auto
  consider "?n \<in> {34, 92, 10, 13, 9, 12, 8}" | "?n < 32" "?n \<notin> {34, 92, 10, 13, 9, 12, 8}"
    | "\<not> ?n < 32" "?n \<notin> {34, 92, 10, 13, 9, 12, 8}" by blast
  then show ?thesis
  proof cases
    case 1
    then show ?thesis
      by (auto simp: escape_char_def simple_escape_def dest!: special split: option.splits)
  next
    case 2
    with control show ?thesis by (simp add: escape_char_def Let_def)
  next
    case 3
    with plain show ?thesis by (simp add: escape_char_def)
  qed
qed

lemma scan_string_quoted: "scan_string (concat (map escape_char s) @ CHR 0x22 # r) = Some (s, r)"
  by (induction s) (simp_all add: scan_string_escape)

section \<open>Reading a number back\<close>

lemma is_json_digit_char: "d < 10 \<Longrightarrow> is_json_digit (digit_char d)"
  by (simp add: is_json_digit_def of_char_digit)

lemma nat_str_json_digits: "c \<in> set (nat_str n) \<Longrightarrow> is_json_digit c"
  using nat_str_digits [of n] is_json_digit_char by auto

lemma decimal_value_snoc: "d < 10 \<Longrightarrow> decimal_value (s @ [digit_char d]) = 10 * decimal_value s + d"
  by (simp add: decimal_value_def of_char_digit)

lemma decimal_value_nat_str: "decimal_value (nat_str n) = n"
proof (induction n rule: nat_str.induct)
  case (1 n)
  show ?case
  proof (cases "n < 10")
    case True
    then have "nat_str n = [] @ [digit_char n]" by (subst nat_str.simps) simp
    with True show ?thesis using decimal_value_snoc [of n "[]"] by (simp add: decimal_value_def)
  next
    case False
    then have "nat_str n = nat_str (n div 10) @ [digit_char (n mod 10)]" by (subst nat_str.simps) simp
    with 1 False show ?thesis by (simp add: decimal_value_snoc)
  qed
qed

lemma nat_str_head: "0 < n \<Longrightarrow> \<exists>c cs. nat_str n = c # cs \<and> is_json_digit c \<and> c \<noteq> CHR ''0''"
proof (induction n rule: nat_str.induct)
  case (1 n)
  show ?case
  proof (cases "n < 10")
    case True
    with "1.prems" have "is_json_digit (digit_char n)" "digit_char n \<noteq> CHR ''0''"
      by (simp_all add: is_json_digit_char char_eq_iff of_char_digit)
    with True show ?thesis by (subst nat_str.simps) simp
  next
    case False
    then have "0 < n div 10" by simp
    from "1.IH" [OF False this] False show ?thesis by (subst nat_str.simps) auto
  qed
qed

text \<open>A text after which no number goes on.\<close>

definition stops :: "string \<Rightarrow> bool" where
  "stops r \<longleftrightarrow> r = [] \<or> hd r \<in> {CHR '','', CHR '']'', CHR ''}''}"

lemma stops_simps [simp]:
  "stops []" "stops (CHR '','' # r)" "stops (CHR '']'' # r)" "stops (CHR ''}'' # r)"
  by (simp_all add: stops_def)

lemma stops_scan:
  assumes "stops r"
  shows "scan_fraction r = []" "scan_exponent r = []" "takeWhile is_json_digit r = []"
  using assms by (cases r; auto simp: stops_def scan_fraction_def scan_exponent_def is_json_digit_def)+

lemma takeWhile_nat_str: "stops r \<Longrightarrow> takeWhile is_json_digit (nat_str n @ r) = nat_str n"
  by (subst takeWhile_append2) (simp_all add: nat_str_json_digits stops_scan)

lemma digit_neq: "is_json_digit c \<Longrightarrow> c \<noteq> CHR ''-''"
  by (auto simp: is_json_digit_def)

lemma starts_with_Cons [simp]: "starts_with [c] (d # s) \<longleftrightarrow> d = c"
  by (auto simp: starts_with_def)

lemma starts_with_word:
  "starts_with (a # b # p) (c # s) \<longleftrightarrow> c = a \<and> starts_with (b # p) s"
  "\<not> starts_with (a # p) []"
  "starts_with [] s"
  by (auto simp: starts_with_def)

lemma scan_number_int_str: "stops r \<Longrightarrow> scan_number (int_str i @ r) = Some (JInt i, r)"
proof -
  assume r: "stops r"
  have zero: "nat_str 0 = ''0''" by code_simp
  have digits: "(if starts_with ''0'' (nat_str n @ r) then ''0'' else takeWhile is_json_digit (nat_str n @ r)) = nat_str n" for n
  proof (cases "n = 0")
    case True
    then show ?thesis by (simp add: zero starts_with_def)
  next
    case False
    then obtain c cs where "nat_str n = c # cs" "c \<noteq> CHR ''0''" using nat_str_head [of n] by auto
    then have "\<not> starts_with ''0'' (nat_str n @ r)" by (simp add: starts_with_def)
    then show ?thesis using takeWhile_nat_str [OF r] by simp
  qed
  have pos: "\<not> starts_with ''-'' (nat_str n @ r)" for n
  proof (cases "nat_str n")
    case (Cons c cs)
    then show ?thesis using nat_str_json_digits [of c n] digit_neq by (auto simp: starts_with_def)
  qed (metis nat_str_nonempty)
  have scanned: "(let ds = (if starts_with ''0'' (nat_str n @ r) then ''0'' else takeWhile is_json_digit (nat_str n @ r));
          r' = drop (length ds) (nat_str n @ r);
          f = scan_fraction r'; e = scan_exponent (drop (length f) r')
      in if ds = [] then None
         else if f = [] \<and> e = [] then Some (JInt (if neg then - int (decimal_value ds) else int (decimal_value ds)), r')
         else Some (JFloat ((if neg then ''-'' else []) @ ds @ f @ e), drop (length e) (drop (length f) r')))
     = Some (JInt (if neg then - int n else int n), r)" for n neg
    unfolding digits Let_def by (simp add: stops_scan [OF r] decimal_value_nat_str)
  show ?thesis
  proof (cases "i < 0")
    case True
    then have "scan_number (int_str i @ r) = Some (JInt (- int (nat (- i))), r)"
      using scanned [of "nat (- i)" True] by (simp only: scan_number_def int_str_def if_True append.simps
          starts_with_Cons Let_def list.sel simp_thms)
    with True show ?thesis by simp
  next
    case False
    then have "scan_number (int_str i @ r) = Some (JInt (int (nat i)), r)"
      using scanned [of "nat i" False] pos [of "nat i"] by (simp only: scan_number_def int_str_def if_False Let_def)
    with False show ?thesis by simp
  qed
qed

section \<open>Reading a tree back\<close>

lemma skip_space_stop [simp]: "stops r \<Longrightarrow> skip_space r = r"
  by (cases r) (auto simp: stops_def skip_space_def is_json_space_def)

lemma escape_char_nonempty [simp]: "escape_char c \<noteq> []"
  by (simp add: escape_char_def Let_def)

text \<open>The first character of a value decides nothing but the value itself.\<close>

definition value_head :: "string \<Rightarrow> bool" where
  "value_head s \<longleftrightarrow> s \<noteq> [] \<and> \<not> is_json_space (hd s) \<and> hd s \<notin> {CHR '']'', CHR ''}''}"

lemma value_headI:
  "s = c # cs \<Longrightarrow> (of_char c :: nat) \<notin> {9, 10, 13, 32, 93, 125} \<Longrightarrow> value_head s"
  by (auto simp: value_head_def is_json_space_def)

lemma int_str_first: "\<exists>c cs. int_str i = c # cs \<and> (is_json_digit c \<or> c = CHR ''-'')"
proof -
  have "\<exists>c cs. nat_str n = c # cs \<and> is_json_digit c" for n
    using nat_str_json_digits [of _ n] by (cases "nat_str n") (auto dest: nat_str_nonempty [THEN notE])
  from this [of "nat i"] show ?thesis by (auto simp: int_str_def)
qed

lemma int_str_head: "value_head (int_str i)"
proof -
  obtain c cs where "int_str i = c # cs" "is_json_digit c \<or> c = CHR ''-''" using int_str_first by blast
  then show ?thesis by (auto simp: value_head_def is_json_space_def is_json_digit_def)
qed

lemma json_dumps_head: "no_floats j \<Longrightarrow> value_head (json_dumps j)"
  using int_str_head by (cases j) (simp_all add: quote_text_def value_headI)

lemma skip_space_value: "value_head s \<Longrightarrow> skip_space (s @ r) = s @ r"
  by (cases s) (auto simp: value_head_def skip_space_def)

lemma skip_space_colon: "skip_space (CHR '':'' # s) = CHR '':'' # s"
  by (simp add: skip_space_def is_json_space_def)

lemma sort_key_set_simps [simp]: "sort_key f xs = [] \<longleftrightarrow> xs = []"
  by (metis length_0_conv length_sort)

text \<open>
  A value is read back from its text in any context that ends it, given more fuel
  than it has characters.
\<close>

definition reads_back :: "json \<Rightarrow> bool" where
  "reads_back j \<longleftrightarrow> (\<forall>n r. length (json_dumps j) < n \<longrightarrow> stops r
     \<longrightarrow> scan_value n (json_dumps j @ r) = Some (canonical j, r))"

lemma reads_backD:
  "reads_back j \<Longrightarrow> length (json_dumps j) < n \<Longrightarrow> stops r \<Longrightarrow> scan_value n (json_dumps j @ r) = Some (canonical j, r)"
  by (simp add: reads_back_def)

lemma scan_elements_join:
  assumes "xs \<noteq> []" "\<forall>x \<in> set xs. reads_back x \<and> no_floats x" "length (join_comma (map json_dumps xs)) + 1 < n"
  shows "scan_elements n (join_comma (map json_dumps xs) @ CHR '']'' # r) = Some (map canonical xs, r)"
  using assms
proof (induction xs arbitrary: n rule: induct_list012)
  case (2 x)
  then obtain m where m: "n = Suc m" by (cases n) auto
  with 2 show ?case by (simp add: reads_backD)
next
  case (3 x y zs)
  then obtain m where m: "n = Suc m" by (cases n) auto
  have next_value: "skip_space (join_comma (map json_dumps (y # zs)) @ s) = join_comma (map json_dumps (y # zs)) @ s" for s
    using json_dumps_head [of y] 3(4) skip_space_value [of "json_dumps y"] by (cases zs) simp_all
  have "scan_elements m (join_comma (map json_dumps (y # zs)) @ CHR '']'' # r) = Some (map canonical (y # zs), r)"
    using 3 m by (intro "3.IH"(2)) auto
  with 3 m next_value show ?case by (simp add: reads_backD)
qed simp

definition members_text :: "(string \<times> json) list \<Rightarrow> string" where
  "members_text kvs = join_comma (map (\<lambda>(k, v). member_text k (json_dumps v)) kvs)"

lemma members_text_simps [simp]:
  "members_text [] = []"
  "members_text [(k, v)] = quote_text k @ CHR '':'' # json_dumps v"
  "members_text ((k, v) # m # ms) = quote_text k @ CHR '':'' # json_dumps v @ CHR '','' # members_text (m # ms)"
  by (simp_all add: members_text_def member_text_def)

lemma members_text_head: "kvs \<noteq> [] \<Longrightarrow> value_head (members_text kvs) \<and> hd (members_text kvs) = CHR 0x22"
  by (cases kvs rule: remdups_adj.cases) (auto simp: quote_text_def value_head_def is_json_space_def)

lemma scan_members_join:
  assumes "kvs \<noteq> []" "\<forall>m \<in> set kvs. reads_back (snd m) \<and> no_floats (snd m)" "length (members_text kvs) + 1 < n"
  shows "scan_members n (members_text kvs @ CHR ''}'' # r) = Some (map (\<lambda>(k, v). (k, canonical v)) kvs, r)"
  using assms
proof (induction kvs arbitrary: n rule: induct_list012)
  case (2 m)
  obtain k v where kv: "m = (k, v)" by (cases m)
  from 2 obtain i where i: "n = Suc i" by (cases n) auto
  from 2 kv have "value_head (json_dumps v)" by (simp add: json_dumps_head)
  with 2 kv i show ?case
    by (simp add: quote_text_def scan_string_quoted skip_space_colon skip_space_value reads_backD)
next
  case (3 m m' ms)
  obtain k v where kv: "m = (k, v)" by (cases m)
  from 3 obtain i where i: "n = Suc i" by (cases n) auto
  from 3 kv have v: "value_head (json_dumps v)" by (simp add: json_dumps_head)
  have next_member: "skip_space (members_text (m' # ms) @ s) = members_text (m' # ms) @ s" for s
    using members_text_head [of "m' # ms"] by (simp add: skip_space_value)
  have "scan_members i (members_text (m' # ms) @ CHR ''}'' # r)
      = Some (map (\<lambda>(k, v). (k, canonical v)) (m' # ms), r)"
    using 3 i kv by (intro "3.IH"(2)) (auto simp: quote_text_def)
  with 3 kv i v next_member show ?case
    by (simp add: quote_text_def scan_string_quoted skip_space_colon skip_space_value reads_backD)
qed simp

lemma dict_set_fresh: "k \<notin> fst ` set m \<Longrightarrow> dict_set k v m = m @ [(k, v)]"
  by (induction m) auto

lemma dict_of_distinct: "distinct (map fst kvs) \<Longrightarrow> dict_of kvs = kvs"
proof -
  have "foldl (\<lambda>m (k, v). dict_set k v m) acc kvs = acc @ kvs" if "distinct (map fst (acc @ kvs))" for acc
    using that by (induction kvs arbitrary: acc) (auto simp: dict_set_fresh)
  from this [of "[]"] show "distinct (map fst kvs) \<Longrightarrow> dict_of kvs = kvs" by (simp add: dict_of_def)
qed

lemma distinct_sort_key: "distinct (map fst (sort_key f kvs)) = distinct (map fst kvs)"
  by (simp add: distinct_map)

lemma reads_back_array:
  assumes "\<forall>x \<in> set xs. reads_back x \<and> no_floats x"
  shows "reads_back (JArr xs)"
  unfolding reads_back_def
proof (intro allI impI)
  fix n r assume n: "length (json_dumps (JArr xs)) < n" and "stops r"
  then obtain m where m: "n = Suc m" by (cases n) auto
  show "scan_value n (json_dumps (JArr xs) @ r) = Some (canonical (JArr xs), r)"
  proof (cases xs)
    case Nil
    with m show ?thesis by simp
  next
    case (Cons x ys)
    have head: "value_head (join_comma (map json_dumps xs))"
      using json_dumps_head [of x] assms Cons by (cases ys) (auto simp: value_head_def)
    then have "\<not> starts_with '']'' (join_comma (map json_dumps xs) @ s)" for s
      by (cases "join_comma (map json_dumps xs)") (auto simp: value_head_def)
    with head m n Cons assms show ?thesis
      using scan_elements_join [of xs m r] by (simp add: skip_space_value)
  qed
qed

lemma reads_back_object:
  assumes "\<forall>m \<in> set kvs. reads_back (snd m) \<and> no_floats (snd m)"
  shows "reads_back (JObj kvs)"
  unfolding reads_back_def
proof (intro allI impI)
  let ?ms = "sort_key fst kvs"
  fix n r assume n: "length (json_dumps (JObj kvs)) < n" and "stops r"
  then obtain m where m: "n = Suc m" by (cases n) auto
  have shape: "json_dumps (JObj kvs) = CHR ''{'' # members_text ?ms @ ''}''" by (simp add: members_text_def)
  show "scan_value n (json_dumps (JObj kvs) @ r) = Some (canonical (JObj kvs), r)"
  proof (cases "kvs = []")
    case True
    with m show ?thesis by (simp add: dict_of_def)
  next
    case False
    then have ms: "?ms \<noteq> []" by simp
    note head = members_text_head [OF ms]
    then have "\<not> starts_with ''}'' (members_text ?ms @ s)" for s
      by (cases "members_text ?ms") (auto simp: value_head_def)
    moreover have "scan_members m (members_text ?ms @ CHR ''}'' # r)
        = Some (map (\<lambda>(k, v). (k, canonical v)) ?ms, r)"
      using ms assms m n shape by (intro scan_members_join) auto
    ultimately show ?thesis using m head shape by (simp add: skip_space_value)
  qed
qed

lemma json_reads_back: "no_floats j \<Longrightarrow> reads_back j"
proof (induction j rule: json_dumps.induct)
  case (3 i)
  obtain c cs where c: "int_str i = c # cs" "is_json_digit c \<or> c = CHR ''-''"
    using int_str_first by blast
  then have "c \<noteq> CHR 0x22 \<and> c \<noteq> CHR ''{'' \<and> c \<noteq> CHR ''['' \<and> c \<noteq> CHR ''n'' \<and> c \<noteq> CHR ''t'' \<and> c \<noteq> CHR ''f''"
    by (auto simp: is_json_digit_def)
  with c have "scan_value (Suc m) (int_str i @ r) = scan_number (int_str i @ r)" for m r
    by (simp add: starts_with_word)
  then show ?case
    by (auto simp: reads_back_def scan_number_int_str dest!: less_imp_Suc_add simp del: scan_value.simps)
next
  case (5 s)
  show ?case unfolding reads_back_def
  proof (intro allI impI)
    fix n r assume "length (json_dumps (JStr s)) < n"
    then obtain m where "n = Suc m" by (cases n) auto
    then show "scan_value n (json_dumps (JStr s) @ r) = Some (canonical (JStr s), r)"
      using scan_string_quoted [of s r] by (simp add: quote_text_def)
  qed
next
  case (6 xs)
  then show ?case by (intro reads_back_array) simp
next
  case (7 kvs)
  then show ?case by (intro reads_back_object) (auto simp del: json_dumps.simps)
qed (auto simp: reads_back_def starts_with_word gr0_conv_Suc dest!: less_imp_Suc_add)

lemma json_loads_text:
  assumes "no_floats j"
  shows "json_loads (json_dumps j) = Some (canonical j)"
proof -
  have "scan_value (Suc (length (json_dumps j))) (json_dumps j @ []) = Some (canonical j, [])"
    using json_reads_back [OF assms] by (rule reads_backD) simp_all
  moreover have "skip_space (json_dumps j @ []) = json_dumps j @ []"
    using json_dumps_head [OF assms] by (rule skip_space_value)
  ultimately show ?thesis by (simp add: json_loads_def skip_space_def)
qed

text \<open>Reading and writing again gives the same text: the text of a tree is canonical.\<close>

lemma sort_key_idem:
  "sort_key fst (map (\<lambda>m. (fst m, f (snd m))) (sort_key fst kvs)) = map (\<lambda>m. (fst m, f (snd m))) (sort_key fst kvs)"
  by (rule sort_key_id_if_sorted) (simp add: comp_def)

lemma canonical_object:
  "distinct (map fst kvs) \<Longrightarrow> canonical (JObj kvs) = JObj (map (\<lambda>(k, v). (k, canonical v)) (sort_key fst kvs))"
  using distinct_sort_key [of fst kvs]
  by (simp add: dict_of_distinct case_prod_unfold comp_def)

lemma json_ok_no_floats: "json_ok j \<Longrightarrow> no_floats j"
  by (induction j rule: json_ok.induct) auto

lemma json_dumps_canonical: "json_ok j \<Longrightarrow> json_dumps (canonical j) = json_dumps j"
proof (induction j rule: json_dumps.induct)
  case (6 xs)
  then show ?case by (simp cong: map_cong)
next
  case (7 kvs)
  then have dist: "distinct (map fst kvs)" by simp
  have members: "map (\<lambda>m. member_text (fst m) (json_dumps (canonical (snd m)))) (sort_key fst kvs)
     = map (\<lambda>m. member_text (fst m) (json_dumps (snd m))) (sort_key fst kvs)"
    using 7 by (auto intro!: map_cong)
  show ?case
    by (simp only: canonical_object [OF dist] json_dumps.simps sort_key_idem map_map comp_def case_prod_unfold
        fst_conv snd_conv members)
qed simp_all

lemma json_ok_canonical [simp]: "json_ok j \<Longrightarrow> json_ok (canonical j)"
proof (induction j rule: json_dumps.induct)
  case (7 kvs)
  then show ?case using distinct_sort_key [of fst kvs]
    by (auto simp: canonical_object case_prod_unfold comp_def simp del: canonical.simps(2))
qed auto

end
