(* ===== verification/Json_Scanning.thy ===== *)
theory Json_Scanning
  imports Json
begin

text \<open>
  The fuel of the JSON reader is no bound: whatever the scanner finds with some fuel it
  finds with fuel for the characters it consumes, and \<open>json_loads\<close> supplies one more than
  the text has.
\<close>

lemma skip_space_length: "length (skip_space s) \<le> length s"
  by (simp add: skip_space_def length_dropWhile_le)

lemma starts_with_length: "starts_with p s \<Longrightarrow> length p \<le> length s"
  unfolding starts_with_def by (metis length_take min.cobounded1)

lemma scan_string_length: "scan_string s = Some (t, r) \<Longrightarrow> length r < length s"
  by (induction s arbitrary: t r rule: scan_string.induct)
    (fastforce split: if_splits list.splits option.splits prod.splits)+

lemma scan_number_length: "scan_number s = Some (j, r) \<Longrightarrow> length r < length s"
  by (cases s) (auto simp: scan_number_def Let_def dest!: starts_with_length split: if_splits)

lemma rest_length:
  "starts_with [c] s \<Longrightarrow> length (skip_space (tl s)) < length s"
  "starts_with [c] s \<Longrightarrow> length (tl s) < length s"
  using skip_space_length [of "tl s"] by (cases s; simp add: starts_with_def)+

text \<open>What a call with fuel \<open>m\<close> yields when it has fuel for what it consumes.\<close>

definition scans :: "(nat \<Rightarrow> string \<Rightarrow> ('a \<times> string) option) \<Rightarrow> string \<Rightarrow> 'a \<Rightarrow> string \<Rightarrow> bool" where
  "scans f s x r \<longleftrightarrow> length r < length s \<and> (\<forall>m. length s \<le> length r + m \<longrightarrow> f m s = Some (x, r))"

lemma scans_Suc: "length r < length s \<Longrightarrow> (\<And>m. length s \<le> length r + Suc m \<Longrightarrow> f (Suc m) s = Some (x, r)) \<Longrightarrow> scans f s x r"
  unfolding scans_def by (metis add_0_right not_less not0_implies_Suc)

lemma scansD: "scans f s x r \<Longrightarrow> length r < length s" "scans f s x r \<Longrightarrow> length s \<le> length r + m \<Longrightarrow> f m s = Some (x, r)"
  by (simp_all add: scans_def)

lemma scan_consumes:
  shows "scan_value n s = Some (j, r) \<Longrightarrow> scans scan_value s j r"
    and "scan_elements n s = Some (xs, r) \<Longrightarrow> scans scan_elements s xs r"
    and "scan_members n s = Some (ms, r) \<Longrightarrow> scans scan_members s ms r"
proof (induction n s and n s and n s arbitrary: j r and xs r and ms r rule: scan_value_scan_elements_scan_members.induct)
  case (2 n s)
  consider (string) "starts_with [CHR 0x22] s" | (object) "\<not> starts_with [CHR 0x22] s" "starts_with ''{'' s"
    | (array) "\<not> starts_with [CHR 0x22] s" "\<not> starts_with ''{'' s" "starts_with ''['' s"
    | (scalar) "\<not> starts_with [CHR 0x22] s" "\<not> starts_with ''{'' s" "\<not> starts_with ''['' s" by blast
  then show ?case
  proof cases
    case string
    with 2(3) rest_length(2) [OF string] show ?thesis
      by (intro scans_Suc) (fastforce dest: scan_string_length)+
  next
    case object
    show ?thesis
    proof (cases "starts_with ''}'' (skip_space (tl s))")
      case True
      with object 2(3) rest_length(1) [OF object(2)] show ?thesis by (intro scans_Suc) auto
    next
      case False
      with object 2(3) obtain ms where ms: "scan_members n (skip_space (tl s)) = Some (ms, r)" "j = JObj (dict_of ms)"
        by (auto simp: Let_def)
      note IH = 2(1) [OF object refl False ms(1)]
      show ?thesis
        using object False ms(2) scansD [OF IH] rest_length(1) [OF object(2)] by (intro scans_Suc) (auto simp: Let_def)
    qed
  next
    case array
    show ?thesis
    proof (cases "starts_with '']'' (skip_space (tl s))")
      case True
      with array 2(3) rest_length(1) [OF array(3)] show ?thesis by (intro scans_Suc) auto
    next
      case False
      with array 2(3) obtain xs where xs: "scan_elements n (skip_space (tl s)) = Some (xs, r)" "j = JArr xs"
        by (auto simp: Let_def)
      note IH = 2(2) [OF array refl False xs(1)]
      show ?thesis
        using array False xs(2) scansD [OF IH] rest_length(1) [OF array(3)] by (intro scans_Suc) (auto simp: Let_def)
    qed
  next
    case scalar
    then have "length r < length s" using 2(3)
      by (auto dest: scan_number_length starts_with_length split: if_splits)
    with scalar 2(3) show ?thesis by (intro scans_Suc) simp_all
  qed
next
  case (4 n s)
  obtain x r0 where x: "scan_value n s = Some (x, r0)" using 4(3) by (auto split: option.splits)
  note v = 4(1) [OF x]
  let ?r1 = "skip_space r0"
  have r1: "length ?r1 \<le> length r0" by (rule skip_space_length)
  show ?case
  proof (cases "starts_with '']'' ?r1")
    case True
    with 4(3) x have "xs = [x]" "r = tl ?r1" by simp_all
    then show ?thesis using True scansD [OF v] r1 rest_length(2) [OF True] by (intro scans_Suc) auto
  next
    case False
    with 4(3) x obtain ys where c: "starts_with '','' ?r1" "scan_elements n (skip_space (tl ?r1)) = Some (ys, r)" "xs = x # ys"
      by (auto simp: Let_def split: if_splits)
    note e = 4(2) [OF x refl refl False c(1,2)]
    show ?thesis
      using False c(1,3) scansD [OF v] scansD [OF e] r1 rest_length(1) [OF c(1)] by (intro scans_Suc) auto
  qed
next
  case (6 n s)
  obtain k r0 where k: "starts_with [CHR 0x22] s" "scan_string (tl s) = Some (k, r0)"
    using 6(3) by (auto split: option.splits if_splits)
  let ?r1 = "skip_space r0"
  have r1: "length ?r1 \<le> length r0" "length r0 < length (tl s)" "length (tl s) < length s"
    using skip_space_length scan_string_length [OF k(2)] rest_length(2) [OF k(1)] by simp_all
  obtain x r2 where x: "starts_with '':'' ?r1" "scan_value n (skip_space (tl ?r1)) = Some (x, r2)"
    using 6(3) k by (auto simp: Let_def split: option.splits if_splits)
  have v: "scans scan_value (skip_space (tl ?r1)) x r2"
    by (rule 6(1) [OF _ k(2) refl refl _ x(2)]) (use k(1) x(1) in simp_all)
  let ?r3 = "skip_space r2"
  have r3: "length ?r3 \<le> length r2" by (rule skip_space_length)
  show ?case
  proof (cases "starts_with ''}'' ?r3")
    case True
    with 6(3) k x have "ms = [(k, x)]" "r = tl ?r3" by simp_all
    then show ?thesis using True k x(1) scansD [OF v] r1 r3 rest_length(1) [OF x(1)] rest_length(2) [OF True]
      by (intro scans_Suc) auto
  next
    case False
    with 6(3) k x obtain ys where c: "starts_with '','' ?r3" "scan_members n (skip_space (tl ?r3)) = Some (ys, r)" "ms = (k, x) # ys"
      by (auto simp: Let_def split: if_splits)
    have e: "scans scan_members (skip_space (tl ?r3)) ys r"
      by (rule 6(2) [OF _ k(2) refl refl _ x(2) refl refl False c(1,2)]) (use k(1) x(1) in simp_all)
    show ?thesis
      using False k x(1) c(1,3) scansD [OF v] scansD [OF e] r1 r3 rest_length(1) [OF x(1)] rest_length(1) [OF c(1)]
      by (intro scans_Suc) auto
  qed
qed simp_all

theorem json_loads_needs_no_fuel:
  "json_loads s = Some j \<longleftrightarrow> (\<exists>n r. scan_value n (skip_space s) = Some (j, r) \<and> skip_space r = [])"
proof
  assume "\<exists>n r. scan_value n (skip_space s) = Some (j, r) \<and> skip_space r = []"
  then obtain n r where r: "scan_value n (skip_space s) = Some (j, r)" "skip_space r = []" by blast
  have "scan_value (Suc (length s)) (skip_space s) = Some (j, r)"
    using scansD(2) [OF scan_consumes(1) [OF r(1)]] skip_space_length [of s] by (simp del: scan_value.simps)
  with r(2) show "json_loads s = Some j" by (simp add: json_loads_def del: scan_value.simps)
qed (auto simp: json_loads_def simp del: scan_value.simps intro: exI [of _ "Suc (length s)"] split: option.splits if_splits)

end
