(* ===== verification/Models.thy ===== *)
theory Models
  imports Values
begin

text \<open>
  The records of \<open>domain/models.py\<close> that the stores and services of this
  development exchange: versioned names, asset references, the model context
  with its freshness evidence, approval requests and execution authorizations,
  and the attribute selector of \<open>domain/gateway.py\<close>.
\<close>

section \<open>Names, assets and the model context\<close>

type_synonym versioned_name = versioned_pair

definition VersionedName_post_init :: "versioned_name \<Rightarrow> error option" where
  "VersionedName_post_init v = first_error
     [require_text_max 128 (vp_name v) ''VersionedName.name'',
      require_text_max 128 (vp_version v) ''VersionedName.version'']"

record dependency_fingerprint =
  df_dependency_set :: versioned_pair
  df_fingerprint :: live_state_fingerprint
  df_completeness :: completeness_state
  df_observed_at :: datetime
  df_session_id :: string
  df_evidence_reference :: string
  df_policy :: versioned_name

definition DependencyFingerprint_post_init :: "dependency_fingerprint \<Rightarrow> error option" where
  "DependencyFingerprint_post_init d = first_error
     [require_aware (df_observed_at d) ''DependencyFingerprint.observed_at'',
      require_text_max 256 (df_session_id d) ''DependencyFingerprint.session_id'',
      require_text (df_evidence_reference d) ''DependencyFingerprint.evidence_reference'']"

record asset_reference =
  ar_product_identity :: product_identity
  ar_locator :: powerfactory_locator
  ar_display_name :: string
  ar_asset_kind :: asset_kind
  ar_project_key :: string
  ar_lifecycle_state :: identity_lifecycle_state

definition AssetReference_post_init :: "asset_reference \<Rightarrow> error option" where
  "AssetReference_post_init a = first_error
     [require_text (ar_display_name a) ''AssetReference.display_name'',
      require_text (ar_project_key a) ''AssetReference.project_key'',
      require (ar_project_key a = pp_project_key (pl_project_provenance (ar_locator a)))
        (ValueError ''AssetReference project_key must match its locator'')]"

record model_context =
  mc_model_context_id :: string
  mc_configuration_key :: configuration_key
  mc_powerfactory_version :: string
  mc_assets :: "asset_reference list"
  mc_extraction_revision :: extraction_revision
  mc_extracted_at :: datetime
  mc_freshness :: freshness_evidence
  mc_dependency_fingerprints :: "dependency_fingerprint list"

text \<open>The loop over the dependency evidence of a context that claims to be fresh.\<close>

definition dependency_checks :: "freshness_evidence \<Rightarrow> dependency_fingerprint \<Rightarrow> error option list" where
  "dependency_checks f d =
     [require (df_completeness d \<noteq> UNSUPPORTED)
        (ValueError ''unsupported dependency evidence cannot claim VERIFIED/LIVE freshness''),
      require (df_session_id d = fe_session_id f)
        (ValueError ''freshness and dependency evidence must use the same session''),
      require (df_dependency_set d = fe_dependency_set f)
        (ValueError ''freshness and dependency evidence must bind the same dependency set'')]"

definition ModelContext_post_init :: "model_context \<Rightarrow> error option" where
  "ModelContext_post_init c = first_error
     ([require_uuid4 (mc_model_context_id c) ''ModelContext.model_context_id'',
       require (scope_id (mc_extraction_revision c) = mc_model_context_id c)
         (ValueError ''extraction_revision scope must equal model_context_id''),
       require (fe_configuration_key (mc_freshness c) = mc_configuration_key c)
         (ValueError ''freshness evidence must bind the context configuration_key'')]
      @ (if fe_level (mc_freshness c) \<in> {VERIFIED, LIVE}
         then require (mc_dependency_fingerprints c \<noteq> [])
                (ValueError ''VERIFIED/LIVE context requires dependency fingerprint evidence'')
              # concat (map (dependency_checks (mc_freshness c)) (mc_dependency_fingerprints c))
         else [])
      @ [require_text_max 128 (mc_powerfactory_version c) ''ModelContext.powerfactory_version'',
         require_collection True (mc_assets c) ''ModelContext.assets'',
         require_collection True (mc_dependency_fingerprints c) ''ModelContext.dependency_fingerprints'',
         require_aware (mc_extracted_at c) ''ModelContext.extracted_at''])"

lemma dependency_checks_None_iff [simp]:
  "list_all (\<lambda>c. c = None) (dependency_checks f d) \<longleftrightarrow>
     df_completeness d \<noteq> UNSUPPORTED \<and> df_session_id d = fe_session_id f
     \<and> df_dependency_set d = fe_dependency_set f"
  by (simp add: dependency_checks_def)

lemma fresh_context_evidence:
  assumes "ModelContext_post_init c = None" "fe_level (mc_freshness c) \<in> {VERIFIED, LIVE}"
  shows "mc_dependency_fingerprints c \<noteq> []"
    and "d \<in> set (mc_dependency_fingerprints c) \<Longrightarrow>
          df_completeness d \<noteq> UNSUPPORTED
          \<and> df_session_id d = fe_session_id (mc_freshness c)
          \<and> df_dependency_set d = fe_dependency_set (mc_freshness c)"
  using assms by (simp_all add: ModelContext_post_init_def)

section \<open>Approval requests and execution authorizations\<close>

record approval_request =
  apr_approval_request_id :: string
  apr_preview_id :: string
  apr_proposal_digest :: content_digest
  apr_requested_at :: datetime
  apr_expires_at :: datetime
  apr_agent_identity :: string
  apr_client_identity :: string

definition ApprovalRequest_post_init :: "approval_request \<Rightarrow> error option" where
  "ApprovalRequest_post_init r = first_error
     [require_text_max 256 (apr_approval_request_id r) ''ApprovalRequest.approval_request_id'',
      require_text_max 256 (apr_preview_id r) ''ApprovalRequest.preview_id'',
      require_text_max 256 (apr_agent_identity r) ''ApprovalRequest.agent_identity'',
      require_text_max 256 (apr_client_identity r) ''ApprovalRequest.client_identity'',
      require_aware (apr_requested_at r) ''ApprovalRequest.requested_at'',
      require_aware (apr_expires_at r) ''ApprovalRequest.expires_at'',
      require (apr_requested_at r < apr_expires_at r)
        (ValueError ''ApprovalRequest expires_at must follow requested_at'')]"

record execution_authorization =
  ea_execution_id :: string
  ea_workflow_id :: string
  ea_approval_request_id :: string
  ea_authenticated_principal :: string
  ea_proposal_digest :: content_digest
  ea_configuration_key :: configuration_key
  ea_live_state_fingerprint :: live_state_fingerprint
  ea_operation_type :: operation_type
  ea_mutation_strategy :: mutation_strategy
  ea_expected_workflow_version :: workflow_version
  ea_issued_at :: datetime
  ea_expires_at :: datetime
  ea_agent_identity :: string
  ea_client_identity :: string

definition ExecutionAuthorization_post_init :: "execution_authorization \<Rightarrow> error option" where
  "ExecutionAuthorization_post_init a = first_error
     [require_text_max 256 (ea_execution_id a) ''ExecutionAuthorization.execution_id'',
      require_text_max 256 (ea_approval_request_id a) ''ExecutionAuthorization.approval_request_id'',
      require_text_max 256 (ea_authenticated_principal a) ''ExecutionAuthorization.authenticated_principal'',
      require_text_max 256 (ea_agent_identity a) ''ExecutionAuthorization.agent_identity'',
      require_text_max 256 (ea_client_identity a) ''ExecutionAuthorization.client_identity'',
      require_aware (ea_issued_at a) ''ExecutionAuthorization.issued_at'',
      require_aware (ea_expires_at a) ''ExecutionAuthorization.expires_at'',
      require (ea_issued_at a < ea_expires_at a)
        (ValueError ''ExecutionAuthorization expires_at must follow issued_at''),
      require_uuid4 (ea_workflow_id a) ''ExecutionAuthorization.workflow_id'',
      require (scope_id (ea_expected_workflow_version a) = ea_workflow_id a)
        (ValueError ''workflow version scope must equal workflow_id'')]"

section \<open>Attribute selectors\<close>

datatype attribute_kind = DISPLAY_NAME | NOMINAL_VOLTAGE | ACTIVE_POWER | REACTIVE_POWER

record attribute_selector =
  as_kind :: attribute_kind
  as_contract :: versioned_name

end
