(* ===== verification/Workflow_Domain.thy ===== *)
theory Workflow_Domain
  imports Models
begin

text \<open>
  \<open>domain/workflow.py\<close>: workflow states, the current workflow record, the
  idempotent command record and the append-only audit event.
\<close>

datatype workflow_state =
    NEW | PREVIEWING | AWAITING_AUTHORIZATION | EXECUTION_ADMISSION | EXECUTING
  | CALCULATING | VERIFYING | COMPLETED | FAILED_BEFORE_EFFECT | RECONCILIATION_REQUIRED
  | QUARANTINED | ROLLBACK_PREVIEWING | AWAITING_ROLLBACK_AUTHORIZATION | ROLLBACK_ADMISSION
  | ROLLING_BACK | ROLLBACK_VERIFYING | ROLLED_BACK | ABANDONED

fun workflow_state_value :: "workflow_state \<Rightarrow> string" where
  "workflow_state_value NEW = ''new''"
| "workflow_state_value PREVIEWING = ''previewing''"
| "workflow_state_value AWAITING_AUTHORIZATION = ''awaiting_authorization''"
| "workflow_state_value EXECUTION_ADMISSION = ''execution_admission''"
| "workflow_state_value EXECUTING = ''executing''"
| "workflow_state_value CALCULATING = ''calculating''"
| "workflow_state_value VERIFYING = ''verifying''"
| "workflow_state_value COMPLETED = ''completed''"
| "workflow_state_value FAILED_BEFORE_EFFECT = ''failed_before_effect''"
| "workflow_state_value RECONCILIATION_REQUIRED = ''reconciliation_required''"
| "workflow_state_value QUARANTINED = ''quarantined''"
| "workflow_state_value ROLLBACK_PREVIEWING = ''rollback_previewing''"
| "workflow_state_value AWAITING_ROLLBACK_AUTHORIZATION = ''awaiting_rollback_authorization''"
| "workflow_state_value ROLLBACK_ADMISSION = ''rollback_admission''"
| "workflow_state_value ROLLING_BACK = ''rolling_back''"
| "workflow_state_value ROLLBACK_VERIFYING = ''rollback_verifying''"
| "workflow_state_value ROLLED_BACK = ''rolled_back''"
| "workflow_state_value ABANDONED = ''abandoned''"

datatype workflow_command_status =
    COMMAND_REQUESTED | COMMAND_IN_PROGRESS | COMMAND_COMPLETED | COMMAND_REJECTED
  | COMMAND_VERSION_CONFLICT | COMMAND_IDEMPOTENCY_CONFLICT | COMMAND_RECONCILIATION_REQUIRED
  | COMMAND_QUARANTINED

datatype audit_event_type =
    AUDIT_REQUESTED | PREVIEW_STARTED | PREVIEW_PERSISTED | LEASE_RELEASED
  | AUTHORIZATION_REQUESTED | AUTHORIZATION_OBSERVED | ADMISSION_REVALIDATED | INTENT_COMMITTED
  | SUBMITTED | OWNER_RETURNED | AUDIT_CLIENT_TIMED_OUT | LIVE_OBSERVED | AUDIT_VERIFIED
  | RECOVERY_STARTED | CLASSIFIED | AUDIT_QUARANTINED | MANUAL_DISPOSITION | RECONCILED

datatype audit_actor_class =
    REQUESTER | WORKFLOW_SERVICE | APPROVAL_AUTHORITY | LEASE_MANAGER | SERIALIZED_OWNER
  | RECOVERY_SERVICE | OPERATOR

record workflow_record =
  wr_workflow_id :: string
  wr_state :: workflow_state
  wr_workflow_version :: workflow_version
  wr_operation_specification :: versioned_name
  wr_configuration_key :: configuration_key
  wr_proposal_digest :: content_digest
  wr_created_at :: datetime
  wr_updated_at :: datetime
  wr_latest_command_id :: "string option"
  wr_latest_operation_id :: "string option"
  wr_recovery_reference :: "string option"

definition WorkflowRecord_post_init :: "workflow_record \<Rightarrow> error option" where
  "WorkflowRecord_post_init w = first_error
     [require_uuid4 (wr_workflow_id w) ''WorkflowRecord.workflow_id'',
      require (scope_id (wr_workflow_version w) = wr_workflow_id w)
        (ValueError ''workflow_version scope must equal workflow_id''),
      require_aware (wr_created_at w) ''WorkflowRecord.created_at'',
      require_aware (wr_updated_at w) ''WorkflowRecord.updated_at'',
      require (wr_created_at w \<le> wr_updated_at w)
        (ValueError ''updated_at cannot precede created_at''),
      require_optional (\<lambda>x. require_uuid4 x ''WorkflowRecord.latest_command_id'')
        (wr_latest_command_id w),
      require_optional (\<lambda>x. require_uuid4 x ''WorkflowRecord.latest_operation_id'')
        (wr_latest_operation_id w),
      require_optional (\<lambda>x. require_text_max 1024 x ''WorkflowRecord.recovery_reference'')
        (wr_recovery_reference w)]"

record idempotent_command_record =
  ic_command_id :: string
  ic_workflow_id :: string
  ic_command_name :: string
  ic_idempotency_key :: string
  ic_request_digest :: content_digest
  ic_expected_workflow_version :: workflow_version
  ic_status :: workflow_command_status
  ic_resulting_workflow_version :: workflow_version
  ic_requested_at :: datetime
  ic_operation_id :: "string option"
  ic_result_digest :: "content_digest option"
  ic_completed_at :: "datetime option"

definition IdempotentCommandRecord_post_init :: "idempotent_command_record \<Rightarrow> error option" where
  "IdempotentCommandRecord_post_init c = first_error
     ([require_uuid4 (ic_command_id c) ''IdempotentCommandRecord.command_id'',
       require_uuid4 (ic_workflow_id c) ''IdempotentCommandRecord.workflow_id'',
       require_text_max 128 (ic_command_name c) ''IdempotentCommandRecord.command_name'',
       require_text_max 256 (ic_idempotency_key c) ''IdempotentCommandRecord.idempotency_key'',
       require_aware (ic_requested_at c) ''IdempotentCommandRecord.requested_at'',
       require_optional (\<lambda>x. require_uuid4 x ''IdempotentCommandRecord.operation_id'')
         (ic_operation_id c),
       require (scope_id (ic_expected_workflow_version c) = ic_workflow_id c)
         (ValueError ''expected_workflow_version scope must equal workflow_id''),
       require (scope_id (ic_resulting_workflow_version c) = ic_workflow_id c)
         (ValueError ''resulting_workflow_version scope must equal workflow_id''),
       require (counter (ic_expected_workflow_version c) \<le> counter (ic_resulting_workflow_version c))
         (ValueError ''resulting_workflow_version cannot precede expected_workflow_version''),
       require_optional (\<lambda>t. first_error
           [require_aware t ''IdempotentCommandRecord.completed_at'',
            require (ic_requested_at c \<le> t)
              (ValueError ''completed_at cannot precede requested_at'')])
         (ic_completed_at c)]
      @ (if ic_status c \<in> {COMMAND_REQUESTED, COMMAND_IN_PROGRESS}
         then [require (ic_completed_at c = None \<and> ic_result_digest c = None)
                 (ValueError ''incomplete command records cannot have a result'')]
         else [require (ic_completed_at c \<noteq> None)
                 (ValueError ''completed command records require completed_at'')]))"

record audit_event =
  ae_event_id :: string
  ae_workflow_id :: string
  ae_workflow_version :: workflow_version
  ae_event_type :: audit_event_type
  ae_actor_class :: audit_actor_class
  ae_occurred_at :: datetime
  ae_request_digest :: content_digest
  ae_evidence_reference :: string
  ae_command_id :: "string option"
  ae_operation_id :: "string option"
  ae_correlation_id :: "string option"
  ae_state_before :: "workflow_state option"
  ae_state_after :: "workflow_state option"
  ae_authorization_reference :: "string option"
  ae_fencing_token :: "int option"

definition AuditEvent_post_init :: "audit_event \<Rightarrow> error option" where
  "AuditEvent_post_init e = first_error
     [require_uuid4 (ae_event_id e) ''AuditEvent.event_id'',
      require_uuid4 (ae_workflow_id e) ''AuditEvent.workflow_id'',
      require (scope_id (ae_workflow_version e) = ae_workflow_id e)
        (ValueError ''workflow_version scope must equal workflow_id''),
      require_aware (ae_occurred_at e) ''AuditEvent.occurred_at'',
      require_text_max 1024 (ae_evidence_reference e) ''AuditEvent.evidence_reference'',
      require_optional (\<lambda>x. require_uuid4 x ''AuditEvent.command_id'') (ae_command_id e),
      require_optional (\<lambda>x. require_uuid4 x ''AuditEvent.operation_id'') (ae_operation_id e),
      require_optional (\<lambda>x. require_uuid4 x ''AuditEvent.correlation_id'') (ae_correlation_id e),
      require_optional (\<lambda>x. require_text_max 256 x ''AuditEvent.authorization_reference'')
        (ae_authorization_reference e),
      require_optional (\<lambda>n. require (0 < n) (ValueError ''AuditEvent.fencing_token must be positive''))
        (ae_fencing_token e),
      require ((ae_state_before e = None) = (ae_state_after e = None))
        (ValueError ''state_before and state_after must be present together'')]"

end
