(* ===== verification/Lease_Domain.thy ===== *)
theory Lease_Domain
  imports Models
begin

text \<open>\<open>domain/lease.py\<close>: lease modes and states, the context lease and its events.\<close>

datatype lease_mode = PREVIEW_MODE | EXECUTION_MODE | ROLLBACK_MODE

datatype lease_state =
    AVAILABLE | HELD_PREVIEW | HELD_EXECUTION | HELD_ROLLBACK | EXPIRED | IN_FLIGHT_EXPIRED
  | LEASE_RECONCILIATION_REQUIRED | LEASE_QUARANTINED

fun lease_state_value :: "lease_state \<Rightarrow> string" where
  "lease_state_value AVAILABLE = ''available''"
| "lease_state_value HELD_PREVIEW = ''held_preview''"
| "lease_state_value HELD_EXECUTION = ''held_execution''"
| "lease_state_value HELD_ROLLBACK = ''held_rollback''"
| "lease_state_value EXPIRED = ''expired''"
| "lease_state_value IN_FLIGHT_EXPIRED = ''in_flight_expired''"
| "lease_state_value LEASE_RECONCILIATION_REQUIRED = ''reconciliation_required''"
| "lease_state_value LEASE_QUARANTINED = ''quarantined''"

datatype lease_event_type =
    ACQUIRE_ATTEMPTED | ACQUIRED | RELEASED_FOR_AUTHORIZATION | RELEASED | EXPIRED_EVENT
  | STALE_FENCE_REJECTED | ATOMIC_CALL_STARTED | ATOMIC_CALL_FINISHED | RECOVERY_ADMITTED
  | QUARANTINED_EVENT | OPERATOR_RECOVERED

fun held_state :: "lease_mode \<Rightarrow> lease_state" where
  "held_state PREVIEW_MODE = HELD_PREVIEW"
| "held_state EXECUTION_MODE = HELD_EXECUTION"
| "held_state ROLLBACK_MODE = HELD_ROLLBACK"

definition HELD_STATES :: "lease_state list" where
  "HELD_STATES = [HELD_PREVIEW, HELD_EXECUTION, HELD_ROLLBACK]"

definition RECOVERY_STATES :: "lease_state list" where
  "RECOVERY_STATES = [EXPIRED, IN_FLIGHT_EXPIRED, LEASE_RECONCILIATION_REQUIRED, LEASE_QUARANTINED]"

definition require_positive_token :: "int \<Rightarrow> string \<Rightarrow> error option" where
  "require_positive_token n name = require (0 < n) (ValueError (name @ '' must be positive''))"

record context_lease =
  cl_lease_id :: string
  cl_service_scope_digest :: content_digest
  cl_configuration_key :: configuration_key
  cl_workflow_id :: string
  cl_workflow_version :: workflow_version
  cl_fencing_token :: int
  cl_mode :: lease_mode
  cl_state :: lease_state
  cl_issued_at :: datetime
  cl_expires_at :: datetime
  cl_owner_instance_id :: string
  cl_operation_id :: "string option"
  cl_recovery_disposition :: "string option"

definition ContextLease_post_init :: "context_lease \<Rightarrow> error option" where
  "ContextLease_post_init l = first_error
     [require_uuid4 (cl_lease_id l) ''ContextLease.lease_id'',
      require_uuid4 (cl_workflow_id l) ''ContextLease.workflow_id'',
      require (scope_id (cl_workflow_version l) = cl_workflow_id l)
        (ValueError ''workflow_version scope must equal workflow_id''),
      require_positive_token (cl_fencing_token l) ''ContextLease.fencing_token'',
      require_aware (cl_issued_at l) ''ContextLease.issued_at'',
      require_aware (cl_expires_at l) ''ContextLease.expires_at'',
      require (cl_issued_at l < cl_expires_at l) (ValueError ''expires_at must follow issued_at''),
      require_uuid4 (cl_owner_instance_id l) ''ContextLease.owner_instance_id'',
      require_optional (\<lambda>x. require_uuid4 x ''ContextLease.operation_id'') (cl_operation_id l),
      require_optional (\<lambda>x. require_text_max 1024 x ''ContextLease.recovery_disposition'')
        (cl_recovery_disposition l),
      require (cl_state l \<noteq> AVAILABLE)
        (ValueError ''AVAILABLE is represented by the absence of a ContextLease''),
      require (cl_state l \<in> set HELD_STATES \<longrightarrow> cl_state l = held_state (cl_mode l))
        (ValueError ''held lease state must match lease mode''),
      require (\<not> (cl_state l = EXPIRED \<and> cl_operation_id l \<noteq> None))
        (ValueError ''EXPIRED lease cannot retain an operation_id''),
      require (\<not> (cl_state l = IN_FLIGHT_EXPIRED \<and> cl_operation_id l = None))
        (ValueError ''IN_FLIGHT_EXPIRED lease requires an operation_id''),
      require (\<not> (cl_state l \<in> set HELD_STATES \<and> cl_recovery_disposition l \<noteq> None))
        (ValueError ''held lease cannot have a recovery_disposition''),
      require (\<not> (cl_state l \<in> set RECOVERY_STATES \<and> cl_recovery_disposition l = None))
        (ValueError ''recovery lease state requires a recovery_disposition'')]"

record lease_event =
  le_event_id :: string
  le_lease_id :: string
  le_service_scope_digest :: content_digest
  le_configuration_key :: configuration_key
  le_workflow_id :: string
  le_workflow_version :: workflow_version
  le_fencing_token :: int
  le_event_type :: lease_event_type
  le_occurred_at :: datetime
  le_state_before :: lease_state
  le_state_after :: lease_state
  le_reason :: string
  le_evidence_reference :: string
  le_command_id :: "string option"
  le_operation_id :: "string option"
  le_correlation_id :: "string option"

definition LeaseEvent_post_init :: "lease_event \<Rightarrow> error option" where
  "LeaseEvent_post_init e = first_error
     [require_uuid4 (le_event_id e) ''LeaseEvent.event_id'',
      require_uuid4 (le_lease_id e) ''LeaseEvent.lease_id'',
      require_uuid4 (le_workflow_id e) ''LeaseEvent.workflow_id'',
      require (scope_id (le_workflow_version e) = le_workflow_id e)
        (ValueError ''workflow_version scope must equal workflow_id''),
      require_positive_token (le_fencing_token e) ''LeaseEvent.fencing_token'',
      require_aware (le_occurred_at e) ''LeaseEvent.occurred_at'',
      require_text_max 1024 (le_reason e) ''LeaseEvent.reason'',
      require_text_max 1024 (le_evidence_reference e) ''LeaseEvent.evidence_reference'',
      require_optional (\<lambda>x. require_uuid4 x ''LeaseEvent.command_id'') (le_command_id e),
      require_optional (\<lambda>x. require_uuid4 x ''LeaseEvent.operation_id'') (le_operation_id e),
      require_optional (\<lambda>x. require_uuid4 x ''LeaseEvent.correlation_id'') (le_correlation_id e),
      require (\<not> (le_event_type e = ATOMIC_CALL_STARTED \<and> le_operation_id e = None))
        (ValueError ''ATOMIC_CALL_STARTED event requires an operation_id''),
      require (\<not> (le_event_type e = ATOMIC_CALL_FINISHED \<and> le_operation_id e = None))
        (ValueError ''ATOMIC_CALL_FINISHED event requires an operation_id'')]"

lemma held_state_in_HELD_STATES [simp]: "held_state m \<in> set HELD_STATES"
  by (cases m) (auto simp: HELD_STATES_def)

lemma held_not_recovery: "s \<in> set HELD_STATES \<Longrightarrow> s \<notin> set RECOVERY_STATES"
  by (auto simp: HELD_STATES_def RECOVERY_STATES_def)

lemma lease_states_partition:
  "s = AVAILABLE \<or> s \<in> set HELD_STATES \<or> s \<in> set RECOVERY_STATES"
  by (cases s) (auto simp: HELD_STATES_def RECOVERY_STATES_def)

lemma ContextLease_valid_state:
  "ContextLease_post_init l = None \<Longrightarrow>
     cl_state l \<in> set HELD_STATES \<and> cl_recovery_disposition l = None \<and> cl_state l = held_state (cl_mode l)
     \<or> cl_state l \<in> set RECOVERY_STATES \<and> cl_recovery_disposition l \<noteq> None"
  using lease_states_partition [of "cl_state l"] by (auto simp: ContextLease_post_init_def)

lemma ContextLease_valid_bounds:
  "ContextLease_post_init l = None \<Longrightarrow> 0 < cl_fencing_token l \<and> cl_issued_at l < cl_expires_at l"
  by (simp add: ContextLease_post_init_def require_positive_token_def)

end
