(* ===== verification/Approval_Domain.thy ===== *)
theory Approval_Domain
  imports Models
begin

text \<open>
  \<open>domain/approval.py\<close> and \<open>domain/admission.py\<close>: authority requests, decisions,
  authorizations, admission results, and the admission envelope.
\<close>

datatype approval_decision_kind =
  DECISION_APPROVED | DECISION_REJECTED | DECISION_EXPIRED | DECISION_INVALIDATED | DECISION_CANCELLED

datatype authorization_state =
    AUTH_ISSUED | AUTH_CONSUMING | AUTH_CONSUMED | AUTH_EXPIRED | AUTH_INVALIDATED | AUTH_REJECTED
  | AUTH_CANCELLED

datatype admission_status =
  ADMITTED | ADMISSION_EXPIRED | ADMISSION_INVALIDATED | ADMISSION_REJECTED | ADMISSION_CANCELLED

definition require_policy_versions :: "versioned_name list \<Rightarrow> string \<Rightarrow> error option" where
  "require_policy_versions value name = first_error
     [require_collection False value name,
      require (distinct (map (\<lambda>v. (vp_name v, vp_version v)) value))
        (ValueError (name @ '' cannot contain duplicate policy versions''))]"

record authority_approval_request =
  aar_approval_request :: approval_request
  aar_workflow_id :: string
  aar_configuration_key :: configuration_key
  aar_live_state_fingerprint :: live_state_fingerprint
  aar_workspace_revision :: workspace_revision
  aar_operation_type :: operation_type
  aar_mutation_strategy :: mutation_strategy
  aar_expected_workflow_version :: workflow_version
  aar_policy_versions :: "versioned_name list"
  aar_summary_digest :: content_digest

definition AuthorityApprovalRequest_post_init :: "authority_approval_request \<Rightarrow> error option" where
  "AuthorityApprovalRequest_post_init r = first_error
     [require_uuid4 (apr_approval_request_id (aar_approval_request r))
        ''AuthorityApprovalRequest.approval_request_id'',
      require_uuid4 (apr_preview_id (aar_approval_request r)) ''AuthorityApprovalRequest.preview_id'',
      require_uuid4 (aar_workflow_id r) ''AuthorityApprovalRequest.workflow_id'',
      require (scope_id (aar_expected_workflow_version r) = aar_workflow_id r)
        (ValueError ''expected_workflow_version scope must equal workflow_id''),
      require_policy_versions (aar_policy_versions r) ''AuthorityApprovalRequest.policy_versions'']"

record authority_decision =
  ad_decision_id :: string
  ad_approval_request_id :: string
  ad_authority_instance_id :: string
  ad_decision_kind :: approval_decision_kind
  ad_decided_at :: datetime
  ad_authenticated_principal_reference :: "string option"
  ad_reason_code :: string

definition AuthorityDecision_post_init :: "authority_decision \<Rightarrow> error option" where
  "AuthorityDecision_post_init d = first_error
     [require_uuid4 (ad_decision_id d) ''AuthorityDecision.decision_id'',
      require_uuid4 (ad_approval_request_id d) ''AuthorityDecision.approval_request_id'',
      require_uuid4 (ad_authority_instance_id d) ''AuthorityDecision.authority_instance_id'',
      require_aware (ad_decided_at d) ''AuthorityDecision.decided_at'',
      require_text_max 128 (ad_reason_code d) ''AuthorityDecision.reason_code'',
      require_optional
        (\<lambda>x. require_text_max 256 x ''AuthorityDecision.authenticated_principal_reference'')
        (ad_authenticated_principal_reference d),
      require (\<not> (ad_decision_kind d = DECISION_APPROVED
                   \<and> ad_authenticated_principal_reference d = None))
        (ValueError ''approved decisions require an authenticated principal reference''),
      require (\<not> (ad_decision_kind d \<noteq> DECISION_APPROVED
                   \<and> ad_authenticated_principal_reference d \<noteq> None))
        (ValueError ''only approved decisions may retain an authenticated principal reference'')]"

record authority_authorization =
  aa_execution_authorization :: execution_authorization
  aa_authority_decision_id :: string
  aa_authority_instance_id :: string
  aa_preview_id :: string
  aa_workspace_revision :: workspace_revision
  aa_policy_versions :: "versioned_name list"

definition AuthorityAuthorization_post_init :: "authority_authorization \<Rightarrow> error option" where
  "AuthorityAuthorization_post_init a = first_error
     [require_uuid4 (aa_authority_decision_id a) ''AuthorityAuthorization.authority_decision_id'',
      require_uuid4 (aa_authority_instance_id a) ''AuthorityAuthorization.authority_instance_id'',
      require_uuid4 (aa_preview_id a) ''AuthorityAuthorization.preview_id'',
      require_policy_versions (aa_policy_versions a) ''AuthorityAuthorization.policy_versions'']"

record authorization_admission =
  ada_execution_id :: string
  ada_workflow_id :: string
  ada_status :: admission_status
  ada_reason_code :: string
  ada_recorded_at :: datetime

definition AuthorizationAdmission_post_init :: "authorization_admission \<Rightarrow> error option" where
  "AuthorizationAdmission_post_init a = first_error
     [require_uuid4 (ada_execution_id a) ''AuthorizationAdmission.execution_id'',
      require_uuid4 (ada_workflow_id a) ''AuthorizationAdmission.workflow_id'',
      require_text_max 128 (ada_reason_code a) ''AuthorizationAdmission.reason_code'',
      require_aware (ada_recorded_at a) ''AuthorizationAdmission.recorded_at'']"

section \<open>The admission envelope\<close>

record execution_admission_envelope =
  env_admission_id :: string
  env_workflow_id :: string
  env_workflow_version :: workflow_version
  env_command_id :: string
  env_operation_id :: string
  env_execution_id :: string
  env_lease_id :: string
  env_fencing_token :: int
  env_intent_id :: string
  env_request_digest :: content_digest
  env_admitted_at :: datetime

definition ExecutionAdmissionEnvelope_post_init :: "execution_admission_envelope \<Rightarrow> error option" where
  "ExecutionAdmissionEnvelope_post_init e = first_error
     [require_uuid4 (env_admission_id e) ''ExecutionAdmissionEnvelope.admission_id'',
      require_uuid4 (env_workflow_id e) ''ExecutionAdmissionEnvelope.workflow_id'',
      require_uuid4 (env_command_id e) ''ExecutionAdmissionEnvelope.command_id'',
      require_uuid4 (env_operation_id e) ''ExecutionAdmissionEnvelope.operation_id'',
      require_uuid4 (env_execution_id e) ''ExecutionAdmissionEnvelope.execution_id'',
      require_uuid4 (env_lease_id e) ''ExecutionAdmissionEnvelope.lease_id'',
      require_uuid4 (env_intent_id e) ''ExecutionAdmissionEnvelope.intent_id'',
      require (scope_id (env_workflow_version e) = env_workflow_id e)
        (ValueError ''workflow_version scope must equal workflow_id''),
      require (0 < env_fencing_token e)
        (ValueError ''ExecutionAdmissionEnvelope.fencing_token must be positive''),
      require_aware (env_admitted_at e) ''ExecutionAdmissionEnvelope.admitted_at'']"

end
