(* ===== verification/Reconciliation_Domain.thy ===== *)
theory Reconciliation_Domain
  imports Models
begin

text \<open>
  \<open>domain/reconciliation.py\<close>: the write-ahead intent, the observations made
  after it and the classification record.
\<close>

datatype observation_source = OWNER_RETURN | LIVE_READ | RECOVERY

datatype observation_outcome =
    VALUE_OBSERVED | PRECONDITION_REJECTED | EFFECT_UNCERTAIN | OBS_CLIENT_TIMED_OUT
  | OWNER_UNAVAILABLE | ENGINE_UNAVAILABLE | CONTEXT_UNVERIFIED | IDENTITY_UNVERIFIED
  | LOCATOR_UNVERIFIED | FINGERPRINT_MISMATCH | UNIT_UNVERIFIED | PERSISTENCE_UNAVAILABLE

datatype reconciliation_classification = BEFORE | AFTER_OBSERVED | DIVERGED | UNAVAILABLE

datatype manual_disposition =
  CONFIRM_BEFORE | CONFIRM_AFTER_OBSERVED | ABANDON | AUTHORIZE_COMPENSATION

definition require_positive :: "int \<Rightarrow> string \<Rightarrow> error option" where
  "require_positive n name = require (0 < n) (ValueError (name @ '' must be positive''))"

definition require_uuid_tuple :: "bool \<Rightarrow> string list \<Rightarrow> string \<Rightarrow> error option" where
  "require_uuid_tuple allow_empty value name = first_error
     ([require_collection allow_empty value name]
      @ map (\<lambda>x. require_uuid4 x (name @ '' entry'')) value
      @ [require (distinct value) (ValueError (name @ '' cannot contain duplicates''))])"

definition require_policy_names :: "versioned_name list \<Rightarrow> string \<Rightarrow> error option" where
  "require_policy_names value name = first_error
     [require_collection False value name,
      require (distinct (map vp_name value))
        (ValueError (name @ '' cannot contain duplicate policy names''))]"

record write_ahead_intent =
  wi_intent_id :: string
  wi_operation_id :: string
  wi_workflow_id :: string
  wi_workflow_version :: workflow_version
  wi_idempotency_key :: string
  wi_execution_id :: string
  wi_lease_id :: string
  wi_fencing_token :: int
  wi_workspace_id :: string
  wi_workspace_revision :: workspace_revision
  wi_product_identity :: product_identity
  wi_locator_version_id :: string
  wi_attribute :: attribute_selector
  wi_expected_before :: quantity
  wi_proposed_after :: quantity
  wi_configuration_key :: configuration_key
  wi_live_state_fingerprint :: live_state_fingerprint
  wi_request_digest :: content_digest
  wi_policy_versions :: "versioned_name list"
  wi_owner_instance_id :: string
  wi_session_id :: string
  wi_correlation_id :: string
  wi_attempt_number :: int
  wi_created_at :: datetime
  wi_intent_digest :: content_digest

definition WriteAheadIntent_post_init :: "write_ahead_intent \<Rightarrow> error option" where
  "WriteAheadIntent_post_init i = first_error
     [require_uuid4 (wi_intent_id i) ''WriteAheadIntent.intent_id'',
      require_uuid4 (wi_operation_id i) ''WriteAheadIntent.operation_id'',
      require_uuid4 (wi_workflow_id i) ''WriteAheadIntent.workflow_id'',
      require_uuid4 (wi_lease_id i) ''WriteAheadIntent.lease_id'',
      require_uuid4 (wi_workspace_id i) ''WriteAheadIntent.workspace_id'',
      require_uuid4 (wi_locator_version_id i) ''WriteAheadIntent.locator_version_id'',
      require_uuid4 (wi_owner_instance_id i) ''WriteAheadIntent.owner_instance_id'',
      require_uuid4 (wi_correlation_id i) ''WriteAheadIntent.correlation_id'',
      require (scope_id (wi_workflow_version i) = wi_workflow_id i)
        (ValueError ''workflow_version scope must equal workflow_id''),
      require (scope_id (wi_workspace_revision i) = wi_workspace_id i)
        (ValueError ''workspace_revision scope must equal workspace_id''),
      require_text_max 256 (wi_idempotency_key i) ''WriteAheadIntent.idempotency_key'',
      require_uuid4 (wi_execution_id i) ''WriteAheadIntent.execution_id'',
      require_positive (wi_fencing_token i) ''WriteAheadIntent.fencing_token'',
      require (q_unit (wi_expected_before i) = q_unit (wi_proposed_after i))
        (ValueError ''expected_before and proposed_after must have the same unit''),
      require_policy_names (wi_policy_versions i) ''WriteAheadIntent.policy_versions'',
      require_text_max 256 (wi_session_id i) ''WriteAheadIntent.session_id'',
      require_positive (wi_attempt_number i) ''WriteAheadIntent.attempt_number'',
      require_aware (wi_created_at i) ''WriteAheadIntent.created_at'']"

record reconciliation_observation =
  ro_observation_id :: string
  ro_intent_id :: string
  ro_operation_id :: string
  ro_attempt_id :: string
  ro_source :: observation_source
  ro_outcome :: observation_outcome
  ro_observed_at :: datetime
  ro_diagnostic_reference :: string
  ro_observed_value :: "quantity option"
  ro_configuration_key :: "configuration_key option"
  ro_live_state_fingerprint :: "live_state_fingerprint option"
  ro_workspace_revision :: "workspace_revision option"

definition has_fresh_bindings :: "reconciliation_observation \<Rightarrow> bool" where
  "has_fresh_bindings ob \<longleftrightarrow> ro_configuration_key ob \<noteq> None
     \<and> ro_live_state_fingerprint ob \<noteq> None \<and> ro_workspace_revision ob \<noteq> None"

definition ReconciliationObservation_post_init :: "reconciliation_observation \<Rightarrow> error option" where
  "ReconciliationObservation_post_init ob = first_error
     ([require_uuid4 (ro_observation_id ob) ''ReconciliationObservation.observation_id'',
       require_uuid4 (ro_intent_id ob) ''ReconciliationObservation.intent_id'',
       require_uuid4 (ro_operation_id ob) ''ReconciliationObservation.operation_id'',
       require_uuid4 (ro_attempt_id ob) ''ReconciliationObservation.attempt_id'',
       require_aware (ro_observed_at ob) ''ReconciliationObservation.observed_at'',
       require_text_max 1024 (ro_diagnostic_reference ob) ''ReconciliationObservation.diagnostic_reference'']
      @ (if ro_outcome ob = VALUE_OBSERVED
         then [require (ro_observed_value ob \<noteq> None \<and> has_fresh_bindings ob)
                 (ValueError ''value observations require value and fresh configuration, fingerprint, and workspace evidence'')]
         else if ro_observed_value ob \<noteq> None
         then [Some (ValueError ''non-value observations cannot claim an observed value'')]
         else [require (ro_configuration_key ob = None \<and> ro_live_state_fingerprint ob = None
                        \<and> ro_workspace_revision ob = None)
                 (ValueError ''fresh observation bindings must be present together'')]))"

record reconciliation_record =
  rr_reconciliation_id :: string
  rr_intent_id :: string
  rr_workflow_id :: string
  rr_workflow_version :: workflow_version
  rr_classification :: reconciliation_classification
  rr_observation_ids :: "string list"
  rr_classified_at :: datetime
  rr_evidence_reference :: string
  rr_quarantine_reference :: "string option"
  rr_manual_disposition :: "manual_disposition option"
  rr_operator_principal_reference :: "string option"
  rr_completed_at :: "datetime option"

definition ReconciliationRecord_post_init :: "reconciliation_record \<Rightarrow> error option" where
  "ReconciliationRecord_post_init r = first_error
     ([require_uuid4 (rr_reconciliation_id r) ''ReconciliationRecord.reconciliation_id'',
       require_uuid4 (rr_intent_id r) ''ReconciliationRecord.intent_id'',
       require_uuid4 (rr_workflow_id r) ''ReconciliationRecord.workflow_id'',
       require (scope_id (rr_workflow_version r) = rr_workflow_id r)
         (ValueError ''workflow_version scope must equal workflow_id''),
       require_uuid_tuple False (rr_observation_ids r) ''ReconciliationRecord.observation_ids'',
       require_aware (rr_classified_at r) ''ReconciliationRecord.classified_at'',
       require_text_max 1024 (rr_evidence_reference r) ''ReconciliationRecord.evidence_reference'',
       require_optional (\<lambda>x. require_text_max 1024 x ''ReconciliationRecord.quarantine_reference'')
         (rr_quarantine_reference r),
       require (\<not> (rr_classification r \<in> {DIVERGED, UNAVAILABLE} \<and> rr_quarantine_reference r = None))
         (ValueError ''diverged and unavailable classifications require a quarantine reference'')]
      @ (case rr_manual_disposition r of
           None \<Rightarrow> [require (rr_operator_principal_reference r = None)
                      (ValueError ''operator principal requires a manual disposition'')]
         | Some _ \<Rightarrow>
            (case rr_operator_principal_reference r of
               None \<Rightarrow> [Some (ValueError ''manual dispositions require an independent operator principal reference'')]
             | Some x \<Rightarrow> [require_text_max 256 x ''ReconciliationRecord.operator_principal_reference'']))
      @ [require_optional (\<lambda>t. first_error
            [require_aware t ''ReconciliationRecord.completed_at'',
             require (rr_classified_at r \<le> t)
               (ValueError ''completed_at cannot precede classified_at'')])
          (rr_completed_at r)])"

end
