(* ===== verification/Database.thy ===== *)
theory Database
  imports Workflow_Domain Lease_Domain Approval_Domain Reconciliation_Domain
begin

text \<open>
  The SQLite state shared by the stores (\<open>persistence/database.py\<close>), the errors
  the stores raise, the schema migration, and the transaction-local writers of
  \<open>persistence/_transactional_writers.py\<close>.

  Each row is its JSON document: every \<open>INSERT\<close> and \<open>UPDATE\<close> of the code writes
  the other columns from the same object in the same statement, so they are
  projections of it (the one exception, the state column of an authorization, is
  a field of its row).  \<open>from_json\<close> of \<open>canonical_json\<close> is taken to give the
  object back, and the size limit of one serialized document is not modelled.
  \<open>PRIMARY KEY\<close>, \<open>UNIQUE\<close> and \<open>REFERENCES\<close> constraints are the checks of the
  insert functions.  Evidence tables have no update or delete function, as the
  schema's triggers abort both.
\<close>

section \<open>Errors of the persistence layer\<close>

datatype store_error =
    Invalid error
  | IntegrityError string
  | RuntimeError string
  | LookupError string
  | DatabaseVersionError int
  | WorkflowNotFoundError string
  | WorkflowAlreadyExistsError string
  | WorkflowIdempotencyConflictError string string
  | WorkflowVersionConflictError string workflow_version workflow_version
  | LeaseNotFoundError string
  | LeaseBusyError context_lease
  | LeaseWorkflowVersionConflictError string workflow_version workflow_version
  | LeaseFenceRejectedError context_lease string
  | LeaseStateConflictError string
  | AuthorityApprovalRequestNotFoundError string
  | AuthorityAuthorizationNotFoundError string
  | AuthorityTerminalDecisionError string
  | AuthorityRequestExpiredError string
  | ReconciliationIntentNotFoundError string
  | ReconciliationIntentConflictError string
  | ReconciliationObservationConflictError string
  | ReconciliationClassificationError string
  | ExecutionAdmissionConflictError string
  | ExecutionAdmissionRejectedError string

type_synonym 'a stored = "store_error + 'a"

section \<open>The tables\<close>

record fence_row =
  fr_scope :: content_digest
  fr_key :: configuration_key
  fr_last_fencing_token :: int

record authorization_row =
  aurow_execution_id :: string
  aurow_approval_request_id :: string
  aurow_workflow_id :: string
  aurow_authority_instance_id :: string
  aurow_state :: authorization_state
  aurow_authorization :: authority_authorization
  aurow_updated_at :: datetime

record authorization_event =
  aue_event_id :: string
  aue_execution_id :: string
  aue_state_before :: "authorization_state option"
  aue_state_after :: authorization_state
  aue_reason_code :: string
  aue_occurred_at :: datetime

record envelope_row =
  enrow_idempotency_key :: string
  enrow_envelope :: execution_admission_envelope

record db =
  workflow_records :: "workflow_record list"
  workflow_commands :: "idempotent_command_record list"
  workflow_audit_events :: "audit_event list"
  approval_requests :: "authority_approval_request list"
  authority_decisions :: "authority_decision list"
  authority_authorizations :: "authorization_row list"
  authorization_events :: "authorization_event list"
  authority_admissions :: "authorization_admission list"
  fence_counters :: "fence_row list"
  context_leases :: "context_lease list"
  lease_event_log :: "lease_event list"
  reconciliation_intents :: "write_ahead_intent list"
  reconciliation_observations :: "reconciliation_observation list"
  reconciliation_records :: "reconciliation_record list"
  admission_envelopes :: "envelope_row list"

definition empty_db :: db where
  "empty_db = \<lparr>workflow_records = [], workflow_commands = [], workflow_audit_events = [],
     approval_requests = [], authority_decisions = [], authority_authorizations = [],
     authorization_events = [], authority_admissions = [], fence_counters = [],
     context_leases = [], lease_event_log = [], reconciliation_intents = [],
     reconciliation_observations = [], reconciliation_records = [], admission_envelopes = []\<rparr>"

type_synonym lease_scope = "content_digest \<times> configuration_key"

definition fence_scope :: "fence_row \<Rightarrow> lease_scope" where
  "fence_scope r = (fr_scope r, fr_key r)"

definition lease_scope_of :: "context_lease \<Rightarrow> lease_scope" where
  "lease_scope_of l = (cl_service_scope_digest l, cl_configuration_key l)"

definition event_scope :: "lease_event \<Rightarrow> lease_scope" where
  "event_scope e = (le_service_scope_digest e, le_configuration_key e)"

section \<open>Schema migration\<close>

definition SCHEMA_VERSION :: int where "SCHEMA_VERSION = 9"

text \<open>
  The schema state: \<open>PRAGMA user_version\<close> and the numbered migration scripts that
  have run, in order.  \<open>_migrate\<close> runs every script above the current version
  inside one transaction.
\<close>

record schema_state =
  user_version :: int
  applied_migrations :: "int list"

definition migrate_step :: "int \<Rightarrow> schema_state \<Rightarrow> schema_state" where
  "migrate_step n s =
     (if user_version s < n
      then \<lparr>user_version = n, applied_migrations = applied_migrations s @ [n]\<rparr> else s)"

definition migrate_body :: "schema_state \<Rightarrow> (unit \<times> schema_state) stored" where
  "migrate_body s =
     (if user_version s > SCHEMA_VERSION then Inl (DatabaseVersionError (user_version s))
      else Inr ((), fold migrate_step [1 .. SCHEMA_VERSION] s))"

definition migrate :: "schema_state \<Rightarrow> unit stored \<times> schema_state" where
  "migrate = transaction migrate_body"

section \<open>Transaction-local writers\<close>

definition mint_fencing_token :: "content_digest \<Rightarrow> configuration_key \<Rightarrow> db \<Rightarrow> int \<times> db" where
  "mint_fencing_token scope key d =
     (let token = (case lookup_row fence_scope (scope, key) (fence_counters d) of
                     None \<Rightarrow> 1 | Some r \<Rightarrow> fr_last_fencing_token r + 1)
      in (token, d\<lparr>fence_counters := upsert fence_scope
            \<lparr>fr_scope = scope, fr_key = key, fr_last_fencing_token = token\<rparr> (fence_counters d)\<rparr>))"

definition write_lease_row :: "context_lease \<Rightarrow> db \<Rightarrow> db stored" where
  "write_lease_row l d =
     (if \<not> has_key wr_workflow_id (cl_workflow_id l) (workflow_records d)
      then Inl (IntegrityError ''context_leases.workflow_id'')
      else if \<exists>x \<in> set (context_leases d). cl_lease_id x = cl_lease_id l \<and> lease_scope_of x \<noteq> lease_scope_of l
      then Inl (IntegrityError ''context_leases.lease_id'')
      else Inr (d\<lparr>context_leases := upsert lease_scope_of l (context_leases d)\<rparr>))"

definition append_lease_event :: "lease_event \<Rightarrow> db \<Rightarrow> db stored" where
  "append_lease_event e d =
     (if has_key le_event_id (le_event_id e) (lease_event_log d)
      then Inl (IntegrityError ''context_lease_events.event_id'')
      else Inr (d\<lparr>lease_event_log := lease_event_log d @ [e]\<rparr>))"

definition command_key :: "idempotent_command_record \<Rightarrow> string \<times> string" where
  "command_key c = (ic_workflow_id c, ic_idempotency_key c)"

definition insert_workflow_command :: "idempotent_command_record \<Rightarrow> db \<Rightarrow> db stored" where
  "insert_workflow_command c d =
     (if \<not> has_key wr_workflow_id (ic_workflow_id c) (workflow_records d)
      then Inl (IntegrityError ''workflow_commands.workflow_id'')
      else if has_key ic_command_id (ic_command_id c) (workflow_commands d)
      then Inl (IntegrityError ''workflow_commands.command_id'')
      else if has_key command_key (command_key c) (workflow_commands d)
      then Inl (IntegrityError ''workflow_commands.workflow_id, workflow_commands.idempotency_key'')
      else Inr (d\<lparr>workflow_commands := workflow_commands d @ [c]\<rparr>))"

definition append_workflow_audit_event :: "audit_event \<Rightarrow> db \<Rightarrow> db stored" where
  "append_workflow_audit_event e d =
     (if \<not> has_key wr_workflow_id (ae_workflow_id e) (workflow_records d)
      then Inl (IntegrityError ''workflow_audit_events.workflow_id'')
      else if has_key ae_event_id (ae_event_id e) (workflow_audit_events d)
      then Inl (IntegrityError ''workflow_audit_events.event_id'')
      else Inr (d\<lparr>workflow_audit_events := workflow_audit_events d @ [e]\<rparr>))"

text \<open>
  The compare-and-swap \<open>UPDATE workflow_records \<dots> WHERE workflow_id = ? AND
  workflow_version_counter = ?\<close>, with its row count.
\<close>

definition update_workflow_cas :: "workflow_record \<Rightarrow> int \<Rightarrow> db \<Rightarrow> nat \<times> db" where
  "update_workflow_cas w expected d =
     (let p = (\<lambda>r. wr_workflow_id r = wr_workflow_id w \<and> counter (wr_workflow_version r) = expected)
      in (rowcount p (workflow_records d),
          d\<lparr>workflow_records := update_where p (\<lambda>_. w) (workflow_records d)\<rparr>))"

section \<open>Lemmas\<close>

lemma write_lease_row_Inr_iff:
  "write_lease_row l d = Inr d' \<longleftrightarrow>
     has_key wr_workflow_id (cl_workflow_id l) (workflow_records d)
     \<and> (\<forall>x \<in> set (context_leases d). cl_lease_id x = cl_lease_id l \<longrightarrow> lease_scope_of x = lease_scope_of l)
     \<and> d' = d\<lparr>context_leases := upsert lease_scope_of l (context_leases d)\<rparr>"
  by (auto simp: write_lease_row_def)

lemma append_lease_event_Inr_iff:
  "append_lease_event e d = Inr d' \<longleftrightarrow>
     \<not> has_key le_event_id (le_event_id e) (lease_event_log d)
     \<and> d' = d\<lparr>lease_event_log := lease_event_log d @ [e]\<rparr>"
  by (auto simp: append_lease_event_def)

lemma insert_workflow_command_Inr_iff:
  "insert_workflow_command c d = Inr d' \<longleftrightarrow>
     has_key wr_workflow_id (ic_workflow_id c) (workflow_records d)
     \<and> \<not> has_key ic_command_id (ic_command_id c) (workflow_commands d)
     \<and> \<not> has_key command_key (command_key c) (workflow_commands d)
     \<and> d' = d\<lparr>workflow_commands := workflow_commands d @ [c]\<rparr>"
  by (auto simp: insert_workflow_command_def)

lemma append_workflow_audit_event_Inr_iff:
  "append_workflow_audit_event e d = Inr d' \<longleftrightarrow>
     has_key wr_workflow_id (ae_workflow_id e) (workflow_records d)
     \<and> \<not> has_key ae_event_id (ae_event_id e) (workflow_audit_events d)
     \<and> d' = d\<lparr>workflow_audit_events := workflow_audit_events d @ [e]\<rparr>"
  by (auto simp: append_workflow_audit_event_def)

lemmas writer_iffs =
  write_lease_row_Inr_iff append_lease_event_Inr_iff insert_workflow_command_Inr_iff
  append_workflow_audit_event_Inr_iff

text \<open>The counter of a scope, 0 before its first token.\<close>

definition last_token :: "db \<Rightarrow> lease_scope \<Rightarrow> int" where
  "last_token d s = (case lookup_row fence_scope s (fence_counters d) of
     None \<Rightarrow> 0 | Some r \<Rightarrow> fr_last_fencing_token r)"

lemma mint_fencing_token_eq:
  "mint_fencing_token scope key d = (token, d') \<longleftrightarrow>
     token = last_token d (scope, key) + 1
     \<and> d' = d\<lparr>fence_counters := upsert fence_scope
          \<lparr>fr_scope = scope, fr_key = key, fr_last_fencing_token = token\<rparr> (fence_counters d)\<rparr>"
  by (auto simp: mint_fencing_token_def last_token_def Let_def split: option.splits)

lemma fence_scope_row [simp]:
  "fence_scope \<lparr>fr_scope = s, fr_key = k, fr_last_fencing_token = t\<rparr> = (s, k)"
  by (simp add: fence_scope_def)

lemma last_token_mint:
  "last_token (d\<lparr>fence_counters := upsert fence_scope
       \<lparr>fr_scope = scope, fr_key = key, fr_last_fencing_token = token\<rparr> (fence_counters d)\<rparr>) s
     = (if s = (scope, key) then token else last_token d s)"
  by (simp add: last_token_def lookup_upsert)

lemma last_token_cong: "fence_counters d = fence_counters d' \<Longrightarrow> last_token d s = last_token d' s"
  by (simp add: last_token_def)

lemma fold_migrate_steps:
  "user_version s \<le> SCHEMA_VERSION \<Longrightarrow>
     fold migrate_step [1 .. SCHEMA_VERSION] s
       = \<lparr>user_version = (if user_version s < SCHEMA_VERSION then SCHEMA_VERSION else user_version s),
          applied_migrations = applied_migrations s
            @ filter (\<lambda>n. user_version s < n) [1 .. SCHEMA_VERSION]\<rparr>"
  by (cases s) (simp add: SCHEMA_VERSION_def upto.simps migrate_step_def)

end
