(* ===== verification/Samples.thy ===== *)
theory Samples
  imports Database
begin

text \<open>Concrete identifiers, digests, instants and records for the witnesses.\<close>

definition sample_uuid :: "nat \<Rightarrow> string" where
  "sample_uuid n = ''00000000-0000-4000-8000-'' @ pad 12 n"

text \<open>A supply of identifiers: the results of successive \<open>uuid.uuid4()\<close> calls.\<close>

definition sample_ids :: "nat \<Rightarrow> nat \<Rightarrow> string" where
  "sample_ids start i = sample_uuid (start + i)"

definition sample_hex :: "string" where
  "sample_hex = replicate 64 (CHR ''a'')"

definition sample_scope :: content_digest where
  "sample_scope = ContentDigest (''content:v1:sha256:'' @ sample_hex)"

definition sample_key :: configuration_key where
  "sample_key = ConfigurationKey (''configuration-key:v1:sha256:'' @ sample_hex)"

definition sample_fingerprint :: live_state_fingerprint where
  "sample_fingerprint = LiveStateFingerprint (''live-state-fingerprint:v1:sha256:'' @ sample_hex)"

definition sample_time :: "nat \<Rightarrow> nat \<Rightarrow> datetime" where
  "sample_time s us = Datetime 2026 1 2 10 0 s us"

definition sample_version :: "int \<Rightarrow> workflow_version" where
  "sample_version n = \<lparr>scope_id = sample_uuid 1, counter = n\<rparr>"

definition sample_name :: versioned_name where
  "sample_name = \<lparr>vp_name = ''policy'', vp_version = ''v1''\<rparr>"

definition sample_workflow :: "workflow_state \<Rightarrow> int \<Rightarrow> workflow_record" where
  "sample_workflow st n = \<lparr>wr_workflow_id = sample_uuid 1, wr_state = st,
     wr_workflow_version = sample_version n, wr_operation_specification = sample_name,
     wr_configuration_key = sample_key, wr_proposal_digest = sample_scope,
     wr_created_at = sample_time 0 0, wr_updated_at = sample_time 0 0,
     wr_latest_command_id = None, wr_latest_operation_id = None, wr_recovery_reference = None\<rparr>"

definition sample_db :: "workflow_state \<Rightarrow> int \<Rightarrow> db" where
  "sample_db st n = empty_db\<lparr>workflow_records := [sample_workflow st n]\<rparr>"

end
