(* ===== verification/Lease_Store.thy ===== *)
theory Lease_Store
  imports Samples
begin

text \<open>
  \<open>persistence/lease_store.py\<close>: \<open>ContextLeaseStore\<close>.  Every operation is one
  transaction on the shared state; \<open>ids\<close> is the supply of \<open>uuid.uuid4()\<close>
  results in call order.  The keyword arguments \<open>reason\<close>, \<open>evidence_reference\<close>,
  \<open>command_id\<close> and \<open>correlation_id\<close> travel together as \<open>evidence\<close>, and the
  holder's assertions as \<open>holder_claim\<close>.
\<close>

section \<open>Arguments\<close>

record evidence =
  ev_reason :: string
  ev_reference :: string
  ev_command_id :: "string option"
  ev_correlation_id :: "string option"

record holder_claim =
  hc_lease_id :: string
  hc_fencing_token :: int
  hc_owner_instance_id :: string
  hc_workflow_version :: workflow_version
  hc_occurred_at :: datetime

type_synonym id_supply = "nat \<Rightarrow> string"

text \<open>The supply after \<open>k\<close> identifiers have been drawn.\<close>

definition shift_supply :: "nat \<Rightarrow> id_supply \<Rightarrow> id_supply" where
  "shift_supply k ids i = ids (k + i)"

section \<open>Reads\<close>

definition lease :: "content_digest \<Rightarrow> configuration_key \<Rightarrow> db \<Rightarrow> context_lease option" where
  "lease scope key d = lookup_row lease_scope_of (scope, key) (context_leases d)"

definition lease_events :: "content_digest \<Rightarrow> configuration_key \<Rightarrow> db \<Rightarrow> lease_event list" where
  "lease_events scope key d = filter (\<lambda>e. event_scope e = (scope, key)) (lease_event_log d)"

text \<open>\<open>ORDER BY service_scope_digest, configuration_key\<close>.\<close>

definition scope_order :: "context_lease \<Rightarrow> string list" where
  "scope_order l = [cd_value (cl_service_scope_digest l), ck_value (cl_configuration_key l)]"

definition recovery_leases :: "db \<Rightarrow> context_lease list" where
  "recovery_leases d =
     sort_key scope_order (filter (\<lambda>l. cl_state l \<in> set RECOVERY_STATES) (context_leases d))"

section \<open>Private steps\<close>

definition current_by_id :: "string \<Rightarrow> db \<Rightarrow> context_lease stored" where
  "current_by_id i d = checked (map_option Invalid (require_uuid4 i ''lease_id''))
     (case lookup_row cl_lease_id i (context_leases d) of
        None \<Rightarrow> Inl (LeaseNotFoundError i) | Some l \<Rightarrow> Inr l)"

text \<open>
  The current version is rebuilt with the scope \<open>workflow_id\<close> and the stored
  counter; it equals the expected one when scope and counter agree.
\<close>

definition assert_workflow_version :: "string \<Rightarrow> workflow_version \<Rightarrow> db \<Rightarrow> store_error option" where
  "assert_workflow_version i expected d =
     (case lookup_row wr_workflow_id i (workflow_records d) of
        None \<Rightarrow> Some (LeaseNotFoundError (''workflow '' @ i))
      | Some w \<Rightarrow> (let current = \<lparr>scope_id = i, counter = counter (wr_workflow_version w)\<rparr>
          in if current \<noteq> expected
             then Some (LeaseWorkflowVersionConflictError i expected current) else None))"

definition require_token :: "int \<Rightarrow> error option" where
  "require_token n = require (0 < n) (ValueError ''fencing_token must be a positive integer'')"

text \<open>
  \<open>_holder_failure\<close>: a malformed claim raises, a stale one gives the reason.  A lost
  compare-and-swap is a reason, a missing workflow is raised.
\<close>

definition holder_failure :: "context_lease \<Rightarrow> holder_claim \<Rightarrow> bool \<Rightarrow> db \<Rightarrow> string option stored" where
  "holder_failure current c require_no_operation d =
     checked (map_option Invalid (first_error
       [require_token (hc_fencing_token c),
        require_uuid4 (hc_owner_instance_id c) ''owner_instance_id'',
        require_aware (hc_occurred_at c) ''occurred_at'']))
     (if cl_state current \<notin> set HELD_STATES
      then Inr (Some (''lease is '' @ lease_state_value (cl_state current)))
      else if cl_fencing_token current \<noteq> hc_fencing_token c
      then Inr (Some ''fencing token is not current'')
      else if cl_owner_instance_id current \<noteq> hc_owner_instance_id c
      then Inr (Some ''owner instance is not current'')
      else if cl_workflow_version current \<noteq> hc_workflow_version c
      then Inr (Some ''workflow version is not current'')
      else if cl_expires_at current \<le> hc_occurred_at c
      then Inr (Some ''lease has expired'')
      else if require_no_operation \<and> cl_operation_id current \<noteq> None
      then Inr (Some ''an atomic call is in flight'')
      else case assert_workflow_version (cl_workflow_id current) (cl_workflow_version current) d of
             None \<Rightarrow> Inr None
           | Some (LeaseWorkflowVersionConflictError _ _ _) \<Rightarrow>
               Inr (Some ''workflow version compare-and-swap no longer matches'')
           | Some e \<Rightarrow> Inl e)"

definition append_event ::
  "string \<Rightarrow> context_lease \<Rightarrow> lease_event_type \<Rightarrow> datetime \<Rightarrow> lease_state \<Rightarrow> lease_state
     \<Rightarrow> evidence \<Rightarrow> string option \<Rightarrow> int option \<Rightarrow> db \<Rightarrow> db stored" where
  "append_event event_id l event_type occurred_at state_before state_after ev operation_id token d =
     attempt (map_error Invalid (build_record LeaseEvent_post_init
       \<lparr>le_event_id = event_id, le_lease_id = cl_lease_id l,
        le_service_scope_digest = cl_service_scope_digest l,
        le_configuration_key = cl_configuration_key l,
        le_workflow_id = cl_workflow_id l, le_workflow_version = cl_workflow_version l,
        le_fencing_token = (case token of None \<Rightarrow> cl_fencing_token l | Some t \<Rightarrow> t),
        le_event_type = event_type, le_occurred_at = occurred_at,
        le_state_before = state_before, le_state_after = state_after,
        le_reason = ev_reason ev, le_evidence_reference = ev_reference ev,
        le_command_id = ev_command_id ev, le_operation_id = operation_id,
        le_correlation_id = ev_correlation_id ev\<rparr>))
     (\<lambda>e. append_lease_event e d)"

definition append_stale_rejection ::
  "string \<Rightarrow> context_lease \<Rightarrow> holder_claim \<Rightarrow> string \<Rightarrow> evidence \<Rightarrow> string option \<Rightarrow> db \<Rightarrow> db stored" where
  "append_stale_rejection event_id l c stale_reason ev operation_id d =
     append_event event_id l STALE_FENCE_REJECTED (hc_occurred_at c) (cl_state l) (cl_state l)
       (ev\<lparr>ev_reason := ev_reason ev @ '': '' @ stale_reason\<rparr>) operation_id
       (Some (hc_fencing_token c)) d"

definition delete_lease :: "content_digest \<Rightarrow> configuration_key \<Rightarrow> db \<Rightarrow> db" where
  "delete_lease scope key d =
     d\<lparr>context_leases := delete_where (\<lambda>l. lease_scope_of l = (scope, key)) (context_leases d)\<rparr>"

text \<open>
  The holder operations commit first, rejection evidence included, and raise
  \<open>LeaseFenceRejectedError\<close> after the transaction when the claim was stale.
\<close>

definition raise_if_stale ::
  "(context_lease \<times> string option \<times> context_lease) stored \<times> db \<Rightarrow> context_lease stored \<times> db" where
  "raise_if_stale r = (case r of
      (Inl e, d) \<Rightarrow> (Inl e, d)
    | (Inr (current, stale, result), d) \<Rightarrow>
        (case stale of
           Some reason \<Rightarrow> (Inl (LeaseFenceRejectedError current reason), d)
         | None \<Rightarrow> (Inr result, d)))"

section \<open>Operations\<close>

definition acquire ::
  "id_supply \<Rightarrow> lease_mode \<Rightarrow> content_digest \<Rightarrow> configuration_key \<Rightarrow> string \<Rightarrow> workflow_version
     \<Rightarrow> string \<Rightarrow> datetime \<Rightarrow> datetime \<Rightarrow> evidence \<Rightarrow> db \<Rightarrow> context_lease stored \<times> db" where
  "acquire ids mode scope key workflow_id expected owner issued_at expires_at ev = transaction (\<lambda>d.
     checked (map_option Invalid (first_error
       [require_uuid4 workflow_id ''workflow_id'',
        require_uuid4 owner ''owner_instance_id'',
        require_aware issued_at ''issued_at'',
        require_aware expires_at ''expires_at'',
        require (scope_id expected = workflow_id)
          (ValueError ''expected_workflow_version scope must equal workflow_id'')]))
     (case lease scope key d of
        Some current \<Rightarrow> Inl (LeaseBusyError current)
      | None \<Rightarrow>
          checked (assert_workflow_version workflow_id expected d)
          (case mint_fencing_token scope key d of (token, d1) \<Rightarrow>
             attempt (map_error Invalid (build_record ContextLease_post_init
               \<lparr>cl_lease_id = ids 0, cl_service_scope_digest = scope, cl_configuration_key = key,
                cl_workflow_id = workflow_id, cl_workflow_version = expected,
                cl_fencing_token = token, cl_mode = mode, cl_state = held_state mode,
                cl_issued_at = issued_at, cl_expires_at = expires_at,
                cl_owner_instance_id = owner, cl_operation_id = None,
                cl_recovery_disposition = None\<rparr>)) (\<lambda>l.
             attempt (append_event (ids 1) l ACQUIRE_ATTEMPTED issued_at AVAILABLE (cl_state l) ev None None d1) (\<lambda>d2.
             attempt (write_lease_row l d2) (\<lambda>d3.
             attempt (append_event (ids 2) l ACQUIRED issued_at AVAILABLE (cl_state l) ev None None d3) (\<lambda>d4.
             Inr (l, d4))))))))"

definition release_with ::
  "lease_event_type \<Rightarrow> bool \<Rightarrow> id_supply \<Rightarrow> holder_claim \<Rightarrow> evidence \<Rightarrow> db \<Rightarrow> context_lease stored \<times> db" where
  "release_with event_type require_preview ids c ev d0 = raise_if_stale (transaction (\<lambda>d.
     attempt (current_by_id (hc_lease_id c) d) (\<lambda>current.
     attempt (holder_failure current c True d) (\<lambda>failure.
     let stale = (if failure = None \<and> require_preview \<and> cl_mode current \<noteq> PREVIEW_MODE
                  then Some ''only a preview lease may be released for authorization''
                  else failure)
     in case stale of
          Some reason \<Rightarrow>
            attempt (append_stale_rejection (ids 0) current c reason ev None d) (\<lambda>d1.
            Inr ((current, stale, current), d1))
        | None \<Rightarrow>
            attempt (append_event (ids 0) current event_type (hc_occurred_at c) (cl_state current)
                       AVAILABLE ev None None d) (\<lambda>d1.
            Inr ((current, None, current),
                 delete_lease (cl_service_scope_digest current) (cl_configuration_key current) d1))))) d0)"

definition release_for_authorization ::
  "id_supply \<Rightarrow> holder_claim \<Rightarrow> evidence \<Rightarrow> db \<Rightarrow> context_lease stored \<times> db" where
  "release_for_authorization = release_with RELEASED_FOR_AUTHORIZATION True"

definition release :: "id_supply \<Rightarrow> holder_claim \<Rightarrow> evidence \<Rightarrow> db \<Rightarrow> context_lease stored \<times> db" where
  "release = release_with RELEASED False"

definition start_atomic_call ::
  "id_supply \<Rightarrow> holder_claim \<Rightarrow> string \<Rightarrow> evidence \<Rightarrow> db \<Rightarrow> context_lease stored \<times> db" where
  "start_atomic_call ids c operation_id ev d0 = raise_if_stale (transaction (\<lambda>d.
     checked (map_option Invalid (require_uuid4 operation_id ''operation_id''))
     (attempt (current_by_id (hc_lease_id c) d) (\<lambda>current.
      attempt (holder_failure current c True d) (\<lambda>stale.
      case stale of
        Some reason \<Rightarrow>
          attempt (append_stale_rejection (ids 0) current c reason ev None d) (\<lambda>d1.
          Inr ((current, stale, current), d1))
      | None \<Rightarrow>
          attempt (map_error Invalid (build_record ContextLease_post_init
                     (current\<lparr>cl_operation_id := Some operation_id\<rparr>))) (\<lambda>next_lease.
          attempt (write_lease_row next_lease d) (\<lambda>d1.
          attempt (append_event (ids 0) next_lease ATOMIC_CALL_STARTED (hc_occurred_at c)
                     (cl_state current) (cl_state next_lease) ev (Some operation_id) None d1) (\<lambda>d2.
          Inr ((current, None, next_lease), d2)))))))) d0)"

definition finish_atomic_call ::
  "id_supply \<Rightarrow> holder_claim \<Rightarrow> string \<Rightarrow> evidence \<Rightarrow> db \<Rightarrow> context_lease stored \<times> db" where
  "finish_atomic_call ids c operation_id ev d0 = raise_if_stale (transaction (\<lambda>d.
     checked (map_option Invalid (require_uuid4 operation_id ''operation_id''))
     (attempt (current_by_id (hc_lease_id c) d) (\<lambda>current.
      attempt (holder_failure current c False d) (\<lambda>failure.
      let stale = (if failure = None \<and> cl_operation_id current \<noteq> Some operation_id
                   then Some ''operation_id does not match the durable atomic call'' else failure)
      in case stale of
        Some reason \<Rightarrow>
          attempt (append_stale_rejection (ids 0) current c reason ev (Some operation_id) d) (\<lambda>d1.
          Inr ((current, stale, current), d1))
      | None \<Rightarrow>
          attempt (map_error Invalid (build_record ContextLease_post_init
                     (current\<lparr>cl_operation_id := None\<rparr>))) (\<lambda>next_lease.
          attempt (write_lease_row next_lease d) (\<lambda>d1.
          attempt (append_event (ids 0) next_lease ATOMIC_CALL_FINISHED (hc_occurred_at c)
                     (cl_state current) (cl_state next_lease) ev (Some operation_id) None d1) (\<lambda>d2.
          Inr ((current, None, next_lease), d2)))))))) d0)"

text \<open>
  \<open>expire\<close>: a lease with no started call is recorded as expired and its row
  deleted; one with a call in flight stays, as \<open>IN_FLIGHT_EXPIRED\<close>.  It takes no
  \<open>command_id\<close>.  The code's
  last deletion tests \<open>operation_id is None\<close> after that branch has returned and
  never runs.
\<close>

definition expire ::
  "id_supply \<Rightarrow> content_digest \<Rightarrow> configuration_key \<Rightarrow> datetime \<Rightarrow> evidence \<Rightarrow> db
     \<Rightarrow> context_lease stored \<times> db" where
  "expire ids scope key occurred_at ev = transaction (\<lambda>d.
     checked (map_option Invalid (require_aware occurred_at ''occurred_at''))
     (case lease scope key d of
        None \<Rightarrow> Inl (LeaseNotFoundError (ck_value key))
      | Some current \<Rightarrow>
          if cl_state current \<notin> set HELD_STATES
          then Inl (LeaseStateConflictError (''lease cannot expire from '' @ lease_state_value (cl_state current)))
          else if occurred_at < cl_expires_at current
          then Inl (LeaseStateConflictError ''lease has not expired'')
          else if cl_operation_id current = None
          then attempt (map_error Invalid (build_record ContextLease_post_init
                 (current\<lparr>cl_state := EXPIRED,
                    cl_recovery_disposition := Some ''expired before an atomic call was durably started''\<rparr>)))
               (\<lambda>next_lease.
               attempt (append_event (ids 0) next_lease EXPIRED_EVENT occurred_at (cl_state current)
                          (cl_state next_lease) (ev\<lparr>ev_command_id := None\<rparr>) (cl_operation_id current) None d) (\<lambda>d1.
               Inr (next_lease, delete_lease scope key d1)))
          else attempt (map_error Invalid (build_record ContextLease_post_init
                 (current\<lparr>cl_state := IN_FLIGHT_EXPIRED,
                    cl_recovery_disposition := Some ''atomic call outcome requires reconciliation''\<rparr>)))
               (\<lambda>next_lease.
               attempt (write_lease_row next_lease d) (\<lambda>d1.
               attempt (append_event (ids 0) next_lease EXPIRED_EVENT occurred_at (cl_state current)
                          (cl_state next_lease) (ev\<lparr>ev_command_id := None\<rparr>) (cl_operation_id current) None d1) (\<lambda>d2.
               Inr (next_lease, d2))))))"

text \<open>
  \<open>expire_due\<close>: the due rows are selected by comparing the stored timestamp text,
  then expired one transaction at a time; the first failure stops the sweep and
  keeps what was already committed.  The \<open>n\<close>-th \<open>expire\<close> draws identifier \<open>n\<close>.
\<close>

definition due_leases :: "datetime \<Rightarrow> db \<Rightarrow> context_lease list" where
  "due_leases occurred_at d = sort_key scope_order
     (filter (\<lambda>l. cl_state l \<in> set HELD_STATES
        \<and> encode_utc_timestamp (cl_expires_at l) \<le> encode_utc_timestamp occurred_at) (context_leases d))"

fun expire_each ::
  "id_supply \<Rightarrow> datetime \<Rightarrow> evidence \<Rightarrow> context_lease list \<Rightarrow> db \<Rightarrow> context_lease list stored \<times> db" where
  "expire_each ids occurred_at ev [] d = (Inr [], d)"
| "expire_each ids occurred_at ev (l # ls) d =
     (case expire ids (cl_service_scope_digest l) (cl_configuration_key l) occurred_at ev d of
        (Inl e, d1) \<Rightarrow> (Inl e, d1)
      | (Inr x, d1) \<Rightarrow>
          (case expire_each (shift_supply 1 ids) occurred_at ev ls d1 of
             (Inl e, d2) \<Rightarrow> (Inl e, d2)
           | (Inr xs, d2) \<Rightarrow> (Inr (x # xs), d2)))"

text \<open>\<open>expire_due\<close> passes neither a command nor a correlation.\<close>

definition expire_due ::
  "id_supply \<Rightarrow> datetime \<Rightarrow> string \<Rightarrow> string \<Rightarrow> db \<Rightarrow> context_lease list stored \<times> db" where
  "expire_due ids occurred_at reason reference d =
     (case require_aware occurred_at ''occurred_at'' of
        Some e \<Rightarrow> (Inl (Invalid e), d)
      | None \<Rightarrow> expire_each ids occurred_at
          \<lparr>ev_reason = reason, ev_reference = reference, ev_command_id = None, ev_correlation_id = None\<rparr>
          (due_leases occurred_at d) d)"

section \<open>The store as a machine\<close>

datatype lease_command =
    Acquire id_supply lease_mode content_digest configuration_key string workflow_version
      string datetime datetime evidence
  | ReleaseForAuthorization id_supply holder_claim evidence
  | Release id_supply holder_claim evidence
  | StartAtomicCall id_supply holder_claim string evidence
  | FinishAtomicCall id_supply holder_claim string evidence
  | Expire id_supply content_digest configuration_key datetime evidence
  | ExpireDue id_supply datetime string string

fun lease_step :: "db \<Rightarrow> lease_command \<Rightarrow> db" where
  "lease_step d (Acquire ids m s k w v own i x ev) = snd (acquire ids m s k w v own i x ev d)"
| "lease_step d (ReleaseForAuthorization ids c ev) = snd (release_for_authorization ids c ev d)"
| "lease_step d (Release ids c ev) = snd (release ids c ev d)"
| "lease_step d (StartAtomicCall ids c op ev) = snd (start_atomic_call ids c op ev d)"
| "lease_step d (FinishAtomicCall ids c op ev) = snd (finish_atomic_call ids c op ev d)"
| "lease_step d (Expire ids s k t ev) = snd (expire ids s k t ev d)"
| "lease_step d (ExpireDue ids t r f) = snd (expire_due ids t r f d)"

end
