(* ===== verification/Lease_Laws.thy ===== *)
theory Lease_Laws
  imports Lease_Store
begin

text \<open>
  What the lease store guarantees: every operation is one abstract change of the
  lease tables, the invariant of the tables, fencing tokens, holder checks, and
  the time-text ordering behind the expiry sweep.
\<close>

section \<open>What one operation can do to the lease tables\<close>

text \<open>
  The abstract description of the store: one operation leaves the tables alone,
  records evidence, grants a free scope under the next token, moves the current
  lease of a scope without touching its identity and token, or frees the scope.
\<close>

definition lease_moves :: "context_lease \<Rightarrow> context_lease \<Rightarrow> bool" where
  "lease_moves l0 l \<longleftrightarrow> cl_state l0 \<in> set HELD_STATES
     \<and> ((\<exists>op. cl_operation_id l0 = None \<and> l = l0\<lparr>cl_operation_id := Some op\<rparr>)
      \<or> (cl_operation_id l0 \<noteq> None \<and> l = l0\<lparr>cl_operation_id := None\<rparr>)
      \<or> (cl_operation_id l0 \<noteq> None \<and> cl_state l = IN_FLIGHT_EXPIRED
         \<and> (\<exists>r. l = l0\<lparr>cl_state := IN_FLIGHT_EXPIRED, cl_recovery_disposition := Some r\<rparr>)))"

inductive lease_change :: "db \<Rightarrow> db \<Rightarrow> bool" where
  evidence_only:
    "le_event_type e \<noteq> ACQUIRED \<Longrightarrow> lease_change d (d\<lparr>lease_event_log := lease_event_log d @ [e]\<rparr>)"
| granted:
    "lookup_row lease_scope_of (lease_scope_of l) (context_leases d) = None \<Longrightarrow>
     ContextLease_post_init l = None \<Longrightarrow> cl_state l \<in> set HELD_STATES \<Longrightarrow>
     cl_fencing_token l = last_token d (lease_scope_of l) + 1 \<Longrightarrow>
     \<forall>x \<in> set (context_leases d). cl_lease_id x \<noteq> cl_lease_id l \<Longrightarrow>
     event_scope e2 = lease_scope_of l \<Longrightarrow> le_event_type e2 = ACQUIRED \<Longrightarrow>
     le_fencing_token e2 = cl_fencing_token l \<Longrightarrow>
     \<forall>e \<in> set es. le_event_type e \<noteq> ACQUIRED \<Longrightarrow> \<forall>e \<in> set es'. le_event_type e \<noteq> ACQUIRED \<Longrightarrow>
     lease_change d (d\<lparr>fence_counters := upsert fence_scope
         \<lparr>fr_scope = cl_service_scope_digest l, fr_key = cl_configuration_key l,
          fr_last_fencing_token = cl_fencing_token l\<rparr> (fence_counters d),
       context_leases := upsert lease_scope_of l (context_leases d),
       lease_event_log := lease_event_log d @ es @ [e2] @ es'\<rparr>)"
| moved:
    "l0 \<in> set (context_leases d) \<Longrightarrow> lease_moves l0 l \<Longrightarrow> ContextLease_post_init l = None \<Longrightarrow>
     le_event_type e \<noteq> ACQUIRED \<Longrightarrow>
     lease_change d (d\<lparr>context_leases := upsert lease_scope_of l (context_leases d),
       lease_event_log := lease_event_log d @ [e]\<rparr>)"
| freed:
    "l0 \<in> set (context_leases d) \<Longrightarrow> cl_state l0 \<in> set HELD_STATES \<Longrightarrow> cl_operation_id l0 = None \<Longrightarrow>
     le_event_type e \<noteq> ACQUIRED \<Longrightarrow>
     lease_change d (d\<lparr>context_leases :=
         delete_where (\<lambda>l. lease_scope_of l = lease_scope_of l0) (context_leases d),
       lease_event_log := lease_event_log d @ [e]\<rparr>)"

inductive_cases lease_changeE: "lease_change d d'"

definition acquired_tokens :: "db \<Rightarrow> lease_scope \<Rightarrow> int list" where
  "acquired_tokens d s = map le_fencing_token
     (filter (\<lambda>e. event_scope e = s \<and> le_event_type e = ACQUIRED) (lease_event_log d))"

text \<open>
  The invariant: at most one current lease per scope and per lease identifier,
  every current lease is a valid record whose token the scope's counter covers,
  and the tokens granted in a scope strictly increase up to that counter.
\<close>

definition lease_inv :: "db \<Rightarrow> bool" where
  "lease_inv d \<longleftrightarrow>
     unique_key lease_scope_of (context_leases d) \<and> unique_key cl_lease_id (context_leases d)
     \<and> unique_key fence_scope (fence_counters d)
     \<and> (\<forall>l \<in> set (context_leases d).
          ContextLease_post_init l = None \<and> cl_fencing_token l \<le> last_token d (lease_scope_of l))
     \<and> (\<forall>s. sorted_wrt (<) (acquired_tokens d s) \<and> (\<forall>t \<in> set (acquired_tokens d s). t \<le> last_token d s))"

lemma lease_moves_same:
  "lease_moves l0 l \<Longrightarrow> lease_scope_of l = lease_scope_of l0 \<and> cl_lease_id l = cl_lease_id l0
     \<and> cl_fencing_token l = cl_fencing_token l0 \<and> cl_owner_instance_id l = cl_owner_instance_id l0
     \<and> cl_workflow_id l = cl_workflow_id l0"
  by (auto simp: lease_moves_def lease_scope_of_def)

lemma acquired_tokens_log:
  "acquired_tokens (d\<lparr>lease_event_log := lease_event_log d0 @ es\<rparr>) s
     = acquired_tokens d0 s
       @ map le_fencing_token (filter (\<lambda>e. event_scope e = s \<and> le_event_type e = ACQUIRED) es)"
  by (simp add: acquired_tokens_def)

lemma acquired_tokens_other [simp]:
  "\<forall>e \<in> set es. le_event_type e \<noteq> ACQUIRED \<Longrightarrow>
     filter (\<lambda>e. event_scope e = s \<and> le_event_type e = ACQUIRED) es = []"
  by (induction es) auto

section \<open>Reading a successful step\<close>

lemma append_event_InrD:
  assumes "append_event i l ty t b a ev op tok d = Inr d'"
  obtains e where "d' = d\<lparr>lease_event_log := lease_event_log d @ [e]\<rparr>"
    "le_event_type e = ty" "event_scope e = lease_scope_of l" "le_lease_id e = cl_lease_id l"
    "le_fencing_token e = (case tok of None \<Rightarrow> cl_fencing_token l | Some n \<Rightarrow> n)"
    "le_state_before e = b" "le_state_after e = a" "le_occurred_at e = t"
    "le_operation_id e = op" "LeaseEvent_post_init e = None"
  using assms
  by (auto simp: append_event_def result_iffs append_lease_event_Inr_iff event_scope_def
      lease_scope_of_def)

lemma holder_failure_accepts:
  "holder_failure l c no_op d = Inr None \<Longrightarrow>
     cl_state l \<in> set HELD_STATES \<and> cl_fencing_token l = hc_fencing_token c
     \<and> cl_owner_instance_id l = hc_owner_instance_id c \<and> cl_workflow_version l = hc_workflow_version c
     \<and> hc_occurred_at c < cl_expires_at l \<and> (no_op \<longrightarrow> cl_operation_id l = None)
     \<and> assert_workflow_version (cl_workflow_id l) (cl_workflow_version l) d = None"
  by (auto simp: holder_failure_def checked_Inr_iff split: if_splits option.splits store_error.splits)

lemma current_by_id_InrD:
  "current_by_id i d = Inr l \<Longrightarrow> l \<in> set (context_leases d) \<and> cl_lease_id l = i"
  by (auto simp: current_by_id_def checked_Inr_iff split: option.splits dest: lookup_row_SomeD)

lemma lease_SomeD:
  "lease scope key d = Some l \<Longrightarrow> l \<in> set (context_leases d) \<and> lease_scope_of l = (scope, key)"
  by (auto simp: lease_def dest: lookup_row_SomeD)

section \<open>Every operation is one abstract change\<close>

lemma acquire_InrE:
  assumes "acquire ids mode scope key w v own i x ev d = (Inr l, d')"
  obtains e1 e2 where
    "lease scope key d = None" "assert_workflow_version w v d = None"
    "l = \<lparr>cl_lease_id = ids 0, cl_service_scope_digest = scope, cl_configuration_key = key,
          cl_workflow_id = w, cl_workflow_version = v,
          cl_fencing_token = last_token d (scope, key) + 1, cl_mode = mode, cl_state = held_state mode,
          cl_issued_at = i, cl_expires_at = x, cl_owner_instance_id = own, cl_operation_id = None,
          cl_recovery_disposition = None\<rparr>"
    "ContextLease_post_init l = None"
    "\<forall>y \<in> set (context_leases d). cl_lease_id y \<noteq> cl_lease_id l"
    "le_event_type e1 = ACQUIRE_ATTEMPTED" "event_scope e1 = lease_scope_of l"
    "le_event_type e2 = ACQUIRED" "event_scope e2 = lease_scope_of l"
    "le_fencing_token e2 = cl_fencing_token l"
    "d' = d\<lparr>fence_counters := upsert fence_scope
         \<lparr>fr_scope = cl_service_scope_digest l, fr_key = cl_configuration_key l,
          fr_last_fencing_token = cl_fencing_token l\<rparr> (fence_counters d),
       context_leases := upsert lease_scope_of l (context_leases d),
       lease_event_log := lease_event_log d @ [e1, e2]\<rparr>"
proof -
  define l' where "l' = \<lparr>cl_lease_id = ids 0, cl_service_scope_digest = scope, cl_configuration_key = key,
          cl_workflow_id = w, cl_workflow_version = v,
          cl_fencing_token = last_token d (scope, key) + 1, cl_mode = mode, cl_state = held_state mode,
          cl_issued_at = i, cl_expires_at = x, cl_owner_instance_id = own, cl_operation_id = None,
          cl_recovery_disposition = None\<rparr>"
  define d1 where "d1 = d\<lparr>fence_counters := upsert fence_scope
          \<lparr>fr_scope = scope, fr_key = key, fr_last_fencing_token = last_token d (scope, key) + 1\<rparr> (fence_counters d)\<rparr>"
  have mint: "mint_fencing_token scope key d = (last_token d (scope, key) + 1, d1)"
    by (simp add: mint_fencing_token_eq d1_def)
  from assms obtain d2 d3 where free: "lease scope key d = None" "assert_workflow_version w v d = None"
    and l: "l = l'" "ContextLease_post_init l = None"
    and ev1: "append_event (ids 1) l ACQUIRE_ATTEMPTED i AVAILABLE (cl_state l) ev None None d1 = Inr d2"
    and wr: "write_lease_row l d2 = Inr d3"
    and ev2: "append_event (ids 2) l ACQUIRED i AVAILABLE (cl_state l) ev None None d3 = Inr d'"
    by (auto simp: acquire_def transaction_Inr_iff mint result_iffs l'_def [symmetric] split: option.splits)
  obtain e1 where d2: "d2 = d1\<lparr>lease_event_log := lease_event_log d1 @ [e1]\<rparr>"
      "le_event_type e1 = ACQUIRE_ATTEMPTED" "event_scope e1 = lease_scope_of l"
    using ev1 by (rule append_event_InrD)
  obtain e2 where d': "d' = d3\<lparr>lease_event_log := lease_event_log d3 @ [e2]\<rparr>" "le_event_type e2 = ACQUIRED"
      "event_scope e2 = lease_scope_of l" "le_fencing_token e2 = cl_fencing_token l"
    using ev2 by (auto elim: append_event_InrD)
  have sc: "lease_scope_of l = (scope, key)" using l by (simp add: l'_def lease_scope_of_def)
  from wr d2 have d3: "d3 = d2\<lparr>context_leases := upsert lease_scope_of l (context_leases d2)\<rparr>"
    and ids: "\<forall>y \<in> set (context_leases d). cl_lease_id y = cl_lease_id l \<longrightarrow> lease_scope_of y = lease_scope_of l"
    by (auto simp: write_lease_row_Inr_iff d1_def)
  have fresh: "\<forall>y \<in> set (context_leases d). cl_lease_id y \<noteq> cl_lease_id l"
    using ids free sc by (auto simp: lookup_row_None_iff has_key_def lease_def)
  show thesis
    by (rule that [OF free _ l(2) fresh d2(2,3) d'(2-4)]) (use l d1_def d2 d3 d' in \<open>auto simp: l'_def\<close>)
qed

lemma acquire_change:
  assumes "acquire ids mode scope key w v own i x ev d = (r, d')"
  shows "d' = d \<or> lease_change d d'"
proof (cases r)
  case (Inl e)
  with assms show ?thesis by (auto simp: acquire_def transaction_Inl_iff)
next
  case (Inr l)
  with assms have "acquire ids mode scope key w v own i x ev d = (Inr l, d')" by simp
  then show ?thesis
  proof (rule acquire_InrE, goal_cases)
    case (1 e1 e2)
    then have "lookup_row lease_scope_of (lease_scope_of l) (context_leases d) = None"
      "cl_state l \<in> set HELD_STATES" "cl_fencing_token l = last_token d (lease_scope_of l) + 1"
      by (simp_all add: lease_def lease_scope_of_def)
    from lease_change.granted [OF this(1) 1(4) this(2,3) 1(5) 1(9,8,10), of "[e1]" "[]"] 1
    show ?thesis by simp
  qed
qed

lemma raise_if_stale_state [simp]: "snd (raise_if_stale r) = snd r"
  by (cases r) (auto simp: raise_if_stale_def split: sum.splits option.splits)

lemma append_stale_rejection_change:
  assumes "append_stale_rejection i l c r ev op d = Inr d'"
  shows "lease_change d d'"
  using assms unfolding append_stale_rejection_def
  by (elim append_event_InrD) (simp add: lease_change.evidence_only)

lemma freed_change:
  assumes "l \<in> set (context_leases d)" "cl_state l \<in> set HELD_STATES" "cl_operation_id l = None"
    and "lease_scope_of l = (s, k)" "append_event i n ty t b a ev op tok d = Inr d1" "ty \<noteq> ACQUIRED"
  shows "lease_change d (delete_lease s k d1)"
proof -
  from assms(5) obtain e where "d1 = d\<lparr>lease_event_log := lease_event_log d @ [e]\<rparr>" "le_event_type e = ty"
    by (rule append_event_InrD)
  moreover from this have "delete_lease s k d1 =
      d\<lparr>context_leases := delete_where (\<lambda>x. lease_scope_of x = lease_scope_of l) (context_leases d),
        lease_event_log := lease_event_log d @ [e]\<rparr>"
    using assms by (simp add: delete_lease_def)
  ultimately show ?thesis using lease_change.freed [of l d e] assms by simp
qed

lemma release_with_change:
  "snd (release_with ty pv ids c ev d) = d \<or> lease_change d (snd (release_with ty pv ids c ev d))"
  if "ty \<noteq> ACQUIRED"
  unfolding release_with_def raise_if_stale_state
proof (rule transaction_cases, goal_cases)
  case (1 a d')
  then obtain l where l: "l \<in> set (context_leases d)"
    and "(\<exists>r. append_stale_rejection (ids 0) l c r ev None d = Inr d')
      \<or> (\<exists>d1. holder_failure l c True d = Inr None
           \<and> append_event (ids 0) l ty (hc_occurred_at c) (cl_state l) AVAILABLE ev None None d = Inr d1
           \<and> d' = delete_lease (cl_service_scope_digest l) (cl_configuration_key l) d1)"
    by (auto simp: attempt_Inr_iff Let_def dest!: current_by_id_InrD split: option.splits if_splits)
  then consider (stale) r where "append_stale_rejection (ids 0) l c r ev None d = Inr d'"
    | (freed) d1 where "holder_failure l c True d = Inr None"
      "append_event (ids 0) l ty (hc_occurred_at c) (cl_state l) AVAILABLE ev None None d = Inr d1"
      "d' = delete_lease (cl_service_scope_digest l) (cl_configuration_key l) d1"
    by blast
  then show ?case
  proof cases
    case stale
    then show ?thesis by (blast intro: append_stale_rejection_change)
  next
    case freed
    have "lease_change d d'" unfolding freed(3)
      using that holder_failure_accepts [OF freed(1)]
      by (intro freed_change [OF l _ _ _ freed(2)]) (auto simp: lease_scope_of_def)
    then show ?thesis ..
  qed
qed simp

text \<open>A held lease rewritten in place, with one more event, is a move of that lease.\<close>

lemma moved_change:
  assumes "l0 \<in> set (context_leases d)" "lease_moves l0 l"
    and "ContextLease_post_init l = None" "write_lease_row l d = Inr d1"
    and "append_event i l ty t b a ev op tok d1 = Inr d'" "ty \<noteq> ACQUIRED"
  shows "lease_change d d'"
proof -
  from assms(5) obtain e where "d' = d1\<lparr>lease_event_log := lease_event_log d1 @ [e]\<rparr>" "le_event_type e = ty"
    by (rule append_event_InrD)
  with lease_change.moved [of l0 d l e] assms show ?thesis
    by (auto simp: write_lease_row_Inr_iff)
qed

lemma start_atomic_call_change:
  "snd (start_atomic_call ids c i ev d) = d \<or> lease_change d (snd (start_atomic_call ids c i ev d))"
  unfolding start_atomic_call_def raise_if_stale_state
proof (rule transaction_cases, goal_cases)
  case (1 a d')
  then obtain l stale where l: "l \<in> set (context_leases d)" and h: "holder_failure l c True d = Inr stale"
    and rest: "case stale of Some r \<Rightarrow> append_stale_rejection (ids 0) l c r ev None d = Inr d'
      | None \<Rightarrow> (let n = l\<lparr>cl_operation_id := Some i\<rparr> in
          \<exists>d1. ContextLease_post_init n = None \<and> write_lease_row n d = Inr d1
            \<and> append_event (ids 0) n ATOMIC_CALL_STARTED (hc_occurred_at c) (cl_state l) (cl_state n) ev
                 (Some i) None d1 = Inr d')"
    by (auto simp: checked_Inr_iff attempt_Inr_iff Let_def build_record_Inr_iff dest!: current_by_id_InrD
        split: option.splits)
  show ?case
  proof (cases stale)
    case (Some r)
    with rest show ?thesis by (auto intro: append_stale_rejection_change)
  next
    case None
    with h have "lease_moves l (l\<lparr>cl_operation_id := Some i\<rparr>)"
      by (auto simp: lease_moves_def dest: holder_failure_accepts)
    with None rest l show ?thesis by (auto simp: Let_def intro: moved_change)
  qed
qed simp

lemma finish_atomic_call_change:
  "snd (finish_atomic_call ids c i ev d) = d \<or> lease_change d (snd (finish_atomic_call ids c i ev d))"
  unfolding finish_atomic_call_def raise_if_stale_state
proof (rule transaction_cases, goal_cases)
  case (1 a d')
  then obtain l where l: "l \<in> set (context_leases d)"
    and "(\<exists>r. append_stale_rejection (ids 0) l c r ev (Some i) d = Inr d')
      \<or> (\<exists>d1. holder_failure l c False d = Inr None \<and> cl_operation_id l = Some i
          \<and> ContextLease_post_init (l\<lparr>cl_operation_id := None\<rparr>) = None
          \<and> write_lease_row (l\<lparr>cl_operation_id := None\<rparr>) d = Inr d1
          \<and> append_event (ids 0) (l\<lparr>cl_operation_id := None\<rparr>) ATOMIC_CALL_FINISHED (hc_occurred_at c)
               (cl_state l) (cl_state l) ev (Some i) None d1 = Inr d')"
    by (auto simp: checked_Inr_iff attempt_Inr_iff Let_def build_record_Inr_iff dest!: current_by_id_InrD
        split: option.splits if_splits)
  then consider (stale) r where "append_stale_rejection (ids 0) l c r ev (Some i) d = Inr d'"
    | (finished) d1 where "holder_failure l c False d = Inr None" "cl_operation_id l = Some i"
      "ContextLease_post_init (l\<lparr>cl_operation_id := None\<rparr>) = None"
      "write_lease_row (l\<lparr>cl_operation_id := None\<rparr>) d = Inr d1"
      "append_event (ids 0) (l\<lparr>cl_operation_id := None\<rparr>) ATOMIC_CALL_FINISHED (hc_occurred_at c)
               (cl_state l) (cl_state l) ev (Some i) None d1 = Inr d'"
    by blast
  then show ?case
  proof cases
    case stale
    then show ?thesis by (blast intro: append_stale_rejection_change)
  next
    case finished
    then have "lease_moves l (l\<lparr>cl_operation_id := None\<rparr>)"
      by (auto simp: lease_moves_def dest: holder_failure_accepts)
    with finished l show ?thesis by (blast intro: moved_change)
  qed
qed simp

lemma expire_InrE:
  assumes "expire ids s k t ev d = (Inr n, d')"
  obtains (freed) l where "lease s k d = Some l" "cl_state l \<in> set HELD_STATES" "cl_expires_at l \<le> t"
      "cl_operation_id l = None" "cl_state n = EXPIRED"
      "\<exists>d1. append_event (ids 0) n EXPIRED_EVENT t (cl_state l) EXPIRED
             (ev\<lparr>ev_command_id := None\<rparr>) (cl_operation_id l) None d = Inr d1 \<and> d' = delete_lease s k d1"
    | (moved) l where "lease s k d = Some l" "cl_state l \<in> set HELD_STATES" "cl_expires_at l \<le> t"
      "cl_operation_id l \<noteq> None" "ContextLease_post_init n = None"
      "n = l\<lparr>cl_state := IN_FLIGHT_EXPIRED,
         cl_recovery_disposition := Some ''atomic call outcome requires reconciliation''\<rparr>"
      "\<exists>d1. write_lease_row n d = Inr d1
         \<and> append_event (ids 0) n EXPIRED_EVENT t (cl_state l) (cl_state n)
               (ev\<lparr>ev_command_id := None\<rparr>) (cl_operation_id l) None d1 = Inr d'"
proof -
  from assms obtain l where l: "lease s k d = Some l" "cl_state l \<in> set HELD_STATES" "cl_expires_at l \<le> t"
    and "cl_operation_id l = None \<and> (cl_state n = EXPIRED
        \<and> (\<exists>d1. append_event (ids 0) n EXPIRED_EVENT t (cl_state l) EXPIRED
             (ev\<lparr>ev_command_id := None\<rparr>) (cl_operation_id l) None d = Inr d1 \<and> d' = delete_lease s k d1))
      \<or> cl_operation_id l \<noteq> None \<and> (ContextLease_post_init n = None
        \<and> n = l\<lparr>cl_state := IN_FLIGHT_EXPIRED,
                cl_recovery_disposition := Some ''atomic call outcome requires reconciliation''\<rparr>
        \<and> (\<exists>d1. write_lease_row n d = Inr d1
          \<and> append_event (ids 0) n EXPIRED_EVENT t (cl_state l) (cl_state n)
               (ev\<lparr>ev_command_id := None\<rparr>) (cl_operation_id l) None d1 = Inr d'))"
    by (auto simp: expire_def transaction_Inr_iff checked_Inr_iff attempt_Inr_iff build_record_Inr_iff
        split: option.splits if_splits)
  then show thesis using that by blast
qed

lemma expire_InlD: "expire ids s k t ev d = (Inl e, d') \<Longrightarrow> d' = d"
  by (simp add: expire_def transaction_Inl_iff)

lemma expire_change:
  "snd (expire ids s k t ev d) = d \<or> lease_change d (snd (expire ids s k t ev d))"
proof (cases "expire ids s k t ev d")
  case (Pair r d')
  show ?thesis
  proof (cases r)
    case (Inl e)
    with Pair expire_InlD [of ids s k t ev d e d'] show ?thesis by simp
  next
    case (Inr n)
    with Pair have "expire ids s k t ev d = (Inr n, d')" by simp
    then have "lease_change d d'"
    proof (cases rule: expire_InrE)
      case (freed l)
      then show ?thesis using lease_SomeD [OF freed(1)] by (auto intro: freed_change)
    next
      case (moved l)
      then have "lease_moves l n" by (auto simp: lease_moves_def)
      with moved show ?thesis using lease_SomeD [OF moved(1)] by (auto intro: moved_change)
    qed
    with Pair show ?thesis by simp
  qed
qed

lemma expire_each_changes: "lease_change\<^sup>*\<^sup>* d (snd (expire_each ids t ev ls d))"
proof (induction ls arbitrary: ids d)
  case Nil
  then show ?case by simp
next
  case (Cons l ls)
  obtain r d1 where e: "expire ids (cl_service_scope_digest l) (cl_configuration_key l) t ev d = (r, d1)"
    by fastforce
  with expire_change [of ids "cl_service_scope_digest l" "cl_configuration_key l" t ev d]
  have s: "lease_change\<^sup>*\<^sup>* d d1" by auto
  show ?case
  proof (cases r)
    case (Inl x)
    with e s show ?thesis by simp
  next
    case (Inr x)
    have "lease_change\<^sup>*\<^sup>* d1 (snd (expire_each (shift_supply 1 ids) t ev ls d1))" by (rule Cons.IH)
    with s have "lease_change\<^sup>*\<^sup>* d (snd (expire_each (shift_supply 1 ids) t ev ls d1))"
      by (rule rtranclp_trans)
    with e Inr show ?thesis by (auto split: prod.splits sum.splits)
  qed
qed

lemma lease_step_changes: "lease_change\<^sup>*\<^sup>* d (lease_step d c)"
proof (cases c)
  case (Acquire ids m s k w v own i x ev)
  then show ?thesis
    using acquire_change [of ids m s k w v own i x ev d, OF surjective_pairing] by auto
next
  case (ReleaseForAuthorization ids c ev)
  then show ?thesis using release_with_change [of RELEASED_FOR_AUTHORIZATION True ids c ev d]
    by (auto simp: release_for_authorization_def)
next
  case (Release ids c ev)
  then show ?thesis using release_with_change [of RELEASED False ids c ev d]
    by (auto simp: release_def)
next
  case (StartAtomicCall ids c i ev)
  then show ?thesis using start_atomic_call_change [of ids c i ev d] by auto
next
  case (FinishAtomicCall ids c i ev)
  then show ?thesis using finish_atomic_call_change [of ids c i ev d] by auto
next
  case (Expire ids s k t ev)
  then show ?thesis using expire_change [of ids s k t ev d] by auto
next
  case (ExpireDue ids t r f)
  then show ?thesis by (simp add: expire_due_def expire_each_changes split: option.splits)
qed

section \<open>The invariant and the fencing tokens\<close>

lemma acquired_tokens_cong:
  "lease_event_log d = lease_event_log d' \<Longrightarrow> acquired_tokens d s = acquired_tokens d' s"
  by (simp add: acquired_tokens_def)

lemma lease_inv_cong:
  "fence_counters d' = fence_counters d \<Longrightarrow> context_leases d' = context_leases d \<Longrightarrow>
     lease_event_log d' = lease_event_log d \<Longrightarrow> lease_inv d' = lease_inv d"
  by (simp add: lease_inv_def last_token_def acquired_tokens_def)

lemma lease_inv_tokens:
  "lease_inv d \<Longrightarrow> sorted_wrt (<) (acquired_tokens d s) \<and> (\<forall>t \<in> set (acquired_tokens d s). t \<le> last_token d s)"
  by (cases s) (simp add: lease_inv_def)

text \<open>One row per key, so an update of that row is the only change of the table.\<close>

lemma lease_id_unique_upsert:
  assumes "unique_key lease_scope_of ls" "unique_key cl_lease_id ls" "l0 \<in> set ls"
    and "lease_scope_of l = lease_scope_of l0" "cl_lease_id l = cl_lease_id l0"
  shows "unique_key cl_lease_id (upsert lease_scope_of l ls)"
proof -
  have "has_key lease_scope_of (lease_scope_of l) ls" using assms by (auto simp: has_key_def)
  moreover have "unique_key cl_lease_id (update_where (\<lambda>x. lease_scope_of x = lease_scope_of l) (\<lambda>_. l) ls)"
    using assms by (subst unique_key_update_where) (auto dest: unique_keyD)
  ultimately show ?thesis by (simp add: upsert_def)
qed

lemma lease_inv_evidence:
  "lease_inv d \<Longrightarrow> le_event_type e \<noteq> ACQUIRED \<Longrightarrow>
     lease_inv (d\<lparr>lease_event_log := lease_event_log d @ [e]\<rparr>)"
  by (simp add: lease_inv_def acquired_tokens_def last_token_def)

lemma lease_inv_granted:
  assumes inv: "lease_inv d"
    and no: "lookup_row lease_scope_of (lease_scope_of l) (context_leases d) = None"
    and v: "ContextLease_post_init l = None" and tok: "cl_fencing_token l = last_token d (lease_scope_of l) + 1"
    and fresh: "\<forall>x \<in> set (context_leases d). cl_lease_id x \<noteq> cl_lease_id l"
    and e2: "event_scope e2 = lease_scope_of l" "le_event_type e2 = ACQUIRED" "le_fencing_token e2 = cl_fencing_token l"
    and es: "\<forall>e \<in> set es. le_event_type e \<noteq> ACQUIRED" "\<forall>e \<in> set es'. le_event_type e \<noteq> ACQUIRED"
  shows "lease_inv (d\<lparr>fence_counters := upsert fence_scope
         \<lparr>fr_scope = cl_service_scope_digest l, fr_key = cl_configuration_key l,
          fr_last_fencing_token = cl_fencing_token l\<rparr> (fence_counters d),
       context_leases := upsert lease_scope_of l (context_leases d),
       lease_event_log := lease_event_log d @ es @ [e2] @ es'\<rparr>)" (is "lease_inv ?d")
proof -
  have rows: "upsert lease_scope_of l (context_leases d) = context_leases d @ [l]"
    using no by (simp add: upsert_def lookup_row_None_iff)
  have lt: "last_token ?d s = (if s = lease_scope_of l then cl_fencing_token l else last_token d s)" for s
    by (simp add: last_token_def lookup_upsert lease_scope_of_def)
  have at: "acquired_tokens ?d s = acquired_tokens d s
      @ (if s = lease_scope_of l then [cl_fencing_token l] else [])" for s
    using e2 es by (auto simp: acquired_tokens_def)
  have mono: "last_token d s \<le> last_token ?d s" for s unfolding lt using tok by simp
  have "unique_key cl_lease_id (context_leases ?d)"
    using inv fresh by (simp add: rows unique_key_snoc lease_inv_def has_key_def)
  moreover have "cl_fencing_token x \<le> last_token ?d (lease_scope_of x)"
    if "x \<in> set (context_leases ?d)" for x
    using that inv mono [of "lease_scope_of x"] unfolding lt
    by (auto simp: rows lease_inv_def tok split: if_splits)
  moreover have "sorted_wrt (<) (acquired_tokens ?d s) \<and> (\<forall>t \<in> set (acquired_tokens ?d s). t \<le> last_token ?d s)" for s
    using lease_inv_tokens [OF inv, of s] tok unfolding lt at by (force simp: sorted_wrt_append)
  moreover have "ContextLease_post_init x = None" if "x \<in> set (context_leases ?d)" for x
    using that inv v by (auto simp: rows lease_inv_def)
  moreover have "unique_key lease_scope_of (context_leases ?d)" "unique_key fence_scope (fence_counters ?d)"
    using inv by (simp_all add: lease_inv_def)
  ultimately show ?thesis unfolding lease_inv_def by blast
qed

lemma lease_inv_moved:
  assumes inv: "lease_inv d" and l0: "l0 \<in> set (context_leases d)" and m: "lease_moves l0 l"
    and v: "ContextLease_post_init l = None" and e: "le_event_type e \<noteq> ACQUIRED"
  shows "lease_inv (d\<lparr>context_leases := upsert lease_scope_of l (context_leases d),
       lease_event_log := lease_event_log d @ [e]\<rparr>)" (is "lease_inv ?d")
proof -
  have [simp]: "last_token ?d s = last_token d s" "acquired_tokens ?d s = acquired_tokens d s" for s
    using e by (simp_all add: last_token_def acquired_tokens_def)
  have "unique_key cl_lease_id (context_leases ?d)"
    using inv l0 lease_moves_same [OF m] by (simp add: lease_inv_def lease_id_unique_upsert)
  then show ?thesis
    using inv l0 v lease_moves_same [OF m] by (auto simp: lease_inv_def set_upsert_unique)
qed

lemma lease_inv_freed:
  "lease_inv d \<Longrightarrow> le_event_type e \<noteq> ACQUIRED \<Longrightarrow>
     lease_inv (d\<lparr>context_leases := delete_where p (context_leases d),
       lease_event_log := lease_event_log d @ [e]\<rparr>)"
  by (auto simp: lease_inv_def last_token_def acquired_tokens_def set_delete_where)

lemma lease_change_inv: "lease_change d d' \<Longrightarrow> lease_inv d \<Longrightarrow> lease_inv d'"
  by (induction rule: lease_change.induct)
    (blast intro: lease_inv_evidence lease_inv_granted lease_inv_moved lease_inv_freed)+

lemma lease_change_last_token: "lease_change d d' \<Longrightarrow> last_token d s \<le> last_token d' s"
  by (induction rule: lease_change.induct)
    (auto simp: last_token_def lookup_upsert lease_scope_of_def)

lemma lease_change_log: "lease_change d d' \<Longrightarrow> prefix (lease_event_log d) (lease_event_log d')"
  by (induction rule: lease_change.induct) auto

lemma lease_changes_inv: "lease_change\<^sup>*\<^sup>* d d' \<Longrightarrow> lease_inv d \<Longrightarrow> lease_inv d'"
  by (induction rule: rtranclp_induct) (auto intro: lease_change_inv)

lemma lease_changes_last_token: "lease_change\<^sup>*\<^sup>* d d' \<Longrightarrow> last_token d s \<le> last_token d' s"
  by (induction rule: rtranclp_induct) (auto dest: lease_change_last_token intro: order_trans)

lemma lease_changes_log: "lease_change\<^sup>*\<^sup>* d d' \<Longrightarrow> prefix (lease_event_log d) (lease_event_log d')"
  by (induction rule: rtranclp_induct) (auto dest: lease_change_log intro: prefix_order.trans)

interpretation lease_machine: append_only_machine lease_step lease_inv lease_event_log
  using lease_step_changes
  by unfold_locales (blast intro: lease_changes_inv lease_changes_log)+

interpretation lease_tokens: monotone_counter lease_step lease_inv last_token
  using lease_step_changes by unfold_locales (blast intro: lease_changes_last_token)

section \<open>Operations, case by case\<close>

lemma assert_workflow_version_None_iff:
  "assert_workflow_version i v d = None \<longleftrightarrow>
     (\<exists>w. lookup_row wr_workflow_id i (workflow_records d) = Some w
        \<and> v = \<lparr>scope_id = i, counter = counter (wr_workflow_version w)\<rparr>)"
  by (auto simp: assert_workflow_version_def Let_def split: option.splits)

lemma acquire_InrD:
  assumes "acquire ids mode scope key w v own i x ev d = (Inr l, d')"
  shows "lease scope key d = None" "lease scope key d' = Some l"
    "cl_fencing_token l = last_token d (scope, key) + 1" "last_token d' (scope, key) = cl_fencing_token l"
    "cl_state l = held_state mode" "cl_operation_id l = None" "cl_owner_instance_id l = own"
    "assert_workflow_version w v d = None" "cl_workflow_version l = v" "cl_workflow_id l = w"
    "\<And>s k. (s, k) \<noteq> (scope, key) \<Longrightarrow> lease s k d' = lease s k d"
proof -
  have "lease scope key d = None \<and> lease scope key d' = Some l
    \<and> cl_fencing_token l = last_token d (scope, key) + 1 \<and> last_token d' (scope, key) = cl_fencing_token l
    \<and> cl_state l = held_state mode \<and> cl_operation_id l = None \<and> cl_owner_instance_id l = own
    \<and> assert_workflow_version w v d = None \<and> cl_workflow_version l = v \<and> cl_workflow_id l = w
    \<and> (\<forall>s k. (s, k) \<noteq> (scope, key) \<longrightarrow> lease s k d' = lease s k d)"
    using assms
  proof (rule acquire_InrE, goal_cases)
    case (1 e1 e2)
    moreover from 1 have "lease_scope_of l = (scope, key)" by (simp add: lease_scope_of_def)
    ultimately show ?case by (simp add: lease_def lookup_upsert last_token_def)
  qed
  then show "lease scope key d = None" "lease scope key d' = Some l"
    "cl_fencing_token l = last_token d (scope, key) + 1" "last_token d' (scope, key) = cl_fencing_token l"
    "cl_state l = held_state mode" "cl_operation_id l = None" "cl_owner_instance_id l = own"
    "assert_workflow_version w v d = None" "cl_workflow_version l = v" "cl_workflow_id l = w"
    "\<And>s k. (s, k) \<noteq> (scope, key) \<Longrightarrow> lease s k d' = lease s k d" by auto
qed

text \<open>A row stays when another row, of another scope, is rewritten or deleted.\<close>

lemma lease_change_keeps:
  assumes "lease_change d d'" "lease_inv d" "l \<in> set (context_leases d)"
    and "cl_state l \<notin> set HELD_STATES"
  shows "l \<in> set (context_leases d')"
  using assms
proof (induction rule: lease_change.induct)
  case (granted l' d e2 es es')
  then show ?case by (auto simp: set_upsert_unique lookup_row_None_iff has_key_def)
next
  case (moved l0 d l' e)
  then have "l \<noteq> l0" by (auto simp: lease_moves_def)
  with moved have "lease_scope_of l \<noteq> lease_scope_of l'"
    using lease_moves_same [OF moved(2)] by (auto simp: lease_inv_def dest: unique_keyD)
  with moved show ?case by (simp add: set_upsert_unique)
next
  case (freed l0 d e)
  then have "lease_scope_of l \<noteq> lease_scope_of l0" by (auto simp: lease_inv_def dest: unique_keyD)
  with freed show ?case by (simp add: set_delete_where)
qed simp

lemma lease_changes_keep:
  "lease_change\<^sup>*\<^sup>* d d' \<Longrightarrow> lease_inv d \<Longrightarrow> l \<in> set (context_leases d) \<Longrightarrow>
     cl_state l \<notin> set HELD_STATES \<Longrightarrow> l \<in> set (context_leases d')"
  by (induction rule: rtranclp_induct) (auto intro: lease_change_keeps lease_changes_inv)

lemma run_keeps_recovery:
  "lease_inv d \<Longrightarrow> l \<in> set (context_leases d) \<Longrightarrow> cl_state l \<notin> set HELD_STATES \<Longrightarrow>
     l \<in> set (context_leases (run_ops lease_step d cs))"
  by (induction cs arbitrary: d)
    (auto intro: lease_changes_keep [OF lease_step_changes] lease_changes_inv [OF lease_step_changes])

text \<open>The row of a lease with a call in flight survives one change, expiry sweeps included.\<close>

definition carries :: "context_lease \<Rightarrow> db \<Rightarrow> bool" where
  "carries l d \<longleftrightarrow> (\<exists>l' \<in> set (context_leases d). lease_scope_of l' = lease_scope_of l
     \<and> cl_lease_id l' = cl_lease_id l \<and> cl_fencing_token l' = cl_fencing_token l)"

lemma carries_self: "l \<in> set (context_leases d) \<Longrightarrow> carries l d"
  by (auto simp: carries_def)

lemma lease_change_keeps_in_flight:
  assumes "lease_change d d'" "lease_inv d" "l \<in> set (context_leases d)" "cl_operation_id l \<noteq> None"
  shows "carries l d'"
  using assms
proof (induction rule: lease_change.induct)
  case (granted l' d e2 es es')
  then show ?case by (fastforce simp: carries_def set_upsert_unique lookup_row_None_iff has_key_def)
next
  case (moved l0 d l' e)
  show ?case
  proof (cases "lease_scope_of l = lease_scope_of l'")
    case True
    then have "l = l0" using moved lease_moves_same [OF moved(2)]
      by (auto simp: lease_inv_def dest: unique_keyD)
    then show ?thesis using lease_moves_same [OF moved(2)] by (auto simp: carries_def set_upsert_unique)
  next
    case False
    with moved show ?thesis by (auto simp: carries_def set_upsert_unique)
  qed
next
  case (freed l0 d e)
  then have "lease_scope_of l \<noteq> lease_scope_of l0" by (auto simp: lease_inv_def dest: unique_keyD)
  with freed show ?case by (auto simp: carries_def set_delete_where)
qed (auto simp: carries_def)

lemma expire_keeps_in_flight:
  assumes inv: "lease_inv d" and l: "l \<in> set (context_leases d)" and op: "cl_operation_id l \<noteq> None"
  shows "\<exists>l' \<in> set (context_leases (snd (expire ids s k t ev d))). lease_scope_of l' = lease_scope_of l
     \<and> cl_lease_id l' = cl_lease_id l \<and> cl_fencing_token l' = cl_fencing_token l
     \<and> cl_operation_id l' \<noteq> None"
proof (cases "expire ids s k t ev d")
  case (Pair r d')
  have u: "unique_key lease_scope_of (context_leases d)" using inv by (simp add: lease_inv_def)
  show ?thesis
  proof (cases r)
    case (Inl e)
    with Pair expire_InlD [of ids s k t ev d e d'] l op show ?thesis by auto
  next
    case (Inr n)
    with Pair have "expire ids s k t ev d = (Inr n, d')" by simp
    then have "\<exists>l' \<in> set (context_leases d'). lease_scope_of l' = lease_scope_of l
     \<and> cl_lease_id l' = cl_lease_id l \<and> cl_fencing_token l' = cl_fencing_token l \<and> cl_operation_id l' \<noteq> None"
    proof (cases rule: expire_InrE)
      case (freed l0)
      from lease_SomeD [OF freed(1)] freed(4) op l u have "lease_scope_of l \<noteq> (s, k)"
        by (metis unique_keyD)
      with freed(6) l op show ?thesis
        by (auto simp: delete_lease_def set_delete_where elim!: append_event_InrD)
    next
      case (moved l0)
      from moved(7) have "context_leases d' = upsert lease_scope_of n (context_leases d)"
        by (auto simp: write_lease_row_Inr_iff elim!: append_event_InrD)
      moreover have "lease_scope_of n = lease_scope_of l0" using moved(6) by (simp add: lease_scope_of_def)
      moreover have "lease_scope_of l = lease_scope_of l0 \<Longrightarrow> l = l0"
        using u l lease_SomeD [OF moved(1)] by (blast dest: unique_keyD)
      ultimately show ?thesis using l op moved(6)
        by (cases "lease_scope_of l = lease_scope_of l0") (auto simp: set_upsert_unique)
    qed
    with Pair show ?thesis by simp
  qed
qed

lemma expire_each_keeps_in_flight:
  assumes "lease_inv d" "l \<in> set (context_leases d)" "cl_operation_id l \<noteq> None"
  shows "carries l (snd (expire_each ids t ev ls d))"
  using assms
proof (induction ls arbitrary: ids d l)
  case Nil
  then show ?case by (auto simp: carries_def)
next
  case (Cons a ls)
  obtain r d1 where e: "expire ids (cl_service_scope_digest a) (cl_configuration_key a) t ev d = (r, d1)"
    by fastforce
  from expire_keeps_in_flight [OF Cons.prems, of ids "cl_service_scope_digest a" "cl_configuration_key a" t ev] e
  obtain l' where l': "l' \<in> set (context_leases d1)" "lease_scope_of l' = lease_scope_of l"
      "cl_lease_id l' = cl_lease_id l" "cl_fencing_token l' = cl_fencing_token l" "cl_operation_id l' \<noteq> None"
    by auto
  have "lease_inv d1"
    using expire_change [of ids "cl_service_scope_digest a" "cl_configuration_key a" t ev d] e Cons.prems(1)
    by (auto dest: lease_change_inv)
  from Cons.IH [OF this l'(1,5), of "shift_supply 1 ids"]
  have "carries l (snd (expire_each (shift_supply 1 ids) t ev ls d1))" using l' by (simp add: carries_def)
  moreover have "carries l d1" using l' by (auto simp: carries_def)
  ultimately show ?case using e by (auto split: sum.splits prod.splits)
qed

lemma lease_step_change:
  "(\<forall>ids t r f. c \<noteq> ExpireDue ids t r f) \<Longrightarrow> lease_step d c = d \<or> lease_change d (lease_step d c)"
  using acquire_change [OF surjective_pairing]
    release_with_change [of RELEASED_FOR_AUTHORIZATION] release_with_change [of RELEASED]
    start_atomic_call_change finish_atomic_call_change expire_change
  by (cases c) (auto simp: release_for_authorization_def release_def)

lemma lease_step_keeps_in_flight:
  assumes "lease_inv d" "l \<in> set (context_leases d)" "cl_operation_id l \<noteq> None"
  shows "carries l (lease_step d c)"
proof (cases "\<exists>ids t r f. c = ExpireDue ids t r f")
  case True
  with assms show ?thesis
    by (auto simp: expire_due_def expire_each_keeps_in_flight carries_self split: option.splits)
next
  case False
  with lease_step_change [of c d] assms show ?thesis
    by (auto intro: lease_change_keeps_in_flight carries_self)
qed

section \<open>Holder claims\<close>

text \<open>
  What a holder must show: the lease is held, under the claimed token, owner and
  workflow version, not yet expired, and the workflow is still at that version.
\<close>

definition holds_lease :: "context_lease \<Rightarrow> holder_claim \<Rightarrow> db \<Rightarrow> bool" where
  "holds_lease l c d \<longleftrightarrow> cl_lease_id l = hc_lease_id c \<and> cl_state l \<in> set HELD_STATES
     \<and> cl_fencing_token l = hc_fencing_token c \<and> cl_owner_instance_id l = hc_owner_instance_id c
     \<and> cl_workflow_version l = hc_workflow_version c \<and> hc_occurred_at c < cl_expires_at l
     \<and> assert_workflow_version (cl_workflow_id l) (cl_workflow_version l) d = None"

fun claim_of :: "lease_command \<Rightarrow> holder_claim option" where
  "claim_of (ReleaseForAuthorization ids c ev) = Some c"
| "claim_of (Release ids c ev) = Some c"
| "claim_of (StartAtomicCall ids c i ev) = Some c"
| "claim_of (FinishAtomicCall ids c i ev) = Some c"
| "claim_of _ = None"

definition only_rejected :: "holder_claim \<Rightarrow> db \<Rightarrow> db \<Rightarrow> bool" where
  "only_rejected c d d' \<longleftrightarrow> d' = d \<or> (\<exists>e. d' = d\<lparr>lease_event_log := lease_event_log d @ [e]\<rparr>
     \<and> le_event_type e = STALE_FENCE_REJECTED \<and> le_lease_id e = hc_lease_id c
     \<and> le_fencing_token e = hc_fencing_token c \<and> le_state_after e = le_state_before e)"

lemma raise_if_stale_cases:
  assumes "raise_if_stale (transaction body d) = (r, d')"
  obtains (failed) e where "body d = Inl e" "r = Inl e" "d' = d"
    | (stale) l reason n where "body d = Inr ((l, Some reason, n), d')" "r = Inl (LeaseFenceRejectedError l reason)"
    | (ok) l n where "body d = Inr ((l, None, n), d')" "r = Inr n"
  using assms
  by (auto simp: raise_if_stale_def transaction_def split: sum.splits option.splits prod.splits)

lemma append_stale_rejection_only:
  "append_stale_rejection i l c r ev op d = Inr d' \<Longrightarrow> cl_lease_id l = hc_lease_id c \<Longrightarrow> only_rejected c d d'"
  unfolding append_stale_rejection_def only_rejected_def by (elim append_event_InrD) auto

lemma holder_failure_holds:
  "current_by_id (hc_lease_id c) d = Inr l \<Longrightarrow> holder_failure l c b d = Inr None \<Longrightarrow> holds_lease l c d"
  by (drule current_by_id_InrD, drule holder_failure_accepts) (auto simp: holds_lease_def)

lemma release_with_outcome:
  assumes "release_with ty pv ids c ev d = (r, d')"
  shows "(\<exists>e. r = Inl e) \<and> only_rejected c d d'
    \<or> (\<exists>l e. r = Inr l \<and> l \<in> set (context_leases d) \<and> holds_lease l c d \<and> cl_operation_id l = None
        \<and> (pv \<longrightarrow> cl_mode l = PREVIEW_MODE) \<and> le_event_type e = ty \<and> le_state_after e = AVAILABLE
        \<and> d' = delete_lease (cl_service_scope_digest l) (cl_configuration_key l)
             (d\<lparr>lease_event_log := lease_event_log d @ [e]\<rparr>))"
  using assms unfolding release_with_def
proof (cases rule: raise_if_stale_cases)
  case (stale l reason n)
  then have "current_by_id (hc_lease_id c) d = Inr l"
    and "append_stale_rejection (ids 0) l c reason ev None d = Inr d'"
    by (auto simp: attempt_Inr_iff Let_def split: option.splits if_splits)
  with stale show ?thesis by (auto intro: append_stale_rejection_only dest: current_by_id_InrD)
next
  case (ok l n)
  then obtain d2 where cur: "current_by_id (hc_lease_id c) d = Inr l"
    and h: "holder_failure l c True d = Inr None" "pv \<longrightarrow> cl_mode l = PREVIEW_MODE" "n = l"
    and e: "append_event (ids 0) l ty (hc_occurred_at c) (cl_state l) AVAILABLE ev None None d = Inr d2"
    and d1: "d' = delete_lease (cl_service_scope_digest l) (cl_configuration_key l) d2"
    by (clarsimp simp: attempt_Inr_iff Let_def split: if_split_asm)
      (auto simp: attempt_Inr_iff split: option.split_asm)
  from e obtain ev' where "d2 = d\<lparr>lease_event_log := lease_event_log d @ [ev']\<rparr>" "le_event_type ev' = ty"
    "le_state_after ev' = AVAILABLE" by (rule append_event_InrD)
  with ok h(2,3) d1 current_by_id_InrD [OF cur] holder_failure_accepts [OF h(1)]
    holder_failure_holds [OF cur h(1)]
  show ?thesis by (intro disjI2 exI [of _ l] exI [of _ ev']) simp
qed (simp add: only_rejected_def)

lemma start_atomic_call_outcome:
  assumes "start_atomic_call ids c i ev d = (r, d')"
  shows "(\<exists>e. r = Inl e) \<and> only_rejected c d d'
    \<or> (\<exists>l e. r = Inr (l\<lparr>cl_operation_id := Some i\<rparr>) \<and> l \<in> set (context_leases d) \<and> holds_lease l c d
        \<and> cl_operation_id l = None \<and> le_event_type e = ATOMIC_CALL_STARTED \<and> le_operation_id e = Some i
        \<and> d' = d\<lparr>context_leases := upsert lease_scope_of (l\<lparr>cl_operation_id := Some i\<rparr>) (context_leases d),
                 lease_event_log := lease_event_log d @ [e]\<rparr>)"
  using assms unfolding start_atomic_call_def
proof (cases rule: raise_if_stale_cases)
  case (stale l reason n)
  then have "current_by_id (hc_lease_id c) d = Inr l"
    and "append_stale_rejection (ids 0) l c reason ev None d = Inr d'"
    by (auto simp: checked_Inr_iff attempt_Inr_iff build_record_Inr_iff split: option.splits)
  with stale show ?thesis by (auto intro: append_stale_rejection_only dest: current_by_id_InrD)
next
  case (ok l n)
  then obtain d2 where cur: "current_by_id (hc_lease_id c) d = Inr l"
    and h: "holder_failure l c True d = Inr None" and n: "n = l\<lparr>cl_operation_id := Some i\<rparr>"
    and w: "write_lease_row n d = Inr d2"
    and e: "append_event (ids 0) n ATOMIC_CALL_STARTED (hc_occurred_at c) (cl_state l) (cl_state n) ev
        (Some i) None d2 = Inr d'"
    by (auto simp: checked_Inr_iff attempt_Inr_iff build_record_Inr_iff split: option.splits)
  from e obtain ev' where "d' = d2\<lparr>lease_event_log := lease_event_log d2 @ [ev']\<rparr>"
    "le_event_type ev' = ATOMIC_CALL_STARTED" "le_operation_id ev' = Some i" by (rule append_event_InrD)
  moreover from w have "d2 = d\<lparr>context_leases := upsert lease_scope_of n (context_leases d)\<rparr>"
    by (simp add: write_lease_row_Inr_iff)
  ultimately show ?thesis
    using ok n current_by_id_InrD [OF cur] holder_failure_accepts [OF h] holder_failure_holds [OF cur h]
    by (intro disjI2 exI [of _ l] exI [of _ ev']) simp
qed (simp add: only_rejected_def)

lemma finish_atomic_call_outcome:
  assumes "finish_atomic_call ids c i ev d = (r, d')"
  shows "(\<exists>e. r = Inl e) \<and> only_rejected c d d'
    \<or> (\<exists>l e. r = Inr (l\<lparr>cl_operation_id := None\<rparr>) \<and> l \<in> set (context_leases d) \<and> holds_lease l c d
        \<and> cl_operation_id l = Some i \<and> le_event_type e = ATOMIC_CALL_FINISHED \<and> le_operation_id e = Some i
        \<and> d' = d\<lparr>context_leases := upsert lease_scope_of (l\<lparr>cl_operation_id := None\<rparr>) (context_leases d),
                 lease_event_log := lease_event_log d @ [e]\<rparr>)"
  using assms unfolding finish_atomic_call_def
proof (cases rule: raise_if_stale_cases)
  case (stale l reason n)
  then have "current_by_id (hc_lease_id c) d = Inr l"
    and "append_stale_rejection (ids 0) l c reason ev (Some i) d = Inr d'"
    by (auto simp: checked_Inr_iff attempt_Inr_iff build_record_Inr_iff Let_def split: option.splits if_splits)
  with stale show ?thesis by (auto intro: append_stale_rejection_only dest: current_by_id_InrD)
next
  case (ok l n)
  then obtain d2 where cur: "current_by_id (hc_lease_id c) d = Inr l"
    and h: "holder_failure l c False d = Inr None" and op: "cl_operation_id l = Some i"
    and n: "n = l\<lparr>cl_operation_id := None\<rparr>"
    and w: "write_lease_row n d = Inr d2"
    and e: "append_event (ids 0) n ATOMIC_CALL_FINISHED (hc_occurred_at c) (cl_state l) (cl_state n) ev
        (Some i) None d2 = Inr d'"
    by (clarsimp simp: checked_Inr_iff attempt_Inr_iff Let_def split: if_split_asm)
      (auto simp: attempt_Inr_iff build_record_Inr_iff split: option.split_asm)
  from e obtain ev' where "d' = d2\<lparr>lease_event_log := lease_event_log d2 @ [ev']\<rparr>"
    "le_event_type ev' = ATOMIC_CALL_FINISHED" "le_operation_id ev' = Some i" by (rule append_event_InrD)
  moreover from w have "d2 = d\<lparr>context_leases := upsert lease_scope_of n (context_leases d)\<rparr>"
    by (simp add: write_lease_row_Inr_iff)
  ultimately show ?thesis
    using ok n op current_by_id_InrD [OF cur] holder_failure_holds [OF cur h]
    by (intro disjI2 exI [of _ l] exI [of _ ev']) simp
qed (simp add: only_rejected_def)

section \<open>The expiry sweep\<close>

lemma expire_rows:
  assumes "expire ids s k t ev d = (Inr n, d')" "lease_inv d" "l \<in> set (context_leases d')"
    and "cl_state l \<in> set HELD_STATES"
  shows "l \<in> set (context_leases d) \<and> lease_scope_of l \<noteq> (s, k)"
  using assms(1)
proof (cases rule: expire_InrE)
  case (freed l0)
  from freed(6) have "context_leases d' = delete_where (\<lambda>x. lease_scope_of x = (s, k)) (context_leases d)"
    by (auto simp: delete_lease_def elim!: append_event_InrD)
  with assms show ?thesis by (simp add: set_delete_where)
next
  case (moved l0)
  from moved(7) have "context_leases d' = upsert lease_scope_of n (context_leases d)"
    by (auto simp: write_lease_row_Inr_iff elim!: append_event_InrD)
  moreover have "lease_scope_of n = (s, k)" "cl_state n = IN_FLIGHT_EXPIRED"
    using moved(6) lease_SomeD [OF moved(1)] by (simp_all add: lease_scope_of_def)
  ultimately show ?thesis using assms(3,4) by (auto simp: set_upsert_unique HELD_STATES_def)
qed

lemma expire_each_covers:
  assumes "expire_each ids t ev ls d = (Inr ns, d')" "lease_inv d"
    and "\<forall>l \<in> set (context_leases d). cl_state l \<in> set HELD_STATES \<and> cl_expires_at l \<le> t \<longrightarrow> l \<in> set ls"
    and "l \<in> set (context_leases d')" "cl_state l \<in> set HELD_STATES"
  shows "t < cl_expires_at l"
  using assms
proof (induction ls arbitrary: ids d ns)
  case Nil
  then show ?case by fastforce
next
  case (Cons a ls)
  from Cons.prems(1) obtain n d1 ms where
    e: "expire ids (cl_service_scope_digest a) (cl_configuration_key a) t ev d = (Inr n, d1)"
    and r: "expire_each (shift_supply 1 ids) t ev ls d1 = (Inr ms, d')"
    by (auto split: prod.splits sum.splits)
  have inv: "lease_inv d1"
    using expire_change [of ids "cl_service_scope_digest a" "cl_configuration_key a" t ev d] e Cons.prems(2)
    by (auto dest: lease_change_inv)
  have "\<forall>l \<in> set (context_leases d1). cl_state l \<in> set HELD_STATES \<and> cl_expires_at l \<le> t \<longrightarrow> l \<in> set ls"
    using Cons.prems(3) expire_rows [OF e Cons.prems(2)]
    by (auto simp: lease_scope_of_def)
  from Cons.IH [OF r inv this Cons.prems(4,5)] show ?case .
qed

lemma lease_inv_no_leases:
  "context_leases d = [] \<Longrightarrow> fence_counters d = [] \<Longrightarrow> lease_event_log d = [] \<Longrightarrow> lease_inv d"
  by (simp add: lease_inv_def acquired_tokens_def)

lemma lease_inv_sample_db [simp]: "lease_inv (sample_db st n)"
  by (simp add: sample_db_def empty_db_def lease_inv_no_leases)

text \<open>Stored instants compare as their text when both show a fraction or neither does.\<close>

definition same_precision :: "datetime \<Rightarrow> datetime \<Rightarrow> bool" where
  "same_precision s t \<longleftrightarrow> dt_valid s \<and> dt_valid t \<and> (dt_micro s = 0) = (dt_micro t = 0)"

lemma due_leases_exact:
  "\<forall>l \<in> set (context_leases d). same_precision (cl_expires_at l) t \<Longrightarrow>
     set (due_leases t d)
       = {l \<in> set (context_leases d). cl_state l \<in> set HELD_STATES \<and> cl_expires_at l \<le> t}"
  by (auto simp: due_leases_def same_precision_def encode_utc_timestamp_le_iff)

lemma upsert_again:
  assumes "unique_key key rows" "r \<in> set rows" "key x = key r"
  shows "upsert key r (upsert key x rows) = rows"
proof -
  have 1: "upsert key x rows = update_where (\<lambda>y. key y = key r) (\<lambda>_. x) rows"
    using assms by (auto simp: upsert_def has_key_def)
  have "has_key key (key r) (upsert key x rows)"
    using assms by (auto simp: has_key_def set_upsert_unique)
  then have "upsert key r (upsert key x rows)
      = update_where (\<lambda>y. key y = key r) (\<lambda>_. r) (update_where (\<lambda>y. key y = key r) (\<lambda>_. x) rows)"
    unfolding 1 by (simp add: upsert_def)
  also have "\<dots> = map (\<lambda>y. if key y = key r then r else y) rows"
    using assms(3) by (simp add: update_where_def o_def)
  also have "\<dots> = rows"
    using unique_keyD [OF assms(1) _ assms(2)] by (intro map_idI) auto
  finally show ?thesis .
qed

section \<open>Sample arguments\<close>

definition sample_evidence :: evidence where
  "sample_evidence = \<lparr>ev_reason = ''because'', ev_reference = ''evidence'', ev_command_id = None,
     ev_correlation_id = None\<rparr>"

definition sample_acquire :: "nat \<Rightarrow> lease_mode \<Rightarrow> lease_command" where
  "sample_acquire i m = Acquire (sample_ids i) m sample_scope sample_key (sample_uuid 1) (sample_version 0)
     (sample_uuid 2) (sample_time 0 0) (sample_time 10 0) sample_evidence"

definition sample_claim :: "nat \<Rightarrow> int \<Rightarrow> nat \<Rightarrow> holder_claim" where
  "sample_claim i token t = \<lparr>hc_lease_id = sample_uuid i, hc_fencing_token = token,
     hc_owner_instance_id = sample_uuid 2, hc_workflow_version = sample_version 0,
     hc_occurred_at = sample_time t 0\<rparr>"

definition sample_run :: "lease_command list \<Rightarrow> db" where
  "sample_run cs = run_ops lease_step (sample_db NEW 0) cs"

lemma sample_run_inv [simp]: "lease_inv (sample_run cs)"
  unfolding sample_run_def by (rule lease_machine.run_inv) simp

section \<open>Properties\<close>

text \<open>C3: fencing tokens.  Whatever commands the lease store executes, in whatever
  order and with whatever arguments, the tokens of the grants recorded for one scope
  strictly increase, so no token is ever granted twice, and the scope's durable counter
  is never lowered and bounds them all.\<close>

theorem fencing_tokens_strictly_increase:
  assumes "lease_inv d"
  shows "sorted_wrt (<) (acquired_tokens (run_ops lease_step d cs) s)
    \<and> (\<forall>t \<in> set (acquired_tokens (run_ops lease_step d cs) s). t \<le> last_token (run_ops lease_step d cs) s)
    \<and> last_token d s \<le> last_token (run_ops lease_step d cs) s"
  using lease_inv_tokens [OF lease_machine.run_inv [OF assms]] lease_tokens.run_counter_mono [OF assms]
  by blast

theorem fencing_tokens_strictly_increase_witness:
  "sorted_wrt (<) (acquired_tokens (run_ops lease_step (sample_db NEW 0)
       [sample_acquire 10 PREVIEW_MODE, Release (sample_ids 20) (sample_claim 10 1 1) sample_evidence,
        sample_acquire 30 EXECUTION_MODE]) (sample_scope, sample_key))
   \<and> acquired_tokens (run_ops lease_step (sample_db NEW 0)
       [sample_acquire 10 PREVIEW_MODE, Release (sample_ids 20) (sample_claim 10 1 1) sample_evidence,
        sample_acquire 30 EXECUTION_MODE]) (sample_scope, sample_key) = [1, 2]"
  by (rule conjI [OF fencing_tokens_strictly_increase [OF lease_inv_sample_db, THEN conjunct1]]) code_simp

text \<open>An acquisition that returns found the scope free and the workflow at the expected
  version; it installs a lease of the requested mode under the next token and leaves every
  other scope as it was.\<close>

theorem acquire_grants_free_scope:
  assumes "acquire ids mode scope key w v own i x ev d = (Inr l, d')"
  shows "lease scope key d = None \<and> lease scope key d' = Some l
    \<and> cl_fencing_token l = last_token d (scope, key) + 1 \<and> last_token d' (scope, key) = cl_fencing_token l
    \<and> cl_state l = held_state mode \<and> cl_owner_instance_id l = own \<and> cl_operation_id l = None
    \<and> assert_workflow_version w v d = None
    \<and> (\<forall>s k. (s, k) \<noteq> (scope, key) \<longrightarrow> lease s k d' = lease s k d)"
  using acquire_InrD [OF assms] by blast

theorem acquire_grants_free_scope_witness:
  "lease sample_scope sample_key (sample_db NEW 0) = None
   \<and> lease sample_scope sample_key (lease_step (sample_db NEW 0) (sample_acquire 10 PREVIEW_MODE)) \<noteq> None"
proof -
  let ?r = "acquire (sample_ids 10) PREVIEW_MODE sample_scope sample_key (sample_uuid 1) (sample_version 0)
     (sample_uuid 2) (sample_time 0 0) (sample_time 10 0) sample_evidence (sample_db NEW 0)"
  have "\<not> isl (fst ?r)" by code_simp
  note r = call_returned [OF this]
  from acquire_grants_free_scope [OF r] show ?thesis by (simp add: sample_acquire_def)
qed

text \<open>Mutual exclusion of a scope.  While a scope has a lease, held or in recovery, an
  acquisition of it fails, with \<open>LeaseBusyError\<close> naming that lease once the arguments are
  well formed, and nothing is written.\<close>

theorem acquire_busy_scope:
  assumes "lease scope key d = Some current"
  shows "snd (acquire ids mode scope key w v own i x ev d) = d
    \<and> (fst (acquire ids mode scope key w v own i x ev d) = Inl (LeaseBusyError current)
       \<or> (\<exists>e. fst (acquire ids mode scope key w v own i x ev d) = Inl (Invalid e)))"
  using assms
  by (auto simp: acquire_def transaction_def checked_def split: option.splits sum.splits)

theorem acquire_busy_scope_witness:
  "\<exists>current. lease sample_scope sample_key (sample_run [sample_acquire 10 PREVIEW_MODE]) = Some current
     \<and> lease_step (sample_run [sample_acquire 10 PREVIEW_MODE]) (sample_acquire 20 EXECUTION_MODE)
         = sample_run [sample_acquire 10 PREVIEW_MODE]"
proof -
  have "lease sample_scope sample_key (sample_run [sample_acquire 10 PREVIEW_MODE]) \<noteq> None" by code_simp
  then obtain current where c: "lease sample_scope sample_key (sample_run [sample_acquire 10 PREVIEW_MODE]) = Some current"
    by blast
  from acquire_busy_scope [OF c] c show ?thesis by (auto simp: sample_acquire_def [of 20])
qed

lemma stale_claim_rejection:
  assumes "claim_of cmd = Some c" and "\<forall>l \<in> set (context_leases d). \<not> holds_lease l c d"
  shows "only_rejected c d (lease_step d cmd)"
proof (cases cmd)
  case (ReleaseForAuthorization ids c' ev)
  with release_with_outcome [of RELEASED_FOR_AUTHORIZATION True ids c' ev d, OF surjective_pairing] assms
  show ?thesis by (auto simp: release_for_authorization_def)
next
  case (Release ids c' ev)
  with release_with_outcome [of RELEASED False ids c' ev d, OF surjective_pairing] assms
  show ?thesis by (auto simp: release_def)
next
  case (StartAtomicCall ids c' i ev)
  with start_atomic_call_outcome [of ids c' i ev d, OF surjective_pairing] assms show ?thesis by auto
next
  case (FinishAtomicCall ids c' i ev)
  with finish_atomic_call_outcome [of ids c' i ev d, OF surjective_pairing] assms show ?thesis by auto
qed (use assms in auto)

text \<open>C6: a holder operation (release, release for authorization, start or finish of an
  atomic call) whose claim does not hold the current lease changes no lease and no counter;
  it writes at most one \<open>STALE_FENCE_REJECTED\<close> event carrying the rejected token.\<close>

theorem stale_claim_only_rejected:
  assumes "claim_of cmd = Some c" and "\<forall>l \<in> set (context_leases d). \<not> holds_lease l c d"
  shows "only_rejected c d (lease_step d cmd)"
  using assms by (rule stale_claim_rejection)

theorem stale_claim_only_rejected_witness:
  "only_rejected (sample_claim 10 7 1) (sample_run [sample_acquire 10 PREVIEW_MODE])
     (lease_step (sample_run [sample_acquire 10 PREVIEW_MODE])
        (Release (sample_ids 20) (sample_claim 10 7 1) sample_evidence))
   \<and> map le_event_type (lease_event_log (lease_step (sample_run [sample_acquire 10 PREVIEW_MODE])
        (Release (sample_ids 20) (sample_claim 10 7 1) sample_evidence)))
     = [ACQUIRE_ATTEMPTED, ACQUIRED, STALE_FENCE_REJECTED]"
proof (rule conjI [OF stale_claim_only_rejected])
  have "list_all (\<lambda>l. cl_fencing_token l \<noteq> 7) (context_leases (sample_run [sample_acquire 10 PREVIEW_MODE]))"
    by code_simp
  then show "\<forall>l \<in> set (context_leases (sample_run [sample_acquire 10 PREVIEW_MODE])).
      \<not> holds_lease l (sample_claim 10 7 1) (sample_run [sample_acquire 10 PREVIEW_MODE])"
    by (auto simp: list_all_iff holds_lease_def sample_claim_def)
qed (simp, code_simp)

text \<open>Recovery is never left silently.  A lease in a recovery state stays the current
  lease of its scope, unchanged, whatever commands the lease store executes; every
  acquisition of the scope therefore still fails.\<close>

theorem recovery_lease_blocks_scope:
  assumes "lease_inv d" and "lease scope key d = Some l" and "cl_state l \<in> set RECOVERY_STATES"
  shows "lease scope key (run_ops lease_step d cs) = Some l
    \<and> (\<exists>e. fst (acquire ids mode scope key w v own i x ev (run_ops lease_step d cs)) = Inl e)"
proof -
  let ?d = "run_ops lease_step d cs"
  have "l \<in> set (context_leases ?d)"
    using assms lease_SomeD [OF assms(2)] held_not_recovery by (blast intro: run_keeps_recovery)
  moreover have "unique_key lease_scope_of (context_leases ?d)"
    using lease_machine.run_inv [OF assms(1)] by (simp add: lease_inv_def)
  ultimately have "lease scope key ?d = Some l"
    using lease_SomeD [OF assms(2)] lookup_row_unique [of lease_scope_of "context_leases ?d" l]
    by (simp add: lease_def)
  with acquire_InrD(1) [of ids mode scope key w v own i x ev ?d] show ?thesis
    by (cases "acquire ids mode scope key w v own i x ev ?d"; cases "fst (acquire ids mode scope key w v own i x ev ?d)")
      auto
qed

definition sample_in_flight :: "lease_command list" where
  "sample_in_flight = [sample_acquire 10 EXECUTION_MODE,
     StartAtomicCall (sample_ids 20) (sample_claim 10 1 1) (sample_uuid 40) sample_evidence]"

definition sample_expire :: "nat \<Rightarrow> lease_command" where
  "sample_expire t = Expire (sample_ids 30) sample_scope sample_key (sample_time t 0) sample_evidence"

theorem recovery_lease_blocks_scope_witness:
  "lease sample_scope sample_key
     (run_ops lease_step (sample_run (sample_in_flight @ [sample_expire 20])) [sample_expire 20, sample_acquire 50 PREVIEW_MODE])
   = lease sample_scope sample_key (sample_run (sample_in_flight @ [sample_expire 20]))"
proof -
  let ?d = "sample_run (sample_in_flight @ [sample_expire 20])"
  have "(case lease sample_scope sample_key ?d of None \<Rightarrow> False | Some l \<Rightarrow> cl_state l = IN_FLIGHT_EXPIRED)"
    by code_simp
  then obtain l where l: "lease sample_scope sample_key ?d = Some l" "cl_state l \<in> set RECOVERY_STATES"
    by (auto simp: RECOVERY_STATES_def split: option.splits)
  from recovery_lease_blocks_scope [OF sample_run_inv l] l(1) show ?thesis by (simp only:)
qed

text \<open>while an atomic call is in flight, no single command, an expiry sweep included,
  frees the scope or regrants it: the lease's row, with its identity and its token, is
  still there.\<close>

theorem in_flight_lease_is_kept:
  assumes "lease_inv d" and "l \<in> set (context_leases d)" and "cl_operation_id l \<noteq> None"
  shows "\<exists>l' \<in> set (context_leases (lease_step d cmd)). lease_scope_of l' = lease_scope_of l
     \<and> cl_lease_id l' = cl_lease_id l \<and> cl_fencing_token l' = cl_fencing_token l"
  using lease_step_keeps_in_flight [OF assms, of cmd] by (simp add: carries_def)

theorem in_flight_lease_is_kept_witness:
  "\<exists>l \<in> set (context_leases (sample_run sample_in_flight)).
     \<exists>l' \<in> set (context_leases (lease_step (sample_run sample_in_flight) (ExpireDue (sample_ids 60) (sample_time 30 0) ''due'' ''sweep''))).
       cl_lease_id l' = cl_lease_id l"
proof -
  have "list_ex (\<lambda>l. cl_operation_id l \<noteq> None) (context_leases (sample_run sample_in_flight))" by code_simp
  then obtain l where "l \<in> set (context_leases (sample_run sample_in_flight))" "cl_operation_id l \<noteq> None"
    by (auto simp: list_ex_iff)
  with in_flight_lease_is_kept [OF sample_run_inv this,
      of "ExpireDue (sample_ids 60) (sample_time 30 0) ''due'' ''sweep''"]
  show ?thesis by blast
qed

text \<open>Starting an atomic call and finishing it, by a holder of the lease, puts the lease
  table back as it was and returns the lease as it was before the call.\<close>

theorem start_then_finish_restores:
  assumes "lease_inv d" and "start_atomic_call ids c i ev d = (Inr l1, d1)"
    and "finish_atomic_call ids' c' i ev' d1 = (Inr l2, d2)" and "hc_lease_id c' = hc_lease_id c"
  shows "context_leases d2 = context_leases d \<and> l1 = l2\<lparr>cl_operation_id := Some i\<rparr>
    \<and> l2 \<in> set (context_leases d)"
proof -
  from start_atomic_call_outcome [OF assms(2)] obtain l where
    l1: "l1 = l\<lparr>cl_operation_id := Some i\<rparr>" and l: "l \<in> set (context_leases d)" "holds_lease l c d"
      "cl_operation_id l = None"
    and d1: "context_leases d1 = upsert lease_scope_of l1 (context_leases d)" by auto
  from finish_atomic_call_outcome [OF assms(3)] obtain m where
    l2: "l2 = m\<lparr>cl_operation_id := None\<rparr>" and m: "m \<in> set (context_leases d1)" "holds_lease m c' d1"
    and d2: "context_leases d2 = upsert lease_scope_of l2 (context_leases d1)" by auto
  have u: "unique_key lease_scope_of (context_leases d)" "unique_key cl_lease_id (context_leases d)"
    using assms(1) by (simp_all add: lease_inv_def)
  have sc: "lease_scope_of l1 = lease_scope_of l" by (simp add: l1 lease_scope_of_def)
  have "cl_lease_id m = cl_lease_id l" using m(2) l(2) assms(4) by (simp add: holds_lease_def)
  then have "m \<in> set (context_leases d) \<Longrightarrow> m = l" using unique_keyD [OF u(2) _ l(1)] by blast
  with m(1) have "m = l1" unfolding d1 set_upsert_unique by (auto simp: sc)
  then have "l2 = l" using l2 l1 l(3) by simp
  with d1 d2 sc u l l1 show ?thesis by (simp add: upsert_again)
qed

theorem start_then_finish_restores_witness:
  "context_leases (sample_run (sample_in_flight
       @ [FinishAtomicCall (sample_ids 50) (sample_claim 10 1 3) (sample_uuid 40) sample_evidence]))
   = context_leases (sample_run [sample_acquire 10 EXECUTION_MODE])"
proof -
  let ?d = "sample_run [sample_acquire 10 EXECUTION_MODE]"
  let ?s = "start_atomic_call (sample_ids 20) (sample_claim 10 1 1) (sample_uuid 40) sample_evidence ?d"
  let ?f = "finish_atomic_call (sample_ids 50) (sample_claim 10 1 3) (sample_uuid 40) sample_evidence (snd ?s)"
  have "\<not> isl (fst ?s)" "\<not> isl (fst ?f)" by code_simp+
  note s = call_returned [OF this(1)] and f = call_returned [OF this(2)]
  from start_then_finish_restores [OF sample_run_inv s f] have "context_leases (snd ?f) = context_leases ?d"
    by (simp add: sample_claim_def)
  then show ?thesis by (simp add: sample_in_flight_def sample_run_def)
qed

text \<open>The expiry sweep is complete for timestamps of one precision.  When every stored
  expiry and the sweep time all show a fraction of a second or all show none, a sweep that
  returns leaves no held lease that is due.\<close>

theorem expire_due_leaves_none_due:
  assumes "lease_inv d" and "\<forall>l \<in> set (context_leases d). same_precision (cl_expires_at l) t"
    and "expire_due ids t reason reference d = (Inr ls, d')"
  shows "\<forall>l \<in> set (context_leases d'). cl_state l \<in> set HELD_STATES \<longrightarrow> t < cl_expires_at l"
  using assms(3) due_leases_exact [OF assms(2)]
  by (auto simp: expire_due_def split: option.splits intro: expire_each_covers [OF _ assms(1)])

theorem expire_due_leaves_none_due_witness:
  "list_all (\<lambda>l. cl_state l \<in> set HELD_STATES \<longrightarrow> sample_time 30 0 < cl_expires_at l)
     (context_leases (lease_step (sample_run sample_in_flight)
        (ExpireDue (sample_ids 60) (sample_time 30 0) ''due'' ''sweep'')))"
proof -
  let ?d = "sample_run sample_in_flight"
  let ?r = "expire_due (sample_ids 60) (sample_time 30 0) ''due'' ''sweep'' ?d"
  have "list_all (\<lambda>l. same_precision (cl_expires_at l) (sample_time 30 0)) (context_leases ?d)" "\<not> isl (fst ?r)"
    by code_simp+
  from expire_due_leaves_none_due [OF sample_run_inv _ call_returned [OF this(2)]] this(1)
  show ?thesis by (simp add: list_all_iff)
qed

text \<open>with mixed precision the sweep is incomplete.  The stored text of 10:00:10
  sorts after the text of 10:00:10.5, so a lease that expired at the whole second is not
  selected by a sweep half a second later: the sweep returns normally, changes nothing and
  the expired lease stays held.\<close>

theorem expire_due_misses_fractional_sweep:
  "expire_due ids (sample_time 10 500000) reason reference (sample_run [sample_acquire 10 EXECUTION_MODE])
     = (Inr [], sample_run [sample_acquire 10 EXECUTION_MODE])
   \<and> map (\<lambda>l. (cl_state l, cl_expires_at l)) (context_leases (sample_run [sample_acquire 10 EXECUTION_MODE]))
     = [(HELD_EXECUTION, sample_time 10 0)]
   \<and> sample_time 10 0 < sample_time 10 500000"
proof -
  have "due_leases (sample_time 10 500000) (sample_run [sample_acquire 10 EXECUTION_MODE]) = []"
    and "require_aware (sample_time 10 500000) ''occurred_at'' = None"
    and "map (\<lambda>l. (cl_state l, cl_expires_at l)) (context_leases (sample_run [sample_acquire 10 EXECUTION_MODE]))
     = [(HELD_EXECUTION, sample_time 10 0)]"
    and "sample_time 10 0 < sample_time 10 500000"
    by code_simp+
  then show ?thesis by (simp add: expire_due_def)
qed

end
