(* ===== verification/Workflow_Store.thy ===== *)
theory Workflow_Store
  imports Lease_Store
begin

text \<open>
  \<open>persistence/workflow_store.py\<close>: \<open>WorkflowStore\<close>, the table of legal
  transitions and the idempotent, versioned transition with its audit trail.  The
  keyword arguments of \<open>transition\<close> are the record \<open>transition_request\<close>.
\<close>

section \<open>The table of legal transitions\<close>

definition LEGAL_TRANSITIONS :: "(string \<times> workflow_state \<times> workflow_state) list" where
  "LEGAL_TRANSITIONS =
    [(''start_preview'', NEW, PREVIEWING),
     (''record_preview'', PREVIEWING, AWAITING_AUTHORIZATION),
     (''reject_or_expire_preview'', AWAITING_AUTHORIZATION, ABANDONED),
     (''admit_execution'', AWAITING_AUTHORIZATION, EXECUTION_ADMISSION),
     (''start_execution'', EXECUTION_ADMISSION, EXECUTING),
     (''start_calculation'', EXECUTING, CALCULATING),
     (''start_verification'', CALCULATING, VERIFYING),
     (''complete'', VERIFYING, COMPLETED),
     (''fail_before_effect'', EXECUTING, FAILED_BEFORE_EFFECT),
     (''require_reconciliation'', EXECUTING, RECONCILIATION_REQUIRED),
     (''recover_no_effect'', RECONCILIATION_REQUIRED, FAILED_BEFORE_EFFECT),
     (''quarantine'', RECONCILIATION_REQUIRED, QUARANTINED),
     (''start_rollback_preview'', COMPLETED, ROLLBACK_PREVIEWING),
     (''record_rollback_preview'', ROLLBACK_PREVIEWING, AWAITING_ROLLBACK_AUTHORIZATION),
     (''admit_rollback'', AWAITING_ROLLBACK_AUTHORIZATION, ROLLBACK_ADMISSION),
     (''start_rollback'', ROLLBACK_ADMISSION, ROLLING_BACK),
     (''start_rollback_verification'', ROLLING_BACK, ROLLBACK_VERIFYING),
     (''complete_rollback'', ROLLBACK_VERIFYING, ROLLED_BACK)]"

definition legal_transition :: "string \<Rightarrow> (workflow_state \<times> workflow_state) option" where
  "legal_transition name = map_of LEGAL_TRANSITIONS name"

section \<open>Reads and single writes\<close>

text \<open>\<open>record\<close>: every integrity failure becomes \<open>WorkflowAlreadyExistsError\<close>.\<close>

definition record_workflow :: "workflow_record \<Rightarrow> db \<Rightarrow> workflow_record stored \<times> db" where
  "record_workflow w = transaction (\<lambda>d.
     if has_key wr_workflow_id (wr_workflow_id w) (workflow_records d)
     then Inl (WorkflowAlreadyExistsError (wr_workflow_id w))
     else Inr (w, d\<lparr>workflow_records := workflow_records d @ [w]\<rparr>))"

definition workflow :: "string \<Rightarrow> db \<Rightarrow> workflow_record stored" where
  "workflow i d = (case lookup_row wr_workflow_id i (workflow_records d) of
     None \<Rightarrow> Inl (WorkflowNotFoundError i) | Some w \<Rightarrow> Inr w)"

definition command :: "string \<Rightarrow> db \<Rightarrow> idempotent_command_record stored" where
  "command i d = (case lookup_row ic_command_id i (workflow_commands d) of
     None \<Rightarrow> Inl (WorkflowNotFoundError i) | Some c \<Rightarrow> Inr c)"

definition command_for_key :: "string \<Rightarrow> string \<Rightarrow> db \<Rightarrow> idempotent_command_record option" where
  "command_for_key i key d = lookup_row command_key (i, key) (workflow_commands d)"

definition audit_events :: "string \<Rightarrow> db \<Rightarrow> audit_event list" where
  "audit_events i d = filter (\<lambda>e. ae_workflow_id e = i) (workflow_audit_events d)"

text \<open>The version column of a row, rebuilt under the requested scope.\<close>

definition row_version :: "string \<Rightarrow> workflow_record \<Rightarrow> workflow_version stored" where
  "row_version i w = map_error Invalid (build_record (Revision_post_init WorkflowVersion)
     \<lparr>scope_id = i, counter = counter (wr_workflow_version w)\<rparr>)"

definition append_audit :: "audit_event \<Rightarrow> db \<Rightarrow> audit_event stored \<times> db" where
  "append_audit e = transaction (\<lambda>d.
     attempt (workflow (ae_workflow_id e) d) (\<lambda>w.
     attempt (row_version (ae_workflow_id e) w) (\<lambda>current.
     if counter current < counter (ae_workflow_version e)
     then Inl (WorkflowVersionConflictError (ae_workflow_id e) (ae_workflow_version e) current)
     else attempt (append_workflow_audit_event e d) (\<lambda>d1. Inr (e, d1)))))"

section \<open>The transition\<close>

record transition_request =
  tq_workflow_id :: string
  tq_command_name :: string
  tq_idempotency_key :: string
  tq_request_digest :: content_digest
  tq_expected_version :: workflow_version
  tq_target_state :: workflow_state
  tq_event_type :: audit_event_type
  tq_actor_class :: audit_actor_class
  tq_evidence_reference :: string
  tq_occurred_at :: datetime
  tq_result_digest :: "content_digest option"
  tq_operation_id :: "string option"
  tq_recovery_reference :: "string option"
  tq_correlation_id :: "string option"
  tq_authorization_reference :: "string option"
  tq_fencing_token :: "int option"

definition transition_guard :: "transition_request \<Rightarrow> error option" where
  "transition_guard q = first_error
     [require_aware (tq_occurred_at q) ''occurred_at'',
      require (scope_id (tq_expected_version q) = tq_workflow_id q)
        (ValueError ''expected_workflow_version scope must equal workflow_id''),
      require (tq_event_type q \<noteq> AUDIT_REQUESTED)
        (ValueError ''transition_event_type cannot be requested''),
      require (legal_transition (tq_command_name q) \<noteq> None)
        (ValueError (''unsupported workflow command: '' @ tq_command_name q)),
      require (tq_command_name q \<noteq> [] \<and> length (tq_command_name q) \<le> 128)
        (ValueError ''command_name must be nonempty and at most 128 characters''),
      require (tq_idempotency_key q \<noteq> [] \<and> length (tq_idempotency_key q) \<le> 256)
        (ValueError ''idempotency_key must be nonempty and at most 256 characters'')]"

text \<open>The successor row, the command record and the two audit events.\<close>

definition option_else :: "'a option \<Rightarrow> 'a option \<Rightarrow> 'a option" where
  "option_else x y = (if x \<noteq> None then x else y)"

definition next_workflow :: "transition_request \<Rightarrow> string \<Rightarrow> workflow_version \<Rightarrow> workflow_record \<Rightarrow> workflow_record" where
  "next_workflow q command_id v w = w\<lparr>wr_state := tq_target_state q, wr_workflow_version := v,
     wr_updated_at := tq_occurred_at q, wr_latest_command_id := Some command_id,
     wr_latest_operation_id := option_else (tq_operation_id q) (wr_latest_operation_id w),
     wr_recovery_reference := option_else (tq_recovery_reference q) (wr_recovery_reference w)\<rparr>"

definition transition_command :: "transition_request \<Rightarrow> string \<Rightarrow> workflow_version \<Rightarrow> idempotent_command_record" where
  "transition_command q command_id v = \<lparr>ic_command_id = command_id, ic_workflow_id = tq_workflow_id q,
     ic_command_name = tq_command_name q, ic_idempotency_key = tq_idempotency_key q,
     ic_request_digest = tq_request_digest q, ic_expected_workflow_version = tq_expected_version q,
     ic_status = COMMAND_COMPLETED, ic_resulting_workflow_version = v,
     ic_requested_at = tq_occurred_at q, ic_operation_id = tq_operation_id q,
     ic_result_digest = tq_result_digest q, ic_completed_at = Some (tq_occurred_at q)\<rparr>"

definition requested_event :: "transition_request \<Rightarrow> string \<Rightarrow> string \<Rightarrow> workflow_version \<Rightarrow> audit_event" where
  "requested_event q event_id command_id v = \<lparr>ae_event_id = event_id, ae_workflow_id = tq_workflow_id q,
     ae_workflow_version = v, ae_event_type = AUDIT_REQUESTED, ae_actor_class = tq_actor_class q,
     ae_occurred_at = tq_occurred_at q, ae_request_digest = tq_request_digest q,
     ae_evidence_reference = tq_evidence_reference q, ae_command_id = Some command_id,
     ae_operation_id = tq_operation_id q, ae_correlation_id = tq_correlation_id q,
     ae_state_before = None, ae_state_after = None,
     ae_authorization_reference = tq_authorization_reference q, ae_fencing_token = tq_fencing_token q\<rparr>"

definition transitioned_event ::
  "transition_request \<Rightarrow> string \<Rightarrow> string \<Rightarrow> workflow_version \<Rightarrow> workflow_state \<Rightarrow> audit_event" where
  "transitioned_event q event_id command_id v before = (requested_event q event_id command_id v)
     \<lparr>ae_event_type := tq_event_type q, ae_state_before := Some before,
      ae_state_after := Some (tq_target_state q)\<rparr>"

text \<open>The four writes, with the row count of the versioned update checked.\<close>

definition commit_transition ::
  "transition_request \<Rightarrow> workflow_record \<Rightarrow> idempotent_command_record \<Rightarrow> audit_event \<Rightarrow> audit_event \<Rightarrow> db
     \<Rightarrow> (idempotent_command_record \<times> db) stored" where
  "commit_transition q w c e1 e2 d =
     attempt (insert_workflow_command c d) (\<lambda>d1.
     case update_workflow_cas w (counter (tq_expected_version q)) d1 of (rows, d2) \<Rightarrow>
       if rows \<noteq> 1
       then attempt (workflow (tq_workflow_id q) d2) (\<lambda>x.
            attempt (row_version (tq_workflow_id q) x) (\<lambda>current.
            Inl (WorkflowVersionConflictError (tq_workflow_id q) (tq_expected_version q) current)))
       else
         attempt (append_workflow_audit_event e1 d2) (\<lambda>d3.
         attempt (append_workflow_audit_event e2 d3) (\<lambda>d4.
         Inr (c, d4))))"

text \<open>
  A new command inside the transaction: version check, legality, construction of the
  five objects, then the writes.
\<close>

definition apply_transition ::
  "id_supply \<Rightarrow> transition_request \<Rightarrow> db \<Rightarrow> (idempotent_command_record \<times> db) stored" where
  "apply_transition ids q d =
     attempt (workflow (tq_workflow_id q) d) (\<lambda>previous.
     if wr_workflow_version previous \<noteq> tq_expected_version q
     then Inl (WorkflowVersionConflictError (tq_workflow_id q) (tq_expected_version q) (wr_workflow_version previous))
     else if legal_transition (tq_command_name q) \<noteq> Some (wr_state previous, tq_target_state q)
     then Inl (Invalid (ValueError (''workflow command '' @ tq_command_name q @ '' cannot transition ''
            @ workflow_state_value (wr_state previous) @ '' to '' @ workflow_state_value (tq_target_state q))))
     else
       attempt (map_error Invalid (build_record (Revision_post_init WorkflowVersion)
                  \<lparr>scope_id = tq_workflow_id q, counter = counter (wr_workflow_version previous) + 1\<rparr>)) (\<lambda>v.
       attempt (map_error Invalid (build_record WorkflowRecord_post_init (next_workflow q (ids 0) v previous))) (\<lambda>w.
       attempt (map_error Invalid (build_record IdempotentCommandRecord_post_init (transition_command q (ids 0) v))) (\<lambda>c.
       attempt (map_error Invalid (build_record AuditEvent_post_init
                  (requested_event q (ids 1) (ids 0) (wr_workflow_version previous)))) (\<lambda>e1.
       attempt (map_error Invalid (build_record AuditEvent_post_init
                  (transitioned_event q (ids 2) (ids 0) v (wr_state previous)))) (\<lambda>e2.
       commit_transition q w c e1 e2 d))))))"

definition transition :: "id_supply \<Rightarrow> transition_request \<Rightarrow> db \<Rightarrow> idempotent_command_record stored \<times> db" where
  "transition ids q d0 = (case transition_guard q of
      Some e \<Rightarrow> (Inl (Invalid e), d0)
    | None \<Rightarrow> transaction (\<lambda>d.
        case lookup_row command_key (tq_workflow_id q, tq_idempotency_key q) (workflow_commands d) of
          Some replay \<Rightarrow>
            if ic_command_name replay \<noteq> tq_command_name q \<or> ic_request_digest replay \<noteq> tq_request_digest q
            then Inl (WorkflowIdempotencyConflictError (tq_workflow_id q) (tq_idempotency_key q))
            else Inr (replay, d)
        | None \<Rightarrow> apply_transition ids q d) d0)"

section \<open>The store as a machine\<close>

text \<open>
  Callers hand over records they have built, so a record that does not pass its
  own checks, and those of its version, never reaches the store.
\<close>

definition built_workflow :: "workflow_record \<Rightarrow> error option" where
  "built_workflow w = first_error
     [Revision_post_init WorkflowVersion (wr_workflow_version w), WorkflowRecord_post_init w]"

datatype workflow_command =
    RecordWorkflow workflow_record
  | AppendAudit audit_event
  | Transition id_supply transition_request

fun workflow_step :: "db \<Rightarrow> workflow_command \<Rightarrow> db" where
  "workflow_step d (RecordWorkflow w) =
     (case build_record built_workflow w of Inl e \<Rightarrow> d | Inr x \<Rightarrow> snd (record_workflow x d))"
| "workflow_step d (AppendAudit e) =
     (case build_record AuditEvent_post_init e of Inl x \<Rightarrow> d | Inr x \<Rightarrow> snd (append_audit x d))"
| "workflow_step d (Transition ids q) = snd (transition ids q d)"

end
