(* ===== verification/Workflow_Laws.thy ===== *)
theory Workflow_Laws
  imports Workflow_Store
begin

text \<open>
  What the workflow store guarantees: each workflow's commands form one unbroken,
  versioned chain of legal transitions, commands replay exactly, versions are
  never reused, and the audit trail only grows.
\<close>

section \<open>Histories\<close>

text \<open>
  The named commands of the program and their edges: the store's table and the
  combined admission of \<open>persistence/execution_admission.py\<close>.
\<close>

definition ADMISSION_COMMAND :: string where
  "ADMISSION_COMMAND = ''admit_execution_and_commit_intent''"

definition command_edge :: "string \<Rightarrow> (workflow_state \<times> workflow_state) option" where
  "command_edge name =
     (if name = ADMISSION_COMMAND then Some (AWAITING_AUTHORIZATION, EXECUTING) else legal_transition name)"

definition edge_of :: "idempotent_command_record \<Rightarrow> (workflow_state \<times> workflow_state) option" where
  "edge_of c = command_edge (ic_command_name c)"

text \<open>
  A history, newest command first, ends in a version and a state when each command
  takes the workflow from the version it expected to the next one along its edge.
\<close>

fun history_ok :: "workflow_version \<Rightarrow> workflow_state \<Rightarrow> idempotent_command_record list \<Rightarrow> bool" where
  "history_ok v s [] = True"
| "history_ok v s (c # cs) = (ic_resulting_workflow_version c = v
     \<and> counter v = counter (ic_expected_workflow_version c) + 1
     \<and> (case edge_of c of None \<Rightarrow> False
        | Some (s0, s1) \<Rightarrow> s1 = s \<and> history_ok (ic_expected_workflow_version c) s0 cs))"

definition history :: "string \<Rightarrow> db \<Rightarrow> idempotent_command_record list" where
  "history i d = rev (filter (\<lambda>c. ic_workflow_id c = i) (workflow_commands d))"

definition version_counter :: "db \<Rightarrow> string \<Rightarrow> int" where
  "version_counter d i = (case lookup_row wr_workflow_id i (workflow_records d) of
     None \<Rightarrow> -1 | Some w \<Rightarrow> counter (wr_workflow_version w))"

definition workflow_inv :: "db \<Rightarrow> bool" where
  "workflow_inv d \<longleftrightarrow>
     unique_key wr_workflow_id (workflow_records d)
     \<and> unique_key command_key (workflow_commands d) \<and> unique_key ic_command_id (workflow_commands d)
     \<and> (\<forall>c \<in> set (workflow_commands d). has_key wr_workflow_id (ic_workflow_id c) (workflow_records d))
     \<and> (\<forall>w \<in> set (workflow_records d). built_workflow w = None
          \<and> history_ok (wr_workflow_version w) (wr_state w) (history (wr_workflow_id w) d))"

section \<open>The abstract change\<close>

definition same_bindings :: "workflow_record \<Rightarrow> workflow_record \<Rightarrow> bool" where
  "same_bindings w w' \<longleftrightarrow> wr_workflow_id w' = wr_workflow_id w
     \<and> wr_operation_specification w' = wr_operation_specification w
     \<and> wr_configuration_key w' = wr_configuration_key w \<and> wr_proposal_digest w' = wr_proposal_digest w
     \<and> wr_created_at w' = wr_created_at w"

definition replace_workflow :: "workflow_record \<Rightarrow> workflow_record list \<Rightarrow> workflow_record list" where
  "replace_workflow w rows = update_where (\<lambda>r. wr_workflow_id r = wr_workflow_id w) (\<lambda>_. w) rows"

inductive workflow_change :: "db \<Rightarrow> db \<Rightarrow> bool" where
  created: "\<not> has_key wr_workflow_id (wr_workflow_id w) (workflow_records d) \<Longrightarrow>
     built_workflow w = None \<Longrightarrow>
     workflow_change d (d\<lparr>workflow_records := workflow_records d @ [w]\<rparr>)"
| audited: "workflow_change d (d\<lparr>workflow_audit_events := workflow_audit_events d @ [e]\<rparr>)"
| advanced: "w \<in> set (workflow_records d) \<Longrightarrow> same_bindings w w' \<Longrightarrow> built_workflow w' = None \<Longrightarrow>
     edge_of c = Some (wr_state w, wr_state w') \<Longrightarrow> ic_workflow_id c = wr_workflow_id w \<Longrightarrow>
     ic_expected_workflow_version c = wr_workflow_version w \<Longrightarrow>
     ic_resulting_workflow_version c = wr_workflow_version w' \<Longrightarrow>
     counter (wr_workflow_version w') = counter (wr_workflow_version w) + 1 \<Longrightarrow>
     \<not> has_key ic_command_id (ic_command_id c) (workflow_commands d) \<Longrightarrow>
     \<not> has_key command_key (command_key c) (workflow_commands d) \<Longrightarrow>
     workflow_change d (d\<lparr>workflow_records := replace_workflow w' (workflow_records d),
       workflow_commands := workflow_commands d @ [c],
       workflow_audit_events := workflow_audit_events d @ es\<rparr>)"

lemma update_workflow_cas_eq:
  assumes "unique_key wr_workflow_id (workflow_records d)" "w \<in> set (workflow_records d)"
    and "wr_workflow_id w' = wr_workflow_id w" "counter (wr_workflow_version w) = n"
  shows "update_workflow_cas w' n d
    = (1, d\<lparr>workflow_records := replace_workflow w' (workflow_records d)\<rparr>)"
proof -
  have "rowcount (\<lambda>r. wr_workflow_id r = wr_workflow_id w' \<and> counter (wr_workflow_version r) = n)
      (workflow_records d) = 1"
    using assms lookup_row_unique [OF assms(1,2)] by (simp add: rowcount_key)
  moreover have "update_where (\<lambda>r. wr_workflow_id r = wr_workflow_id w' \<and> counter (wr_workflow_version r) = n)
      (\<lambda>_. w') (workflow_records d) = replace_workflow w' (workflow_records d)"
    using assms by (auto simp: replace_workflow_def update_where_def dest: unique_keyD)
  ultimately show ?thesis by (simp add: update_workflow_cas_def Let_def)
qed

lemma set_replace_workflow:
  "unique_key wr_workflow_id rows \<Longrightarrow> w \<in> set rows \<Longrightarrow> wr_workflow_id w' = wr_workflow_id w \<Longrightarrow>
     set (replace_workflow w' rows) = insert w' (set rows - {w})"
  by (auto simp: replace_workflow_def set_update_where dest: unique_keyD)

lemma lookup_replace_workflow:
  "lookup_row wr_workflow_id i (replace_workflow w rows)
     = (case lookup_row wr_workflow_id i rows of
          None \<Rightarrow> None | Some x \<Rightarrow> Some (if wr_workflow_id w = i then w else x))"
  unfolding replace_workflow_def
  by (subst lookup_update_where) (auto split: option.splits dest: lookup_row_SomeD)

lemma unique_key_replace_workflow [simp]:
  "unique_key wr_workflow_id (replace_workflow w rows) = unique_key wr_workflow_id rows"
  unfolding replace_workflow_def by (rule unique_key_update_where) simp

lemma has_key_replace_workflow [simp]:
  "has_key wr_workflow_id i (replace_workflow w rows) = has_key wr_workflow_id i rows"
  unfolding replace_workflow_def by (rule has_key_update_where) simp

lemma workflow_change_inv:
  assumes "workflow_change d d'" "workflow_inv d"
  shows "workflow_inv d'"
  using assms
proof (induction rule: workflow_change.induct)
  case (created w d)
  have "filter (\<lambda>c. ic_workflow_id c = wr_workflow_id w) (workflow_commands d) = []"
    using created by (auto simp: workflow_inv_def filter_empty_conv)
  with created show ?case by (auto simp: workflow_inv_def history_def unique_key_snoc)
next
  case (audited d e)
  then show ?case by (simp add: workflow_inv_def history_def)
next
  case (advanced w d w' c es)
  have h: "history i (d\<lparr>workflow_records := r, workflow_commands := workflow_commands d @ [c],
       workflow_audit_events := a\<rparr>) = (if ic_workflow_id c = i then [c] else []) @ history i d" for i r a
    by (simp add: history_def)
  have id: "wr_workflow_id w' = wr_workflow_id w" using advanced by (simp add: same_bindings_def)
  have u: "unique_key wr_workflow_id (workflow_records d)" using advanced by (simp add: workflow_inv_def)
  have "history_ok (wr_workflow_version x) (wr_state x) ((if ic_workflow_id c = wr_workflow_id x then [c] else [])
          @ history (wr_workflow_id x) d)" if "x \<in> insert w' (set (workflow_records d) - {w})" for x
  proof (cases "x = w'")
    case True
    with advanced id show ?thesis by (simp add: workflow_inv_def)
  next
    case False
    with that advanced have "wr_workflow_id x \<noteq> wr_workflow_id w" by (auto dest: unique_keyD [OF u])
    with False that advanced show ?thesis by (auto simp: workflow_inv_def)
  qed
  moreover have "has_key wr_workflow_id (wr_workflow_id w) (workflow_records d)"
    using advanced(1) by (auto simp: has_key_def)
  ultimately show ?case
    using advanced set_replace_workflow [OF u advanced(1) id]
    unfolding workflow_inv_def h by (auto simp: unique_key_snoc)
qed

lemma version_counter_lower: "workflow_inv d \<Longrightarrow> -1 \<le> version_counter d i"
  by (auto simp: version_counter_def workflow_inv_def built_workflow_def Revision_post_init_None_iff
      split: option.splits dest!: lookup_row_SomeD)

lemma workflow_change_version:
  assumes "workflow_change d d'" "workflow_inv d"
  shows "version_counter d i \<le> version_counter d' i"
  using assms
proof (induction rule: workflow_change.induct)
  case (created w d)
  then show ?case
    using version_counter_lower [of "d\<lparr>workflow_records := workflow_records d @ [w]\<rparr>" i]
      workflow_change_inv [OF workflow_change.created [of w d]]
    by (auto simp: version_counter_def lookup_row_append split: option.splits)
next
  case (audited d e)
  then show ?case by (simp add: version_counter_def)
next
  case (advanced w d w' c es)
  then have "lookup_row wr_workflow_id (wr_workflow_id w) (workflow_records d) = Some w"
    by (auto simp: workflow_inv_def intro: lookup_row_unique)
  with advanced show ?case
    by (auto simp: version_counter_def lookup_replace_workflow same_bindings_def split: option.splits)
qed

lemma workflow_change_logs:
  "workflow_change d d' \<Longrightarrow> prefix (workflow_commands d) (workflow_commands d')
     \<and> prefix (workflow_audit_events d) (workflow_audit_events d')"
  by (induction rule: workflow_change.induct) auto

lemma workflow_InrD: "workflow i d = Inr w \<Longrightarrow> w \<in> set (workflow_records d) \<and> wr_workflow_id w = i"
  by (auto simp: workflow_def split: option.splits dest: lookup_row_SomeD)

section \<open>Every operation is one abstract change\<close>

lemma record_workflow_change:
  "built_workflow w = None \<Longrightarrow> snd (record_workflow w d) = d \<or> workflow_change d (snd (record_workflow w d))"
  by (auto simp: record_workflow_def transaction_def intro: workflow_change.created)

lemma append_audit_change:
  "snd (append_audit e d) = d \<or> workflow_change d (snd (append_audit e d))"
  unfolding append_audit_def
  by (rule transaction_cases)
    (auto simp: attempt_Inr_iff append_workflow_audit_event_Inr_iff split: if_splits intro: workflow_change.audited)

text \<open>The outcome of a new command, read off the transaction.\<close>

lemma commit_transition_InrD:
  assumes "commit_transition q w' c e1 e2 d = Inr (c', d')" "unique_key wr_workflow_id (workflow_records d)"
    and "w \<in> set (workflow_records d)" "wr_workflow_id w' = wr_workflow_id w"
    and "counter (wr_workflow_version w) = counter (tq_expected_version q)"
  shows "c' = c \<and> \<not> has_key ic_command_id (ic_command_id c) (workflow_commands d)
    \<and> \<not> has_key command_key (command_key c) (workflow_commands d)
    \<and> d' = d\<lparr>workflow_records := replace_workflow w' (workflow_records d),
       workflow_commands := workflow_commands d @ [c],
       workflow_audit_events := workflow_audit_events d @ [e1, e2]\<rparr>"
proof -
  from assms(1) obtain d1 where ins: "insert_workflow_command c d = Inr d1"
    by (auto simp: commit_transition_def attempt_Inr_iff)
  then have d1: "d1 = d\<lparr>workflow_commands := workflow_commands d @ [c]\<rparr>"
    by (simp add: insert_workflow_command_Inr_iff)
  have cas: "update_workflow_cas w' (counter (tq_expected_version q)) d1
      = (1, d1\<lparr>workflow_records := replace_workflow w' (workflow_records d1)\<rparr>)"
    using assms by (intro update_workflow_cas_eq [of _ w]) (simp_all add: d1)
  from assms(1) ins cas show ?thesis
    by (auto simp: commit_transition_def attempt_Inr_iff writer_iffs d1)
qed

lemma apply_transition_InrE:
  assumes "apply_transition ids q d = Inr (c, d')" "workflow_inv d"
  obtains w v w' where "lookup_row wr_workflow_id (tq_workflow_id q) (workflow_records d) = Some w"
    "wr_workflow_version w = tq_expected_version q"
    "legal_transition (tq_command_name q) = Some (wr_state w, tq_target_state q)"
    "v = \<lparr>scope_id = tq_workflow_id q, counter = counter (wr_workflow_version w) + 1\<rparr>"
    "w' = next_workflow q (ids 0) v w" "built_workflow w' = None"
    "c = transition_command q (ids 0) v" "IdempotentCommandRecord_post_init c = None"
    "\<not> has_key ic_command_id (ids 0) (workflow_commands d)"
    "\<not> has_key command_key (tq_workflow_id q, tq_idempotency_key q) (workflow_commands d)"
    "d' = d\<lparr>workflow_records := replace_workflow w' (workflow_records d),
       workflow_commands := workflow_commands d @ [c],
       workflow_audit_events := workflow_audit_events d
         @ [requested_event q (ids 1) (ids 0) (tq_expected_version q),
            transitioned_event q (ids 2) (ids 0) v (wr_state w)]\<rparr>"
proof -
  from assms(1) obtain w where w: "workflow (tq_workflow_id q) d = Inr w"
    and ver: "wr_workflow_version w = tq_expected_version q"
    and legal: "legal_transition (tq_command_name q) = Some (wr_state w, tq_target_state q)"
    by (auto simp: apply_transition_def attempt_Inr_iff split: if_splits)
  let ?v = "\<lparr>scope_id = tq_workflow_id q, counter = counter (wr_workflow_version w) + 1\<rparr>"
  let ?w = "next_workflow q (ids 0) ?v w"
  let ?c = "transition_command q (ids 0) ?v"
  from assms(1) w ver legal have "built_workflow ?w = None" "IdempotentCommandRecord_post_init ?c = None"
    and com: "commit_transition q ?w ?c (requested_event q (ids 1) (ids 0) (tq_expected_version q))
           (transitioned_event q (ids 2) (ids 0) ?v (wr_state w)) d = Inr (c, d')"
    by (auto simp: apply_transition_def attempt_Inr_iff build_record_Inr_iff built_workflow_def
        next_workflow_def split: if_split_asm)
  moreover have "lookup_row wr_workflow_id (tq_workflow_id q) (workflow_records d) = Some w"
    using w by (auto simp: workflow_def split: option.splits)
  moreover have "c = ?c \<and> \<not> has_key ic_command_id (ic_command_id ?c) (workflow_commands d)
    \<and> \<not> has_key command_key (command_key ?c) (workflow_commands d)
    \<and> d' = d\<lparr>workflow_records := replace_workflow ?w (workflow_records d),
       workflow_commands := workflow_commands d @ [?c],
       workflow_audit_events := workflow_audit_events d @
         [requested_event q (ids 1) (ids 0) (tq_expected_version q),
          transitioned_event q (ids 2) (ids 0) ?v (wr_state w)]\<rparr>"
    using assms(2) workflow_InrD [OF w] ver
    by (intro commit_transition_InrD [OF com]) (auto simp: workflow_inv_def next_workflow_def)
  ultimately show thesis
    using ver legal by (intro that [of w ?v ?w]) (simp_all add: transition_command_def command_key_def)
qed

lemma apply_transition_change:
  assumes "apply_transition ids q d = Inr (c, d')" "workflow_inv d" "legal_transition ADMISSION_COMMAND = None"
  shows "workflow_change d d'"
  using assms(1,2)
proof (cases rule: apply_transition_InrE)
  case (1 w v w')
  from lookup_row_SomeD [OF 1(1)] have w: "w \<in> set (workflow_records d)" "wr_workflow_id w = tq_workflow_id q"
    by simp_all
  show ?thesis unfolding 1(11)
    by (rule workflow_change.advanced [OF w(1)])
      (use 1 w assms(3) in \<open>auto simp: same_bindings_def next_workflow_def transition_command_def edge_of_def
         command_edge_def command_key_def\<close>)
qed

lemma legal_ADMISSION_COMMAND: "legal_transition ADMISSION_COMMAND = None"
  by (simp add: legal_transition_def LEGAL_TRANSITIONS_def ADMISSION_COMMAND_def)

lemma transition_change:
  "workflow_inv d \<Longrightarrow> snd (transition ids q d) = d \<or> workflow_change d (snd (transition ids q d))"
  using apply_transition_change [OF _ _ legal_ADMISSION_COMMAND]
  by (auto simp: transition_def transaction_def split: option.splits sum.splits)

lemma workflow_step_change:
  "workflow_inv d \<Longrightarrow> workflow_step d c = d \<or> workflow_change d (workflow_step d c)"
  using record_workflow_change append_audit_change transition_change
  by (cases c) (auto simp: build_record_def split: option.splits)

lemma workflow_step_keeps:
  "workflow_inv d \<Longrightarrow> workflow_inv (workflow_step d c)
     \<and> prefix (workflow_commands d) (workflow_commands (workflow_step d c))
     \<and> prefix (workflow_audit_events d) (workflow_audit_events (workflow_step d c))
     \<and> version_counter d i \<le> version_counter (workflow_step d c) i"
  using workflow_step_change [of d c] workflow_change_inv workflow_change_logs workflow_change_version
  by (metis order_refl prefix_order.order_refl)

interpretation workflow_commands_log: append_only_machine workflow_step workflow_inv workflow_commands
  using workflow_step_keeps by unfold_locales blast+

interpretation workflow_audit_log: append_only_machine workflow_step workflow_inv workflow_audit_events
  using workflow_step_keeps by unfold_locales blast+

interpretation workflow_versions: monotone_counter workflow_step workflow_inv version_counter
  using workflow_step_keeps by unfold_locales blast+

section \<open>Replay and the compare-and-swap\<close>

lemma transition_new_InrD:
  assumes "transition ids q d = (Inr c, d')" "workflow_inv d"
    and "lookup_row command_key (tq_workflow_id q, tq_idempotency_key q) (workflow_commands d) = None"
  shows "apply_transition ids q d = Inr (c, d')"
  using assms by (auto simp: transition_def transaction_Inr_iff split: option.splits)

lemma transition_recorded:
  assumes "transition ids q d = (Inr c, d')" "workflow_inv d"
  shows "c \<in> set (workflow_commands d')" "command_key c = (tq_workflow_id q, tq_idempotency_key q)"
    "ic_command_name c = tq_command_name q" "ic_request_digest c = tq_request_digest q"
    "transition_guard q = None"
proof -
  show "transition_guard q = None" using assms(1) by (auto simp: transition_def split: option.splits)
  have "c \<in> set (workflow_commands d') \<and> command_key c = (tq_workflow_id q, tq_idempotency_key q)
     \<and> ic_command_name c = tq_command_name q \<and> ic_request_digest c = tq_request_digest q"
  proof (cases "lookup_row command_key (tq_workflow_id q, tq_idempotency_key q) (workflow_commands d)")
    case None
    with assms have "apply_transition ids q d = Inr (c, d')" by (intro transition_new_InrD)
    then show ?thesis using assms(2)
      by (cases rule: apply_transition_InrE) (simp_all add: transition_command_def command_key_def)
  next
    case (Some r)
    with assms(1) have "c = r" "d' = d" "ic_command_name r = tq_command_name q" "ic_request_digest r = tq_request_digest q"
      by (auto simp: transition_def transaction_Inr_iff split: option.splits if_splits)
    with lookup_row_SomeD [OF Some] show ?thesis by simp
  qed
  then show "c \<in> set (workflow_commands d')" "command_key c = (tq_workflow_id q, tq_idempotency_key q)"
    "ic_command_name c = tq_command_name q" "ic_request_digest c = tq_request_digest q" by simp_all
qed

lemma transition_replays:
  assumes "c \<in> set (workflow_commands d)" "workflow_inv d" "transition_guard q = None"
    and "command_key c = (tq_workflow_id q, tq_idempotency_key q)"
    and "ic_command_name c = tq_command_name q" "ic_request_digest c = tq_request_digest q"
  shows "transition ids q d = (Inr c, d)"
proof -
  have "lookup_row command_key (tq_workflow_id q, tq_idempotency_key q) (workflow_commands d) = Some c"
    using assms lookup_row_unique [of command_key "workflow_commands d" c] by (simp add: workflow_inv_def)
  with assms show ?thesis by (simp add: transition_def transaction_def)
qed

lemma transition_keeps_inv: "workflow_inv d \<Longrightarrow> transition ids q d = (r, d') \<Longrightarrow> workflow_inv d'"
  using workflow_step_keeps [of d "Transition ids q"] by simp

lemma transition_new_counter:
  assumes "transition ids q d = (Inr c, d')" "workflow_inv d"
    and "lookup_row command_key (tq_workflow_id q, tq_idempotency_key q) (workflow_commands d) = None"
  shows "version_counter d (tq_workflow_id q) = counter (tq_expected_version q)"
    "version_counter d' (tq_workflow_id q) = counter (tq_expected_version q) + 1"
proof -
  have a: "apply_transition ids q d = Inr (c, d')" using assms by (intro transition_new_InrD)
  show "version_counter d (tq_workflow_id q) = counter (tq_expected_version q)"
    using a assms(2) by (cases rule: apply_transition_InrE) (simp add: version_counter_def)
  show "version_counter d' (tq_workflow_id q) = counter (tq_expected_version q) + 1"
    using a assms(2)
  proof (cases rule: apply_transition_InrE)
    case (1 w v w')
    then show ?thesis using lookup_row_SomeD [OF 1(1)]
      by (simp add: version_counter_def lookup_replace_workflow next_workflow_def)
  qed
qed

section \<open>Where a workflow can go\<close>

text \<open>A set of states that no command leaves is never left.\<close>

definition closed_states :: "workflow_state set \<Rightarrow> bool" where
  "closed_states S \<longleftrightarrow> (\<forall>name. case command_edge name of None \<Rightarrow> True | Some (s, t) \<Rightarrow> s \<in> S \<longrightarrow> t \<in> S)"

definition workflow_edges :: "(workflow_state \<times> workflow_state) list" where
  "workflow_edges = (AWAITING_AUTHORIZATION, EXECUTING) # map snd LEGAL_TRANSITIONS"

lemma command_edge_in: "command_edge name = Some e \<Longrightarrow> e \<in> set workflow_edges"
  by (auto simp: command_edge_def workflow_edges_def legal_transition_def
      split: if_splits dest!: map_of_SomeD intro: rev_image_eqI)

lemma closed_statesI: "list_all (\<lambda>(s, t). s \<in> S \<longrightarrow> t \<in> S) workflow_edges \<Longrightarrow> closed_states S"
  by (auto simp: closed_states_def list_all_iff split: option.splits dest!: command_edge_in)

definition state_in :: "workflow_state set \<Rightarrow> string \<Rightarrow> db \<Rightarrow> bool" where
  "state_in S i d \<longleftrightarrow> (\<exists>w. lookup_row wr_workflow_id i (workflow_records d) = Some w \<and> wr_state w \<in> S)"

lemma workflow_change_closed:
  assumes "workflow_change d d'" "workflow_inv d" "closed_states S" "state_in S i d"
  shows "state_in S i d'"
  using assms
proof (induction rule: workflow_change.induct)
  case (created w d)
  then show ?case by (auto simp: state_in_def lookup_row_append)
next
  case (audited d e)
  then show ?case by (simp add: state_in_def)
next
  case (advanced w d w' c es)
  then have w: "lookup_row wr_workflow_id (wr_workflow_id w) (workflow_records d) = Some w"
    by (auto simp: workflow_inv_def intro: lookup_row_unique)
  have "wr_state w \<in> S \<longrightarrow> wr_state w' \<in> S"
    using advanced by (auto simp: closed_states_def edge_of_def split: option.splits dest: spec [of _ "ic_command_name c"])
  with w advanced show ?case by (auto simp: state_in_def lookup_replace_workflow same_bindings_def)
qed

lemma workflow_run_closed:
  "closed_states S \<Longrightarrow> workflow_inv d \<Longrightarrow> state_in S i d \<Longrightarrow> state_in S i (run_ops workflow_step d cs)"
proof (induction cs arbitrary: d)
  case (Cons c cs)
  have "state_in S i (workflow_step d c)"
    using workflow_step_change [of d c] workflow_change_closed Cons by metis
  with Cons workflow_step_keeps show ?case by simp
qed simp

section \<open>Sample arguments\<close>

definition sample_transition :: "string \<Rightarrow> string \<Rightarrow> int \<Rightarrow> workflow_state \<Rightarrow> transition_request" where
  "sample_transition name key n target = \<lparr>tq_workflow_id = sample_uuid 1, tq_command_name = name,
     tq_idempotency_key = key, tq_request_digest = sample_scope, tq_expected_version = sample_version n,
     tq_target_state = target, tq_event_type = AUDIT_VERIFIED, tq_actor_class = WORKFLOW_SERVICE,
     tq_evidence_reference = ''evidence'', tq_occurred_at = sample_time 1 0, tq_result_digest = None,
     tq_operation_id = None, tq_recovery_reference = None, tq_correlation_id = None,
     tq_authorization_reference = None, tq_fencing_token = None\<rparr>"

lemma workflow_inv_sample_db [simp]: "0 \<le> n \<Longrightarrow> workflow_inv (sample_db st n)"
proof -
  assume "0 \<le> n"
  have "built_workflow (sample_workflow st n) = None"
  proof -
    have "require_uuid4 (sample_uuid 1) x = None" for x by (simp only: require_uuid4_iff) code_simp
    moreover have "require_aware (sample_time 0 0) x = None" for x by (simp add: require_aware_def) code_simp
    ultimately show ?thesis using \<open>0 \<le> n\<close>
      by (simp add: built_workflow_def Revision_post_init_None_iff WorkflowRecord_post_init_def
          sample_workflow_def sample_version_def require_optional_def)
  qed
  then show ?thesis
    by (simp add: workflow_inv_def sample_db_def empty_db_def history_def unique_key_def)
qed

definition sample_preview_run :: "workflow_command list" where
  "sample_preview_run =
     [Transition (sample_ids 10) (sample_transition ''start_preview'' ''k1'' 0 PREVIEWING),
      Transition (sample_ids 20) (sample_transition ''record_preview'' ''k2'' 1 AWAITING_AUTHORIZATION)]"

definition past_execution :: "workflow_state list" where
  "past_execution = [CALCULATING, VERIFYING, COMPLETED, ROLLBACK_PREVIEWING, AWAITING_ROLLBACK_AUTHORIZATION,
     ROLLBACK_ADMISSION, ROLLING_BACK, ROLLBACK_VERIFYING, ROLLED_BACK]"

section \<open>Properties\<close>

text \<open>C9: histories.  After any run of store commands, every workflow record passes its own
  checks, and its commands, in the order they were written, form one unbroken chain: each took
  the workflow from the version it expected to the next one, along the edge its name stands
  for, the last one reaching the current version and state.\<close>

theorem workflow_histories_unbroken:
  assumes "workflow_inv d" and "w \<in> set (workflow_records (run_ops workflow_step d cs))"
  shows "built_workflow w = None
    \<and> history_ok (wr_workflow_version w) (wr_state w)
        (history (wr_workflow_id w) (run_ops workflow_step d cs))"
  using workflow_commands_log.run_inv [OF assms(1)] assms(2) unfolding workflow_inv_def by blast

theorem workflow_histories_unbroken_witness:
  "\<exists>w \<in> set (workflow_records (run_ops workflow_step (sample_db NEW 0) sample_preview_run)).
     wr_state w = AWAITING_AUTHORIZATION
     \<and> history_ok (wr_workflow_version w) AWAITING_AUTHORIZATION
        (history (wr_workflow_id w) (run_ops workflow_step (sample_db NEW 0) sample_preview_run))"
proof -
  have "list_ex (\<lambda>w. wr_state w = AWAITING_AUTHORIZATION)
      (workflow_records (run_ops workflow_step (sample_db NEW 0) sample_preview_run))" by code_simp
  then obtain w where "w \<in> set (workflow_records (run_ops workflow_step (sample_db NEW 0) sample_preview_run))"
    "wr_state w = AWAITING_AUTHORIZATION" by (auto simp: list_ex_iff)
  with workflow_histories_unbroken [OF workflow_inv_sample_db, of 0 w NEW sample_preview_run] show ?thesis by auto
qed

text \<open>C24: a transition that returns for a fresh idempotency key was legal: the workflow was at
  the expected version and in the source state of the named command.  It moves to the target
  state under the next version, keeps the workflow's bindings, records the command, and
  appends exactly the two audit events, requested before transitioned, whatever else the
  database holds staying as it was.\<close>

theorem transition_functional:
  assumes "workflow_inv d" and "transition ids q d = (Inr c, d')"
    and "command_for_key (tq_workflow_id q) (tq_idempotency_key q) d = None"
  shows "\<exists>w w'. lookup_row wr_workflow_id (tq_workflow_id q) (workflow_records d) = Some w
    \<and> wr_workflow_version w = tq_expected_version q
    \<and> legal_transition (tq_command_name q) = Some (wr_state w, tq_target_state q)
    \<and> same_bindings w w' \<and> wr_state w' = tq_target_state q
    \<and> counter (wr_workflow_version w') = counter (wr_workflow_version w) + 1
    \<and> ic_resulting_workflow_version c = wr_workflow_version w'
    \<and> d' = d\<lparr>workflow_records := replace_workflow w' (workflow_records d),
         workflow_commands := workflow_commands d @ [c],
         workflow_audit_events := workflow_audit_events d
           @ [requested_event q (ids 1) (ids 0) (wr_workflow_version w),
              transitioned_event q (ids 2) (ids 0) (wr_workflow_version w') (wr_state w)]\<rparr>"
proof -
  have "apply_transition ids q d = Inr (c, d')"
    using assms by (intro transition_new_InrD) (simp_all add: command_for_key_def)
  then show ?thesis using assms(1)
  proof (cases rule: apply_transition_InrE)
    case (1 w v w')
    then show ?thesis
      by (intro exI [of _ w] exI [of _ w'])
        (simp add: same_bindings_def next_workflow_def transition_command_def)
  qed
qed

theorem transition_functional_witness:
  "\<exists>c w w'. c \<in> set (workflow_commands (workflow_step (sample_db NEW 0) (hd sample_preview_run)))
     \<and> same_bindings w w' \<and> wr_state w' = PREVIEWING"
proof -
  let ?q = "sample_transition ''start_preview'' ''k1'' 0 PREVIEWING"
  let ?r = "transition (sample_ids 10) ?q (sample_db NEW 0)"
  have "\<not> isl (fst ?r)" by code_simp
  note r = call_returned [OF this]
  have "command_for_key (tq_workflow_id ?q) (tq_idempotency_key ?q) (sample_db NEW 0) = None" by code_simp
  from transition_functional [OF workflow_inv_sample_db r this]
  have "\<exists>w w'. same_bindings w w' \<and> wr_state w' = PREVIEWING" by (auto simp: sample_transition_def)
  moreover have "projr (fst ?r) \<in> set (workflow_commands (workflow_step (sample_db NEW 0) (hd sample_preview_run)))"
    using transition_recorded(1) [OF r] by (simp add: sample_preview_run_def)
  ultimately show ?thesis by blast
qed

text \<open>exact replay.  Once a transition has returned, repeating its request, after any
  further commands of the store and with any fresh identifiers, returns the same durable
  command and changes nothing.\<close>

theorem transition_replay_exact:
  assumes "workflow_inv d" and "transition ids q d = (Inr c, d1)"
  shows "transition ids' q (run_ops workflow_step d1 cs) = (Inr c, run_ops workflow_step d1 cs)"
proof -
  have inv: "workflow_inv d1" using assms by (rule transition_keeps_inv)
  have "c \<in> set (workflow_commands (run_ops workflow_step d1 cs))"
    using workflow_commands_log.run_log_member [OF inv] transition_recorded(1) [OF assms(2,1)] by blast
  then show ?thesis
    using transition_recorded [OF assms(2,1)] workflow_commands_log.run_inv [OF inv]
    by (intro transition_replays) simp_all
qed

theorem transition_replay_exact_witness:
  "let d = workflow_step (sample_db NEW 0) (hd sample_preview_run);
       d1 = run_ops workflow_step d (tl sample_preview_run)
   in workflow_step d1 (Transition (sample_ids 90) (sample_transition ''start_preview'' ''k1'' 0 PREVIEWING)) = d1"
proof -
  let ?q = "sample_transition ''start_preview'' ''k1'' 0 PREVIEWING"
  have "\<not> isl (fst (transition (sample_ids 10) ?q (sample_db NEW 0)))" by code_simp
  note r = call_returned [OF this]
  from transition_replay_exact [OF workflow_inv_sample_db r, of "sample_ids 90" "tl sample_preview_run"]
  show ?thesis by (simp add: sample_preview_run_def Let_def)
qed

text \<open>one winner per version.  When a transition with a fresh key has succeeded, any other
  request under another key that expects the same version of the same workflow fails, at any
  later time, and leaves the database unchanged.\<close>

theorem transition_single_winner:
  assumes "workflow_inv d" and "transition ids q d = (Inr c, d1)"
    and "command_for_key (tq_workflow_id q) (tq_idempotency_key q) d = None"
    and "tq_workflow_id q' = tq_workflow_id q" and "tq_expected_version q' = tq_expected_version q"
    and "command_for_key (tq_workflow_id q') (tq_idempotency_key q') (run_ops workflow_step d1 cs) = None"
  shows "\<exists>e. transition ids' q' (run_ops workflow_step d1 cs) = (Inl e, run_ops workflow_step d1 cs)"
proof -
  let ?d = "run_ops workflow_step d1 cs"
  have inv: "workflow_inv d1" using assms(1,2) by (rule transition_keeps_inv)
  have "counter (tq_expected_version q) + 1 \<le> version_counter ?d (tq_workflow_id q)"
    using workflow_versions.run_counter_mono [OF inv, of "tq_workflow_id q" cs]
      transition_new_counter(2) [OF assms(2,1)] assms(3) by (simp add: command_for_key_def)
  moreover have "version_counter ?d (tq_workflow_id q) = counter (tq_expected_version q)"
    if "transition ids' q' ?d = (Inr c', d2)" for c' d2
    using transition_new_counter(1) [OF that workflow_commands_log.run_inv [OF inv]] assms(4-6)
    by (simp add: command_for_key_def)
  ultimately have no: "transition ids' q' ?d \<noteq> (Inr c', d2)" for c' d2 by force
  then show ?thesis
    by (cases "transition ids' q' ?d"; cases "fst (transition ids' q' ?d)")
      (auto simp: transition_def transaction_def split: option.splits sum.splits)
qed

theorem transition_single_winner_witness:
  "\<exists>e. fst (transition (sample_ids 50) (sample_transition ''start_preview'' ''other'' 0 PREVIEWING)
     (run_ops workflow_step (workflow_step (sample_db NEW 0) (hd sample_preview_run)) [])) = Inl e"
proof -
  let ?q = "sample_transition ''start_preview'' ''k1'' 0 PREVIEWING"
  let ?p = "sample_transition ''start_preview'' ''other'' 0 PREVIEWING"
  let ?r = "transition (sample_ids 10) ?q (sample_db NEW 0)"
  have "\<not> isl (fst ?r)" and n: "command_for_key (tq_workflow_id ?q) (tq_idempotency_key ?q) (sample_db NEW 0) = None"
    and m: "command_for_key (tq_workflow_id ?p) (tq_idempotency_key ?p) (run_ops workflow_step (snd ?r) []) = None"
    by code_simp+
  note r = call_returned [OF this(1)]
  from transition_single_winner [OF workflow_inv_sample_db r n _ _ m, of "sample_ids 50"]
  obtain e where "transition (sample_ids 50) ?p (run_ops workflow_step (snd ?r) [])
      = (Inl e, run_ops workflow_step (snd ?r) [])" by (auto simp: sample_transition_def)
  then show ?thesis by (simp add: sample_preview_run_def)
qed

text \<open>Past execution the store has no way into recovery.  A workflow that is calculating,
  verifying, completed, or anywhere in the rollback branch stays in those states whatever
  commands are applied, so it can never become \<open>RECONCILIATION_REQUIRED\<close> or
  \<open>QUARANTINED\<close>, although the workflow specification lists both as outcomes of
  verification and of rollback verification.\<close>

theorem past_execution_never_recovers:
  assumes "workflow_inv d" and "lookup_row wr_workflow_id i (workflow_records d) = Some w"
    and "wr_state w \<in> set past_execution"
  shows "\<exists>w'. lookup_row wr_workflow_id i (workflow_records (run_ops workflow_step d cs)) = Some w'
    \<and> wr_state w' \<in> set past_execution \<and> wr_state w' \<noteq> RECONCILIATION_REQUIRED \<and> wr_state w' \<noteq> QUARANTINED"
proof -
  have "closed_states (set past_execution)"
    by (rule closed_statesI) (simp add: workflow_edges_def LEGAL_TRANSITIONS_def past_execution_def)
  moreover have "state_in (set past_execution) i d" using assms(2,3) by (auto simp: state_in_def)
  ultimately have "state_in (set past_execution) i (run_ops workflow_step d cs)"
    using assms(1) by (intro workflow_run_closed)
  then show ?thesis by (auto simp: state_in_def past_execution_def)
qed

theorem past_execution_never_recovers_witness:
  "\<exists>w'. lookup_row wr_workflow_id (sample_uuid 1) (workflow_records
       (run_ops workflow_step (sample_db VERIFYING 4)
          [Transition (sample_ids 10) (sample_transition ''quarantine'' ''k'' 4 QUARANTINED)])) = Some w'
     \<and> wr_state w' \<in> set past_execution"
proof -
  have l: "lookup_row wr_workflow_id (sample_uuid 1) (workflow_records (sample_db VERIFYING 4))
      = Some (sample_workflow VERIFYING 4)"
    by (simp add: sample_db_def sample_workflow_def)
  have "wr_state (sample_workflow VERIFYING 4) \<in> set past_execution"
    by (simp add: sample_workflow_def past_execution_def)
  from past_execution_never_recovers [OF workflow_inv_sample_db l this] show ?thesis
    by (metis zero_le_numeral)
qed

text \<open>Final states.  A workflow that is abandoned, failed before effect, quarantined or
  rolled back keeps that state through every further run of the store.\<close>

theorem final_states_are_final:
  assumes "workflow_inv d" and "lookup_row wr_workflow_id i (workflow_records d) = Some w"
    and "wr_state w \<in> {ABANDONED, FAILED_BEFORE_EFFECT, QUARANTINED, ROLLED_BACK}"
  shows "\<exists>w'. lookup_row wr_workflow_id i (workflow_records (run_ops workflow_step d cs)) = Some w'
    \<and> wr_state w' = wr_state w"
proof -
  have "closed_states {wr_state w}"
    by (rule closed_statesI) (use assms(3) in \<open>auto simp: workflow_edges_def LEGAL_TRANSITIONS_def\<close>)
  moreover have "state_in {wr_state w} i d" using assms(2) by (auto simp: state_in_def)
  ultimately have "state_in {wr_state w} i (run_ops workflow_step d cs)"
    using assms(1) by (intro workflow_run_closed)
  then show ?thesis by (auto simp: state_in_def)
qed

theorem final_states_are_final_witness:
  "\<exists>w'. lookup_row wr_workflow_id (sample_uuid 1) (workflow_records
       (run_ops workflow_step (sample_db QUARANTINED 4) sample_preview_run)) = Some w' \<and> wr_state w' = QUARANTINED"
proof -
  have l: "lookup_row wr_workflow_id (sample_uuid 1) (workflow_records (sample_db QUARANTINED 4))
      = Some (sample_workflow QUARANTINED 4)"
    by (simp add: sample_db_def sample_workflow_def)
  from final_states_are_final [OF workflow_inv_sample_db l] show ?thesis by (simp add: sample_workflow_def)
qed

end
