(* ===== verification/Approval_Store.thy ===== *)
theory Approval_Store
  imports Workflow_Store
begin

text \<open>
  \<open>persistence/approval_store.py\<close>: \<open>ApprovalAuthorityStore\<close>.  The instance's
  \<open>authority_instance_id\<close> is the first argument, \<open>me\<close>, of the operations that use
  it.  An authorization row is the row of \<open>authority_authorizations\<close>: its state
  column changes, the stored authorization does not.
\<close>

section \<open>Row inserts\<close>

definition request_key :: "authority_approval_request \<Rightarrow> string" where
  "request_key r = apr_approval_request_id (aar_approval_request r)"

definition insert_decision :: "authority_decision \<Rightarrow> db \<Rightarrow> db stored" where
  "insert_decision x d =
     (if has_key ad_decision_id (ad_decision_id x) (authority_decisions d)
      then Inl (IntegrityError ''authority_decisions.decision_id'')
      else if has_key ad_approval_request_id (ad_approval_request_id x) (authority_decisions d)
      then Inl (IntegrityError ''authority_decisions.approval_request_id'')
      else if \<not> has_key request_key (ad_approval_request_id x) (approval_requests d)
      then Inl (IntegrityError ''authority_approval_requests'')
      else Inr (d\<lparr>authority_decisions := authority_decisions d @ [x]\<rparr>))"

definition insert_authorization :: "authorization_row \<Rightarrow> db \<Rightarrow> db stored" where
  "insert_authorization x d =
     (if has_key aurow_execution_id (aurow_execution_id x) (authority_authorizations d)
      then Inl (IntegrityError ''authority_authorizations.execution_id'')
      else if has_key aurow_approval_request_id (aurow_approval_request_id x) (authority_authorizations d)
      then Inl (IntegrityError ''authority_authorizations.approval_request_id'')
      else if \<not> has_key request_key (aurow_approval_request_id x) (approval_requests d)
      then Inl (IntegrityError ''authority_approval_requests'')
      else if \<not> has_key wr_workflow_id (aurow_workflow_id x) (workflow_records d)
      then Inl (IntegrityError ''workflow_records'')
      else Inr (d\<lparr>authority_authorizations := authority_authorizations d @ [x]\<rparr>))"

definition insert_authorization_event ::
  "string \<Rightarrow> string \<Rightarrow> authorization_state option \<Rightarrow> authorization_state \<Rightarrow> string \<Rightarrow> datetime \<Rightarrow> db \<Rightarrow> db stored" where
  "insert_authorization_event event_id execution_id before after reason occurred_at d =
     (if has_key aue_event_id event_id (authorization_events d)
      then Inl (IntegrityError ''authority_authorization_events.event_id'')
      else if \<not> has_key aurow_execution_id execution_id (authority_authorizations d)
      then Inl (IntegrityError ''authority_authorizations'')
      else Inr (d\<lparr>authorization_events := authorization_events d @
        [\<lparr>aue_event_id = event_id, aue_execution_id = execution_id, aue_state_before = before,
          aue_state_after = after, aue_reason_code = reason, aue_occurred_at = occurred_at\<rparr>]\<rparr>))"

definition insert_admission :: "authorization_admission \<Rightarrow> db \<Rightarrow> db stored" where
  "insert_admission x d =
     (if has_key ada_execution_id (ada_execution_id x) (authority_admissions d)
      then Inl (IntegrityError ''authority_admissions.execution_id'')
      else if \<not> has_key aurow_execution_id (ada_execution_id x) (authority_authorizations d)
      then Inl (IntegrityError ''authority_authorizations'')
      else Inr (d\<lparr>authority_admissions := authority_admissions d @ [x]\<rparr>))"

section \<open>Private steps\<close>

definition authority_workflow :: "string \<Rightarrow> db \<Rightarrow> workflow_record stored" where
  "authority_workflow i d = (case lookup_row wr_workflow_id i (workflow_records d) of
     None \<Rightarrow> Inl (AuthorityApprovalRequestNotFoundError (''workflow '' @ i)) | Some w \<Rightarrow> Inr w)"

definition matches_workflow :: "authority_approval_request \<Rightarrow> workflow_record \<Rightarrow> bool" where
  "matches_workflow r w \<longleftrightarrow> wr_state w = AWAITING_AUTHORIZATION
     \<and> wr_workflow_version w = aar_expected_workflow_version r
     \<and> wr_configuration_key w = aar_configuration_key r
     \<and> wr_proposal_digest w = apr_proposal_digest (aar_approval_request r)"

definition request :: "string \<Rightarrow> db \<Rightarrow> authority_approval_request stored" where
  "request i d = checked (map_option Invalid (require_uuid4 i ''approval_request_id''))
     (case lookup_row request_key i (approval_requests d) of
        None \<Rightarrow> Inl (AuthorityApprovalRequestNotFoundError i) | Some r \<Rightarrow> Inr r)"

definition decision_row :: "string \<Rightarrow> db \<Rightarrow> authority_decision option" where
  "decision_row i d = lookup_row ad_approval_request_id i (authority_decisions d)"

definition decision :: "string \<Rightarrow> db \<Rightarrow> authority_decision option stored" where
  "decision i d = checked (map_option Invalid (require_uuid4 i ''approval_request_id'')) (Inr (decision_row i d))"

definition authorization_row_by_id :: "string \<Rightarrow> db \<Rightarrow> authorization_row stored" where
  "authorization_row_by_id i d = checked (map_option Invalid (require_uuid4 i ''execution_id''))
     (case lookup_row aurow_execution_id i (authority_authorizations d) of
        None \<Rightarrow> Inl (AuthorityAuthorizationNotFoundError i) | Some r \<Rightarrow> Inr r)"

definition authorization :: "string \<Rightarrow> db \<Rightarrow> authority_authorization stored" where
  "authorization i d = attempt (authorization_row_by_id i d) (\<lambda>r. Inr (aurow_authorization r))"

definition authorization_state_of :: "string \<Rightarrow> db \<Rightarrow> authorization_state stored" where
  "authorization_state_of i d = attempt (authorization_row_by_id i d) (\<lambda>r. Inr (aurow_state r))"

definition record_terminal_decision ::
  "string \<Rightarrow> string \<Rightarrow> authority_approval_request \<Rightarrow> approval_decision_kind \<Rightarrow> datetime \<Rightarrow> string option
     \<Rightarrow> string \<Rightarrow> db \<Rightarrow> (authority_decision \<times> db) stored" where
  "record_terminal_decision me decision_id r kind decided_at who reason d =
     attempt (map_error Invalid (build_record AuthorityDecision_post_init
       \<lparr>ad_decision_id = decision_id, ad_approval_request_id = request_key r,
        ad_authority_instance_id = me, ad_decision_kind = kind, ad_decided_at = decided_at,
        ad_authenticated_principal_reference = who, ad_reason_code = reason\<rparr>)) (\<lambda>x.
     attempt (insert_decision x d) (\<lambda>d1. Inr (x, d1)))"

text \<open>
  \<open>_pending_request\<close> records an expired decision and then raises in the same
  transaction, which rolls that record back.
\<close>

definition pending_request ::
  "string \<Rightarrow> id_supply \<Rightarrow> string \<Rightarrow> datetime \<Rightarrow> db \<Rightarrow> authority_approval_request stored" where
  "pending_request me ids i decided_at d =
     attempt (request i d) (\<lambda>r.
     if decision_row i d \<noteq> None
     then Inl (AuthorityTerminalDecisionError ''approval request already has a terminal decision'')
     else if apr_expires_at (aar_approval_request r) \<le> decided_at
     then attempt (record_terminal_decision me (ids 0) r DECISION_EXPIRED decided_at None ''expired'' d)
            (\<lambda>_. Inl (AuthorityRequestExpiredError ''approval request expired''))
     else Inr r)"

definition set_authorization_state ::
  "string \<Rightarrow> string \<Rightarrow> authorization_state \<Rightarrow> authorization_state \<Rightarrow> string \<Rightarrow> datetime \<Rightarrow> db \<Rightarrow> db stored" where
  "set_authorization_state event_id execution_id before after reason occurred_at d =
     (let p = (\<lambda>r. aurow_execution_id r = execution_id \<and> aurow_state r = before)
      in if rowcount p (authority_authorizations d) \<noteq> 1
         then Inl (RuntimeError ''authorization state changed during durable admission'')
         else insert_authorization_event event_id execution_id (Some before) after reason occurred_at
           (d\<lparr>authority_authorizations := update_where p
                (\<lambda>r. r\<lparr>aurow_state := after, aurow_updated_at := occurred_at\<rparr>) (authority_authorizations d)\<rparr>))"

definition admission_outcome ::
  "string \<Rightarrow> authority_authorization \<Rightarrow> authority_authorization \<Rightarrow> authorization_state \<Rightarrow> datetime \<Rightarrow> db
     \<Rightarrow> (admission_status \<times> authorization_state \<times> string) stored" where
  "admission_outcome me candidate persisted current admitted_at d =
     (if current = AUTH_EXPIRED then Inr (ADMISSION_EXPIRED, current, ''expired'')
      else if current = AUTH_INVALIDATED then Inr (ADMISSION_INVALIDATED, current, ''invalidated'')
      else if current = AUTH_REJECTED then Inr (ADMISSION_REJECTED, current, ''rejected'')
      else if current = AUTH_CANCELLED then Inr (ADMISSION_CANCELLED, current, ''cancelled'')
      else if current \<noteq> AUTH_ISSUED
      then Inr (ADMISSION_INVALIDATED, AUTH_INVALIDATED, ''unsafe_authorization_state'')
      else if candidate \<noteq> persisted \<or> aa_authority_instance_id persisted \<noteq> me
      then Inr (ADMISSION_INVALIDATED, AUTH_INVALIDATED, ''authorization_integrity_failed'')
      else if ea_expires_at (aa_execution_authorization persisted) \<le> admitted_at
      then Inr (ADMISSION_EXPIRED, AUTH_EXPIRED, ''expired'')
      else attempt (authority_workflow (ea_workflow_id (aa_execution_authorization persisted)) d) (\<lambda>w.
           attempt (request (ea_approval_request_id (aa_execution_authorization persisted)) d) (\<lambda>r.
           if \<not> matches_workflow r w
           then Inr (ADMISSION_INVALIDATED, AUTH_INVALIDATED, ''workflow_binding_changed'')
           else Inr (ADMITTED, AUTH_CONSUMING, ''admitted''))))"

section \<open>Operations\<close>

definition create_request :: "authority_approval_request \<Rightarrow> db \<Rightarrow> authority_approval_request stored \<times> db" where
  "create_request r = transaction (\<lambda>d.
     attempt (authority_workflow (aar_workflow_id r) d) (\<lambda>w.
     if \<not> matches_workflow r w
     then Inl (Invalid (ValueError ''approval request must bind an awaiting, matching durable workflow''))
     else if has_key request_key (request_key r) (approval_requests d)
     then Inl (AuthorityTerminalDecisionError ''approval request ID already exists'')
     else Inr (r, d\<lparr>approval_requests := approval_requests d @ [r]\<rparr>)))"

text \<open>The authorization that an approval issues.\<close>

definition issued_execution ::
  "string \<Rightarrow> authority_approval_request \<Rightarrow> string \<Rightarrow> string \<Rightarrow> datetime \<Rightarrow> datetime \<Rightarrow> execution_authorization" where
  "issued_execution execution_id r i who decided_at expires_at =
     \<lparr>ea_execution_id = execution_id, ea_workflow_id = aar_workflow_id r, ea_approval_request_id = i,
      ea_authenticated_principal = who,
      ea_proposal_digest = apr_proposal_digest (aar_approval_request r),
      ea_configuration_key = aar_configuration_key r,
      ea_live_state_fingerprint = aar_live_state_fingerprint r,
      ea_operation_type = aar_operation_type r, ea_mutation_strategy = aar_mutation_strategy r,
      ea_expected_workflow_version = aar_expected_workflow_version r,
      ea_issued_at = decided_at, ea_expires_at = expires_at,
      ea_agent_identity = apr_agent_identity (aar_approval_request r),
      ea_client_identity = apr_client_identity (aar_approval_request r)\<rparr>"

definition approve ::
  "string \<Rightarrow> id_supply \<Rightarrow> string \<Rightarrow> string \<Rightarrow> datetime \<Rightarrow> datetime \<Rightarrow> db \<Rightarrow> authority_authorization stored \<times> db" where
  "approve me ids i who expires_at decided_at = transaction (\<lambda>d.
     checked (map_option Invalid (first_error
       [require_aware decided_at ''decided_at'', require_aware expires_at ''authorization_expires_at'']))
     (attempt (pending_request me ids i decided_at d) (\<lambda>r.
      if expires_at \<le> decided_at \<or> apr_expires_at (aar_approval_request r) < expires_at
      then Inl (Invalid (ValueError ''authorization expiry must be after approval and no later than request expiry''))
      else
      attempt (authority_workflow (aar_workflow_id r) d) (\<lambda>w.
      if \<not> matches_workflow r w
      then attempt (record_terminal_decision me (ids 0) r DECISION_INVALIDATED decided_at None
                      ''workflow_binding_changed'' d)
             (\<lambda>_. Inl (AuthorityTerminalDecisionError ''workflow bindings changed before approval''))
      else
      attempt (map_error Invalid (build_record AuthorityDecision_post_init
        \<lparr>ad_decision_id = ids 0, ad_approval_request_id = i, ad_authority_instance_id = me,
         ad_decision_kind = DECISION_APPROVED, ad_decided_at = decided_at,
         ad_authenticated_principal_reference = Some who, ad_reason_code = ''approved''\<rparr>)) (\<lambda>x.
      attempt (insert_decision x d) (\<lambda>d1.
      attempt (map_error Invalid (build_record ExecutionAuthorization_post_init
        (issued_execution (ids 1) r i who decided_at expires_at))) (\<lambda>ea.
      attempt (map_error Invalid (build_record AuthorityAuthorization_post_init
        \<lparr>aa_execution_authorization = ea, aa_authority_decision_id = ad_decision_id x,
         aa_authority_instance_id = me, aa_preview_id = apr_preview_id (aar_approval_request r),
         aa_workspace_revision = aar_workspace_revision r, aa_policy_versions = aar_policy_versions r\<rparr>)) (\<lambda>a.
      attempt (insert_authorization
        \<lparr>aurow_execution_id = ea_execution_id ea, aurow_approval_request_id = i,
         aurow_workflow_id = aar_workflow_id r, aurow_authority_instance_id = me, aurow_state = AUTH_ISSUED,
         aurow_authorization = a, aurow_updated_at = decided_at\<rparr> d1) (\<lambda>d2.
      attempt (insert_authorization_event (ids 2) (ea_execution_id ea) None AUTH_ISSUED ''issued'' decided_at d2) (\<lambda>d3.
      Inr (a, d3)))))))))))"

definition decide_terminal ::
  "string \<Rightarrow> id_supply \<Rightarrow> string \<Rightarrow> approval_decision_kind \<Rightarrow> datetime \<Rightarrow> string \<Rightarrow> db \<Rightarrow> authority_decision stored \<times> db" where
  "decide_terminal me ids i kind decided_at reason = transaction (\<lambda>d.
     checked (map_option Invalid (require_aware decided_at ''decided_at''))
     (attempt (pending_request me ids i decided_at d) (\<lambda>r.
      record_terminal_decision me (ids 0) r kind decided_at None reason d)))"

definition reject :: "string \<Rightarrow> id_supply \<Rightarrow> string \<Rightarrow> datetime \<Rightarrow> string \<Rightarrow> db \<Rightarrow> authority_decision stored \<times> db" where
  "reject me ids i = decide_terminal me ids i DECISION_REJECTED"

definition cancel :: "string \<Rightarrow> id_supply \<Rightarrow> string \<Rightarrow> datetime \<Rightarrow> string \<Rightarrow> db \<Rightarrow> authority_decision stored \<times> db" where
  "cancel me ids i = decide_terminal me ids i DECISION_CANCELLED"

definition expire_request :: "string \<Rightarrow> id_supply \<Rightarrow> string \<Rightarrow> datetime \<Rightarrow> db \<Rightarrow> authority_decision stored \<times> db" where
  "expire_request me ids i decided_at = transaction (\<lambda>d.
     checked (map_option Invalid (require_aware decided_at ''decided_at''))
     (attempt (request i d) (\<lambda>r.
      if decision_row i d \<noteq> None
      then Inl (AuthorityTerminalDecisionError ''approval request already has a terminal decision'')
      else if decided_at < apr_expires_at (aar_approval_request r)
      then Inl (Invalid (ValueError ''approval request has not expired''))
      else record_terminal_decision me (ids 0) r DECISION_EXPIRED decided_at None ''expired'' d)))"

definition invalidate_authorization ::
  "id_supply \<Rightarrow> string \<Rightarrow> datetime \<Rightarrow> string \<Rightarrow> db \<Rightarrow> authorization_state stored \<times> db" where
  "invalidate_authorization ids i occurred_at reason = transaction (\<lambda>d.
     checked (map_option Invalid (require_aware occurred_at ''occurred_at''))
     (attempt (authorization_row_by_id i d) (\<lambda>r.
      if aurow_state r \<noteq> AUTH_ISSUED then Inr (aurow_state r, d)
      else attempt (set_authorization_state (ids 0) i (aurow_state r) AUTH_INVALIDATED reason occurred_at d)
             (\<lambda>d1. Inr (AUTH_INVALIDATED, d1)))))"

definition admit ::
  "string \<Rightarrow> id_supply \<Rightarrow> authority_authorization \<Rightarrow> datetime \<Rightarrow> db \<Rightarrow> authorization_admission stored \<times> db" where
  "admit me ids candidate admitted_at = transaction (\<lambda>d.
     checked (map_option Invalid (require_aware admitted_at ''admitted_at''))
     (let i = ea_execution_id (aa_execution_authorization candidate) in
      case lookup_row ada_execution_id i (authority_admissions d) of
        Some prior \<Rightarrow> Inr (prior, d)
      | None \<Rightarrow>
          attempt (authorization_row_by_id i d) (\<lambda>r.
          attempt (admission_outcome me candidate (aurow_authorization r) (aurow_state r) admitted_at d)
            (\<lambda>(status, target, reason).
          attempt (map_error Invalid (build_record AuthorizationAdmission_post_init
            \<lparr>ada_execution_id = i,
             ada_workflow_id = ea_workflow_id (aa_execution_authorization (aurow_authorization r)),
             ada_status = status, ada_reason_code = reason, ada_recorded_at = admitted_at\<rparr>)) (\<lambda>x.
          attempt (if target \<noteq> aurow_state r
                   then set_authorization_state (ids 0) i (aurow_state r) target reason admitted_at d
                   else Inr d) (\<lambda>d1.
          attempt (insert_admission x d1) (\<lambda>d2. Inr (x, d2))))))))"

definition mark_consumed ::
  "id_supply \<Rightarrow> string \<Rightarrow> datetime \<Rightarrow> string \<Rightarrow> db \<Rightarrow> authorization_state stored \<times> db" where
  "mark_consumed ids i occurred_at reason = transaction (\<lambda>d.
     checked (map_option Invalid (require_aware occurred_at ''occurred_at''))
     (attempt (authorization_row_by_id i d) (\<lambda>r.
      if aurow_state r = AUTH_CONSUMING
      then attempt (set_authorization_state (ids 0) i (aurow_state r) AUTH_CONSUMED reason occurred_at d)
             (\<lambda>d1. Inr (AUTH_CONSUMED, d1))
      else Inr (aurow_state r, d))))"

section \<open>The store as a machine\<close>

datatype approval_command =
    CreateRequest authority_approval_request
  | Approve string id_supply string string datetime datetime
  | Reject string id_supply string datetime string
  | Cancel string id_supply string datetime string
  | ExpireRequest string id_supply string datetime
  | InvalidateAuthorization id_supply string datetime string
  | Admit string id_supply authority_authorization datetime
  | MarkConsumed id_supply string datetime string

fun approval_step :: "db \<Rightarrow> approval_command \<Rightarrow> db" where
  "approval_step d (CreateRequest r) =
     (case build_record AuthorityApprovalRequest_post_init r of Inl e \<Rightarrow> d | Inr x \<Rightarrow> snd (create_request x d))"
| "approval_step d (Approve me ids i p x t) = snd (approve me ids i p x t d)"
| "approval_step d (Reject me ids i t r) = snd (reject me ids i t r d)"
| "approval_step d (Cancel me ids i t r) = snd (cancel me ids i t r d)"
| "approval_step d (ExpireRequest me ids i t) = snd (expire_request me ids i t d)"
| "approval_step d (InvalidateAuthorization ids i t r) = snd (invalidate_authorization ids i t r d)"
| "approval_step d (Admit me ids a t) = snd (admit me ids a t d)"
| "approval_step d (MarkConsumed ids i t r) = snd (mark_consumed ids i t r d)"

section \<open>Reading the inserts\<close>

lemma insert_decision_Inr_iff:
  "insert_decision x d = Inr d' \<longleftrightarrow>
     \<not> has_key ad_decision_id (ad_decision_id x) (authority_decisions d)
     \<and> \<not> has_key ad_approval_request_id (ad_approval_request_id x) (authority_decisions d)
     \<and> has_key request_key (ad_approval_request_id x) (approval_requests d)
     \<and> d' = d\<lparr>authority_decisions := authority_decisions d @ [x]\<rparr>"
  by (auto simp: insert_decision_def)

lemma insert_authorization_Inr_iff:
  "insert_authorization x d = Inr d' \<longleftrightarrow>
     \<not> has_key aurow_execution_id (aurow_execution_id x) (authority_authorizations d)
     \<and> \<not> has_key aurow_approval_request_id (aurow_approval_request_id x) (authority_authorizations d)
     \<and> has_key request_key (aurow_approval_request_id x) (approval_requests d)
     \<and> has_key wr_workflow_id (aurow_workflow_id x) (workflow_records d)
     \<and> d' = d\<lparr>authority_authorizations := authority_authorizations d @ [x]\<rparr>"
  by (auto simp: insert_authorization_def)

lemma insert_authorization_event_Inr_iff:
  "insert_authorization_event e i b a r t d = Inr d' \<longleftrightarrow>
     \<not> has_key aue_event_id e (authorization_events d)
     \<and> has_key aurow_execution_id i (authority_authorizations d)
     \<and> d' = d\<lparr>authorization_events := authorization_events d @
        [\<lparr>aue_event_id = e, aue_execution_id = i, aue_state_before = b,
          aue_state_after = a, aue_reason_code = r, aue_occurred_at = t\<rparr>]\<rparr>"
  by (auto simp: insert_authorization_event_def)

lemma insert_admission_Inr_iff:
  "insert_admission x d = Inr d' \<longleftrightarrow>
     \<not> has_key ada_execution_id (ada_execution_id x) (authority_admissions d)
     \<and> has_key aurow_execution_id (ada_execution_id x) (authority_authorizations d)
     \<and> d' = d\<lparr>authority_admissions := authority_admissions d @ [x]\<rparr>"
  by (auto simp: insert_admission_def)

lemmas approval_insert_iffs =
  insert_decision_Inr_iff insert_authorization_Inr_iff insert_authorization_event_Inr_iff
  insert_admission_Inr_iff

end
