(* ===== verification/Approval_Laws.thy ===== *)
theory Approval_Laws
  imports Approval_Store
begin

text \<open>
  What the approval authority guarantees: one decision per request, no
  authorization without an approval, one admission per authorization, and an
  authorization state that only moves along its machine with every move recorded.
\<close>

section \<open>The authorization state machine\<close>

definition auth_edges :: "(authorization_state \<times> authorization_state) list" where
  "auth_edges = [(AUTH_ISSUED, AUTH_CONSUMING), (AUTH_ISSUED, AUTH_INVALIDATED),
     (AUTH_ISSUED, AUTH_EXPIRED), (AUTH_CONSUMING, AUTH_CONSUMED)]"

text \<open>The recorded moves of one authorization, newest first, ending in its state.\<close>

fun trail_ok :: "(authorization_state option \<times> authorization_state) list \<Rightarrow> authorization_state \<Rightarrow> bool" where
  "trail_ok [] s = False"
| "trail_ok ((b, a) # es) s = (a = s \<and> (case b of
      None \<Rightarrow> es = [] \<and> a = AUTH_ISSUED
    | Some b' \<Rightarrow> (b', a) \<in> set auth_edges \<and> trail_ok es b'))"

definition trail :: "string \<Rightarrow> db \<Rightarrow> (authorization_state option \<times> authorization_state) list" where
  "trail i d = rev (map (\<lambda>e. (aue_state_before e, aue_state_after e))
     (filter (\<lambda>e. aue_execution_id e = i) (authorization_events d)))"

definition admitted :: "string \<Rightarrow> db \<Rightarrow> bool" where
  "admitted i d \<longleftrightarrow> (\<exists>x \<in> set (authority_admissions d). ada_execution_id x = i \<and> ada_status x = ADMITTED)"

definition in_use :: "authorization_state \<Rightarrow> bool" where
  "in_use s \<longleftrightarrow> s = AUTH_CONSUMING \<or> s = AUTH_CONSUMED"

text \<open>A row agrees with its authorization, and an approval of its request stands behind it.\<close>

definition row_projects :: "authorization_row \<Rightarrow> bool" where
  "row_projects r \<longleftrightarrow> (let ea = aa_execution_authorization (aurow_authorization r) in
     ea_execution_id ea = aurow_execution_id r \<and> ea_approval_request_id ea = aurow_approval_request_id r
     \<and> ea_workflow_id ea = aurow_workflow_id r
     \<and> aa_authority_instance_id (aurow_authorization r) = aurow_authority_instance_id r)"

definition approved_by :: "authorization_row \<Rightarrow> authority_decision \<Rightarrow> bool" where
  "approved_by r x \<longleftrightarrow> ad_decision_kind x = DECISION_APPROVED
     \<and> ad_approval_request_id x = aurow_approval_request_id r
     \<and> ad_decision_id x = aa_authority_decision_id (aurow_authorization r)
     \<and> ad_authority_instance_id x = aurow_authority_instance_id r
     \<and> ad_authenticated_principal_reference x
         = Some (ea_authenticated_principal (aa_execution_authorization (aurow_authorization r)))"

definition approval_inv :: "db \<Rightarrow> bool" where
  "approval_inv d \<longleftrightarrow>
     unique_key request_key (approval_requests d)
     \<and> unique_key ad_approval_request_id (authority_decisions d)
     \<and> unique_key aurow_execution_id (authority_authorizations d)
     \<and> unique_key aurow_approval_request_id (authority_authorizations d)
     \<and> unique_key ada_execution_id (authority_admissions d)
     \<and> (\<forall>e \<in> set (authorization_events d). has_key aurow_execution_id (aue_execution_id e) (authority_authorizations d))
     \<and> (\<forall>x \<in> set (authority_admissions d). has_key aurow_execution_id (ada_execution_id x) (authority_authorizations d))
     \<and> (\<forall>r \<in> set (authority_authorizations d). row_projects r
          \<and> (\<exists>x \<in> set (authority_decisions d). approved_by r x)
          \<and> trail_ok (trail (aurow_execution_id r) d) (aurow_state r)
          \<and> admitted (aurow_execution_id r) d = in_use (aurow_state r))"

section \<open>The abstract change\<close>

definition set_row_state :: "string \<Rightarrow> authorization_state \<Rightarrow> datetime \<Rightarrow> authorization_row list \<Rightarrow> authorization_row list" where
  "set_row_state i a t rows =
     update_where (\<lambda>r. aurow_execution_id r = i) (\<lambda>r. r\<lparr>aurow_state := a, aurow_updated_at := t\<rparr>) rows"

inductive approval_change :: "db \<Rightarrow> db \<Rightarrow> bool" where
  requested: "\<not> has_key request_key (request_key r) (approval_requests d) \<Longrightarrow>
     approval_change d (d\<lparr>approval_requests := approval_requests d @ [r]\<rparr>)"
| decided: "\<not> has_key ad_approval_request_id (ad_approval_request_id x) (authority_decisions d) \<Longrightarrow>
     ad_decision_kind x \<noteq> DECISION_APPROVED \<Longrightarrow>
     approval_change d (d\<lparr>authority_decisions := authority_decisions d @ [x]\<rparr>)"
| issued: "\<not> has_key ad_approval_request_id (ad_approval_request_id x) (authority_decisions d) \<Longrightarrow>
     \<not> has_key aurow_execution_id (aurow_execution_id r) (authority_authorizations d) \<Longrightarrow>
     \<not> has_key aurow_approval_request_id (aurow_approval_request_id r) (authority_authorizations d) \<Longrightarrow>
     row_projects r \<Longrightarrow> approved_by r x \<Longrightarrow> aurow_state r = AUTH_ISSUED \<Longrightarrow>
     aue_execution_id e = aurow_execution_id r \<Longrightarrow> aue_state_before e = None \<Longrightarrow> aue_state_after e = AUTH_ISSUED \<Longrightarrow>
     approval_change d (d\<lparr>authority_decisions := authority_decisions d @ [x],
       authority_authorizations := authority_authorizations d @ [r],
       authorization_events := authorization_events d @ [e]\<rparr>)"
| state_moved: "r \<in> set (authority_authorizations d) \<Longrightarrow> (aurow_state r, a) \<in> set auth_edges \<Longrightarrow>
     aue_execution_id e = aurow_execution_id r \<Longrightarrow> aue_state_before e = Some (aurow_state r) \<Longrightarrow>
     aue_state_after e = a \<Longrightarrow>
     (xs = [] \<and> a \<noteq> AUTH_CONSUMING
       \<or> (\<exists>x. xs = [x] \<and> ada_execution_id x = aurow_execution_id r
            \<and> \<not> has_key ada_execution_id (aurow_execution_id r) (authority_admissions d)
            \<and> (ada_status x = ADMITTED) = (a = AUTH_CONSUMING) \<and> aurow_state r = AUTH_ISSUED)) \<Longrightarrow>
     approval_change d (d\<lparr>authority_authorizations := set_row_state (aurow_execution_id r) a t (authority_authorizations d),
       authorization_events := authorization_events d @ [e],
       authority_admissions := authority_admissions d @ xs\<rparr>)"
| refused: "has_key aurow_execution_id (ada_execution_id x) (authority_authorizations d) \<Longrightarrow>
     \<not> has_key ada_execution_id (ada_execution_id x) (authority_admissions d) \<Longrightarrow> ada_status x \<noteq> ADMITTED \<Longrightarrow>
     approval_change d (d\<lparr>authority_admissions := authority_admissions d @ [x]\<rparr>)"

lemma set_row_state_keys [simp]:
  "map aurow_execution_id (set_row_state i a t rows) = map aurow_execution_id rows"
  "map aurow_approval_request_id (set_row_state i a t rows) = map aurow_approval_request_id rows"
  by (simp_all add: set_row_state_def map_update_where_same_key)

lemma set_row_state_unique [simp]:
  "unique_key aurow_execution_id (set_row_state i a t rows) = unique_key aurow_execution_id rows"
  "unique_key aurow_approval_request_id (set_row_state i a t rows) = unique_key aurow_approval_request_id rows"
  "has_key aurow_execution_id j (set_row_state i a t rows) = has_key aurow_execution_id j rows"
  by (simp_all add: unique_key_def) (simp add: set_row_state_def has_key_update_where)

lemma set_set_row_state:
  "set (set_row_state i a t rows)
     = {r\<lparr>aurow_state := a, aurow_updated_at := t\<rparr> | r. r \<in> set rows \<and> aurow_execution_id r = i}
       \<union> {r \<in> set rows. aurow_execution_id r \<noteq> i}"
  by (simp add: set_row_state_def set_update_where)

lemma trail_append [simp]:
  "trail i (d\<lparr>authorization_events := es @ [e]\<rparr>)
     = (if aue_execution_id e = i then [(aue_state_before e, aue_state_after e)] else [])
       @ trail i (d\<lparr>authorization_events := es\<rparr>)"
  by (simp add: trail_def)

lemma trail_cong: "authorization_events d = authorization_events d' \<Longrightarrow> trail i d = trail i d'"
  by (simp add: trail_def)

lemma admitted_cong: "authority_admissions d = authority_admissions d' \<Longrightarrow> admitted i d = admitted i d'"
  by (simp add: admitted_def)

lemma trail_nil: "\<forall>e \<in> set (authorization_events d). aue_execution_id e \<noteq> i \<Longrightarrow> trail i d = []"
  by (simp add: trail_def filter_empty_conv)

lemma approval_inv_cong:
  "approval_requests d' = approval_requests d \<Longrightarrow> authority_decisions d' = authority_decisions d \<Longrightarrow>
   authority_authorizations d' = authority_authorizations d \<Longrightarrow>
   authorization_events d' = authorization_events d \<Longrightarrow>
   authority_admissions d' = authority_admissions d \<Longrightarrow> approval_inv d' = approval_inv d"
  by (simp add: approval_inv_def trail_def admitted_def)

lemma approval_inv_issued:
  assumes inv: "approval_inv d"
    and x: "\<not> has_key ad_approval_request_id (ad_approval_request_id x) (authority_decisions d)"
    and r: "\<not> has_key aurow_execution_id (aurow_execution_id r) (authority_authorizations d)"
      "\<not> has_key aurow_approval_request_id (aurow_approval_request_id r) (authority_authorizations d)"
      "row_projects r" "approved_by r x" "aurow_state r = AUTH_ISSUED"
    and e: "aue_execution_id e = aurow_execution_id r" "aue_state_before e = None" "aue_state_after e = AUTH_ISSUED"
  shows "approval_inv (d\<lparr>authority_decisions := authority_decisions d @ [x],
       authority_authorizations := authority_authorizations d @ [r],
       authorization_events := authorization_events d @ [e]\<rparr>)" (is "approval_inv ?d")
proof -
  have t: "trail i ?d = (if aurow_execution_id r = i then [(None, AUTH_ISSUED)] else []) @ trail i d" for i
    using e by (simp add: trail_def)
  have a: "admitted i ?d = admitted i d" for i by (simp add: admitted_def)
  have "trail (aurow_execution_id r) d = []" "\<not> admitted (aurow_execution_id r) d"
    using inv r(1) by (auto simp: approval_inv_def admitted_def intro!: trail_nil)
  moreover have "aurow_execution_id s \<noteq> aurow_execution_id r" if "s \<in> set (authority_authorizations d)" for s
    using that r(1) by (auto simp: has_key_def)
  ultimately show ?thesis
    using inv x r e unfolding approval_inv_def t a by (auto simp: unique_key_snoc in_use_def)
qed

lemma approval_inv_moved:
  assumes inv: "approval_inv d" and r: "r \<in> set (authority_authorizations d)"
    and edge: "(aurow_state r, a) \<in> set auth_edges"
    and e: "aue_execution_id e = aurow_execution_id r" "aue_state_before e = Some (aurow_state r)" "aue_state_after e = a"
    and xs: "xs = [] \<and> a \<noteq> AUTH_CONSUMING
       \<or> (\<exists>x. xs = [x] \<and> ada_execution_id x = aurow_execution_id r
            \<and> \<not> has_key ada_execution_id (aurow_execution_id r) (authority_admissions d)
            \<and> (ada_status x = ADMITTED) = (a = AUTH_CONSUMING) \<and> aurow_state r = AUTH_ISSUED)"
  shows "approval_inv (d\<lparr>authority_authorizations := set_row_state (aurow_execution_id r) a t (authority_authorizations d),
       authorization_events := authorization_events d @ [e],
       authority_admissions := authority_admissions d @ xs\<rparr>)" (is "approval_inv ?d")
proof -
  let ?i = "aurow_execution_id r"
  have tr: "trail i ?d = (if ?i = i then [(Some (aurow_state r), a)] else []) @ trail i d" for i
    using e by (simp add: trail_def)
  have ad: "admitted i ?d = (admitted i d \<or> (?i = i \<and> xs \<noteq> [] \<and> a = AUTH_CONSUMING))" for i
    using xs by (auto simp: admitted_def)
  have u: "unique_key aurow_execution_id (authority_authorizations d)" using inv by (simp add: approval_inv_def)
  have rI: "trail_ok (trail ?i d) (aurow_state r)" "admitted ?i d = in_use (aurow_state r)" "row_projects r"
      "\<exists>x \<in> set (authority_decisions d). approved_by r x"
    using inv r by (simp_all add: approval_inv_def)
  have new: "trail_ok (trail ?i ?d) a" "admitted ?i ?d = in_use a"
    using rI edge xs unfolding tr ad by (auto simp: auth_edges_def in_use_def)
  have rows: "row_projects s \<and> (\<exists>x \<in> set (authority_decisions d). approved_by s x)
      \<and> trail_ok (trail (aurow_execution_id s) ?d) (aurow_state s)
      \<and> admitted (aurow_execution_id s) ?d = in_use (aurow_state s)"
    if "s \<in> set (set_row_state ?i a t (authority_authorizations d))" for s
  proof (cases "aurow_execution_id s = ?i")
    case True
    with that u r have "s = r\<lparr>aurow_state := a, aurow_updated_at := t\<rparr>"
      by (auto simp: set_set_row_state dest: unique_keyD)
    with new rI show ?thesis by (simp add: row_projects_def approved_by_def Let_def)
  next
    case False
    with that have "s \<in> set (authority_authorizations d)" by (auto simp: set_set_row_state)
    with False inv show ?thesis unfolding tr ad by (auto simp: approval_inv_def)
  qed
  moreover have "has_key aurow_execution_id ?i (authority_authorizations d)" using r by (auto simp: has_key_def)
  ultimately show ?thesis
    using inv xs e(1) unfolding approval_inv_def
    by (auto simp: unique_key_snoc)
qed

lemma approval_change_inv: "approval_change d d' \<Longrightarrow> approval_inv d \<Longrightarrow> approval_inv d'"
proof (induction rule: approval_change.induct)
  case (requested r d)
  then show ?case by (simp add: approval_inv_def unique_key_snoc trail_def admitted_def)
next
  case (decided x d)
  then show ?case by (auto simp: approval_inv_def unique_key_snoc trail_def admitted_def)
next
  case (issued x d r e)
  then show ?case by (intro approval_inv_issued)
next
  case (state_moved r d a e xs t)
  then show ?case by (intro approval_inv_moved)
next
  case (refused x d)
  have t: "trail i (d\<lparr>authority_admissions := as\<rparr>) = trail i d" for i as by (simp add: trail_def)
  have a: "admitted i (d\<lparr>authority_admissions := authority_admissions d @ [x]\<rparr>) = admitted i d" for i
    using refused by (auto simp: admitted_def)
  show ?case using refused unfolding approval_inv_def t a by (simp add: unique_key_snoc)
qed

lemma approval_change_logs:
  "approval_change d d' \<Longrightarrow> prefix (authority_decisions d) (authority_decisions d')
     \<and> prefix (authority_admissions d) (authority_admissions d')
     \<and> prefix (authorization_events d) (authorization_events d')"
  by (induction rule: approval_change.induct) auto

section \<open>Every operation is one abstract change\<close>

lemma set_authorization_state_InrD:
  assumes "set_authorization_state event_id i b a reason t d = Inr d'"
    and "unique_key aurow_execution_id (authority_authorizations d)"
    and "r \<in> set (authority_authorizations d)" "aurow_execution_id r = i" "aurow_state r = b"
  obtains e where "aue_execution_id e = i" "aue_state_before e = Some b" "aue_state_after e = a"
    "d' = d\<lparr>authority_authorizations := set_row_state i a t (authority_authorizations d),
       authorization_events := authorization_events d @ [e]\<rparr>"
proof -
  have "update_where (\<lambda>r. aurow_execution_id r = i \<and> aurow_state r = b)
      (\<lambda>r. r\<lparr>aurow_state := a, aurow_updated_at := t\<rparr>) (authority_authorizations d)
    = set_row_state i a t (authority_authorizations d)"
    using assms(2-5) by (auto simp: set_row_state_def update_where_def dest: unique_keyD)
  with assms(1) show thesis
    by (intro that [of "\<lparr>aue_event_id = event_id, aue_execution_id = i, aue_state_before = Some b,
        aue_state_after = a, aue_reason_code = reason, aue_occurred_at = t\<rparr>"])
      (auto simp: set_authorization_state_def Let_def insert_authorization_event_Inr_iff split: if_splits)
qed

lemma authorization_row_by_id_InrD:
  "authorization_row_by_id i d = Inr r \<Longrightarrow> r \<in> set (authority_authorizations d) \<and> aurow_execution_id r = i"
  by (auto simp: authorization_row_by_id_def checked_Inr_iff split: option.splits dest: lookup_row_SomeD)

lemma request_InrD: "request i d = Inr r \<Longrightarrow> r \<in> set (approval_requests d) \<and> request_key r = i"
  by (auto simp: request_def checked_Inr_iff split: option.splits dest: lookup_row_SomeD)

lemma pending_request_InrD:
  "pending_request me ids i t d = Inr r \<Longrightarrow> request i d = Inr r \<and> decision_row i d = None
     \<and> t < apr_expires_at (aar_approval_request r)"
  by (auto simp: pending_request_def attempt_Inr_iff split: if_splits)

lemma record_terminal_decision_change:
  "record_terminal_decision me i r k t p reason d = Inr (x, d') \<Longrightarrow> k \<noteq> DECISION_APPROVED \<Longrightarrow> approval_change d d'"
  by (auto simp: record_terminal_decision_def attempt_Inr_iff build_record_Inr_iff insert_decision_Inr_iff
      intro: approval_change.decided)

lemma create_request_change:
  "snd (create_request r d) = d \<or> approval_change d (snd (create_request r d))"
  unfolding create_request_def
  by (rule transaction_cases) (auto simp: attempt_Inr_iff split: if_splits intro: approval_change.requested)

lemma decide_terminal_change:
  "k \<noteq> DECISION_APPROVED \<Longrightarrow>
     snd (decide_terminal me ids i k t reason d) = d \<or> approval_change d (snd (decide_terminal me ids i k t reason d))"
  unfolding decide_terminal_def
  by (rule transaction_cases)
    (auto simp: checked_Inr_iff attempt_Inr_iff intro: record_terminal_decision_change)

lemma expire_request_change:
  "snd (expire_request me ids i t d) = d \<or> approval_change d (snd (expire_request me ids i t d))"
  unfolding expire_request_def
  by (rule transaction_cases)
    (auto simp: checked_Inr_iff attempt_Inr_iff split: if_splits intro: record_terminal_decision_change)

text \<open>What an approval that returned has done.\<close>

definition approval_decision :: "string \<Rightarrow> string \<Rightarrow> string \<Rightarrow> string \<Rightarrow> datetime \<Rightarrow> authority_decision" where
  "approval_decision me decision_id i who t = \<lparr>ad_decision_id = decision_id, ad_approval_request_id = i,
     ad_authority_instance_id = me, ad_decision_kind = DECISION_APPROVED, ad_decided_at = t,
     ad_authenticated_principal_reference = Some who, ad_reason_code = ''approved''\<rparr>"

definition approval_row :: "authority_authorization \<Rightarrow> string \<Rightarrow> string \<Rightarrow> string \<Rightarrow> datetime \<Rightarrow> authorization_row" where
  "approval_row a me i w t = \<lparr>aurow_execution_id = ea_execution_id (aa_execution_authorization a),
     aurow_approval_request_id = i, aurow_workflow_id = w, aurow_authority_instance_id = me,
     aurow_state = AUTH_ISSUED, aurow_authorization = a, aurow_updated_at = t\<rparr>"

lemma approve_InrE:
  assumes "approve me ids i who x t d = (Inr a, d')"
  obtains r w e where "request i d = Inr r" "decision_row i d = None"
    "t < x" "x \<le> apr_expires_at (aar_approval_request r)"
    "lookup_row wr_workflow_id (aar_workflow_id r) (workflow_records d) = Some w" "matches_workflow r w"
    "aa_execution_authorization a = issued_execution (ids 1) r i who t x"
    "aa_authority_decision_id a = ids 0" "aa_authority_instance_id a = me"
    "\<not> has_key ad_approval_request_id i (authority_decisions d)"
    "\<not> has_key aurow_execution_id (ids 1) (authority_authorizations d)"
    "\<not> has_key aurow_approval_request_id i (authority_authorizations d)"
    "aue_execution_id e = ids 1" "aue_state_before e = None" "aue_state_after e = AUTH_ISSUED"
    "d' = d\<lparr>authority_decisions := authority_decisions d @ [approval_decision me (ids 0) i who t],
       authority_authorizations := authority_authorizations d @ [approval_row a me i (aar_workflow_id r) t],
       authorization_events := authorization_events d @ [e]\<rparr>"
proof -
  let ?x = "approval_decision me (ids 0) i who t"
  from assms obtain r w where p: "pending_request me ids i t d = Inr r"
    and exp: "t < x" "x \<le> apr_expires_at (aar_approval_request r)"
    and w: "authority_workflow (aar_workflow_id r) d = Inr w" and m: "matches_workflow r w"
    and rest: "attempt (map_error Invalid (build_record AuthorityDecision_post_init ?x)) (\<lambda>x'.
      attempt (insert_decision x' d) (\<lambda>d1.
      attempt (map_error Invalid (build_record ExecutionAuthorization_post_init
        (issued_execution (ids 1) r i who t x))) (\<lambda>ea.
      attempt (map_error Invalid (build_record AuthorityAuthorization_post_init
        \<lparr>aa_execution_authorization = ea, aa_authority_decision_id = ad_decision_id x',
         aa_authority_instance_id = me, aa_preview_id = apr_preview_id (aar_approval_request r),
         aa_workspace_revision = aar_workspace_revision r, aa_policy_versions = aar_policy_versions r\<rparr>)) (\<lambda>a.
      attempt (insert_authorization
        \<lparr>aurow_execution_id = ea_execution_id ea, aurow_approval_request_id = i,
         aurow_workflow_id = aar_workflow_id r, aurow_authority_instance_id = me, aurow_state = AUTH_ISSUED,
         aurow_authorization = a, aurow_updated_at = t\<rparr> d1) (\<lambda>d2.
      attempt (insert_authorization_event (ids 2) (ea_execution_id ea) None AUTH_ISSUED ''issued'' t d2) (\<lambda>d3.
      Inr (a, d3))))))) = Inr (a, d')"
    unfolding approve_def approval_decision_def transaction_Inr_iff checked_Inr_iff
    by (force simp: attempt_Inr_iff not_le split: if_split_asm)
  have "lookup_row wr_workflow_id (aar_workflow_id r) (workflow_records d) = Some w"
    using w by (auto simp: authority_workflow_def split: option.splits)
  with pending_request_InrD [OF p] exp m show thesis
    using rest
    by (intro that [of r w "\<lparr>aue_event_id = ids 2, aue_execution_id = ids 1, aue_state_before = None,
          aue_state_after = AUTH_ISSUED, aue_reason_code = ''issued'', aue_occurred_at = t\<rparr>"])
      (auto simp: attempt_Inr_iff build_record_Inr_iff approval_insert_iffs approval_decision_def
        approval_row_def issued_execution_def)
qed

lemma approve_InlD: "approve me ids i who x t d = (Inl e, d') \<Longrightarrow> d' = d"
  by (simp add: approve_def transaction_Inl_iff)

lemma approve_change:
  "snd (approve me ids i who x t d) = d \<or> approval_change d (snd (approve me ids i who x t d))"
proof (cases "approve me ids i who x t d")
  case (Pair res d')
  show ?thesis
  proof (cases res)
    case (Inl e)
    with Pair approve_InlD [of me ids i who x t d e d'] show ?thesis by simp
  next
    case (Inr a)
    with Pair have "approve me ids i who x t d = (Inr a, d')" by simp
    then have "approval_change d d'"
    proof (cases rule: approve_InrE)
      case (1 r w e)
      then show ?thesis unfolding 1(16)
        by (intro approval_change.issued)
          (simp_all add: row_projects_def approved_by_def approval_row_def approval_decision_def issued_execution_def Let_def)
    qed
    with Pair show ?thesis by simp
  qed
qed

lemma moved_by_set:
  assumes "set_authorization_state ev i (aurow_state r) a reason t d = Inr d'" "approval_inv d"
    and "authorization_row_by_id i d = Inr r" "(aurow_state r, a) \<in> set auth_edges" "a \<noteq> AUTH_CONSUMING"
  shows "approval_change d d'"
proof -
  note r = authorization_row_by_id_InrD [OF assms(3)]
  from assms(2) have u: "unique_key aurow_execution_id (authority_authorizations d)" by (simp add: approval_inv_def)
  from assms(1) u r obtain e where "aue_execution_id e = i" "aue_state_before e = Some (aurow_state r)"
      "aue_state_after e = a" and d': "d' = d\<lparr>authority_authorizations := set_row_state i a t (authority_authorizations d),
       authorization_events := authorization_events d @ [e]\<rparr>"
    by (auto elim: set_authorization_state_InrD)
  with approval_change.state_moved [of r d a e "[]" t] r assms(4,5) show ?thesis by simp
qed

lemma invalidate_authorization_change:
  "approval_inv d \<Longrightarrow> snd (invalidate_authorization ids i t reason d) = d
     \<or> approval_change d (snd (invalidate_authorization ids i t reason d))"
  unfolding invalidate_authorization_def
proof (rule transaction_cases, goal_cases)
  case (1 x d')
  then obtain r where r: "authorization_row_by_id i d = Inr r"
    and "d' = d \<or> aurow_state r = AUTH_ISSUED
       \<and> set_authorization_state (ids 0) i (aurow_state r) AUTH_INVALIDATED reason t d = Inr d'"
    by (auto simp: checked_Inr_iff attempt_Inr_iff split: if_splits)
  with 1 show ?case by (auto simp: auth_edges_def intro: moved_by_set [OF _ _ r])
qed simp

lemma mark_consumed_change:
  "approval_inv d \<Longrightarrow> snd (mark_consumed ids i t reason d) = d
     \<or> approval_change d (snd (mark_consumed ids i t reason d))"
  unfolding mark_consumed_def
proof (rule transaction_cases, goal_cases)
  case (1 x d')
  then obtain r where r: "authorization_row_by_id i d = Inr r"
    and "d' = d \<or> aurow_state r = AUTH_CONSUMING
       \<and> set_authorization_state (ids 0) i (aurow_state r) AUTH_CONSUMED reason t d = Inr d'"
    by (auto simp: checked_Inr_iff attempt_Inr_iff split: if_splits)
  with 1 show ?case by (auto simp: auth_edges_def intro: moved_by_set [OF _ _ r])
qed simp

text \<open>
  What an admission decides.  An authorization with no admission is not in use, so
  the \<open>unsafe_authorization_state\<close> branch is never taken.
\<close>

lemma admission_outcome_cases:
  assumes "admission_outcome me c p s t d = Inr (status, target, reason)" "\<not> in_use s"
  shows "(target = s \<and> status \<noteq> ADMITTED \<and> s \<noteq> AUTH_ISSUED)
    \<or> (s = AUTH_ISSUED \<and> (s, target) \<in> set auth_edges \<and> (status = ADMITTED) = (target = AUTH_CONSUMING)
       \<and> target \<noteq> s)"
  using assms
  by (cases s) (auto simp: admission_outcome_def attempt_Inr_iff in_use_def auth_edges_def split: if_splits)

lemma admitted_sound:
  "admission_outcome me c p s t d = Inr (ADMITTED, target, reason) \<Longrightarrow>
     s = AUTH_ISSUED \<and> c = p \<and> aa_authority_instance_id p = me \<and> t < ea_expires_at (aa_execution_authorization p)
     \<and> target = AUTH_CONSUMING
     \<and> (\<exists>w r. authority_workflow (ea_workflow_id (aa_execution_authorization p)) d = Inr w
          \<and> request (ea_approval_request_id (aa_execution_authorization p)) d = Inr r \<and> matches_workflow r w)"
  by (auto simp: admission_outcome_def attempt_Inr_iff split: if_splits)

lemma admit_fresh_InrE:
  assumes "admit me ids c t d = (Inr x, d')" "approval_inv d"
    and "lookup_row ada_execution_id (ea_execution_id (aa_execution_authorization c)) (authority_admissions d) = None"
  obtains r status target reason where
    "authorization_row_by_id (ea_execution_id (aa_execution_authorization c)) d = Inr r"
    "admission_outcome me c (aurow_authorization r) (aurow_state r) t d = Inr (status, target, reason)"
    "ada_status x = status" "ada_execution_id x = aurow_execution_id r" "\<not> in_use (aurow_state r)"
    "approval_change d d'" "authority_admissions d' = authority_admissions d @ [x]"
proof -
  let ?i = "ea_execution_id (aa_execution_authorization c)"
  from assms(1,3) obtain r status target reason d1 where r: "authorization_row_by_id ?i d = Inr r"
    and o: "admission_outcome me c (aurow_authorization r) (aurow_state r) t d = Inr (status, target, reason)"
    and x: "ada_status x = status" "ada_execution_id x = ?i"
    and mv: "(if target \<noteq> aurow_state r
                   then set_authorization_state (ids 0) ?i (aurow_state r) target reason t d
                   else Inr d) = Inr d1"
    and ins: "insert_admission x d1 = Inr d'"
    by (auto simp: admit_def transaction_Inr_iff checked_Inr_iff attempt_Inr_iff build_record_Inr_iff Let_def)
  note rD = authorization_row_by_id_InrD [OF r]
  have none: "\<not> has_key ada_execution_id ?i (authority_admissions d)" using assms(3) by (simp add: lookup_row_None_iff)
  then have "\<not> admitted ?i d" by (auto simp: admitted_def has_key_def)
  then have idle: "\<not> in_use (aurow_state r)" using assms(2) rD by (auto simp: approval_inv_def)
  have u: "unique_key aurow_execution_id (authority_authorizations d)" using assms(2) by (simp add: approval_inv_def)
  have "approval_change d d' \<and> authority_admissions d' = authority_admissions d @ [x]"
    using admission_outcome_cases [OF o idle]
  proof (elim disjE conjE, goal_cases)
    case 1
    with mv have "d1 = d" by simp
    with ins 1 x show ?case
      by (auto simp: insert_admission_Inr_iff intro: approval_change.refused)
  next
    case 2
    with mv have "set_authorization_state (ids 0) ?i (aurow_state r) target reason t d = Inr d1" by simp
    then obtain e where e: "aue_execution_id e = ?i" "aue_state_before e = Some (aurow_state r)"
      "aue_state_after e = target"
      and d1: "d1 = d\<lparr>authority_authorizations := set_row_state ?i target t (authority_authorizations d),
         authorization_events := authorization_events d @ [e]\<rparr>"
      using u rD by (auto elim: set_authorization_state_InrD)
    from approval_change.state_moved [of r d target e "[x]" t] 2 e x rD none
    have "approval_change d (d\<lparr>authority_authorizations := set_row_state ?i target t (authority_authorizations d),
         authorization_events := authorization_events d @ [e], authority_admissions := authority_admissions d @ [x]\<rparr>)"
      by simp
    with ins d1 show ?case by (simp add: insert_admission_Inr_iff)
  qed
  with r o x idle rD show thesis by (intro that [of r status target reason]) simp_all
qed

lemma admit_change:
  assumes "approval_inv d"
  shows "snd (admit me ids c t d) = d \<or> approval_change d (snd (admit me ids c t d))"
proof (cases "lookup_row ada_execution_id (ea_execution_id (aa_execution_authorization c)) (authority_admissions d)")
  case (Some x)
  then show ?thesis by (auto simp: admit_def transaction_def checked_def Let_def split: option.splits)
next
  case None
  show ?thesis
  proof (cases "admit me ids c t d")
    case (Pair r d')
    show ?thesis
    proof (cases r)
      case (Inl e)
      with Pair have "admit me ids c t d = (Inl e, d')" by simp
      then have "d' = d" by (simp add: admit_def transaction_Inl_iff)
      with Pair show ?thesis by simp
    next
      case (Inr x)
      with Pair have "admit me ids c t d = (Inr x, d')" by simp
      from admit_fresh_InrE [OF this assms None] Pair show ?thesis by (metis snd_conv)
    qed
  qed
qed

lemma approval_step_change:
  "approval_inv d \<Longrightarrow> approval_step d c = d \<or> approval_change d (approval_step d c)"
  using create_request_change approve_change decide_terminal_change [of DECISION_REJECTED]
    decide_terminal_change [of DECISION_CANCELLED] expire_request_change invalidate_authorization_change
    admit_change mark_consumed_change
  by (cases c) (auto simp: build_record_def reject_def cancel_def split: option.splits)

lemma approval_step_keeps:
  "approval_inv d \<Longrightarrow> approval_inv (approval_step d c)
     \<and> prefix (authority_decisions d) (authority_decisions (approval_step d c))
     \<and> prefix (authority_admissions d) (authority_admissions (approval_step d c))
     \<and> prefix (authorization_events d) (authorization_events (approval_step d c))"
  using approval_step_change [of d c] approval_change_inv approval_change_logs
  by (metis prefix_order.order_refl)

interpretation approval_decisions_log: append_only_machine approval_step approval_inv authority_decisions
  using approval_step_keeps by unfold_locales blast+

interpretation approval_admissions_log: append_only_machine approval_step approval_inv authority_admissions
  using approval_step_keeps by unfold_locales blast+

interpretation approval_events_log: append_only_machine approval_step approval_inv authorization_events
  using approval_step_keeps by unfold_locales blast+

section \<open>Sample arguments\<close>

definition sample_request :: authority_approval_request where
  "sample_request = \<lparr>aar_approval_request = \<lparr>apr_approval_request_id = sample_uuid 5,
       apr_preview_id = sample_uuid 6, apr_proposal_digest = sample_scope,
       apr_requested_at = sample_time 0 0, apr_expires_at = sample_time 30 0,
       apr_agent_identity = ''agent'', apr_client_identity = ''client''\<rparr>,
     aar_workflow_id = sample_uuid 1, aar_configuration_key = sample_key,
     aar_live_state_fingerprint = sample_fingerprint,
     aar_workspace_revision = \<lparr>scope_id = sample_uuid 7, counter = 0\<rparr>,
     aar_operation_type = ATTRIBUTE_CHANGE, aar_mutation_strategy = DIRECT_LEDGER,
     aar_expected_workflow_version = sample_version 2, aar_policy_versions = [sample_name],
     aar_summary_digest = sample_scope\<rparr>"

definition sample_waiting :: db where
  "sample_waiting = sample_db AWAITING_AUTHORIZATION 2"

definition sample_requested :: db where
  "sample_requested = approval_step sample_waiting (CreateRequest sample_request)"

definition sample_approve :: approval_command where
  "sample_approve = Approve (sample_uuid 8) (sample_ids 60) (sample_uuid 5) ''operator'' (sample_time 20 0) (sample_time 1 0)"

definition sample_approved :: db where
  "sample_approved = approval_step sample_requested sample_approve"

definition sample_authorization :: authority_authorization where
  "sample_authorization = (case authorization (sample_uuid 61) sample_approved of Inr a \<Rightarrow> a)"

lemma approval_inv_empty:
  "approval_requests d = [] \<Longrightarrow> authority_decisions d = [] \<Longrightarrow> authority_authorizations d = [] \<Longrightarrow>
     authorization_events d = [] \<Longrightarrow> authority_admissions d = [] \<Longrightarrow> approval_inv d"
  by (simp add: approval_inv_def)

lemma approval_inv_samples [simp]:
  "approval_inv (sample_db st n)" "approval_inv sample_requested" "approval_inv sample_approved"
proof -
  show 1: "approval_inv (sample_db st n)" for st n
    by (simp add: sample_db_def empty_db_def approval_inv_empty)
  show 2: "approval_inv sample_requested"
    unfolding sample_requested_def sample_waiting_def using approval_step_keeps [OF 1] by blast
  show "approval_inv sample_approved"
    unfolding sample_approved_def using approval_step_keeps [OF 2] by blast
qed

section \<open>Properties\<close>

text \<open>C32: no authorization without an approval.  After any run of the authority, every
  stored authorization is backed by an approved decision on its own request, by the same
  authority and principal; no request has two decisions or two authorizations; and the
  recorded events of an authorization form one trail of legal moves that starts at issue and
  ends in its current state.\<close>

theorem authorizations_are_approved:
  assumes "approval_inv d" and "r \<in> set (authority_authorizations (run_ops approval_step d cs))"
  shows "(\<exists>!x. x \<in> set (authority_decisions (run_ops approval_step d cs))
        \<and> ad_approval_request_id x = aurow_approval_request_id r)
    \<and> (\<exists>x \<in> set (authority_decisions (run_ops approval_step d cs)). approved_by r x)
    \<and> (\<forall>s \<in> set (authority_authorizations (run_ops approval_step d cs)).
         aurow_approval_request_id s = aurow_approval_request_id r \<longrightarrow> s = r)
    \<and> trail_ok (trail (aurow_execution_id r) (run_ops approval_step d cs)) (aurow_state r)"
proof -
  let ?d = "run_ops approval_step d cs"
  have inv: "approval_inv ?d" using assms(1) by (rule approval_decisions_log.run_inv)
  then obtain x where x: "x \<in> set (authority_decisions ?d)" "approved_by r x"
    using assms(2) by (auto simp: approval_inv_def)
  have u: "unique_key ad_approval_request_id (authority_decisions ?d)"
    and v: "unique_key aurow_approval_request_id (authority_authorizations ?d)"
    using inv by (simp_all add: approval_inv_def)
  have id: "ad_approval_request_id x = aurow_approval_request_id r" using x(2) by (simp add: approved_by_def)
  then have "\<exists>!x. x \<in> set (authority_decisions ?d) \<and> ad_approval_request_id x = aurow_approval_request_id r"
    using x(1) unique_keyD [OF u] by metis
  moreover have "trail_ok (trail (aurow_execution_id r) ?d) (aurow_state r)"
    using inv assms(2) by (simp add: approval_inv_def)
  ultimately show ?thesis using x assms(2) unique_keyD [OF v] by blast
qed

theorem authorizations_are_approved_witness:
  "\<exists>r \<in> set (authority_authorizations (run_ops approval_step sample_requested [sample_approve])).
     \<exists>x \<in> set (authority_decisions (run_ops approval_step sample_requested [sample_approve])). approved_by r x"
proof -
  have "authority_authorizations (run_ops approval_step sample_requested [sample_approve]) \<noteq> []" by code_simp
  then obtain r where r: "r \<in> set (authority_authorizations (run_ops approval_step sample_requested [sample_approve]))"
    by (metis list.set_sel(1))
  from authorizations_are_approved [OF approval_inv_samples(2) r] r show ?thesis by blast
qed

text \<open>C11: single use.  After any run of the authority, an authorization is being consumed or
  consumed exactly when one admission with the status \<open>ADMITTED\<close> is recorded for it, and it
  never has two admissions.\<close>

theorem authorization_single_use:
  assumes "approval_inv d" and "r \<in> set (authority_authorizations (run_ops approval_step d cs))"
  shows "(aurow_state r \<in> {AUTH_CONSUMING, AUTH_CONSUMED})
      = (\<exists>x \<in> set (authority_admissions (run_ops approval_step d cs)).
           ada_execution_id x = aurow_execution_id r \<and> ada_status x = ADMITTED)
    \<and> length (filter (\<lambda>x. ada_execution_id x = aurow_execution_id r)
         (authority_admissions (run_ops approval_step d cs))) \<le> 1"
proof -
  let ?d = "run_ops approval_step d cs"
  have inv: "approval_inv ?d" using assms(1) by (rule approval_decisions_log.run_inv)
  have "rowcount (\<lambda>x. ada_execution_id x = aurow_execution_id r \<and> True) (authority_admissions ?d) \<le> 1"
    using inv by (subst rowcount_key) (auto simp: approval_inv_def split: option.splits)
  then show ?thesis
    using inv assms(2) by (auto simp: approval_inv_def admitted_def in_use_def rowcount_def)
qed

theorem authorization_single_use_witness:
  "\<exists>r \<in> set (authority_authorizations (run_ops approval_step sample_approved
        [Admit (sample_uuid 8) (sample_ids 70) sample_authorization (sample_time 2 0)])).
     aurow_state r = AUTH_CONSUMING
     \<and> (\<exists>x \<in> set (authority_admissions (run_ops approval_step sample_approved
        [Admit (sample_uuid 8) (sample_ids 70) sample_authorization (sample_time 2 0)])).
          ada_execution_id x = aurow_execution_id r \<and> ada_status x = ADMITTED)"
proof -
  let ?d = "run_ops approval_step sample_approved
        [Admit (sample_uuid 8) (sample_ids 70) sample_authorization (sample_time 2 0)]"
  have "list_ex (\<lambda>r. aurow_state r = AUTH_CONSUMING) (authority_authorizations ?d)" by code_simp
  then obtain r where r: "r \<in> set (authority_authorizations ?d)" "aurow_state r = AUTH_CONSUMING"
    unfolding list_ex_iff by blast
  from authorization_single_use [OF approval_inv_samples(3) r(1)] r show ?thesis by blast
qed

text \<open>an admission is sound.  A first admission with the status \<open>ADMITTED\<close> was asked for
  with exactly the stored, issued authorization, before its expiry, from the authority that
  issued it, while the workflow was still waiting under the bindings of the approved request;
  it moves the authorization to \<open>AUTH_CONSUMING\<close>.\<close>

theorem admit_is_sound:
  assumes "approval_inv d" and "admit me ids c t d = (Inr x, d')" and "ada_status x = ADMITTED"
    and "lookup_row ada_execution_id (ea_execution_id (aa_execution_authorization c)) (authority_admissions d) = None"
  shows "authorization (ea_execution_id (aa_execution_authorization c)) d = Inr c
    \<and> authorization_state_of (ea_execution_id (aa_execution_authorization c)) d = Inr AUTH_ISSUED
    \<and> aa_authority_instance_id c = me \<and> t < ea_expires_at (aa_execution_authorization c)
    \<and> (\<exists>w r. lookup_row wr_workflow_id (ea_workflow_id (aa_execution_authorization c)) (workflow_records d) = Some w
         \<and> request (ea_approval_request_id (aa_execution_authorization c)) d = Inr r \<and> matches_workflow r w)
    \<and> admitted (ea_execution_id (aa_execution_authorization c)) d'"
  using assms(2,1,4)
proof (cases rule: admit_fresh_InrE)
  case (1 r status target reason)
  from 1(2,3) assms(3) have "admission_outcome me c (aurow_authorization r) (aurow_state r) t d = Inr (ADMITTED, target, reason)"
    by simp
  from admitted_sound [OF this] 1 assms(3) authorization_row_by_id_InrD [OF 1(1)] show ?thesis
    by (auto simp: authorization_def authorization_state_of_def authority_workflow_def admitted_def
        split: option.splits)
qed

theorem admit_is_sound_witness:
  "authorization_state_of (ea_execution_id (aa_execution_authorization sample_authorization)) sample_approved
     = Inr AUTH_ISSUED"
proof -
  let ?r = "admit (sample_uuid 8) (sample_ids 70) sample_authorization (sample_time 2 0) sample_approved"
  have a: "\<not> isl (fst ?r)" and s: "ada_status (projr (fst ?r)) = ADMITTED"
    and n: "lookup_row ada_execution_id (ea_execution_id (aa_execution_authorization sample_authorization))
      (authority_admissions sample_approved) = None" by code_simp+
  from admit_is_sound [OF approval_inv_samples(3) call_returned [OF a] s n] show ?thesis by blast
qed

text \<open>Admission replays.  Once an admission was recorded, any later admission attempt for
  the same execution, by any candidate and at any time after any further run, returns that
  recorded result and changes nothing.\<close>

theorem admit_replays:
  assumes "approval_inv d" and "admit me ids c t d = (Inr x, d1)"
    and "ea_execution_id (aa_execution_authorization c') = ea_execution_id (aa_execution_authorization c)"
    and "require_aware t' ''admitted_at'' = None"
  shows "admit me' ids' c' t' (run_ops approval_step d1 cs) = (Inr x, run_ops approval_step d1 cs)"
proof -
  let ?i = "ea_execution_id (aa_execution_authorization c)"
  have inv: "approval_inv d1"
    using approval_step_keeps [OF assms(1), of "Admit me ids c t"] assms(2) by simp
  have "x \<in> set (authority_admissions d1) \<and> ada_execution_id x = ?i"
  proof (cases "lookup_row ada_execution_id ?i (authority_admissions d)")
    case None
    from assms(2,1) None show ?thesis
      by (cases rule: admit_fresh_InrE) (auto dest: authorization_row_by_id_InrD)
  next
    case (Some y)
    with assms(2) have "x = y" "d1 = d"
      by (auto simp: admit_def transaction_Inr_iff checked_Inr_iff Let_def)
    with lookup_row_SomeD [OF Some] show ?thesis by simp
  qed
  then have "lookup_row ada_execution_id ?i (authority_admissions (run_ops approval_step d1 cs)) = Some x"
    using approval_admissions_log.run_log_member [OF inv, of x cs]
      approval_decisions_log.run_inv [OF inv, of cs] lookup_row_unique [of ada_execution_id _ x]
    by (auto simp: approval_inv_def)
  with assms(3,4) show ?thesis by (simp add: admit_def transaction_def Let_def)
qed

theorem admit_replays_witness:
  "let d1 = approval_step sample_approved (Admit (sample_uuid 8) (sample_ids 70) sample_authorization (sample_time 2 0))
   in approval_step d1 (Admit (sample_uuid 9) (sample_ids 80) sample_authorization (sample_time 40 0)) = d1"
proof -
  have a: "\<not> isl (fst (admit (sample_uuid 8) (sample_ids 70) sample_authorization (sample_time 2 0) sample_approved))"
    and t: "require_aware (sample_time 40 0) ''admitted_at'' = None" by code_simp+
  from admit_replays [OF approval_inv_samples(3) call_returned [OF a] refl t, of "sample_uuid 9" "sample_ids 80" "[]"]
  show ?thesis by (simp add: Let_def)
qed

text \<open>A decision is terminal.  Once a request has a decision, approving, rejecting,
  cancelling or expiring it fails and changes nothing, after any further run of the
  authority.\<close>

theorem decided_request_is_closed:
  assumes "approval_inv d" and "decision_row i d \<noteq> None"
  shows "(\<exists>e. approve me ids i who x t (run_ops approval_step d cs) = (Inl e, run_ops approval_step d cs))
    \<and> (\<exists>e. reject me ids i t reason (run_ops approval_step d cs) = (Inl e, run_ops approval_step d cs))
    \<and> (\<exists>e. cancel me ids i t reason (run_ops approval_step d cs) = (Inl e, run_ops approval_step d cs))
    \<and> (\<exists>e. expire_request me ids i t (run_ops approval_step d cs) = (Inl e, run_ops approval_step d cs))"
proof -
  let ?d = "run_ops approval_step d cs"
  obtain x' where "x' \<in> set (authority_decisions d)" "ad_approval_request_id x' = i"
    using assms(2) by (auto simp: decision_row_def dest: lookup_row_SomeD)
  then have "decision_row i ?d \<noteq> None"
    using approval_decisions_log.run_log_member [OF assms(1), of x' cs]
    by (auto simp: decision_row_def lookup_row_None_iff has_key_def)
  then have p: "\<exists>e. pending_request me ids i t ?d = Inl e"
    by (cases "request i ?d") (auto simp: pending_request_def)
  then have "\<exists>e. decide_terminal me ids i k t reason ?d = (Inl e, ?d)" for k
    by (cases "require_aware t ''decided_at''") (auto simp: decide_terminal_def transaction_def)
  moreover have "\<exists>e. approve me ids i who x t ?d = (Inl e, ?d)"
    using p by (auto simp: approve_def transaction_def checked_def split: option.splits)
  moreover have "\<exists>e. expire_request me ids i t ?d = (Inl e, ?d)"
    using \<open>decision_row i ?d \<noteq> None\<close>
    by (cases "request i ?d") (auto simp: expire_request_def transaction_def checked_def split: option.splits)
  ultimately show ?thesis by (simp add: reject_def cancel_def)
qed

theorem decided_request_is_closed_witness:
  "\<exists>e. reject (sample_uuid 8) (sample_ids 90) (sample_uuid 5) (sample_time 2 0) ''no'' (run_ops approval_step sample_approved [])
     = (Inl e, run_ops approval_step sample_approved [])"
proof -
  have "decision_row (sample_uuid 5) sample_approved \<noteq> None" by code_simp
  from decided_request_is_closed [OF approval_inv_samples(3) this] show ?thesis by blast
qed

text \<open>the expiry that a decision attempt discovers is lost.  Approving, rejecting or
  cancelling an undecided request at or after its expiry fails and leaves the database
  exactly as it was: the \<open>EXPIRED\<close> decision the code writes before raising is rolled back with
  the transaction, so the request stays undecided.\<close>

theorem discovered_expiry_is_rolled_back:
  assumes "request i d = Inr r" and "decision_row i d = None"
    and "apr_expires_at (aar_approval_request r) \<le> t"
  shows "(\<exists>e. approve me ids i who x t d = (Inl e, d)) \<and> (\<exists>e. reject me ids i t reason d = (Inl e, d))
    \<and> (\<exists>e. cancel me ids i t reason d = (Inl e, d))"
proof -
  have p: "\<exists>e. pending_request me ids i t d = Inl e"
    using assms by (cases "record_terminal_decision me (ids 0) r DECISION_EXPIRED t None ''expired'' d")
      (auto simp: pending_request_def)
  then have "\<exists>e. decide_terminal me ids i k t reason d = (Inl e, d)" for k
    by (cases "require_aware t ''decided_at''") (auto simp: decide_terminal_def transaction_def)
  moreover have "\<exists>e. approve me ids i who x t d = (Inl e, d)"
    using p by (auto simp: approve_def transaction_def checked_def split: option.splits)
  ultimately show ?thesis by (simp add: reject_def cancel_def)
qed

theorem discovered_expiry_is_rolled_back_witness:
  "\<exists>e. approve (sample_uuid 8) (sample_ids 60) (sample_uuid 5) ''operator'' (sample_time 50 0) (sample_time 40 0)
     sample_requested = (Inl e, sample_requested)"
proof -
  have r: "\<not> isl (request (sample_uuid 5) sample_requested)"
    and n: "decision_row (sample_uuid 5) sample_requested = None"
    and x: "apr_expires_at (aar_approval_request (projr (request (sample_uuid 5) sample_requested))) \<le> sample_time 40 0"
    by code_simp+
  from r have "request (sample_uuid 5) sample_requested = Inr (projr (request (sample_uuid 5) sample_requested))"
    by simp
  from discovered_expiry_is_rolled_back [OF this n x] show ?thesis by blast
qed

end
