(* ===== verification/Execution_Admission.thy ===== *)
theory Execution_Admission
  imports Approval_Store
begin

text \<open>
  \<open>persistence/execution_admission.py\<close>: \<open>ExecutionAdmissionCoordinator\<close>, the one
  transaction that consumes an authorization, moves the workflow to \<open>EXECUTING\<close>,
  grants a started execution lease and commits the write-ahead intent.
  Identifiers are drawn in call order: command, requested event, three lease
  events, authorization event, admission, two more audit events.
\<close>

section \<open>Arguments and row inserts\<close>

record admission_request =
  aq_authorization :: authority_authorization
  aq_intent :: write_ahead_intent
  aq_scope :: content_digest
  aq_owner_instance_id :: string
  aq_lease_expires_at :: datetime
  aq_idempotency_key :: string
  aq_admitted_at :: datetime
  aq_evidence_reference :: string

definition aq_execution :: "admission_request \<Rightarrow> execution_authorization" where
  "aq_execution q = aa_execution_authorization (aq_authorization q)"

definition rejected :: "string \<Rightarrow> store_error" where
  "rejected reason = ExecutionAdmissionRejectedError reason"

definition insert_intent :: "write_ahead_intent \<Rightarrow> db \<Rightarrow> db stored" where
  "insert_intent i d =
     (if has_key wi_intent_id (wi_intent_id i) (reconciliation_intents d)
      then Inl (IntegrityError ''reconciliation_intents.intent_id'')
      else if \<not> has_key wr_workflow_id (wi_workflow_id i) (workflow_records d)
      then Inl (IntegrityError ''workflow_records'')
      else Inr (d\<lparr>reconciliation_intents := reconciliation_intents d @ [i]\<rparr>))"

definition envelope_key :: "envelope_row \<Rightarrow> string \<times> string" where
  "envelope_key r = (env_workflow_id (enrow_envelope r), enrow_idempotency_key r)"

definition env_of :: "(execution_admission_envelope \<Rightarrow> 'a) \<Rightarrow> envelope_row \<Rightarrow> 'a" where
  "env_of f r = f (enrow_envelope r)"

definition insert_envelope :: "envelope_row \<Rightarrow> db \<Rightarrow> db stored" where
  "insert_envelope r d =
     (let e = enrow_envelope r; rows = admission_envelopes d in
      if has_key (env_of env_admission_id) (env_admission_id e) rows
         \<or> has_key (env_of env_execution_id) (env_execution_id e) rows
         \<or> has_key (env_of env_operation_id) (env_operation_id e) rows
         \<or> has_key (env_of env_intent_id) (env_intent_id e) rows
         \<or> has_key envelope_key (envelope_key r) rows
      then Inl (IntegrityError ''execution_admission_envelopes'')
      else if \<not> has_key wr_workflow_id (env_workflow_id e) (workflow_records d)
         \<or> \<not> has_key aurow_execution_id (env_execution_id e) (authority_authorizations d)
         \<or> \<not> has_key wi_intent_id (env_intent_id e) (reconciliation_intents d)
      then Inl (IntegrityError ''FOREIGN KEY'')
      else Inr (d\<lparr>admission_envelopes := rows @ [r]\<rparr>))"

section \<open>The guards before the transaction\<close>

definition require_admissible :: "bool \<Rightarrow> string \<Rightarrow> store_error option" where
  "require_admissible ok reason = require ok (rejected reason)"

definition admission_guard :: "admission_request \<Rightarrow> store_error option" where
  "admission_guard q = (let i = aq_intent q; a = aq_authorization q; x = aq_execution q in first_error
     [map_option Invalid (require_uuid4 (aq_owner_instance_id q) ''owner_instance_id''),
      map_option Invalid (require_aware (aq_admitted_at q) ''admitted_at''),
      map_option Invalid (require_aware (aq_lease_expires_at q) ''lease_expires_at''),
      map_option Invalid (require_text_max 256 (aq_idempotency_key q) ''idempotency_key''),
      map_option Invalid (require_text_max 1024 (aq_evidence_reference q) ''evidence_reference''),
      require (aq_admitted_at q < aq_lease_expires_at q)
        (Invalid (ValueError ''lease_expires_at must follow admitted_at'')),
      require_admissible (wi_workflow_id i = ea_workflow_id x) ''intent workflow does not match authorization'',
      require_admissible (wi_execution_id i = ea_execution_id x) ''intent execution does not match authorization'',
      require_admissible (wi_request_digest i = ea_proposal_digest x) ''intent digest does not match authorization'',
      require_admissible (wi_configuration_key i = ea_configuration_key x)
        ''intent configuration does not match authorization'',
      require_admissible (wi_live_state_fingerprint i = ea_live_state_fingerprint x)
        ''intent fingerprint does not match authorization'',
      require_admissible (wi_workspace_revision i = aa_workspace_revision a)
        ''intent workspace revision does not match authorization'',
      require_admissible (wi_policy_versions i = aa_policy_versions a)
        ''intent policy versions do not match authorization'',
      require_admissible (wi_owner_instance_id i = aq_owner_instance_id q)
        ''intent owner does not match the acquiring owner'',
      map_option Invalid (Revision_post_init WorkflowVersion
        \<lparr>scope_id = wi_workflow_id i, counter = counter (ea_expected_workflow_version x) + 1\<rparr>),
      require_admissible (wi_workflow_version i
          = \<lparr>scope_id = wi_workflow_id i, counter = counter (ea_expected_workflow_version x) + 1\<rparr>)
        ''intent must bind the next workflow version''])"

section \<open>The guards inside the transaction\<close>

definition validate_authorization :: "authority_authorization \<Rightarrow> datetime \<Rightarrow> db \<Rightarrow> store_error option" where
  "validate_authorization c admitted_at d =
     (let x = aa_execution_authorization c in
      case lookup_row aurow_execution_id (ea_execution_id x) (authority_authorizations d) of
        None \<Rightarrow> Some (rejected ''authorization does not exist'')
      | Some r \<Rightarrow> first_error
         [require_admissible (aurow_state r = AUTH_ISSUED) ''authorization is not issued'',
          require_admissible (aurow_authorization r = c) ''authorization integrity failed'',
          require_admissible (admitted_at < ea_expires_at x) ''authorization has expired'',
          require_admissible (\<not> has_key ada_execution_id (ea_execution_id x) (authority_admissions d))
            ''authorization was already admitted''])"

definition validate_workflow :: "workflow_record \<Rightarrow> admission_request \<Rightarrow> store_error option" where
  "validate_workflow w q = first_error
     [require_admissible (wr_state w = AWAITING_AUTHORIZATION) ''workflow is not awaiting authorization'',
      require_admissible (wr_workflow_version w = ea_expected_workflow_version (aq_execution q))
        ''workflow version does not match authorization'',
      require_admissible (wr_configuration_key w = ea_configuration_key (aq_execution q))
        ''workflow configuration does not match authorization'',
      require_admissible (wr_proposal_digest w = wi_request_digest (aq_intent q))
        ''workflow proposal does not match intent'']"

definition admission_workflow :: "string \<Rightarrow> db \<Rightarrow> workflow_record stored" where
  "admission_workflow i d = (case lookup_row wr_workflow_id i (workflow_records d) of
     None \<Rightarrow> Inl (rejected ''workflow does not exist'') | Some w \<Rightarrow> Inr w)"

section \<open>The parts of the transaction\<close>

definition executing_workflow :: "admission_request \<Rightarrow> string \<Rightarrow> workflow_record \<Rightarrow> workflow_record" where
  "executing_workflow q command_id w = w\<lparr>wr_state := EXECUTING,
     wr_workflow_version := wi_workflow_version (aq_intent q), wr_updated_at := aq_admitted_at q,
     wr_latest_command_id := Some command_id, wr_latest_operation_id := Some (wi_operation_id (aq_intent q))\<rparr>"

definition admission_command :: "admission_request \<Rightarrow> string \<Rightarrow> idempotent_command_record" where
  "admission_command q command_id = \<lparr>ic_command_id = command_id, ic_workflow_id = wi_workflow_id (aq_intent q),
     ic_command_name = ''admit_execution_and_commit_intent'', ic_idempotency_key = aq_idempotency_key q,
     ic_request_digest = wi_request_digest (aq_intent q),
     ic_expected_workflow_version = ea_expected_workflow_version (aq_execution q),
     ic_status = COMMAND_COMPLETED, ic_resulting_workflow_version = wi_workflow_version (aq_intent q),
     ic_requested_at = aq_admitted_at q, ic_operation_id = Some (wi_operation_id (aq_intent q)),
     ic_result_digest = None, ic_completed_at = Some (aq_admitted_at q)\<rparr>"

definition admission_audit ::
  "admission_request \<Rightarrow> string \<Rightarrow> string \<Rightarrow> workflow_record \<Rightarrow> audit_event_type \<Rightarrow> int option
     \<Rightarrow> workflow_state option \<Rightarrow> workflow_state option \<Rightarrow> audit_event" where
  "admission_audit q event_id command_id w event_type token before after =
     \<lparr>ae_event_id = event_id, ae_workflow_id = wr_workflow_id w, ae_workflow_version = wr_workflow_version w,
      ae_event_type = event_type, ae_actor_class = WORKFLOW_SERVICE, ae_occurred_at = aq_admitted_at q,
      ae_request_digest = wi_request_digest (aq_intent q), ae_evidence_reference = aq_evidence_reference q,
      ae_command_id = Some command_id, ae_operation_id = Some (wi_operation_id (aq_intent q)),
      ae_correlation_id = None, ae_state_before = before, ae_state_after = after,
      ae_authorization_reference = Some (ea_execution_id (aq_execution q)), ae_fencing_token = token\<rparr>"

definition insert_audit :: "audit_event \<Rightarrow> db \<Rightarrow> db stored" where
  "insert_audit e d = attempt (map_error Invalid (build_record AuditEvent_post_init e))
     (\<lambda>e. append_workflow_audit_event e d)"

definition insert_lease_event ::
  "admission_request \<Rightarrow> string \<Rightarrow> string \<Rightarrow> context_lease \<Rightarrow> lease_event_type \<Rightarrow> lease_state \<Rightarrow> lease_state
     \<Rightarrow> db \<Rightarrow> db stored" where
  "insert_lease_event q event_id command_id l event_type before after d =
     append_event event_id l event_type (aq_admitted_at q) before after
       \<lparr>ev_reason = ''atomic_execution_admission'', ev_reference = aq_evidence_reference q,
        ev_command_id = Some command_id, ev_correlation_id = None\<rparr> (cl_operation_id l) None d"

definition held_lease :: "admission_request \<Rightarrow> int \<Rightarrow> context_lease" where
  "held_lease q token = \<lparr>cl_lease_id = wi_lease_id (aq_intent q), cl_service_scope_digest = aq_scope q,
     cl_configuration_key = wi_configuration_key (aq_intent q), cl_workflow_id = wi_workflow_id (aq_intent q),
     cl_workflow_version = wi_workflow_version (aq_intent q), cl_fencing_token = token,
     cl_mode = EXECUTION_MODE, cl_state = HELD_EXECUTION, cl_issued_at = aq_admitted_at q,
     cl_expires_at = aq_lease_expires_at q, cl_owner_instance_id = aq_owner_instance_id q,
     cl_operation_id = None, cl_recovery_disposition = None\<rparr>"

definition create_started_lease ::
  "id_supply \<Rightarrow> admission_request \<Rightarrow> string \<Rightarrow> db \<Rightarrow> (context_lease \<times> db) stored" where
  "create_started_lease ids q command_id d =
     (case mint_fencing_token (aq_scope q) (wi_configuration_key (aq_intent q)) d of (token, d1) \<Rightarrow>
      if wi_fencing_token (aq_intent q) \<noteq> token
      then Inl (rejected ''intent fencing token does not match the next durable scope token'')
      else
        attempt (map_error Invalid (build_record ContextLease_post_init (held_lease q token))) (\<lambda>held.
        attempt (insert_lease_event q (ids 0) command_id held ACQUIRE_ATTEMPTED AVAILABLE (cl_state held) d1) (\<lambda>d2.
        attempt (write_lease_row held d2) (\<lambda>d3.
        attempt (insert_lease_event q (ids 1) command_id held ACQUIRED AVAILABLE (cl_state held) d3) (\<lambda>d4.
        attempt (map_error Invalid (build_record ContextLease_post_init
                   (held\<lparr>cl_operation_id := Some (wi_operation_id (aq_intent q))\<rparr>))) (\<lambda>started.
        attempt (write_lease_row started d4) (\<lambda>d5.
        attempt (insert_lease_event q (ids 2) command_id started ATOMIC_CALL_STARTED (cl_state held)
                   (cl_state started) d5) (\<lambda>d6.
        Inr (started, d6)))))))))"

definition consume_authorization :: "string \<Rightarrow> admission_request \<Rightarrow> db \<Rightarrow> db stored" where
  "consume_authorization event_id q d =
     (let x = aq_execution q;
          p = (\<lambda>r. aurow_execution_id r = ea_execution_id x \<and> aurow_state r = AUTH_ISSUED)
      in if rowcount p (authority_authorizations d) \<noteq> 1
         then Inl (rejected ''authorization changed during admission'')
         else attempt (insert_authorization_event event_id (ea_execution_id x) (Some AUTH_ISSUED) AUTH_CONSUMING
                ''atomic_execution_admission'' (aq_admitted_at q)
                (d\<lparr>authority_authorizations := update_where p
                   (\<lambda>r. r\<lparr>aurow_state := AUTH_CONSUMING, aurow_updated_at := aq_admitted_at q\<rparr>)
                   (authority_authorizations d)\<rparr>)) (\<lambda>d1.
              attempt (map_error Invalid (build_record AuthorizationAdmission_post_init
                \<lparr>ada_execution_id = ea_execution_id x, ada_workflow_id = ea_workflow_id x, ada_status = ADMITTED,
                 ada_reason_code = ''atomic_execution_admission'', ada_recorded_at = aq_admitted_at q\<rparr>)) (\<lambda>y.
              insert_admission y d1)))"

definition admission_envelope ::
  "admission_request \<Rightarrow> string \<Rightarrow> string \<Rightarrow> context_lease \<Rightarrow> execution_admission_envelope" where
  "admission_envelope q admission_id command_id l = \<lparr>env_admission_id = admission_id,
     env_workflow_id = wi_workflow_id (aq_intent q), env_workflow_version = wi_workflow_version (aq_intent q),
     env_command_id = command_id, env_operation_id = wi_operation_id (aq_intent q),
     env_execution_id = ea_execution_id (aq_execution q), env_lease_id = cl_lease_id l,
     env_fencing_token = cl_fencing_token l, env_intent_id = wi_intent_id (aq_intent q),
     env_request_digest = wi_request_digest (aq_intent q), env_admitted_at = aq_admitted_at q\<rparr>"

section \<open>The transaction\<close>

text \<open>The command, the first audit event and the versioned update of the workflow row.\<close>

definition advance_workflow ::
  "id_supply \<Rightarrow> admission_request \<Rightarrow> workflow_record \<Rightarrow> db \<Rightarrow> (workflow_record \<times> db) stored" where
  "advance_workflow ids q previous d =
     attempt (map_error Invalid (build_record WorkflowRecord_post_init (executing_workflow q (ids 0) previous))) (\<lambda>w.
     attempt (map_error Invalid (build_record IdempotentCommandRecord_post_init (admission_command q (ids 0)))) (\<lambda>c.
     attempt (insert_workflow_command c d) (\<lambda>d1.
     attempt (insert_audit (admission_audit q (ids 1) (ids 0) previous AUDIT_REQUESTED None None None) d1) (\<lambda>d2.
     case update_workflow_cas w (counter (ea_expected_workflow_version (aq_execution q))) d2 of (rows, d3) \<Rightarrow>
       if rows \<noteq> 1 then Inl (rejected ''workflow compare-and-swap failed'') else Inr (w, d3)))))"

text \<open>The envelope row and the two audit events that close the admission.\<close>

definition record_envelope ::
  "id_supply \<Rightarrow> admission_request \<Rightarrow> string \<Rightarrow> workflow_state \<Rightarrow> workflow_record \<Rightarrow> context_lease \<Rightarrow> db
     \<Rightarrow> (execution_admission_envelope \<times> db) stored" where
  "record_envelope ids q command_id state_before w l d =
     attempt (map_error Invalid (build_record ExecutionAdmissionEnvelope_post_init
                (admission_envelope q (ids 0) command_id l))) (\<lambda>e.
     attempt (insert_envelope \<lparr>enrow_idempotency_key = aq_idempotency_key q, enrow_envelope = e\<rparr> d) (\<lambda>d1.
     attempt (insert_audit (admission_audit q (ids 1) command_id w ADMISSION_REVALIDATED
                (Some (cl_fencing_token l)) (Some state_before) (Some (wr_state w))) d1) (\<lambda>d2.
     attempt (insert_audit (admission_audit q (ids 2) command_id w INTENT_COMMITTED
                (Some (cl_fencing_token l)) None None) d2) (\<lambda>d3.
     Inr (e, d3)))))"

definition admit_new :: "id_supply \<Rightarrow> admission_request \<Rightarrow> db \<Rightarrow> (execution_admission_envelope \<times> db) stored" where
  "admit_new ids q d =
     checked (validate_authorization (aq_authorization q) (aq_admitted_at q) d)
     (attempt (admission_workflow (wi_workflow_id (aq_intent q)) d) (\<lambda>previous.
      checked (validate_workflow previous q)
      (if lease (aq_scope q) (wi_configuration_key (aq_intent q)) d \<noteq> None
       then Inl (rejected ''execution context is already leased or requires recovery'')
       else if has_key wi_intent_id (wi_intent_id (aq_intent q)) (reconciliation_intents d)
       then Inl (ExecutionAdmissionConflictError ''intent ID is already bound to durable evidence'')
       else
         attempt (advance_workflow ids q previous d) (\<lambda>(w, d1).
         attempt (create_started_lease (shift_supply 2 ids) q (ids 0) d1) (\<lambda>(l, d2).
         attempt (insert_intent (aq_intent q) d2) (\<lambda>d3.
         attempt (consume_authorization (ids 5) q d3) (\<lambda>d4.
         record_envelope (shift_supply 6 ids) q (ids 0) (wr_state previous) w l d4)))))))"

definition admit_and_begin_write ::
  "id_supply \<Rightarrow> admission_request \<Rightarrow> db \<Rightarrow> execution_admission_envelope stored \<times> db" where
  "admit_and_begin_write ids q = transaction (\<lambda>d.
     checked (admission_guard q)
     (case lookup_row envelope_key (wi_workflow_id (aq_intent q), aq_idempotency_key q) (admission_envelopes d) of
        Some r \<Rightarrow>
          (let e = enrow_envelope r in
           if env_request_digest e \<noteq> wi_request_digest (aq_intent q)
              \<or> env_execution_id e \<noteq> ea_execution_id (aq_execution q)
              \<or> env_intent_id e \<noteq> wi_intent_id (aq_intent q)
           then Inl (ExecutionAdmissionConflictError ''idempotency key is bound to different work'')
           else Inr (e, d))
      | None \<Rightarrow> admit_new ids q d))"

definition envelope :: "string \<Rightarrow> db \<Rightarrow> execution_admission_envelope stored" where
  "envelope i d = checked (map_option Invalid (require_uuid4 i ''admission_id''))
     (case lookup_row (env_of env_admission_id) i (admission_envelopes d) of
        None \<Rightarrow> Inl (LookupError i) | Some r \<Rightarrow> Inr (enrow_envelope r))"

section \<open>Reading the inserts\<close>

lemma insert_intent_Inr_iff:
  "insert_intent i d = Inr d' \<longleftrightarrow> \<not> has_key wi_intent_id (wi_intent_id i) (reconciliation_intents d)
     \<and> has_key wr_workflow_id (wi_workflow_id i) (workflow_records d)
     \<and> d' = d\<lparr>reconciliation_intents := reconciliation_intents d @ [i]\<rparr>"
  by (auto simp: insert_intent_def)

lemma insert_envelope_Inr_iff:
  "insert_envelope r d = Inr d' \<longleftrightarrow>
     \<not> has_key (env_of env_admission_id) (env_admission_id (enrow_envelope r)) (admission_envelopes d)
     \<and> \<not> has_key (env_of env_execution_id) (env_execution_id (enrow_envelope r)) (admission_envelopes d)
     \<and> \<not> has_key (env_of env_operation_id) (env_operation_id (enrow_envelope r)) (admission_envelopes d)
     \<and> \<not> has_key (env_of env_intent_id) (env_intent_id (enrow_envelope r)) (admission_envelopes d)
     \<and> \<not> has_key envelope_key (envelope_key r) (admission_envelopes d)
     \<and> has_key wr_workflow_id (env_workflow_id (enrow_envelope r)) (workflow_records d)
     \<and> has_key aurow_execution_id (env_execution_id (enrow_envelope r)) (authority_authorizations d)
     \<and> has_key wi_intent_id (env_intent_id (enrow_envelope r)) (reconciliation_intents d)
     \<and> d' = d\<lparr>admission_envelopes := admission_envelopes d @ [r]\<rparr>"
  by (auto simp: insert_envelope_def Let_def)

lemma insert_audit_Inr_iff:
  "insert_audit e d = Inr d' \<longleftrightarrow> AuditEvent_post_init e = None
     \<and> has_key wr_workflow_id (ae_workflow_id e) (workflow_records d)
     \<and> \<not> has_key ae_event_id (ae_event_id e) (workflow_audit_events d)
     \<and> d' = d\<lparr>workflow_audit_events := workflow_audit_events d @ [e]\<rparr>"
  by (auto simp: insert_audit_def result_iffs append_workflow_audit_event_Inr_iff)

end
