(* ===== verification/Reconciliation_Store.thy ===== *)
theory Reconciliation_Store
  imports Execution_Admission
begin

text \<open>
  \<open>persistence/reconciliation_store.py\<close>: \<open>ReconciliationStore\<close>, the write-ahead
  intents, the observations made after them and their classification.
\<close>

section \<open>Reads\<close>

definition recon_workflow :: "string \<Rightarrow> db \<Rightarrow> workflow_record stored" where
  "recon_workflow i d = (case lookup_row wr_workflow_id i (workflow_records d) of
     None \<Rightarrow> Inl (ReconciliationIntentNotFoundError (''workflow '' @ i)) | Some w \<Rightarrow> Inr w)"

definition intent :: "string \<Rightarrow> db \<Rightarrow> write_ahead_intent stored" where
  "intent i d = (case lookup_row wi_intent_id i (reconciliation_intents d) of
     None \<Rightarrow> Inl (ReconciliationIntentNotFoundError i) | Some x \<Rightarrow> Inr x)"

text \<open>
  The \<open>ORDER BY\<close> clauses compare the stored timestamp text, which this module
  writes without converting to UTC first; the instants of the model are UTC.
\<close>

definition intents_for_workflow :: "string \<Rightarrow> db \<Rightarrow> write_ahead_intent list" where
  "intents_for_workflow i d = sort_key (\<lambda>x. [encode_utc_timestamp (wi_created_at x), wi_intent_id x])
     (filter (\<lambda>x. wi_workflow_id x = i) (reconciliation_intents d))"

definition observations :: "string \<Rightarrow> db \<Rightarrow> reconciliation_observation list stored" where
  "observations i d = attempt (intent i d) (\<lambda>_. Inr
     (sort_key (\<lambda>x. [encode_utc_timestamp (ro_observed_at x), ro_observation_id x])
       (filter (\<lambda>x. ro_intent_id x = i) (reconciliation_observations d))))"

definition classifications :: "string \<Rightarrow> db \<Rightarrow> reconciliation_record list stored" where
  "classifications i d = attempt (intent i d) (\<lambda>_. Inr
     (filter (\<lambda>x. rr_intent_id x = i) (reconciliation_records d)))"

section \<open>Operations\<close>

definition commit_intent :: "write_ahead_intent \<Rightarrow> db \<Rightarrow> write_ahead_intent stored \<times> db" where
  "commit_intent i = transaction (\<lambda>d.
     case lookup_row wi_intent_id (wi_intent_id i) (reconciliation_intents d) of
       Some persisted \<Rightarrow>
         if persisted \<noteq> i then Inl (ReconciliationIntentConflictError (wi_intent_id i)) else Inr (persisted, d)
     | None \<Rightarrow>
         attempt (recon_workflow (wi_workflow_id i) d) (\<lambda>w.
         if wr_workflow_version w \<noteq> wi_workflow_version i
         then Inl (ReconciliationIntentConflictError ''intent workflow version does not match the durable workflow'')
         else if wr_latest_operation_id w \<noteq> Some (wi_operation_id i)
         then Inl (ReconciliationIntentConflictError ''intent operation does not match the workflow's current operation'')
         else if wr_state w \<noteq> EXECUTING \<and> wr_state w \<noteq> ROLLING_BACK
         then Inl (ReconciliationIntentConflictError ''write-ahead intent requires an executing or rolling-back workflow'')
         else attempt (insert_intent i d) (\<lambda>d1. Inr (i, d1))))"

definition insert_observation :: "reconciliation_observation \<Rightarrow> db \<Rightarrow> db stored" where
  "insert_observation x d =
     (if has_key ro_observation_id (ro_observation_id x) (reconciliation_observations d)
      then Inl (IntegrityError ''reconciliation_observations.observation_id'')
      else if \<not> has_key wi_intent_id (ro_intent_id x) (reconciliation_intents d)
      then Inl (IntegrityError ''reconciliation_intents'')
      else Inr (d\<lparr>reconciliation_observations := reconciliation_observations d @ [x]\<rparr>))"

definition append_observation :: "reconciliation_observation \<Rightarrow> db \<Rightarrow> reconciliation_observation stored \<times> db" where
  "append_observation x = transaction (\<lambda>d.
     attempt (intent (ro_intent_id x) d) (\<lambda>i.
     if ro_operation_id x \<noteq> wi_operation_id i
     then Inl (ReconciliationObservationConflictError ''observation operation does not match its write-ahead intent'')
     else case lookup_row ro_observation_id (ro_observation_id x) (reconciliation_observations d) of
            Some persisted \<Rightarrow>
              if persisted \<noteq> x then Inl (ReconciliationObservationConflictError (ro_observation_id x))
              else Inr (persisted, d)
          | None \<Rightarrow> attempt (insert_observation x d) (\<lambda>d1. Inr (x, d1))))"

fun observations_by_id :: "string \<Rightarrow> string list \<Rightarrow> db \<Rightarrow> reconciliation_observation list stored" where
  "observations_by_id i [] d = Inr []"
| "observations_by_id i (k # ks) d =
     (case List.find (\<lambda>x. ro_observation_id x = k \<and> ro_intent_id x = i) (reconciliation_observations d) of
        None \<Rightarrow> Inl (ReconciliationClassificationError
                  ''classification references an observation from another intent or no observation'')
      | Some x \<Rightarrow> attempt (observations_by_id i ks d) (\<lambda>xs. Inr (x # xs)))"

section \<open>Classification\<close>

definition fresh_read :: "reconciliation_observation \<Rightarrow> bool" where
  "fresh_read x \<longleftrightarrow> (ro_source x = LIVE_READ \<or> ro_source x = RECOVERY) \<and> ro_outcome x = VALUE_OBSERVED"

definition matching_bindings :: "write_ahead_intent \<Rightarrow> reconciliation_observation \<Rightarrow> bool" where
  "matching_bindings i x \<longleftrightarrow> ro_configuration_key x = Some (wi_configuration_key i)
     \<and> ro_live_state_fingerprint x = Some (wi_live_state_fingerprint i)
     \<and> ro_workspace_revision x = Some (wi_workspace_revision i)"

definition validate_classification ::
  "write_ahead_intent \<Rightarrow> reconciliation_observation list \<Rightarrow> reconciliation_classification \<Rightarrow> store_error option" where
  "validate_classification i xs c = (let fresh = filter fresh_read xs in
     case c of
       BEFORE \<Rightarrow> require (fresh \<noteq> [] \<and> \<not> list_ex (\<lambda>x. \<not> matching_bindings i x
             \<or> ro_observed_value x \<noteq> Some (wi_expected_before i)) fresh)
           (ReconciliationClassificationError ''BEFORE requires only fresh matching reads of the exact expected value'')
     | AFTER_OBSERVED \<Rightarrow> require (fresh \<noteq> [] \<and> \<not> list_ex (\<lambda>x. \<not> matching_bindings i x
             \<or> ro_observed_value x \<noteq> Some (wi_proposed_after i)) fresh)
           (ReconciliationClassificationError ''AFTER_OBSERVED requires only fresh matching reads of the exact proposed value'')
     | DIVERGED \<Rightarrow> require (list_ex (\<lambda>x. fresh_read x \<and> (\<not> matching_bindings i x
             \<or> (ro_observed_value x \<noteq> Some (wi_expected_before i)
                \<and> ro_observed_value x \<noteq> Some (wi_proposed_after i)))) xs)
           (ReconciliationClassificationError ''DIVERGED requires fresh evidence of a third value or changed binding'')
     | UNAVAILABLE \<Rightarrow> require (list_ex (\<lambda>x. ro_outcome x \<noteq> VALUE_OBSERVED) xs)
           (ReconciliationClassificationError ''UNAVAILABLE requires an unavailable or unverifiable observation''))"

definition insert_record :: "reconciliation_record \<Rightarrow> db \<Rightarrow> db stored" where
  "insert_record r d =
     (if has_key rr_reconciliation_id (rr_reconciliation_id r) (reconciliation_records d)
      then Inl (IntegrityError ''reconciliation_records.reconciliation_id'')
      else if \<not> has_key wi_intent_id (rr_intent_id r) (reconciliation_intents d)
         \<or> \<not> has_key wr_workflow_id (rr_workflow_id r) (workflow_records d)
      then Inl (IntegrityError ''FOREIGN KEY'')
      else Inr (d\<lparr>reconciliation_records := reconciliation_records d @ [r]\<rparr>))"

definition record_classification :: "reconciliation_record \<Rightarrow> db \<Rightarrow> reconciliation_record stored \<times> db" where
  "record_classification r = transaction (\<lambda>d.
     attempt (intent (rr_intent_id r) d) (\<lambda>i.
     if rr_workflow_id r \<noteq> wi_workflow_id i
     then Inl (ReconciliationClassificationError ''record workflow does not match its intent'')
     else if counter (rr_workflow_version r) < counter (wi_workflow_version i)
     then Inl (ReconciliationClassificationError ''record workflow version precedes its intent'')
     else attempt (observations_by_id (wi_intent_id i) (rr_observation_ids r) d) (\<lambda>xs.
     checked (validate_classification i xs (rr_classification r))
     (case lookup_row rr_reconciliation_id (rr_reconciliation_id r) (reconciliation_records d) of
        Some persisted \<Rightarrow>
          if persisted \<noteq> r
          then Inl (ReconciliationClassificationError ''reconciliation ID is already bound to different durable evidence'')
          else Inr (persisted, d)
      | None \<Rightarrow> attempt (insert_record r d) (\<lambda>d1. Inr (r, d1))))))"

section \<open>The store as a machine\<close>

datatype reconciliation_command =
    CommitIntent write_ahead_intent
  | AppendObservation reconciliation_observation
  | RecordClassification reconciliation_record

fun reconciliation_step :: "db \<Rightarrow> reconciliation_command \<Rightarrow> db" where
  "reconciliation_step d (CommitIntent i) =
     (case build_record WriteAheadIntent_post_init i of Inl e \<Rightarrow> d | Inr x \<Rightarrow> snd (commit_intent x d))"
| "reconciliation_step d (AppendObservation ob) =
     (case build_record ReconciliationObservation_post_init ob of Inl e \<Rightarrow> d | Inr x \<Rightarrow> snd (append_observation x d))"
| "reconciliation_step d (RecordClassification r) =
     (case build_record ReconciliationRecord_post_init r of Inl e \<Rightarrow> d | Inr x \<Rightarrow> snd (record_classification x d))"

end
