(* ===== verification/Reconciliation_Laws.thy ===== *)
theory Reconciliation_Laws
  imports Reconciliation_Store
begin

text \<open>
  What the reconciliation store guarantees: evidence is bound to committed intents
  and never rewritten, and every recorded classification is still supported by the
  observations it cites.
\<close>

section \<open>Support\<close>

definition supported :: "reconciliation_record \<Rightarrow> db \<Rightarrow> bool" where
  "supported r d \<longleftrightarrow> (\<exists>i xs. intent (rr_intent_id r) d = Inr i \<and> rr_workflow_id r = wi_workflow_id i
     \<and> counter (wi_workflow_version i) \<le> counter (rr_workflow_version r)
     \<and> observations_by_id (wi_intent_id i) (rr_observation_ids r) d = Inr xs
     \<and> validate_classification i xs (rr_classification r) = None)"

definition recon_inv :: "db \<Rightarrow> bool" where
  "recon_inv d \<longleftrightarrow>
     unique_key wi_intent_id (reconciliation_intents d)
     \<and> unique_key ro_observation_id (reconciliation_observations d)
     \<and> unique_key rr_reconciliation_id (reconciliation_records d)
     \<and> (\<forall>x \<in> set (reconciliation_observations d).
          \<exists>i \<in> set (reconciliation_intents d). wi_intent_id i = ro_intent_id x \<and> wi_operation_id i = ro_operation_id x)
     \<and> (\<forall>r \<in> set (reconciliation_records d). supported r d)"

inductive recon_change :: "db \<Rightarrow> db \<Rightarrow> bool" where
  intended: "\<not> has_key wi_intent_id (wi_intent_id i) (reconciliation_intents d) \<Longrightarrow>
     recon_change d (d\<lparr>reconciliation_intents := reconciliation_intents d @ [i]\<rparr>)"
| observed: "\<not> has_key ro_observation_id (ro_observation_id x) (reconciliation_observations d) \<Longrightarrow>
     i \<in> set (reconciliation_intents d) \<Longrightarrow> wi_intent_id i = ro_intent_id x \<Longrightarrow> wi_operation_id i = ro_operation_id x \<Longrightarrow>
     recon_change d (d\<lparr>reconciliation_observations := reconciliation_observations d @ [x]\<rparr>)"
| classified: "\<not> has_key rr_reconciliation_id (rr_reconciliation_id r) (reconciliation_records d) \<Longrightarrow> supported r d \<Longrightarrow>
     recon_change d (d\<lparr>reconciliation_records := reconciliation_records d @ [r]\<rparr>)"

text \<open>Later evidence does not change what an earlier lookup found.\<close>

lemma find_append: "List.find p (xs @ ys) = (case List.find p xs of Some x \<Rightarrow> Some x | None \<Rightarrow> List.find p ys)"
  by (induction xs) auto

lemma intent_mono:
  "intent i d = Inr x \<Longrightarrow> prefix (reconciliation_intents d) (reconciliation_intents d') \<Longrightarrow> intent i d' = Inr x"
  by (auto simp: intent_def prefix_def lookup_row_append split: option.splits)

lemma observations_by_id_mono:
  "observations_by_id i ks d = Inr xs \<Longrightarrow>
     prefix (reconciliation_observations d) (reconciliation_observations d') \<Longrightarrow> observations_by_id i ks d' = Inr xs"
proof (induction ks arbitrary: xs)
  case (Cons k ks)
  then show ?case by (auto simp: find_append attempt_Inr_iff prefix_def split: option.splits)
qed simp

lemma supported_mono:
  "supported r d \<Longrightarrow> prefix (reconciliation_intents d) (reconciliation_intents d') \<Longrightarrow>
     prefix (reconciliation_observations d) (reconciliation_observations d') \<Longrightarrow> supported r d'"
  unfolding supported_def using intent_mono observations_by_id_mono by blast

lemma recon_change_logs:
  "recon_change d d' \<Longrightarrow> prefix (reconciliation_intents d) (reconciliation_intents d')
     \<and> prefix (reconciliation_observations d) (reconciliation_observations d')
     \<and> prefix (reconciliation_records d) (reconciliation_records d')"
  by (induction rule: recon_change.induct) auto

lemma recon_change_inv: "recon_change d d' \<Longrightarrow> recon_inv d \<Longrightarrow> recon_inv d'"
proof -
  assume c: "recon_change d d'" and inv: "recon_inv d"
  from recon_change_logs [OF c] have keep: "supported r d \<Longrightarrow> supported r d'" for r
    by (blast intro: supported_mono)
  from c inv keep show "recon_inv d'"
    by (induction rule: recon_change.induct) (auto simp: recon_inv_def unique_key_snoc)
qed

lemma recon_inv_cong:
  "reconciliation_intents d' = reconciliation_intents d \<Longrightarrow>
   reconciliation_observations d' = reconciliation_observations d \<Longrightarrow>
   reconciliation_records d' = reconciliation_records d \<Longrightarrow> recon_inv d' = recon_inv d"
proof -
  assume a: "reconciliation_intents d' = reconciliation_intents d"
    "reconciliation_observations d' = reconciliation_observations d"
    "reconciliation_records d' = reconciliation_records d"
  then have "supported r d' = supported r d" for r
    using supported_mono [of r d d'] supported_mono [of r d' d] by auto
  with a show ?thesis by (simp add: recon_inv_def)
qed

section \<open>Every operation is one abstract change\<close>

lemma intent_InrD: "intent i d = Inr x \<Longrightarrow> x \<in> set (reconciliation_intents d) \<and> wi_intent_id x = i"
  by (auto simp: intent_def split: option.splits dest: lookup_row_SomeD)

lemma commit_intent_change: "snd (commit_intent i d) = d \<or> recon_change d (snd (commit_intent i d))"
  unfolding commit_intent_def
  by (rule transaction_cases)
    (auto simp: attempt_Inr_iff insert_intent_Inr_iff split: option.splits if_splits intro: recon_change.intended)

lemma append_observation_change:
  "snd (append_observation x d) = d \<or> recon_change d (snd (append_observation x d))"
  unfolding append_observation_def
  by (rule transaction_cases)
    (auto simp: attempt_Inr_iff insert_observation_def split: option.splits if_splits
      intro: recon_change.observed dest!: intent_InrD)

lemma record_classification_change:
  "snd (record_classification r d) = d \<or> recon_change d (snd (record_classification r d))"
  unfolding record_classification_def
proof (rule transaction_cases, goal_cases)
  case (1 a d')
  then obtain i xs where i: "intent (rr_intent_id r) d = Inr i" "rr_workflow_id r = wi_workflow_id i"
      "counter (wi_workflow_version i) \<le> counter (rr_workflow_version r)"
    and xs: "observations_by_id (wi_intent_id i) (rr_observation_ids r) d = Inr xs"
      "validate_classification i xs (rr_classification r) = None"
    and "d' = d \<or> insert_record r d = Inr d'"
    by (auto simp: attempt_Inr_iff checked_Inr_iff not_less split: option.splits if_splits)
  moreover from i xs have "supported r d" unfolding supported_def by blast
  ultimately show ?case by (auto simp: insert_record_def split: if_splits intro: recon_change.classified)
qed simp

lemma reconciliation_step_change: "reconciliation_step d c = d \<or> recon_change d (reconciliation_step d c)"
  using commit_intent_change append_observation_change record_classification_change
  by (cases c) (auto simp: build_record_def split: option.splits)

lemma reconciliation_step_keeps:
  "recon_inv d \<Longrightarrow> recon_inv (reconciliation_step d c)
     \<and> prefix (reconciliation_intents d) (reconciliation_intents (reconciliation_step d c))
     \<and> prefix (reconciliation_observations d) (reconciliation_observations (reconciliation_step d c))
     \<and> prefix (reconciliation_records d) (reconciliation_records (reconciliation_step d c))"
  using reconciliation_step_change [of d c] recon_change_inv recon_change_logs
  by (metis prefix_order.order_refl)

interpretation reconciliation_log: append_only_machine reconciliation_step recon_inv reconciliation_records
  using reconciliation_step_keeps by unfold_locales blast+

interpretation intent_log: append_only_machine reconciliation_step recon_inv reconciliation_intents
  using reconciliation_step_keeps by unfold_locales blast+

section \<open>What a classification means\<close>

lemma validate_BEFORE_iff:
  "validate_classification i xs BEFORE = None \<longleftrightarrow> (\<exists>x \<in> set xs. fresh_read x)
     \<and> (\<forall>x \<in> set xs. fresh_read x \<longrightarrow> matching_bindings i x \<and> ro_observed_value x = Some (wi_expected_before i))"
  by (auto simp: validate_classification_def Let_def list_ex_iff filter_empty_conv)

lemma validate_AFTER_iff:
  "validate_classification i xs AFTER_OBSERVED = None \<longleftrightarrow> (\<exists>x \<in> set xs. fresh_read x)
     \<and> (\<forall>x \<in> set xs. fresh_read x \<longrightarrow> matching_bindings i x \<and> ro_observed_value x = Some (wi_proposed_after i))"
  by (auto simp: validate_classification_def Let_def list_ex_iff filter_empty_conv)

lemma validate_DIVERGED_iff:
  "validate_classification i xs DIVERGED = None \<longleftrightarrow> (\<exists>x \<in> set xs. fresh_read x \<and> (\<not> matching_bindings i x
     \<or> ro_observed_value x \<notin> {Some (wi_expected_before i), Some (wi_proposed_after i)}))"
  by (auto simp: validate_classification_def Let_def list_ex_iff)

lemma validate_UNAVAILABLE_iff:
  "validate_classification i xs UNAVAILABLE = None \<longleftrightarrow> (\<exists>x \<in> set xs. ro_outcome x \<noteq> VALUE_OBSERVED)"
  by (auto simp: validate_classification_def Let_def list_ex_iff)

section \<open>Sample arguments\<close>

definition sample_quantity :: "rat \<Rightarrow> quantity" where
  "sample_quantity x = \<lparr>q_value = x, q_unit = ''MW''\<rparr>"

definition sample_intent :: "int \<Rightarrow> write_ahead_intent" where
  "sample_intent token = \<lparr>wi_intent_id = sample_uuid 21, wi_operation_id = sample_uuid 22,
     wi_workflow_id = sample_uuid 1, wi_workflow_version = sample_version 3, wi_idempotency_key = ''write'',
     wi_execution_id = sample_uuid 61, wi_lease_id = sample_uuid 23, wi_fencing_token = token,
     wi_workspace_id = sample_uuid 7, wi_workspace_revision = \<lparr>scope_id = sample_uuid 7, counter = 0\<rparr>,
     wi_product_identity = ProductIdentity (sample_uuid 24), wi_locator_version_id = sample_uuid 25,
     wi_attribute = \<lparr>as_kind = ACTIVE_POWER, as_contract = sample_name\<rparr>,
     wi_expected_before = sample_quantity 1, wi_proposed_after = sample_quantity 2,
     wi_configuration_key = sample_key, wi_live_state_fingerprint = sample_fingerprint,
     wi_request_digest = sample_scope, wi_policy_versions = [sample_name],
     wi_owner_instance_id = sample_uuid 2, wi_session_id = ''session'', wi_correlation_id = sample_uuid 26,
     wi_attempt_number = 1, wi_created_at = sample_time 1 0, wi_intent_digest = sample_scope\<rparr>"

definition sample_observation :: "nat \<Rightarrow> rat \<Rightarrow> reconciliation_observation" where
  "sample_observation n x = \<lparr>ro_observation_id = sample_uuid n, ro_intent_id = sample_uuid 21,
     ro_operation_id = sample_uuid 22, ro_attempt_id = sample_uuid 27, ro_source = LIVE_READ,
     ro_outcome = VALUE_OBSERVED, ro_observed_at = sample_time 2 0, ro_diagnostic_reference = ''read'',
     ro_observed_value = Some (sample_quantity x), ro_configuration_key = Some sample_key,
     ro_live_state_fingerprint = Some sample_fingerprint,
     ro_workspace_revision = Some \<lparr>scope_id = sample_uuid 7, counter = 0\<rparr>\<rparr>"

definition sample_record :: "reconciliation_classification \<Rightarrow> string list \<Rightarrow> reconciliation_record" where
  "sample_record c ks = \<lparr>rr_reconciliation_id = sample_uuid 28, rr_intent_id = sample_uuid 21,
     rr_workflow_id = sample_uuid 1, rr_workflow_version = sample_version 3, rr_classification = c,
     rr_observation_ids = ks, rr_classified_at = sample_time 3 0, rr_evidence_reference = ''reads'',
     rr_quarantine_reference = None, rr_manual_disposition = None, rr_operator_principal_reference = None,
     rr_completed_at = None\<rparr>"

definition sample_executing :: db where
  "sample_executing = empty_db\<lparr>workflow_records :=
     [(sample_workflow EXECUTING 3)\<lparr>wr_latest_operation_id := Some (sample_uuid 22)\<rparr>]\<rparr>"

definition sample_recovery :: "reconciliation_command list" where
  "sample_recovery = [CommitIntent (sample_intent 1), AppendObservation (sample_observation 31 2),
     AppendObservation (sample_observation 32 2), RecordClassification (sample_record AFTER_OBSERVED [sample_uuid 31, sample_uuid 32])]"

lemma recon_inv_sample_executing [simp]: "recon_inv sample_executing"
  by (simp add: recon_inv_def sample_executing_def empty_db_def)

section \<open>Properties\<close>

text \<open>C7: classifications are earned.  After any run of the store, each recorded
  classification refers to a committed intent of its workflow, at a workflow version that does
  not precede the intent's, and cites stored observations of that intent; \<open>BEFORE\<close> and
  \<open>AFTER_OBSERVED\<close> rest on at least one fresh read, and every fresh read cited shows exactly
  the expected, or exactly the proposed, quantity under the bindings of the intent; \<open>DIVERGED\<close>
  rests on a fresh read of a third value or under changed bindings, and \<open>UNAVAILABLE\<close> on an
  observation that did not yield a value.\<close>

theorem classifications_are_supported:
  assumes "recon_inv d" and "r \<in> set (reconciliation_records (run_ops reconciliation_step d cs))"
  shows "\<exists>i xs. intent (rr_intent_id r) (run_ops reconciliation_step d cs) = Inr i
    \<and> rr_workflow_id r = wi_workflow_id i
    \<and> counter (wi_workflow_version i) \<le> counter (rr_workflow_version r)
    \<and> observations_by_id (rr_intent_id r) (rr_observation_ids r) (run_ops reconciliation_step d cs) = Inr xs
    \<and> (rr_classification r \<in> {BEFORE, AFTER_OBSERVED} \<longrightarrow> (\<exists>x \<in> set xs. fresh_read x))
    \<and> (rr_classification r = BEFORE \<longrightarrow> (\<forall>x \<in> set xs. fresh_read x \<longrightarrow>
         matching_bindings i x \<and> ro_observed_value x = Some (wi_expected_before i)))
    \<and> (rr_classification r = AFTER_OBSERVED \<longrightarrow> (\<forall>x \<in> set xs. fresh_read x \<longrightarrow>
         matching_bindings i x \<and> ro_observed_value x = Some (wi_proposed_after i)))
    \<and> (rr_classification r = DIVERGED \<longrightarrow> (\<exists>x \<in> set xs. fresh_read x \<and> (\<not> matching_bindings i x
         \<or> ro_observed_value x \<notin> {Some (wi_expected_before i), Some (wi_proposed_after i)})))
    \<and> (rr_classification r = UNAVAILABLE \<longrightarrow> (\<exists>x \<in> set xs. ro_outcome x \<noteq> VALUE_OBSERVED))"
proof -
  have "supported r (run_ops reconciliation_step d cs)"
    using reconciliation_log.run_inv [OF assms(1)] assms(2) by (auto simp: recon_inv_def)
  then obtain i xs where s: "intent (rr_intent_id r) (run_ops reconciliation_step d cs) = Inr i"
    "rr_workflow_id r = wi_workflow_id i" "counter (wi_workflow_version i) \<le> counter (rr_workflow_version r)"
    "observations_by_id (wi_intent_id i) (rr_observation_ids r) (run_ops reconciliation_step d cs) = Inr xs"
    "validate_classification i xs (rr_classification r) = None" unfolding supported_def by blast
  then show ?thesis
    using intent_InrD [OF s(1)]
    by (intro exI [of _ i] exI [of _ xs])
      (cases "rr_classification r"; simp add: validate_BEFORE_iff validate_AFTER_iff validate_DIVERGED_iff validate_UNAVAILABLE_iff)
qed

theorem classifications_are_supported_witness:
  "\<exists>r \<in> set (reconciliation_records (run_ops reconciliation_step sample_executing sample_recovery)).
     rr_classification r = AFTER_OBSERVED
     \<and> (\<exists>xs. observations_by_id (rr_intent_id r) (rr_observation_ids r)
            (run_ops reconciliation_step sample_executing sample_recovery) = Inr xs \<and> (\<exists>x \<in> set xs. fresh_read x))"
proof -
  have "list_ex (\<lambda>r. rr_classification r = AFTER_OBSERVED)
    (reconciliation_records (run_ops reconciliation_step sample_executing sample_recovery))" by code_simp
  then obtain r where r: "r \<in> set (reconciliation_records (run_ops reconciliation_step sample_executing sample_recovery))"
    "rr_classification r = AFTER_OBSERVED" unfolding list_ex_iff by blast
  from classifications_are_supported [OF recon_inv_sample_executing r(1)] r show ?thesis by auto
qed

text \<open>The value classifications exclude one another.  The same observations of an intent
  whose proposed value differs from the expected one can support at most one of \<open>BEFORE\<close>,
  \<open>AFTER_OBSERVED\<close> and \<open>DIVERGED\<close>.\<close>

theorem value_classifications_exclusive:
  assumes "wi_expected_before i \<noteq> wi_proposed_after i"
    and "validate_classification i xs c = None" and "validate_classification i xs c' = None"
    and "c \<noteq> UNAVAILABLE" and "c' \<noteq> UNAVAILABLE"
  shows "c = c'"
  using assms
  by (cases c; cases c') (auto simp: validate_BEFORE_iff validate_AFTER_iff validate_DIVERGED_iff)

theorem value_classifications_exclusive_witness:
  "validate_classification (sample_intent 1) [sample_observation 31 2] AFTER_OBSERVED = None
   \<and> AFTER_OBSERVED = AFTER_OBSERVED"
proof -
  have d: "wi_expected_before (sample_intent 1) \<noteq> wi_proposed_after (sample_intent 1)"
    by (simp add: sample_intent_def sample_quantity_def)
  have v: "validate_classification (sample_intent 1) [sample_observation 31 2] AFTER_OBSERVED = None" by code_simp
  from value_classifications_exclusive [OF d v v] v show ?thesis by blast
qed

text \<open>Conflicting reads cannot be classified.  When every cited observation is a fresh
  read under the intent's bindings, and both the expected and the (different) proposed value
  were read, none of the four classifications is accepted: an intent whose live value moved
  between two reads stays unclassified unless the record leaves one of them out.\<close>

theorem conflicting_reads_unclassifiable:
  assumes "wi_expected_before i \<noteq> wi_proposed_after i"
    and "\<forall>x \<in> set xs. fresh_read x \<and> matching_bindings i x
       \<and> ro_observed_value x \<in> {Some (wi_expected_before i), Some (wi_proposed_after i)}"
    and "\<exists>x \<in> set xs. ro_observed_value x = Some (wi_expected_before i)"
    and "\<exists>x \<in> set xs. ro_observed_value x = Some (wi_proposed_after i)"
  shows "validate_classification i xs c \<noteq> None"
proof (cases c)
  case BEFORE
  with assms show ?thesis using validate_BEFORE_iff [of i xs] by auto
next
  case AFTER_OBSERVED
  with assms show ?thesis using validate_AFTER_iff [of i xs] by auto
next
  case DIVERGED
  with assms show ?thesis using validate_DIVERGED_iff [of i xs] by auto
next
  case UNAVAILABLE
  with assms show ?thesis using validate_UNAVAILABLE_iff [of i xs] by (auto simp: fresh_read_def)
qed

theorem conflicting_reads_unclassifiable_witness:
  "validate_classification (sample_intent 1) [sample_observation 31 1, sample_observation 32 2] DIVERGED \<noteq> None"
  by (rule conflicting_reads_unclassifiable)
    (simp_all add: sample_intent_def sample_quantity_def sample_observation_def fresh_read_def
      matching_bindings_def)

text \<open>Write-ahead discipline.  A new intent is committed only for a workflow that is
  executing or rolling back, at exactly the intent's workflow version and with the intent's
  operation as its current one; committing it again later returns it and changes nothing,
  and no different intent can ever take its identifier.\<close>

theorem commit_intent_write_ahead:
  assumes "recon_inv d" and "commit_intent i d = (Inr j, d1)"
  shows "j = i
    \<and> (i \<in> set (reconciliation_intents d) \<or> (\<exists>w. lookup_row wr_workflow_id (wi_workflow_id i) (workflow_records d) = Some w
         \<and> wr_workflow_version w = wi_workflow_version i \<and> wr_latest_operation_id w = Some (wi_operation_id i)
         \<and> wr_state w \<in> {EXECUTING, ROLLING_BACK}))
    \<and> commit_intent i (run_ops reconciliation_step d1 cs) = (Inr i, run_ops reconciliation_step d1 cs)
    \<and> (wi_intent_id k = wi_intent_id i \<and> k \<noteq> i \<longrightarrow> commit_intent k (run_ops reconciliation_step d1 cs)
         = (Inl (ReconciliationIntentConflictError (wi_intent_id i)), run_ops reconciliation_step d1 cs))"
proof -
  let ?d = "run_ops reconciliation_step d1 cs"
  have first: "j = i \<and> i \<in> set (reconciliation_intents d1)
    \<and> (i \<in> set (reconciliation_intents d) \<or> (\<exists>w. lookup_row wr_workflow_id (wi_workflow_id i) (workflow_records d) = Some w
         \<and> wr_workflow_version w = wi_workflow_version i \<and> wr_latest_operation_id w = Some (wi_operation_id i)
         \<and> wr_state w \<in> {EXECUTING, ROLLING_BACK}))"
    using assms(2)
    by (auto simp: commit_intent_def transaction_Inr_iff attempt_Inr_iff insert_intent_Inr_iff recon_workflow_def
        split: option.splits if_splits dest: lookup_row_SomeD)
  have "d1 = d \<or> recon_change d d1" using commit_intent_change [of i d] assms(2) by simp
  then have inv: "recon_inv d1" using assms(1) recon_change_inv by blast
  then have "i \<in> set (reconciliation_intents ?d)" "recon_inv ?d"
    using first intent_log.run_log_member [OF inv] reconciliation_log.run_inv [OF inv] by blast+
  then have "lookup_row wi_intent_id (wi_intent_id i) (reconciliation_intents ?d) = Some i"
    using lookup_row_unique [of wi_intent_id _ i] by (simp add: recon_inv_def)
  with first show ?thesis by (simp add: commit_intent_def transaction_def)
qed

theorem commit_intent_write_ahead_witness:
  "commit_intent (sample_intent 1) (run_ops reconciliation_step
      (reconciliation_step sample_executing (CommitIntent (sample_intent 1))) (tl sample_recovery))
   = (Inr (sample_intent 1), run_ops reconciliation_step
      (reconciliation_step sample_executing (CommitIntent (sample_intent 1))) (tl sample_recovery))"
proof -
  have ok: "\<not> isl (fst (commit_intent (sample_intent 1) sample_executing))"
    and b: "WriteAheadIntent_post_init (sample_intent 1) = None" by code_simp+
  from commit_intent_write_ahead [OF recon_inv_sample_executing call_returned [OF ok], of "tl sample_recovery"] b
  show ?thesis by (simp add: build_record_def)
qed

end
