(* ===== verification/Store_System.thy ===== *)
theory Store_System
  imports Lease_Laws Workflow_Laws Approval_Laws Reconciliation_Laws
begin

text \<open>
  The stores together: one database, any interleaving of the operations of the
  workflow, lease, approval and reconciliation stores and of the execution
  admission.  Every operation is a sequence of the stores' abstract changes, so the
  invariants of all stores hold in every reachable state, and every admission
  envelope stays backed by its authorization, command, grant and intent.
\<close>

section \<open>Envelopes\<close>

definition backed :: "envelope_row \<Rightarrow> db \<Rightarrow> bool" where
  "backed r d \<longleftrightarrow> (let e = enrow_envelope r in
     (\<exists>i \<in> set (reconciliation_intents d). wi_intent_id i = env_intent_id e \<and> wi_execution_id i = env_execution_id e
        \<and> wi_operation_id i = env_operation_id e \<and> wi_lease_id i = env_lease_id e
        \<and> wi_fencing_token i = env_fencing_token e)
     \<and> admitted (env_execution_id e) d
     \<and> (\<exists>c \<in> set (workflow_commands d). ic_command_id c = env_command_id e
          \<and> ic_workflow_id c = env_workflow_id e \<and> ic_command_name c = ADMISSION_COMMAND)
     \<and> (\<exists>x \<in> set (lease_event_log d). le_event_type x = ACQUIRED \<and> le_lease_id x = env_lease_id e
          \<and> le_fencing_token x = env_fencing_token e))"

definition envelope_inv :: "db \<Rightarrow> bool" where
  "envelope_inv d \<longleftrightarrow> unique_key (env_of env_execution_id) (admission_envelopes d)
     \<and> unique_key (env_of env_operation_id) (admission_envelopes d)
     \<and> unique_key (env_of env_intent_id) (admission_envelopes d)
     \<and> unique_key envelope_key (admission_envelopes d)
     \<and> (\<forall>r \<in> set (admission_envelopes d). backed r d)"

definition system_inv :: "db \<Rightarrow> bool" where
  "system_inv d \<longleftrightarrow> workflow_inv d \<and> lease_inv d \<and> approval_inv d \<and> recon_inv d \<and> envelope_inv d"

section \<open>The abstract system\<close>

inductive system_change :: "db \<Rightarrow> db \<Rightarrow> bool" where
  by_workflow: "workflow_change d d' \<Longrightarrow> system_change d d'"
| by_lease: "lease_change d d' \<Longrightarrow> system_change d d'"
| by_approval: "approval_change d d' \<Longrightarrow> system_change d d'"
| by_evidence: "recon_change d d' \<Longrightarrow> system_change d d'"
| by_envelope: "backed r d \<Longrightarrow>
     \<not> has_key (env_of env_execution_id) (env_execution_id (enrow_envelope r)) (admission_envelopes d) \<Longrightarrow>
     \<not> has_key (env_of env_operation_id) (env_operation_id (enrow_envelope r)) (admission_envelopes d) \<Longrightarrow>
     \<not> has_key (env_of env_intent_id) (env_intent_id (enrow_envelope r)) (admission_envelopes d) \<Longrightarrow>
     \<not> has_key envelope_key (envelope_key r) (admission_envelopes d) \<Longrightarrow>
     system_change d (d\<lparr>admission_envelopes := admission_envelopes d @ [r]\<rparr>)"

text \<open>The tables that each kind of change leaves alone.\<close>

definition same_workflow_tables :: "db \<Rightarrow> db \<Rightarrow> bool" where
  "same_workflow_tables d d' \<longleftrightarrow> workflow_records d' = workflow_records d
     \<and> workflow_commands d' = workflow_commands d \<and> workflow_audit_events d' = workflow_audit_events d"

definition same_lease_tables :: "db \<Rightarrow> db \<Rightarrow> bool" where
  "same_lease_tables d d' \<longleftrightarrow> fence_counters d' = fence_counters d
     \<and> context_leases d' = context_leases d \<and> lease_event_log d' = lease_event_log d"

definition same_approval_tables :: "db \<Rightarrow> db \<Rightarrow> bool" where
  "same_approval_tables d d' \<longleftrightarrow> approval_requests d' = approval_requests d
     \<and> authority_decisions d' = authority_decisions d
     \<and> authority_authorizations d' = authority_authorizations d
     \<and> authorization_events d' = authorization_events d
     \<and> authority_admissions d' = authority_admissions d"

definition same_recon_tables :: "db \<Rightarrow> db \<Rightarrow> bool" where
  "same_recon_tables d d' \<longleftrightarrow> reconciliation_intents d' = reconciliation_intents d
     \<and> reconciliation_observations d' = reconciliation_observations d
     \<and> reconciliation_records d' = reconciliation_records d"

lemmas same_tables_defs =
  same_workflow_tables_def same_lease_tables_def same_approval_tables_def same_recon_tables_def

lemma workflow_change_frame:
  "workflow_change d d' \<Longrightarrow> same_lease_tables d d' \<and> same_approval_tables d d' \<and> same_recon_tables d d'
     \<and> admission_envelopes d' = admission_envelopes d"
  by (induction rule: workflow_change.induct) (simp_all add: same_tables_defs)

lemma lease_change_frame:
  "lease_change d d' \<Longrightarrow> same_workflow_tables d d' \<and> same_approval_tables d d' \<and> same_recon_tables d d'
     \<and> admission_envelopes d' = admission_envelopes d"
  by (induction rule: lease_change.induct) (simp_all add: same_tables_defs)

lemma approval_change_frame:
  "approval_change d d' \<Longrightarrow> same_workflow_tables d d' \<and> same_lease_tables d d' \<and> same_recon_tables d d'
     \<and> admission_envelopes d' = admission_envelopes d"
  by (induction rule: approval_change.induct) (simp_all add: same_tables_defs)

lemma recon_change_frame:
  "recon_change d d' \<Longrightarrow> same_workflow_tables d d' \<and> same_lease_tables d d' \<and> same_approval_tables d d'
     \<and> admission_envelopes d' = admission_envelopes d"
  by (induction rule: recon_change.induct) (simp_all add: same_tables_defs)

lemma workflow_inv_cong: "same_workflow_tables d d' \<Longrightarrow> workflow_inv d' = workflow_inv d"
  by (simp add: same_workflow_tables_def workflow_inv_def history_def)

lemma inv_congs:
  "same_lease_tables d d' \<Longrightarrow> lease_inv d' = lease_inv d"
  "same_approval_tables d d' \<Longrightarrow> approval_inv d' = approval_inv d"
  "same_recon_tables d d' \<Longrightarrow> recon_inv d' = recon_inv d"
  unfolding same_tables_defs by (elim conjE, rule lease_inv_cong approval_inv_cong recon_inv_cong; assumption)+

text \<open>The evidence tables, all append-only.\<close>

definition evidence_grows :: "db \<Rightarrow> db \<Rightarrow> bool" where
  "evidence_grows d d' \<longleftrightarrow> prefix (workflow_commands d) (workflow_commands d')
     \<and> prefix (workflow_audit_events d) (workflow_audit_events d')
     \<and> prefix (lease_event_log d) (lease_event_log d')
     \<and> prefix (authority_decisions d) (authority_decisions d')
     \<and> prefix (authority_admissions d) (authority_admissions d')
     \<and> prefix (authorization_events d) (authorization_events d')
     \<and> prefix (reconciliation_intents d) (reconciliation_intents d')
     \<and> prefix (reconciliation_observations d) (reconciliation_observations d')
     \<and> prefix (reconciliation_records d) (reconciliation_records d')
     \<and> prefix (admission_envelopes d) (admission_envelopes d')"

lemma evidence_grows_refl [simp]: "evidence_grows d d"
  by (simp add: evidence_grows_def)

lemma evidence_grows_trans: "evidence_grows d d1 \<Longrightarrow> evidence_grows d1 d2 \<Longrightarrow> evidence_grows d d2"
  unfolding evidence_grows_def by (meson prefix_order.trans)

lemma system_change_evidence: "system_change d d' \<Longrightarrow> evidence_grows d d'"
proof (induction rule: system_change.induct)
  case (by_workflow d d')
  then show ?case using workflow_change_frame [of d d'] workflow_change_logs [of d d']
    by (simp add: evidence_grows_def same_tables_defs)
next
  case (by_lease d d')
  then show ?case using lease_change_frame [of d d'] lease_change_log [of d d']
    by (simp add: evidence_grows_def same_tables_defs)
next
  case (by_approval d d')
  then show ?case using approval_change_frame [of d d'] approval_change_logs [of d d']
    by (simp add: evidence_grows_def same_tables_defs)
next
  case (by_evidence d d')
  then show ?case using recon_change_frame [of d d'] recon_change_logs [of d d']
    by (simp add: evidence_grows_def same_tables_defs)
qed (simp add: evidence_grows_def)

lemma prefix_member: "prefix xs ys \<Longrightarrow> x \<in> set xs \<Longrightarrow> x \<in> set ys"
  by (auto simp: prefix_def)

lemma backed_mono: "backed r d \<Longrightarrow> evidence_grows d d' \<Longrightarrow> backed r d'"
  unfolding backed_def admitted_def evidence_grows_def Let_def by (blast intro: prefix_member)

lemma system_change_inv:
  assumes "system_change d d'" "system_inv d"
  shows "system_inv d'"
proof -
  have keep: "backed r d \<Longrightarrow> backed r d'" for r
    using backed_mono system_change_evidence [OF assms(1)] by blast
  from assms(1,2) keep show ?thesis
  proof (induction rule: system_change.induct)
    case (by_workflow d d')
    then show ?case using workflow_change_frame [of d d'] workflow_change_inv [of d d']
      by (simp add: system_inv_def inv_congs [of d d'] envelope_inv_def)
  next
    case (by_lease d d')
    then show ?case using lease_change_frame [of d d'] lease_change_inv [of d d']
      by (simp add: system_inv_def inv_congs [of d d'] workflow_inv_cong [of d d'] envelope_inv_def)
  next
    case (by_approval d d')
    then show ?case using approval_change_frame [of d d'] approval_change_inv [of d d']
      by (simp add: system_inv_def inv_congs [of d d'] workflow_inv_cong [of d d'] envelope_inv_def)
  next
    case (by_evidence d d')
    then show ?case using recon_change_frame [of d d'] recon_change_inv [of d d']
      by (simp add: system_inv_def inv_congs [of d d'] workflow_inv_cong [of d d'] envelope_inv_def)
  next
    case (by_envelope r d)
    let ?d = "d\<lparr>admission_envelopes := admission_envelopes d @ [r]\<rparr>"
    have "same_workflow_tables d ?d" "same_lease_tables d ?d" "same_approval_tables d ?d" "same_recon_tables d ?d"
      by (simp_all add: same_tables_defs)
    then show ?case using by_envelope
      by (simp add: system_inv_def inv_congs workflow_inv_cong envelope_inv_def unique_key_snoc)
        (simp add: env_of_def)
  qed
qed

lemma system_changes_inv: "system_change\<^sup>*\<^sup>* d d' \<Longrightarrow> system_inv d \<Longrightarrow> system_inv d'"
  by (induction rule: rtranclp_induct) (auto intro: system_change_inv)

lemma system_changes_evidence: "system_change\<^sup>*\<^sup>* d d' \<Longrightarrow> evidence_grows d d'"
  by (induction rule: rtranclp_induct) (auto intro: evidence_grows_trans system_change_evidence)

lemma system_change_counters:
  "system_change d d' \<Longrightarrow> system_inv d \<Longrightarrow>
     last_token d s \<le> last_token d' s \<and> version_counter d i \<le> version_counter d' i"
proof (induction rule: system_change.induct)
  case (by_workflow d d')
  then show ?case using workflow_change_frame [of d d'] workflow_change_version [of d d' i]
    by (simp add: system_inv_def same_tables_defs last_token_def)
next
  case (by_lease d d')
  then show ?case using lease_change_frame [of d d'] lease_change_last_token [of d d' s]
    by (simp add: same_tables_defs version_counter_def)
next
  case (by_approval d d')
  then show ?case using approval_change_frame [of d d']
    by (simp add: same_tables_defs version_counter_def last_token_def)
next
  case (by_evidence d d')
  then show ?case using recon_change_frame [of d d']
    by (simp add: same_tables_defs version_counter_def last_token_def)
qed (simp add: version_counter_def last_token_def)

lemma system_changes_counters:
  "system_change\<^sup>*\<^sup>* d d' \<Longrightarrow> system_inv d \<Longrightarrow>
     last_token d s \<le> last_token d' s \<and> version_counter d i \<le> version_counter d' i"
proof (induction rule: rtranclp_induct)
  case (step y z)
  then show ?case using system_changes_inv [of d y] system_change_counters [of y z s i] by fastforce
qed simp

section \<open>The admission as a sequence of changes\<close>

lemma advance_workflow_InrE:
  assumes "advance_workflow ids q p d = Inr (w, d')" "workflow_inv d" "p \<in> set (workflow_records d)"
    and "wr_workflow_version p = ea_expected_workflow_version (aq_execution q)" "wr_state p = AWAITING_AUTHORIZATION"
    and "wr_workflow_id p = wi_workflow_id (aq_intent q)"
    and "wi_workflow_version (aq_intent q)
       = \<lparr>scope_id = wi_workflow_id (aq_intent q), counter = counter (ea_expected_workflow_version (aq_execution q)) + 1\<rparr>"
    and "Revision_post_init WorkflowVersion (wi_workflow_version (aq_intent q)) = None"
  obtains e where "w = executing_workflow q (ids 0) p" "workflow_change d d'"
    "d' = d\<lparr>workflow_records := replace_workflow w (workflow_records d),
       workflow_commands := workflow_commands d @ [admission_command q (ids 0)],
       workflow_audit_events := workflow_audit_events d @ [e]\<rparr>"
    "ae_event_type e = AUDIT_REQUESTED"
proof -
  let ?w = "executing_workflow q (ids 0) p" let ?c = "admission_command q (ids 0)"
  let ?e = "admission_audit q (ids 1) (ids 0) p AUDIT_REQUESTED None None None"
  from assms(1) obtain d1 d2 where b: "WorkflowRecord_post_init ?w = None"
    and ins: "insert_workflow_command ?c d = Inr d1" and au: "insert_audit ?e d1 = Inr d2"
    and rest: "(case update_workflow_cas ?w (counter (ea_expected_workflow_version (aq_execution q))) d2 of (rows, d3) \<Rightarrow>
       if rows \<noteq> 1 then Inl (rejected ''workflow compare-and-swap failed'') else Inr (?w, d3)) = Inr (w, d')"
    by (auto simp: advance_workflow_def attempt_Inr_iff build_record_Inr_iff)
  from ins au have d2: "d2 = d\<lparr>workflow_commands := workflow_commands d @ [?c],
      workflow_audit_events := workflow_audit_events d @ [?e]\<rparr>"
    and fresh: "\<not> has_key ic_command_id (ic_command_id ?c) (workflow_commands d)"
      "\<not> has_key command_key (command_key ?c) (workflow_commands d)"
    by (auto simp: insert_workflow_command_Inr_iff insert_audit_Inr_iff)
  have cas: "update_workflow_cas ?w (counter (ea_expected_workflow_version (aq_execution q))) d2
      = (1, d2\<lparr>workflow_records := replace_workflow ?w (workflow_records d2)\<rparr>)"
    using assms by (intro update_workflow_cas_eq [of _ p]) (auto simp: d2 workflow_inv_def executing_workflow_def)
  from rest [unfolded cas] have wd: "w = ?w" "d' = d\<lparr>workflow_records := replace_workflow ?w (workflow_records d),
       workflow_commands := workflow_commands d @ [?c], workflow_audit_events := workflow_audit_events d @ [?e]\<rparr>"
    by (auto simp: d2)
  have built: "built_workflow ?w = None"
    using b assms(8) by (simp add: built_workflow_def executing_workflow_def)
  have edge: "edge_of ?c = Some (wr_state p, wr_state ?w)"
    using assms(5) by (simp add: edge_of_def command_edge_def admission_command_def ADMISSION_COMMAND_def executing_workflow_def)
  have "workflow_change d d'" unfolding wd(2)
    by (rule workflow_change.advanced [OF assms(3) _ built edge])
      (use assms fresh in \<open>auto simp: same_bindings_def executing_workflow_def admission_command_def\<close>)
  with wd show thesis by (intro that [of ?e]) (simp_all add: admission_audit_def)
qed

lemma insert_lease_event_InrD:
  assumes "insert_lease_event q i cid l ty b a d = Inr d'"
  obtains e where "d' = d\<lparr>lease_event_log := lease_event_log d @ [e]\<rparr>"
    "le_event_type e = ty" "event_scope e = lease_scope_of l" "le_lease_id e = cl_lease_id l"
    "le_fencing_token e = cl_fencing_token l"
  using assms unfolding insert_lease_event_def by (elim append_event_InrD) auto

text \<open>The started lease: a grant of the free scope, then the start of its atomic call.\<close>

definition started_lease :: "admission_request \<Rightarrow> context_lease" where
  "started_lease q = (held_lease q (wi_fencing_token (aq_intent q)))
     \<lparr>cl_operation_id := Some (wi_operation_id (aq_intent q))\<rparr>"

lemma create_started_lease_InrE:
  assumes "create_started_lease ids q cid d = Inr (l, d')"
    and free: "lease (aq_scope q) (wi_configuration_key (aq_intent q)) d = None"
  obtains e1 e2 e3 where "l = started_lease q"
    "wi_fencing_token (aq_intent q) = last_token d (aq_scope q, wi_configuration_key (aq_intent q)) + 1"
    "lease_change\<^sup>*\<^sup>* d d'"
    "lease (aq_scope q) (wi_configuration_key (aq_intent q)) d' = Some l"
    "lease_event_log d' = lease_event_log d @ [e1, e2, e3]"
    "le_event_type e2 = ACQUIRED" "le_lease_id e2 = cl_lease_id l" "le_fencing_token e2 = cl_fencing_token l"
    "le_event_type e3 = ATOMIC_CALL_STARTED"
proof -
  let ?s = "(aq_scope q, wi_configuration_key (aq_intent q))"
  let ?t = "wi_fencing_token (aq_intent q)" let ?h = "held_lease q ?t"
  obtain token d1 where mint: "mint_fencing_token (aq_scope q) (wi_configuration_key (aq_intent q)) d = (token, d1)"
    by fastforce
  from assms(1) mint have tok: "token = ?t" by (auto simp: create_started_lease_def split: if_splits)
  from assms(1) mint tok obtain d2 d3 d4 d5 where vh: "ContextLease_post_init ?h = None"
    and ev1: "insert_lease_event q (ids 0) cid ?h ACQUIRE_ATTEMPTED AVAILABLE (cl_state ?h) d1 = Inr d2"
    and wr: "write_lease_row ?h d2 = Inr d3"
    and ev2: "insert_lease_event q (ids 1) cid ?h ACQUIRED AVAILABLE (cl_state ?h) d3 = Inr d4"
    and vs: "ContextLease_post_init (started_lease q) = None"
    and wr2: "write_lease_row (started_lease q) d4 = Inr d5"
    and ev3: "insert_lease_event q (ids 2) cid (started_lease q) ATOMIC_CALL_STARTED (cl_state ?h)
        (cl_state (started_lease q)) d5 = Inr d'"
    and l: "l = started_lease q"
    by (auto simp: create_started_lease_def attempt_Inr_iff build_record_Inr_iff started_lease_def)
  obtain e1 where e1: "d2 = d1\<lparr>lease_event_log := lease_event_log d1 @ [e1]\<rparr>" "le_event_type e1 = ACQUIRE_ATTEMPTED"
    using ev1 by (rule insert_lease_event_InrD)
  obtain e2 where e2: "d4 = d3\<lparr>lease_event_log := lease_event_log d3 @ [e2]\<rparr>" "le_event_type e2 = ACQUIRED"
    "event_scope e2 = lease_scope_of ?h" "le_lease_id e2 = cl_lease_id ?h" "le_fencing_token e2 = cl_fencing_token ?h"
    using ev2 by (rule insert_lease_event_InrD)
  obtain e3 where e3: "d' = d5\<lparr>lease_event_log := lease_event_log d5 @ [e3]\<rparr>" "le_event_type e3 = ATOMIC_CALL_STARTED"
    using ev3 by (rule insert_lease_event_InrD)
  from mint tok have t: "?t = last_token d ?s + 1"
    and d1: "d1 = d\<lparr>fence_counters := upsert fence_scope
       \<lparr>fr_scope = aq_scope q, fr_key = wi_configuration_key (aq_intent q), fr_last_fencing_token = ?t\<rparr> (fence_counters d)\<rparr>"
    by (auto simp: mint_fencing_token_eq)
  have sc: "lease_scope_of ?h = ?s" "lease_scope_of (started_lease q) = ?s"
    by (simp_all add: held_lease_def started_lease_def lease_scope_of_def)
  from wr d1 e1 have d3: "d3 = d2\<lparr>context_leases := upsert lease_scope_of ?h (context_leases d)\<rparr>"
    and ids: "\<forall>y \<in> set (context_leases d). cl_lease_id y = cl_lease_id ?h \<longrightarrow> lease_scope_of y = lease_scope_of ?h"
    by (auto simp: write_lease_row_Inr_iff)
  have fresh: "\<forall>y \<in> set (context_leases d). cl_lease_id y \<noteq> cl_lease_id ?h"
    using ids free sc by (auto simp: lookup_row_None_iff has_key_def lease_def)
  have no: "lookup_row lease_scope_of (lease_scope_of ?h) (context_leases d) = None"
    using free sc by (simp add: lease_def)
  have d4: "d4 = d\<lparr>fence_counters := upsert fence_scope \<lparr>fr_scope = cl_service_scope_digest ?h,
        fr_key = cl_configuration_key ?h, fr_last_fencing_token = cl_fencing_token ?h\<rparr> (fence_counters d),
      context_leases := upsert lease_scope_of ?h (context_leases d),
      lease_event_log := lease_event_log d @ [e1] @ [e2] @ []\<rparr>"
    using d1 e1 e2(1) d3 by (simp add: held_lease_def)
  have "lease_change d d4" unfolding d4
    by (rule lease_change.granted [OF no vh _ _ fresh e2(3,2,5)])
      (use t sc e1 in \<open>auto simp: held_lease_def HELD_STATES_def lease_scope_of_def\<close>)
  moreover have "lease_change d4 d'"
  proof -
    have "d' = d4\<lparr>context_leases := upsert lease_scope_of (started_lease q) (context_leases d4),
        lease_event_log := lease_event_log d4 @ [e3]\<rparr>"
      using wr2 e3 by (simp add: write_lease_row_Inr_iff)
    moreover have "?h \<in> set (context_leases d4)" by (simp add: d4 set_upsert_unique)
    moreover have "lease_moves ?h (started_lease q)"
      by (simp add: lease_moves_def held_lease_def started_lease_def HELD_STATES_def)
    ultimately show ?thesis using lease_change.moved [of ?h d4 "started_lease q" e3] vs e3(2) by simp
  qed
  moreover have "lease (aq_scope q) (wi_configuration_key (aq_intent q)) d' = Some l"
    using wr2 e3 sc l by (simp add: write_lease_row_Inr_iff lease_def lookup_upsert)
  moreover have "lease_event_log d' = lease_event_log d @ [e1, e2, e3]"
    using wr2 e3 d4 by (simp add: write_lease_row_Inr_iff)
  ultimately show thesis using t l e2 e3
    by (intro that [of e1 e2 e3]) (auto simp: started_lease_def)
qed

lemma consume_authorization_InrE:
  assumes "consume_authorization ev q d = Inr d'" "approval_inv d"
    and "lookup_row aurow_execution_id (ea_execution_id (aq_execution q)) (authority_authorizations d) = Some r"
    and "aurow_state r = AUTH_ISSUED"
  shows "approval_change d d'" "admitted (ea_execution_id (aq_execution q)) d'"
proof -
  let ?i = "ea_execution_id (aq_execution q)"
  note r = lookup_row_SomeD [OF assms(3)]
  from assms(2) have u: "unique_key aurow_execution_id (authority_authorizations d)" by (simp add: approval_inv_def)
  have upd: "update_where (\<lambda>r. aurow_execution_id r = ?i \<and> aurow_state r = AUTH_ISSUED)
      (\<lambda>r. r\<lparr>aurow_state := AUTH_CONSUMING, aurow_updated_at := aq_admitted_at q\<rparr>) (authority_authorizations d)
    = set_row_state ?i AUTH_CONSUMING (aq_admitted_at q) (authority_authorizations d)"
    using r u assms(4) by (auto simp: set_row_state_def update_where_def dest: unique_keyD)
  let ?e = "\<lparr>aue_event_id = ev, aue_execution_id = ?i, aue_state_before = Some AUTH_ISSUED,
    aue_state_after = AUTH_CONSUMING, aue_reason_code = ''atomic_execution_admission'',
    aue_occurred_at = aq_admitted_at q\<rparr>"
  let ?x = "\<lparr>ada_execution_id = ?i, ada_workflow_id = ea_workflow_id (aq_execution q), ada_status = ADMITTED,
    ada_reason_code = ''atomic_execution_admission'', ada_recorded_at = aq_admitted_at q\<rparr>"
  from assms(1) have no: "\<not> has_key ada_execution_id ?i (authority_admissions d)"
    and d': "d' = d\<lparr>authority_authorizations := set_row_state ?i AUTH_CONSUMING (aq_admitted_at q) (authority_authorizations d),
       authorization_events := authorization_events d @ [?e], authority_admissions := authority_admissions d @ [?x]\<rparr>"
    by (auto simp: consume_authorization_def Let_def attempt_Inr_iff build_record_Inr_iff
        insert_authorization_event_Inr_iff insert_admission_Inr_iff upd split: if_splits)
  show "approval_change d d'" unfolding d'
    using approval_change.state_moved [of r d AUTH_CONSUMING ?e "[?x]" "aq_admitted_at q"] r no assms(4)
    by (simp add: auth_edges_def)
  show "admitted ?i d'" by (auto simp: d' admitted_def)
qed

lemma record_envelope_InrE:
  assumes "record_envelope ids q cid st w l d = Inr (e, d')"
  obtains a1 a2 where "e = admission_envelope q (ids 0) cid l"
    "let r = \<lparr>enrow_idempotency_key = aq_idempotency_key q, enrow_envelope = e\<rparr> in
       insert_envelope r d = Inr (d\<lparr>admission_envelopes := admission_envelopes d @ [r]\<rparr>)
       \<and> d' = d\<lparr>admission_envelopes := admission_envelopes d @ [r],
                workflow_audit_events := workflow_audit_events d @ [a1, a2]\<rparr>"
proof -
  let ?e = "admission_envelope q (ids 0) cid l"
  let ?r = "\<lparr>enrow_idempotency_key = aq_idempotency_key q, enrow_envelope = ?e\<rparr>"
  from assms obtain d1 d2 where e: "e = ?e" and ins: "insert_envelope ?r d = Inr d1"
    and a: "insert_audit (admission_audit q (ids 1) cid w ADMISSION_REVALIDATED
                (Some (cl_fencing_token l)) (Some st) (Some (wr_state w))) d1 = Inr d2"
      "insert_audit (admission_audit q (ids 2) cid w INTENT_COMMITTED (Some (cl_fencing_token l)) None None) d2 = Inr d'"
    by (auto simp: record_envelope_def attempt_Inr_iff build_record_Inr_iff)
  from ins have d1: "d1 = d\<lparr>admission_envelopes := admission_envelopes d @ [?r]\<rparr>"
    by (simp add: insert_envelope_Inr_iff)
  with a ins show thesis
    by (intro that [of "admission_audit q (ids 1) cid w ADMISSION_REVALIDATED
                (Some (cl_fencing_token l)) (Some st) (Some (wr_state w))"
          "admission_audit q (ids 2) cid w INTENT_COMMITTED (Some (cl_fencing_token l)) None None"])
      (simp_all add: e insert_audit_Inr_iff Let_def)
qed

lemma lease_changes_frame:
  "lease_change\<^sup>*\<^sup>* d d' \<Longrightarrow> same_workflow_tables d d' \<and> same_approval_tables d d' \<and> same_recon_tables d d'
     \<and> admission_envelopes d' = admission_envelopes d"
proof (induction rule: rtranclp_induct)
  case (step y z)
  then show ?case using lease_change_frame [of y z] by (simp add: same_tables_defs)
qed (simp add: same_tables_defs)

lemma lease_changes_system: "lease_change\<^sup>*\<^sup>* d d' \<Longrightarrow> system_change\<^sup>*\<^sup>* d d'"
  by (induction rule: rtranclp_induct) (auto intro: rtranclp.rtrancl_into_rtrancl system_change.by_lease)

lemma lease_cong: "context_leases d' = context_leases d \<Longrightarrow> lease s k d' = lease s k d"
  by (simp add: lease_def)

text \<open>What the guards of an admission establish.\<close>

definition admissible :: "admission_request \<Rightarrow> workflow_record \<Rightarrow> db \<Rightarrow> bool" where
  "admissible q w d \<longleftrightarrow>
     lookup_row wr_workflow_id (wi_workflow_id (aq_intent q)) (workflow_records d) = Some w
     \<and> wr_state w = AWAITING_AUTHORIZATION
     \<and> wr_workflow_version w = ea_expected_workflow_version (aq_execution q)
     \<and> wr_configuration_key w = ea_configuration_key (aq_execution q)
     \<and> wr_proposal_digest w = wi_request_digest (aq_intent q)
     \<and> (\<exists>r. lookup_row aurow_execution_id (ea_execution_id (aq_execution q)) (authority_authorizations d) = Some r
          \<and> aurow_state r = AUTH_ISSUED \<and> aurow_authorization r = aq_authorization q)
     \<and> aq_admitted_at q < ea_expires_at (aq_execution q)
     \<and> lease (aq_scope q) (wi_configuration_key (aq_intent q)) d = None
     \<and> wi_fencing_token (aq_intent q) = last_token d (aq_scope q, wi_configuration_key (aq_intent q)) + 1"

text \<open>What it leaves behind.\<close>

definition write_begun :: "admission_request \<Rightarrow> string \<Rightarrow> workflow_record \<Rightarrow> execution_admission_envelope \<Rightarrow> db \<Rightarrow> bool" where
  "write_begun q command_id w e d \<longleftrightarrow>
     lookup_row wr_workflow_id (wi_workflow_id (aq_intent q)) (workflow_records d)
       = Some (executing_workflow q command_id w)
     \<and> admission_command q command_id \<in> set (workflow_commands d)
     \<and> lease (aq_scope q) (wi_configuration_key (aq_intent q)) d = Some (started_lease q)
     \<and> aq_intent q \<in> set (reconciliation_intents d)
     \<and> admitted (ea_execution_id (aq_execution q)) d
     \<and> \<lparr>enrow_idempotency_key = aq_idempotency_key q, enrow_envelope = e\<rparr> \<in> set (admission_envelopes d)"

lemma admission_guard_None:
  assumes "admission_guard q = None"
  shows "wi_workflow_id (aq_intent q) = ea_workflow_id (aq_execution q)"
    "wi_execution_id (aq_intent q) = ea_execution_id (aq_execution q)"
    "wi_workflow_version (aq_intent q)
       = \<lparr>scope_id = wi_workflow_id (aq_intent q), counter = counter (ea_expected_workflow_version (aq_execution q)) + 1\<rparr>"
    "Revision_post_init WorkflowVersion (wi_workflow_version (aq_intent q)) = None"
  using assms by (auto simp: admission_guard_def Let_def require_admissible_def)

lemma validate_authorization_None:
  assumes "validate_authorization c t d = None"
  obtains r where "lookup_row aurow_execution_id (ea_execution_id (aa_execution_authorization c))
      (authority_authorizations d) = Some r" "aurow_state r = AUTH_ISSUED" "aurow_authorization r = c"
    "t < ea_expires_at (aa_execution_authorization c)"
  using assms by (auto simp: validate_authorization_def Let_def require_admissible_def split: option.splits)

lemma admit_new_InrE:
  assumes "admit_new ids q d = Inr (e, d')" "system_inv d" "admission_guard q = None"
  obtains w where "admissible q w d" "write_begun q (ids 0) w e d'" "system_change\<^sup>*\<^sup>* d d'"
    "e = admission_envelope q (ids 6) (ids 0) (started_lease q)"
    "version_counter d' (wi_workflow_id (aq_intent q)) = counter (wi_workflow_version (aq_intent q))"
proof -
  let ?i = "aq_intent q" let ?x = "ea_execution_id (aq_execution q)"
  note inv = assms(2) [unfolded system_inv_def]
  note g = admission_guard_None [OF assms(3)]
  from assms(1) obtain p w d1 l d2 d3 d4 where va: "validate_authorization (aq_authorization q) (aq_admitted_at q) d = None"
    and p: "admission_workflow (wi_workflow_id ?i) d = Inr p" and vw: "validate_workflow p q = None"
    and free: "lease (aq_scope q) (wi_configuration_key ?i) d = None"
    and s1: "advance_workflow ids q p d = Inr (w, d1)"
    and s2: "create_started_lease (shift_supply 2 ids) q (ids 0) d1 = Inr (l, d2)"
    and s3: "insert_intent ?i d2 = Inr d3" and s4: "consume_authorization (ids 5) q d3 = Inr d4"
    and s5: "record_envelope (shift_supply 6 ids) q (ids 0) (wr_state p) w l d4 = Inr (e, d')"
    by (auto simp: admit_new_def checked_Inr_iff attempt_Inr_iff split: if_splits)
  have plook: "lookup_row wr_workflow_id (wi_workflow_id ?i) (workflow_records d) = Some p"
    using p by (auto simp: admission_workflow_def split: option.splits)
  note pD = lookup_row_SomeD [OF plook]
  have pv: "wr_state p = AWAITING_AUTHORIZATION" "wr_workflow_version p = ea_expected_workflow_version (aq_execution q)"
    "wr_configuration_key p = ea_configuration_key (aq_execution q)" "wr_proposal_digest p = wi_request_digest ?i"
    using vw by (simp_all add: validate_workflow_def require_admissible_def)
  obtain e1 where w: "w = executing_workflow q (ids 0) p" and c1: "workflow_change d d1"
    and d1: "d1 = d\<lparr>workflow_records := replace_workflow w (workflow_records d),
       workflow_commands := workflow_commands d @ [admission_command q (ids 0)],
       workflow_audit_events := workflow_audit_events d @ [e1]\<rparr>"
    using s1 inv pD pv g by (auto elim!: advance_workflow_InrE)
  have free1: "lease (aq_scope q) (wi_configuration_key ?i) d1 = None" using free by (simp add: d1 lease_def)
  obtain l1 l2 l3 where l: "l = started_lease q"
    and tok: "wi_fencing_token ?i = last_token d1 (aq_scope q, wi_configuration_key ?i) + 1"
    and c2: "lease_change\<^sup>*\<^sup>* d1 d2" and held: "lease (aq_scope q) (wi_configuration_key ?i) d2 = Some l"
    and log: "lease_event_log d2 = lease_event_log d1 @ [l1, l2, l3]"
    and acq: "le_event_type l2 = ACQUIRED" "le_lease_id l2 = cl_lease_id l" "le_fencing_token l2 = cl_fencing_token l"
    using s2 free1 by (rule create_started_lease_InrE)
  have f2: "same_workflow_tables d1 d2" "same_approval_tables d1 d2" "same_recon_tables d1 d2"
    "admission_envelopes d2 = admission_envelopes d1" using lease_changes_frame [OF c2] by simp_all
  from s3 have d3: "d3 = d2\<lparr>reconciliation_intents := reconciliation_intents d2 @ [?i]\<rparr>"
    and c3: "recon_change d2 d3" by (auto simp: insert_intent_Inr_iff intro: recon_change.intended)
  obtain r where r: "lookup_row aurow_execution_id ?x (authority_authorizations d) = Some r"
    "aurow_state r = AUTH_ISSUED" "aurow_authorization r = aq_authorization q"
    "aq_admitted_at q < ea_expires_at (aq_execution q)"
    using va unfolding aq_execution_def by (rule validate_authorization_None)
  have r3: "lookup_row aurow_execution_id ?x (authority_authorizations d3) = Some r"
    using r(1) f2 by (simp add: d3 d1 same_approval_tables_def)
  have a3: "approval_inv d3"
    using inv f2 inv_congs(2) [of d d3] by (simp add: d3 d1 same_approval_tables_def)
  note c4 = consume_authorization_InrE [OF s4 a3 r3 r(2)]
  note f4 = approval_change_frame [OF c4(1)]
  let ?row = "\<lparr>enrow_idempotency_key = aq_idempotency_key q, enrow_envelope = e\<rparr>"
  obtain a1 a2 where e: "e = admission_envelope q (ids 6) (ids 0) l"
    and ins: "insert_envelope ?row d4 = Inr (d4\<lparr>admission_envelopes := admission_envelopes d4 @ [?row]\<rparr>)"
    and d': "d' = d4\<lparr>admission_envelopes := admission_envelopes d4 @ [?row],
                workflow_audit_events := workflow_audit_events d4 @ [a1, a2]\<rparr>"
    using s5 by (auto simp: Let_def shift_supply_def elim!: record_envelope_InrE)
  have int4: "?i \<in> set (reconciliation_intents d4)" using f4 by (simp add: d3 same_recon_tables_def)
  have cmd4: "admission_command q (ids 0) \<in> set (workflow_commands d4)"
    using f4 f2 by (simp add: d3 d1 same_workflow_tables_def)
  have log4: "l2 \<in> set (lease_event_log d4)" using f4 log by (simp add: d3 same_lease_tables_def)
  have fields: "enrow_envelope ?row = e" "env_intent_id e = wi_intent_id ?i" "env_execution_id e = ?x"
    "env_operation_id e = wi_operation_id ?i" "env_lease_id e = wi_lease_id ?i"
    "env_fencing_token e = wi_fencing_token ?i" "env_command_id e = ids 0" "env_workflow_id e = wi_workflow_id ?i"
    by (simp_all add: e l admission_envelope_def started_lease_def held_lease_def)
  have bk: "backed ?row d4" unfolding backed_def Let_def fields
  proof (intro conjI)
    show "\<exists>i\<in>set (reconciliation_intents d4). wi_intent_id i = wi_intent_id ?i \<and> wi_execution_id i = ?x
        \<and> wi_operation_id i = wi_operation_id ?i \<and> wi_lease_id i = wi_lease_id ?i
        \<and> wi_fencing_token i = wi_fencing_token ?i"
      using int4 g(2) by (intro bexI [of _ ?i]) simp_all
    show "\<exists>c\<in>set (workflow_commands d4). ic_command_id c = ids 0 \<and> ic_workflow_id c = wi_workflow_id ?i
        \<and> ic_command_name c = ADMISSION_COMMAND"
      using cmd4 by (rule rev_bexI) (simp add: admission_command_def ADMISSION_COMMAND_def)
    show "\<exists>x\<in>set (lease_event_log d4). le_event_type x = ACQUIRED \<and> le_lease_id x = wi_lease_id ?i
        \<and> le_fencing_token x = wi_fencing_token ?i"
      using log4 acq by (intro bexI [of _ l2]) (simp_all add: l started_lease_def held_lease_def)
  qed (rule c4(2))
  define d5 where "d5 = d4\<lparr>admission_envelopes := admission_envelopes d4 @ [?row]\<rparr>"
  define d6 where "d6 = d5\<lparr>workflow_audit_events := workflow_audit_events d5 @ [a1]\<rparr>"
  have c5: "system_change d4 d5" unfolding d5_def
    using ins bk by (intro system_change.by_envelope) (auto simp: insert_envelope_Inr_iff)
  have c6: "system_change d5 d6" unfolding d6_def by (intro system_change.by_workflow workflow_change.audited)
  have "d' = d6\<lparr>workflow_audit_events := workflow_audit_events d6 @ [a2]\<rparr>" by (simp add: d' d6_def d5_def)
  then have c7: "system_change d6 d'" by (auto intro: system_change.by_workflow workflow_change.audited)
  have "system_change\<^sup>*\<^sup>* d d2"
    using system_change.by_workflow [OF c1] lease_changes_system [OF c2] by (rule converse_rtranclp_into_rtranclp)
  also have "system_change d2 d3" using c3 by (rule system_change.by_evidence)
  also have "system_change d3 d4" using c4(1) by (rule system_change.by_approval)
  also note c5 also note c6 also note c7
  finally have steps: "system_change\<^sup>*\<^sup>* d d'" .
  have wid: "wr_workflow_id w = wi_workflow_id ?i" using pD by (simp add: w executing_workflow_def)
  have wf': "lookup_row wr_workflow_id (wi_workflow_id ?i) (workflow_records d') = Some w"
    using f4 f2 plook wid by (simp add: d' d3 d1 same_workflow_tables_def lookup_replace_workflow)
  have "lease (aq_scope q) (wi_configuration_key ?i) d' = Some l"
    using held f4 by (simp add: d' d3 lease_def same_lease_tables_def)
  then have begun: "write_begun q (ids 0) p e d'"
    using wf' w l int4 cmd4 c4(2) by (simp add: write_begun_def d' admitted_def)
  have "last_token d1 s = last_token d s" for s by (simp add: d1 last_token_def)
  then have "admissible q p d" using plook pv r free tok by (simp add: admissible_def)
  moreover have "version_counter d' (wi_workflow_id ?i) = counter (wi_workflow_version ?i)"
    using wf' by (simp add: version_counter_def w executing_workflow_def)
  ultimately show thesis using begun steps e l by (intro that [of p]) simp_all
qed

lemma admit_steps:
  assumes "admit_and_begin_write ids q d = (r, d')" "system_inv d"
  shows "system_change\<^sup>*\<^sup>* d d'"
proof (cases r)
  case (Inl e)
  with assms show ?thesis by (simp add: admit_and_begin_write_def transaction_Inl_iff)
next
  case (Inr e)
  with assms have "d' = d \<or> admission_guard q = None \<and> admit_new ids q d = Inr (e, d')"
    by (auto simp: admit_and_begin_write_def transaction_Inr_iff checked_Inr_iff Let_def
        split: option.splits if_splits)
  then show ?thesis using assms(2) by (auto elim: admit_new_InrE)
qed

section \<open>The system as a machine\<close>

datatype system_command =
    LeaseOp lease_command
  | WorkflowOp workflow_command
  | ApprovalOp approval_command
  | ReconciliationOp reconciliation_command
  | AdmitOp id_supply admission_request

fun system_step :: "db \<Rightarrow> system_command \<Rightarrow> db" where
  "system_step d (LeaseOp c) = lease_step d c"
| "system_step d (WorkflowOp c) = workflow_step d c"
| "system_step d (ApprovalOp c) = approval_step d c"
| "system_step d (ReconciliationOp c) = reconciliation_step d c"
| "system_step d (AdmitOp ids q) =
     (case build_record WriteAheadIntent_post_init (aq_intent q) of
        Inl e \<Rightarrow> d | Inr i \<Rightarrow> snd (admit_and_begin_write ids q d))"

lemma system_step_changes: "system_inv d \<Longrightarrow> system_change\<^sup>*\<^sup>* d (system_step d c)"
proof (cases c)
  case (LeaseOp c)
  then show ?thesis by (simp add: lease_changes_system [OF lease_step_changes])
next
  case (WorkflowOp c)
  moreover assume "system_inv d"
  ultimately show ?thesis using workflow_step_change [of d c]
    by (auto simp: system_inv_def intro: system_change.by_workflow)
next
  case (ApprovalOp c)
  moreover assume "system_inv d"
  ultimately show ?thesis using approval_step_change [of d c]
    by (auto simp: system_inv_def intro: system_change.by_approval)
next
  case (ReconciliationOp c)
  then show ?thesis using reconciliation_step_change [of d c] by (auto intro: system_change.by_evidence)
next
  case (AdmitOp ids q)
  moreover assume "system_inv d"
  ultimately show ?thesis using admit_steps [OF surjective_pairing, of d ids q]
    by (auto simp: build_record_def split: option.splits)
qed

lemma system_step_keeps:
  assumes "system_inv d"
  shows "system_inv (system_step d c)" "evidence_grows d (system_step d c)"
    "prefix (admission_envelopes d) (admission_envelopes (system_step d c))"
proof -
  note steps = system_step_changes [OF assms, of c]
  show "system_inv (system_step d c)" using steps assms by (rule system_changes_inv)
  show e: "evidence_grows d (system_step d c)" using steps by (rule system_changes_evidence)
  then show "prefix (admission_envelopes d) (admission_envelopes (system_step d c))"
    by (simp add: evidence_grows_def)
qed

interpretation system_machine: append_only_machine system_step system_inv admission_envelopes
  by unfold_locales (auto intro: system_step_keeps)

interpretation system_tokens: monotone_counter system_step system_inv last_token
  using system_step_changes by unfold_locales (blast dest: system_changes_counters)

interpretation system_versions: monotone_counter system_step system_inv version_counter
  using system_step_changes by unfold_locales (blast dest: system_changes_counters)

lemma system_run_evidence: "system_inv d \<Longrightarrow> evidence_grows d (run_ops system_step d cs)"
proof (induction cs arbitrary: d)
  case (Cons c cs)
  then show ?case
    using system_step_keeps [of d c] by (auto intro: evidence_grows_trans)
qed simp

section \<open>Sample arguments\<close>

definition sample_admission :: admission_request where
  "sample_admission = \<lparr>aq_authorization = sample_authorization, aq_intent = sample_intent 1,
     aq_scope = sample_scope, aq_owner_instance_id = sample_uuid 2, aq_lease_expires_at = sample_time 20 0,
     aq_idempotency_key = ''admit'', aq_admitted_at = sample_time 2 0, aq_evidence_reference = ''evidence''\<rparr>"

definition sample_admitted :: db where
  "sample_admitted = snd (admit_and_begin_write (sample_ids 200) sample_admission sample_approved)"

lemma system_inv_sample_db [simp]: "0 \<le> n \<Longrightarrow> system_inv (sample_db st n)"
  by (simp add: system_inv_def) (simp add: recon_inv_def envelope_inv_def sample_db_def empty_db_def)

lemma system_inv_samples [simp]: "system_inv sample_approved" "system_inv sample_admitted"
proof -
  have "sample_approved = run_ops system_step (sample_db AWAITING_AUTHORIZATION 2)
      [ApprovalOp (CreateRequest sample_request), ApprovalOp sample_approve]"
    by (simp add: sample_approved_def sample_requested_def sample_waiting_def)
  then show 1: "system_inv sample_approved" using system_machine.run_inv by (metis system_inv_sample_db zero_le_numeral)
  show "system_inv sample_admitted"
    using system_changes_inv [OF admit_steps [OF surjective_pairing 1] 1] by (simp add: sample_admitted_def)
qed

section \<open>Properties\<close>

text \<open>C1: the write admission is atomic and sound.  For a fresh idempotency key, an admission
  that fails changes nothing.  One that returns found the workflow awaiting authorization
  under the bindings of the authorization, the authorization stored, issued and unexpired, the
  scope free and the intent's token the next one of the scope; and it leaves, together, the
  workflow executing under the next version with its command, the scope leased with the
  atomic call started, the intent committed, the authorization admitted and the envelope
  recorded.\<close>

theorem admission_atomic_and_sound:
  assumes "system_inv d" and "admit_and_begin_write ids q d = (r, d')"
    and "lookup_row envelope_key (wi_workflow_id (aq_intent q), aq_idempotency_key q) (admission_envelopes d) = None"
  shows "case r of Inl _ \<Rightarrow> d' = d
    | Inr e \<Rightarrow> \<exists>w. admissible q w d \<and> write_begun q (ids 0) w e d'
        \<and> version_counter d' (wi_workflow_id (aq_intent q)) = version_counter d (wi_workflow_id (aq_intent q)) + 1"
proof (cases r)
  case (Inl e)
  with assms(2) show ?thesis by (simp add: admit_and_begin_write_def transaction_Inl_iff)
next
  case (Inr e)
  with assms(2,3) have g: "admission_guard q = None" and a: "admit_new ids q d = Inr (e, d')"
    by (auto simp: admit_and_begin_write_def transaction_Inr_iff checked_Inr_iff)
  from a assms(1) g obtain w where "admissible q w d" "write_begun q (ids 0) w e d'"
    "version_counter d' (wi_workflow_id (aq_intent q)) = counter (wi_workflow_version (aq_intent q))"
    by (rule admit_new_InrE)
  with Inr admission_guard_None(3) [OF g] show ?thesis
    by (auto simp: admissible_def version_counter_def)
qed

theorem admission_atomic_and_sound_witness:
  "\<exists>w e. admissible sample_admission w sample_approved \<and> write_begun sample_admission (sample_uuid 200) w e sample_admitted"
proof -
  let ?r = "admit_and_begin_write (sample_ids 200) sample_admission sample_approved"
  have a: "\<not> isl (fst ?r)" and n: "lookup_row envelope_key
      (wi_workflow_id (aq_intent sample_admission), aq_idempotency_key sample_admission)
      (admission_envelopes sample_approved) = None" by code_simp+
  from admission_atomic_and_sound [OF system_inv_samples(1) call_returned [OF a] n]
  show ?thesis by (auto simp: sample_admitted_def sample_ids_def)
qed

text \<open>C10: one write per authorization.  After any interleaving of the operations of all
  stores, an authorization has at most one admission envelope; the envelope's authorization
  has been admitted, its command is recorded, its fencing token was granted with its lease,
  and its intent is committed with the same execution, operation, lease and token.\<close>

theorem envelopes_unique_and_backed:
  assumes "system_inv d" and "r \<in> set (admission_envelopes (run_ops system_step d cs))"
  shows "backed r (run_ops system_step d cs)
    \<and> (\<forall>r' \<in> set (admission_envelopes (run_ops system_step d cs)).
         env_execution_id (enrow_envelope r') = env_execution_id (enrow_envelope r) \<longrightarrow> r' = r)"
  using system_machine.run_inv [OF assms(1), of cs] assms(2)
    unique_keyD [of "env_of env_execution_id" "admission_envelopes (run_ops system_step d cs)" _ r]
  by (auto simp: system_inv_def envelope_inv_def env_of_def)

theorem envelopes_unique_and_backed_witness:
  "\<exists>r \<in> set (admission_envelopes (run_ops system_step sample_admitted [])).
     backed r (run_ops system_step sample_admitted [])"
proof -
  have "admission_envelopes (run_ops system_step sample_admitted []) \<noteq> []" by code_simp
  then have r: "hd (admission_envelopes (run_ops system_step sample_admitted []))
      \<in> set (admission_envelopes (run_ops system_step sample_admitted []))" by (rule list.set_sel(1))
  from envelopes_unique_and_backed [OF system_inv_samples(2) r] r show ?thesis by blast
qed

text \<open>An admission replays.  Repeating a write admission that has returned, after any
  interleaving of store operations, returns the same envelope and changes nothing; in
  particular it grants no second lease and consumes no second authorization.\<close>

theorem admission_replays:
  assumes "system_inv d" and "admit_and_begin_write ids q d = (Inr e, d1)"
  shows "admit_and_begin_write ids' q (run_ops system_step d1 cs) = (Inr e, run_ops system_step d1 cs)"
proof -
  let ?d = "run_ops system_step d1 cs"
  let ?k = "(wi_workflow_id (aq_intent q), aq_idempotency_key q)"
  let ?row = "\<lparr>enrow_idempotency_key = aq_idempotency_key q, enrow_envelope = e\<rparr>"
  from assms(2) have g: "admission_guard q = None"
    by (auto simp: admit_and_begin_write_def transaction_Inr_iff checked_Inr_iff)
  have inv1: "system_inv d1" using system_changes_inv [OF admit_steps [OF assms(2,1)] assms(1)] .
  have "\<exists>r \<in> set (admission_envelopes d1). envelope_key r = ?k \<and> enrow_envelope r = e
     \<and> env_request_digest e = wi_request_digest (aq_intent q) \<and> env_execution_id e = ea_execution_id (aq_execution q)
     \<and> env_intent_id e = wi_intent_id (aq_intent q)"
  proof (cases "lookup_row envelope_key ?k (admission_envelopes d)")
    case None
    with assms(2) have "admit_new ids q d = Inr (e, d1)"
      by (auto simp: admit_and_begin_write_def transaction_Inr_iff checked_Inr_iff)
    from this assms(1) g show ?thesis
      by (cases rule: admit_new_InrE)
        (auto simp: write_begun_def envelope_key_def admission_envelope_def intro!: bexI [of _ ?row])
  next
    case (Some r)
    with assms(2) lookup_row_SomeD [OF Some] show ?thesis
      by (auto simp: admit_and_begin_write_def transaction_Inr_iff checked_Inr_iff Let_def split: if_splits)
  qed
  then obtain r where r: "r \<in> set (admission_envelopes d1)" "envelope_key r = ?k" "enrow_envelope r = e"
     "env_request_digest e = wi_request_digest (aq_intent q)" "env_execution_id e = ea_execution_id (aq_execution q)"
     "env_intent_id e = wi_intent_id (aq_intent q)" by blast
  have "r \<in> set (admission_envelopes ?d)" by (rule system_machine.run_log_member [OF inv1 r(1)])
  moreover have "unique_key envelope_key (admission_envelopes ?d)"
    using system_machine.run_inv [OF inv1] by (simp add: system_inv_def envelope_inv_def)
  ultimately have "lookup_row envelope_key ?k (admission_envelopes ?d) = Some r"
    using r(2) lookup_row_unique by metis
  with g r show ?thesis by (simp add: admit_and_begin_write_def transaction_def)
qed

theorem admission_replays_witness:
  "snd (admit_and_begin_write (sample_ids 300) sample_admission (run_ops system_step sample_admitted []))
     = run_ops system_step sample_admitted []"
proof -
  have "\<not> isl (fst (admit_and_begin_write (sample_ids 200) sample_admission sample_approved))" by code_simp
  from admission_replays [OF system_inv_samples(1) call_returned [OF this], of "sample_ids 300" "[]"]
  show ?thesis by (simp add: sample_admitted_def)
qed

text \<open>C33: the guarantees of the single stores survive every interleaving.  After any run of
  operations of all stores, the tokens granted in each scope, by the lease store or by a write
  admission, strictly increase; every workflow's commands form an unbroken chain to its current
  version and state; and an authorization is in use exactly when one admission admitted it.\<close>

theorem store_guarantees_compose:
  assumes "system_inv d"
  shows "sorted_wrt (<) (acquired_tokens (run_ops system_step d cs) s)
    \<and> (\<forall>w \<in> set (workflow_records (run_ops system_step d cs)).
         history_ok (wr_workflow_version w) (wr_state w) (history (wr_workflow_id w) (run_ops system_step d cs)))
    \<and> (\<forall>r \<in> set (authority_authorizations (run_ops system_step d cs)).
         in_use (aurow_state r) = admitted (aurow_execution_id r) (run_ops system_step d cs))"
  using system_machine.run_inv [OF assms, of cs] lease_inv_tokens [of "run_ops system_step d cs" s]
  by (simp add: system_inv_def workflow_inv_def approval_inv_def)

theorem store_guarantees_compose_witness:
  "sorted_wrt (<) (acquired_tokens (run_ops system_step sample_approved [AdmitOp (sample_ids 200) sample_admission])
     (sample_scope, sample_key))"
  using store_guarantees_compose [OF system_inv_samples(1)] by blast

text \<open>A moving workflow strands its lease.  Once the version of a workflow has passed the
  version its lease was granted under, every holder operation on that lease, in this and in
  every later state where the lease is still current, is rejected: it can be neither finished
  nor released, although the specification keeps one envelope over writing, calculation and
  verification, each of which is a new workflow version.\<close>

theorem workflow_move_strands_lease:
  assumes "system_inv d" and "counter (cl_workflow_version l) < version_counter d (cl_workflow_id l)"
    and "l \<in> set (context_leases (run_ops system_step d cs))"
    and "claim_of cmd = Some c" and "hc_lease_id c = cl_lease_id l"
  shows "only_rejected c (run_ops system_step d cs) (lease_step (run_ops system_step d cs) cmd)"
proof -
  let ?d = "run_ops system_step d cs"
  have inv: "lease_inv ?d" using system_machine.run_inv [OF assms(1), of cs] by (simp add: system_inv_def)
  have "counter (cl_workflow_version l) < version_counter ?d (cl_workflow_id l)"
    using assms(2) system_versions.run_counter_mono [OF assms(1), of "cl_workflow_id l" cs] by simp
  then have "assert_workflow_version (cl_workflow_id l) (cl_workflow_version l) ?d \<noteq> None"
    by (auto simp: assert_workflow_version_None_iff version_counter_def)
  then have "\<not> holds_lease m c ?d" if "m \<in> set (context_leases ?d)" for m
  proof (cases "cl_lease_id m = cl_lease_id l")
    case True
    with that assms(3) inv have "m = l"
      by (auto simp: lease_inv_def intro: unique_keyD [of cl_lease_id "context_leases ?d"])
    with \<open>assert_workflow_version _ _ _ \<noteq> None\<close> show ?thesis by (simp add: holds_lease_def)
  next
    case False
    with assms(5) show ?thesis by (simp add: holds_lease_def)
  qed
  then show ?thesis
    using assms(4) stale_claim_rejection by blast
qed

definition sample_calculating :: db where
  "sample_calculating = system_step sample_admitted (WorkflowOp (Transition (sample_ids 400)
     (sample_transition ''start_calculation'' ''calculate'' 3 CALCULATING)))"

definition sample_holder :: holder_claim where
  "sample_holder = (sample_claim 23 1 3)\<lparr>hc_workflow_version := sample_version 3\<rparr>"

theorem workflow_move_strands_lease_witness:
  "only_rejected sample_holder (run_ops system_step sample_calculating [])
     (lease_step (run_ops system_step sample_calculating [])
       (FinishAtomicCall (sample_ids 410) sample_holder (sample_uuid 22) sample_evidence))"
proof (rule workflow_move_strands_lease)
  show "system_inv sample_calculating" unfolding sample_calculating_def by (rule system_step_keeps) simp
  show "counter (cl_workflow_version (started_lease sample_admission))
      < version_counter sample_calculating (cl_workflow_id (started_lease sample_admission))" by code_simp
  have "find (\<lambda>l. cl_lease_id l = sample_uuid 23) (context_leases sample_calculating)
     = Some (started_lease sample_admission)" by code_simp
  then show "started_lease sample_admission \<in> set (context_leases (run_ops system_step sample_calculating []))"
    by (auto simp: find_Some_iff)
  show "hc_lease_id sample_holder = cl_lease_id (started_lease sample_admission)" by code_simp
qed simp

end
