(* ===== verification/Serialization.thy ===== *)
theory Serialization
  imports Json
begin

text \<open>
  \<open>serialization.py\<close>: the conversion of domain values to JSON trees, their
  canonical text and digest, and the decoding of a tree against a type annotation.
  A Python value is a \<open>py_value\<close>; an instance of an admitted domain class is
  \<open>PyModel\<close> with its class name and its fields in order.  The domain classes
  themselves are an argument of the decoder, a \<open>class_table\<close>; so is
  \<open>datetime.fromisoformat\<close>.  Unicode NFC normalisation is the identity on code
  points below 256, the characters of this development.
\<close>

section \<open>Values and errors\<close>

datatype dec_value = Dec int int | DecSpecial

datatype py_value =
    PyNone | PyBool bool | PyEnum string | PyStr string | PyInt int | PyFloat
  | PyDecimal dec_value | PyDatetime datetime
  | PyModel string "(string \<times> py_value) list"
  | PyTuple "py_value list"
  | PyMap "(string option \<times> py_value) list"
  | PyOther string

datatype ser_error = SerializationError string | DomainError error

fun error_text :: "ser_error \<Rightarrow> string" where
  "error_text (SerializationError m) = m"
| "error_text (DomainError (ValueError m)) = m"
| "error_text (DomainError (TypeError m)) = m"

definition MAX_SERIALIZED_BYTES :: nat where "MAX_SERIALIZED_BYTES = 1048576"

section \<open>Decimal and timestamp text\<close>

definition nfc :: "string \<Rightarrow> string" where
  "nfc s = s"

definition strip_right :: "char \<Rightarrow> string \<Rightarrow> string" where
  "strip_right c s = rev (dropWhile (\<lambda>x. x = c) (rev s))"

text \<open>\<open>format(value, "f")\<close> of a coefficient and an exponent.\<close>

definition decimal_fixed :: "int \<Rightarrow> int \<Rightarrow> string" where
  "decimal_fixed c e =
     (if c < 0 then ''-'' else []) @
     (if 0 \<le> e then nat_str (nat \<bar>c\<bar> * 10 ^ nat e)
      else nat_str (nat \<bar>c\<bar> div 10 ^ nat (- e)) @ CHR ''.'' # pad (nat (- e)) (nat \<bar>c\<bar> mod 10 ^ nat (- e)))"

text \<open>\<open>_DECIMAL_RE.fullmatch\<close>.\<close>

definition decimal_re :: "string \<Rightarrow> bool" where
  "decimal_re s \<longleftrightarrow>
     (let u = (if starts_with ''-'' s then tl s else s);
          ip = takeWhile is_json_digit u; r = drop (length ip) u
      in ip \<noteq> [] \<and> (ip = ''0'' \<or> \<not> starts_with ''0'' ip)
         \<and> (r = [] \<or> starts_with ''.'' r \<and> tl r \<noteq> [] \<and> list_all is_json_digit (tl r)))"

definition decimal_primitive :: "dec_value \<Rightarrow> ser_error + json" where
  "decimal_primitive d = (case d of
      DecSpecial \<Rightarrow> Inl (SerializationError ''non-finite decimal values are not serializable'')
    | Dec c e \<Rightarrow>
        if c = 0 then Inr (JStr ''0'')
        else (let t = decimal_fixed c e;
                  u = (if CHR ''.'' \<in> set t then strip_right (CHR ''.'') (strip_right (CHR ''0'') t) else t)
              in if \<not> decimal_re u then Inl (SerializationError ''decimal cannot be represented canonically'')
                 else Inr (JStr u)))"

definition iso_micro :: "datetime \<Rightarrow> string" where
  "iso_micro t =
     pad 4 (dt_year t) @ ''-'' @ pad 2 (dt_month t) @ ''-'' @ pad 2 (dt_day t) @ ''T''
     @ pad 2 (dt_hour t) @ '':'' @ pad 2 (dt_minute t) @ '':'' @ pad 2 (dt_second t)
     @ ''.'' @ pad 6 (dt_micro t) @ ''Z''"

section \<open>to_primitive\<close>

fun collect :: "('e + 'a) list \<Rightarrow> 'e + 'a list" where
  "collect [] = Inr []"
| "collect (x # xs) = attempt x (\<lambda>y. attempt (collect xs) (\<lambda>ys. Inr (y # ys)))"

text \<open>The loop over the items of a mapping, whose keys have been converted to text.\<close>

fun collect_items :: "string list \<Rightarrow> (string \<times> (ser_error + json)) list \<Rightarrow> ser_error + (string \<times> json) list" where
  "collect_items seen [] = Inr []"
| "collect_items seen ((k, x) # m) =
     (if nfc k \<in> set seen
      then Inl (SerializationError ''Unicode NFC normalization creates a duplicate object key'')
      else attempt x (\<lambda>y. attempt (collect_items (nfc k # seen) m) (\<lambda>ys. Inr ((nfc k, y) # ys))))"

fun to_primitive :: "py_value \<Rightarrow> ser_error + json" where
  "to_primitive PyNone = Inr JNull"
| "to_primitive (PyBool b) = Inr (JBool b)"
| "to_primitive (PyEnum v) = Inr (JStr (nfc v))"
| "to_primitive (PyStr s) = Inr (JStr (nfc s))"
| "to_primitive (PyInt i) = Inr (JInt i)"
| "to_primitive PyFloat =
     Inl (SerializationError ''JSON floating-point values are forbidden; use Decimal-backed Quantity'')"
| "to_primitive (PyDecimal d) = decimal_primitive d"
| "to_primitive (PyDatetime t) =
     checked (map_option DomainError (require_aware t ''datetime'')) (Inr (JStr (iso_micro t)))"
| "to_primitive (PyModel c fs) =
     attempt (collect (map (\<lambda>(n, v). attempt (to_primitive v) (\<lambda>j. Inr (n, j))) fs)) (\<lambda>kvs. Inr (JObj kvs))"
| "to_primitive (PyTuple xs) =
     (if length xs > MAX_COLLECTION_LENGTH
      then Inl (SerializationError ''collection exceeds the domain boundary limit'')
      else attempt (collect (map to_primitive xs)) (\<lambda>js. Inr (JArr js)))"
| "to_primitive (PyMap m) =
     (if length m > MAX_COLLECTION_LENGTH
      then Inl (SerializationError ''mapping exceeds the domain boundary limit'')
      else if list_ex (\<lambda>(k, v). k = None) m
      then Inl (SerializationError ''JSON object keys must be strings'')
      else attempt (collect_items [] (map (\<lambda>(k, v). (case k of Some t \<Rightarrow> t | None \<Rightarrow> [], to_primitive v)) m))
             (\<lambda>kvs. Inr (JObj kvs)))"
| "to_primitive (PyOther name) = Inl (SerializationError (''unsupported boundary type: '' @ name))"

section \<open>Canonical text and digest\<close>

definition utf8_length :: "string \<Rightarrow> nat" where
  "utf8_length s = sum_list (map (\<lambda>c. if (of_char c :: nat) < 128 then 1 else 2) s)"

definition payload_exceeds :: "nat \<Rightarrow> ser_error" where
  "payload_exceeds m = SerializationError (''serialized payload exceeds '' @ nat_str m @ '' bytes'')"

definition canonical_json :: "nat \<Rightarrow> py_value \<Rightarrow> ser_error + string" where
  "canonical_json maximum v =
     (if maximum < 1 then Inl (DomainError (ValueError ''maximum_bytes must be positive''))
      else attempt (to_primitive v) (\<lambda>j.
        let t = json_dumps j in
        if utf8_length t > maximum then Inl (payload_exceeds maximum) else Inr t))"

definition token_part_ok :: "string \<Rightarrow> bool" where
  "token_part_ok k \<longleftrightarrow> k \<noteq> [] \<and> is_lower (hd k)
     \<and> list_all (\<lambda>c. is_lower c \<or> is_digit c \<or> c = CHR ''.'' \<or> c = CHR ''-'') (tl k)"

definition digest_envelope :: "string \<Rightarrow> string \<Rightarrow> py_value \<Rightarrow> py_value" where
  "digest_envelope kind schema v = PyMap
     [(Some ''canonicalization'', PyStr ''pf-agent-canonical-json/v1''), (Some ''digest_kind'', PyStr kind),
      (Some ''digest_schema'', PyStr schema), (Some ''payload'', v)]"

definition canonical_digest :: "(string \<Rightarrow> string) \<Rightarrow> string \<Rightarrow> string \<Rightarrow> py_value \<Rightarrow> ser_error + string" where
  "canonical_digest sha256_hex kind schema v =
     (if \<not> token_part_ok kind \<or> \<not> token_part_ok schema
      then Inl (DomainError (ValueError ''digest kind and schema must be lowercase token components''))
      else attempt (canonical_json MAX_SERIALIZED_BYTES (digest_envelope kind schema v)) (\<lambda>t.
        Inr (kind @ '':'' @ schema @ '':sha256:'' @ sha256_hex t)))"

section \<open>Decoding against an annotation\<close>

datatype annotation =
    AStr | ABool | AInt | AFloat | ADecimal | ADatetime | ANone
  | AEnum string "string list" | AUnion "annotation list" | ATuple annotation | AModel string | AOther string

text \<open>The fields of an admitted class, with their annotations, and its \<open>__post_init__\<close>.\<close>

type_synonym class_table =
  "string \<Rightarrow> ((string \<times> annotation) list \<times> ((string \<times> py_value) list \<Rightarrow> error option)) option"

definition expand_z :: "string \<Rightarrow> string" where
  "expand_z s = concat (map (\<lambda>c. if c = CHR ''Z'' then ''+00:00'' else [c]) s)"

text \<open>\<open>Decimal(value)\<close> of a text that the pattern admits.\<close>

definition decimal_of :: "string \<Rightarrow> dec_value" where
  "decimal_of s =
     (let neg = starts_with ''-'' s; u = (if neg then tl s else s);
          ip = takeWhile is_json_digit u; f = drop (Suc (length ip)) u;
          n = int (decimal_value (ip @ f))
      in Dec (if neg then - n else n) (- int (length f)))"

definition must_be :: "string \<Rightarrow> string \<Rightarrow> ser_error" where
  "must_be path what = SerializationError (path @ what)"

definition field_names :: "(string \<times> 'a) list \<Rightarrow> string list" where
  "field_names m = map fst m"

definition missing_fields :: "(string \<times> 'a) list \<Rightarrow> (string \<times> 'b) list \<Rightarrow> bool" where
  "missing_fields fs kvs \<longleftrightarrow> set (field_names kvs) \<noteq> set (field_names fs)"

fun join_text :: "string \<Rightarrow> string list \<Rightarrow> string" where
  "join_text sep [] = []"
| "join_text sep [x] = x"
| "join_text sep (x # y # zs) = x @ sep @ join_text sep (y # zs)"

lemma size_member: "map_of kvs n = Some x \<Longrightarrow> size x < size (JObj kvs)"
  by (drule map_of_SomeD) (induction kvs, auto)

function decode_value :: "(string \<Rightarrow> datetime option) \<Rightarrow> class_table \<Rightarrow> annotation \<Rightarrow> json \<Rightarrow> string \<Rightarrow> ser_error + py_value"
and decode_any :: "(string \<Rightarrow> datetime option) \<Rightarrow> class_table \<Rightarrow> annotation list \<Rightarrow> json \<Rightarrow> string
    \<Rightarrow> string list \<Rightarrow> ser_error + py_value"
and decode_items :: "(string \<Rightarrow> datetime option) \<Rightarrow> class_table \<Rightarrow> annotation \<Rightarrow> json list \<Rightarrow> string
    \<Rightarrow> nat \<Rightarrow> ser_error + py_value list"
and decode_fields :: "(string \<Rightarrow> datetime option) \<Rightarrow> class_table \<Rightarrow> (string \<times> annotation) list
    \<Rightarrow> (string \<times> json) list \<Rightarrow> string \<Rightarrow> ser_error + (string \<times> py_value) list" where
  "decode_value fi C a j path = (case a of
      AUnion as \<Rightarrow> decode_any fi C as j path []
    | ATuple b \<Rightarrow> (case j of JArr xs \<Rightarrow>
          if length xs > MAX_COLLECTION_LENGTH then Inl (must_be path '' exceeds the collection limit'')
          else attempt (decode_items fi C b xs path 0) (\<lambda>vs. Inr (PyTuple vs))
        | _ \<Rightarrow> Inl (must_be path '' must be a JSON array''))
    | ANone \<Rightarrow> (case j of JNull \<Rightarrow> Inr PyNone | _ \<Rightarrow> Inl (must_be path '' must be null''))
    | ADatetime \<Rightarrow> (case j of JStr s \<Rightarrow>
          (case fi (expand_z s) of None \<Rightarrow> Inl (must_be path '' is not a valid timestamp'')
           | Some t \<Rightarrow> checked (map_option DomainError (require_aware t path)) (Inr (PyDatetime t)))
        | _ \<Rightarrow> Inl (must_be path '' must be an RFC 3339 timestamp''))
    | ADecimal \<Rightarrow> (case j of JStr s \<Rightarrow>
          if decimal_re s then Inr (PyDecimal (decimal_of s))
          else Inl (must_be path '' must be a canonical non-exponent decimal string'')
        | _ \<Rightarrow> Inl (must_be path '' must be a canonical non-exponent decimal string''))
    | AEnum name values \<Rightarrow> (case j of JStr s \<Rightarrow>
          if s \<in> set values then Inr (PyEnum s) else Inl (must_be path ('' is not a valid '' @ name))
        | _ \<Rightarrow> Inl (must_be path ('' is not a valid '' @ name)))
    | AModel c \<Rightarrow> (case C c of
          None \<Rightarrow> Inl (must_be path '' is not an admitted domain model'')
        | Some (fs, post_init) \<Rightarrow> (case j of JObj kvs \<Rightarrow>
            if missing_fields fs kvs then Inl (must_be path '' field mismatch'')
            else attempt (decode_fields fi C fs kvs path) (\<lambda>vs.
              case post_init vs of None \<Rightarrow> Inr (PyModel c vs)
              | Some e \<Rightarrow> Inl (must_be path ('' failed domain validation: '' @ error_text (DomainError e))))
          | _ \<Rightarrow> Inl (must_be path '' must be a JSON object'')))
    | AStr \<Rightarrow> (case j of JStr s \<Rightarrow> Inr (PyStr s) | _ \<Rightarrow> Inl (must_be path '' must be a string''))
    | ABool \<Rightarrow> (case j of JBool b \<Rightarrow> Inr (PyBool b) | _ \<Rightarrow> Inl (must_be path '' must be a boolean''))
    | AInt \<Rightarrow> (case j of JInt i \<Rightarrow> Inr (PyInt i) | _ \<Rightarrow> Inl (must_be path '' must be an integer''))
    | AFloat \<Rightarrow> Inl (must_be path '' uses forbidden binary floating-point'')
    | AOther n \<Rightarrow> Inl (must_be path ('' uses unsupported annotation '' @ n)))"
| "decode_any fi C [] j path errors =
     Inl (must_be path ('' does not match any admitted union member: '' @ join_text ''; '' errors))"
| "decode_any fi C (a # as) j path errors = (case decode_value fi C a j path of
      Inr v \<Rightarrow> Inr v | Inl e \<Rightarrow> decode_any fi C as j path (errors @ [error_text e]))"
| "decode_items fi C a [] path i = Inr []"
| "decode_items fi C a (x # xs) path i =
     attempt (decode_value fi C a x (path @ ''['' @ nat_str i @ '']'')) (\<lambda>v.
     attempt (decode_items fi C a xs path (Suc i)) (\<lambda>vs. Inr (v # vs)))"
| "decode_fields fi C [] kvs path = Inr []"
| "decode_fields fi C ((n, a) # fs) kvs path =
     attempt (case map_of kvs n of None \<Rightarrow> Inl (must_be path '' field mismatch'')
              | Some x \<Rightarrow> decode_value fi C a x (path @ ''.'' @ n)) (\<lambda>v.
     attempt (decode_fields fi C fs kvs path) (\<lambda>vs. Inr ((n, v) # vs)))"
  by pat_completeness auto

termination
proof (relation "inv_image (less_than <*lex*> less_than <*lex*> less_than) (\<lambda>x. case x of
    Inl (Inl (fi, C, a, j, path)) \<Rightarrow> (size j, 1, size a)
  | Inl (Inr (fi, C, as, j, path, errors)) \<Rightarrow> (size j, 1, size_list size as)
  | Inr (Inl (fi, C, a, xs, path, i)) \<Rightarrow> (size_list size xs, 0, 0)
  | Inr (Inr (fi, C, fs, kvs, path)) \<Rightarrow> (size (JObj kvs), 0, length fs))", goal_cases)
qed (auto dest: size_member)

definition from_primitive :: "(string \<Rightarrow> datetime option) \<Rightarrow> class_table \<Rightarrow> string \<Rightarrow> json \<Rightarrow> ser_error + py_value" where
  "from_primitive fi C c j = decode_value fi C (AModel c) j c"

definition from_json :: "(string \<Rightarrow> datetime option) \<Rightarrow> class_table \<Rightarrow> string \<Rightarrow> nat \<Rightarrow> string \<Rightarrow> ser_error + py_value" where
  "from_json fi C c maximum payload =
     (if utf8_length payload > maximum then Inl (payload_exceeds maximum)
      else case json_loads payload of
        None \<Rightarrow> Inl (SerializationError ''payload is not valid JSON'')
      | Some j \<Rightarrow> from_primitive fi C c j)"

end
