(* ===== verification/Operation_Store.thy ===== *)
theory Operation_Store
  imports Serialization
begin

text \<open>
  \<open>persistence/operation_store.py\<close>: the durable records of the serialized gateway
  owner, in the table \<open>operation_records\<close> of \<open>persistence/database.py\<close>.  A row
  holds JSON text; \<open>operation_of\<close> is the code's \<open>_record\<close>, which decodes it.
  The clock (\<open>now\<close>) and the identifier \<open>uuid.uuid4()\<close> draws are arguments.
  Integers that do not fit SQLite's 64 bits raise when they are bound.
\<close>

section \<open>States and records\<close>

datatype operation_state =
    QUEUED | CANCELLED_BEFORE_START | IN_FLIGHT | CLIENT_TIMED_OUT | COMPLETED_OPERATION
  | COMPLETED_AFTER_CLIENT_TIMEOUT | FAILED_OPERATION | ENGINE_UNRESPONSIVE | RECONCILIATION_NEEDED

fun operation_state_value :: "operation_state \<Rightarrow> string" where
  "operation_state_value QUEUED = ''QUEUED''"
| "operation_state_value CANCELLED_BEFORE_START = ''CANCELLED_BEFORE_START''"
| "operation_state_value IN_FLIGHT = ''IN_FLIGHT''"
| "operation_state_value CLIENT_TIMED_OUT = ''CLIENT_TIMED_OUT''"
| "operation_state_value COMPLETED_OPERATION = ''COMPLETED''"
| "operation_state_value COMPLETED_AFTER_CLIENT_TIMEOUT = ''COMPLETED_AFTER_CLIENT_TIMEOUT''"
| "operation_state_value FAILED_OPERATION = ''FAILED''"
| "operation_state_value ENGINE_UNRESPONSIVE = ''ENGINE_UNRESPONSIVE''"
| "operation_state_value RECONCILIATION_NEEDED = ''RECONCILIATION_REQUIRED''"

definition TERMINAL_STATES :: "operation_state list" where
  "TERMINAL_STATES = [CANCELLED_BEFORE_START, COMPLETED_OPERATION, COMPLETED_AFTER_CLIENT_TIMEOUT,
     FAILED_OPERATION, RECONCILIATION_NEEDED]"

text \<open>The states of a call that has started and whose outcome is not recorded.\<close>

definition UNRESOLVED_STATES :: "operation_state list" where
  "UNRESOLVED_STATES = [IN_FLIGHT, CLIENT_TIMED_OUT, ENGINE_UNRESPONSIVE]"

record op_row =
  or_sequence :: nat
  or_operation_id :: string
  or_idempotency_key :: string
  or_handler_name :: string
  or_payload_json :: string
  or_state :: operation_state
  or_admitted_at_ns :: int
  or_queue_deadline_at_ns :: int
  or_client_deadline_at_ns :: int
  or_engine_health_threshold_ms :: int
  or_started_at_ns :: "int option"
  or_finished_at_ns :: "int option"
  or_result_json :: "string option"
  or_error_json :: "string option"
  or_version :: nat

record operation_record =
  op_sequence :: nat
  op_operation_id :: string
  op_idempotency_key :: string
  op_handler_name :: string
  op_payload :: json
  op_state :: operation_state
  op_admitted_at_ns :: int
  op_queue_deadline_at_ns :: int
  op_client_deadline_at_ns :: int
  op_engine_health_threshold_ms :: int
  op_started_at_ns :: "int option"
  op_finished_at_ns :: "int option"
  op_result :: json
  op_error :: json
  op_version :: nat

definition terminal :: "operation_record \<Rightarrow> bool" where
  "terminal r \<longleftrightarrow> op_state r \<in> set TERMINAL_STATES"

text \<open>The table, with the counter that \<open>AUTOINCREMENT\<close> keeps.\<close>

record op_db =
  op_rows :: "op_row list"
  op_last_sequence :: nat

datatype op_error =
    OpValueError string | OpSerialization ser_error | OperationNotFoundError string
  | IdempotencyConflictError string | InvalidOperationTransitionError string
  | OpIntegrityError string | OpOverflowError | OpJsonError

type_synonym 'a op_result = "op_error + 'a"

section \<open>Rows\<close>

text \<open>\<open>None\<close> and JSON null both decode to Python's \<open>None\<close>.\<close>

definition decode_json :: "string option \<Rightarrow> json op_result" where
  "decode_json p = (case p of None \<Rightarrow> Inr JNull
     | Some t \<Rightarrow> (case json_loads t of None \<Rightarrow> Inl OpJsonError | Some j \<Rightarrow> Inr j))"

definition operation_of :: "op_row \<Rightarrow> operation_record op_result" where
  "operation_of r =
     attempt (decode_json (Some (or_payload_json r))) (\<lambda>payload.
     attempt (decode_json (or_result_json r)) (\<lambda>result.
     attempt (decode_json (or_error_json r)) (\<lambda>err.
     Inr \<lparr>op_sequence = or_sequence r, op_operation_id = or_operation_id r,
        op_idempotency_key = or_idempotency_key r, op_handler_name = or_handler_name r, op_payload = payload,
        op_state = or_state r, op_admitted_at_ns = or_admitted_at_ns r,
        op_queue_deadline_at_ns = or_queue_deadline_at_ns r, op_client_deadline_at_ns = or_client_deadline_at_ns r,
        op_engine_health_threshold_ms = or_engine_health_threshold_ms r, op_started_at_ns = or_started_at_ns r,
        op_finished_at_ns = or_finished_at_ns r, op_result = result, op_error = err, op_version = or_version r\<rparr>)))"

text \<open>A decoded JSON value, as an argument of the encoder.\<close>

fun py_of_json :: "json \<Rightarrow> py_value" where
  "py_of_json JNull = PyNone"
| "py_of_json (JBool b) = PyBool b"
| "py_of_json (JInt i) = PyInt i"
| "py_of_json (JFloat t) = PyFloat"
| "py_of_json (JStr s) = PyStr s"
| "py_of_json (JArr xs) = PyTuple (map py_of_json xs)"
| "py_of_json (JObj kvs) = PyMap (map (\<lambda>(k, v). (Some k, py_of_json v)) kvs)"

definition sqlite_int :: "int \<Rightarrow> bool" where
  "sqlite_int i \<longleftrightarrow> - (2 ^ 63) \<le> i \<and> i < 2 ^ 63"

lemma sqlite_int_code [code]:
  "sqlite_int i \<longleftrightarrow> - 9223372036854775808 \<le> i \<and> i < 9223372036854775808"
  by (simp add: sqlite_int_def)

definition bound_ints :: "int list \<Rightarrow> op_error option" where
  "bound_ints is = require (list_all sqlite_int is) OpOverflowError"

definition op_by_id :: "string \<Rightarrow> op_db \<Rightarrow> op_row option" where
  "op_by_id i d = lookup_row or_operation_id i (op_rows d)"

definition op_by_key :: "string \<Rightarrow> op_db \<Rightarrow> op_row option" where
  "op_by_key k d = lookup_row or_idempotency_key k (op_rows d)"

section \<open>Admission\<close>

text \<open>\<open>_HANDLER_NAME\<close> and the size of an idempotency key.\<close>

definition handler_name_ok :: "string \<Rightarrow> bool" where
  "handler_name_ok h \<longleftrightarrow> h \<noteq> [] \<and> is_lower (hd h) \<and> length h \<le> 128
     \<and> list_all (\<lambda>c. is_lower c \<or> is_digit c \<or> c \<in> set ''_.-'') (tl h)"

definition validate_identity :: "string \<Rightarrow> string \<Rightarrow> op_error option" where
  "validate_identity handler key = first_error
     [require (handler_name_ok handler) (OpValueError ''handler_name must be a lowercase named operation''),
      require (key \<noteq> []) (OpValueError ''idempotency_key must be a non-empty string''),
      require (utf8_length key \<le> 512) (OpValueError ''idempotency_key is too large'')]"

definition positive_deadlines :: "int \<Rightarrow> int \<Rightarrow> int \<Rightarrow> op_error option" where
  "positive_deadlines queue_ms client_ms engine_ms = first_error
     [require (1 \<le> queue_ms) (OpValueError ''queue_deadline_ms must be positive''),
      require (1 \<le> client_ms) (OpValueError ''client_response_deadline_ms must be positive''),
      require (1 \<le> engine_ms) (OpValueError ''engine_health_threshold_ms must be positive'')]"

definition admitted_row ::
  "nat \<Rightarrow> string \<Rightarrow> string \<Rightarrow> string \<Rightarrow> string \<Rightarrow> int \<Rightarrow> int \<Rightarrow> int \<Rightarrow> int \<Rightarrow> op_row" where
  "admitted_row n i key handler payload now queue_ms client_ms engine_ms =
     \<lparr>or_sequence = n, or_operation_id = i, or_idempotency_key = key, or_handler_name = handler,
      or_payload_json = payload, or_state = QUEUED, or_admitted_at_ns = now,
      or_queue_deadline_at_ns = now + queue_ms * 1000000, or_client_deadline_at_ns = now + client_ms * 1000000,
      or_engine_health_threshold_ms = engine_ms, or_started_at_ns = None, or_finished_at_ns = None,
      or_result_json = None, or_error_json = None, or_version = 0\<rparr>"

definition insert_operation :: "op_row \<Rightarrow> op_db \<Rightarrow> op_db op_result" where
  "insert_operation r d =
     (if has_key or_operation_id (or_operation_id r) (op_rows d)
      then Inl (OpIntegrityError ''operation_records.operation_id'')
      else if has_key or_idempotency_key (or_idempotency_key r) (op_rows d)
      then Inl (OpIntegrityError ''operation_records.idempotency_key'')
      else Inr (d\<lparr>op_rows := op_rows d @ [r], op_last_sequence := or_sequence r\<rparr>))"

definition op_admit ::
  "nat \<Rightarrow> string \<Rightarrow> string \<Rightarrow> py_value \<Rightarrow> string \<Rightarrow> int \<Rightarrow> int \<Rightarrow> int \<Rightarrow> int \<Rightarrow> op_db
     \<Rightarrow> (operation_record \<times> bool) op_result \<times> op_db" where
  "op_admit maximum i handler payload key queue_ms client_ms engine_ms now d0 =
     (case checked (validate_identity handler key) (checked (positive_deadlines queue_ms client_ms engine_ms)
             (map_error OpSerialization (canonical_json maximum payload))) of
        Inl e \<Rightarrow> (Inl e, d0)
      | Inr payload_json \<Rightarrow> transaction (\<lambda>d.
          case op_by_key key d of
            Some row \<Rightarrow>
              attempt (operation_of row) (\<lambda>existing.
              if op_handler_name existing \<noteq> handler
              then Inl (IdempotencyConflictError ''idempotency key is already bound to a different named request'')
              else attempt (map_error OpSerialization (canonical_json maximum (py_of_json (op_payload existing)))) (\<lambda>t.
              if t \<noteq> payload_json
              then Inl (IdempotencyConflictError ''idempotency key is already bound to a different named request'')
              else Inr ((existing, False), d)))
          | None \<Rightarrow>
              (let row = admitted_row (Suc (op_last_sequence d)) i key handler payload_json now
                           queue_ms client_ms engine_ms in
               checked (bound_ints [or_admitted_at_ns row, or_queue_deadline_at_ns row,
                          or_client_deadline_at_ns row, or_engine_health_threshold_ms row])
               (attempt (insert_operation row d) (\<lambda>d1.
                attempt (operation_of row) (\<lambda>created. Inr ((created, True), d1)))))) d0)"

section \<open>Reads\<close>

definition op_get :: "string \<Rightarrow> op_db \<Rightarrow> operation_record op_result" where
  "op_get i d = (case op_by_id i d of None \<Rightarrow> Inl (OperationNotFoundError i) | Some r \<Rightarrow> operation_of r)"

definition op_get_by_key :: "string \<Rightarrow> op_db \<Rightarrow> operation_record option op_result" where
  "op_get_by_key k d = (case op_by_key k d of None \<Rightarrow> Inr None | Some r \<Rightarrow> attempt (operation_of r) (\<lambda>x. Inr (Some x)))"

definition queued_rows :: "op_db \<Rightarrow> op_row list" where
  "queued_rows d = sort_key or_sequence (filter (\<lambda>r. or_state r = QUEUED) (op_rows d))"

definition op_queued :: "op_db \<Rightarrow> operation_record list op_result" where
  "op_queued d = collect (map operation_of (queued_rows d))"

definition op_list :: "op_db \<Rightarrow> operation_record list op_result" where
  "op_list d = collect (map operation_of (sort_key or_sequence (op_rows d)))"

section \<open>Transitions\<close>

text \<open>
  \<open>UPDATE operation_records SET state = ?, version = version + 1, \<dots> WHERE
  operation_id = ? AND state IN (\<dots>)\<close> and the row read back in the same transaction.
\<close>

definition transition_error :: "string \<Rightarrow> string \<Rightarrow> string \<Rightarrow> op_db \<Rightarrow> op_error" where
  "transition_error verb rest i d = (case op_by_id i d of
      None \<Rightarrow> OperationNotFoundError i
    | Some r \<Rightarrow> InvalidOperationTransitionError
        (''cannot '' @ verb @ '' operation from '' @ operation_state_value (or_state r) @ rest))"

definition row_in :: "string \<Rightarrow> operation_state list \<Rightarrow> op_row \<Rightarrow> bool" where
  "row_in i states r \<longleftrightarrow> or_operation_id r = i \<and> or_state r \<in> set states"

definition update_operation ::
  "string \<Rightarrow> operation_state list \<Rightarrow> (op_row \<Rightarrow> op_row) \<Rightarrow> op_error \<Rightarrow> op_db \<Rightarrow> (operation_record \<times> op_db) op_result" where
  "update_operation i states f e d =
     (let d1 = d\<lparr>op_rows := update_where (row_in i states) f (op_rows d)\<rparr> in
      if rowcount (row_in i states) (op_rows d) \<noteq> 1 then Inl e
      else attempt (op_get i d1) (\<lambda>r. Inr (r, d1)))"

definition op_transition ::
  "string \<Rightarrow> operation_state list \<Rightarrow> operation_state \<Rightarrow> (op_row \<Rightarrow> op_row) \<Rightarrow> op_db
     \<Rightarrow> operation_record op_result \<times> op_db" where
  "op_transition i expected target upd = transaction (\<lambda>d.
     update_operation i expected (\<lambda>r. upd (r\<lparr>or_state := target, or_version := or_version r + 1\<rparr>))
       (transition_error ''transition'' ('' to '' @ operation_state_value target) i d) d)"

text \<open>A timestamp that SQLite cannot hold raises when it is bound.\<close>

definition at_time :: "int \<Rightarrow> (op_db \<Rightarrow> 'a op_result \<times> op_db) \<Rightarrow> op_db \<Rightarrow> 'a op_result \<times> op_db" where
  "at_time now f d = (if sqlite_int now then f d else (Inl OpOverflowError, d))"

definition op_start :: "string \<Rightarrow> int \<Rightarrow> op_db \<Rightarrow> operation_record op_result \<times> op_db" where
  "op_start i now = at_time now (op_transition i [QUEUED] IN_FLIGHT (\<lambda>r. r\<lparr>or_started_at_ns := Some now\<rparr>))"

definition op_cancel_before_start :: "string \<Rightarrow> int \<Rightarrow> op_db \<Rightarrow> operation_record op_result \<times> op_db" where
  "op_cancel_before_start i now =
     at_time now (op_transition i [QUEUED] CANCELLED_BEFORE_START (\<lambda>r. r\<lparr>or_finished_at_ns := Some now\<rparr>))"

definition op_mark_client_timed_out :: "string \<Rightarrow> op_db \<Rightarrow> operation_record op_result \<times> op_db" where
  "op_mark_client_timed_out i = op_transition i [IN_FLIGHT] CLIENT_TIMED_OUT id"

definition op_mark_engine_unresponsive :: "string \<Rightarrow> op_db \<Rightarrow> operation_record op_result \<times> op_db" where
  "op_mark_engine_unresponsive i = op_transition i [IN_FLIGHT, CLIENT_TIMED_OUT] ENGINE_UNRESPONSIVE id"

text \<open>The \<open>CASE\<close> of \<open>complete\<close>.\<close>

definition completion_state :: "int \<Rightarrow> op_row \<Rightarrow> operation_state" where
  "completion_state now r =
     (if or_state r = ENGINE_UNRESPONSIVE then RECONCILIATION_NEEDED
      else if or_state r = CLIENT_TIMED_OUT \<or> or_client_deadline_at_ns r \<le> now
      then COMPLETED_AFTER_CLIENT_TIMEOUT
      else COMPLETED_OPERATION)"

definition op_complete :: "nat \<Rightarrow> string \<Rightarrow> py_value \<Rightarrow> int \<Rightarrow> op_db \<Rightarrow> operation_record op_result \<times> op_db" where
  "op_complete maximum i result now d0 =
     (case map_error OpSerialization (canonical_json maximum result) of
        Inl e \<Rightarrow> (Inl e, d0)
      | Inr result_json \<Rightarrow> at_time now (transaction (\<lambda>d.
          update_operation i UNRESOLVED_STATES
            (\<lambda>r. r\<lparr>or_state := completion_state now r, or_result_json := Some result_json,
                  or_finished_at_ns := Some now, or_version := or_version r + 1\<rparr>)
            (transition_error ''complete'' [] i d) d)) d0)"

definition op_fail :: "nat \<Rightarrow> string \<Rightarrow> py_value \<Rightarrow> int \<Rightarrow> op_db \<Rightarrow> operation_record op_result \<times> op_db" where
  "op_fail maximum i err now d0 =
     (case map_error OpSerialization (canonical_json maximum err) of
        Inl e \<Rightarrow> (Inl e, d0)
      | Inr t \<Rightarrow> at_time now (op_transition i [IN_FLIGHT, CLIENT_TIMED_OUT] FAILED_OPERATION
          (\<lambda>r. r\<lparr>or_error_json := Some t, or_finished_at_ns := Some now\<rparr>)) d0)"

definition op_require_reconciliation ::
  "nat \<Rightarrow> string \<Rightarrow> py_value \<Rightarrow> int \<Rightarrow> op_db \<Rightarrow> operation_record op_result \<times> op_db" where
  "op_require_reconciliation maximum i err now d0 =
     (case map_error OpSerialization (canonical_json maximum err) of
        Inl e \<Rightarrow> (Inl e, d0)
      | Inr t \<Rightarrow> at_time now (op_transition i UNRESOLVED_STATES RECONCILIATION_NEEDED
          (\<lambda>r. r\<lparr>or_error_json := Some t, or_finished_at_ns := Some now\<rparr>)) d0)"

section \<open>Sweeps\<close>

definition finish_all :: "(op_row \<Rightarrow> bool) \<Rightarrow> operation_state \<Rightarrow> int \<Rightarrow> op_db \<Rightarrow> op_db" where
  "finish_all p target now d = d\<lparr>op_rows := update_where p
     (\<lambda>r. r\<lparr>or_state := target, or_finished_at_ns := Some now, or_version := or_version r + 1\<rparr>) (op_rows d)\<rparr>"

definition op_reconcile_orphans :: "int \<Rightarrow> op_db \<Rightarrow> nat op_result \<times> op_db" where
  "op_reconcile_orphans now = at_time now (transaction (\<lambda>d.
     let p = (\<lambda>r. or_state r \<in> set UNRESOLVED_STATES)
     in Inr (rowcount p (op_rows d), finish_all p RECONCILIATION_NEEDED now d)))"

definition op_cancel_expired_queued :: "int \<Rightarrow> op_db \<Rightarrow> string list op_result \<times> op_db" where
  "op_cancel_expired_queued now = at_time now (transaction (\<lambda>d.
     let ids = map or_operation_id (filter (\<lambda>r. or_queue_deadline_at_ns r \<le> now) (queued_rows d))
     in Inr (ids, if ids = [] then d
        else finish_all (\<lambda>r. or_state r = QUEUED \<and> or_operation_id r \<in> set ids) CANCELLED_BEFORE_START now d)))"

definition op_cancel_all_queued :: "int \<Rightarrow> op_db \<Rightarrow> string list op_result \<times> op_db" where
  "op_cancel_all_queued now = at_time now (transaction (\<lambda>d.
     Inr (map or_operation_id (queued_rows d), finish_all (\<lambda>r. or_state r = QUEUED) CANCELLED_BEFORE_START now d)))"

section \<open>The store as a machine\<close>

datatype operation_command =
    Admit string string py_value string int int int int
  | Start string int | CancelBeforeStart string int
  | MarkClientTimedOut string | MarkEngineUnresponsive string
  | Complete string py_value int | Fail string py_value int | RequireReconciliation string py_value int
  | ReconcileOrphans int | CancelExpiredQueued int | CancelAllQueued int

fun operation_step :: "nat \<Rightarrow> op_db \<Rightarrow> operation_command \<Rightarrow> op_db" where
  "operation_step m d (Admit i h p k q c e now) = snd (op_admit m i h p k q c e now d)"
| "operation_step m d (Start i now) = snd (op_start i now d)"
| "operation_step m d (CancelBeforeStart i now) = snd (op_cancel_before_start i now d)"
| "operation_step m d (MarkClientTimedOut i) = snd (op_mark_client_timed_out i d)"
| "operation_step m d (MarkEngineUnresponsive i) = snd (op_mark_engine_unresponsive i d)"
| "operation_step m d (Complete i v now) = snd (op_complete m i v now d)"
| "operation_step m d (Fail i v now) = snd (op_fail m i v now d)"
| "operation_step m d (RequireReconciliation i v now) = snd (op_require_reconciliation m i v now d)"
| "operation_step m d (ReconcileOrphans now) = snd (op_reconcile_orphans now d)"
| "operation_step m d (CancelExpiredQueued now) = snd (op_cancel_expired_queued now d)"
| "operation_step m d (CancelAllQueued now) = snd (op_cancel_all_queued now d)"

end
