(* ===== verification/Serialization_Laws.thy ===== *)
theory Serialization_Laws
  imports Serialization
begin

text \<open>
  What the codec of \<open>serialization.py\<close> guarantees: the tree of a value is one the
  reader reads back, the canonical text determines the tree up to member order, a
  digest has the form the digest types accept, and a value that fits its annotation
  is decoded from its own text.
\<close>

section \<open>The tree of a value\<close>

lemma collect_Inr_iff: "collect xs = Inr ys \<longleftrightarrow> list_all2 (\<lambda>x y. x = Inr y) xs ys"
  by (induction xs arbitrary: ys) (auto simp: attempt_Inr_iff list_all2_Cons1)

lemma collect_items_InrD:
  "collect_items seen m = Inr ys \<Longrightarrow>
     map fst ys = map fst m \<and> distinct (map fst ys) \<and> set (map fst ys) \<inter> set seen = {}
     \<and> (\<forall>y \<in> set ys. \<exists>x \<in> set m. fst x = fst y \<and> snd x = Inr (snd y))"
proof (induction m arbitrary: seen ys)
  case (Cons e m)
  obtain k x where e: "e = (k, x)" by (cases e)
  from Cons.prems e obtain y zs where y: "k \<notin> set seen" "x = Inr y" "ys = (k, y) # zs"
    and zs: "collect_items (k # seen) m = Inr zs"
    by (auto simp: attempt_Inr_iff nfc_def split: if_splits)
  note IH = Cons.IH [OF zs]
  then have "fst ` set m = fst ` set zs" by (metis set_map)
  with IH y e show ?case by auto
qed simp

text \<open>Instances of a class hold each field once, and no class has more fields than a collection may.\<close>

fun py_ok :: "py_value \<Rightarrow> bool" where
  "py_ok (PyModel c fs) = (distinct (map fst fs) \<and> length fs \<le> MAX_COLLECTION_LENGTH \<and> (\<forall>m \<in> set fs. py_ok (snd m)))"
| "py_ok (PyTuple xs) = (\<forall>x \<in> set xs. py_ok x)"
| "py_ok (PyMap m) = (\<forall>x \<in> set m. py_ok (snd x))"
| "py_ok v = True"

lemma to_primitive_model:
  "to_primitive (PyModel c fs) = Inr j \<longleftrightarrow>
     (\<exists>kvs. j = JObj kvs \<and> list_all2 (\<lambda>f kv. fst f = fst kv \<and> to_primitive (snd f) = Inr (snd kv)) fs kvs)"
  by (auto simp: attempt_Inr_iff collect_Inr_iff list_all2_map1 elim!: list_all2_mono)

lemma to_primitive_tuple:
  "to_primitive (PyTuple xs) = Inr j \<longleftrightarrow> length xs \<le> MAX_COLLECTION_LENGTH
     \<and> (\<exists>js. j = JArr js \<and> list_all2 (\<lambda>x y. to_primitive x = Inr y) xs js)"
  by (auto simp: attempt_Inr_iff collect_Inr_iff list_all2_map1)

lemma decimal_primitive_text: "decimal_primitive d = Inr j \<Longrightarrow> \<exists>s. j = JStr s"
  by (auto simp: decimal_primitive_def Let_def split: dec_value.splits if_splits)

lemma list_all2_keys:
  "list_all2 (\<lambda>f kv. fst f = fst kv \<and> P f kv) fs kvs \<Longrightarrow> map fst fs = map fst kvs"
  by (induction rule: list_all2_induct) auto

lemma list_all2_right: "list_all2 P xs ys \<Longrightarrow> y \<in> set ys \<Longrightarrow> \<exists>x \<in> set xs. P x y"
  by (induction rule: list_all2_induct) auto

lemma to_primitive_ok: "to_primitive v = Inr j \<Longrightarrow> py_ok v \<Longrightarrow> json_ok j"
proof (induction v arbitrary: j rule: py_ok.induct)
  case (1 c fs)
  then obtain kvs where kvs: "j = JObj kvs"
    "list_all2 (\<lambda>f kv. fst f = fst kv \<and> to_primitive (snd f) = Inr (snd kv)) fs kvs"
    by (blast dest: to_primitive_model [THEN iffD1])
  have "json_ok (snd m)" if "m \<in> set kvs" for m
  proof -
    from list_all2_right [OF kvs(2)] that obtain f where "f \<in> set fs" "to_primitive (snd f) = Inr (snd m)" by blast
    with 1 show ?thesis by (metis py_ok.simps(1) prod.collapse)
  qed
  with 1 kvs list_all2_keys [OF kvs(2)] show ?case by auto
next
  case (2 xs)
  then obtain js where js: "j = JArr js" "list_all2 (\<lambda>x y. to_primitive x = Inr y) xs js"
    by (blast dest: to_primitive_tuple [THEN iffD1])
  have "json_ok y" if "y \<in> set js" for y
    using list_all2_right [OF js(2)] that 2 by (metis py_ok.simps(2))
  with js show ?case by simp
next
  case (3 m)
  then obtain kvs where kvs: "j = JObj kvs"
    "collect_items [] (map (\<lambda>(k, v). (case k of Some t \<Rightarrow> t | None \<Rightarrow> [], to_primitive v)) m) = Inr kvs"
    by (auto simp: attempt_Inr_iff split: if_splits)
  with collect_items_InrD [OF kvs(2)] 3 show ?case by fastforce
qed (auto dest: decimal_primitive_text simp: checked_Inr_iff)

text \<open>The text of a value determines its tree up to the order of members.\<close>

lemma canonical_json_InrD:
  assumes "canonical_json m v = Inr t"
  obtains j where "to_primitive v = Inr j" "t = json_dumps j" "utf8_length t \<le> m"
  using assms by (auto simp: canonical_json_def attempt_Inr_iff Let_def split: if_splits)

lemma canonical_json_tree:
  assumes "canonical_json m v = Inr t" "py_ok v" "to_primitive v = Inr j"
  shows "json_loads t = Some (canonical j)"
  using assms json_loads_text [OF json_ok_no_floats] to_primitive_ok by (auto elim!: canonical_json_InrD)

lemma canonical_json_determined:
  assumes "to_primitive v = Inr j" "to_primitive w = Inr k" "py_ok v" "py_ok w" "canonical j = canonical k"
  shows "canonical_json m v = canonical_json m w"
  using assms json_dumps_canonical [OF to_primitive_ok, of v j] json_dumps_canonical [OF to_primitive_ok, of w k]
  by (auto simp: canonical_json_def)

section \<open>Decimal text\<close>

lemma decimal_value_pad: "decimal_value (s @ pad k n) = decimal_value s * 10 ^ k + n mod 10 ^ k"
proof (induction k arbitrary: n)
  case (Suc k)
  have "decimal_value (s @ pad (Suc k) n) = 10 * decimal_value (s @ pad k (n div 10)) + n mod 10"
    using decimal_value_snoc [of "n mod 10" "s @ pad k (n div 10)"] by simp
  also have "\<dots> = decimal_value s * 10 ^ Suc k + n mod 10 ^ Suc k"
    using Suc [of "n div 10"] by (simp add: mod_mult2_eq)
  finally show ?case .
qed simp

lemma pad_digits: "c \<in> set (pad k n) \<Longrightarrow> is_json_digit c"
  by (induction k arbitrary: n) (auto simp: is_json_digit_char)

lemma strip_right_snoc [simp]: "x \<noteq> c \<Longrightarrow> strip_right c (s @ [x]) = s @ [x]"
  by (simp add: strip_right_def)

lemma nat_str_no_leading_zero: "nat_str n = ''0'' \<or> \<not> starts_with ''0'' (nat_str n)"
proof (cases "n = 0")
  case True
  have "nat_str 0 = ''0''" by code_simp
  with True show ?thesis by simp
next
  case False
  with nat_str_head [of n] show ?thesis by auto
qed

lemma takeWhile_digits:
  "(\<forall>c \<in> set s. is_json_digit c) \<Longrightarrow> r = [] \<or> \<not> is_json_digit (hd r) \<Longrightarrow> takeWhile is_json_digit (s @ r) = s"
  by (cases r) (auto simp: takeWhile_append)

text \<open>Sign, integer part and digits after the point, read back.\<close>

lemma decimal_shape:
  assumes "f = [] \<and> r = [] \<or> f \<noteq> [] \<and> r = CHR ''.'' # f" "\<forall>c \<in> set f. is_json_digit c"
  shows "decimal_re ((if neg then ''-'' else []) @ nat_str n @ r)"
    and "decimal_of ((if neg then ''-'' else []) @ nat_str n @ r)
      = Dec (if neg then - int (decimal_value (nat_str n @ f)) else int (decimal_value (nat_str n @ f))) (- int (length f))"
proof -
  obtain c cs where c: "nat_str n = c # cs" "is_json_digit c"
    using nat_str_json_digits [of _ n] by (cases "nat_str n") (auto dest: nat_str_nonempty [THEN notE])
  then have nosign: "\<not> starts_with ''-'' (nat_str n @ r)" by (auto simp: is_json_digit_def)
  have ip: "takeWhile is_json_digit (nat_str n @ r) = nat_str n"
    using assms(1) nat_str_json_digits by (intro takeWhile_digits) (auto simp: is_json_digit_def)
  have u: "(if starts_with ''-'' ((if neg then ''-'' else []) @ nat_str n @ r)
      then tl ((if neg then ''-'' else []) @ nat_str n @ r) else (if neg then ''-'' else []) @ nat_str n @ r)
      = nat_str n @ r"
    and unsigned: "(if neg then tl ((if neg then ''-'' else []) @ nat_str n @ r)
      else (if neg then ''-'' else []) @ nat_str n @ r) = nat_str n @ r"
    and sign: "starts_with ''-'' ((if neg then ''-'' else []) @ nat_str n @ r) = neg"
    using nosign by (cases neg; simp)+
  show "decimal_re ((if neg then ''-'' else []) @ nat_str n @ r)"
    unfolding decimal_re_def u Let_def ip using assms nat_str_no_leading_zero [of n]
    by (auto simp: list_all_iff)
  show "decimal_of ((if neg then ''-'' else []) @ nat_str n @ r)
      = Dec (if neg then - int (decimal_value (nat_str n @ f)) else int (decimal_value (nat_str n @ f))) (- int (length f))"
    unfolding decimal_of_def sign Let_def unsigned ip using assms by auto
qed

text \<open>Decimals in lowest terms: no trailing zero after the point, no positive exponent.\<close>

definition normal_decimal :: "dec_value \<Rightarrow> bool" where
  "normal_decimal d \<longleftrightarrow> (case d of DecSpecial \<Rightarrow> False
     | Dec c e \<Rightarrow> if c = 0 then e = 0 else e = 0 \<or> e < 0 \<and> c mod 10 \<noteq> 0)"

lemma length_pad_eq: "length (pad k n) = k"
  by (induction k arbitrary: n) auto

lemma decimal_round_trip:
  assumes "normal_decimal d"
  shows "\<exists>s. decimal_primitive d = Inr (JStr s) \<and> decimal_re s \<and> decimal_of s = d"
proof -
  obtain c e where d: "d = Dec c e" using assms by (auto simp: normal_decimal_def split: dec_value.splits)
  have zero: "decimal_re ''0'' \<and> decimal_of ''0'' = Dec 0 0" by code_simp
  let ?n = "nat \<bar>c\<bar>"
  show ?thesis
  proof (cases "c = 0")
    case True
    with zero d assms show ?thesis by (auto simp: decimal_primitive_def normal_decimal_def)
  next
    case nz: False
    show ?thesis
    proof (cases "e = 0")
      case True
      let ?s = "(if c < 0 then ''-'' else []) @ nat_str ?n"
      have "\<not> is_json_digit (CHR ''.'')" by code_simp
      then have "CHR ''.'' \<notin> set ?s" using nat_str_json_digits by auto
      with decimal_shape [of "[]" "[]" "c < 0" ?n] nz True d show ?thesis
        by (simp add: decimal_primitive_def decimal_fixed_def decimal_value_nat_str)
    next
      case False
      with nz assms d have e: "e < 0" "c mod 10 \<noteq> 0" by (auto simp: normal_decimal_def)
      then obtain k where k: "nat (- e) = Suc k" by (metis Suc_pred' neg_0_less_iff_less zero_less_nat_eq)
      let ?f = "pad (Suc k) (?n mod 10 ^ Suc k)"
      let ?s = "(if c < 0 then ''-'' else []) @ nat_str (?n div 10 ^ Suc k) @ CHR ''.'' # ?f"
      have "?n mod 10 ^ Suc k mod 10 = ?n mod 10" by (simp add: mod_mult2_eq)
      moreover have "?n mod 10 \<noteq> 0" 
      proof -
        have "(10::int) dvd \<bar>c\<bar> \<longleftrightarrow> 10 dvd ?n" using int_dvd_int_iff [of 10 ?n] by simp
        with e(2) show ?thesis by (simp add: mod_eq_0_iff_dvd)
      qed
      ultimately have "digit_char (?n mod 10 ^ Suc k mod 10) \<noteq> CHR ''0''"
        by (simp add: char_eq_iff of_char_digit)
      then have keep: "strip_right (CHR ''.'') (strip_right (CHR ''0'') ?s) = ?s"
      proof -
        assume "digit_char (?n mod 10 ^ Suc k mod 10) \<noteq> CHR ''0''"
        moreover have "is_json_digit (digit_char (?n mod 10 ^ Suc k mod 10))" by (simp add: is_json_digit_char)
        then have "digit_char (?n mod 10 ^ Suc k mod 10) \<noteq> CHR ''.''" by (auto simp: is_json_digit_def)
        moreover have "?s = ((if c < 0 then ''-'' else []) @ nat_str (?n div 10 ^ Suc k) @ CHR ''.''
            # pad k (?n mod 10 ^ Suc k div 10)) @ [digit_char (?n mod 10 ^ Suc k mod 10)]" by simp
        ultimately show ?thesis by (metis strip_right_snoc)
      qed
      have whole: "decimal_value (nat_str (?n div 10 ^ Suc k) @ ?f) = ?n"
        unfolding decimal_value_pad decimal_value_nat_str by (simp only: mod_mod_trivial div_mult_mod_eq)
      have digits: "\<forall>x \<in> set ?f. is_json_digit x" using pad_digits by blast
      have nonempty: "?f \<noteq> []" by simp
      note shape = decimal_shape [OF disjI2 [OF conjI [OF nonempty refl]] digits, of "c < 0" "?n div 10 ^ Suc k"]
      have fixed: "decimal_fixed c e = ?s" using e k by (simp add: decimal_fixed_def del: power_Suc pad.simps)
      have dot: "CHR ''.'' \<in> set ?s" by simp
      have same: "decimal_of ?s = d"
        unfolding shape(2) whole using d k e by (simp add: length_pad_eq del: pad.simps)
      have "decimal_primitive d = Inr (JStr ?s)"
        unfolding d decimal_primitive_def dec_value.case Let_def fixed keep if_P [OF dot] using shape(1) nz
        by (simp only: if_False not_True_eq_False)
      with shape(1) same show ?thesis by blast
    qed
  qed
qed

section \<open>Values that fit their annotation\<close>

text \<open>An annotation that no decoder accepts \<open>null\<close> for.\<close>

fun refuses_null :: "annotation \<Rightarrow> bool" where
  "refuses_null ANone = False"
| "refuses_null (AUnion as) = False"
| "refuses_null a = True"

inductive fits :: "class_table \<Rightarrow> annotation \<Rightarrow> py_value \<Rightarrow> bool" for C where
  text_fits: "fits C AStr (PyStr s)"
| bool_fits: "fits C ABool (PyBool b)"
| int_fits: "fits C AInt (PyInt i)"
| none_fits: "fits C ANone PyNone"
| decimal_fits: "normal_decimal d \<Longrightarrow> fits C ADecimal (PyDecimal d)"
| datetime_fits: "fits C ADatetime (PyDatetime t)"
| enum_fits: "v \<in> set values \<Longrightarrow> fits C (AEnum name values) (PyEnum v)"
| absent_fits: "refuses_null a \<Longrightarrow> fits C (AUnion [a, ANone]) PyNone"
| present_fits: "fits C a v \<Longrightarrow> fits C (AUnion [a, ANone]) v"
| tuple_fits: "(\<And>x. x \<in> set xs \<Longrightarrow> fits C a x) \<Longrightarrow> fits C (ATuple a) (PyTuple xs)"
| model_fits: "C c = Some (fs, post_init) \<Longrightarrow> distinct (map fst fs) \<Longrightarrow> length fs \<le> MAX_COLLECTION_LENGTH
    \<Longrightarrow> post_init vs = None \<Longrightarrow> list_all2 (\<lambda>f v. fst f = fst v \<and> fits C (snd f) (snd v)) fs vs \<Longrightarrow> fits C (AModel c) (PyModel c vs)"
  monos list_all2_mono

text \<open>What the decoder uses of \<open>datetime.fromisoformat\<close>: it inverts \<open>isoformat\<close>.\<close>

definition reads_iso :: "(string \<Rightarrow> datetime option) \<Rightarrow> bool" where
  "reads_iso fi \<longleftrightarrow> (\<forall>t. dt_valid t \<longrightarrow> fi (expand_z (iso_micro t)) = Some t)"

lemma model_fitsI:
  "C c = Some p \<Longrightarrow> distinct (map fst (fst p)) \<Longrightarrow> length (fst p) \<le> MAX_COLLECTION_LENGTH
    \<Longrightarrow> snd p vs = None
    \<Longrightarrow> list_all2 (\<lambda>f v. fst f = fst v \<and> fits C (snd f) (snd v)) (fst p) vs \<Longrightarrow> fits C (AModel c) (PyModel c vs)"
  by (cases p) (auto intro: model_fits)

lemma fits_py_ok: "fits C a v \<Longrightarrow> py_ok v"
proof (induction rule: fits.induct)
  case (model_fits c fs post_init vs)
  with list_all2_keys [OF model_fits(5)] list_all2_lengthD [OF model_fits(5)] show ?case by (auto dest: list_all2_right)
qed auto

lemma decode_items_all2:
  "list_all2 (\<lambda>j v. \<forall>path. decode_value fi C a j path = Inr v) js vs \<Longrightarrow> decode_items fi C a js path i = Inr vs"
  by (induction js vs arbitrary: i rule: list_all2_induct) (auto simp del: decode_value.simps)

lemma decode_fields_all2:
  "list_all2 (\<lambda>f v. fst f = fst v \<and> (\<exists>j. map_of kvs (fst f) = Some j
      \<and> (\<forall>path. decode_value fi C (snd f) j path = Inr (snd v)))) fs vs
   \<Longrightarrow> decode_fields fi C fs kvs path = Inr vs"
  by (induction fs vs rule: list_all2_induct) (auto simp del: decode_value.simps)

lemma decode_null_refused: "refuses_null a \<Longrightarrow> \<exists>e. decode_value fi C a JNull path = Inl e"
  by (cases a) (auto split: option.splits)

text \<open>Only \<open>None\<close> has the tree \<open>null\<close>.\<close>

lemma decode_present:
  "decode_value fi C a j path = Inr v \<Longrightarrow> decode_value fi C (AUnion [a, ANone]) j path = Inr v"
  by (subst decode_value.simps) (simp del: decode_value.simps)

lemma decode_absent:
  "refuses_null a \<Longrightarrow> decode_value fi C (AUnion [a, ANone]) JNull path = Inr PyNone"
  using decode_null_refused [of a fi C path]
  by (subst decode_value.simps) (auto simp del: decode_value.simps simp: decode_value.simps [of _ _ ANone])

lemma map_of_sorted:
  "distinct (map fst kvs) \<Longrightarrow> (k, x) \<in> set kvs \<Longrightarrow>
     map_of (map (\<lambda>(k, v). (k, canonical v)) (sort_key fst kvs)) k = Some (canonical x)"
  using distinct_sort_key [of fst kvs]
  by (intro map_of_is_SomeI) (auto simp: case_prod_unfold comp_def intro: rev_image_eqI)

lemma decode_model:
  assumes "C c = Some (fs, post_init)" "distinct (map fst fs)" "post_init vs = None"
    and "list_all2 (\<lambda>f v. fst f = fst v \<and> (\<forall>j path. to_primitive (snd v) = Inr j
        \<longrightarrow> decode_value fi C (snd f) (canonical j) path = Inr (snd v))) fs vs"
    and "to_primitive (PyModel c vs) = Inr j"
  shows "decode_value fi C (AModel c) (canonical j) path = Inr (PyModel c vs)"
proof -
  from assms(5) obtain kvs where j: "j = JObj kvs"
    "list_all2 (\<lambda>v kv. fst v = fst kv \<and> to_primitive (snd v) = Inr (snd kv)) vs kvs"
    by (blast dest: to_primitive_model [THEN iffD1])
  have names: "map fst vs = map fst fs" using list_all2_keys [OF assms(4)] by simp
  have keys: "map fst kvs = map fst vs" using list_all2_keys [OF j(2)] by simp
  let ?m = "map (\<lambda>(k, v). (k, canonical v)) (sort_key fst kvs)"
  have member: "\<exists>x. map_of ?m (fst v) = Some (canonical x) \<and> to_primitive (snd v) = Inr x" if "v \<in> set vs" for v
  proof -
    from that obtain i where i: "i < length vs" "v = vs ! i" by (auto simp: in_set_conv_nth)
    then have kv: "fst (vs ! i) = fst (kvs ! i)" "to_primitive (snd (vs ! i)) = Inr (snd (kvs ! i))" "i < length kvs"
      using j(2) by (auto simp: list_all2_conv_all_nth)
    then have "(fst v, snd (kvs ! i)) \<in> set kvs" using i by (metis nth_mem prod.collapse)
    then show ?thesis using map_of_sorted [of kvs] keys names assms(2) kv i by auto
  qed
  have "list_all2 (\<lambda>f v. fst f = fst v \<and> (\<exists>j. map_of ?m (fst f) = Some j
      \<and> (\<forall>path. decode_value fi C (snd f) j path = Inr (snd v)))) fs vs"
    using assms(4)
    by (rule list.rel_mono_strong) (metis member)
  then have fields: "decode_fields fi C fs ?m path = Inr vs" for path by (rule decode_fields_all2)
  have "\<not> missing_fields fs ?m"
  proof -
    have "fst ` set kvs = fst ` set fs" using keys names by (metis set_map)
    then show ?thesis by (simp add: missing_fields_def field_names_def image_image case_prod_unfold)
  qed
  moreover have "canonical j = JObj ?m" using j(1) keys names assms(2) canonical_object [of kvs] by simp
  ultimately show ?thesis using assms(1,3) fields by (subst decode_value.simps) (simp del: decode_value.simps)
qed

lemma decode_fitting:
  assumes "reads_iso fi"
  shows "fits C a v \<Longrightarrow> to_primitive v = Inr j \<Longrightarrow> decode_value fi C a (canonical j) path = Inr v"
proof (induction arbitrary: j path rule: fits.induct)
  case (decimal_fits d)
  with decimal_round_trip [of d] show ?case by (auto simp: decode_value.simps)
next
  case (datetime_fits t)
  with assms show ?case
    by (auto simp: reads_iso_def checked_Inr_iff require_aware_def)
next
  case (absent_fits a)
  then show ?case by (simp add: decode_absent del: decode_value.simps)
next
  case (present_fits a v)
  then show ?case by (auto intro: decode_present simp del: decode_value.simps)
next
  case (tuple_fits xs a)
  then obtain js where js: "j = JArr js" "length xs \<le> MAX_COLLECTION_LENGTH"
    "list_all2 (\<lambda>x y. to_primitive x = Inr y) xs js"
    by (blast dest: to_primitive_tuple [THEN iffD1])
  have "list_all2 (\<lambda>j v. \<forall>path. decode_value fi C a j path = Inr v) (map canonical js) xs"
    using js(3) tuple_fits.IH by (auto simp: list_all2_conv_all_nth simp del: decode_value.simps)
  then have "decode_items fi C a (map canonical js) path 0 = Inr xs" by (rule decode_items_all2)
  with js list_all2_lengthD [OF js(3)] show ?case
    by (subst decode_value.simps) (simp del: decode_value.simps)
next
  case (model_fits c fs post_init vs)
  have "list_all2 (\<lambda>f v. fst f = fst v \<and> (\<forall>j path. to_primitive (snd v) = Inr j
      \<longrightarrow> decode_value fi C (snd f) (canonical j) path = Inr (snd v))) fs vs"
    using model_fits(5) by (rule list_all2_mono) blast
  from decode_model [where C = C and fi = fi, OF model_fits(1,2,4) this model_fits(6)] show ?case .
qed (auto simp: nfc_def)

lemma from_json_fitting:
  assumes "reads_iso fi" "fits C (AModel c) v" "canonical_json m v = Inr t" "m \<le> m'"
  shows "from_json fi C c m' t = Inr v"
proof -
  from assms(3) obtain j where j: "to_primitive v = Inr j" "utf8_length t \<le> m" by (rule canonical_json_InrD)
  have "json_loads t = Some (canonical j)"
    using canonical_json_tree [OF assms(3) fits_py_ok [OF assms(2)] j(1)] .
  with decode_fitting [OF assms(1,2) j(1)] j(2) assms(4) show ?thesis
    by (simp add: from_json_def from_primitive_def del: decode_value.simps)
qed

section \<open>Texts are always readable\<close>

lemma to_primitive_no_floats: "to_primitive v = Inr j \<Longrightarrow> no_floats j"
proof (induction v arbitrary: j rule: py_ok.induct)
  case (1 c fs)
  then obtain kvs where kvs: "j = JObj kvs"
    "list_all2 (\<lambda>f kv. fst f = fst kv \<and> to_primitive (snd f) = Inr (snd kv)) fs kvs"
    by (blast dest: to_primitive_model [THEN iffD1])
  have "no_floats (snd m)" if "m \<in> set kvs" for m
  proof -
    from list_all2_right [OF kvs(2)] that obtain f where "f \<in> set fs" "to_primitive (snd f) = Inr (snd m)" by blast
    with 1 show ?thesis by (metis prod.collapse)
  qed
  with kvs show ?case by auto
next
  case (2 xs)
  then obtain js where js: "j = JArr js" "list_all2 (\<lambda>x y. to_primitive x = Inr y) xs js"
    by (blast dest: to_primitive_tuple [THEN iffD1])
  have "no_floats y" if "y \<in> set js" for y
    using list_all2_right [OF js(2)] that 2 by metis
  with js show ?case by simp
next
  case (3 m)
  then obtain kvs where kvs: "j = JObj kvs"
    "collect_items [] (map (\<lambda>(k, v). (case k of Some t \<Rightarrow> t | None \<Rightarrow> [], to_primitive v)) m) = Inr kvs"
    by (auto simp: attempt_Inr_iff split: if_splits)
  with collect_items_InrD [OF kvs(2)] 3 show ?case by fastforce
qed (auto dest: decimal_primitive_text simp: checked_Inr_iff)

lemma canonical_json_readable: "canonical_json m v = Inr t \<Longrightarrow> json_loads t \<noteq> None"
  using json_loads_text to_primitive_no_floats by (auto elim!: canonical_json_InrD)

section \<open>Encoding a decoded tree\<close>

fun json_sized :: "json \<Rightarrow> bool" where
  "json_sized (JArr xs) = (length xs \<le> MAX_COLLECTION_LENGTH \<and> (\<forall>x \<in> set xs. json_sized x))"
| "json_sized (JObj kvs) = (length kvs \<le> MAX_COLLECTION_LENGTH \<and> (\<forall>m \<in> set kvs. json_sized (snd m)))"
| "json_sized j = True"

lemma to_primitive_sized: "to_primitive v = Inr j \<Longrightarrow> py_ok v \<Longrightarrow> json_sized j"
proof (induction v arbitrary: j rule: py_ok.induct)
  case (1 c fs)
  then obtain kvs where kvs: "j = JObj kvs"
    "list_all2 (\<lambda>f kv. fst f = fst kv \<and> to_primitive (snd f) = Inr (snd kv)) fs kvs"
    by (blast dest: to_primitive_model [THEN iffD1])
  have "json_sized (snd m)" if "m \<in> set kvs" for m
  proof -
    from list_all2_right [OF kvs(2)] that obtain f where "f \<in> set fs" "to_primitive (snd f) = Inr (snd m)" by blast
    with 1 show ?thesis by (metis py_ok.simps(1) prod.collapse)
  qed
  with 1 kvs list_all2_lengthD [OF kvs(2)] show ?case by auto
next
  case (2 xs)
  then obtain js where js: "j = JArr js" "length xs \<le> MAX_COLLECTION_LENGTH"
    "list_all2 (\<lambda>x y. to_primitive x = Inr y) xs js"
    by (blast dest: to_primitive_tuple [THEN iffD1])
  have "json_sized y" if "y \<in> set js" for y
    using list_all2_right [OF js(3)] that 2 by (metis py_ok.simps(2))
  with js list_all2_lengthD [OF js(3)] show ?case by simp
next
  case (3 m)
  then obtain kvs where kvs: "j = JObj kvs" "length m \<le> MAX_COLLECTION_LENGTH"
    "collect_items [] (map (\<lambda>(k, v). (case k of Some t \<Rightarrow> t | None \<Rightarrow> [], to_primitive v)) m) = Inr kvs"
    by (auto simp: attempt_Inr_iff split: if_splits)
  note D = collect_items_InrD [OF kvs(3)]
  then have "length kvs = length m" by (metis length_map)
  with D 3 kvs show ?case by fastforce
qed (auto dest: decimal_primitive_text simp: checked_Inr_iff)

lemma json_sized_canonical: "json_ok j \<Longrightarrow> json_sized j \<Longrightarrow> json_sized (canonical j)"
proof (induction j rule: json_dumps.induct)
  case (7 kvs)
  have "json_sized (canonical (snd m))" if "m \<in> set kvs" for m
  proof -
    obtain k v where m: "m = (k, v)" by (cases m)
    with that have "m \<in> set (sort_key fst kvs)" by simp
    from "7.IH" [OF this] m 7(2,3) that show ?thesis by fastforce
  qed
  with 7 show ?case by (auto simp: canonical_object simp del: canonical.simps(2))
qed auto

lemma collect_map_Inr: "(\<And>x. x \<in> set xs \<Longrightarrow> f x = Inr (g x)) \<Longrightarrow> collect (map f xs) = Inr (map g xs)"
  by (induction xs) auto

lemma collect_items_distinct:
  "distinct (map fst kvs) \<Longrightarrow> fst ` set kvs \<inter> set seen = {} \<Longrightarrow> (\<And>m. m \<in> set kvs \<Longrightarrow> f (snd m) = Inr (snd m))
    \<Longrightarrow> collect_items seen (map (\<lambda>m. (fst m, f (snd m))) kvs) = Inr kvs"
  by (induction kvs arbitrary: seen) (auto simp: nfc_def)

section \<open>Digests\<close>

lemma token_no_colon: "token_part_ok k \<Longrightarrow> CHR '':'' \<notin> set k"
  by (cases k) (auto simp: token_part_ok_def list_all_iff is_lower_def is_digit_def)

lemma split_on_absent: "c \<notin> set s \<Longrightarrow> split_on c (s @ c # r) = s # split_on c r"
  by (induction s) auto

lemma split_on_last: "c \<notin> set s \<Longrightarrow> split_on c s = [s]"
  by (induction s) auto

text \<open>The hash function yields 64 lowercase hexadecimal digits.\<close>

definition hex_digest :: "(string \<Rightarrow> string) \<Rightarrow> bool" where
  "hex_digest sha \<longleftrightarrow> (\<forall>t. length (sha t) = 64 \<and> list_all is_lower_hex (sha t))"

lemma canonical_digest_shape:
  assumes "hex_digest sha" "canonical_digest sha kind schema v = Inr d" "CHR ''.'' \<notin> set kind"
  shows "match_digest d = Some (kind, schema)"
proof -
  from assms(2) obtain t where ok: "token_part_ok kind" "token_part_ok schema"
    and d: "d = kind @ CHR '':'' # schema @ CHR '':'' # ''sha256'' @ CHR '':'' # sha t"
    by (auto simp: canonical_digest_def attempt_Inr_iff split: if_splits)
  have "\<not> is_lower_hex (CHR '':'')" by code_simp
  then have hex: "CHR '':'' \<notin> set (sha t)" "length (sha t) = 64" "list_all is_lower_hex (sha t)"
    using assms(1) by (auto simp: hex_digest_def list_all_iff)
  have "split_on (CHR '':'') (''sha256'' @ CHR '':'' # sha t) = [''sha256'', sha t]"
    by (subst split_on_absent) (use hex(1) in \<open>simp_all add: split_on_last\<close>)
  then have "split_on (CHR '':'') d = [kind, schema, ''sha256'', sha t]"
    unfolding d using ok token_no_colon by (simp add: split_on_absent del: append.simps)
  moreover have "digest_kind_ok kind"
    using ok(1) assms(3) by (cases kind) (auto simp: digest_kind_ok_def token_part_ok_def list_all_iff)
  moreover have "digest_schema_ok schema"
    using ok(2) by (auto simp: digest_schema_ok_def token_part_ok_def)
  ultimately show ?thesis using hex by (simp add: match_digest_def)
qed

section \<open>Sample arguments\<close>

text \<open>A reader of the fixed-width timestamps that the writer produces.\<close>

definition parse_iso :: "string \<Rightarrow> datetime option" where
  "parse_iso s = (let n = (\<lambda>a k. decimal_value (take k (drop a s))) in
     if length s = 32 then Some (Datetime (n 0 4) (n 5 2) (n 8 2) (n 11 2) (n 14 2) (n 17 2) (n 20 6)) else None)"

lemma expand_z_pad: "expand_z (pad k n @ r) = pad k n @ expand_z r"
proof -
  have "CHR ''Z'' \<notin> set (pad k n)" using pad_digits [of "CHR ''Z''" k n] by (auto simp: is_json_digit_def)
  moreover have "CHR ''Z'' \<notin> set s \<Longrightarrow> expand_z (s @ r) = s @ expand_z r" for s
    by (induction s) (auto simp: expand_z_def)
  ultimately show ?thesis by blast
qed

lemma expand_z_char: "c \<noteq> CHR ''Z'' \<Longrightarrow> expand_z (c # r) = c # expand_z r" "expand_z ''Z'' = ''+00:00''"
  by (simp_all add: expand_z_def)

lemma decimal_value_pad_alone: "n < 10 ^ k \<Longrightarrow> decimal_value (pad k n) = n"
  using decimal_value_pad [of "[]" k n] by (simp add: decimal_value_def)

lemma reads_iso_parse: "reads_iso parse_iso"
  unfolding reads_iso_def
proof (intro allI impI)
  fix t assume "dt_valid t"
  then show "parse_iso (expand_z (iso_micro t)) = Some t"
    by (cases t)
      (simp add: iso_micro_def expand_z_pad expand_z_char parse_iso_def Let_def length_pad_eq dt_valid_def
        decimal_value_pad_alone del: pad.simps)
qed

definition version_entry :: "(string \<times> annotation) list \<times> ((string \<times> py_value) list \<Rightarrow> error option)" where
  "version_entry = ([(''scope_id'', AStr), (''counter'', AInt)],
     \<lambda>vs. case vs of [(_, PyStr s), (_, PyInt i)] \<Rightarrow> Revision_post_init WorkflowVersion \<lparr>scope_id = s, counter = i\<rparr>
       | _ \<Rightarrow> Some (TypeError ''fields''))"

definition stamped_entry :: "(string \<times> annotation) list \<times> ((string \<times> py_value) list \<Rightarrow> error option)" where
  "stamped_entry = ([(''version'', AModel ''WorkflowVersion''), (''at'', ADatetime),
     (''amount'', AUnion [ADecimal, ANone]), (''tags'', ATuple AStr)], \<lambda>_. None)"

definition version_class :: class_table where
  "version_class c = (if c = ''WorkflowVersion'' then Some version_entry
     else if c = ''Stamped'' then Some stamped_entry else None)"

definition sample_stamped :: py_value where
  "sample_stamped = PyModel ''Stamped''
     [(''version'', PyModel ''WorkflowVersion''
        [(''scope_id'', PyStr ''0b7e2f4e-6c8f-4d59-9d6b-0a1b2c3d4e5f''), (''counter'', PyInt 7)]),
      (''at'', PyDatetime (Datetime 2026 3 1 10 0 5 250)), (''amount'', PyDecimal (Dec (- 1205) (- 3))),
      (''tags'', PyTuple [PyStr ''a b'', PyStr [CHR 0x22, CHR 0x0A]])]"

lemma sample_stamped_fits: "fits version_class (AModel ''Stamped'') sample_stamped"
proof -
  have "Revision_post_init WorkflowVersion
      \<lparr>scope_id = ''0b7e2f4e-6c8f-4d59-9d6b-0a1b2c3d4e5f'', counter = 7\<rparr> = None" by code_simp
  then have version: "fits version_class (AModel ''WorkflowVersion'') (PyModel ''WorkflowVersion''
        [(''scope_id'', PyStr ''0b7e2f4e-6c8f-4d59-9d6b-0a1b2c3d4e5f''), (''counter'', PyInt 7)])"
    by (intro model_fitsI [of _ _ version_entry]) (simp_all add: version_class_def version_entry_def MAX_COLLECTION_LENGTH_def fits.intros)
  have amount: "fits version_class (AUnion [ADecimal, ANone]) (PyDecimal (Dec (- 1205) (- 3)))"
    by (intro fits.intros) (simp add: normal_decimal_def)
  have tags: "fits version_class (ATuple AStr) (PyTuple [PyStr ''a b'', PyStr [CHR 0x22, CHR 0x0A]])"
    by (rule tuple_fits) (auto intro: fits.intros)
  show ?thesis unfolding sample_stamped_def
    by (intro model_fitsI [of _ _ stamped_entry])
      (simp_all add: version_class_def stamped_entry_def MAX_COLLECTION_LENGTH_def version amount tags datetime_fits)
qed

text \<open>C26: the canonical text is faithful.  Two values have the same canonical JSON text exactly
  when their trees agree up to the order of object members; so equal digest inputs mean equal
  values of the boundary, and the order in which a mapping was built does not matter.\<close>

theorem canonical_text_faithful:
  assumes "py_ok v" and "py_ok w" and "canonical_json m v = Inr s" and "canonical_json m w = Inr t"
  shows "(s = t) = (\<exists>j k. to_primitive v = Inr j \<and> to_primitive w = Inr k \<and> canonical j = canonical k)"
proof -
  from assms(3) obtain j where j: "to_primitive v = Inr j" by (rule canonical_json_InrD)
  from assms(4) obtain k where k: "to_primitive w = Inr k" by (rule canonical_json_InrD)
  have "s = t \<Longrightarrow> canonical j = canonical k"
    using canonical_json_tree [OF assms(3,1) j] canonical_json_tree [OF assms(4,2) k] by simp
  moreover have "canonical j = canonical k \<Longrightarrow> s = t"
    using canonical_json_determined [OF j k assms(1,2), of m] assms(3,4) by simp
  ultimately show ?thesis using j k by auto
qed

theorem canonical_text_faithful_witness:
  "\<exists>s t. canonical_json 100 (PyMap [(Some ''b'', PyInt 1), (Some ''a'', PyNone)]) = Inr s
     \<and> canonical_json 100 (PyMap [(Some ''a'', PyNone), (Some ''b'', PyInt 1)]) = Inr t \<and> s = t"
proof -
  have v: "canonical_json 100 (PyMap [(Some ''b'', PyInt 1), (Some ''a'', PyNone)]) = Inr (json_dumps (JObj [(''b'', JInt 1), (''a'', JNull)]))"
    and w: "canonical_json 100 (PyMap [(Some ''a'', PyNone), (Some ''b'', PyInt 1)]) = Inr (json_dumps (JObj [(''b'', JInt 1), (''a'', JNull)]))"
    by code_simp+
  have "py_ok (PyMap [(Some ''b'', PyInt 1), (Some ''a'', PyNone)])"
    "py_ok (PyMap [(Some ''a'', PyNone), (Some ''b'', PyInt 1)])" by simp_all
  from canonical_text_faithful [OF this v w] v w show ?thesis by auto
qed

text \<open>C4: stored values read back.  A value that fits the fields and checks of its class is
  decoded from its own canonical text to exactly itself, by a reader that admits at least as
  many bytes as the writer, whatever unions, tuples and nested classes it is built from.\<close>

theorem stored_value_reads_back:
  assumes "reads_iso fi" and "fits C (AModel c) v" and "canonical_json m v = Inr t" and "m \<le> m'"
  shows "from_json fi C c m' t = Inr v"
  using assms by (rule from_json_fitting)

theorem stored_value_reads_back_witness:
  "\<exists>t. canonical_json 1000 sample_stamped = Inr t
     \<and> from_json parse_iso version_class ''Stamped'' 1000 t = Inr sample_stamped"
proof -
  have "\<not> isl (canonical_json 1000 sample_stamped)" by code_simp
  then obtain t where t: "canonical_json 1000 sample_stamped = Inr t" by (cases "canonical_json 1000 sample_stamped") auto
  from stored_value_reads_back [OF reads_iso_parse sample_stamped_fits t order_refl] t show ?thesis by blast
qed

end
