(* ===== verification/Operation_Laws.thy ===== *)
theory Operation_Laws
  imports Operation_Store Serialization_Laws Samples
begin

text \<open>
  The operation store as a machine: every command appends one queued row or moves
  rows along the edges below, so a terminal row never changes again and a started
  call is never cancelled or started a second time.
\<close>

section \<open>Changes of the table\<close>

definition op_edges :: "(operation_state \<times> operation_state) list" where
  "op_edges =
    [(QUEUED, IN_FLIGHT), (QUEUED, CANCELLED_BEFORE_START),
     (IN_FLIGHT, CLIENT_TIMED_OUT), (IN_FLIGHT, ENGINE_UNRESPONSIVE), (CLIENT_TIMED_OUT, ENGINE_UNRESPONSIVE),
     (IN_FLIGHT, COMPLETED_OPERATION), (IN_FLIGHT, COMPLETED_AFTER_CLIENT_TIMEOUT),
     (CLIENT_TIMED_OUT, COMPLETED_AFTER_CLIENT_TIMEOUT), (ENGINE_UNRESPONSIVE, RECONCILIATION_NEEDED),
     (IN_FLIGHT, FAILED_OPERATION), (CLIENT_TIMED_OUT, FAILED_OPERATION),
     (IN_FLIGHT, RECONCILIATION_NEEDED), (CLIENT_TIMED_OUT, RECONCILIATION_NEEDED)]"

definition same_operation :: "op_row \<Rightarrow> op_row \<Rightarrow> bool" where
  "same_operation r r' \<longleftrightarrow> or_sequence r' = or_sequence r \<and> or_operation_id r' = or_operation_id r
     \<and> or_idempotency_key r' = or_idempotency_key r \<and> or_handler_name r' = or_handler_name r
     \<and> or_payload_json r' = or_payload_json r \<and> or_admitted_at_ns r' = or_admitted_at_ns r
     \<and> or_queue_deadline_at_ns r' = or_queue_deadline_at_ns r
     \<and> or_client_deadline_at_ns r' = or_client_deadline_at_ns r
     \<and> or_engine_health_threshold_ms r' = or_engine_health_threshold_ms r"

text \<open>The texts of a row decode.\<close>

definition row_readable :: "op_row \<Rightarrow> bool" where
  "row_readable r \<longleftrightarrow> json_loads (or_payload_json r) \<noteq> None
     \<and> (\<forall>t. or_result_json r = Some t \<longrightarrow> json_loads t \<noteq> None) \<and> (\<forall>t. or_error_json r = Some t \<longrightarrow> json_loads t \<noteq> None)"

lemma row_readable_simps [simp]:
  "row_readable (r\<lparr>or_state := s\<rparr>) = row_readable r"
  "row_readable (r\<lparr>or_version := n\<rparr>) = row_readable r"
  "row_readable (r\<lparr>or_started_at_ns := x\<rparr>) = row_readable r"
  "row_readable (r\<lparr>or_finished_at_ns := x\<rparr>) = row_readable r"
  "json_loads t \<noteq> None \<Longrightarrow> row_readable r \<Longrightarrow> row_readable (r\<lparr>or_result_json := Some t\<rparr>)"
  "json_loads t \<noteq> None \<Longrightarrow> row_readable r \<Longrightarrow> row_readable (r\<lparr>or_error_json := Some t\<rparr>)"
  by (simp_all add: row_readable_def)

definition legal_move :: "op_row \<Rightarrow> op_row \<Rightarrow> bool" where
  "legal_move r r' \<longleftrightarrow> same_operation r r' \<and> (or_state r, or_state r') \<in> set op_edges
     \<and> or_version r' = or_version r + 1 \<and> (row_readable r \<longrightarrow> row_readable r')
     \<and> (if or_state r' = IN_FLIGHT then or_started_at_ns r' \<noteq> None else or_started_at_ns r' = or_started_at_ns r)
     \<and> (if or_state r' \<in> set TERMINAL_STATES then or_finished_at_ns r' \<noteq> None
        else or_finished_at_ns r' = or_finished_at_ns r)"

definition fresh_operation :: "op_db \<Rightarrow> op_row \<Rightarrow> bool" where
  "fresh_operation d r \<longleftrightarrow> or_state r = QUEUED \<and> or_sequence r = Suc (op_last_sequence d)
     \<and> \<not> has_key or_operation_id (or_operation_id r) (op_rows d)
     \<and> \<not> has_key or_idempotency_key (or_idempotency_key r) (op_rows d)
     \<and> or_started_at_ns r = None \<and> or_finished_at_ns r = None \<and> or_version r = 0 \<and> row_readable r"

inductive op_change :: "op_db \<Rightarrow> op_db \<Rightarrow> bool" where
  admitted: "fresh_operation d r
    \<Longrightarrow> op_change d (d\<lparr>op_rows := op_rows d @ [r], op_last_sequence := or_sequence r\<rparr>)"
| moved: "(\<And>r. r \<in> set (op_rows d) \<Longrightarrow> f r = r \<or> legal_move r (f r))
    \<Longrightarrow> op_change d (d\<lparr>op_rows := map f (op_rows d)\<rparr>)"

inductive_cases op_changeE: "op_change d d'"

lemma op_change_refl: "op_change d d"
  using op_change.moved [of d id] by simp

lemma update_where_map: "update_where p f rows = map (\<lambda>r. if p r then f r else r) rows"
  by (simp add: update_where_def)

lemma update_change:
  assumes "\<And>r. r \<in> set (op_rows d) \<Longrightarrow> p r \<Longrightarrow> legal_move r (f r)"
  shows "op_change d (d\<lparr>op_rows := update_where p f (op_rows d)\<rparr>)"
  unfolding update_where_map using assms by (intro op_change.moved) auto

lemma finish_all_change:
  assumes "\<And>r. p r \<Longrightarrow> (or_state r, t) \<in> set op_edges" "t \<in> set TERMINAL_STATES"
  shows "op_change d (finish_all p t now d)"
  unfolding finish_all_def using assms
  by (intro update_change) (auto simp: legal_move_def same_operation_def TERMINAL_STATES_def)

lemma update_operation_InrD:
  "update_operation i states f e d = Inr (r, d') \<Longrightarrow>
     d' = d\<lparr>op_rows := update_where (row_in i states) f (op_rows d)\<rparr>
     \<and> rowcount (row_in i states) (op_rows d) = 1 \<and> op_get i d' = Inr r"
  by (auto simp: update_operation_def Let_def attempt_Inr_iff split: if_splits)

lemma at_time_cases: "P (f d) \<Longrightarrow> P (Inl OpOverflowError, d) \<Longrightarrow> P (at_time now f d)"
  by (simp add: at_time_def)

lemma snd_at_time: "snd (at_time now f d) = (if sqlite_int now then snd (f d) else d)"
  by (simp add: at_time_def)

lemma op_transition_change:
  assumes "\<And>s. s \<in> set expected \<Longrightarrow> (s, target) \<in> set op_edges"
    and "\<And>r. same_operation r (upd r) \<and> or_state (upd r) = or_state r \<and> or_version (upd r) = or_version r"
    and "\<And>r. if target = IN_FLIGHT then or_started_at_ns (upd r) \<noteq> None else or_started_at_ns (upd r) = or_started_at_ns r"
    and "\<And>r. if target \<in> set TERMINAL_STATES then or_finished_at_ns (upd r) \<noteq> None
               else or_finished_at_ns (upd r) = or_finished_at_ns r"
    and "\<And>r. row_readable r \<Longrightarrow> row_readable (upd r)"
  shows "op_change d (snd (op_transition i expected target upd d))"
  unfolding op_transition_def
proof (rule transaction_cases)
  fix r d'
  assume "update_operation i expected (\<lambda>r. upd (r\<lparr>or_state := target, or_version := or_version r + 1\<rparr>))
      (transition_error ''transition'' ('' to '' @ operation_state_value target) i d) d = Inr (r, d')"
  note d' = update_operation_InrD [OF this]
  show "op_change d d'" unfolding conjunct1 [OF d']
  proof (rule update_change)
    fix r assume "row_in i expected r"
    then have "(or_state r, target) \<in> set op_edges" using assms(1) by (simp add: row_in_def)
    then show "legal_move r (upd (r\<lparr>or_state := target, or_version := or_version r + 1\<rparr>))"
      using assms(2-5) [of "r\<lparr>or_state := target, or_version := or_version r + 1\<rparr>"]
      by (auto simp: legal_move_def same_operation_def)
  qed
qed (rule op_change_refl)

lemma completion_edge:
  "or_state r \<in> set UNRESOLVED_STATES \<Longrightarrow>
     (or_state r, completion_state now r) \<in> set op_edges \<and> completion_state now r \<in> set TERMINAL_STATES
     \<and> completion_state now r \<noteq> IN_FLIGHT"
  by (cases "or_state r") (simp_all add: completion_state_def UNRESOLVED_STATES_def op_edges_def TERMINAL_STATES_def)

lemma op_complete_change: "op_change d (snd (op_complete m i v now d))"
proof (cases "map_error OpSerialization (canonical_json m v)")
  case (Inr t)
  then have readable: "json_loads t \<noteq> None" using canonical_json_readable by (auto simp: map_error_Inr_iff)
  let ?f = "\<lambda>r. r\<lparr>or_state := completion_state now r, or_result_json := Some t,
      or_finished_at_ns := Some now, or_version := or_version r + 1\<rparr>"
  have "op_change d (snd (transaction (\<lambda>d. update_operation i UNRESOLVED_STATES ?f
      (transition_error ''complete'' [] i d) d) d))"
  proof (rule transaction_cases)
    fix r d' assume "update_operation i UNRESOLVED_STATES ?f (transition_error ''complete'' [] i d) d = Inr (r, d')"
    note d' = update_operation_InrD [OF this]
    show "op_change d d'" unfolding conjunct1 [OF d']
      using completion_edge readable
      by (intro update_change) (simp add: row_in_def legal_move_def same_operation_def)
  qed (rule op_change_refl)
  with Inr show ?thesis by (simp add: op_complete_def snd_at_time op_change_refl)
qed (simp add: op_complete_def op_change_refl)

text \<open>An admission returns the row of its key, or appends a queued one.\<close>

lemma op_admit_cases:
  obtains (unchanged) "snd (op_admit m i h p k q c e now d) = d"
  | (fresh) t where "fresh_operation d (admitted_row (Suc (op_last_sequence d)) i k h t now q c e)"
    "canonical_json m p = Inr t"
    "snd (op_admit m i h p k q c e now d) = d\<lparr>op_rows := op_rows d
        @ [admitted_row (Suc (op_last_sequence d)) i k h t now q c e], op_last_sequence := Suc (op_last_sequence d)\<rparr>"
proof (cases "checked (validate_identity h k) (checked (positive_deadlines q c e)
    (map_error OpSerialization (canonical_json m p)))")
  case (Inl x)
  then show thesis by (intro unchanged) (simp add: op_admit_def)
next
  case (Inr t)
  then have t: "canonical_json m p = Inr t" by (auto simp: checked_Inr_iff map_error_Inr_iff)
  let ?row = "admitted_row (Suc (op_last_sequence d)) i k h t now q c e"
  show thesis
  proof (cases "op_by_key k d")
    case (Some r)
    with Inr show thesis
      by (intro unchanged) (auto simp: op_admit_def transaction_def attempt_def split: sum.splits)
  next
    case None
    then have key: "\<not> has_key or_idempotency_key k (op_rows d)" by (simp add: op_by_key_def lookup_row_None_iff)
    show thesis
    proof (cases "insert_operation ?row d")
      case (Inl x)
      with Inr None show thesis
        by (intro unchanged) (auto simp: op_admit_def transaction_def checked_def Let_def split: option.splits)
    next
      case ins: (Inr d1)
      then have "d1 = d\<lparr>op_rows := op_rows d @ [?row], op_last_sequence := Suc (op_last_sequence d)\<rparr>"
        "\<not> has_key or_operation_id i (op_rows d)"
        by (auto simp: insert_operation_def admitted_row_def split: if_splits)
      moreover from this(2) key canonical_json_readable [OF t] have "fresh_operation d ?row"
        by (simp add: fresh_operation_def admitted_row_def row_readable_def)
      moreover have "snd (op_admit m i h p k q c e now d) \<in> {d, d1}"
        using Inr None ins
        by (auto simp: op_admit_def transaction_def checked_def Let_def attempt_def split: option.splits sum.splits)
      ultimately show thesis using unchanged fresh [of t] t by blast
    qed
  qed
qed

lemma op_admit_change: "op_change d (snd (op_admit m i h p k q c e now d))"
proof (cases rule: op_admit_cases [of m i h p k q c e now d])
  case (fresh t)
  with op_change.admitted [OF fresh(1)] show ?thesis by (simp add: admitted_row_def)
qed (simp add: op_change_refl)

lemma operation_step_change: "op_change d (operation_step m d c)"
proof (cases c)
  case (Admit i h p k q cl e now)
  then show ?thesis by (simp add: op_admit_change)
next
  case (Complete i v now)
  then show ?thesis by (simp add: op_complete_change)
next
  case (Fail i v now)
  then show ?thesis
    by (auto simp: op_fail_def snd_at_time op_change_refl op_edges_def TERMINAL_STATES_def same_operation_def map_error_Inr_iff
        split: sum.splits intro!: op_transition_change dest!: canonical_json_readable)
next
  case (RequireReconciliation i v now)
  then show ?thesis
    by (auto simp: op_require_reconciliation_def snd_at_time op_change_refl op_edges_def TERMINAL_STATES_def
        UNRESOLVED_STATES_def same_operation_def split: sum.splits intro!: op_transition_change dest!: canonical_json_readable)
next
  case (ReconcileOrphans now)
  then show ?thesis
    by (auto simp: op_reconcile_orphans_def snd_at_time op_change_refl Let_def TERMINAL_STATES_def UNRESOLVED_STATES_def
        op_edges_def transaction_def intro!: finish_all_change)
next
  case (CancelExpiredQueued now)
  then show ?thesis
    by (auto simp: op_cancel_expired_queued_def snd_at_time op_change_refl Let_def TERMINAL_STATES_def
        op_edges_def transaction_def intro!: finish_all_change)
next
  case (CancelAllQueued now)
  then show ?thesis
    by (auto simp: op_cancel_all_queued_def snd_at_time op_change_refl TERMINAL_STATES_def
        op_edges_def transaction_def intro!: finish_all_change)
qed (auto simp: op_start_def op_cancel_before_start_def op_mark_client_timed_out_def op_mark_engine_unresponsive_def
    snd_at_time op_change_refl op_edges_def TERMINAL_STATES_def same_operation_def
    intro!: op_transition_change)

section \<open>The invariant\<close>

definition row_stamps :: "op_row \<Rightarrow> bool" where
  "row_stamps r \<longleftrightarrow> (or_started_at_ns r = None) = (or_state r \<in> {QUEUED, CANCELLED_BEFORE_START})
     \<and> (or_finished_at_ns r \<noteq> None) = (or_state r \<in> set TERMINAL_STATES) \<and> row_readable r"

definition op_inv :: "op_db \<Rightarrow> bool" where
  "op_inv d \<longleftrightarrow> unique_key or_operation_id (op_rows d) \<and> unique_key or_idempotency_key (op_rows d)
     \<and> sorted_wrt (<) (map or_sequence (op_rows d)) \<and> (\<forall>r \<in> set (op_rows d). or_sequence r \<le> op_last_sequence d)
     \<and> (\<forall>r \<in> set (op_rows d). row_stamps r)"

lemma edge_facts:
  "(s, t) \<in> set op_edges \<Longrightarrow> s \<notin> set TERMINAL_STATES \<and> t \<noteq> QUEUED \<and> (t = IN_FLIGHT \<or> t = CANCELLED_BEFORE_START) = (s = QUEUED)"
  by (auto simp: op_edges_def TERMINAL_STATES_def)

lemma terminal_cancelled: "CANCELLED_BEFORE_START \<in> set TERMINAL_STATES" "IN_FLIGHT \<notin> set TERMINAL_STATES"
  "QUEUED \<notin> set TERMINAL_STATES"
  by (simp_all add: TERMINAL_STATES_def)

lemma legal_move_stamps: "legal_move r r' \<Longrightarrow> row_stamps r \<Longrightarrow> row_stamps r'"
  using edge_facts [of "or_state r" "or_state r'"] terminal_cancelled
  by (auto simp: legal_move_def row_stamps_def split: if_splits)

lemma op_change_inv: "op_change d d' \<Longrightarrow> op_inv d \<Longrightarrow> op_inv d'"
proof (induction rule: op_change.induct)
  case (admitted d r)
  then show ?case
    by (auto simp: op_inv_def fresh_operation_def unique_key_snoc sorted_wrt_append row_stamps_def TERMINAL_STATES_def)
next
  case (moved d f)
  have same: "r \<in> set (op_rows d) \<Longrightarrow> same_operation r (f r)" for r
    using moved(1) [of r] by (auto simp: legal_move_def same_operation_def)
  have keys: "map or_operation_id (map f (op_rows d)) = map or_operation_id (op_rows d)"
    "map or_idempotency_key (map f (op_rows d)) = map or_idempotency_key (op_rows d)"
    "map or_sequence (map f (op_rows d)) = map or_sequence (op_rows d)"
    using same by (auto simp: same_operation_def)
  have "or_sequence (f r) \<le> op_last_sequence d \<and> row_stamps (f r)" if "r \<in> set (op_rows d)" for r
    using moved(1) [OF that] moved(2) that same [OF that] legal_move_stamps [of r "f r"]
    by (auto simp: op_inv_def same_operation_def)
  with moved(2) keys show ?case by (simp add: op_inv_def unique_key_def del: map_map)
qed

interpretation operation_machine: invariant_machine "operation_step m" op_inv
  by unfold_locales (rule op_change_inv [OF operation_step_change])

lemma op_inv_empty [simp]: "op_inv \<lparr>op_rows = [], op_last_sequence = n\<rparr>"
  by (simp add: op_inv_def)

section \<open>What no command undoes\<close>

text \<open>A row once written stays, and only moves along the edges.\<close>

inductive descends :: "op_row \<Rightarrow> op_row \<Rightarrow> bool" where
  here: "descends r r"
| later: "descends r r' \<Longrightarrow> legal_move r' r'' \<Longrightarrow> descends r r''"

lemma op_change_descends:
  "op_change d d' \<Longrightarrow> r \<in> set (op_rows d) \<Longrightarrow> \<exists>r' \<in> set (op_rows d'). r' = r \<or> legal_move r r'"
  by (induction rule: op_change.induct) auto

lemma run_descends: "r \<in> set (op_rows d) \<Longrightarrow> \<exists>r' \<in> set (op_rows (run_ops (operation_step m) d cs)). descends r r'"
proof (induction cs arbitrary: d rule: rev_induct)
  case (snoc c cs)
  then obtain r' where "r' \<in> set (op_rows (run_ops (operation_step m) d cs))" "descends r r'" by blast
  with op_change_descends [OF operation_step_change, of r' "run_ops (operation_step m) d cs" m c]
  show ?case by (auto simp: run_ops_append intro: descends.later)
qed (auto intro: descends.here)

lemma descends_same: "descends r r' \<Longrightarrow> same_operation r r'"
  by (induction rule: descends.induct) (auto simp: same_operation_def legal_move_def)

lemma descends_terminal: "descends r r' \<Longrightarrow> or_state r \<in> set TERMINAL_STATES \<Longrightarrow> r' = r"
  by (induction rule: descends.induct) (auto simp: legal_move_def op_edges_def TERMINAL_STATES_def)

lemma descends_started:
  "descends r r' \<Longrightarrow> or_state r \<notin> {QUEUED, CANCELLED_BEFORE_START} \<Longrightarrow>
     or_state r' \<notin> {QUEUED, CANCELLED_BEFORE_START} \<and> or_started_at_ns r' = or_started_at_ns r"
  by (induction rule: descends.induct) (auto simp: legal_move_def op_edges_def)

section \<open>Reading, and admitting again\<close>

lemma readable_operation: "row_readable r \<Longrightarrow> \<exists>x. operation_of r = Inr x"
  by (auto simp: operation_of_def decode_json_def row_readable_def attempt_Inr_iff split: option.splits)

lemma operation_of_fields:
  "operation_of r = Inr x \<Longrightarrow> op_operation_id x = or_operation_id r \<and> op_handler_name x = or_handler_name r
     \<and> json_loads (or_payload_json r) = Some (op_payload x) \<and> op_state x = or_state r
     \<and> op_started_at_ns x = or_started_at_ns r \<and> op_queue_deadline_at_ns x = or_queue_deadline_at_ns r"
  by (auto simp: operation_of_def decode_json_def attempt_Inr_iff split: option.splits)

lemma py_of_json_primitive: "json_ok j \<Longrightarrow> json_sized j \<Longrightarrow> to_primitive (py_of_json j) = Inr j"
proof (induction j rule: json_ok.induct)
  case (2 xs)
  then have "collect (map (\<lambda>x. to_primitive (py_of_json x)) xs) = Inr (map (\<lambda>x. x) xs)"
    by (intro collect_map_Inr) simp
  with 2 show ?case by (simp add: comp_def)
next
  case (3 kvs)
  have entries: "map (\<lambda>(k, v). (case k of Some t \<Rightarrow> t | None \<Rightarrow> [], to_primitive v))
      (map (\<lambda>(k, v). (Some k, py_of_json v)) kvs) = map (\<lambda>m. (fst m, to_primitive (py_of_json (snd m)))) kvs"
    by (simp add: case_prod_unfold comp_def)
  have "collect_items [] (map (\<lambda>m. (fst m, to_primitive (py_of_json (snd m)))) kvs) = Inr kvs"
    using 3 by (intro collect_items_distinct [where f = "\<lambda>v. to_primitive (py_of_json v)"]) auto
  moreover have "\<not> list_ex (\<lambda>(k, v). k = None) (map (\<lambda>(k, v). (Some k, py_of_json v)) kvs)"
    by (auto simp: list_ex_iff)
  ultimately show ?case using 3(3) by (simp only: py_of_json.simps to_primitive.simps entries) simp
qed (simp_all add: nfc_def)

text \<open>A stored payload encodes to the text it was stored as.\<close>

lemma stored_payload_text:
  assumes "canonical_json m p = Inr t" "py_ok p" "json_loads t = Some j"
  shows "canonical_json m (py_of_json j) = Inr t"
proof -
  from assms(1) obtain k where k: "to_primitive p = Inr k" "t = json_dumps k" "utf8_length t \<le> m"
    by (rule canonical_json_InrD)
  note ok = to_primitive_ok [OF k(1) assms(2)] and sized = to_primitive_sized [OF k(1) assms(2)]
  have j: "j = canonical k" using canonical_json_tree [OF assms(1,2) k(1)] assms(3) by simp
  have "to_primitive (py_of_json j) = Inr j"
    unfolding j using ok sized by (intro py_of_json_primitive json_sized_canonical) simp_all
  moreover have "1 \<le> m" using assms(1) by (auto simp: canonical_json_def split: if_splits)
  ultimately show ?thesis using k json_dumps_canonical [OF ok] by (simp add: canonical_json_def j)
qed

text \<open>What an admission leaves for the next one with its key.\<close>

definition bound_to :: "nat \<Rightarrow> string \<Rightarrow> string \<Rightarrow> op_row \<Rightarrow> bool" where
  "bound_to m handler t r \<longleftrightarrow> or_handler_name r = handler
     \<and> (\<exists>j. json_loads (or_payload_json r) = Some j \<and> canonical_json m (py_of_json j) = Inr t)"

lemma op_admit_InrD:
  assumes "op_admit m i h p k q c e now d = (Inr (x, b), d')" "op_inv d" "py_ok p"
  obtains t r where "validate_identity h k = None" "canonical_json m p = Inr t" "r \<in> set (op_rows d')"
    "or_idempotency_key r = k" "bound_to m h t r" "op_operation_id x = or_operation_id r" "op_inv d'"
proof -
  from assms(1) obtain t where g: "validate_identity h k = None" "canonical_json m p = Inr t"
    by (auto simp: op_admit_def checked_Inr_iff map_error_Inr_iff split: sum.splits)
  have inv: "op_inv d'"
    using operation_machine.step_inv [OF assms(2), of m "Admit i h p k q c e now"] assms(1) by simp
  show thesis
  proof (cases "op_by_key k d")
    case (Some r)
    with assms(1) have "operation_of r = Inr x" "d' = d" "op_handler_name x = h"
      "canonical_json m (py_of_json (op_payload x)) = Inr t"
      using g by (auto simp: op_admit_def checked_Inr_iff map_error_Inr_iff transaction_Inr_iff attempt_Inr_iff
          split: sum.splits if_splits)
    with operation_of_fields [of r x] lookup_row_SomeD [OF Some [unfolded op_by_key_def]] g inv show thesis
      by (intro that [of t r]) (auto simp: bound_to_def)
  next
    case None
    let ?row = "admitted_row (Suc (op_last_sequence d)) i k h t now q c e"
    from None assms(1) g have "operation_of ?row = Inr x" "op_rows d' = op_rows d @ [?row]"
      by (auto simp: op_admit_def checked_Inr_iff map_error_Inr_iff transaction_Inr_iff attempt_Inr_iff Let_def
          insert_operation_def split: sum.splits if_splits)
    with operation_of_fields [of ?row x] stored_payload_text [OF g(2) assms(3)] g inv show thesis
      by (intro that [of t ?row]) (auto simp: bound_to_def admitted_row_def)
  qed
qed

lemma bound_to_descends: "bound_to m h t r \<Longrightarrow> descends r r' \<Longrightarrow> bound_to m h t r'"
  using descends_same [of r r'] by (auto simp: bound_to_def same_operation_def)

lemma op_admit_again:
  assumes "validate_identity h k = None" "positive_deadlines q c e = None" "canonical_json m p = Inr t"
    and "r \<in> set (op_rows d)" "or_idempotency_key r = k" "bound_to m h t r" "op_inv d"
  shows "\<exists>x. op_admit m i h p k q c e now d = (Inr (x, False), d) \<and> op_operation_id x = or_operation_id r"
proof -
  have row: "op_by_key k d = Some r"
    using assms lookup_row_unique [of or_idempotency_key "op_rows d" r] by (auto simp: op_by_key_def op_inv_def)
  have "row_readable r" using assms by (auto simp: op_inv_def row_stamps_def)
  then obtain x where x: "operation_of r = Inr x" using readable_operation by blast
  with operation_of_fields [OF x] assms row show ?thesis
    by (auto simp: op_admit_def bound_to_def transaction_def)
qed

section \<open>Sample arguments\<close>

definition sample_op_db :: op_db where
  "sample_op_db = run_ops (operation_step 1000) \<lparr>op_rows = [], op_last_sequence = 0\<rparr>
     [Admit ''op-1'' ''read'' (PyMap [(Some ''b'', PyInt 1), (Some ''a'', PyNone)]) ''key-1'' 10 20 30 1000,
      Admit ''op-2'' ''read'' PyNone ''key-2'' 10 20 30 2000,
      Start ''op-1'' 3000]"

lemma op_inv_sample [simp]: "op_inv sample_op_db"
  unfolding sample_op_db_def by (rule operation_machine.run_inv) simp

lemma sample_op_rows:
  "map (\<lambda>r. (or_operation_id r, or_state r)) (op_rows sample_op_db) = [(''op-1'', IN_FLIGHT), (''op-2'', QUEUED)]"
  by code_simp

text \<open>C12: a started call is kept.  Whatever commands the operation store executes, an operation
  that has started keeps its identity and its start, is never queued, cancelled or started
  again, and once its outcome is recorded its row never changes any more.\<close>

theorem started_operation_is_kept:
  assumes "r \<in> set (op_rows d)" and "or_state r \<notin> {QUEUED, CANCELLED_BEFORE_START}"
  shows "\<exists>r' \<in> set (op_rows (run_ops (operation_step m) d cs)).
    same_operation r r' \<and> or_started_at_ns r' = or_started_at_ns r
    \<and> or_state r' \<notin> {QUEUED, CANCELLED_BEFORE_START} \<and> (or_state r \<in> set TERMINAL_STATES \<longrightarrow> r' = r)"
  using run_descends [OF assms(1), of m cs] descends_same descends_started [OF _ assms(2)] descends_terminal by blast

theorem started_operation_is_kept_witness:
  "\<exists>r' \<in> set (op_rows (run_ops (operation_step 1000) sample_op_db [CancelAllQueued 5, ReconcileOrphans 6])).
     or_operation_id r' = ''op-1'' \<and> or_state r' \<notin> {QUEUED, CANCELLED_BEFORE_START}"
proof -
  obtain r where "r \<in> set (op_rows sample_op_db)" "or_operation_id r = ''op-1''" "or_state r = IN_FLIGHT"
    using sample_op_rows by (cases "op_rows sample_op_db") auto
  with started_operation_is_kept [of r sample_op_db 1000 "[CancelAllQueued 5, ReconcileOrphans 6]"]
  show ?thesis by (auto simp: same_operation_def)
qed

definition restarted_row :: "int \<Rightarrow> int \<Rightarrow> op_row \<Rightarrow> op_row" where
  "restarted_row t t' r =
     (if or_state r \<in> set UNRESOLVED_STATES
      then r\<lparr>or_state := RECONCILIATION_NEEDED, or_finished_at_ns := Some t, or_version := or_version r + 1\<rparr>
      else if or_state r = QUEUED
      then r\<lparr>or_state := CANCELLED_BEFORE_START, or_finished_at_ns := Some t', or_version := or_version r + 1\<rparr>
      else r)"

lemma operation_states_covered:
  "or_state r \<in> set TERMINAL_STATES \<or> or_state r \<in> set UNRESOLVED_STATES \<or> or_state r = QUEUED"
  by (cases "or_state r") (simp_all add: TERMINAL_STATES_def UNRESOLVED_STATES_def)

text \<open>restart.  Reconciling orphans and cancelling what is queued, as a new owner does before
  it admits anything, leaves every operation terminal: an unresolved call requires
  reconciliation, a queued one is cancelled and keeps having no start, and the rows of the other
  operations are not touched.\<close>

theorem restart_resolves_every_operation:
  assumes "sqlite_int t" and "sqlite_int t'"
  shows "run_ops (operation_step m) d [ReconcileOrphans t, CancelAllQueued t']
      = d\<lparr>op_rows := map (restarted_row t t') (op_rows d)\<rparr>
    \<and> (\<forall>r \<in> set (op_rows d). or_state (restarted_row t t' r) \<in> set TERMINAL_STATES)"
proof -
  have "update_where (\<lambda>r. or_state r = QUEUED)
      (\<lambda>r. r\<lparr>or_state := CANCELLED_BEFORE_START, or_finished_at_ns := Some t', or_version := or_version r + 1\<rparr>)
      (update_where (\<lambda>r. or_state r \<in> set UNRESOLVED_STATES)
        (\<lambda>r. r\<lparr>or_state := RECONCILIATION_NEEDED, or_finished_at_ns := Some t, or_version := or_version r + 1\<rparr>) rows)
     = map (restarted_row t t') rows" for rows
    by (induction rows) (auto simp: update_where_def restarted_row_def UNRESOLVED_STATES_def)
  moreover have "or_state (restarted_row t t' r) \<in> set TERMINAL_STATES" for r
    using operation_states_covered [of r] by (auto simp: restarted_row_def TERMINAL_STATES_def)
  ultimately show ?thesis
    using assms by (simp add: op_reconcile_orphans_def op_cancel_all_queued_def at_time_def transaction_def Let_def
        finish_all_def)
qed

theorem restart_resolves_every_operation_witness:
  "map or_state (op_rows (run_ops (operation_step 1000) sample_op_db [ReconcileOrphans 10, CancelAllQueued 11]))
     = [RECONCILIATION_NEEDED, CANCELLED_BEFORE_START]"
proof -
  have t: "sqlite_int 10" "sqlite_int 11" by (simp_all add: sqlite_int_def)
  have "map or_state (map (restarted_row 10 11) (op_rows sample_op_db)) = [RECONCILIATION_NEEDED, CANCELLED_BEFORE_START]"
    by code_simp
  with restart_resolves_every_operation [OF t, of 1000 sample_op_db] show ?thesis by simp
qed

text \<open>C25: an idempotency key names one operation.  Once an admission has returned, the same
  request under its key, at any later time and in whatever state the operation then is, returns
  that operation, reports that nothing was created, and changes nothing; another handler or
  another payload under the key is refused.\<close>

theorem idempotency_key_names_one_operation:
  assumes "op_inv d" and "py_ok p" and "op_admit m i h p k q c e now d = (Inr (x, fresh), d1)"
    and "positive_deadlines q' c' e' = None"
  shows "(\<exists>y. op_admit m i' h p k q' c' e' now' (run_ops (operation_step m) d1 cs)
        = (Inr (y, False), run_ops (operation_step m) d1 cs) \<and> op_operation_id y = op_operation_id x)
    \<and> (\<forall>h' p' y b. h' \<noteq> h \<or> canonical_json m p' \<noteq> canonical_json m p \<longrightarrow>
        fst (op_admit m i' h' p' k q' c' e' now' (run_ops (operation_step m) d1 cs)) \<noteq> Inr (y, b))"
proof -
  let ?d = "run_ops (operation_step m) d1 cs"
  obtain t r where g: "validate_identity h k = None" "canonical_json m p = Inr t" and r: "r \<in> set (op_rows d1)"
    "or_idempotency_key r = k" "bound_to m h t r" "op_operation_id x = or_operation_id r" and inv: "op_inv d1"
    using op_admit_InrD [OF assms(3,1,2)] by blast
  obtain r' where r': "r' \<in> set (op_rows ?d)" "descends r r'" using run_descends [OF r(1)] by blast
  note same = descends_same [OF r'(2)] and bound = bound_to_descends [OF r(3) r'(2)]
  have inv': "op_inv ?d" using inv by (rule operation_machine.run_inv)
  have key: "or_idempotency_key r' = k" using same r(2) by (simp add: same_operation_def)
  have "\<exists>y. op_admit m i' h p k q' c' e' now' ?d = (Inr (y, False), ?d) \<and> op_operation_id y = op_operation_id x"
    using op_admit_again [OF g(1) assms(4) g(2) r'(1) key bound inv'] same r(4) by (auto simp: same_operation_def)
  moreover have "fst (op_admit m i' h' p' k q' c' e' now' ?d) \<noteq> Inr (y, b)"
    if "h' \<noteq> h \<or> canonical_json m p' \<noteq> canonical_json m p" for h' p' y b
  proof -
    have row: "op_by_key k ?d = Some r'"
      using inv' r'(1) key lookup_row_unique [of or_idempotency_key "op_rows ?d" r'] by (auto simp: op_by_key_def op_inv_def)
    show ?thesis
      using that row bound g(2) operation_of_fields [of r']
      by (auto simp: op_admit_def transaction_def bound_to_def attempt_def checked_Inr_iff map_error_Inr_iff
          split: sum.splits if_splits)
  qed
  ultimately show ?thesis by blast
qed

theorem idempotency_key_names_one_operation_witness:
  "\<exists>y. op_admit 1000 ''op-9'' ''read'' PyNone ''key-3'' 1 1 1 9000
       (run_ops (operation_step 1000) (snd (op_admit 1000 ''op-3'' ''read'' PyNone ''key-3'' 10 20 30 4000 sample_op_db))
          [Start ''op-3'' 5000])
     = (Inr (y, False), run_ops (operation_step 1000)
          (snd (op_admit 1000 ''op-3'' ''read'' PyNone ''key-3'' 10 20 30 4000 sample_op_db)) [Start ''op-3'' 5000])"
proof -
  let ?a = "op_admit 1000 ''op-3'' ''read'' PyNone ''key-3'' 10 20 30 4000 sample_op_db"
  have "\<not> isl (fst ?a)" by code_simp
  then obtain x b where a: "?a = (Inr (x, b), snd ?a)" by (cases ?a; cases "fst ?a") auto
  have "positive_deadlines 1 1 1 = None" by code_simp
  from idempotency_key_names_one_operation [OF op_inv_sample _ a this, of "''op-9''" 9000 "[Start ''op-3'' 5000]"]
  show ?thesis by auto
qed

text \<open>completion.  Recording the result of a call, at a time the database can hold and with a
  result that encodes, succeeds exactly for a started call without an outcome.  Its new state
  tells apart a result in time, a result after the client's deadline, and a result that arrived
  after the engine had been declared unresponsive, which is never reported as completed.\<close>

theorem completion_outcome:
  assumes "op_inv d" and "op_by_id i d = Some r" and "canonical_json m v = Inr t" and "sqlite_int now"
  shows "if or_state r \<in> set UNRESOLVED_STATES
    then \<exists>x. op_complete m i v now d = (Inr x, d\<lparr>op_rows := map (\<lambda>s. if s = r
            then r\<lparr>or_state := op_state x, or_result_json := Some t, or_finished_at_ns := Some now,
                  or_version := or_version r + 1\<rparr> else s) (op_rows d)\<rparr>)
        \<and> op_state x = (if or_state r = ENGINE_UNRESPONSIVE then RECONCILIATION_NEEDED
            else if or_state r = IN_FLIGHT \<and> now < or_client_deadline_at_ns r then COMPLETED_OPERATION
            else COMPLETED_AFTER_CLIENT_TIMEOUT)
    else \<exists>w. op_complete m i v now d = (Inl (InvalidOperationTransitionError w), d)"
proof -
  note rD = lookup_row_SomeD [OF assms(2) [unfolded op_by_id_def]]
  let ?f = "\<lambda>r. r\<lparr>or_state := completion_state now r, or_result_json := Some t, or_finished_at_ns := Some now,
      or_version := or_version r + 1\<rparr>"
  let ?d = "d\<lparr>op_rows := update_where (row_in i UNRESOLVED_STATES) ?f (op_rows d)\<rparr>"
  have unique: "unique_key or_operation_id (op_rows d)" using assms(1) by (simp add: op_inv_def)
  have only: "s \<in> set (op_rows d) \<Longrightarrow> or_operation_id s = i \<longleftrightarrow> s = r" for s
    using unique_keyD [OF unique, of s r] rD by auto
  have count: "rowcount (row_in i UNRESOLVED_STATES) (op_rows d) = (if or_state r \<in> set UNRESOLVED_STATES then 1 else 0)"
    unfolding row_in_def using rowcount_key [OF unique, of i "\<lambda>s. or_state s \<in> set UNRESOLVED_STATES"]
      assms(2) [unfolded op_by_id_def] by simp
  show ?thesis
  proof (cases "or_state r \<in> set UNRESOLVED_STATES")
    case False
    with assms count show ?thesis
      by (simp add: op_complete_def at_time_def transaction_def update_operation_def Let_def transition_error_def)
  next
    case True
    have rows: "update_where (row_in i UNRESOLVED_STATES) ?f (op_rows d) = map (\<lambda>s. if s = r then ?f r else s) (op_rows d)"
      unfolding update_where_map using only True rD by (auto simp: row_in_def)
    have "row_readable (?f r)"
      using assms(1) rD canonical_json_readable [OF assms(3)] by (auto simp: op_inv_def row_stamps_def)
    then obtain x where x: "operation_of (?f r) = Inr x" using readable_operation by blast
    have "unique_key or_operation_id (op_rows ?d)" using unique by (simp add: unique_key_update_where)
    moreover have "?f r \<in> set (op_rows ?d)" using rows rD by auto
    ultimately have "lookup_row or_operation_id (or_operation_id (?f r)) (op_rows ?d) = Some (?f r)"
      by (rule lookup_row_unique)
    then have "op_by_id i ?d = Some (?f r)" using rD unfolding op_by_id_def by simp
    with x have "op_get i ?d = Inr x" by (simp add: op_get_def)
    with True assms(3,4) count have call: "op_complete m i v now d = (Inr x, ?d)"
      by (simp add: op_complete_def at_time_def transaction_def update_operation_def Let_def)
    have state: "op_state x = completion_state now r" using operation_of_fields [OF x] by simp
    have outcome: "completion_state now r = (if or_state r = ENGINE_UNRESPONSIVE then RECONCILIATION_NEEDED
        else if or_state r = IN_FLIGHT \<and> now < or_client_deadline_at_ns r then COMPLETED_OPERATION
        else COMPLETED_AFTER_CLIENT_TIMEOUT)"
      using True by (auto simp: completion_state_def UNRESOLVED_STATES_def)
    show ?thesis unfolding if_P [OF True]
    proof (intro exI conjI)
      show "op_complete m i v now d = (Inr x, d\<lparr>op_rows := map (\<lambda>s. if s = r
          then r\<lparr>or_state := op_state x, or_result_json := Some t, or_finished_at_ns := Some now,
            or_version := or_version r + 1\<rparr> else s) (op_rows d)\<rparr>)"
        unfolding call rows state ..
      show "op_state x = (if or_state r = ENGINE_UNRESPONSIVE then RECONCILIATION_NEEDED
          else if or_state r = IN_FLIGHT \<and> now < or_client_deadline_at_ns r then COMPLETED_OPERATION
          else COMPLETED_AFTER_CLIENT_TIMEOUT)" unfolding state by (rule outcome)
    qed
  qed
qed

theorem completion_outcome_witness:
  "\<exists>x. fst (op_complete 1000 ''op-1'' (PyInt 3) 20001000 sample_op_db) = Inr x
     \<and> op_state x = COMPLETED_AFTER_CLIENT_TIMEOUT"
proof -
  have "op_by_id ''op-1'' sample_op_db \<noteq> None" by code_simp
  then obtain r where r: "op_by_id ''op-1'' sample_op_db = Some r" by blast
  have "map_option (\<lambda>r. (or_state r, or_client_deadline_at_ns r)) (op_by_id ''op-1'' sample_op_db)
    = Some (IN_FLIGHT, 20001000)" by code_simp
  moreover have "canonical_json 1000 (PyInt 3) = Inr ''3''" by code_simp
  moreover have "sqlite_int 20001000" by code_simp
  ultimately show ?thesis
    using completion_outcome [OF op_inv_sample r, of 1000 "PyInt 3" "''3''" 20001000] r
    by (auto simp: UNRESOLVED_STATES_def)
qed

end
