(* ===== verification/Worker.thy ===== *)
theory Worker
  imports Operation_Laws
begin

text \<open>
  \<open>gateway/worker.py\<close>: \<open>SerializedOperationWorker\<close> with its owner thread, its
  watchdog thread, and the client threads that submit, wait and close.  One event is
  what one thread does between two points where another can intervene: a block under
  a lock, a store transaction, a queue operation.  \<open>wk_pending\<close> holds the identifier
  a submission has admitted and not yet queued, while it owns the admission lock;
  its look-up and its admission are one event, because no other thread creates rows
  or sets the flags it tests while it holds that lock.  \<open>close\<close> holds the same lock from
  setting the stopping flag to cancelling the queued rows, two events between which the
  owner goes on: \<open>wk_cancelling\<close> says that a closing thread is between them, \<open>wk_cancelled\<close>
  that one has been past the second.
  \<open>wk_calls\<close> is the history of handler invocations.  Waiting and notification only
  delay a thread and have no event of their own.
\<close>

section \<open>State\<close>

record operation_request =
  rq_handler_name :: string
  rq_payload :: py_value
  rq_idempotency_key :: string

record worker_config =
  wc_handlers :: "string list"
  wc_max_queue_size :: nat
  wc_queue_deadline_ms :: int
  wc_client_response_deadline_ms :: int
  wc_engine_health_threshold_ms :: int
  wc_maximum_json_bytes :: nat

datatype worker_error =
    UnknownOperationHandlerError string | WorkerClosedError | EngineQuarantinedError | QueueCapacityError
  | StoreError op_error

text \<open>
  A handler returns, fails before any effect, raises an \<open>Exception\<close>, or raises what
  \<open>except Exception\<close> lets through; the text is the exception's type.
\<close>

datatype handler_outcome = Returned py_value | KnownFailure string | Raised string | Escaped string

text \<open>
  Where the owner thread is.  \<open>Finishing\<close> is the \<open>finally\<close> block, left normally or
  with an exception that ends the thread; \<open>Exited\<close> remembers the operation such an
  exception left behind.
\<close>

datatype owner_pc =
    Idle | Taken string | Expiring string | Starting string | Started string json
  | Executing string | Reporting string handler_outcome | Reconciling string py_value
  | Finishing string bool | Exited "string option"

text \<open>The watchdog samples the stopping flag and the active operation at the head of its loop.\<close>

datatype watchdog_pc =
    Sleeping | Sweeping bool "string option" | Checking bool "string option" | Marking bool string | Ended

record worker =
  wk_db :: op_db
  wk_queue :: "string list"
  wk_pending :: "string option"
  wk_stopping :: bool
  wk_cancelling :: bool
  wk_cancelled :: bool
  wk_quarantined :: bool
  wk_active :: "string option"
  wk_owner :: owner_pc
  wk_watchdog :: watchdog_pc
  wk_closer :: "string option option"
  wk_calls :: "string list"

text \<open>The constructor: orphans are reconciled and queued work is cancelled before the threads start.\<close>

definition worker_init :: "int \<Rightarrow> int \<Rightarrow> op_db \<Rightarrow> worker" where
  "worker_init now now' d =
     \<lparr>wk_db = snd (op_cancel_all_queued now' (snd (op_reconcile_orphans now d))), wk_queue = [], wk_pending = None,
      wk_stopping = False, wk_cancelling = False, wk_cancelled = False,
      wk_quarantined = False, wk_active = None, wk_owner = Idle, wk_watchdog = Sleeping,
      wk_closer = None, wk_calls = []\<rparr>"

section \<open>Submitting\<close>

definition submit ::
  "worker_config \<Rightarrow> operation_request \<Rightarrow> string \<Rightarrow> int \<Rightarrow> worker \<Rightarrow> (worker_error + operation_record) \<times> worker" where
  "submit cfg q i now s =
     (if rq_handler_name q \<notin> set (wc_handlers cfg) then (Inl (UnknownOperationHandlerError (rq_handler_name q)), s)
      else case op_get_by_key (rq_idempotency_key q) (wk_db s) of
        Inl e \<Rightarrow> (Inl (StoreError e), s)
      | Inr existing \<Rightarrow>
          if existing = None \<and> wk_stopping s then (Inl WorkerClosedError, s)
          else if existing = None \<and> wk_quarantined s then (Inl EngineQuarantinedError, s)
          else if existing = None \<and> wc_max_queue_size cfg \<le> length (wk_queue s) then (Inl QueueCapacityError, s)
          else case op_admit (wc_maximum_json_bytes cfg) i (rq_handler_name q) (rq_payload q) (rq_idempotency_key q)
                 (wc_queue_deadline_ms cfg) (wc_client_response_deadline_ms cfg)
                 (wc_engine_health_threshold_ms cfg) now (wk_db s) of
            (Inl e, d) \<Rightarrow> (Inl (StoreError e), s\<lparr>wk_db := d\<rparr>)
          | (Inr (r, created), d) \<Rightarrow>
              (Inr r, s\<lparr>wk_db := d, wk_pending := (if created then Some (op_operation_id r) else None)\<rparr>))"

text \<open>\<open>put_nowait\<close>, still under the admission lock.\<close>

definition submit_put :: "worker_config \<Rightarrow> string \<Rightarrow> worker \<Rightarrow> worker" where
  "submit_put cfg i s =
     (if wc_max_queue_size cfg \<le> length (wk_queue s) then s\<lparr>wk_pending := None\<rparr>
      else s\<lparr>wk_queue := wk_queue s @ [i], wk_pending := None\<rparr>)"

section \<open>Waiting clients and closing\<close>

definition client_timeout :: "string \<Rightarrow> int \<Rightarrow> worker \<Rightarrow> worker" where
  "client_timeout i now s = (case op_get i (wk_db s) of
      Inl e \<Rightarrow> s
    | Inr r \<Rightarrow> if op_client_deadline_at_ns r \<le> now \<and> op_state r = IN_FLIGHT
        then s\<lparr>wk_db := snd (op_mark_client_timed_out i (wk_db s))\<rparr> else s)"

definition close_begin :: "worker \<Rightarrow> worker" where
  "close_begin s = s\<lparr>wk_stopping := True, wk_cancelling := True\<rparr>"

definition close_cancel :: "int \<Rightarrow> worker \<Rightarrow> worker" where
  "close_cancel now s =
     s\<lparr>wk_db := snd (op_cancel_all_queued now (wk_db s)), wk_cancelling := False, wk_cancelled := True\<rparr>"

definition close_mark :: "string option \<Rightarrow> worker \<Rightarrow> worker" where
  "close_mark active s =
     s\<lparr>wk_db := (case active of None \<Rightarrow> wk_db s | Some i \<Rightarrow> snd (op_mark_engine_unresponsive i (wk_db s))),
       wk_quarantined := True, wk_closer := None\<rparr>"

section \<open>The owner thread\<close>

definition failure_evidence :: "string \<Rightarrow> string \<Rightarrow> py_value" where
  "failure_evidence category name = PyMap
     [(Some ''category'', PyStr category), (Some ''exception_type'', PyStr name),
      (Some ''message'', PyStr ''operation outcome requires durable classification'')]"

fun is_invalid :: "op_error \<Rightarrow> bool" where
  "is_invalid (InvalidOperationTransitionError m) = True"
| "is_invalid e = False"

text \<open>After a store call whose invalid transition is ignored, and any other error ends the thread.\<close>

definition after_call :: "string \<Rightarrow> 'a op_result \<Rightarrow> owner_pc" where
  "after_call i r = (case r of Inr x \<Rightarrow> Finishing i True | Inl e \<Rightarrow> Finishing i (is_invalid e))"

definition owner_read :: "string \<Rightarrow> int \<Rightarrow> worker \<Rightarrow> worker" where
  "owner_read i now s = (case op_get i (wk_db s) of
      Inl e \<Rightarrow> s\<lparr>wk_owner := Finishing i False\<rparr>
    | Inr r \<Rightarrow> s\<lparr>wk_owner := (if op_state r \<noteq> QUEUED then Finishing i True
          else if op_queue_deadline_at_ns r \<le> now then Expiring i else Starting i)\<rparr>)"

definition owner_cancel :: "string \<Rightarrow> int \<Rightarrow> worker \<Rightarrow> worker" where
  "owner_cancel i now s = (let (r, d) = op_cancel_before_start i now (wk_db s)
     in s\<lparr>wk_db := d, wk_owner := after_call i r\<rparr>)"

definition owner_start :: "string \<Rightarrow> int \<Rightarrow> worker \<Rightarrow> worker" where
  "owner_start i now s = (let (r, d) = op_start i now (wk_db s)
     in s\<lparr>wk_db := d, wk_owner := (case r of Inr x \<Rightarrow> Started i (op_payload x) | Inl e \<Rightarrow> Finishing i (is_invalid e))\<rparr>)"

text \<open>The head of \<open>_execute\<close>: the payload is copied through its text, then the handler is called.\<close>

definition owner_activate :: "string \<Rightarrow> json \<Rightarrow> worker \<Rightarrow> worker" where
  "owner_activate i payload s = (case canonical_json MAX_SERIALIZED_BYTES (py_of_json payload) of
      Inl e \<Rightarrow> s\<lparr>wk_active := Some i, wk_owner := Finishing i False\<rparr>
    | Inr t \<Rightarrow> s\<lparr>wk_active := Some i, wk_owner := Executing i, wk_calls := wk_calls s @ [i]\<rparr>)"

fun ser_error_name :: "ser_error \<Rightarrow> string" where
  "ser_error_name (SerializationError m) = ''SerializationError''"
| "ser_error_name (DomainError (ValueError m)) = ''ValueError''"
| "ser_error_name (DomainError (TypeError m)) = ''TypeError''"

definition owner_report :: "worker_config \<Rightarrow> string \<Rightarrow> handler_outcome \<Rightarrow> int \<Rightarrow> worker \<Rightarrow> worker" where
  "owner_report cfg i outcome now s = (case outcome of
      Returned v \<Rightarrow> (case canonical_json (wc_maximum_json_bytes cfg) v of
          Inl e \<Rightarrow> s\<lparr>wk_owner := Reconciling i (failure_evidence ''unserializable_handler_outcome'' (ser_error_name e))\<rparr>
        | Inr t \<Rightarrow> (let (r, d) = op_complete (wc_maximum_json_bytes cfg) i v now (wk_db s)
            in s\<lparr>wk_db := d, wk_owner := after_call i r\<rparr>))
    | KnownFailure name \<Rightarrow>
        (let ev = failure_evidence ''known_no_effect_failure'' name;
             (r, d) = op_fail (wc_maximum_json_bytes cfg) i ev now (wk_db s)
         in s\<lparr>wk_db := d, wk_owner := (case r of Inr x \<Rightarrow> Finishing i True
              | Inl e \<Rightarrow> if is_invalid e then Reconciling i ev else Finishing i False)\<rparr>)
    | Raised name \<Rightarrow> s\<lparr>wk_owner := Reconciling i (failure_evidence ''uncertain_handler_outcome'' name)\<rparr>
    | Escaped name \<Rightarrow> s\<lparr>wk_owner := Finishing i False\<rparr>)"

definition owner_reconcile :: "worker_config \<Rightarrow> string \<Rightarrow> py_value \<Rightarrow> int \<Rightarrow> worker \<Rightarrow> worker" where
  "owner_reconcile cfg i ev now s =
     (let (r, d) = op_require_reconciliation (wc_maximum_json_bytes cfg) i ev now (wk_db s)
      in s\<lparr>wk_db := d, wk_owner := after_call i r\<rparr>)"

definition owner_finish :: "string \<Rightarrow> bool \<Rightarrow> worker \<Rightarrow> worker" where
  "owner_finish i alive s =
     s\<lparr>wk_active := (if wk_active s = Some i then None else wk_active s),
       wk_owner := (if alive then Idle else Exited (Some i))\<rparr>"

section \<open>The watchdog thread\<close>

fun owner_alive :: "owner_pc \<Rightarrow> bool" where
  "owner_alive (Exited x) = False"
| "owner_alive pc = True"

text \<open>The end of one round.\<close>

definition watch_next :: "bool \<Rightarrow> worker \<Rightarrow> watchdog_pc" where
  "watch_next stopping s = (if stopping \<and> \<not> owner_alive (wk_owner s) then Ended else Sleeping)"

definition watch_sweep :: "bool \<Rightarrow> string option \<Rightarrow> int \<Rightarrow> worker \<Rightarrow> worker" where
  "watch_sweep stopping active now s =
     s\<lparr>wk_db := snd (op_cancel_expired_queued now (wk_db s)), wk_watchdog := Checking stopping active\<rparr>"

definition unhealthy :: "operation_record \<Rightarrow> int \<Rightarrow> bool" where
  "unhealthy r now \<longleftrightarrow> (op_state r = IN_FLIGHT \<or> op_state r = CLIENT_TIMED_OUT)
     \<and> (case op_started_at_ns r of None \<Rightarrow> False
        | Some t \<Rightarrow> t + op_engine_health_threshold_ms r * 1000000 \<le> now)"

definition watch_check :: "bool \<Rightarrow> string option \<Rightarrow> int \<Rightarrow> worker \<Rightarrow> worker" where
  "watch_check stopping active now s = s\<lparr>wk_watchdog := (case active of None \<Rightarrow> watch_next stopping s
     | Some i \<Rightarrow> (case op_get i (wk_db s) of Inl e \<Rightarrow> watch_next stopping s
         | Inr r \<Rightarrow> if unhealthy r now then Marking stopping i else watch_next stopping s))\<rparr>"

definition watch_mark :: "bool \<Rightarrow> string \<Rightarrow> worker \<Rightarrow> worker" where
  "watch_mark stopping i s = (let (r, d) = op_mark_engine_unresponsive i (wk_db s)
     in s\<lparr>wk_db := d, wk_quarantined := (wk_quarantined s \<or> \<not> isl r), wk_watchdog := watch_next stopping s\<rparr>)"

section \<open>Events\<close>

datatype worker_event =
    Submit operation_request string int | SubmitPut
  | ClientTimeout string int | CloseBegin | CloseCancel int | CloseTimeout | CloseMark | CloseWatchdog
  | OwnerTake | OwnerRead int | OwnerCancel int | OwnerStart int | OwnerActivate
  | HandlerReturns handler_outcome | OwnerReport int | OwnerReconcile int | OwnerFinish | OwnerExit
  | WatchSample | WatchSweep int | WatchCheck int | WatchMark

text \<open>No thread is inside a block of the admission lock.\<close>

definition admission_free :: "worker \<Rightarrow> bool" where
  "admission_free s \<longleftrightarrow> wk_pending s = None \<and> \<not> wk_cancelling s"

text \<open>The state after an event, when it can happen.\<close>

fun worker_apply :: "worker_config \<Rightarrow> worker_event \<Rightarrow> worker \<Rightarrow> worker option" where
  "worker_apply cfg (Submit q i now) s = (if admission_free s then Some (snd (submit cfg q i now s)) else None)"
| "worker_apply cfg SubmitPut s = map_option (\<lambda>i. submit_put cfg i s) (wk_pending s)"
| "worker_apply cfg (ClientTimeout i now) s = Some (client_timeout i now s)"
| "worker_apply cfg CloseBegin s = (if admission_free s then Some (close_begin s) else None)"
| "worker_apply cfg (CloseCancel now) s = (if wk_cancelling s then Some (close_cancel now s) else None)"
| "worker_apply cfg CloseTimeout s =
     (if wk_cancelled s \<and> owner_alive (wk_owner s) then Some (s\<lparr>wk_closer := Some (wk_active s)\<rparr>) else None)"
| "worker_apply cfg CloseMark s = map_option (\<lambda>a. close_mark a s) (wk_closer s)"
| "worker_apply cfg CloseWatchdog s =
     (if wk_cancelled s \<and> \<not> owner_alive (wk_owner s) \<and> wk_watchdog s \<noteq> Ended
      then Some (s\<lparr>wk_quarantined := True\<rparr>) else None)"
| "worker_apply cfg OwnerTake s = (case wk_owner s of
       Idle \<Rightarrow> (case wk_queue s of [] \<Rightarrow> None | i # q \<Rightarrow> Some (s\<lparr>wk_queue := q, wk_owner := Taken i\<rparr>))
     | _ \<Rightarrow> None)"
| "worker_apply cfg (OwnerRead now) s = (case wk_owner s of Taken i \<Rightarrow> Some (owner_read i now s) | _ \<Rightarrow> None)"
| "worker_apply cfg (OwnerCancel now) s = (case wk_owner s of Expiring i \<Rightarrow> Some (owner_cancel i now s) | _ \<Rightarrow> None)"
| "worker_apply cfg (OwnerStart now) s = (case wk_owner s of Starting i \<Rightarrow> Some (owner_start i now s) | _ \<Rightarrow> None)"
| "worker_apply cfg OwnerActivate s = (case wk_owner s of Started i p \<Rightarrow> Some (owner_activate i p s) | _ \<Rightarrow> None)"
| "worker_apply cfg (HandlerReturns r) s =
     (case wk_owner s of Executing i \<Rightarrow> Some (s\<lparr>wk_owner := Reporting i r\<rparr>) | _ \<Rightarrow> None)"
| "worker_apply cfg (OwnerReport now) s =
     (case wk_owner s of Reporting i r \<Rightarrow> Some (owner_report cfg i r now s) | _ \<Rightarrow> None)"
| "worker_apply cfg (OwnerReconcile now) s =
     (case wk_owner s of Reconciling i ev \<Rightarrow> Some (owner_reconcile cfg i ev now s) | _ \<Rightarrow> None)"
| "worker_apply cfg OwnerFinish s =
     (case wk_owner s of Finishing i alive \<Rightarrow> Some (owner_finish i alive s) | _ \<Rightarrow> None)"
| "worker_apply cfg OwnerExit s = (case wk_owner s of
       Idle \<Rightarrow> if wk_stopping s \<and> wk_queue s = [] \<and> wk_active s = None then Some (s\<lparr>wk_owner := Exited None\<rparr>) else None
     | _ \<Rightarrow> None)"
| "worker_apply cfg WatchSample s =
     (case wk_watchdog s of Sleeping \<Rightarrow> Some (s\<lparr>wk_watchdog := Sweeping (wk_stopping s) (wk_active s)\<rparr>) | _ \<Rightarrow> None)"
| "worker_apply cfg (WatchSweep now) s =
     (case wk_watchdog s of Sweeping b a \<Rightarrow> Some (watch_sweep b a now s) | _ \<Rightarrow> None)"
| "worker_apply cfg (WatchCheck now) s =
     (case wk_watchdog s of Checking b a \<Rightarrow> Some (watch_check b a now s) | _ \<Rightarrow> None)"
| "worker_apply cfg WatchMark s = (case wk_watchdog s of
       Marking b i \<Rightarrow> if admission_free s then Some (watch_mark b i s) else None | _ \<Rightarrow> None)"

text \<open>The clock readings of an event; \<open>time.time_ns()\<close> stays within 64 bits.\<close>

fun clock_ok :: "worker_event \<Rightarrow> bool" where
  "clock_ok (Submit q i now) = sqlite_int now"
| "clock_ok (CloseCancel now) = sqlite_int now"
| "clock_ok (OwnerRead now) = sqlite_int now"
| "clock_ok (OwnerCancel now) = sqlite_int now"
| "clock_ok (OwnerStart now) = sqlite_int now"
| "clock_ok (OwnerReport now) = sqlite_int now"
| "clock_ok (OwnerReconcile now) = sqlite_int now"
| "clock_ok (WatchSweep now) = sqlite_int now"
| "clock_ok e = True"

inductive worker_step :: "worker_config \<Rightarrow> worker \<Rightarrow> worker \<Rightarrow> bool" for cfg where
  event: "clock_ok e \<Longrightarrow> worker_apply cfg e s = Some s' \<Longrightarrow> worker_step cfg s s'"

inductive reachable :: "worker_config \<Rightarrow> worker \<Rightarrow> bool" for cfg where
  initial: "op_inv d \<Longrightarrow> sqlite_int now \<Longrightarrow> sqlite_int now' \<Longrightarrow> reachable cfg (worker_init now now' d)"
| stepped: "reachable cfg s \<Longrightarrow> worker_step cfg s s' \<Longrightarrow> reachable cfg s'"

inductive_cases worker_stepE: "worker_step cfg s s'"

fun worker_run :: "worker_config \<Rightarrow> worker_event list \<Rightarrow> worker \<Rightarrow> worker option" where
  "worker_run cfg [] s = Some s"
| "worker_run cfg (e # es) s =
     (if clock_ok e then (case worker_apply cfg e s of None \<Rightarrow> None | Some s' \<Rightarrow> worker_run cfg es s') else None)"

lemma worker_run_reachable: "worker_run cfg es s = Some s' \<Longrightarrow> reachable cfg s \<Longrightarrow> reachable cfg s'"
proof (induction es arbitrary: s)
  case (Cons e es)
  then obtain u where "clock_ok e" "worker_apply cfg e s = Some u" and rest: "worker_run cfg es u = Some s'"
    by (auto split: if_splits option.splits)
  then have "reachable cfg u" using Cons.prems(2) by (blast intro: reachable.stepped worker_step.event)
  with rest show ?case by (rule Cons.IH)
qed simp

end
