(* ===== verification/Worker_Laws.thy ===== *)
theory Worker_Laws
  imports Worker
begin

text \<open>
  What the worker guarantees over every interleaving of its threads: at most one
  operation is unresolved and it is the one the owner holds, handlers are called once
  per operation and in admission order, and closing drains.  The store operations
  enter only through their effect on \<open>status\<close> and \<open>seq_of\<close>.
\<close>

section \<open>The store, seen as a map\<close>

definition status :: "op_db \<Rightarrow> string \<Rightarrow> operation_state option" where
  "status d i = map_option or_state (op_by_id i d)"

definition seq_of :: "op_db \<Rightarrow> string \<Rightarrow> nat option" where
  "seq_of d i = map_option or_sequence (op_by_id i d)"

abbreviation unresolved :: "operation_state option \<Rightarrow> bool" where
  "unresolved x \<equiv> x \<in> Some ` set UNRESOLVED_STATES"

text \<open>A store call that leaves every sequence number, and changes the states as given.\<close>

definition restates :: "op_db \<Rightarrow> op_db \<Rightarrow> (string \<Rightarrow> operation_state option) \<Rightarrow> bool" where
  "restates d d' f \<longleftrightarrow> op_inv d' \<and> seq_of d' = seq_of d \<and> status d' = f"

lemma op_by_id_update:
  assumes "\<And>r. or_operation_id (f r) = or_operation_id r"
  shows "op_by_id i (d\<lparr>op_rows := update_where p f (op_rows d)\<rparr>) = map_option (\<lambda>r. if p r then f r else r) (op_by_id i d)"
  unfolding op_by_id_def using assms lookup_update_where [of "op_rows d" p or_operation_id f i] by simp

lemma op_get_InrD: "op_get i d = Inr r \<Longrightarrow> status d i = Some (op_state r)"
  using operation_of_fields by (fastforce simp: op_get_def status_def split: option.splits)

lemma op_get_readable: "op_inv d \<Longrightarrow> status d i \<noteq> None \<Longrightarrow> \<exists>r. op_get i d = Inr r \<and> status d i = Some (op_state r)"
proof -
  assume inv: "op_inv d" and "status d i \<noteq> None"
  then obtain r where r: "op_by_id i d = Some r" by (auto simp: status_def)
  then have "row_readable r" using inv lookup_row_SomeD [OF r [unfolded op_by_id_def]] by (auto simp: op_inv_def row_stamps_def)
  then obtain x where x: "operation_of r = Inr x" using readable_operation by blast
  with r have "op_get i d = Inr x" by (simp add: op_get_def)
  with op_get_InrD show ?thesis by blast
qed

lemma update_operation_effect:
  assumes "op_inv d" and "\<And>r. same_operation r (f r)" and "\<And>r. row_readable r \<Longrightarrow> row_readable (f r)"
  shows "if status d i \<in> Some ` set S
    then \<exists>r x d'. op_by_id i d = Some r \<and> update_operation i S f e d = Inr (x, d')
      \<and> seq_of d' = seq_of d \<and> status d' = (status d)(i \<mapsto> or_state (f r)) \<and> op_by_id i d' = Some (f r)
    else update_operation i S f e d = Inl e"
proof -
  let ?d = "d\<lparr>op_rows := update_where (row_in i S) f (op_rows d)\<rparr>"
  have ids: "or_operation_id (f r) = or_operation_id r" "or_sequence (f r) = or_sequence r" for r
    using assms(2) by (auto simp: same_operation_def)
  have unique: "unique_key or_operation_id (op_rows d)" using assms(1) by (simp add: op_inv_def)
  have one: "rowcount (row_in i S) (op_rows d) = 1 \<longleftrightarrow> status d i \<in> Some ` set S"
    unfolding row_in_def rowcount_key_eq_1 [OF unique] by (auto simp: status_def op_by_id_def)
  show ?thesis
  proof (cases "status d i \<in> Some ` set S")
    case False
    with one show ?thesis by (simp add: update_operation_def Let_def)
  next
    case True
    then obtain r where r: "op_by_id i d = Some r" "or_state r \<in> set S" by (auto simp: status_def)
    note rD = lookup_row_SomeD [OF r(1) [unfolded op_by_id_def]]
    have "row_readable (f r)" using assms(1,3) rD by (auto simp: op_inv_def row_stamps_def)
    then obtain x where x: "operation_of (f r) = Inr x" using readable_operation by blast
    have look: "op_by_id j ?d = (if j = i then Some (f r) else op_by_id j d)" for j
    proof (cases "op_by_id j d")
      case (Some s)
      then have "or_operation_id s = j" using lookup_row_SomeD by (metis op_by_id_def)
      with Some r show ?thesis
        by (cases "j = i") (simp_all add: op_by_id_update ids row_in_def)
    next
      case None
      with r(1) show ?thesis by (cases "j = i") (simp_all add: op_by_id_update ids)
    qed
    have "op_get i ?d = Inr x" using x by (simp add: op_get_def look)
    with True one have "update_operation i S f e d = Inr (x, ?d)" by (simp add: update_operation_def Let_def)
    moreover have "seq_of ?d = seq_of d" using r by (auto simp: seq_of_def look ids)
    moreover have "status ?d = (status d)(i \<mapsto> or_state (f r))" by (auto simp: status_def look)
    moreover have "op_by_id i ?d = Some (f r)" by (simp add: look)
    ultimately show ?thesis unfolding if_P [OF True] using r(1) by blast
  qed
qed

text \<open>The result of a store call: done, refused because of the state, or refused because unknown.\<close>

definition call_effect ::
  "string \<Rightarrow> operation_state set \<Rightarrow> operation_state set \<Rightarrow> op_db \<Rightarrow> 'a op_result \<Rightarrow> op_db \<Rightarrow> bool" where
  "call_effect i S T d r d' \<longleftrightarrow>
     (\<exists>x t. r = Inr x \<and> status d i \<in> Some ` S \<and> t \<in> T \<and> restates d d' ((status d)(i \<mapsto> t)))
   \<or> (\<exists>e. r = Inl e \<and> d' = d \<and> is_invalid e = (status d i \<noteq> None) \<and> status d i \<notin> Some ` S)"

lemma transition_error_invalid: "is_invalid (transition_error verb w i d) = (status d i \<noteq> None)"
  by (simp add: transition_error_def status_def split: option.split)

lemma op_transition_effect:
  assumes "op_inv d" "op_inv (snd (op_transition i S t upd d))"
    and "\<And>r. same_operation r (upd r) \<and> or_state (upd r) = or_state r"
    and "\<And>r. row_readable r \<Longrightarrow> row_readable (upd r)"
  shows "call_effect i (set S) {t} d (fst (op_transition i S t upd d)) (snd (op_transition i S t upd d))"
proof -
  let ?f = "\<lambda>r. upd (r\<lparr>or_state := t, or_version := or_version r + 1\<rparr>)"
  let ?e = "transition_error ''transition'' ('' to '' @ operation_state_value t) i d"
  have same: "same_operation r (?f r)" for r
    using assms(3) [of "r\<lparr>or_state := t, or_version := or_version r + 1\<rparr>"] by (simp add: same_operation_def)
  have readable: "row_readable r \<Longrightarrow> row_readable (?f r)" for r using assms(4) by simp
  have state: "or_state (?f r) = t" for r using assms(3) by simp
  from update_operation_effect [OF assms(1) same readable, of i S ?e] assms(2) state show ?thesis
    by (auto simp: op_transition_def transaction_def call_effect_def restates_def transition_error_invalid
        split: if_splits)
qed

lemma store_call_inv:
  assumes "op_inv d"
  shows "op_inv (snd (op_start i now d))" "op_inv (snd (op_cancel_before_start i now d))"
    "op_inv (snd (op_mark_client_timed_out i d))" "op_inv (snd (op_mark_engine_unresponsive i d))"
    "op_inv (snd (op_complete m i v now d))" "op_inv (snd (op_fail m i v now d))"
    "op_inv (snd (op_require_reconciliation m i v now d))" "op_inv (snd (op_reconcile_orphans now d))"
    "op_inv (snd (op_cancel_expired_queued now d))" "op_inv (snd (op_cancel_all_queued now d))"
    "op_inv (snd (op_admit m i h p k q c e now d))"
  using assms operation_machine.step_inv [OF assms, of m] by (metis operation_step.simps)+

lemma start_effect:
  assumes "op_inv d" "sqlite_int now"
  shows "call_effect i {QUEUED} {IN_FLIGHT} d (fst (op_start i now d)) (snd (op_start i now d))"
  using assms op_transition_effect [of d i "[QUEUED]" IN_FLIGHT "\<lambda>r. r\<lparr>or_started_at_ns := Some now\<rparr>"]
    store_call_inv(1) [OF assms(1), of i now]
  by (simp add: op_start_def at_time_def same_operation_def)

lemma cancel_effect:
  assumes "op_inv d" "sqlite_int now"
  shows "call_effect i {QUEUED} {CANCELLED_BEFORE_START} d (fst (op_cancel_before_start i now d)) (snd (op_cancel_before_start i now d))"
  using assms op_transition_effect [of d i "[QUEUED]" CANCELLED_BEFORE_START "\<lambda>r. r\<lparr>or_finished_at_ns := Some now\<rparr>"]
    store_call_inv(2) [OF assms(1), of i now]
  by (simp add: op_cancel_before_start_def at_time_def same_operation_def)

lemma timed_out_effect:
  assumes "op_inv d"
  shows "call_effect i {IN_FLIGHT} {CLIENT_TIMED_OUT} d (fst (op_mark_client_timed_out i d)) (snd (op_mark_client_timed_out i d))"
  using assms op_transition_effect [of d i "[IN_FLIGHT]" CLIENT_TIMED_OUT id] store_call_inv(3) [OF assms(1), of i]
  by (simp add: op_mark_client_timed_out_def same_operation_def)

lemma unresponsive_effect:
  assumes "op_inv d"
  shows "call_effect i {IN_FLIGHT, CLIENT_TIMED_OUT} {ENGINE_UNRESPONSIVE} d
    (fst (op_mark_engine_unresponsive i d)) (snd (op_mark_engine_unresponsive i d))"
  using assms op_transition_effect [of d i "[IN_FLIGHT, CLIENT_TIMED_OUT]" ENGINE_UNRESPONSIVE id]
    store_call_inv(4) [OF assms(1), of i]
  by (simp add: op_mark_engine_unresponsive_def same_operation_def)

lemma evidence_encodes:
  assumes "canonical_json m ev = Inr t" "op_inv d" "sqlite_int now"
  shows "call_effect i {IN_FLIGHT, CLIENT_TIMED_OUT} {FAILED_OPERATION} d (fst (op_fail m i ev now d)) (snd (op_fail m i ev now d))"
    and "call_effect i (set UNRESOLVED_STATES) {RECONCILIATION_NEEDED} d
      (fst (op_require_reconciliation m i ev now d)) (snd (op_require_reconciliation m i ev now d))"
  using assms canonical_json_readable [OF assms(1)] store_call_inv(6,7) [OF assms(2), of m i ev now]
    op_transition_effect [of d i "[IN_FLIGHT, CLIENT_TIMED_OUT]" FAILED_OPERATION
      "\<lambda>r. r\<lparr>or_error_json := Some t, or_finished_at_ns := Some now\<rparr>"]
    op_transition_effect [of d i UNRESOLVED_STATES RECONCILIATION_NEEDED
      "\<lambda>r. r\<lparr>or_error_json := Some t, or_finished_at_ns := Some now\<rparr>"]
  by (simp_all add: op_fail_def op_require_reconciliation_def at_time_def same_operation_def)

text \<open>The states a handler's return leads to.\<close>

definition outcomes :: "operation_state set" where
  "outcomes = {COMPLETED_OPERATION, COMPLETED_AFTER_CLIENT_TIMEOUT, FAILED_OPERATION, RECONCILIATION_NEEDED}"

lemma complete_effect:
  assumes "canonical_json m v = Inr t" "op_inv d" "sqlite_int now"
  shows "call_effect i (set UNRESOLVED_STATES) outcomes d (fst (op_complete m i v now d)) (snd (op_complete m i v now d))"
proof -
  let ?f = "\<lambda>r. r\<lparr>or_state := completion_state now r, or_result_json := Some t, or_finished_at_ns := Some now,
      or_version := or_version r + 1\<rparr>"
  let ?e = "transition_error ''complete'' [] i d"
  have same: "same_operation r (?f r)" for r by (simp add: same_operation_def)
  have readable: "row_readable r \<Longrightarrow> row_readable (?f r)" for r using canonical_json_readable [OF assms(1)] by simp
  have terminal: "completion_state now r \<in> outcomes" for r
    by (simp add: completion_state_def outcomes_def)
  from update_operation_effect [OF assms(2) same readable, of i UNRESOLVED_STATES ?e] assms(1,3) terminal
    store_call_inv(5) [OF assms(2), of m i v now] show ?thesis
    by (auto simp: op_complete_def at_time_def transaction_def call_effect_def restates_def transition_error_invalid
        split: if_splits) blast
qed

lemma op_by_id_finish_all:
  "op_by_id i (finish_all p t now d) = map_option (\<lambda>r. if p r
     then r\<lparr>or_state := t, or_finished_at_ns := Some now, or_version := or_version r + 1\<rparr> else r) (op_by_id i d)"
  unfolding finish_all_def by (rule op_by_id_update) simp

lemma finish_all_effect:
  "seq_of (finish_all p t now d) = seq_of d"
  "status (finish_all p t now d) i = map_option (\<lambda>r. if p r then t else or_state r) (op_by_id i d)"
  by (auto simp: seq_of_def status_def op_by_id_finish_all fun_eq_iff option.map_comp comp_def intro: option.map_cong0)

lemma finish_all_restates:
  "op_inv (finish_all p t now d) \<Longrightarrow> (\<And>i. f i = map_option (\<lambda>r. if p r then t else or_state r) (op_by_id i d))
   \<Longrightarrow> restates d (finish_all p t now d) f"
  unfolding restates_def finish_all_effect(1) by (simp add: fun_eq_iff finish_all_effect(2))

text \<open>
  A change of the table that other threads may make at any time: an unresolved
  operation stays unresolved, a queued one may be cancelled, nothing else moves.
\<close>

definition quiet :: "op_db \<Rightarrow> op_db \<Rightarrow> bool" where
  "quiet d d' \<longleftrightarrow> op_inv d' \<and> seq_of d' = seq_of d
     \<and> (\<forall>i. status d' i = status d i \<or> unresolved (status d i) \<and> unresolved (status d' i)
          \<or> status d i = Some QUEUED \<and> status d' i = Some CANCELLED_BEFORE_START)"

lemma quiet_refl: "op_inv d \<Longrightarrow> quiet d d"
  by (simp add: quiet_def)

lemma call_effect_quiet:
  assumes "call_effect i S T d r d'" "op_inv d" "S \<subseteq> set UNRESOLVED_STATES" "T \<subseteq> set UNRESOLVED_STATES"
  shows "quiet d d'"
  using assms unfolding call_effect_def quiet_def restates_def by (auto split: if_splits)

lemma cancel_all_effect:
  assumes "op_inv d" "sqlite_int now"
  shows "restates d (snd (op_cancel_all_queued now d))
     (\<lambda>i. if status d i = Some QUEUED then Some CANCELLED_BEFORE_START else status d i)"
proof -
  have "snd (op_cancel_all_queued now d) = finish_all (\<lambda>r. or_state r = QUEUED) CANCELLED_BEFORE_START now d"
    using assms by (simp add: op_cancel_all_queued_def at_time_def transaction_def)
  with store_call_inv(10) [OF assms(1), of now] show ?thesis
    by (simp, intro finish_all_restates) (auto simp: status_def intro: option.map_cong0)
qed

lemma orphans_effect:
  assumes "op_inv d" "sqlite_int now"
  shows "restates d (snd (op_reconcile_orphans now d))
     (\<lambda>i. if unresolved (status d i) then Some RECONCILIATION_NEEDED else status d i)"
proof -
  have "snd (op_reconcile_orphans now d) = finish_all (\<lambda>r. or_state r \<in> set UNRESOLVED_STATES) RECONCILIATION_NEEDED now d"
    using assms by (simp add: op_reconcile_orphans_def at_time_def transaction_def Let_def)
  with store_call_inv(8) [OF assms(1), of now] show ?thesis
    by (simp, intro finish_all_restates) (auto simp: status_def intro!: option.map_cong0)
qed

lemma cancel_all_quiet: "op_inv d \<Longrightarrow> sqlite_int now \<Longrightarrow> quiet d (snd (op_cancel_all_queued now d))"
  using cancel_all_effect by (auto simp: restates_def quiet_def)

lemma cancel_expired_quiet:
  assumes "op_inv d" "sqlite_int now"
  shows "quiet d (snd (op_cancel_expired_queued now d))"
proof -
  define ids where "ids = map or_operation_id (filter (\<lambda>r. or_queue_deadline_at_ns r \<le> now) (queued_rows d))"
  have "snd (op_cancel_expired_queued now d) = d
      \<or> snd (op_cancel_expired_queued now d)
        = finish_all (\<lambda>r. or_state r = QUEUED \<and> or_operation_id r \<in> set ids) CANCELLED_BEFORE_START now d"
    using assms by (simp add: op_cancel_expired_queued_def at_time_def transaction_def Let_def flip: ids_def)
  then show ?thesis
  proof
    assume e: "snd (op_cancel_expired_queued now d)
        = finish_all (\<lambda>r. or_state r = QUEUED \<and> or_operation_id r \<in> set ids) CANCELLED_BEFORE_START now d"
    show ?thesis unfolding quiet_def
    proof (intro conjI allI)
      show "op_inv (snd (op_cancel_expired_queued now d))" by (rule store_call_inv(9) [OF assms(1)])
      show "seq_of (snd (op_cancel_expired_queued now d)) = seq_of d" unfolding e by (rule finish_all_effect)
      fix i show "status (snd (op_cancel_expired_queued now d)) i = status d i
          \<or> unresolved (status d i) \<and> unresolved (status (snd (op_cancel_expired_queued now d)) i)
          \<or> status d i = Some QUEUED \<and> status (snd (op_cancel_expired_queued now d)) i = Some CANCELLED_BEFORE_START"
        unfolding e finish_all_effect by (cases "op_by_id i d") (simp_all add: status_def)
    qed
  qed (simp add: quiet_refl assms)
qed

lemma admit_effect:
  assumes "op_inv d" "op_admit m i h p k q c e now d = (r, d')"
  shows "(\<exists>x. r = Inr (x, True) \<and> op_operation_id x = i \<and> status d i = None \<and> op_inv d'
        \<and> seq_of d' = (seq_of d)(i \<mapsto> Suc (op_last_sequence d)) \<and> status d' = (status d)(i \<mapsto> QUEUED))
     \<or> d' = d \<and> (\<forall>x. r \<noteq> Inr (x, True))"
proof -
  have inv: "op_inv d'" using store_call_inv(11) [OF assms(1), of m i h p k q c e now] assms(2) by simp
  show ?thesis
  proof (cases "\<exists>x. r = Inr (x, True)")
    case True
    then obtain x where x: "r = Inr (x, True)" by blast
    with assms(2) obtain t where "op_by_key k d = None"
      and row: "operation_of (admitted_row (Suc (op_last_sequence d)) i k h t now q c e) = Inr x"
      and ins: "insert_operation (admitted_row (Suc (op_last_sequence d)) i k h t now q c e) d = Inr d'"
      by (auto simp: op_admit_def transaction_Inr_iff checked_Inr_iff attempt_Inr_iff map_error_Inr_iff Let_def
          split: option.splits sum.splits if_splits)
    from ins have d': "\<not> has_key or_operation_id i (op_rows d)"
      "op_rows d' = op_rows d @ [admitted_row (Suc (op_last_sequence d)) i k h t now q c e]"
      by (auto simp: insert_operation_def admitted_row_def split: if_splits)
    then have absent: "op_by_id i d = None" by (simp add: op_by_id_def lookup_row_None_iff)
    have look: "op_by_id j d' = (if j = i then Some (admitted_row (Suc (op_last_sequence d)) i k h t now q c e)
        else op_by_id j d)" for j
      using absent unfolding op_by_id_def d'(2) lookup_row_append by (auto simp: admitted_row_def split: option.split)
    have "op_operation_id x = i" using operation_of_fields [OF row] by (simp add: admitted_row_def)
    with x inv absent look show ?thesis
      by (auto simp: seq_of_def status_def fun_eq_iff admitted_row_def)
  next
    case False
    then have "d' = d" using assms(2)
      by (auto simp: op_admit_def transaction_def checked_def attempt_def map_error_def Let_def
          split: option.splits sum.splits if_splits)
    with False show ?thesis by blast
  qed
qed

lemma seq_of_bound: "op_inv d \<Longrightarrow> seq_of d i = Some n \<Longrightarrow> n \<le> op_last_sequence d"
  using lookup_row_SomeD by (fastforce simp: seq_of_def op_by_id_def op_inv_def)

section \<open>The invariant\<close>

fun in_hand :: "owner_pc \<Rightarrow> string option" where
  "in_hand (Started i p) = Some i"
| "in_hand (Executing i) = Some i"
| "in_hand (Reporting i r) = Some i"
| "in_hand (Reconciling i ev) = Some i"
| "in_hand (Finishing i alive) = (if alive then None else Some i)"
| "in_hand (Exited x) = x"
| "in_hand pc = None"

text \<open>The call that has been durably started and not yet reported.\<close>

fun running :: "owner_pc \<Rightarrow> string option" where
  "running (Started i p) = Some i"
| "running (Executing i) = Some i"
| "running (Reporting i r) = Some i"
| "running (Reconciling i ev) = Some i"
| "running pc = None"

fun before_call :: "owner_pc \<Rightarrow> string list" where
  "before_call (Taken i) = [i]"
| "before_call (Expiring i) = [i]"
| "before_call (Starting i) = [i]"
| "before_call (Started i p) = [i]"
| "before_call pc = []"

fun active_allowed :: "owner_pc \<Rightarrow> string option \<Rightarrow> bool" where
  "active_allowed (Executing i) x = (x = Some i)"
| "active_allowed (Reporting i r) x = (x = Some i)"
| "active_allowed (Reconciling i ev) x = (x = Some i)"
| "active_allowed (Finishing i alive) x = (x = None \<or> x = Some i)"
| "active_allowed pc x = (x = None)"

text \<open>All operations that have been or may still be called, in the order of the calls.\<close>

definition line_up :: "worker \<Rightarrow> string list" where
  "line_up s = wk_calls s @ before_call (wk_owner s) @ wk_queue s @ (case wk_pending s of None \<Rightarrow> [] | Some i \<Rightarrow> [i])"

definition ordered :: "op_db \<Rightarrow> string list \<Rightarrow> bool" where
  "ordered d is \<longleftrightarrow> (\<forall>i \<in> set is. seq_of d i \<noteq> None) \<and> sorted_wrt (\<lambda>i j. the (seq_of d i) < the (seq_of d j)) is"

definition startable :: "operation_state option \<Rightarrow> bool" where
  "startable x \<longleftrightarrow> x = None \<or> x = Some QUEUED \<or> x = Some CANCELLED_BEFORE_START"

definition worker_inv :: "worker \<Rightarrow> bool" where
  "worker_inv s \<longleftrightarrow> op_inv (wk_db s)
     \<and> (\<forall>i. unresolved (status (wk_db s) i) \<longrightarrow> in_hand (wk_owner s) = Some i)
     \<and> (\<forall>i. running (wk_owner s) = Some i \<longrightarrow> unresolved (status (wk_db s) i))
     \<and> ordered (wk_db s) (line_up s)
     \<and> (\<forall>i \<in> set (wk_calls s). \<not> startable (status (wk_db s) i))
     \<and> (wk_stopping s \<longrightarrow> wk_pending s = None)
     \<and> (wk_cancelling s \<or> wk_cancelled s \<longrightarrow> wk_stopping s)
     \<and> (wk_cancelled s \<longrightarrow> (\<forall>i. status (wk_db s) i \<noteq> Some QUEUED))
     \<and> active_allowed (wk_owner s) (wk_active s)"

lemma ordered_cong: "seq_of d' = seq_of d \<Longrightarrow> ordered d' is = ordered d is"
  by (simp add: ordered_def)

lemma ordered_drop: "ordered d (xs @ ys @ zs) \<Longrightarrow> ordered d (xs @ zs)"
  by (auto simp: ordered_def sorted_wrt_append)

lemma unresolved_not_startable: "unresolved x \<Longrightarrow> \<not> startable x"
  by (auto simp: startable_def UNRESOLVED_STATES_def)

lemma quiet_unresolved: "quiet d d' \<Longrightarrow> unresolved (status d' i) = unresolved (status d i)"
  unfolding quiet_def by (auto simp: UNRESOLVED_STATES_def dest!: spec [of _ i])

lemma quiet_startable: "quiet d d' \<Longrightarrow> startable (status d' i) = startable (status d i)"
  using unresolved_not_startable unfolding quiet_def by (auto simp: startable_def dest!: spec [of _ i])

lemma quiet_queued: "quiet d d' \<Longrightarrow> status d' i = Some QUEUED \<Longrightarrow> status d i = Some QUEUED"
  unfolding quiet_def by (auto simp: UNRESOLVED_STATES_def dest!: spec [of _ i])

text \<open>Other threads keep the invariant as long as they only make quiet changes.\<close>

lemma worker_inv_quiet:
  assumes "worker_inv s" "quiet (wk_db s) (wk_db s')" "wk_owner s' = wk_owner s" "wk_active s' = wk_active s"
    "wk_calls s' = wk_calls s" "wk_queue s' = wk_queue s" "wk_pending s' = wk_pending s"
    "wk_stopping s' \<longrightarrow> wk_stopping s \<or> wk_pending s = None" "wk_cancelling s' \<or> wk_cancelled s' \<longrightarrow> wk_stopping s'"
    "wk_cancelled s' \<longrightarrow> wk_cancelled s \<or> (\<forall>i. status (wk_db s') i \<noteq> Some QUEUED)"
  shows "worker_inv s'"
  using assms quiet_queued [OF assms(2)]
  unfolding worker_inv_def quiet_unresolved [OF assms(2)] quiet_startable [OF assms(2)]
  by (auto simp: quiet_def line_up_def ordered_cong [of "wk_db s'" "wk_db s"])

lemma worker_inv_initial:
  assumes "op_inv d" "sqlite_int now" "sqlite_int now'"
  shows "worker_inv (worker_init now now' d)"
proof -
  let ?d = "snd (op_reconcile_orphans now d)"
  have o: "op_inv ?d" "status ?d = (\<lambda>i. if unresolved (status d i) then Some RECONCILIATION_NEEDED else status d i)"
    using orphans_effect [OF assms(1,2)] by (simp_all add: restates_def)
  have "op_inv (snd (op_cancel_all_queued now' ?d))"
    "status (snd (op_cancel_all_queued now' ?d))
      = (\<lambda>i. if status ?d i = Some QUEUED then Some CANCELLED_BEFORE_START else status ?d i)"
    using cancel_all_effect [OF o(1) assms(3)] by (simp_all add: restates_def)
  then show ?thesis
    by (auto simp: worker_inv_def worker_init_def line_up_def ordered_def o(2) UNRESOLVED_STATES_def)
qed

text \<open>An event that changes the state of the operation the owner holds, and nothing else in the table.\<close>

lemma worker_inv_restate:
  assumes "worker_inv s" "restates (wk_db s) (wk_db s') ((status (wk_db s))(i \<mapsto> t))"
    "in_hand (wk_owner s) = None \<or> in_hand (wk_owner s) = Some i"
    "wk_stopping s' = wk_stopping s \<and> wk_cancelling s' = wk_cancelling s \<and> wk_cancelled s' = wk_cancelled s"
    "wk_pending s' = wk_pending s" "wk_calls s' = wk_calls s"
    "ordered (wk_db s) (line_up s) \<Longrightarrow> ordered (wk_db s) (line_up s')"
    "t \<noteq> QUEUED" "i \<in> set (wk_calls s) \<Longrightarrow> \<not> startable (status (wk_db s) i) \<Longrightarrow> \<not> startable (Some t)"
    "unresolved (Some t) \<Longrightarrow> in_hand (wk_owner s') = Some i"
    "running (wk_owner s') = None \<or> running (wk_owner s') = Some i \<and> unresolved (Some t)"
    "active_allowed (wk_owner s) (wk_active s) \<Longrightarrow> active_allowed (wk_owner s') (wk_active s')"
  shows "worker_inv s'"
proof -
  have d: "op_inv (wk_db s')" "seq_of (wk_db s') = seq_of (wk_db s)" "status (wk_db s') = (status (wk_db s))(i \<mapsto> t)"
    using assms(2) by (simp_all add: restates_def)
  have "unresolved (status (wk_db s) j) \<Longrightarrow> j = i" for j
    using assms(1,3) by (force simp: worker_inv_def)
  then have "unresolved (status (wk_db s') j) \<longrightarrow> in_hand (wk_owner s') = Some j" for j
    using assms(10) by (auto simp: d(3))
  moreover have "running (wk_owner s') = Some j \<longrightarrow> unresolved (status (wk_db s') j)" for j
    using assms(11) by (auto simp: d(3))
  moreover have "\<forall>j \<in> set (wk_calls s'). \<not> startable (status (wk_db s') j)"
    using assms(1,6,9) by (auto simp: worker_inv_def d(3))
  moreover have "ordered (wk_db s') (line_up s')"
    using assms(1,7) d(2) by (simp add: worker_inv_def ordered_cong [OF d(2)])
  moreover have "wk_stopping s' \<longrightarrow> wk_pending s' = None"
    "wk_cancelling s' \<or> wk_cancelled s' \<longrightarrow> wk_stopping s'"
    "wk_cancelled s' \<longrightarrow> (\<forall>j. status (wk_db s') j \<noteq> Some QUEUED)"
    using assms(1,4,5,8) by (simp_all add: worker_inv_def d(3))
  moreover have "active_allowed (wk_owner s') (wk_active s')" using assms(1,12) by (simp add: worker_inv_def)
  ultimately show ?thesis using d(1) unfolding worker_inv_def by blast
qed

text \<open>An event that leaves the table and moves the owner.\<close>

lemma worker_inv_move:
  assumes "worker_inv s" "wk_db s' = wk_db s"
    "wk_stopping s' = wk_stopping s \<and> wk_cancelling s' = wk_cancelling s \<and> wk_cancelled s' = wk_cancelled s"
    "wk_pending s' = wk_pending s"
    "ordered (wk_db s) (line_up s) \<Longrightarrow> ordered (wk_db s) (line_up s')"
    "wk_calls s' = wk_calls s \<or> (\<exists>i. wk_calls s' = wk_calls s @ [i] \<and> running (wk_owner s) = Some i)"
    "in_hand (wk_owner s') = in_hand (wk_owner s) \<or> in_hand (wk_owner s) = None"
    "running (wk_owner s') = None \<or> running (wk_owner s') = running (wk_owner s)"
    "active_allowed (wk_owner s) (wk_active s) \<Longrightarrow> active_allowed (wk_owner s') (wk_active s')"
  shows "worker_inv s'"
proof -
  have "unresolved (status (wk_db s) j) \<longrightarrow> in_hand (wk_owner s') = Some j" for j
    using assms(1,7) by (auto simp: worker_inv_def)
  moreover have "running (wk_owner s') = Some j \<longrightarrow> unresolved (status (wk_db s) j)" for j
    using assms(1,8) by (auto simp: worker_inv_def)
  moreover have "\<forall>j \<in> set (wk_calls s'). \<not> startable (status (wk_db s) j)"
  proof (cases "wk_calls s' = wk_calls s")
    case False
    then obtain i where i: "wk_calls s' = wk_calls s @ [i]" "running (wk_owner s) = Some i" using assms(6) by blast
    then have "unresolved (status (wk_db s) i)" using assms(1) by (simp add: worker_inv_def)
    then have "\<not> startable (status (wk_db s) i)" by (rule unresolved_not_startable)
    with assms(1) i(1) show ?thesis by (simp add: worker_inv_def)
  qed (use assms(1) in \<open>simp add: worker_inv_def\<close>)
  moreover have "wk_stopping s' \<longrightarrow> wk_pending s' = None"
    "wk_cancelling s' \<or> wk_cancelled s' \<longrightarrow> wk_stopping s'"
    "wk_cancelled s' \<longrightarrow> (\<forall>j. status (wk_db s) j \<noteq> Some QUEUED)"
    using assms(1,3,4) by (simp_all add: worker_inv_def)
  moreover have "op_inv (wk_db s)" "ordered (wk_db s) (line_up s')" "active_allowed (wk_owner s') (wk_active s')"
    using assms(1,5,9) by (simp_all add: worker_inv_def)
  ultimately show ?thesis unfolding worker_inv_def assms(2) by blast
qed

lemma line_up_owner:
  assumes "wk_calls s' = wk_calls s" "wk_queue s' = wk_queue s" "wk_pending s' = wk_pending s"
    "before_call (wk_owner s') = [] \<or> before_call (wk_owner s') = before_call (wk_owner s)"
    "ordered d (line_up s)"
  shows "ordered d (line_up s')"
  using assms ordered_drop [of d "wk_calls s" "before_call (wk_owner s)"] by (auto simp: line_up_def)

text \<open>The owner acts on the operation it holds through one store call.\<close>

lemma owner_call_inv:
  assumes inv: "worker_inv s" and effect: "call_effect i S T (wk_db s) r d"
    and hand: "in_hand (wk_owner s) = None \<or> in_hand (wk_owner s) = Some i"
    and before: "before_call pc = [] \<or> before_call pc = before_call (wk_owner s)"
    and states: "QUEUED \<notin> T" "CANCELLED_BEFORE_START \<in> T \<Longrightarrow> S = {QUEUED}"
    and success: "\<And>x. r = Inr x \<Longrightarrow> (T \<inter> set UNRESOLVED_STATES = {} \<and> running pc = None)
        \<or> (T \<subseteq> set UNRESOLVED_STATES \<and> in_hand pc = Some i \<and> (running pc = None \<or> running pc = Some i))"
    and refused: "\<And>e. r = Inl e \<Longrightarrow> status (wk_db s) i \<notin> Some ` S \<Longrightarrow> is_invalid e = (status (wk_db s) i \<noteq> None)
      \<Longrightarrow> (in_hand pc = in_hand (wk_owner s) \<or> in_hand (wk_owner s) = None)
        \<and> (running pc = None \<or> running pc = running (wk_owner s))"
    and active: "active_allowed (wk_owner s) (wk_active s) \<Longrightarrow> active_allowed pc (wk_active s)"
  shows "worker_inv (s\<lparr>wk_db := d, wk_owner := pc\<rparr>)"
  using effect [unfolded call_effect_def]
proof (elim disjE exE conjE)
  fix x t assume r: "r = Inr x" and S: "status (wk_db s) i \<in> Some ` S" and t: "t \<in> T"
    and d: "restates (wk_db s) d ((status (wk_db s))(i \<mapsto> t))"
  have "startable (Some t) \<Longrightarrow> startable (status (wk_db s) i)"
    using states S t by (auto simp: startable_def)
  note outcome = success [OF r]
  let ?s = "s\<lparr>wk_db := d, wk_owner := pc\<rparr>"
  show ?thesis
  proof (rule worker_inv_restate [OF inv _ hand])
    show "restates (wk_db s) (wk_db ?s) ((status (wk_db s))(i \<mapsto> t))" using d by simp
    show "t \<noteq> QUEUED" using states(1) t by blast
    show "ordered (wk_db s) (line_up ?s)" if "ordered (wk_db s) (line_up s)"
      using that before by (intro line_up_owner [of ?s s]) simp_all
    show "\<not> startable (Some t)" if "\<not> startable (status (wk_db s) i)"
      using that \<open>startable (Some t) \<Longrightarrow> startable (status (wk_db s) i)\<close> by blast
    show "in_hand (wk_owner ?s) = Some i" if "unresolved (Some t)" using that outcome t by auto
    show "running (wk_owner ?s) = None \<or> running (wk_owner ?s) = Some i \<and> unresolved (Some t)"
      using outcome t by auto
    show "active_allowed (wk_owner ?s) (wk_active ?s)" if "active_allowed (wk_owner s) (wk_active s)"
      using active [OF that] by simp
  qed simp_all
next
  fix e assume r: "r = Inl e" and d: "d = wk_db s"
    and e: "is_invalid e = (status (wk_db s) i \<noteq> None)" "status (wk_db s) i \<notin> Some ` S"
  let ?s = "s\<lparr>wk_db := d, wk_owner := pc\<rparr>"
  show ?thesis
  proof (rule worker_inv_move [OF inv])
    show "ordered (wk_db s) (line_up ?s)" if "ordered (wk_db s) (line_up s)"
      using that before by (intro line_up_owner [of ?s s]) simp_all
  qed (use refused [OF r e(2,1)] active d in simp_all)
qed

text \<open>Each step of the owner thread keeps the invariant.\<close>

lemma owner_read_inv: "worker_inv s \<Longrightarrow> wk_owner s = Taken i \<Longrightarrow> worker_inv (owner_read i now s)"
  by (rule worker_inv_move [of s])
    (auto simp: owner_read_def split: sum.split intro: line_up_owner [of _ s])

lemma owner_cancel_inv:
  assumes "worker_inv s" "wk_owner s = Expiring i" "sqlite_int now"
  shows "worker_inv (owner_cancel i now s)"
proof -
  obtain r d where c: "op_cancel_before_start i now (wk_db s) = (r, d)" by (cases "op_cancel_before_start i now (wk_db s)")
  then have "call_effect i {QUEUED} {CANCELLED_BEFORE_START} (wk_db s) r d"
    using cancel_effect [of "wk_db s" now i] assms by (simp add: worker_inv_def)
  then have "worker_inv (s\<lparr>wk_db := d, wk_owner := after_call i r\<rparr>)"
    by (rule owner_call_inv [OF assms(1)]) (auto simp: assms(2) after_call_def UNRESOLVED_STATES_def split: sum.splits)
  then show ?thesis by (simp add: owner_cancel_def c)
qed

lemma owner_start_inv:
  assumes "worker_inv s" "wk_owner s = Starting i" "sqlite_int now"
  shows "worker_inv (owner_start i now s)"
proof -
  obtain r d where c: "op_start i now (wk_db s) = (r, d)" by (cases "op_start i now (wk_db s)")
  then have "call_effect i {QUEUED} {IN_FLIGHT} (wk_db s) r d"
    using start_effect [of "wk_db s" now i] assms by (simp add: worker_inv_def)
  then have "worker_inv (s\<lparr>wk_db := d,
      wk_owner := (case r of Inr x \<Rightarrow> Started i (op_payload x) | Inl e \<Rightarrow> Finishing i (is_invalid e))\<rparr>)"
    by (rule owner_call_inv [OF assms(1)]) (auto simp: assms(2) UNRESOLVED_STATES_def split: sum.splits)
  then show ?thesis by (simp add: owner_start_def c)
qed

lemma owner_activate_inv: "worker_inv s \<Longrightarrow> wk_owner s = Started i p \<Longrightarrow> worker_inv (owner_activate i p s)"
  by (rule worker_inv_move [of s])
    (auto simp: owner_activate_def line_up_def split: sum.split intro: ordered_drop [of _ "wk_calls s" "[i]"])

lemma handler_returns_inv:
  "worker_inv s \<Longrightarrow> wk_owner s = Executing i \<Longrightarrow> worker_inv (s\<lparr>wk_owner := Reporting i r\<rparr>)"
  by (rule worker_inv_move [of s]) (auto intro: line_up_owner [of _ s])

lemma running_unresolved: "worker_inv s \<Longrightarrow> running (wk_owner s) = Some i \<Longrightarrow> unresolved (status (wk_db s) i)"
  by (simp add: worker_inv_def)

lemma owner_finish_inv: "worker_inv s \<Longrightarrow> wk_owner s = Finishing i alive \<Longrightarrow> worker_inv (owner_finish i alive s)"
  by (rule worker_inv_move [of s]) (auto simp: owner_finish_def intro: line_up_owner [of _ s])

text \<open>Reporting and reconciling: the outcome is recorded, or the owner keeps the operation in hand.\<close>

lemma report_call_inv:
  assumes "worker_inv s" and owner: "wk_owner s = Reporting i h \<or> wk_owner s = Reconciling i ev"
    and effect: "call_effect i S T (wk_db s) r d" "T \<subseteq> outcomes"
    and pc: "\<And>x. r = Inr x \<Longrightarrow> pc = Finishing i True"
      "\<And>e. r = Inl e \<Longrightarrow> S = set UNRESOLVED_STATES \<or> pc = Finishing i False \<or> pc = Reconciling i ev'"
  shows "worker_inv (s\<lparr>wk_db := d, wk_owner := pc\<rparr>)"
proof (rule owner_call_inv [OF assms(1) effect(1)])
  have run: "running (wk_owner s) = Some i" "in_hand (wk_owner s) = Some i" "before_call (wk_owner s) = []"
    and act: "active_allowed (wk_owner s) x \<Longrightarrow> x = Some i" for x
    using owner by auto
  have called: "unresolved (status (wk_db s) i)" by (rule running_unresolved [OF assms(1) run(1)])
  show "QUEUED \<notin> T" "CANCELLED_BEFORE_START \<in> T \<Longrightarrow> S = {QUEUED}" using effect(2) by (auto simp: outcomes_def)
  show "in_hand (wk_owner s) = None \<or> in_hand (wk_owner s) = Some i" using run by simp
  show "(T \<inter> set UNRESOLVED_STATES = {} \<and> running pc = None)
      \<or> (T \<subseteq> set UNRESOLVED_STATES \<and> in_hand pc = Some i \<and> (running pc = None \<or> running pc = Some i))"
    if "r = Inr x" for x using pc(1) [OF that] effect(2) by (auto simp: outcomes_def UNRESOLVED_STATES_def)
  show "(in_hand pc = in_hand (wk_owner s) \<or> in_hand (wk_owner s) = None)
      \<and> (running pc = None \<or> running pc = running (wk_owner s))"
    if "r = Inl e" "status (wk_db s) i \<notin> Some ` S" for e
    using pc(2) [OF that(1)] that(2) called run by auto
  consider "pc = Finishing i True" | "S = set UNRESOLVED_STATES" "\<exists>e. r = Inl e"
    | "pc = Finishing i False" | "pc = Reconciling i ev'"
    using pc by (cases r) blast+
  then have moves: "pc = Finishing i True \<or> pc = Finishing i False \<or> pc = Reconciling i ev'"
    using effect(1) called by cases (auto simp: call_effect_def)
  then show "before_call pc = [] \<or> before_call pc = before_call (wk_owner s)" by auto
  show "active_allowed (wk_owner s) (wk_active s) \<Longrightarrow> active_allowed pc (wk_active s)"
    using moves act by auto
qed

lemma owner_reconcile_inv:
  assumes "worker_inv s" "wk_owner s = Reconciling i ev" "sqlite_int now"
  shows "worker_inv (owner_reconcile cfg i ev now s)"
proof (cases "canonical_json (wc_maximum_json_bytes cfg) ev")
  case (Inl e)
  then show ?thesis using assms(2)
    by (intro worker_inv_move [OF assms(1)])
      (auto simp: owner_reconcile_def op_require_reconciliation_def map_error_def after_call_def intro: line_up_owner [of _ s])
next
  case (Inr t)
  obtain r d where c: "op_require_reconciliation (wc_maximum_json_bytes cfg) i ev now (wk_db s) = (r, d)" by fastforce
  then have "call_effect i (set UNRESOLVED_STATES) {RECONCILIATION_NEEDED} (wk_db s) r d"
    using evidence_encodes(2) [OF Inr, of "wk_db s" now i] assms by (simp add: worker_inv_def)
  then have "worker_inv (s\<lparr>wk_db := d, wk_owner := after_call i r\<rparr>)"
    by (rule report_call_inv [OF assms(1) disjI2 [OF assms(2)]]) (auto simp: outcomes_def after_call_def)
  then show ?thesis by (simp add: owner_reconcile_def c)
qed

lemma owner_report_inv:
  assumes "worker_inv s" "wk_owner s = Reporting i h" "sqlite_int now"
  shows "worker_inv (owner_report cfg i h now s)"
proof -
  note move = worker_inv_move [OF assms(1)] and owner = disjI1 [OF assms(2)]
  have to_reconcile: "worker_inv (s\<lparr>wk_owner := Reconciling i ev\<rparr>)" for ev
    using assms(2) by (intro move) (auto intro: line_up_owner [of _ s])
  show ?thesis
  proof (cases h)
    case (Returned v)
    show ?thesis
    proof (cases "canonical_json (wc_maximum_json_bytes cfg) v")
      case (Inl e)
      with Returned to_reconcile show ?thesis by (simp add: owner_report_def)
    next
      case (Inr t)
      obtain r d where c: "op_complete (wc_maximum_json_bytes cfg) i v now (wk_db s) = (r, d)" by fastforce
      then have "call_effect i (set UNRESOLVED_STATES) outcomes (wk_db s) r d"
        using complete_effect [OF Inr, of "wk_db s" now i] assms by (simp add: worker_inv_def)
      then have "worker_inv (s\<lparr>wk_db := d, wk_owner := after_call i r\<rparr>)"
        by (rule report_call_inv [OF assms(1) owner]) (auto simp: after_call_def)
      then show ?thesis by (simp add: owner_report_def Returned Inr c)
    qed
  next
    case (KnownFailure name)
    let ?ev = "failure_evidence ''known_no_effect_failure'' name"
    obtain r d where c: "op_fail (wc_maximum_json_bytes cfg) i ?ev now (wk_db s) = (r, d)" by fastforce
    let ?pc = "case r of Inr x \<Rightarrow> Finishing i True
      | Inl e \<Rightarrow> if is_invalid e then Reconciling i ?ev else Finishing i False"
    have "worker_inv (s\<lparr>wk_db := d, wk_owner := ?pc\<rparr>)"
    proof (cases "canonical_json (wc_maximum_json_bytes cfg) ?ev")
      case (Inl e)
      then have "r = Inl (OpSerialization e)" "d = wk_db s" using c by (auto simp: op_fail_def map_error_def)
      then show ?thesis using assms(2) by (intro move) (auto intro: line_up_owner [of _ s])
    next
      case (Inr t)
      then have "call_effect i {IN_FLIGHT, CLIENT_TIMED_OUT} {FAILED_OPERATION} (wk_db s) r d"
        using evidence_encodes(1) [OF Inr, of "wk_db s" now i] assms c by (simp add: worker_inv_def)
      then show ?thesis
        by (rule report_call_inv [OF assms(1) owner]) (auto simp: outcomes_def split: sum.splits)
    qed
    then show ?thesis by (simp add: owner_report_def KnownFailure Let_def c)
  next
    case (Raised name)
    with to_reconcile show ?thesis by (simp add: owner_report_def)
  next
    case (Escaped name)
    have "worker_inv (s\<lparr>wk_owner := Finishing i False\<rparr>)"
      using assms(2) by (intro move) (auto intro: line_up_owner [of _ s])
    with Escaped show ?thesis by (simp add: owner_report_def)
  qed
qed

lemma take_inv:
  "worker_inv s \<Longrightarrow> wk_owner s = Idle \<Longrightarrow> wk_queue s = i # q \<Longrightarrow> worker_inv (s\<lparr>wk_queue := q, wk_owner := Taken i\<rparr>)"
  by (rule worker_inv_move [of s]) (auto simp: line_up_def)

text \<open>A submission changes nothing, or creates one operation and puts it last in line.\<close>

lemma admit_created_key: "op_admit m i h p k q c e now d = (Inr (x, True), d') \<Longrightarrow> op_by_key k d = None"
  by (auto simp: op_admit_def transaction_Inr_iff checked_Inr_iff attempt_Inr_iff map_error_Inr_iff
      transaction_def Let_def split: option.splits sum.splits if_splits)

lemma submit_effect:
  assumes inv: "op_inv (wk_db s)" and pending: "wk_pending s = None"
  obtains (same) "snd (submit cfg q i now s) = s"
  | (created) r d where "submit cfg q i now s = (Inr r, s\<lparr>wk_db := d, wk_pending := Some i\<rparr>)"
      "\<not> wk_stopping s" "\<not> wk_quarantined s" "length (wk_queue s) < wc_max_queue_size cfg"
      "op_inv d" "status (wk_db s) i = None" "status d = (status (wk_db s))(i \<mapsto> QUEUED)"
      "seq_of d = (seq_of (wk_db s))(i \<mapsto> Suc (op_last_sequence (wk_db s)))"
proof -
  obtain a d where admit: "op_admit (wc_maximum_json_bytes cfg) i (rq_handler_name q) (rq_payload q)
      (rq_idempotency_key q) (wc_queue_deadline_ms cfg) (wc_client_response_deadline_ms cfg)
      (wc_engine_health_threshold_ms cfg) now (wk_db s) = (a, d)" by fastforce
  show thesis
  proof (cases "\<exists>x. a = Inr (x, True)")
    case True
    then obtain x where x: "a = Inr (x, True)" by blast
    with admit have key: "op_get_by_key (rq_idempotency_key q) (wk_db s) = Inr None"
      using admit_created_key by (force simp: op_get_by_key_def)
    have d: "op_operation_id x = i" "status (wk_db s) i = None" "op_inv d"
      "seq_of d = (seq_of (wk_db s))(i \<mapsto> Suc (op_last_sequence (wk_db s)))"
      "status d = (status (wk_db s))(i \<mapsto> QUEUED)"
      using admit_effect [OF inv admit] x by auto
    show thesis
    proof (cases "rq_handler_name q \<in> set (wc_handlers cfg) \<and> \<not> wk_stopping s \<and> \<not> wk_quarantined s
        \<and> length (wk_queue s) < wc_max_queue_size cfg")
      case True
      then have "submit cfg q i now s = (Inr x, s\<lparr>wk_db := d, wk_pending := Some i\<rparr>)"
        using key x d(1) admit by (simp add: submit_def)
      with True d show thesis by (intro created) auto
    next
      case False
      then have "snd (submit cfg q i now s) = s" using key by (auto simp: submit_def)
      then show thesis by (rule same)
    qed
  next
    case False
    then have "d = wk_db s" using admit_effect [OF inv admit] by auto
    then have "snd (submit cfg q i now s) = s"
      using False admit pending by (auto simp: submit_def split: sum.splits prod.splits)
    then show thesis by (rule same)
  qed
qed

lemma submit_inv:
  assumes inv: "worker_inv s" and pending: "wk_pending s = None"
  shows "worker_inv (snd (submit cfg q i now s))"
proof -
  have db: "op_inv (wk_db s)" using inv by (simp add: worker_inv_def)
  from db pending show ?thesis
  proof (cases rule: submit_effect [where cfg = cfg and q = q and i = i and now = now])
    case (created r d)
    let ?s = "s\<lparr>wk_db := d, wk_pending := Some i\<rparr>"
    have known: "\<forall>j \<in> set (line_up s). \<exists>n. seq_of (wk_db s) j = Some n \<and> n \<le> op_last_sequence (wk_db s)"
      and order: "sorted_wrt (\<lambda>j k. the (seq_of (wk_db s) j) < the (seq_of (wk_db s) k)) (line_up s)"
      using inv seq_of_bound [OF db] by (auto simp: worker_inv_def ordered_def)
    have "seq_of (wk_db s) i = None" using created(6) by (auto simp: status_def seq_of_def)
    then have other: "j \<noteq> i" if "j \<in> set (line_up s)" for j using known that by force
    have "line_up ?s = line_up s @ [i]" using pending by (simp add: line_up_def)
    moreover have "sorted_wrt (\<lambda>j k. the (seq_of d j) < the (seq_of d k)) (line_up s)"
      using order by (rule sorted_wrt_mono_rel [rotated]) (simp add: created(8) other)
    moreover have "\<forall>j \<in> set (line_up s). seq_of d j \<noteq> None \<and> the (seq_of d j) < Suc (op_last_sequence (wk_db s))"
      using known other by (auto simp: created(8) less_Suc_eq_le)
    ultimately have "ordered d (line_up ?s)" by (simp add: ordered_def sorted_wrt_append created(8))
    moreover have "\<forall>j \<in> set (wk_calls s). \<not> startable (status d j)"
      using inv other by (auto simp: worker_inv_def created(7) line_up_def)
    moreover have "\<forall>j. unresolved (status d j) = unresolved (status (wk_db s) j)"
      using created(6) by (auto simp: created(7) UNRESOLVED_STATES_def)
    ultimately have "worker_inv ?s" using inv created(2,5) by (simp add: worker_inv_def)
    with created(1) show ?thesis by simp
  qed (use inv in simp)
qed

lemma submit_put_inv:
  assumes "worker_inv s" "wk_pending s = Some i"
  shows "worker_inv (submit_put cfg i s)"
proof -
  have "ordered (wk_db s) (line_up (submit_put cfg i s))" "\<not> wk_stopping s"
    using assms ordered_drop [of "wk_db s" "wk_calls s @ before_call (wk_owner s) @ wk_queue s" "[i]" "[]"]
    by (auto simp: worker_inv_def submit_put_def line_up_def)
  with assms(1) show ?thesis by (auto simp: worker_inv_def submit_put_def)
qed

text \<open>Clients, the closing thread and the watchdog change the table only quietly.\<close>

lemma client_timeout_quiet: "op_inv (wk_db s) \<Longrightarrow> quiet (wk_db s) (wk_db (client_timeout i now s))"
  using call_effect_quiet [OF timed_out_effect [of "wk_db s" i]]
  by (simp add: client_timeout_def quiet_refl UNRESOLVED_STATES_def split: sum.split)

lemma unresponsive_quiet: "op_inv d \<Longrightarrow> quiet d (snd (op_mark_engine_unresponsive i d))"
  using call_effect_quiet [OF unresponsive_effect [of d i]] by (simp add: UNRESOLVED_STATES_def)

lemma close_begin_inv: "worker_inv s \<Longrightarrow> admission_free s \<Longrightarrow> worker_inv (close_begin s)"
  by (rule worker_inv_quiet [of s]) (auto simp: close_begin_def admission_free_def worker_inv_def quiet_refl)

lemma close_cancel_inv:
  assumes "worker_inv s" "sqlite_int now" "wk_cancelling s"
  shows "worker_inv (close_cancel now s)"
proof -
  have "op_inv (wk_db s)" "wk_stopping s" using assms(1,3) by (simp_all add: worker_inv_def)
  then show ?thesis
    using cancel_all_effect [of "wk_db s" now] cancel_all_quiet [of "wk_db s" now] assms(2)
    by (intro worker_inv_quiet [OF assms(1)]) (auto simp: close_cancel_def restates_def)
qed

lemma watch_inv:
  assumes "worker_inv s"
  shows "sqlite_int now \<Longrightarrow> worker_inv (watch_sweep b a now s)" "worker_inv (watch_check b a now s)"
    "worker_inv (watch_mark b i s)" "worker_inv (client_timeout i now s)" "worker_inv (close_mark c s)"
proof -
  have d: "op_inv (wk_db s)" and flags: "wk_cancelling s \<or> wk_cancelled s \<longrightarrow> wk_stopping s"
    using assms by (simp_all add: worker_inv_def)
  show "worker_inv (watch_sweep b a now s)" if "sqlite_int now"
    using cancel_expired_quiet [OF d that] flags by (intro worker_inv_quiet [OF assms]) (simp_all add: watch_sweep_def)
  show "worker_inv (watch_check b a now s)"
    using quiet_refl [OF d] flags by (intro worker_inv_quiet [OF assms]) (simp_all add: watch_check_def)
  show "worker_inv (watch_mark b i s)"
    using unresponsive_quiet [OF d] flags by (intro worker_inv_quiet [OF assms]) (simp_all add: watch_mark_def split_beta)
  show "worker_inv (client_timeout i now s)"
    using client_timeout_quiet [OF d] flags
    by (intro worker_inv_quiet [OF assms]) (simp_all add: client_timeout_def split: sum.split)
  show "worker_inv (close_mark c s)"
    using unresponsive_quiet [OF d] quiet_refl [OF d] flags
    by (intro worker_inv_quiet [OF assms]) (simp_all add: close_mark_def split: option.split)
qed

theorem worker_apply_inv:
  assumes "worker_inv s" "clock_ok e" "worker_apply cfg e s = Some s'"
  shows "worker_inv s'"
proof -
  have other: "worker_inv (s\<lparr>wk_closer := c\<rparr>)" "worker_inv (s\<lparr>wk_watchdog := w\<rparr>)"
    "worker_inv (s\<lparr>wk_quarantined := True\<rparr>)" for c w
    using assms(1) by (auto simp: worker_inv_def line_up_def)
  have exit: "worker_inv (s\<lparr>wk_owner := Exited None\<rparr>)" if "wk_owner s = Idle"
    using assms(1) that by (intro worker_inv_move [OF assms(1)]) (auto intro: line_up_owner [of _ s])
  note steps = submit_inv [OF assms(1)] submit_put_inv [OF assms(1)] watch_inv [OF assms(1)] take_inv [OF assms(1)]
    close_begin_inv [OF assms(1)] close_cancel_inv [OF assms(1)] owner_read_inv [OF assms(1)] owner_cancel_inv [OF assms(1)]
    owner_start_inv [OF assms(1)] owner_activate_inv [OF assms(1)] handler_returns_inv [OF assms(1)]
    owner_report_inv [OF assms(1)] owner_reconcile_inv [OF assms(1)] owner_finish_inv [OF assms(1)]
  show ?thesis
    using assms(2,3) by (cases e) (auto simp: admission_free_def split: if_splits option.splits owner_pc.splits watchdog_pc.splits list.splits
        intro: steps other exit)
qed

lemma reachable_inv: "reachable cfg s \<Longrightarrow> worker_inv s"
  by (induction rule: reachable.induct) (auto elim!: worker_stepE intro: worker_inv_initial worker_apply_inv)

end
