(* ===== verification/Worker_System.thy ===== *)
theory Worker_System
  imports Worker_Laws
begin

text \<open>
  The properties of the worker over all interleavings of its threads: one call at a
  time, each operation called at most once and in admission order, closing that
  starts nothing and drains, and what quarantine does not stop.
\<close>

section \<open>One call at a time\<close>

definition worker_try :: "worker_config \<Rightarrow> worker \<Rightarrow> worker_event \<Rightarrow> worker" where
  "worker_try cfg s e = (if clock_ok e then (case worker_apply cfg e s of None \<Rightarrow> s | Some s' \<Rightarrow> s') else s)"

lemma worker_apply_calls: "worker_apply cfg e s = Some s' \<Longrightarrow> prefix (wk_calls s) (wk_calls s')"
  by (cases e)
    (auto simp: submit_def submit_put_def client_timeout_def close_begin_def close_cancel_def close_mark_def
        owner_read_def owner_cancel_def owner_start_def owner_activate_def owner_report_def owner_reconcile_def owner_finish_def
        watch_sweep_def watch_check_def watch_mark_def Let_def
      split: if_splits option.splits owner_pc.splits watchdog_pc.splits list.splits sum.splits prod.splits
        handler_outcome.splits)

interpretation worker_machine: append_only_machine "worker_try cfg" worker_inv wk_calls
  by unfold_locales
    (auto simp: worker_try_def split: option.split intro: worker_apply_inv worker_apply_calls)

lemma worker_run_try: "worker_run cfg es s = Some s' \<Longrightarrow> run_ops (worker_try cfg) s es = s'"
  by (induction es arbitrary: s) (auto simp: worker_try_def split: if_splits option.splits)

text \<open>C2: In every reachable state of the worker, whatever its threads have done, at most one
  operation has an unresolved call, namely the one the owner thread holds; and while
  the owner runs a handler, or has yet to report its outcome, the operation is durably
  recorded as started.\<close>

theorem one_call_at_a_time:
  assumes "reachable cfg s"
  shows "(\<forall>r \<in> set (op_rows (wk_db s)). or_state r \<in> set UNRESOLVED_STATES \<longrightarrow>
        in_hand (wk_owner s) = Some (or_operation_id r))
    \<and> (\<forall>i. running (wk_owner s) = Some i \<longrightarrow>
        (\<exists>r \<in> set (op_rows (wk_db s)). or_operation_id r = i \<and> or_state r \<in> set UNRESOLVED_STATES))"
proof (intro conjI ballI allI impI)
  note inv = reachable_inv [OF assms]
  fix r assume r: "r \<in> set (op_rows (wk_db s))" "or_state r \<in> set UNRESOLVED_STATES"
  have "unique_key or_operation_id (op_rows (wk_db s))" using inv by (simp add: worker_inv_def op_inv_def)
  then have "op_by_id (or_operation_id r) (wk_db s) = Some r"
    using r(1) lookup_row_unique by (simp add: op_by_id_def)
  then have "unresolved (status (wk_db s) (or_operation_id r))" using r(2) by (simp add: status_def)
  with inv show "in_hand (wk_owner s) = Some (or_operation_id r)" by (simp add: worker_inv_def)
next
  fix i assume "running (wk_owner s) = Some i"
  then have "unresolved (status (wk_db s) i)" by (rule running_unresolved [OF reachable_inv [OF assms]])
  then obtain r where "op_by_id i (wk_db s) = Some r" "or_state r \<in> set UNRESOLVED_STATES"
    by (auto simp: status_def)
  then show "\<exists>r \<in> set (op_rows (wk_db s)). or_operation_id r = i \<and> or_state r \<in> set UNRESOLVED_STATES"
    using lookup_row_SomeD unfolding op_by_id_def by fastforce
qed

lemma sorted_wrt_neq: "sorted_wrt (\<noteq>) xs = distinct xs"
  by (induction xs) auto

text \<open>C5: The handler calls of a worker are of distinct operations, in the order in which the
  operations were admitted; an operation that was called is neither queued nor
  cancelled before its start, so no call is made of a cancelled operation.\<close>

theorem calls_once_in_admission_order:
  assumes "reachable cfg s"
  shows "distinct (wk_calls s)
    \<and> sorted_wrt (\<lambda>i j. \<exists>r r'. op_by_id i (wk_db s) = Some r \<and> op_by_id j (wk_db s) = Some r'
        \<and> or_sequence r < or_sequence r') (wk_calls s)
    \<and> (\<forall>i \<in> set (wk_calls s). \<exists>r. op_by_id i (wk_db s) = Some r
        \<and> or_state r \<noteq> QUEUED \<and> or_state r \<noteq> CANCELLED_BEFORE_START)"
proof -
  have inv: "ordered (wk_db s) (line_up s)" "\<forall>i \<in> set (wk_calls s). \<not> startable (status (wk_db s) i)"
    using reachable_inv [OF assms] by (simp_all add: worker_inv_def)
  then have known: "\<forall>i \<in> set (wk_calls s). seq_of (wk_db s) i \<noteq> None"
    and order: "sorted_wrt (\<lambda>i j. the (seq_of (wk_db s) i) < the (seq_of (wk_db s) j)) (wk_calls s)"
    by (simp_all add: ordered_def line_up_def sorted_wrt_append)
  have "sorted_wrt (\<noteq>) (wk_calls s)" using order by (rule sorted_wrt_mono_rel [rotated]) auto
  then have "distinct (wk_calls s)" by (simp flip: sorted_wrt_neq)
  moreover have "sorted_wrt (\<lambda>i j. \<exists>r r'. op_by_id i (wk_db s) = Some r \<and> op_by_id j (wk_db s) = Some r'
        \<and> or_sequence r < or_sequence r') (wk_calls s)"
  proof (rule sorted_wrt_mono_rel [OF _ order])
    fix i j assume "i \<in> set (wk_calls s)" "j \<in> set (wk_calls s)"
      and lt: "the (seq_of (wk_db s) i) < the (seq_of (wk_db s) j)"
    then have "seq_of (wk_db s) i \<noteq> None" "seq_of (wk_db s) j \<noteq> None" using known by blast+
    with lt show "\<exists>r r'. op_by_id i (wk_db s) = Some r \<and> op_by_id j (wk_db s) = Some r' \<and> or_sequence r < or_sequence r'"
      by (auto simp: seq_of_def)
  qed
  moreover have "\<exists>r. op_by_id i (wk_db s) = Some r \<and> or_state r \<noteq> QUEUED \<and> or_state r \<noteq> CANCELLED_BEFORE_START"
    if "i \<in> set (wk_calls s)" for i
    using inv(2) that by (force simp: startable_def status_def)
  ultimately show ?thesis by blast
qed

section \<open>Closing\<close>

fun owner_event :: "worker_event \<Rightarrow> bool" where
  "owner_event OwnerTake = True"
| "owner_event (OwnerRead now) = True"
| "owner_event (OwnerCancel now) = True"
| "owner_event (OwnerStart now) = True"
| "owner_event OwnerActivate = True"
| "owner_event (HandlerReturns r) = True"
| "owner_event (OwnerReport now) = True"
| "owner_event (OwnerReconcile now) = True"
| "owner_event OwnerFinish = True"
| "owner_event OwnerExit = True"
| "owner_event e = False"

fun owner_rank :: "owner_pc \<Rightarrow> nat" where
  "owner_rank Idle = 1"
| "owner_rank (Taken i) = 8"
| "owner_rank (Expiring i) = 7"
| "owner_rank (Starting i) = 7"
| "owner_rank (Started i p) = 6"
| "owner_rank (Executing i) = 5"
| "owner_rank (Reporting i r) = 4"
| "owner_rank (Reconciling i ev) = 3"
| "owner_rank (Finishing i alive) = 2"
| "owner_rank (Exited x) = 0"

definition owner_measure :: "worker \<Rightarrow> nat" where
  "owner_measure s = 10 * length (wk_queue s) + owner_rank (wk_owner s)"

text \<open>Of what the owner may call: nothing but the operation it has already started.\<close>

definition may_call :: "worker \<Rightarrow> string set" where
  "may_call s = (case wk_owner s of Started i p \<Rightarrow> {i} | _ \<Rightarrow> {})"

lemma owner_event_decreases:
  "owner_event e \<Longrightarrow> worker_apply cfg e s = Some s' \<Longrightarrow> owner_measure s' < owner_measure s"
  by (cases e)
    (auto simp: owner_measure_def owner_read_def owner_cancel_def owner_start_def owner_activate_def
        owner_report_def owner_reconcile_def owner_finish_def after_call_def Let_def
      split: if_splits option.splits owner_pc.splits list.splits sum.splits prod.splits handler_outcome.splits)

lemma other_event_keeps_owner:
  "\<not> owner_event e \<Longrightarrow> worker_apply cfg e s = Some s' \<Longrightarrow> wk_owner s' = wk_owner s \<and> wk_calls s' = wk_calls s
     \<and> (wk_queue s' = wk_queue s \<or> wk_pending s \<noteq> None) \<and> (wk_stopping s \<longrightarrow> wk_stopping s')
     \<and> (wk_cancelled s \<longrightarrow> wk_cancelled s')"
  by (cases e)
    (auto simp: submit_def submit_put_def client_timeout_def close_begin_def close_cancel_def close_mark_def
        watch_sweep_def watch_check_def watch_mark_def Let_def
      split: if_splits option.splits watchdog_pc.splits owner_pc.splits sum.splits prod.splits)

lemma owner_event_keeps_stopping:
  "owner_event e \<Longrightarrow> worker_apply cfg e s = Some s' \<Longrightarrow>
     wk_stopping s' = wk_stopping s \<and> wk_cancelled s' = wk_cancelled s"
  by (cases e)
    (auto simp: owner_read_def owner_cancel_def owner_start_def owner_activate_def
        owner_report_def owner_reconcile_def owner_finish_def Let_def
      split: if_splits option.splits owner_pc.splits list.splits sum.splits prod.splits handler_outcome.splits)

text \<open>Once the queued rows are cancelled, an operation cannot be started: there is none left.\<close>

lemma stopping_start_refused:
  assumes "worker_inv s" "wk_cancelled s" "sqlite_int now"
  shows "wk_owner (owner_start i now s) = Finishing i alive \<or> wk_owner (owner_start i now s) = Finishing i (\<not> alive)"
proof -
  have "op_inv (wk_db s)" "status (wk_db s) i \<noteq> Some QUEUED" using assms(1,2) by (simp_all add: worker_inv_def)
  with start_effect [of "wk_db s" now i] assms(3)
  obtain e where "fst (op_start i now (wk_db s)) = Inl e" by (auto simp: call_effect_def)
  then show ?thesis by (auto simp: owner_start_def split: prod.splits)
qed

lemma stopping_calls:
  assumes "worker_inv s" "wk_cancelled s" "clock_ok e" "worker_apply cfg e s = Some s'"
  shows "set (wk_calls s') \<union> may_call s' \<subseteq> set (wk_calls s) \<union> may_call s"
proof (cases "owner_event e")
  case False
  with other_event_keeps_owner [OF _ assms(4)] show ?thesis by (simp add: may_call_def)
next
  case True
  show ?thesis
  proof (cases "\<exists>now. e = OwnerStart now")
    case True
    then obtain now i where "e = OwnerStart now" "wk_owner s = Starting i" "s' = owner_start i now s"
      using assms(4) by (auto split: owner_pc.splits)
    moreover have "wk_calls s' = wk_calls s" using calculation by (simp add: owner_start_def split: prod.split)
    ultimately show ?thesis
      using stopping_start_refused [OF assms(1,2), of now i True] assms(3) by (auto simp: may_call_def)
  next
    case False
    with True assms(4) show ?thesis
      by (cases e)
        (auto simp: may_call_def owner_read_def owner_cancel_def owner_activate_def
            owner_report_def owner_reconcile_def owner_finish_def after_call_def Let_def
          split: if_splits option.splits owner_pc.splits list.splits sum.splits prod.splits handler_outcome.splits)
  qed
qed

lemma stopping_step:
  assumes "worker_inv s" "wk_stopping s" "clock_ok e" "worker_apply cfg e s = Some s'"
  shows "worker_inv s' \<and> wk_stopping s' \<and> (wk_cancelled s \<longrightarrow> wk_cancelled s')
    \<and> owner_measure s' + (if owner_event e then 1 else 0) \<le> owner_measure s"
proof (cases "owner_event e")
  case True
  with owner_event_decreases [OF True assms(4)] owner_event_keeps_stopping [OF True assms(4)] assms
    worker_apply_inv [OF assms(1,3,4)] show ?thesis by simp
next
  case False
  have "wk_pending s = None" using assms(1,2) by (simp add: worker_inv_def)
  with other_event_keeps_owner [OF False assms(4)] assms(2) worker_apply_inv [OF assms(1,3,4)] False
  show ?thesis by (simp add: owner_measure_def)
qed

text \<open>While closing, no thread creates a row.\<close>

lemma call_effect_seq: "call_effect i S T d r d' \<Longrightarrow> seq_of d' = seq_of d"
  by (auto simp: call_effect_def restates_def)

lemma reconcile_seq:
  assumes "op_inv (wk_db s)" "sqlite_int now"
  shows "seq_of (wk_db (owner_reconcile cfg i ev now s)) = seq_of (wk_db s)"
proof (cases "canonical_json (wc_maximum_json_bytes cfg) ev")
  case (Inl e)
  then show ?thesis by (simp add: owner_reconcile_def op_require_reconciliation_def map_error_def)
next
  case (Inr t)
  from call_effect_seq [OF evidence_encodes(2) [OF Inr assms]] show ?thesis
    by (simp add: owner_reconcile_def split_beta)
qed

lemma report_seq:
  assumes "op_inv (wk_db s)" "sqlite_int now"
  shows "seq_of (wk_db (owner_report cfg i h now s)) = seq_of (wk_db s)"
proof (cases h)
  case (Returned v)
  show ?thesis
  proof (cases "canonical_json (wc_maximum_json_bytes cfg) v")
    case (Inr t)
    with call_effect_seq [OF complete_effect [OF Inr assms]] Returned show ?thesis
      by (simp add: owner_report_def split_beta)
  qed (simp add: Returned owner_report_def)
next
  case (KnownFailure name)
  let ?ev = "failure_evidence ''known_no_effect_failure'' name"
  show ?thesis
  proof (cases "canonical_json (wc_maximum_json_bytes cfg) ?ev")
    case (Inl e)
    with KnownFailure show ?thesis by (simp add: owner_report_def op_fail_def map_error_def Let_def)
  next
    case (Inr t)
    from call_effect_seq [OF evidence_encodes(1) [OF Inr assms]] KnownFailure show ?thesis
      by (simp add: owner_report_def split_beta Let_def)
  qed
qed (simp_all add: owner_report_def)

lemma stopping_seq:
  assumes "worker_inv s" "wk_stopping s" "clock_ok e" "worker_apply cfg e s = Some s'"
  shows "seq_of (wk_db s') = seq_of (wk_db s)"
proof -
  have d: "op_inv (wk_db s)" and p: "wk_pending s = None" using assms(1,2) by (simp_all add: worker_inv_def)
  have quiet_seq: "quiet (wk_db s) d' \<Longrightarrow> seq_of d' = seq_of (wk_db s)" for d' by (simp add: quiet_def)
  note quiets = quiet_seq [OF client_timeout_quiet [OF d]] quiet_seq [OF unresponsive_quiet [OF d]]
    quiet_seq [OF cancel_all_quiet [OF d]] quiet_seq [OF cancel_expired_quiet [OF d]]
  have calls: "seq_of d' = seq_of (wk_db s)"
    if "op_cancel_before_start i now (wk_db s) = (x, d') \<or> op_start i now (wk_db s) = (x, d')" "sqlite_int now" for i now x d'
    using that call_effect_seq [OF cancel_effect [OF d]] call_effect_seq [OF start_effect [OF d]] by (metis snd_conv)
  have marked: "seq_of d' = seq_of (wk_db s)" if "op_mark_engine_unresponsive i (wk_db s) = (x, d')" for i x d'
    using quiets(2) [of i] that by simp
  show ?thesis
  proof (cases e)
    case (Submit q i now)
    from d p show ?thesis
    proof (cases rule: submit_effect [where cfg = cfg and q = q and i = i and now = now])
      case (created r d')
      with assms(2) show ?thesis by simp
    qed (use Submit assms(4) in \<open>auto split: if_splits\<close>)
  next
    case (OwnerReport now)
    then obtain i h where "s' = owner_report cfg i h now s" using assms(4) by (auto split: owner_pc.splits)
    then show ?thesis using report_seq [OF d, of now cfg i h] OwnerReport assms(3) by simp
  next
    case (OwnerReconcile now)
    then obtain i ev where "s' = owner_reconcile cfg i ev now s" using assms(4) by (auto split: owner_pc.splits)
    then show ?thesis using reconcile_seq [OF d, of now cfg i ev] OwnerReconcile assms(3) by simp
  qed (use assms(3,4) p in \<open>auto simp: close_begin_def close_cancel_def close_mark_def owner_read_def owner_cancel_def
      owner_start_def owner_activate_def owner_finish_def watch_sweep_def watch_check_def watch_mark_def quiets
      intro: calls marked
      split: if_splits option.splits owner_pc.splits watchdog_pc.splits list.splits sum.splits prod.splits\<close>)
qed

lemma owner_enabled:
  assumes "worker_inv s" "wk_stopping s" "\<forall>x. wk_owner s \<noteq> Exited x"
  shows "\<exists>e. owner_event e \<and> clock_ok e \<and> worker_apply cfg e s \<noteq> None"
proof (cases "wk_owner s")
  case Idle
  then have "wk_active s = None" using assms(1) by (simp add: worker_inv_def)
  with Idle assms(2) show ?thesis
    by (cases "wk_queue s") (auto intro: exI [of _ OwnerExit] exI [of _ OwnerTake])
next
  case (Taken i)
  then show ?thesis by (intro exI [of _ "OwnerRead 0"]) (simp add: sqlite_int_def)
next
  case (Expiring i)
  then show ?thesis by (intro exI [of _ "OwnerCancel 0"]) (simp add: sqlite_int_def)
next
  case (Starting i)
  then show ?thesis by (intro exI [of _ "OwnerStart 0"]) (simp add: sqlite_int_def)
next
  case (Started i p)
  then show ?thesis by (intro exI [of _ "OwnerActivate"]) simp
next
  case (Executing i)
  then show ?thesis by (intro exI [of _ "HandlerReturns (Raised [])"]) simp
next
  case (Reporting i r)
  then show ?thesis by (intro exI [of _ "OwnerReport 0"]) (simp add: sqlite_int_def)
next
  case (Reconciling i ev)
  then show ?thesis by (intro exI [of _ "OwnerReconcile 0"]) (simp add: sqlite_int_def)
next
  case (Finishing i alive)
  then show ?thesis by (intro exI [of _ "OwnerFinish"]) simp
qed (use assms(3) in blast)

lemma stopping_run:
  "worker_run cfg es s = Some s' \<Longrightarrow> worker_inv s \<Longrightarrow> wk_stopping s \<Longrightarrow>
     worker_inv s' \<and> wk_stopping s' \<and> length (filter owner_event es) + owner_measure s' \<le> owner_measure s
     \<and> seq_of (wk_db s') = seq_of (wk_db s)
     \<and> (wk_cancelled s \<longrightarrow> wk_cancelled s' \<and> set (wk_calls s') \<union> may_call s' \<subseteq> set (wk_calls s) \<union> may_call s)"
proof (induction es arbitrary: s)
  case (Cons e es)
  then obtain u where u: "clock_ok e" "worker_apply cfg e s = Some u" "worker_run cfg es u = Some s'"
    by (auto split: if_splits option.splits)
  note step = stopping_step [OF Cons.prems(2,3) u(1,2)] stopping_seq [OF Cons.prems(2,3) u(1,2)]
    and calls = stopping_calls [OF Cons.prems(2) _ u(1,2)]
  from Cons.IH [OF u(3)] step(1) have rest: "worker_inv s' \<and> wk_stopping s'
     \<and> length (filter owner_event es) + owner_measure s' \<le> owner_measure u
     \<and> seq_of (wk_db s') = seq_of (wk_db u)
     \<and> (wk_cancelled u \<longrightarrow> wk_cancelled s' \<and> set (wk_calls s') \<union> may_call s' \<subseteq> set (wk_calls u) \<union> may_call u)" by blast
  then have "length (filter owner_event (e # es)) + owner_measure s' \<le> owner_measure s"
    using step(1) by (auto split: if_splits)
  moreover have "wk_cancelled s \<longrightarrow> wk_cancelled s' \<and> set (wk_calls s') \<union> may_call s' \<subseteq> set (wk_calls s) \<union> may_call s"
    using rest step(1) calls by blast
  ultimately show ?case using rest step(2) by simp
qed simp

text \<open>C14: Closing in its two steps, however the threads interleave and whatever clients submit.
  Once \<open>close\<close> has set the stopping flag every submission of a new key is refused, and only
  operations that were admitted before are ever called; until the queued rows are cancelled
  the owner may still start them.  Once \<open>cancel_all_queued\<close> has committed, nothing is called
  but the operation that was already started, and no row is queued again.\<close>

theorem closing_starts_nothing:
  assumes "reachable cfg s" "wk_stopping s" "worker_run cfg es s = Some s'"
  shows "(\<forall>i \<in> set (wk_calls s'). \<exists>r. op_by_id i (wk_db s) = Some r)
    \<and> (wk_cancelled s \<longrightarrow> set (wk_calls s') \<subseteq> set (wk_calls s) \<union> may_call s
         \<and> (\<forall>r \<in> set (op_rows (wk_db s')). or_state r \<noteq> QUEUED))
    \<and> (\<forall>q i now. op_by_key (rq_idempotency_key q) (wk_db s') = None \<longrightarrow>
         isl (fst (submit cfg q i now s')) \<and> snd (submit cfg q i now s') = s')"
proof -
  note run = stopping_run [OF assms(3) reachable_inv [OF assms(1)] assms(2)]
  then have inv: "op_inv (wk_db s')" "wk_cancelled s' \<longrightarrow> (\<forall>i. status (wk_db s') i \<noteq> Some QUEUED)"
    by (simp_all add: worker_inv_def)
  have "or_state r \<noteq> QUEUED" if "wk_cancelled s'" "r \<in> set (op_rows (wk_db s'))" for r
    using inv lookup_row_unique that unfolding op_inv_def status_def op_by_id_def by fastforce
  moreover have "seq_of (wk_db s) i \<noteq> None" if "i \<in> set (wk_calls s')" for i
    using run that by (auto simp: worker_inv_def ordered_def line_up_def)
  then have "\<forall>i \<in> set (wk_calls s'). \<exists>r. op_by_id i (wk_db s) = Some r" by (auto simp: seq_of_def)
  moreover have "wk_stopping s'" using run by blast
  then have "isl (fst (submit cfg q i now s')) \<and> snd (submit cfg q i now s') = s'"
    if "op_by_key (rq_idempotency_key q) (wk_db s') = None" for q i now
    using that by (simp add: submit_def op_get_by_key_def)
  ultimately show ?thesis using run by blast
qed

text \<open>C13: Closing drains: from a state in which \<open>close\<close> has begun, a run contains at most
  ten events of the owner thread per queued identifier and eight more, and as long as
  the owner has not left its loop one of its events can happen.  So the owner thread
  ends as soon as the handler it may be running returns.\<close>

theorem closing_drains:
  assumes "reachable cfg s" "wk_stopping s" "worker_run cfg es s = Some s'"
  shows "length (filter owner_event es) \<le> 10 * length (wk_queue s) + 8
    \<and> ((\<exists>x. wk_owner s' = Exited x) \<or> (\<exists>e. owner_event e \<and> clock_ok e \<and> worker_apply cfg e s' \<noteq> None))"
proof -
  note run = stopping_run [OF assms(3) reachable_inv [OF assms(1)] assms(2)]
  have "owner_rank (wk_owner s) \<le> 8" by (cases "wk_owner s") simp_all
  then have "length (filter owner_event es) \<le> 10 * length (wk_queue s) + 8"
    using run by (simp add: owner_measure_def)
  with run owner_enabled [of s' cfg] show ?thesis by blast
qed

section \<open>A sample run\<close>

definition sample_config :: worker_config where
  "sample_config = \<lparr>wc_handlers = [''refresh''], wc_max_queue_size = 4, wc_queue_deadline_ms = 1000,
     wc_client_response_deadline_ms = 10, wc_engine_health_threshold_ms = 20, wc_maximum_json_bytes = MAX_SERIALIZED_BYTES\<rparr>"

definition sample_operation :: "string \<Rightarrow> operation_request" where
  "sample_operation k = \<lparr>rq_handler_name = ''refresh'', rq_payload = PyInt 7, rq_idempotency_key = k\<rparr>"

text \<open>Two operations are submitted, the first is called and outlives the health threshold.\<close>

definition sample_events :: "worker_event list" where
  "sample_events = [Submit (sample_operation ''key-1'') ''op-1'' 1000, SubmitPut,
     Submit (sample_operation ''key-2'') ''op-2'' 1001, SubmitPut,
     OwnerTake, OwnerRead 1002, OwnerStart 1003, OwnerActivate,
     WatchSample, WatchSweep 30000000, WatchCheck 30000000, WatchMark]"

abbreviation fresh_worker :: worker where
  "fresh_worker \<equiv> worker_init 0 0 \<lparr>op_rows = [], op_last_sequence = 0\<rparr>"

definition sample_worker :: worker where
  "sample_worker = the (worker_run sample_config sample_events fresh_worker)"

text \<open>From there the handler returns, and the owner goes on.\<close>

definition later_events :: "worker_event list" where
  "later_events = [HandlerReturns (Returned (PyInt 1)), OwnerReport 40000000, OwnerFinish,
     OwnerTake, OwnerRead 40000001, OwnerStart 40000002, OwnerActivate]"

text \<open>Or the service closes, with the first operation still running.\<close>

definition closing_events :: "worker_event list" where
  "closing_events = [CloseBegin, CloseCancel 30000001, HandlerReturns (Returned (PyInt 1)), OwnerReport 40000000, OwnerFinish,
     OwnerTake, OwnerRead 40000001, OwnerFinish, OwnerExit]"

text \<open>What the witnesses read of a state.\<close>

definition worker_view :: "worker \<Rightarrow> operation_state list \<times> owner_pc \<times> bool \<times> string list \<times> string list" where
  "worker_view s = (map or_state (op_rows (wk_db s)), wk_owner s, wk_quarantined s, wk_calls s, wk_queue s)"

lemma sample_views:
  "map_option (\<lambda>s. (worker_view s, (op_by_key ''key-3'' (wk_db s), wk_stopping s),
       map_option worker_view (worker_run sample_config later_events s),
       map_option worker_view (worker_run sample_config closing_events s)))
     (worker_run sample_config sample_events fresh_worker)
   = Some (([ENGINE_UNRESPONSIVE, QUEUED], Executing ''op-1'', True, [''op-1''], [''op-2'']), (None, False),
       Some ([RECONCILIATION_NEEDED, IN_FLIGHT], Executing ''op-2'', True, [''op-1'', ''op-2''], []),
       Some ([RECONCILIATION_NEEDED, CANCELLED_BEFORE_START], Exited None, True, [''op-1''], []))"
  by code_simp

lemma sample_worker_run: "worker_run sample_config sample_events fresh_worker = Some sample_worker"
  using sample_views by (auto simp: sample_worker_def)

lemma sample_worker_view:
  "worker_view sample_worker = ([ENGINE_UNRESPONSIVE, QUEUED], Executing ''op-1'', True, [''op-1''], [''op-2''])"
  "map_option worker_view (worker_run sample_config later_events sample_worker)
     = Some ([RECONCILIATION_NEEDED, IN_FLIGHT], Executing ''op-2'', True, [''op-1'', ''op-2''], [])"
  "map_option worker_view (worker_run sample_config closing_events sample_worker)
     = Some ([RECONCILIATION_NEEDED, CANCELLED_BEFORE_START], Exited None, True, [''op-1''], [])"
  using sample_views unfolding sample_worker_run by simp_all

lemma sample_worker_keys: "op_by_key ''key-3'' (wk_db sample_worker) = None" "\<not> wk_stopping sample_worker"
  using sample_views unfolding sample_worker_run by simp_all

lemma sample_worker_reachable: "reachable sample_config sample_worker"
  by (rule worker_run_reachable [OF sample_worker_run], rule reachable.initial) (simp_all add: sqlite_int_def)

theorem one_call_at_a_time_witness:
  "\<exists>r \<in> set (op_rows (wk_db sample_worker)). or_operation_id r = ''op-1'' \<and> or_state r = ENGINE_UNRESPONSIVE"
proof -
  have view: "wk_owner sample_worker = Executing ''op-1''"
    "map or_state (op_rows (wk_db sample_worker)) = [ENGINE_UNRESPONSIVE, QUEUED]"
    using sample_worker_view(1) by (simp_all add: worker_view_def)
  from one_call_at_a_time [OF sample_worker_reachable] view(1) obtain r
    where r: "r \<in> set (op_rows (wk_db sample_worker))" "or_operation_id r = ''op-1''" "or_state r \<in> set UNRESOLVED_STATES"
    by auto
  then have "or_state r \<in> set [ENGINE_UNRESPONSIVE, QUEUED]" unfolding view(2) [symmetric] by simp
  with r show ?thesis by (auto simp: UNRESOLVED_STATES_def)
qed

theorem calls_once_in_admission_order_witness:
  "\<exists>s. worker_run sample_config later_events sample_worker = Some s \<and> wk_calls s = [''op-1'', ''op-2'']
     \<and> (\<exists>r r'. op_by_id ''op-1'' (wk_db s) = Some r \<and> op_by_id ''op-2'' (wk_db s) = Some r'
          \<and> or_sequence r < or_sequence r')"
proof -
  from sample_worker_view(2) obtain s where s: "worker_run sample_config later_events sample_worker = Some s"
    and calls: "wk_calls s = [''op-1'', ''op-2'']" by (auto simp: worker_view_def)
  have "reachable sample_config s" by (rule worker_run_reachable [OF s sample_worker_reachable])
  from calls_once_in_admission_order [OF this] s calls show ?thesis by simp
qed

lemma sample_closing:
  obtains u s where "wk_cancelled u" "wk_stopping u" "wk_calls u = [''op-1'']" "wk_owner u = Executing ''op-1''"
    "wk_queue u = [''op-2'']" "reachable sample_config u" "worker_run sample_config (drop 2 closing_events) u = Some s"
    "wk_calls s = [''op-1'']" "wk_owner s = Exited None"
proof -
  from sample_worker_view(3) obtain s where s: "worker_run sample_config closing_events sample_worker = Some s"
    and view: "wk_calls s = [''op-1'']" "wk_owner s = Exited None" by (auto simp: worker_view_def)
  from s obtain v u where v: "worker_apply sample_config CloseBegin sample_worker = Some v" "clock_ok CloseBegin"
    and u: "worker_apply sample_config (CloseCancel 30000001) v = Some u" "clock_ok (CloseCancel 30000001)"
    and rest: "worker_run sample_config (drop 2 closing_events) u = Some s"
    unfolding closing_events_def by (auto simp del: worker_apply.simps split: if_splits option.splits)
  from v u have "wk_cancelled u" "wk_stopping u" "wk_calls u = [''op-1'']" "wk_owner u = Executing ''op-1''"
    "wk_queue u = [''op-2'']"
    using sample_worker_view(1) by (auto simp: worker_view_def close_begin_def close_cancel_def split: if_splits)
  moreover have "reachable sample_config v"
    using reachable.stepped [OF sample_worker_reachable] worker_step.event [OF v(2,1)] by blast
  then have "reachable sample_config u" using reachable.stepped worker_step.event [OF u(2,1)] by blast
  ultimately show thesis using rest view by (intro that) auto
qed

theorem closing_starts_nothing_witness:
  "\<exists>u s. wk_stopping u \<and> wk_queue u = [''op-2''] \<and> worker_run sample_config (drop 2 closing_events) u = Some s
     \<and> set (wk_calls s) \<subseteq> {''op-1''} \<and> (\<exists>r. op_by_id ''op-1'' (wk_db u) = Some r)"
proof (rule sample_closing)
  fix u s assume a: "wk_cancelled u" "wk_stopping u" "wk_calls u = [''op-1'']" "wk_owner u = Executing ''op-1''"
    "wk_queue u = [''op-2'']" "reachable sample_config u" "worker_run sample_config (drop 2 closing_events) u = Some s"
    "wk_calls s = [''op-1'']"
  from closing_starts_nothing [OF a(6,2,7)] a show ?thesis by (auto simp: may_call_def)
qed

theorem closing_drains_witness:
  "\<exists>u s. wk_stopping u \<and> worker_run sample_config (drop 2 closing_events) u = Some s \<and> wk_owner s = Exited None
     \<and> length (filter owner_event (drop 2 closing_events)) \<le> 18"
proof (rule sample_closing)
  fix u s assume a: "wk_stopping u" "wk_queue u = [''op-2'']" "reachable sample_config u"
    "worker_run sample_config (drop 2 closing_events) u = Some s" "wk_owner s = Exited None"
  from closing_drains [OF a(3,1,4)] a show ?thesis by auto
qed

section \<open>What quarantine does not stop\<close>

lemma op_start_queued:
  assumes "op_inv d" "op_get i d = Inr r" "op_state r = QUEUED" "sqlite_int now"
  obtains x d' r' where "op_start i now d = (Inr x, d')" "op_payload x = op_payload r"
    "op_by_id i d' = Some r'" "or_state r' = IN_FLIGHT"
proof -
  let ?f = "\<lambda>r. r\<lparr>or_state := IN_FLIGHT, or_version := or_version r + 1, or_started_at_ns := Some now\<rparr>"
  let ?e = "transition_error ''transition'' ('' to '' @ operation_state_value IN_FLIGHT) i d"
  obtain row where row: "op_by_id i d = Some row" "operation_of row = Inr r"
    using assms(2) by (auto simp: op_get_def split: option.splits)
  have "status d i \<in> Some ` set [QUEUED]" using row operation_of_fields [OF row(2)] assms(3) by (simp add: status_def)
  then obtain x d' where u: "update_operation i [QUEUED] ?f ?e d = Inr (x, d')" "op_by_id i d' = Some (?f row)"
    using update_operation_effect [OF assms(1), of ?f i "[QUEUED]" ?e] row(1) by (auto simp: same_operation_def)
  then have "operation_of (?f row) = Inr x"
    by (auto simp: update_operation_def Let_def attempt_Inr_iff op_get_def split: if_splits)
  then have payload: "op_payload x = op_payload r" using operation_of_fields [OF row(2)] operation_of_fields by fastforce
  have "op_start i now d = (Inr x, d')"
    using u(1) assms(4) by (simp add: op_start_def at_time_def op_transition_def transaction_def)
  moreover have "or_state (?f row) = IN_FLIGHT" by simp
  ultimately show thesis by (rule that [OF _ payload u(2)])
qed

text \<open>C39: a quarantined worker goes on calling.  In every reachable state in which the worker is
  quarantined and not closing and the owner thread is idle, with an operation first in the
  queue that is still queued before its deadline and whose stored payload can be encoded, the
  owner thread can take, start and call that operation, and the worker stays quarantined:
  a submission of a new key to a registered handler is then still refused as quarantined.\<close>

theorem quarantined_worker_calls_queued_work:
  assumes "reachable cfg s" "wk_quarantined s" "\<not> wk_stopping s" "wk_owner s = Idle" "wk_queue s = i # is"
    and r: "op_get i (wk_db s) = Inr r" "op_state r = QUEUED" "now < op_queue_deadline_at_ns r" "sqlite_int now"
    and payload: "canonical_json MAX_SERIALIZED_BYTES (py_of_json (op_payload r)) = Inr t"
  shows "\<exists>s'. worker_run cfg [OwnerTake, OwnerRead now, OwnerStart now, OwnerActivate] s = Some s'
    \<and> wk_quarantined s' \<and> wk_owner s' = Executing i \<and> wk_calls s' = wk_calls s @ [i]
    \<and> (\<exists>r'. op_by_id i (wk_db s') = Some r' \<and> or_state r' = IN_FLIGHT)
    \<and> (\<forall>q j now'. rq_handler_name q \<in> set (wc_handlers cfg) \<and> op_by_key (rq_idempotency_key q) (wk_db s') = None \<longrightarrow>
         submit cfg q j now' s' = (Inl EngineQuarantinedError, s'))"
proof -
  have "op_inv (wk_db s)" using reachable_inv [OF assms(1)] by (simp add: worker_inv_def)
  then obtain x d r' where start: "op_start i now (wk_db s) = (Inr x, d)" "op_payload x = op_payload r"
    "op_by_id i d = Some r'" "or_state r' = IN_FLIGHT" by (rule op_start_queued [OF _ r(1,2,4)])
  let ?s = "s\<lparr>wk_queue := is, wk_db := d, wk_active := Some i, wk_owner := Executing i, wk_calls := wk_calls s @ [i]\<rparr>"
  have "worker_run cfg [OwnerTake, OwnerRead now, OwnerStart now, OwnerActivate] s = Some ?s"
    using assms(4,5) r start(1,2) payload by (simp add: owner_read_def owner_start_def owner_activate_def)
  moreover have "submit cfg q j now' ?s = (Inl EngineQuarantinedError, ?s)"
    if "rq_handler_name q \<in> set (wc_handlers cfg)" "op_by_key (rq_idempotency_key q) d = None" for q j now'
    using that assms(2,3) by (simp add: submit_def op_get_by_key_def)
  ultimately show ?thesis using assms(2) start(3,4) by (intro exI [of _ ?s]) simp
qed

text \<open>The witness: the unresponsive call of the sample returns, and the second operation follows.\<close>

lemma resting_view:
  "map_option (\<lambda>s. (wk_quarantined s, wk_stopping s, wk_owner s, wk_queue s, wk_calls s,
       map_sum (\<lambda>_. ()) (\<lambda>r. (op_state r, op_queue_deadline_at_ns r,
         isl (canonical_json MAX_SERIALIZED_BYTES (py_of_json (op_payload r))))) (op_get ''op-2'' (wk_db s))))
     (worker_run sample_config (take 3 later_events) (the (worker_run sample_config sample_events fresh_worker)))
   = Some (True, False, Idle, [''op-2''], [''op-1''], Inr (QUEUED, 1000001001, False))"
  by code_simp

theorem quarantined_worker_calls_queued_work_witness:
  "\<exists>s s'. wk_quarantined s \<and> wk_calls s = [''op-1''] \<and> wk_calls s' = [''op-1'', ''op-2''] \<and> wk_owner s' = Executing ''op-2''
     \<and> worker_run sample_config [OwnerTake, OwnerRead 40000001, OwnerStart 40000001, OwnerActivate] s = Some s'"
proof -
  obtain s r where s: "worker_run sample_config (take 3 later_events) sample_worker = Some s"
    and view: "wk_quarantined s" "\<not> wk_stopping s" "wk_owner s = Idle" "wk_queue s = [''op-2'']" "wk_calls s = [''op-1'']"
    and r: "op_get ''op-2'' (wk_db s) = Inr r" "op_state r = QUEUED" "op_queue_deadline_at_ns r = 1000001001"
      "\<not> isl (canonical_json MAX_SERIALIZED_BYTES (py_of_json (op_payload r)))"
    using resting_view unfolding sample_worker_def [symmetric]
    by (cases "worker_run sample_config (take 3 later_events) sample_worker")
      (auto simp: map_sum_def split: sum.splits)
  from r(4) obtain t where t: "canonical_json MAX_SERIALIZED_BYTES (py_of_json (op_payload r)) = Inr t"
    by (cases "canonical_json MAX_SERIALIZED_BYTES (py_of_json (op_payload r))") auto
  have "reachable sample_config s" by (rule worker_run_reachable [OF s sample_worker_reachable])
  from quarantined_worker_calls_queued_work [OF this view(1-4) r(1,2) _ _ t, of 40000001] r(3) view(1,5)
  show ?thesis by (auto simp: sqlite_int_def)
qed

end
