(* ===== verification/Gateway_Owner.thy ===== *)
theory Gateway_Owner
  imports Worker_Laws
begin

text \<open>
  \<open>gateway/owner.py\<close>: \<open>SerializedPowerFactoryOwner\<close>, the typed facade over the
  worker.  A request is a domain object (a \<open>PyModel\<close> with its class), its payload the
  primitive tree it encodes to.  The gateway itself is a protocol implemented outside
  this module: \<open>gateway_method\<close> is its method of a given name on a given request, with
  a returned object or the exception it raises.
\<close>

section \<open>The operation table\<close>

datatype gateway_owner_handler =
    START | INSPECT_CONTEXT | ACTIVATE_CONTEXT | QUERY_OBJECTS | OBSERVE_DEPENDENCIES
  | EXECUTE_COMMAND | COLLECT_RESULTS | READ_LOGS | WRITE_ATTRIBUTE | CLOSE

fun gateway_owner_handler_value :: "gateway_owner_handler \<Rightarrow> string" where
  "gateway_owner_handler_value START = ''powerfactory.gateway.v1.start''"
| "gateway_owner_handler_value INSPECT_CONTEXT = ''powerfactory.gateway.v1.inspect-context''"
| "gateway_owner_handler_value ACTIVATE_CONTEXT = ''powerfactory.gateway.v1.activate-context''"
| "gateway_owner_handler_value QUERY_OBJECTS = ''powerfactory.gateway.v1.query-objects''"
| "gateway_owner_handler_value OBSERVE_DEPENDENCIES = ''powerfactory.gateway.v1.observe-dependencies''"
| "gateway_owner_handler_value EXECUTE_COMMAND = ''powerfactory.gateway.v1.execute-command''"
| "gateway_owner_handler_value COLLECT_RESULTS = ''powerfactory.gateway.v1.collect-results''"
| "gateway_owner_handler_value READ_LOGS = ''powerfactory.gateway.v1.read-logs''"
| "gateway_owner_handler_value WRITE_ATTRIBUTE = ''powerfactory.gateway.v1.write-attribute''"
| "gateway_owner_handler_value CLOSE = ''powerfactory.gateway.v1.close''"

record operation_spec =
  os_handler :: gateway_owner_handler
  os_method_name :: string
  os_request_type :: "string option"
  os_result_type :: string

fun spec_of :: "gateway_owner_handler \<Rightarrow> operation_spec" where
  "spec_of START = \<lparr>os_handler = START, os_method_name = ''start'',
     os_request_type = Some ''SessionStartRequest'', os_result_type = ''SessionObservation''\<rparr>"
| "spec_of INSPECT_CONTEXT = \<lparr>os_handler = INSPECT_CONTEXT, os_method_name = ''inspect_context'',
     os_request_type = None, os_result_type = ''ContextObservation''\<rparr>"
| "spec_of ACTIVATE_CONTEXT = \<lparr>os_handler = ACTIVATE_CONTEXT, os_method_name = ''activate_context'',
     os_request_type = Some ''ContextActivationRequest'', os_result_type = ''ContextActivationObservation''\<rparr>"
| "spec_of QUERY_OBJECTS = \<lparr>os_handler = QUERY_OBJECTS, os_method_name = ''query_objects'',
     os_request_type = Some ''ObjectQueryRequest'', os_result_type = ''ObjectQueryBatch''\<rparr>"
| "spec_of OBSERVE_DEPENDENCIES = \<lparr>os_handler = OBSERVE_DEPENDENCIES, os_method_name = ''observe_dependencies'',
     os_request_type = Some ''DependencyReadRequest'', os_result_type = ''DependencyObservation''\<rparr>"
| "spec_of EXECUTE_COMMAND = \<lparr>os_handler = EXECUTE_COMMAND, os_method_name = ''execute_command'',
     os_request_type = Some ''CommandExecutionRequest'', os_result_type = ''CommandExecutionObservation''\<rparr>"
| "spec_of COLLECT_RESULTS = \<lparr>os_handler = COLLECT_RESULTS, os_method_name = ''collect_results'',
     os_request_type = Some ''ResultCollectionRequest'', os_result_type = ''ResultBatch''\<rparr>"
| "spec_of READ_LOGS = \<lparr>os_handler = READ_LOGS, os_method_name = ''read_logs'',
     os_request_type = Some ''LogReadRequest'', os_result_type = ''LogBatch''\<rparr>"
| "spec_of WRITE_ATTRIBUTE = \<lparr>os_handler = WRITE_ATTRIBUTE, os_method_name = ''write_attribute'',
     os_request_type = Some ''AttributeWriteRequest'', os_result_type = ''AttributeWriteObservation''\<rparr>"
| "spec_of CLOSE = \<lparr>os_handler = CLOSE, os_method_name = ''close'',
     os_request_type = None, os_result_type = ''CleanupObservation''\<rparr>"

definition SPECS :: "operation_spec list" where
  "SPECS = map spec_of [START, INSPECT_CONTEXT, ACTIVATE_CONTEXT, QUERY_OBJECTS, OBSERVE_DEPENDENCIES,
     EXECUTE_COMMAND, COLLECT_RESULTS, READ_LOGS, WRITE_ATTRIBUTE, CLOSE]"

definition spec_by_handler :: "string \<Rightarrow> operation_spec option" where
  "spec_by_handler h = find (\<lambda>p. gateway_owner_handler_value (os_handler p) = h) SPECS"

text \<open>The worker of the owner: one handler per specification.\<close>

definition owner_config :: "nat \<Rightarrow> int \<Rightarrow> int \<Rightarrow> int \<Rightarrow> nat \<Rightarrow> worker_config" where
  "owner_config queue_size queue_ms client_ms engine_ms maximum =
     \<lparr>wc_handlers = map (\<lambda>p. gateway_owner_handler_value (os_handler p)) SPECS, wc_max_queue_size = queue_size,
      wc_queue_deadline_ms = queue_ms, wc_client_response_deadline_ms = client_ms,
      wc_engine_health_threshold_ms = engine_ms, wc_maximum_json_bytes = maximum\<rparr>"

section \<open>Submitting\<close>

datatype owner_error =
    OwnerTypeError string | OwnerValueError string | OwnerSerialization ser_error | OwnerWorker worker_error
  | OperationResultUnavailableError string operation_state | OperationResultTypeError string

fun class_name :: "py_value \<Rightarrow> string option" where
  "class_name (PyModel c fs) = Some c"
| "class_name v = None"

definition request_payload :: "operation_spec \<Rightarrow> py_value option \<Rightarrow> owner_error + py_value" where
  "request_payload spec request = (case os_request_type spec of
      None \<Rightarrow> if request \<noteq> None then Inl (OwnerTypeError (os_method_name spec @ '' does not accept a request''))
        else Inr (PyMap [])
    | Some c \<Rightarrow> if map_option class_name request \<noteq> Some (Some c)
        then Inl (OwnerTypeError (os_method_name spec @ '' requires '' @ c))
        else map_error OwnerSerialization (attempt (to_primitive (the request)) (\<lambda>j. Inr (py_of_json j))))"

definition owner_submit ::
  "worker_config \<Rightarrow> operation_spec \<Rightarrow> py_value option \<Rightarrow> string \<Rightarrow> string \<Rightarrow> int \<Rightarrow> worker
     \<Rightarrow> (owner_error + operation_record) \<times> worker" where
  "owner_submit cfg spec request key i now s = (case request_payload spec request of
      Inl e \<Rightarrow> (Inl e, s)
    | Inr payload \<Rightarrow> (let (r, s') = submit cfg \<lparr>rq_handler_name = gateway_owner_handler_value (os_handler spec),
          rq_payload = payload, rq_idempotency_key = key\<rparr> i now s in (map_error OwnerWorker r, s')))"

text \<open>A command carries its idempotency key; it must be the key of the operation.\<close>

fun model_field :: "string \<Rightarrow> py_value \<Rightarrow> py_value option" where
  "model_field n (PyModel c fs) = map_of fs n"
| "model_field n v = None"

definition submit_execute_command ::
  "worker_config \<Rightarrow> py_value option \<Rightarrow> string \<Rightarrow> string \<Rightarrow> int \<Rightarrow> worker
     \<Rightarrow> (owner_error + operation_record) \<times> worker" where
  "submit_execute_command cfg request key i now s =
     (if map_option class_name request \<noteq> Some (Some ''CommandExecutionRequest'')
      then (Inl (OwnerTypeError ''execute_command requires CommandExecutionRequest''), s)
      else if model_field ''idempotency_key'' (the request) \<noteq> Some (PyStr key)
      then (Inl (OwnerValueError ''command and durable-operation idempotency keys must match''), s)
      else owner_submit cfg (spec_of EXECUTE_COMMAND) request key i now s)"

section \<open>The handlers\<close>

text \<open>The tree a handler receives: the payload, copied through its canonical text.\<close>

definition owned_payload :: "json \<Rightarrow> json option" where
  "owned_payload p = (case canonical_json MAX_SERIALIZED_BYTES (py_of_json p) of
      Inl e \<Rightarrow> None | Inr t \<Rightarrow> json_loads t)"

definition check_result :: "operation_spec \<Rightarrow> handler_outcome \<Rightarrow> handler_outcome" where
  "check_result spec r = (case r of
      Returned v \<Rightarrow> if class_name v \<noteq> Some (os_result_type spec) then Raised ''TypeError''
        else (case to_primitive v of Inl e \<Rightarrow> Raised (ser_error_name e) | Inr j \<Rightarrow> Returned (py_of_json j))
    | _ \<Rightarrow> r)"

definition owner_handler ::
  "(string \<Rightarrow> datetime option) \<Rightarrow> class_table \<Rightarrow> (string \<Rightarrow> py_value option \<Rightarrow> handler_outcome)
     \<Rightarrow> operation_spec \<Rightarrow> json \<Rightarrow> handler_outcome" where
  "owner_handler fi C gateway_method spec payload = (case os_request_type spec of
      None \<Rightarrow> if payload \<noteq> JObj [] then Raised ''TypeError''
        else check_result spec (gateway_method (os_method_name spec) None)
    | Some c \<Rightarrow> (case from_primitive fi C c payload of
          Inl e \<Rightarrow> Raised (ser_error_name e)
        | Inr request \<Rightarrow> check_result spec (gateway_method (os_method_name spec) (Some request))))"

section \<open>Results\<close>

definition completed_result ::
  "(string \<Rightarrow> datetime option) \<Rightarrow> class_table \<Rightarrow> string \<Rightarrow> string \<Rightarrow> op_db \<Rightarrow> owner_error + py_value" where
  "completed_result fi C i result_type d = (case op_get i d of
      Inl e \<Rightarrow> Inl (OwnerWorker (StoreError e))
    | Inr r \<Rightarrow>
        if op_state r \<notin> {COMPLETED_OPERATION, COMPLETED_AFTER_CLIENT_TIMEOUT}
        then Inl (OperationResultUnavailableError (op_operation_id r) (op_state r))
        else (case spec_by_handler (op_handler_name r) of
            None \<Rightarrow> Inl (OperationResultTypeError (''operation result type is unknown, not '' @ result_type))
          | Some spec \<Rightarrow>
              if os_result_type spec \<noteq> result_type
              then Inl (OperationResultTypeError
                (''operation result type is '' @ os_result_type spec @ '', not '' @ result_type))
              else map_error OwnerSerialization
                (from_primitive fi C result_type (op_result r))))"

end
