(* ===== verification/Gateway_Laws.thy ===== *)
theory Gateway_Laws
  imports Gateway_Owner
begin

text \<open>
  The typed facade is transparent: the method of the gateway is called with the request
  that was submitted, and the client reads the object the method returned, although
  both pass through canonical text and the operation table on the way.
\<close>

section \<open>Objects through text\<close>

lemma from_primitive_fitting:
  assumes "reads_iso fi" "fits C (AModel c) v" "to_primitive v = Inr j"
  shows "from_primitive fi C c (canonical j) = Inr v"
  using decode_fitting [OF assms] by (simp add: from_primitive_def del: decode_value.simps)

text \<open>What is stored of a payload, and what a handler is given of it.\<close>

lemma primitive_text:
  assumes "to_primitive v = Inr j" "py_ok v"
  shows "canonical_json m (py_of_json j) = canonical_json m v"
proof -
  have "to_primitive (py_of_json j) = Inr j"
    by (rule py_of_json_primitive) (use to_primitive_ok [OF assms] to_primitive_sized [OF assms] in simp_all)
  with assms(1) show ?thesis by (simp add: canonical_json_def)
qed

lemma canonical_json_larger: "canonical_json m v = Inr t \<Longrightarrow> m \<le> m' \<Longrightarrow> canonical_json m' v = Inr t"
  by (auto simp: canonical_json_def attempt_def Let_def split: if_splits sum.splits)

lemma operation_of_result:
  "operation_of r = Inr x \<Longrightarrow> or_result_json r = Some t \<Longrightarrow> json_loads t = Some j \<Longrightarrow> op_result x = j"
  by (auto simp: operation_of_def decode_json_def attempt_Inr_iff)

lemma owned_payload_copy:
  assumes "canonical_json m p = Inr t" "py_ok p" "json_loads t = Some j" "m \<le> MAX_SERIALIZED_BYTES"
  shows "owned_payload j = Some j"
proof -
  have "canonical_json MAX_SERIALIZED_BYTES (py_of_json j) = Inr t"
    using stored_payload_text [OF assms(1-3)] assms(4) by (rule canonical_json_larger)
  with assms(3) show ?thesis by (simp add: owned_payload_def)
qed

lemma spec_by_handler_value: "spec_by_handler (gateway_owner_handler_value h) = Some (spec_of h)"
  by (cases h; simp only:; code_simp)

lemma py_ok_of_json: "py_ok (py_of_json j)"
  by (induction j) auto

text \<open>\<open>completed_result\<close> on a row the worker has completed.\<close>

lemma completed_result_row:
  assumes "op_by_id i d = Some r" "operation_of r = Inr x"
    and "or_state r = COMPLETED_OPERATION \<or> or_state r = COMPLETED_AFTER_CLIENT_TIMEOUT"
    and "or_handler_name r = gateway_owner_handler_value h" "os_result_type (spec_of h) = c"
  shows "completed_result fi C i c d = map_error OwnerSerialization (from_primitive fi C c (op_result x))"
  using assms operation_of_fields [OF assms(2)]
  by (auto simp: completed_result_def op_get_def spec_by_handler_value)

section \<open>Round trips\<close>

text \<open>C17: the request reaches the gateway.  When a request was accepted for an operation and its
  payload stored, the handler calls the gateway method of the operation on an object equal to
  the request, and on no argument when the operation takes none.\<close>

theorem request_reaches_gateway:
  assumes "reads_iso fi" and "request_payload (spec_of h) request = Inr p" and "canonical_json m p = Inr t"
    and "m \<le> MAX_SERIALIZED_BYTES" and "json_loads t = Some j"
    and "\<And>v c. request = Some v \<Longrightarrow> class_name v = Some c \<Longrightarrow> fits C (AModel c) v"
  shows "map_option (owner_handler fi C gateway_method (spec_of h)) (owned_payload j)
    = Some (check_result (spec_of h) (gateway_method (os_method_name (spec_of h)) request))"
proof (cases "os_request_type (spec_of h)")
  case None
  with assms(2) have p: "request = None" "p = PyMap []" by (auto simp: request_payload_def split: if_splits)
  then have "j = JObj []" using canonical_json_tree [OF assms(3), of "JObj []"] assms(5) by (simp add: dict_of_def)
  moreover have "owned_payload j = Some j"
    using owned_payload_copy [OF assms(3) _ assms(5,4)] p by simp
  ultimately show ?thesis using None p by (simp add: owner_handler_def)
next
  case (Some c)
  with assms(2) obtain v k where v: "request = Some v" "class_name v = Some c"
    and k: "to_primitive v = Inr k" "p = py_of_json k"
    by (auto simp: request_payload_def map_error_Inr_iff attempt_Inr_iff split: if_splits)
  have fit: "fits C (AModel c) v" using assms(6) v by blast
  note ok = fits_py_ok [OF fit]
  have "canonical_json m v = Inr t" using assms(3) primitive_text [OF k(1) ok] k(2) by simp
  then have "j = canonical k" using canonical_json_tree [OF _ ok k(1)] assms(5) by simp
  then have "from_primitive fi C c j = Inr v" using from_primitive_fitting [OF assms(1) fit k(1)] by simp
  moreover have "owned_payload j = Some j"
    using owned_payload_copy [OF assms(3) _ assms(5,4)] py_ok_of_json k(2) by simp
  ultimately show ?thesis using Some v(1) by (simp add: owner_handler_def)
qed

text \<open>C8: the result reaches the client.  When the gateway method returns an object of the
  result class for an operation whose call is not known to be unresponsive, the owner thread
  completes the operation with it and \<open>completed_result\<close> returns an object equal to it; from an
  unresponsive engine the client gets no result at all.\<close>

theorem result_reaches_client:
  assumes "reads_iso fi" and "fits C (AModel (os_result_type (spec_of h))) v"
    and "canonical_json (wc_maximum_json_bytes cfg) v = Inr t"
    and "op_inv (wk_db s)" and "op_by_id i (wk_db s) = Some r" and "or_state r \<in> set UNRESOLVED_STATES"
    and "or_handler_name r = gateway_owner_handler_value h" and "sqlite_int now"
  shows "completed_result fi C i (os_result_type (spec_of h))
      (wk_db (owner_report cfg i (check_result (spec_of h) (Returned v)) now s))
    = (if or_state r = ENGINE_UNRESPONSIVE
       then Inl (OperationResultUnavailableError i RECONCILIATION_NEEDED) else Inr v)"
proof -
  let ?c = "os_result_type (spec_of h)" and ?m = "wc_maximum_json_bytes cfg"
  note ok = fits_py_ok [OF assms(2)]
  from assms(3) obtain j where j: "to_primitive v = Inr j" by (rule canonical_json_InrD)
  have "class_name v = Some ?c" using assms(2) by (cases rule: fits.cases) auto
  with j have outcome: "check_result (spec_of h) (Returned v) = Returned (py_of_json j)"
    by (simp add: check_result_def)
  have t: "canonical_json ?m (py_of_json j) = Inr t" "json_loads t = Some (canonical j)"
    using assms(3) primitive_text [OF j ok] canonical_json_tree [OF assms(3) ok j] by simp_all
  let ?f = "\<lambda>r. r\<lparr>or_state := completion_state now r, or_result_json := Some t, or_finished_at_ns := Some now,
      or_version := or_version r + 1\<rparr>"
  let ?e = "transition_error ''complete'' [] i (wk_db s)"
  have "\<And>r. same_operation r (?f r)" by (simp add: same_operation_def)
  moreover have readable: "\<And>r. row_readable r \<Longrightarrow> row_readable (?f r)" using t(2) by simp
  moreover have "status (wk_db s) i \<in> Some ` set UNRESOLVED_STATES" using assms(5,6) by (simp add: status_def)
  ultimately obtain x d where "update_operation i UNRESOLVED_STATES ?f ?e (wk_db s) = Inr (x, d)"
    and row: "op_by_id i d = Some (?f r)"
    using update_operation_effect [OF assms(4), of ?f i UNRESOLVED_STATES ?e] assms(5) by auto
  then have "op_complete ?m i (py_of_json j) now (wk_db s) = (Inr x, d)"
    using t(1) assms(8) by (simp add: op_complete_def at_time_def transaction_def map_error_def)
  then have db: "wk_db (owner_report cfg i (check_result (spec_of h) (Returned v)) now s) = d"
    by (simp add: outcome owner_report_def t(1))
  have "row_readable r" using assms(4) lookup_row_SomeD [OF assms(5) [unfolded op_by_id_def]]
    by (auto simp: op_inv_def row_stamps_def)
  then obtain y where y: "operation_of (?f r) = Inr y" using readable readable_operation by blast
  have result: "op_result y = canonical j" "op_operation_id y = i"
    using operation_of_result [OF y _ t(2)] operation_of_fields [OF y]
      lookup_row_SomeD [OF assms(5) [unfolded op_by_id_def]] by simp_all
  show ?thesis
  proof (cases "or_state r = ENGINE_UNRESPONSIVE")
    case True
    then show ?thesis using row y result operation_of_fields [OF y]
      by (simp add: db completed_result_def op_get_def completion_state_def)
  next
    case False
    have "completed_result fi C i ?c d = map_error OwnerSerialization (from_primitive fi C ?c (op_result y))"
      by (rule completed_result_row [OF row y]) (use False assms(6,7) in \<open>simp_all add: completion_state_def\<close>)
    then show ?thesis using False from_primitive_fitting [OF assms(1,2) j] by (simp add: db result map_error_def)
  qed
qed

section \<open>Sample objects\<close>

definition session_start_entry :: "(string \<times> annotation) list \<times> ((string \<times> py_value) list \<Rightarrow> error option)" where
  "session_start_entry = ([(''installation_id'', AStr), (''profile_id'', AStr), (''requested_release'', AStr),
       (''requested_service_pack'', AStr), (''read_only'', ABool)],
     \<lambda>vs. first_error (map (\<lambda>(n, v). case v of PyStr t \<Rightarrow> require_text_max 256 t (''SessionStartRequest.'' @ n)
       | _ \<Rightarrow> None) vs))"

definition cleanup_entry :: "(string \<times> annotation) list \<times> ((string \<times> py_value) list \<Rightarrow> error option)" where
  "cleanup_entry = ([(''session_id'', AUnion [AStr, ANone]), (''was_open'', ABool), (''cleanup_succeeded'', ABool),
       (''diagnostic_messages'', ATuple AStr), (''observed_at'', ADatetime)],
     \<lambda>vs. case map_of vs ''session_id'' of Some (PyStr t) \<Rightarrow> require_text_max 256 t ''CleanupObservation.session_id''
       | _ \<Rightarrow> None)"

definition sample_classes :: class_table where
  "sample_classes c = (if c = ''SessionStartRequest'' then Some session_start_entry
     else if c = ''CleanupObservation'' then Some cleanup_entry else None)"

definition sample_start :: py_value where
  "sample_start = PyModel ''SessionStartRequest'' [(''installation_id'', PyStr ''install''), (''profile_id'', PyStr ''profile''),
     (''requested_release'', PyStr ''2026''), (''requested_service_pack'', PyStr ''SP1''), (''read_only'', PyBool True)]"

definition sample_cleanup :: py_value where
  "sample_cleanup = PyModel ''CleanupObservation'' [(''session_id'', PyNone), (''was_open'', PyBool True),
     (''cleanup_succeeded'', PyBool False), (''diagnostic_messages'', PyTuple [PyStr ''timeout'']),
     (''observed_at'', PyDatetime (Datetime 2026 3 1 10 0 5 250))]"

lemma sample_start_fits: "fits sample_classes (AModel ''SessionStartRequest'') sample_start"
proof -
  have "snd session_start_entry [(''installation_id'', PyStr ''install''), (''profile_id'', PyStr ''profile''),
     (''requested_release'', PyStr ''2026''), (''requested_service_pack'', PyStr ''SP1''), (''read_only'', PyBool True)] = None"
    by code_simp
  then show ?thesis unfolding sample_start_def
    by (intro model_fitsI [of _ _ session_start_entry])
      (simp_all add: sample_classes_def session_start_entry_def MAX_COLLECTION_LENGTH_def fits.intros)
qed

lemma sample_cleanup_fits: "fits sample_classes (AModel ''CleanupObservation'') sample_cleanup"
proof -
  have "snd cleanup_entry [(''session_id'', PyNone), (''was_open'', PyBool True), (''cleanup_succeeded'', PyBool False),
     (''diagnostic_messages'', PyTuple [PyStr ''timeout'']), (''observed_at'', PyDatetime (Datetime 2026 3 1 10 0 5 250))] = None"
    by code_simp
  moreover have "fits sample_classes (AUnion [AStr, ANone]) PyNone" by (rule absent_fits) simp
  moreover have "fits sample_classes (ATuple AStr) (PyTuple [PyStr ''timeout''])" by (rule tuple_fits) (auto intro: fits.intros)
  ultimately show ?thesis unfolding sample_cleanup_def
    by (intro model_fitsI [of _ _ cleanup_entry])
      (simp_all add: sample_classes_def cleanup_entry_def MAX_COLLECTION_LENGTH_def bool_fits datetime_fits)
qed

definition sample_call_db :: op_db where
  "sample_call_db = run_ops (operation_step MAX_SERIALIZED_BYTES) \<lparr>op_rows = [], op_last_sequence = 0\<rparr>
     [Admit ''op-1'' ''powerfactory.gateway.v1.close'' (PyMap []) ''key-1'' 1000 10 20 1000, Start ''op-1'' 2000]"

lemma op_inv_sample_call: "op_inv sample_call_db"
  unfolding sample_call_db_def by (rule operation_machine.run_inv) simp

theorem request_reaches_gateway_witness:
  "\<exists>t j. canonical_json MAX_SERIALIZED_BYTES sample_start = Inr t \<and> json_loads t = Some j
     \<and> map_option (owner_handler parse_iso sample_classes (\<lambda>m r. if m = ''start'' \<and> r = Some sample_start
          then KnownFailure ''Refused'' else Raised ''Unexpected'') (spec_of START)) (owned_payload j)
       = Some (KnownFailure ''Refused'')"
proof -
  let ?gm = "\<lambda>m r. if m = ''start'' \<and> r = Some sample_start then KnownFailure ''Refused'' else Raised ''Unexpected''"
  have "\<not> isl (canonical_json MAX_SERIALIZED_BYTES sample_start)" by code_simp
  then obtain t where t: "canonical_json MAX_SERIALIZED_BYTES sample_start = Inr t"
    by (cases "canonical_json MAX_SERIALIZED_BYTES sample_start") auto
  then obtain k where k: "to_primitive sample_start = Inr k" by (rule canonical_json_InrD)
  note ok = fits_py_ok [OF sample_start_fits]
  have loads: "json_loads t = Some (canonical k)" by (rule canonical_json_tree [OF t ok k])
  have accepted: "request_payload (spec_of START) (Some sample_start) = Inr (py_of_json k)"
    using k by (simp add: request_payload_def sample_start_def)
  have stored: "canonical_json MAX_SERIALIZED_BYTES (py_of_json k) = Inr t" using primitive_text [OF k ok] t by simp
  have fit: "fits sample_classes (AModel c) v" if "Some sample_start = Some v" "class_name v = Some c" for v c
    using that sample_start_fits by (auto simp: sample_start_def)
  show ?thesis
    using request_reaches_gateway [OF reads_iso_parse accepted stored order_refl loads fit, of ?gm] t loads
    by (auto simp: check_result_def)
qed

theorem result_reaches_client_witness:
  "completed_result parse_iso sample_classes ''op-1'' ''CleanupObservation''
     (wk_db (owner_report (owner_config 4 1000 10 20 MAX_SERIALIZED_BYTES) ''op-1''
        (check_result (spec_of CLOSE) (Returned sample_cleanup)) 3000
        ((worker_init 0 0 \<lparr>op_rows = [], op_last_sequence = 0\<rparr>)\<lparr>wk_db := sample_call_db\<rparr>)))
   = Inr sample_cleanup"
proof -
  let ?cfg = "owner_config 4 1000 10 20 MAX_SERIALIZED_BYTES"
  let ?s = "(worker_init 0 0 \<lparr>op_rows = [], op_last_sequence = 0\<rparr>)\<lparr>wk_db := sample_call_db\<rparr>"
  have "\<not> isl (canonical_json MAX_SERIALIZED_BYTES sample_cleanup)" by code_simp
  then obtain t where t: "canonical_json (wc_maximum_json_bytes ?cfg) sample_cleanup = Inr t"
    by (cases "canonical_json MAX_SERIALIZED_BYTES sample_cleanup") (auto simp: owner_config_def)
  have row: "map_option (\<lambda>r. (or_state r, or_handler_name r)) (op_by_id ''op-1'' sample_call_db)
    = Some (IN_FLIGHT, ''powerfactory.gateway.v1.close'')" by code_simp
  then obtain r where r: "op_by_id ''op-1'' (wk_db ?s) = Some r" "or_state r = IN_FLIGHT"
    "or_handler_name r = gateway_owner_handler_value CLOSE" by auto
  have fit: "fits sample_classes (AModel (os_result_type (spec_of CLOSE))) sample_cleanup"
    using sample_cleanup_fits by simp
  have "op_inv (wk_db ?s)" using op_inv_sample_call by simp
  moreover have "or_state r \<in> set UNRESOLVED_STATES" using r(2) by (simp add: UNRESOLVED_STATES_def)
  moreover have "sqlite_int 3000" by code_simp
  ultimately show ?thesis
    using result_reaches_client [OF reads_iso_parse fit t _ r(1) _ r(3), of 3000] r(2) by simp
qed

end
