(* ===== verification/Topology.thy ===== *)
theory Topology
  imports Models
begin

text \<open>
  \<open>domain/topology.py\<close>: the bounded contracts of the persistent model graph, its
  snapshots, refreshes and queries, each with its checks in the order of the code.
\<close>

section \<open>Bounds and enumerations\<close>

definition MAX_GRAPH_HOPS :: int where "MAX_GRAPH_HOPS = 12"

definition MAX_GRAPH_RESULTS :: int where "MAX_GRAPH_RESULTS = MAX_PAGE_SIZE"

definition bounded :: "int \<Rightarrow> string \<Rightarrow> int \<Rightarrow> int \<Rightarrow> error option" where
  "bounded v field minimum maximum = require (minimum \<le> v \<and> v \<le> maximum)
     (ValueError (field @ '' must be between '' @ int_str minimum @ '' and '' @ int_str maximum))"

datatype graph_data_origin = EXTRACTED | DERIVED | INFERRED

datatype graph_relationship_kind = CONNECTS | CONTAINS | MEMBER_OF | TERMINAL_OF | HAS_RESULT | HAS_VIOLATION

datatype graph_query_kind = NEIGHBORHOOD | ELECTRICAL_PATH | AREA_OR_ZONE | COMPONENTS | IMPACT | TOPOLOGY_DIFF

section \<open>The records of an extraction\<close>

record graph_asset =
  ga_asset :: asset_reference
  ga_area_identity :: "product_identity option"
  ga_zone_key :: "string option"
  ga_in_service :: bool
  ga_is_switch :: bool
  ga_switch_closed :: "bool option"
  ga_transformer_winding_count :: int

definition GraphAsset_post_init :: "graph_asset \<Rightarrow> error option" where
  "GraphAsset_post_init a = first_error
     [require_optional (\<lambda>z. require_text_max 256 z ''GraphAsset.zone_key'') (ga_zone_key a),
      bounded (ga_transformer_winding_count a) ''GraphAsset.transformer_winding_count'' 0 3,
      require (ga_transformer_winding_count a \<in> {0, 2, 3})
        (ValueError ''transformer winding count must be zero, two, or three''),
      require (ga_is_switch a = (ga_switch_closed a \<noteq> None))
        (ValueError ''switch state is required only for switch assets''),
      require (ga_transformer_winding_count a = 0 \<or> ar_asset_kind (ga_asset a) = TRANSFORMER)
        (ValueError ''only transformer assets may declare winding count'')]"

record graph_attribute =
  gt_asset_identity :: product_identity
  gt_name :: string
  gt_value :: string
  gt_origin :: graph_data_origin

definition GraphAttribute_post_init :: "graph_attribute \<Rightarrow> error option" where
  "GraphAttribute_post_init t = first_error
     [require_text_max 256 (gt_name t) ''GraphAttribute.name'',
      require_text_max 2048 (gt_value t) ''GraphAttribute.value'']"

record graph_relationship =
  gr_relationship_id :: string
  gr_source_identity :: product_identity
  gr_target_identity :: product_identity
  gr_kind :: graph_relationship_kind
  gr_origin :: graph_data_origin
  gr_in_service :: bool

definition GraphRelationship_post_init :: "graph_relationship \<Rightarrow> error option" where
  "GraphRelationship_post_init r = first_error
     [require_text_max 256 (gr_relationship_id r) ''GraphRelationship.relationship_id'',
      require (gr_source_identity r \<noteq> gr_target_identity r)
        (ValueError ''graph relationships may not self-reference'')]"

record extraction_provenance =
  xp_source :: string
  xp_detail :: string
  xp_origin :: graph_data_origin

definition ExtractionProvenance_post_init :: "extraction_provenance \<Rightarrow> error option" where
  "ExtractionProvenance_post_init p = first_error
     [require_text_max 256 (xp_source p) ''ExtractionProvenance.source'',
      require_text_max 2048 (xp_detail p) ''ExtractionProvenance.detail'']"

definition asset_key :: "graph_asset \<Rightarrow> string" where
  "asset_key a = pi_value (ar_product_identity (ga_asset a))"

definition source_key :: "graph_relationship \<Rightarrow> string" where
  "source_key r = pi_value (gr_source_identity r)"

definition target_key :: "graph_relationship \<Rightarrow> string" where
  "target_key r = pi_value (gr_target_identity r)"

definition context_keys :: "model_context \<Rightarrow> string list" where
  "context_keys c = map (\<lambda>a. pi_value (ar_product_identity a)) (mc_assets c)"

record graph_snapshot =
  gs_run_id :: string
  gs_context :: model_context
  gs_extraction_fingerprint :: content_digest
  gs_assets :: "graph_asset list"
  gs_attributes :: "graph_attribute list"
  gs_relationships :: "graph_relationship list"
  gs_provenance :: "extraction_provenance list"

text \<open>\<open>tuple(sorted(xs))\<close> together with the check that nothing is repeated.\<close>

definition ordered_unique :: "string list \<Rightarrow> bool" where
  "ordered_unique xs \<longleftrightarrow> xs = sort xs \<and> length (remdups xs) = length xs"

definition GraphSnapshot_post_init :: "graph_snapshot \<Rightarrow> error option" where
  "GraphSnapshot_post_init s =
     (let identities = map asset_key (gs_assets s); context_identities = context_keys (gs_context s);
          relationship_ids = map gr_relationship_id (gs_relationships s) in first_error
       [require_uuid4 (gs_run_id s) ''GraphSnapshot.run_id'',
        require_collection True (gs_assets s) ''GraphSnapshot.assets'',
        require_collection True (gs_attributes s) ''GraphSnapshot.attributes'',
        require_collection True (gs_relationships s) ''GraphSnapshot.relationships'',
        require_collection True (gs_provenance s) ''GraphSnapshot.provenance'',
        require (ordered_unique identities)
          (ValueError ''graph assets require deterministic unique product identities''),
        require (length (remdups context_identities) = length context_identities
            \<and> set identities = set context_identities)
          (ValueError ''graph snapshot assets must exactly match its context assets''),
        require (\<forall>t \<in> set (gs_attributes s). pi_value (gt_asset_identity t) \<in> set identities)
          (ValueError ''graph attribute references an unknown asset''),
        require (ordered_unique relationship_ids)
          (ValueError ''graph relationships require deterministic unique ids''),
        require (\<forall>r \<in> set (gs_relationships s). source_key r \<in> set identities \<and> target_key r \<in> set identities)
          (ValueError ''graph relationship references an unknown asset'')])"

record graph_incremental_refresh =
  gi_run_id :: string
  gi_context :: model_context
  gi_extraction_fingerprint :: content_digest
  gi_changed_assets :: "graph_asset list"
  gi_changed_attributes :: "graph_attribute list"
  gi_changed_relationships :: "graph_relationship list"
  gi_removed_relationship_ids :: "string list"
  gi_provenance :: "extraction_provenance list"

definition GraphIncrementalRefresh_post_init :: "graph_incremental_refresh \<Rightarrow> error option" where
  "GraphIncrementalRefresh_post_init f =
     (let known = set (context_keys (gi_context f)); changed = map asset_key (gi_changed_assets f) in first_error
       ([require_uuid4 (gi_run_id f) ''GraphIncrementalRefresh.run_id'',
         require_collection True (gi_changed_assets f) ''GraphIncrementalRefresh.changed_assets'',
         require_collection True (gi_changed_attributes f) ''GraphIncrementalRefresh.changed_attributes'',
         require_collection True (gi_changed_relationships f) ''GraphIncrementalRefresh.changed_relationships'',
         require_collection True (gi_removed_relationship_ids f) ''GraphIncrementalRefresh.removed_relationship_ids'',
         require_collection True (gi_provenance f) ''GraphIncrementalRefresh.provenance'',
         require (length (remdups changed) = length changed \<and> set changed \<subseteq> known)
           (ValueError ''incremental refresh may change only known, unique assets''),
         require (\<forall>t \<in> set (gi_changed_attributes f). pi_value (gt_asset_identity t) \<in> known)
           (ValueError ''incremental attribute references unknown context asset'')]
        @ map (\<lambda>i. require_text_max 256 i ''GraphIncrementalRefresh.removed_relationship_ids entry'')
            (gi_removed_relationship_ids f)))"

section \<open>Queries and results\<close>

record graph_query =
  gq_kind :: graph_query_kind
  gq_model_context_id :: string
  gq_extraction_revision :: extraction_revision
  gq_limit :: int

definition GraphQuery_post_init :: "graph_query \<Rightarrow> error option" where
  "GraphQuery_post_init q = first_error
     [require_uuid4 (gq_model_context_id q) ''GraphQuery.model_context_id'',
      require (scope_id (gq_extraction_revision q) = gq_model_context_id q)
        (ValueError ''query revision must belong to query context''),
      bounded (gq_limit q) ''GraphQuery.limit'' 1 MAX_GRAPH_RESULTS]"

record neighborhood_query =
  nq_query :: graph_query
  nq_center_identity :: product_identity
  nq_hops :: int

definition NeighborhoodQuery_post_init :: "neighborhood_query \<Rightarrow> error option" where
  "NeighborhoodQuery_post_init q = first_error
     [require (gq_kind (nq_query q) = NEIGHBORHOOD) (ValueError ''neighborhood query kind is required''),
      bounded (nq_hops q) ''NeighborhoodQuery.hops'' 1 MAX_GRAPH_HOPS]"

record electrical_path_query =
  eq_query :: graph_query
  eq_source_identity :: product_identity
  eq_target_identity :: product_identity

definition ElectricalPathQuery_post_init :: "electrical_path_query \<Rightarrow> error option" where
  "ElectricalPathQuery_post_init q = first_error
     [require (gq_kind (eq_query q) = ELECTRICAL_PATH) (ValueError ''electrical path query kind is required''),
      require (eq_source_identity q \<noteq> eq_target_identity q)
        (ValueError ''electrical path endpoints must differ'')]"

record area_zone_query =
  az_query :: graph_query
  az_area_identity :: "product_identity option"
  az_zone_key :: "string option"

definition AreaZoneQuery_post_init :: "area_zone_query \<Rightarrow> error option" where
  "AreaZoneQuery_post_init q = first_error
     [require (gq_kind (az_query q) = AREA_OR_ZONE) (ValueError ''area/zone query kind is required''),
      require ((az_area_identity q = None) \<noteq> (az_zone_key q = None))
        (ValueError ''exactly one area identity or zone key is required''),
      require_optional (\<lambda>z. require_text_max 256 z ''AreaZoneQuery.zone_key'') (az_zone_key q)]"

definition ComponentsQuery_post_init :: "graph_query \<Rightarrow> error option" where
  "ComponentsQuery_post_init q =
     require (gq_kind q = COMPONENTS) (ValueError ''components query kind is required'')"

record impact_query =
  iq_query :: graph_query
  iq_changed_identity :: product_identity
  iq_hops :: int

definition ImpactQuery_post_init :: "impact_query \<Rightarrow> error option" where
  "ImpactQuery_post_init q = first_error
     [require (gq_kind (iq_query q) = IMPACT) (ValueError ''impact query kind is required''),
      bounded (iq_hops q) ''ImpactQuery.hops'' 1 MAX_GRAPH_HOPS]"

record topology_diff_query =
  tq_query :: graph_query
  tq_previous_revision :: extraction_revision

definition TopologyDiffQuery_post_init :: "topology_diff_query \<Rightarrow> error option" where
  "TopologyDiffQuery_post_init q = first_error
     [require (gq_kind (tq_query q) = TOPOLOGY_DIFF) (ValueError ''topology diff query kind is required''),
      require (scope_id (tq_previous_revision q) = gq_model_context_id (tq_query q))
        (ValueError ''topology diff revisions must share a model context'')]"

record graph_query_result =
  gx_query :: graph_query
  gx_asset_references :: "asset_reference list"
  gx_relationship_ids :: "string list"
  gx_total_matches :: int
  gx_truncated :: bool
  gx_summary :: string

definition GraphQueryResult_post_init :: "graph_query_result \<Rightarrow> error option" where
  "GraphQueryResult_post_init x =
     (let identities = map (\<lambda>a. pi_value (ar_product_identity a)) (gx_asset_references x) in first_error
       [require_collection True (gx_asset_references x) ''GraphQueryResult.asset_references'',
        require_collection True (gx_relationship_ids x) ''GraphQueryResult.relationship_ids'',
        require (int (length (gx_asset_references x)) \<le> gq_limit (gx_query x)
            \<and> int (length (gx_relationship_ids x)) \<le> gq_limit (gx_query x))
          (ValueError ''graph query results must not exceed the requested limit''),
        require (ordered_unique identities)
          (ValueError ''graph query asset references must be unique and ordered''),
        require (ordered_unique (gx_relationship_ids x))
          (ValueError ''graph query relationships must be unique and ordered''),
        bounded (gx_total_matches x) ''GraphQueryResult.total_matches'' 0 (int MAX_COLLECTION_LENGTH),
        require (int (length (gx_asset_references x)) \<le> gx_total_matches x)
          (ValueError ''total matches cannot be smaller than returned asset references''),
        require_text_max 512 (gx_summary x) ''GraphQueryResult.summary''])"

section \<open>What the checks give\<close>

lemma length_remdups_distinct: "length (remdups xs) = length xs \<longleftrightarrow> distinct xs"
  by (metis distinct_remdups length_remdups_card_conv card_distinct distinct_card)

lemma ordered_unique_iff: "ordered_unique xs \<longleftrightarrow> sorted xs \<and> distinct xs"
proof -
  have "xs = sort xs \<longleftrightarrow> sorted xs" by (metis sorted_sort sorted_sort_id)
  then show ?thesis by (simp add: ordered_unique_def length_remdups_distinct)
qed

lemma GraphSnapshot_okD:
  assumes "GraphSnapshot_post_init s = None"
  shows "sorted (map asset_key (gs_assets s))" "distinct (map asset_key (gs_assets s))"
    "set (map asset_key (gs_assets s)) = set (context_keys (gs_context s))"
    "sorted (map gr_relationship_id (gs_relationships s))" "distinct (map gr_relationship_id (gs_relationships s))"
    "r \<in> set (gs_relationships s) \<Longrightarrow> source_key r \<in> asset_key ` set (gs_assets s)
       \<and> target_key r \<in> asset_key ` set (gs_assets s)"
    "t \<in> set (gs_attributes s) \<Longrightarrow> pi_value (gt_asset_identity t) \<in> asset_key ` set (gs_assets s)"
    "length (gs_assets s) \<le> MAX_COLLECTION_LENGTH" "length (gs_relationships s) \<le> MAX_COLLECTION_LENGTH"
  using assms by (auto simp: GraphSnapshot_post_init_def Let_def ordered_unique_iff require_collection_def)

end
