(* ===== verification/Encodings.thy ===== *)
theory Encodings
  imports Models Serialization
begin

text \<open>
  The domain objects that the stores write as JSON, as values of the encoder in
  \<open>serialization.py\<close>: a class with its fields in the order of its dataclass.
\<close>

section \<open>Enumerations\<close>

fun freshness_level_value :: "freshness_level \<Rightarrow> string" where
  "freshness_level_value CACHED = ''cached''"
| "freshness_level_value VERIFIED = ''verified''"
| "freshness_level_value LIVE = ''live''"

fun completeness_state_value :: "completeness_state \<Rightarrow> string" where
  "completeness_state_value COMPLETE = ''complete''"
| "completeness_state_value CONSERVATIVE = ''conservative''"
| "completeness_state_value UNSUPPORTED = ''unsupported''"

fun locator_kind_value :: "locator_kind \<Rightarrow> string" where
  "locator_kind_value NATIVE_CANDIDATE = ''native_candidate''"
| "locator_kind_value CANONICAL_PATH_FALLBACK = ''canonical_path_fallback''"

fun locator_trust_value :: "locator_trust \<Rightarrow> string" where
  "locator_trust_value CANDIDATE = ''candidate''"
| "locator_trust_value FALLBACK = ''fallback''"
| "locator_trust_value VERIFIED_NATIVE = ''verified_native''"
| "locator_trust_value REJECTED_LOCATOR = ''rejected''"

section \<open>Objects\<close>

definition py_optional :: "('a \<Rightarrow> py_value) \<Rightarrow> 'a option \<Rightarrow> py_value" where
  "py_optional f x = (case x of None \<Rightarrow> PyNone | Some y \<Rightarrow> f y)"

definition py_wrapped :: "string \<Rightarrow> string \<Rightarrow> py_value" where
  "py_wrapped c s = PyModel c [(''value'', PyStr s)]"

definition py_identity :: "product_identity \<Rightarrow> py_value" where
  "py_identity i = py_wrapped ''ProductIdentity'' (pi_value i)"

definition py_pair :: "string \<Rightarrow> versioned_pair \<Rightarrow> py_value" where
  "py_pair c v = PyModel c [(''name'', PyStr (vp_name v)), (''version'', PyStr (vp_version v))]"

definition py_locator :: "powerfactory_locator \<Rightarrow> py_value" where
  "py_locator l = PyModel ''PowerFactoryLocator''
     [(''locator_version_id'', PyStr (pl_locator_version_id l)),
      (''locator_kind'', PyEnum (locator_kind_value (pl_locator_kind l))),
      (''project_provenance'', (let p = pl_project_provenance l in PyModel ''ProjectProvenance''
         [(''installation_id'', PyStr (pp_installation_id p)), (''profile_id'', PyStr (pp_profile_id p)),
          (''project_key'', PyStr (pp_project_key p)), (''project_evidence'', PyStr (pp_project_evidence p))])),
      (''object_class'', PyStr (pl_object_class l)), (''native_field'', py_optional PyStr (pl_native_field l)),
      (''native_value'', py_optional PyStr (pl_native_value l)),
      (''canonical_path'', py_optional PyStr (pl_canonical_path l)),
      (''evidence_schema'', (let e = pl_evidence_schema l in PyModel ''LocatorEvidenceSchema''
         [(''name'', PyStr (les_name e)), (''version'', PyStr (les_version e)),
          (''gateway_adapter_version'', PyStr (les_gateway_adapter_version e))])),
      (''observed_at'', PyDatetime (pl_observed_at l)), (''session_id'', PyStr (pl_session_id l)),
      (''trust'', PyEnum (locator_trust_value (pl_trust l))),
      (''native_evidence_accepted'', PyBool (pl_native_evidence_accepted l))]"

definition py_asset_reference :: "asset_reference \<Rightarrow> py_value" where
  "py_asset_reference a = PyModel ''AssetReference''
     [(''product_identity'', py_identity (ar_product_identity a)), (''locator'', py_locator (ar_locator a)),
      (''display_name'', PyStr (ar_display_name a)), (''asset_kind'', PyEnum (asset_kind_value (ar_asset_kind a))),
      (''project_key'', PyStr (ar_project_key a)),
      (''lifecycle_state'', PyEnum (identity_lifecycle_state_value (ar_lifecycle_state a)))]"

definition py_freshness :: "freshness_evidence \<Rightarrow> py_value" where
  "py_freshness f = PyModel ''FreshnessEvidence''
     [(''level'', PyEnum (freshness_level_value (fe_level f))), (''observed_at'', PyDatetime (fe_observed_at f)),
      (''session_id'', PyStr (fe_session_id f)),
      (''configuration_key'', py_wrapped ''ConfigurationKey'' (ck_value (fe_configuration_key f))),
      (''dependency_set'', py_pair ''DependencySetIdentity'' (fe_dependency_set f)),
      (''evidence_reference'', PyStr (fe_evidence_reference f)), (''policy_name'', PyStr (fe_policy_name f)),
      (''policy_version'', PyStr (fe_policy_version f)), (''operation_active'', PyBool (fe_operation_active f))]"

definition py_dependency :: "dependency_fingerprint \<Rightarrow> py_value" where
  "py_dependency d = PyModel ''DependencyFingerprint''
     [(''dependency_set'', py_pair ''DependencySetIdentity'' (df_dependency_set d)),
      (''fingerprint'', py_wrapped ''LiveStateFingerprint'' (lf_value (df_fingerprint d))),
      (''completeness'', PyEnum (completeness_state_value (df_completeness d))),
      (''observed_at'', PyDatetime (df_observed_at d)), (''session_id'', PyStr (df_session_id d)),
      (''evidence_reference'', PyStr (df_evidence_reference d)), (''policy'', py_pair ''VersionedName'' (df_policy d))]"

definition py_model_context :: "model_context \<Rightarrow> py_value" where
  "py_model_context c = PyModel ''ModelContext''
     [(''model_context_id'', PyStr (mc_model_context_id c)),
      (''configuration_key'', py_wrapped ''ConfigurationKey'' (ck_value (mc_configuration_key c))),
      (''powerfactory_version'', PyStr (mc_powerfactory_version c)),
      (''assets'', PyTuple (map py_asset_reference (mc_assets c))),
      (''extraction_revision'', PyModel ''ExtractionRevision''
         [(''scope_id'', PyStr (scope_id (mc_extraction_revision c))),
          (''counter'', PyInt (counter (mc_extraction_revision c)))]),
      (''extracted_at'', PyDatetime (mc_extracted_at c)), (''freshness'', py_freshness (mc_freshness c)),
      (''dependency_fingerprints'', PyTuple (map py_dependency (mc_dependency_fingerprints c)))]"

end
