(* ===== verification/Graph_Store.thy ===== *)
theory Graph_Store
  imports Topology Encodings Operation_Store
begin

text \<open>
  \<open>persistence/model_graph_store.py\<close> over migration 2 of \<open>persistence/database.py\<close>: the
  recorded extractions of a model, complete and incremental.  A JSON column keeps the
  record it encodes; the encodings themselves are computed, since a snapshot that does
  not fit the limit of \<open>serialization.py\<close> is refused.
\<close>

section \<open>Encoding\<close>

fun graph_data_origin_value :: "graph_data_origin \<Rightarrow> string" where
  "graph_data_origin_value EXTRACTED = ''extracted''"
| "graph_data_origin_value DERIVED = ''derived''"
| "graph_data_origin_value INFERRED = ''inferred''"

fun graph_relationship_kind_value :: "graph_relationship_kind \<Rightarrow> string" where
  "graph_relationship_kind_value CONNECTS = ''connects''"
| "graph_relationship_kind_value CONTAINS = ''contains''"
| "graph_relationship_kind_value MEMBER_OF = ''member_of''"
| "graph_relationship_kind_value TERMINAL_OF = ''terminal_of''"
| "graph_relationship_kind_value HAS_RESULT = ''has_result''"
| "graph_relationship_kind_value HAS_VIOLATION = ''has_violation''"

definition py_graph_asset :: "graph_asset \<Rightarrow> py_value" where
  "py_graph_asset a = PyModel ''GraphAsset''
     [(''asset'', py_asset_reference (ga_asset a)), (''area_identity'', py_optional py_identity (ga_area_identity a)),
      (''zone_key'', py_optional PyStr (ga_zone_key a)), (''in_service'', PyBool (ga_in_service a)),
      (''is_switch'', PyBool (ga_is_switch a)), (''switch_closed'', py_optional PyBool (ga_switch_closed a)),
      (''transformer_winding_count'', PyInt (ga_transformer_winding_count a))]"

definition py_graph_attribute :: "graph_attribute \<Rightarrow> py_value" where
  "py_graph_attribute t = PyModel ''GraphAttribute''
     [(''asset_identity'', py_identity (gt_asset_identity t)), (''name'', PyStr (gt_name t)),
      (''value'', PyStr (gt_value t)), (''origin'', PyEnum (graph_data_origin_value (gt_origin t)))]"

definition py_graph_relationship :: "graph_relationship \<Rightarrow> py_value" where
  "py_graph_relationship r = PyModel ''GraphRelationship''
     [(''relationship_id'', PyStr (gr_relationship_id r)), (''source_identity'', py_identity (gr_source_identity r)),
      (''target_identity'', py_identity (gr_target_identity r)),
      (''kind'', PyEnum (graph_relationship_kind_value (gr_kind r))),
      (''origin'', PyEnum (graph_data_origin_value (gr_origin r))), (''in_service'', PyBool (gr_in_service r))]"

definition py_graph_snapshot :: "graph_snapshot \<Rightarrow> py_value" where
  "py_graph_snapshot s = PyModel ''GraphSnapshot''
     [(''run_id'', PyStr (gs_run_id s)), (''context'', py_model_context (gs_context s)),
      (''extraction_fingerprint'', py_wrapped ''ContentDigest'' (cd_value (gs_extraction_fingerprint s))),
      (''assets'', PyTuple (map py_graph_asset (gs_assets s))),
      (''attributes'', PyTuple (map py_graph_attribute (gs_attributes s))),
      (''relationships'', PyTuple (map py_graph_relationship (gs_relationships s))),
      (''provenance'', PyTuple (map (\<lambda>p. PyModel ''ExtractionProvenance''
         [(''source'', PyStr (xp_source p)), (''detail'', PyStr (xp_detail p)),
          (''origin'', PyEnum (graph_data_origin_value (xp_origin p)))]) (gs_provenance s)))]"

section \<open>Tables\<close>

datatype extraction_mode = FullExtraction | IncrementalExtraction

record graph_context_row =
  gc_model_context_id :: string
  gc_configuration_key :: configuration_key
  gc_extraction_counter :: int
  gc_context :: model_context
  gc_recorded_at :: string

record graph_run_row =
  gn_run_id :: string
  gn_model_context_id :: string
  gn_extraction_counter :: int
  gn_fingerprint :: content_digest
  gn_mode :: extraction_mode
  gn_snapshot :: graph_snapshot
  gn_recorded_at :: string

record graph_db =
  graph_contexts :: "graph_context_row list"
  graph_extraction_runs :: "graph_run_row list"
  graph_asset_rows :: "((string \<times> string) \<times> graph_asset) list"
  graph_attribute_rows :: "((string \<times> string \<times> string) \<times> graph_attribute) list"
  graph_relationship_rows :: "((string \<times> string) \<times> graph_relationship) list"
  graph_provenance_rows :: "((string \<times> nat) \<times> extraction_provenance) list"

datatype graph_error =
    GraphContextMismatchError string | GraphSnapshotNotFoundError string | GraphDomainError error
  | GraphSerializationError ser_error | GraphIntegrityError string | GraphOverflowError

section \<open>Inserting a snapshot\<close>

definition run_of :: "extraction_mode \<Rightarrow> graph_snapshot \<Rightarrow> graph_run_row" where
  "run_of mode s = \<lparr>gn_run_id = gs_run_id s, gn_model_context_id = mc_model_context_id (gs_context s),
     gn_extraction_counter = counter (mc_extraction_revision (gs_context s)),
     gn_fingerprint = gs_extraction_fingerprint s, gn_mode = mode, gn_snapshot = s,
     gn_recorded_at = encode_utc_timestamp (mc_extracted_at (gs_context s))\<rparr>"

definition context_of :: "graph_snapshot \<Rightarrow> graph_context_row" where
  "context_of s = \<lparr>gc_model_context_id = mc_model_context_id (gs_context s),
     gc_configuration_key = mc_configuration_key (gs_context s),
     gc_extraction_counter = counter (mc_extraction_revision (gs_context s)), gc_context = gs_context s,
     gc_recorded_at = encode_utc_timestamp (mc_extracted_at (gs_context s))\<rparr>"

definition insert_run :: "graph_run_row \<Rightarrow> graph_run_row list \<Rightarrow> graph_error + graph_run_row list" where
  "insert_run r rows =
     (if has_key gn_run_id (gn_run_id r) rows then Inl (GraphIntegrityError ''graph_extraction_runs.run_id'')
      else if has_key (\<lambda>x. (gn_model_context_id x, gn_extraction_counter x))
          (gn_model_context_id r, gn_extraction_counter r) rows
      then Inl (GraphIntegrityError ''graph_extraction_runs.model_context_id, graph_extraction_runs.extraction_counter'')
      else Inr (rows @ [r]))"

text \<open>\<open>executemany\<close> of inserts under a primary key.\<close>

fun insert_all :: "string \<Rightarrow> ('k \<times> 'r) list \<Rightarrow> ('k \<times> 'r) list \<Rightarrow> graph_error + ('k \<times> 'r) list" where
  "insert_all what [] rows = Inr rows"
| "insert_all what (x # xs) rows =
     (if has_key fst (fst x) rows then Inl (GraphIntegrityError what) else insert_all what xs (rows @ [x]))"

definition graph_write :: "extraction_mode \<Rightarrow> graph_snapshot \<Rightarrow> graph_db \<Rightarrow> (graph_error + unit) \<times> graph_db" where
  "graph_write mode s d0 = transaction (\<lambda>d.
       checked (require (sqlite_int (counter (mc_extraction_revision (gs_context s)))) GraphOverflowError)
       (let run = gs_run_id s in
        attempt (insert_run (run_of mode s) (graph_extraction_runs d)) (\<lambda>runs.
        attempt (insert_all ''graph_assets'' (map (\<lambda>a. ((run, asset_key a), a)) (gs_assets s)) (graph_asset_rows d)) (\<lambda>assets.
        attempt (insert_all ''graph_attributes'' (map (\<lambda>t. ((run, pi_value (gt_asset_identity t), gt_name t), t))
            (gs_attributes s)) (graph_attribute_rows d)) (\<lambda>attributes.
        attempt (insert_all ''graph_relationships'' (map (\<lambda>r. ((run, gr_relationship_id r), r)) (gs_relationships s))
            (graph_relationship_rows d)) (\<lambda>relationships.
        attempt (insert_all ''graph_provenance'' (map (\<lambda>(i, p). ((run, i), p)) (enumerate 0 (gs_provenance s)))
            (graph_provenance_rows d)) (\<lambda>provenance.
        Inr ((), \<lparr>graph_contexts = upsert gc_model_context_id (context_of s) (graph_contexts d),
          graph_extraction_runs = runs, graph_asset_rows = assets, graph_attribute_rows = attributes,
          graph_relationship_rows = relationships, graph_provenance_rows = provenance\<rparr>)))))))) d0"

definition graph_insert :: "extraction_mode \<Rightarrow> graph_snapshot \<Rightarrow> graph_db \<Rightarrow> (graph_error + unit) \<times> graph_db" where
  "graph_insert mode s d =
     (case attempt (canonical_json MAX_SERIALIZED_BYTES (py_model_context (gs_context s)))
             (\<lambda>_. canonical_json MAX_SERIALIZED_BYTES (py_graph_snapshot s)) of
        Inl e \<Rightarrow> (Inl (GraphSerializationError e), d)
      | Inr _ \<Rightarrow> graph_write mode s d)"

definition record_full :: "graph_snapshot \<Rightarrow> graph_db \<Rightarrow> (graph_error + graph_snapshot) \<times> graph_db" where
  "record_full s d = (let (r, d') = graph_insert FullExtraction s d in (map_sum id (\<lambda>_. s) r, d'))"

section \<open>Reading\<close>

text \<open>\<open>ORDER BY recorded_at DESC, extraction_counter DESC LIMIT 1\<close>.\<close>

definition run_precedes :: "graph_run_row \<Rightarrow> graph_run_row \<Rightarrow> bool" where
  "run_precedes a b \<longleftrightarrow> gn_recorded_at a < gn_recorded_at b
     \<or> gn_recorded_at a = gn_recorded_at b \<and> gn_extraction_counter a < gn_extraction_counter b"

fun newest_run :: "graph_run_row list \<Rightarrow> graph_run_row option" where
  "newest_run [] = None"
| "newest_run (r # rs) = (case newest_run rs of None \<Rightarrow> Some r
     | Some b \<Rightarrow> Some (if run_precedes r b then b else r))"

definition graph_latest ::
  "string option \<Rightarrow> configuration_key option \<Rightarrow> graph_db \<Rightarrow> graph_error + graph_snapshot" where
  "graph_latest context_id expected d =
     (let rows = filter (\<lambda>r. has_key gc_model_context_id (gn_model_context_id r) (graph_contexts d)
            \<and> (case context_id of None \<Rightarrow> True | Some i \<Rightarrow> gn_model_context_id r = i)) (graph_extraction_runs d)
      in case newest_run rows of
        None \<Rightarrow> Inl (GraphSnapshotNotFoundError (case context_id of None \<Rightarrow> ''latest''
          | Some i \<Rightarrow> if i = [] then ''latest'' else i))
      | Some r \<Rightarrow> if expected \<noteq> None
            \<and> map_option gc_configuration_key (lookup_row gc_model_context_id (gn_model_context_id r) (graph_contexts d))
              \<noteq> expected
          then Inl (GraphContextMismatchError ''active configuration does not match persisted graph context'')
          else Inr (gn_snapshot r))"

definition graph_revision :: "string \<Rightarrow> int \<Rightarrow> graph_db \<Rightarrow> graph_error + graph_snapshot" where
  "graph_revision context_id n d =
     checked (require (sqlite_int n) GraphOverflowError)
     (case lookup_row (\<lambda>r. (gn_model_context_id r, gn_extraction_counter r)) (context_id, n) (graph_extraction_runs d) of
        None \<Rightarrow> Inl (GraphSnapshotNotFoundError (context_id @ '':'' @ int_str n))
      | Some r \<Rightarrow> Inr (gn_snapshot r))"

section \<open>Incremental extraction\<close>

text \<open>A dictionary keyed by a field of its values is the list of the values, in insertion order.\<close>

fun put_all :: "('v \<Rightarrow> 'k) \<Rightarrow> 'v list \<Rightarrow> 'v list \<Rightarrow> 'v list" where
  "put_all key [] m = m"
| "put_all key (v # vs) m = put_all key vs (upsert key v m)"

fun pop_all :: "('v \<Rightarrow> 'k) \<Rightarrow> 'k list \<Rightarrow> 'v list \<Rightarrow> 'v list" where
  "pop_all key [] m = m"
| "pop_all key (k # ks) m = pop_all key ks (delete_where (\<lambda>v. key v = k) m)"

definition attribute_key :: "graph_attribute \<Rightarrow> string \<times> string" where
  "attribute_key t = (pi_value (gt_asset_identity t), gt_name t)"

definition merged_assets :: "graph_incremental_refresh \<Rightarrow> graph_snapshot \<Rightarrow> graph_asset list" where
  "merged_assets f prior = put_all asset_key (gi_changed_assets f) (put_all asset_key (gs_assets prior) [])"

definition merged_attributes :: "graph_incremental_refresh \<Rightarrow> graph_snapshot \<Rightarrow> graph_attribute list" where
  "merged_attributes f prior =
     (let changed_asset_ids = set (map asset_key (gi_changed_assets f));
          kept = delete_where (\<lambda>t. fst (attribute_key t) \<in> changed_asset_ids)
                   (put_all attribute_key (gs_attributes prior) [])
      in put_all attribute_key (gi_changed_attributes f) kept)"

definition merged_relationships :: "graph_incremental_refresh \<Rightarrow> graph_snapshot \<Rightarrow> graph_relationship list" where
  "merged_relationships f prior = put_all gr_relationship_id (gi_changed_relationships f)
     (pop_all gr_relationship_id (gi_removed_relationship_ids f)
       (put_all gr_relationship_id (gs_relationships prior) []))"

definition merged_snapshot :: "graph_incremental_refresh \<Rightarrow> graph_snapshot \<Rightarrow> graph_snapshot" where
  "merged_snapshot f prior = \<lparr>gs_run_id = gi_run_id f, gs_context = gi_context f,
     gs_extraction_fingerprint = gi_extraction_fingerprint f,
     gs_assets = sort_key asset_key (merged_assets f prior),
     gs_attributes = sort_key (\<lambda>t. [pi_value (gt_asset_identity t), gt_name t]) (merged_attributes f prior),
     gs_relationships = sort_key gr_relationship_id (merged_relationships f prior),
     gs_provenance = gi_provenance f\<rparr>"

definition incremental_snapshot :: "graph_incremental_refresh \<Rightarrow> graph_db \<Rightarrow> graph_error + graph_snapshot" where
  "incremental_snapshot f d =
     attempt (graph_latest (Some (mc_model_context_id (gi_context f))) None d) (\<lambda>prior.
       if mc_configuration_key (gs_context prior) \<noteq> mc_configuration_key (gi_context f)
       then Inl (GraphContextMismatchError ''incremental refresh configuration key does not match stored context'')
       else if counter (mc_extraction_revision (gi_context f)) \<le> counter (mc_extraction_revision (gs_context prior))
       then Inl (GraphDomainError (ValueError ''incremental extraction revision must advance''))
       else if set (map asset_key (merged_assets f prior)) \<noteq> set (context_keys (gi_context f))
       then Inl (GraphContextMismatchError ''incremental context asset set does not match stored context'')
       else map_error GraphDomainError (build_record GraphSnapshot_post_init (merged_snapshot f prior)))"

definition record_incremental ::
  "graph_incremental_refresh \<Rightarrow> graph_db \<Rightarrow> (graph_error + graph_snapshot) \<times> graph_db" where
  "record_incremental f d = (case incremental_snapshot f d of
      Inl e \<Rightarrow> (Inl e, d)
    | Inr s \<Rightarrow> (let (r, d') = graph_insert IncrementalExtraction s d in (map_sum id (\<lambda>_. s) r, d')))"

end
