(* ===== verification/Graph_Queries.thy ===== *)
theory Graph_Queries
  imports Graph_Store "HOL-Library.Product_Lexorder"
begin

text \<open>
  \<open>operations/model_graph.py\<close>: the bounded queries over a recorded extraction.  A graph is
  the asset records and the relationship records it was built from.  The searches are
  those of NetworkX, which is not part of the repository: \<open>reach\<close> stands for the keys of
  \<open>single_source_shortest_path_length\<close>, \<open>route\<close> for \<open>shortest_path\<close> and \<open>components\<close> for
  \<open>connected_components\<close>, each given the nodes and the edges of a graph.
\<close>

section \<open>The library's searches\<close>

datatype nx_path = NxPath "string list" | NxNoPath | NxNodeNotFound

definition joined :: "(string \<times> string) list \<Rightarrow> string \<Rightarrow> string \<Rightarrow> bool" where
  "joined edges u v \<longleftrightarrow> (u, v) \<in> set edges \<or> (v, u) \<in> set edges"

text \<open>A walk of at most the given number of edges.\<close>

fun walk :: "string list \<Rightarrow> (string \<times> string) list \<Rightarrow> nat \<Rightarrow> string \<Rightarrow> string \<Rightarrow> bool" where
  "walk nodes edges 0 u v \<longleftrightarrow> u = v \<and> u \<in> set nodes"
| "walk nodes edges (Suc n) u v \<longleftrightarrow>
     walk nodes edges n u v \<or> (v \<in> set nodes \<and> (\<exists>w \<in> set nodes. walk nodes edges n u w \<and> joined edges w v))"

fun chain :: "(string \<times> string) list \<Rightarrow> string list \<Rightarrow> bool" where
  "chain edges (u # v # p) \<longleftrightarrow> joined edges u v \<and> chain edges (v # p)"
| "chain edges p \<longleftrightarrow> True"

definition route_between :: "string list \<Rightarrow> (string \<times> string) list \<Rightarrow> string \<Rightarrow> string \<Rightarrow> string list \<Rightarrow> bool" where
  "route_between nodes edges s t p \<longleftrightarrow>
     p \<noteq> [] \<and> hd p = s \<and> last p = t \<and> set p \<subseteq> set nodes \<and> chain edges p \<and> distinct p"

section \<open>Projection\<close>

record graph_projection =
  gp_assets :: "graph_asset list"
  gp_relationships :: "graph_relationship list"

definition projection :: "graph_snapshot \<Rightarrow> graph_projection" where
  "projection s = \<lparr>gp_assets = gs_assets s, gp_relationships = gs_relationships s\<rparr>"

definition node_keys :: "graph_projection \<Rightarrow> string list" where
  "node_keys g = map asset_key (gp_assets g)"

definition node_asset :: "graph_projection \<Rightarrow> string \<Rightarrow> graph_asset option" where
  "node_asset g i = lookup_row asset_key i (gp_assets g)"

definition edge_keys :: "graph_relationship list \<Rightarrow> (string \<times> string) list" where
  "edge_keys rs = map (\<lambda>r. (source_key r, target_key r)) rs"

datatype query_error =
    GraphQueryError string | QueryStoreError graph_error | QueryDomainError error | NodeNotFound

definition projection_for :: "graph_query \<Rightarrow> graph_db \<Rightarrow> query_error + graph_snapshot \<times> graph_projection" where
  "projection_for q d =
     attempt (map_error QueryStoreError
         (graph_revision (gq_model_context_id q) (counter (gq_extraction_revision q)) d)) (\<lambda>s.
       if mc_extraction_revision (gs_context s) \<noteq> gq_extraction_revision q
       then Inl (GraphQueryError ''persisted extraction revision does not match query'')
       else Inr (s, projection s))"

definition require_node :: "graph_projection \<Rightarrow> string \<Rightarrow> query_error option" where
  "require_node g i = require (i \<in> set (node_keys g)) (GraphQueryError ''asset identity is not present in the extraction'')"

definition relationships_for_nodes :: "graph_projection \<Rightarrow> string list \<Rightarrow> string list" where
  "relationships_for_nodes g identities = sort (map gr_relationship_id (filter (\<lambda>r.
     source_key r \<in> set identities \<and> target_key r \<in> set identities) (gp_relationships g)))"

definition result_summary :: "string \<Rightarrow> nat \<Rightarrow> nat \<Rightarrow> string" where
  "result_summary label found relationships =
     label @ '': '' @ nat_str found @ '' matching assets; '' @ nat_str relationships @ '' matching relationships''"

definition graph_result ::
  "graph_query \<Rightarrow> graph_snapshot \<Rightarrow> string list \<Rightarrow> string list \<Rightarrow> string \<Rightarrow> query_error + graph_query_result" where
  "graph_result q s identities relationship_ids label =
     (let visible_identities = take (nat (gq_limit q)) (sort identities);
          visible_relationships = take (nat (gq_limit q)) (sort relationship_ids);
          found = length identities
      in map_error QueryDomainError (build_record GraphQueryResult_post_init
           \<lparr>gx_query = q,
            gx_asset_references = List.map_filter (\<lambda>i. map_option ga_asset (lookup_row asset_key i (gs_assets s)))
              visible_identities,
            gx_relationship_ids = visible_relationships, gx_total_matches = int found,
            gx_truncated = (gq_limit q < int found \<or> gq_limit q < int (length relationship_ids)),
            gx_summary = result_summary label found (length relationship_ids)\<rparr>))"

section \<open>Queries\<close>

definition neighborhood ::
  "(string list \<Rightarrow> (string \<times> string) list \<Rightarrow> string \<Rightarrow> nat \<Rightarrow> string list)
     \<Rightarrow> neighborhood_query \<Rightarrow> graph_db \<Rightarrow> query_error + graph_query_result" where
  "neighborhood reach q d = attempt (projection_for (nq_query q) d) (\<lambda>(s, g).
     let center = pi_value (nq_center_identity q) in
     checked (require_node g center)
     (let identities = sort (reach (node_keys g) (edge_keys (gp_relationships g)) center (nat (nq_hops q)))
      in graph_result (nq_query q) s identities (relationships_for_nodes g identities) ''neighborhood''))"

text \<open>Out-of-service assets and open switches break electrical paths.\<close>

definition energized_asset :: "graph_asset \<Rightarrow> bool" where
  "energized_asset a \<longleftrightarrow> ga_in_service a \<and> (\<not> ga_is_switch a \<or> ga_switch_closed a = Some True)"

definition energized_key :: "graph_projection \<Rightarrow> string \<Rightarrow> bool" where
  "energized_key g i \<longleftrightarrow> (case node_asset g i of None \<Rightarrow> False | Some a \<Rightarrow> energized_asset a)"

definition energized_relationships :: "graph_projection \<Rightarrow> graph_relationship list" where
  "energized_relationships g = filter (\<lambda>r. gr_in_service r
     \<and> energized_key g (source_key r) \<and> energized_key g (target_key r)) (gp_relationships g)"

definition electrical_path ::
  "(string list \<Rightarrow> (string \<times> string) list \<Rightarrow> string \<Rightarrow> string \<Rightarrow> nx_path)
     \<Rightarrow> electrical_path_query \<Rightarrow> graph_db \<Rightarrow> query_error + graph_query_result" where
  "electrical_path route q d = attempt (projection_for (eq_query q) d) (\<lambda>(s, g).
     let source = pi_value (eq_source_identity q); target = pi_value (eq_target_identity q) in
     checked (first_error [require_node g source, require_node g target])
     (case route (filter (energized_key g) (node_keys g)) (edge_keys (energized_relationships g)) source target of
        NxPath identities \<Rightarrow>
          graph_result (eq_query q) s identities (relationships_for_nodes g identities) ''electrical path''
      | NxNoPath \<Rightarrow> Inl (GraphQueryError ''no in-service electrical path exists'')
      | NxNodeNotFound \<Rightarrow> Inl NodeNotFound))"

definition assets_in_area_or_zone :: "area_zone_query \<Rightarrow> graph_db \<Rightarrow> query_error + graph_query_result" where
  "assets_in_area_or_zone q d = attempt (projection_for (az_query q) d) (\<lambda>(s, g).
     let identities = sort (map asset_key (filter (\<lambda>a.
           (az_area_identity q \<noteq> None \<and> ga_area_identity a = az_area_identity q)
           \<or> (az_zone_key q \<noteq> None \<and> ga_zone_key a = az_zone_key q)) (gp_assets g)))
     in graph_result (az_query q) s identities (relationships_for_nodes g identities) ''area/zone assets'')"

definition connected_components ::
  "(string list \<Rightarrow> (string \<times> string) list \<Rightarrow> string list list)
     \<Rightarrow> graph_query \<Rightarrow> graph_db \<Rightarrow> query_error + graph_query_result" where
  "connected_components components q d = attempt (projection_for q d) (\<lambda>(s, g).
     let found = sort_key (\<lambda>c. (- int (length c), c)) (map sort (components (node_keys g)
           (edge_keys (filter gr_in_service (gp_relationships g)))));
         identities = concat found
     in graph_result q s identities (relationships_for_nodes g identities)
          (nat_str (length found) @ '' connected components''))"

definition impact ::
  "(string list \<Rightarrow> (string \<times> string) list \<Rightarrow> string \<Rightarrow> nat \<Rightarrow> string list)
     \<Rightarrow> impact_query \<Rightarrow> graph_db \<Rightarrow> query_error + graph_query_result" where
  "impact reach q d = attempt (projection_for (iq_query q) d) (\<lambda>(s, g).
     let changed = pi_value (iq_changed_identity q) in
     checked (require_node g changed)
     (let nearby = reach (node_keys g) (edge_keys (gp_relationships g)) changed (nat (iq_hops q));
          identities = sort (filter (\<lambda>i. i \<noteq> changed \<and> i \<in> set (node_keys g) - {changed}) nearby)
      in graph_result (iq_query q) s identities (relationships_for_nodes g identities) ''outage/change impact''))"

text \<open>The relationship identifiers that differ between two revisions, and the assets touched.\<close>

definition changed_relationships :: "graph_snapshot \<Rightarrow> graph_snapshot \<Rightarrow> string list" where
  "changed_relationships previous current =
     (let before = lookup_row gr_relationship_id; ids = map gr_relationship_id in
      filter (\<lambda>i. before i (gs_relationships previous) \<noteq> before i (gs_relationships current))
        (remdups (ids (gs_relationships previous) @ ids (gs_relationships current))))"

definition changed_assets :: "graph_snapshot \<Rightarrow> graph_snapshot \<Rightarrow> string list" where
  "changed_assets previous current =
     (let old_keys = map asset_key (gs_assets previous); new_keys = map asset_key (gs_assets current);
          touched = List.map_filter (\<lambda>i. case lookup_row gr_relationship_id i (gs_relationships current) of
              Some r \<Rightarrow> Some r | None \<Rightarrow> lookup_row gr_relationship_id i (gs_relationships previous))
            (changed_relationships previous current)
      in remdups (filter (\<lambda>i. i \<notin> set new_keys) old_keys @ filter (\<lambda>i. i \<notin> set old_keys) new_keys
           @ concat (map (\<lambda>r. [source_key r, target_key r]) touched)))"

definition topology_diff :: "topology_diff_query \<Rightarrow> graph_db \<Rightarrow> query_error + graph_query_result" where
  "topology_diff q d = attempt (projection_for (tq_query q) d) (\<lambda>(current, g).
     attempt (map_error QueryStoreError
         (graph_revision (gq_model_context_id (tq_query q)) (counter (tq_previous_revision q)) d)) (\<lambda>previous.
       if mc_configuration_key (gs_context previous) \<noteq> mc_configuration_key (gs_context current)
       then Inl (GraphQueryError ''topology diff revisions do not share a verified configuration'')
       else graph_result (tq_query q) current (sort (changed_assets previous current))
              (sort (changed_relationships previous current)) ''topology diff''))"

end
