(* ===== verification/Encoding_Bounds.thy ===== *)
theory Encoding_Bounds
  imports Encodings
begin

text \<open>
  Objects of plain fields always serialise: a bound on the length of the text of a
  value, computed from the lengths of its strings, so that a record that keeps within
  the limit of \<open>serialization.py\<close> is never refused by it.
\<close>

section \<open>Bytes\<close>

lemma utf8_simps [simp]: "utf8_length [] = 0" "utf8_length (s @ t) = utf8_length s + utf8_length t"
  by (simp_all add: utf8_length_def)

lemma utf8_Cons: "utf8_length (c # s) \<le> 2 + utf8_length s"
  by (simp add: utf8_length_def)

lemma utf8_twice: "utf8_length s \<le> 2 * length s"
proof (induction s)
  case (Cons c s)
  then show ?case using utf8_Cons [of c s] by simp
qed simp

section \<open>Bounds\<close>

fun text_bound :: "string \<Rightarrow> int" where
  "text_bound [] = 4"
| "text_bound (c # s) = 12 + text_bound s"

fun plain_value :: "py_value \<Rightarrow> bool" where
  "plain_value (PyDatetime t) = dt_valid t"
| "plain_value (PyModel c fs) = list_all (\<lambda>(n, v). plain_value v) fs"
| "plain_value (PyTuple xs) = (int (length xs) \<le> int MAX_COLLECTION_LENGTH \<and> list_all plain_value xs)"
| "plain_value PyFloat = False"
| "plain_value (PyDecimal d) = False"
| "plain_value (PyMap m) = False"
| "plain_value (PyOther n) = False"
| "plain_value v = True"

fun value_bound :: "py_value \<Rightarrow> int" where
  "value_bound (PyEnum v) = text_bound v"
| "value_bound (PyStr s) = text_bound s"
| "value_bound (PyInt i) = text_bound (int_str i)"
| "value_bound (PyDatetime t) = text_bound (iso_micro t)"
| "value_bound (PyModel c fs) = 4 + sum_list (map (\<lambda>(n, v). text_bound n + value_bound v + 4) fs)"
| "value_bound (PyTuple xs) = 4 + sum_list (map (\<lambda>v. value_bound v + 2) xs)"
| "value_bound v = 10"

lemma text_bound: "int (utf8_length (quote_text s)) \<le> text_bound s"
proof (induction s)
  case Nil
  then show ?case by (simp add: quote_text_def utf8_length_def)
next
  case (Cons c s)
  have "length (escape_char c) \<le> 6" by (simp add: escape_char_def Let_def)
  then have "utf8_length (escape_char c) \<le> 12" using utf8_twice [of "escape_char c"] by linarith
  with Cons show ?case by (simp add: quote_text_def utf8_length_def)
qed

lemma text_bound_plain: "int (utf8_length s) \<le> text_bound s"
proof (induction s)
  case (Cons c s)
  then show ?case using utf8_Cons [of c s] by simp
qed simp

lemma join_comma_bound: "int (utf8_length (join_comma ts)) \<le> sum_list (map (\<lambda>t. int (utf8_length t) + 2) ts)"
proof (induction ts rule: join_comma.induct)
  case (3 x y zs)
  then show ?case using utf8_Cons [of "CHR '',''" "join_comma (y # zs)"] by simp
qed simp_all

lemma sum_list_insort_key: "sum_list (map g (insort_key k x xs)) = g x + (sum_list (map g xs) :: int)"
  by (induction xs) simp_all

lemma sum_list_sort_key: "sum_list (map g (sort_key k xs)) = (sum_list (map g xs) :: int)"
  by (induction xs) (simp_all add: sum_list_insort_key)

lemma collect_map_related:
  "\<forall>x \<in> set xs. \<exists>y. f x = Inr y \<and> Q x y \<Longrightarrow> \<exists>ys. collect (map f xs) = Inr ys \<and> list_all2 Q xs ys"
proof (induction xs)
  case (Cons x xs)
  then obtain y ys where "f x = Inr y" "Q x y" "collect (map f xs) = Inr ys" "list_all2 Q xs ys" by auto
  then show ?case by (intro exI [of _ "y # ys"]) simp
qed simp

lemma sum_list_list_all2:
  "list_all2 (\<lambda>x y. g y \<le> (h x :: int)) xs ys \<Longrightarrow> sum_list (map g ys) \<le> sum_list (map h xs)"
  by (induction rule: list_all2_induct) simp_all

lemma object_bound:
  assumes "list_all2 (\<lambda>(n, v) (m, j). m = n \<and> int (utf8_length (json_dumps j)) \<le> value_bound v) fs kvs"
  shows "int (utf8_length (json_dumps (JObj kvs))) \<le> 4 + sum_list (map (\<lambda>(n, v). text_bound n + value_bound v + 4) fs)"
proof -
  let ?g = "\<lambda>(k, j). text_bound k + int (utf8_length (json_dumps j)) + 4"
  have member: "int (utf8_length (member_text k t)) + 2 \<le> text_bound k + int (utf8_length t) + 4" for k t
    using text_bound [of k] utf8_Cons [of "CHR '':''" t] by (simp add: member_text_def)
  have "int (utf8_length (join_comma (map (\<lambda>(k, v). member_text k (json_dumps v)) (sort_key fst kvs))))
      \<le> sum_list (map (\<lambda>(k, v). int (utf8_length (member_text k (json_dumps v))) + 2) (sort_key fst kvs))"
    using join_comma_bound [of "map (\<lambda>(k, v). member_text k (json_dumps v)) (sort_key fst kvs)"]
    by (simp add: comp_def case_prod_unfold)
  also have "\<dots> \<le> sum_list (map ?g (sort_key fst kvs))"
    by (intro sum_list_mono) (use member in auto)
  also have "\<dots> = sum_list (map ?g kvs)" by (rule sum_list_sort_key)
  also have "\<dots> \<le> sum_list (map (\<lambda>(n, v). text_bound n + value_bound v + 4) fs)"
    by (rule sum_list_list_all2, rule list_all2_mono [OF assms]) auto
  finally have body: "int (utf8_length (join_comma (map (\<lambda>(k, v). member_text k (json_dumps v)) (sort_key fst kvs))))
      \<le> sum_list (map (\<lambda>(n, v). text_bound n + value_bound v + 4) fs)" .
  then show ?thesis
    using utf8_Cons [of "CHR ''{''" "join_comma (map (\<lambda>(k, v). member_text k (json_dumps v)) (sort_key fst kvs)) @ ''}''"]
      utf8_Cons [of "CHR ''}''" "[]"] by simp
qed

lemma array_bound:
  assumes "list_all2 (\<lambda>v j. int (utf8_length (json_dumps j)) \<le> value_bound v) xs js"
  shows "int (utf8_length (json_dumps (JArr js))) \<le> 4 + sum_list (map (\<lambda>v. value_bound v + 2) xs)"
proof -
  have "int (utf8_length (join_comma (map json_dumps js))) \<le> sum_list (map (\<lambda>j. int (utf8_length (json_dumps j)) + 2) js)"
    using join_comma_bound [of "map json_dumps js"] by (simp add: comp_def)
  also have "\<dots> \<le> sum_list (map (\<lambda>v. value_bound v + 2) xs)"
    by (rule sum_list_list_all2, rule list_all2_mono [OF assms]) simp
  finally show ?thesis
    using utf8_Cons [of "CHR ''[''" "join_comma (map json_dumps js) @ '']''"] utf8_Cons [of "CHR '']''" "[]"] by simp
qed

section \<open>Plain values serialise\<close>

lemma plain_value_text:
  "plain_value v \<Longrightarrow> \<exists>j. to_primitive v = Inr j \<and> int (utf8_length (json_dumps j)) \<le> value_bound v"
proof (induction v rule: plain_value.induct)
  case (1 t)
  then show ?case using text_bound by (simp add: require_aware_def require_def)
next
  case (2 c fs)
  let ?Q = "\<lambda>(n, v) (m, j). m = n \<and> int (utf8_length (json_dumps j)) \<le> value_bound v"
  have "\<forall>x \<in> set fs. \<exists>y. (\<lambda>(n, v). attempt (to_primitive v) (\<lambda>j. Inr (n, j))) x = Inr y \<and> ?Q x y"
  proof
    fix x
    assume x: "x \<in> set fs"
    obtain n v where nv: "x = (n, v)" by (cases x)
    with x 2(2) have "plain_value v" by (auto simp: list_all_iff)
    with 2(1) [OF x nv [symmetric]] obtain j where "to_primitive v = Inr j" "int (utf8_length (json_dumps j)) \<le> value_bound v"
      by blast
    then show "\<exists>y. (\<lambda>(n, v). attempt (to_primitive v) (\<lambda>j. Inr (n, j))) x = Inr y \<and> ?Q x y"
      by (simp add: nv)
  qed
  from collect_map_related [OF this] object_bound show ?case by fastforce
next
  case (3 xs)
  let ?Q = "\<lambda>v j. int (utf8_length (json_dumps j)) \<le> value_bound v"
  have "\<forall>x \<in> set xs. \<exists>j. to_primitive x = Inr j \<and> ?Q x j" using 3 by (simp add: list_all_iff)
  from collect_map_related [OF this] array_bound 3(2) show ?case by fastforce
qed (simp_all add: nfc_def text_bound text_bound_plain, simp_all add: utf8_length_def)

lemma canonical_json_fits:
  assumes "plain_value v" "value_bound v \<le> int MAX_SERIALIZED_BYTES"
  obtains t where "canonical_json MAX_SERIALIZED_BYTES v = Inr t"
proof -
  obtain j where j: "to_primitive v = Inr j" "int (utf8_length (json_dumps j)) \<le> value_bound v"
    using plain_value_text [OF assms(1)] by blast
  then have "utf8_length (json_dumps j) \<le> MAX_SERIALIZED_BYTES" using assms(2) by linarith
  then show thesis using j(1) by (intro that [of "json_dumps j"]) (simp add: canonical_json_def MAX_SERIALIZED_BYTES_def)
qed

end
