(* ===== verification/Graph_Laws.thy ===== *)
theory Graph_Laws
  imports Graph_Queries Encoding_Bounds
begin

text \<open>
  The recorded extractions are immutable, valid and agree with the normalised tables;
  an incremental refresh is the prior snapshot with the changes applied; and the
  answers of the queries are those of the graph.
\<close>

section \<open>Dictionaries\<close>

lemma lookup_put_all:
  "lookup_row key k (put_all key vs m) =
     (case lookup_row key k (rev vs) of Some v \<Rightarrow> Some v | None \<Rightarrow> lookup_row key k m)"
  by (induction vs arbitrary: m) (auto simp: lookup_upsert lookup_row_append split: option.splits)

lemma unique_key_put_all: "unique_key key m \<Longrightarrow> unique_key key (put_all key vs m)"
  by (induction vs arbitrary: m) auto

lemma keys_put_all: "key ` set (put_all key vs m) = key ` set vs \<union> key ` set m"
  by (induction vs arbitrary: m) (auto simp: set_upsert_unique)

lemma lookup_pop_all:
  "lookup_row key k (pop_all key ks m) = (if k \<in> set ks then None else lookup_row key k m)"
  by (induction ks arbitrary: m) (auto simp: lookup_delete_key)

lemma unique_key_pop_all: "unique_key key m \<Longrightarrow> unique_key key (pop_all key ks m)"
  by (induction ks arbitrary: m) auto

lemma lookup_row_distinct:
  assumes "unique_key key xs" "unique_key key ys" "set xs = set ys"
  shows "lookup_row key k xs = lookup_row key k ys"
proof (cases "lookup_row key k xs")
  case None
  then have "k \<notin> key ` set ys" using assms(3) by (simp add: lookup_row_None_iff has_key_iff_image)
  then have "lookup_row key k ys = None" by (simp add: lookup_row_None_iff has_key_iff_image)
  with None show ?thesis by simp
next
  case (Some x)
  then have "x \<in> set ys" "key x = k" using lookup_row_SomeD assms(3) by fastforce+
  then show ?thesis using Some lookup_row_unique [OF assms(2)] by metis
qed

lemma unique_key_rev [simp]: "unique_key key (rev xs) = unique_key key xs"
  by (simp add: unique_key_def flip: rev_map)

lemma lookup_row_rev: "unique_key key xs \<Longrightarrow> lookup_row key k (rev xs) = lookup_row key k xs"
  by (intro lookup_row_distinct) simp_all

lemma unique_key_sort_key [simp]: "unique_key key (sort_key f xs) = unique_key key xs"
  by (simp add: unique_key_def distinct_map)

lemma lookup_sort_key: "unique_key key xs \<Longrightarrow> lookup_row key k (sort_key f xs) = lookup_row key k xs"
  by (intro lookup_row_distinct) simp_all

lemma set_put_all_fresh: "unique_key key vs \<Longrightarrow> set (put_all key vs []) = set vs"
proof -
  assume u: "unique_key key vs"
  have "\<And>m. unique_key key (m @ vs) \<Longrightarrow> put_all key vs m = m @ vs"
    using u by (induction vs) (auto simp: upsert_def unique_key_def has_key_iff_image)
  from this [of "[]"] u show ?thesis by simp
qed

lemma lookup_delete_keys:
  "lookup_row key k (delete_where (\<lambda>r. P (key r)) rows) = (if P k then None else lookup_row key k rows)"
  unfolding delete_where_def by (induction rows) auto

section \<open>Insertion\<close>

lemma insert_all_fresh: "insert_all what xs rows = Inr rows' \<Longrightarrow> k \<in> fst ` set rows \<Longrightarrow> k \<notin> fst ` set xs"
proof (induction xs arbitrary: rows)
  case (Cons x xs)
  then have fresh: "fst x \<notin> fst ` set rows" and "insert_all what xs (rows @ [x]) = Inr rows'"
    by (simp_all add: has_key_iff_image split: if_splits)
  moreover have "k \<noteq> fst x" using fresh Cons.prems(2) by metis
  ultimately show ?case using Cons.IH [of "rows @ [x]"] Cons.prems(2) by simp
qed simp

lemma insert_all_Inr:
  "insert_all what xs rows = Inr rows' \<Longrightarrow> rows' = rows @ xs \<and> distinct (map fst xs)"
proof (induction xs arbitrary: rows)
  case (Cons x xs)
  then have "\<not> has_key fst (fst x) rows" and rest: "insert_all what xs (rows @ [x]) = Inr rows'"
    by (auto split: if_splits)
  from insert_all_fresh [OF rest, of "fst x"] Cons.IH [OF rest] show ?case by simp
qed simp

lemma insert_run_Inr:
  "insert_run r rows = Inr rows' \<longleftrightarrow> rows' = rows @ [r] \<and> \<not> has_key gn_run_id (gn_run_id r) rows
     \<and> \<not> has_key (\<lambda>x. (gn_model_context_id x, gn_extraction_counter x)) (gn_model_context_id r, gn_extraction_counter r) rows"
  by (auto simp: insert_run_def)

text \<open>The rows of the normalised tables that belong to a snapshot.\<close>

definition asset_rows_of :: "graph_snapshot \<Rightarrow> ((string \<times> string) \<times> graph_asset) list" where
  "asset_rows_of s = map (\<lambda>a. ((gs_run_id s, asset_key a), a)) (gs_assets s)"

definition attribute_rows_of :: "graph_snapshot \<Rightarrow> ((string \<times> string \<times> string) \<times> graph_attribute) list" where
  "attribute_rows_of s = map (\<lambda>t. ((gs_run_id s, pi_value (gt_asset_identity t), gt_name t), t)) (gs_attributes s)"

definition relationship_rows_of :: "graph_snapshot \<Rightarrow> ((string \<times> string) \<times> graph_relationship) list" where
  "relationship_rows_of s = map (\<lambda>r. ((gs_run_id s, gr_relationship_id r), r)) (gs_relationships s)"

definition provenance_rows_of :: "graph_snapshot \<Rightarrow> ((string \<times> nat) \<times> extraction_provenance) list" where
  "provenance_rows_of s = map (\<lambda>(i, p). ((gs_run_id s, i), p)) (enumerate 0 (gs_provenance s))"

definition adds_run :: "extraction_mode \<Rightarrow> graph_snapshot \<Rightarrow> graph_db \<Rightarrow> graph_db \<Rightarrow> bool" where
  "adds_run mode s d d' \<longleftrightarrow> d' = \<lparr>graph_contexts = upsert gc_model_context_id (context_of s) (graph_contexts d),
       graph_extraction_runs = graph_extraction_runs d @ [run_of mode s],
       graph_asset_rows = graph_asset_rows d @ asset_rows_of s,
       graph_attribute_rows = graph_attribute_rows d @ attribute_rows_of s,
       graph_relationship_rows = graph_relationship_rows d @ relationship_rows_of s,
       graph_provenance_rows = graph_provenance_rows d @ provenance_rows_of s\<rparr>
     \<and> \<not> has_key gn_run_id (gs_run_id s) (graph_extraction_runs d)
     \<and> \<not> has_key (\<lambda>x. (gn_model_context_id x, gn_extraction_counter x))
          (mc_model_context_id (gs_context s), counter (mc_extraction_revision (gs_context s))) (graph_extraction_runs d)
     \<and> sqlite_int (counter (mc_extraction_revision (gs_context s)))
     \<and> unique_key attribute_key (gs_attributes s)"

lemma attribute_rows_distinct: "distinct (map fst (attribute_rows_of s)) \<Longrightarrow> unique_key attribute_key (gs_attributes s)"
  by (auto simp: attribute_rows_of_def unique_key_def attribute_key_def distinct_map inj_on_def comp_def)

lemma graph_insert_cases:
  obtains (failed) e where "graph_insert mode s d = (Inl e, d)"
  | (inserted) d' where "graph_insert mode s d = (Inr (), d')" "adds_run mode s d d'"
proof (cases "graph_insert mode s d")
  case (Pair r d')
  show thesis
  proof (cases r)
    case (Inl e)
    with Pair have "d' = d"
      by (auto simp: graph_insert_def graph_write_def transaction_Inl_iff split: sum.splits)
    with Pair Inl show thesis by (intro failed) simp
  next
    case (Inr u)
    with Pair have "adds_run mode s d d'"
      unfolding graph_insert_def graph_write_def
      by (auto simp: adds_run_def transaction_Inr_iff checked_Inr_iff attempt_Inr_iff Let_def
          insert_run_Inr run_of_def attribute_rows_distinct simp flip: asset_rows_of_def attribute_rows_of_def
          relationship_rows_of_def provenance_rows_of_def split: sum.splits dest!: insert_all_Inr)
    with Pair Inr show thesis by (intro inserted) auto
  qed
qed

text \<open>A snapshot of plain fields that keeps within the limit is written.\<close>

definition fits :: "graph_snapshot \<Rightarrow> bool" where
  "fits s \<longleftrightarrow> plain_value (py_graph_snapshot s) \<and> value_bound (py_graph_snapshot s) \<le> int MAX_SERIALIZED_BYTES
     \<and> plain_value (py_model_context (gs_context s))
     \<and> value_bound (py_model_context (gs_context s)) \<le> int MAX_SERIALIZED_BYTES"

lemma graph_insert_fits:
  assumes "fits s"
  shows "graph_insert mode s d = graph_write mode s d"
proof -
  note ok = assms [unfolded fits_def]
  obtain t where t: "canonical_json MAX_SERIALIZED_BYTES (py_model_context (gs_context s)) = Inr t"
    by (rule canonical_json_fits [of "py_model_context (gs_context s)"]) (use ok in blast)+
  obtain t' where t': "canonical_json MAX_SERIALIZED_BYTES (py_graph_snapshot s) = Inr t'"
    by (rule canonical_json_fits [of "py_graph_snapshot s"]) (use ok in blast)+
  show ?thesis unfolding graph_insert_def t t' by simp
qed

section \<open>The invariant of the store\<close>

definition run_consistent :: "graph_run_row \<Rightarrow> bool" where
  "run_consistent r \<longleftrightarrow> r = run_of (gn_mode r) (gn_snapshot r) \<and> GraphSnapshot_post_init (gn_snapshot r) = None
     \<and> sqlite_int (gn_extraction_counter r) \<and> unique_key attribute_key (gs_attributes (gn_snapshot r))"

definition graph_inv :: "graph_db \<Rightarrow> bool" where
  "graph_inv d \<longleftrightarrow> unique_key gn_run_id (graph_extraction_runs d)
     \<and> unique_key (\<lambda>r. (gn_model_context_id r, gn_extraction_counter r)) (graph_extraction_runs d)
     \<and> (\<forall>r \<in> set (graph_extraction_runs d). run_consistent r
          \<and> has_key gc_model_context_id (gn_model_context_id r) (graph_contexts d))
     \<and> unique_key gc_model_context_id (graph_contexts d)
     \<and> graph_asset_rows d = concat (map (\<lambda>r. asset_rows_of (gn_snapshot r)) (graph_extraction_runs d))
     \<and> graph_attribute_rows d = concat (map (\<lambda>r. attribute_rows_of (gn_snapshot r)) (graph_extraction_runs d))
     \<and> graph_relationship_rows d = concat (map (\<lambda>r. relationship_rows_of (gn_snapshot r)) (graph_extraction_runs d))
     \<and> graph_provenance_rows d = concat (map (\<lambda>r. provenance_rows_of (gn_snapshot r)) (graph_extraction_runs d))"

lemma has_key_upsert: "has_key key k (upsert key r rows) \<longleftrightarrow> k = key r \<or> has_key key k rows"
  by (auto simp: has_key_iff_image set_upsert_unique)

lemma adds_run_inv:
  assumes "graph_inv d" "adds_run mode s d d'" "GraphSnapshot_post_init s = None"
  shows "graph_inv d'" "prefix (graph_extraction_runs d) (graph_extraction_runs d')"
proof -
  note add = assms(2) [unfolded adds_run_def]
  have fields: "gn_run_id (run_of mode s) = gs_run_id s" "gn_model_context_id (run_of mode s) = mc_model_context_id (gs_context s)"
    "gn_extraction_counter (run_of mode s) = counter (mc_extraction_revision (gs_context s))"
    "gn_snapshot (run_of mode s) = s" "gn_mode (run_of mode s) = mode"
    "gc_model_context_id (context_of s) = mc_model_context_id (gs_context s)"
    by (simp_all add: run_of_def context_of_def)
  have "run_consistent (run_of mode s)" using assms(3) add by (simp add: run_consistent_def fields)
  with assms(1) add show "graph_inv d'"
    by (simp add: graph_inv_def unique_key_snoc fields has_key_upsert ball_Un)
  show "prefix (graph_extraction_runs d) (graph_extraction_runs d')" using add by simp
qed


section \<open>The store as a machine\<close>

text \<open>A snapshot is an argument only if its constructor accepted it.\<close>

datatype graph_command = RecordFull graph_snapshot | RecordIncremental graph_incremental_refresh

fun graph_step :: "graph_db \<Rightarrow> graph_command \<Rightarrow> graph_db" where
  "graph_step d (RecordFull s) = (if GraphSnapshot_post_init s = None then snd (record_full s d) else d)"
| "graph_step d (RecordIncremental f) =
     (if GraphIncrementalRefresh_post_init f = None then snd (record_incremental f d) else d)"

lemma incremental_snapshot_valid: "incremental_snapshot f d = Inr s \<Longrightarrow> GraphSnapshot_post_init s = None"
  by (auto simp: incremental_snapshot_def attempt_Inr_iff build_record_Inr_iff split: if_splits)

lemma graph_step_cases: "graph_step d c = d \<or> (\<exists>mode s. adds_run mode s d (graph_step d c) \<and> GraphSnapshot_post_init s = None)"
proof (cases c)
  case (RecordFull s)
  then show ?thesis
    by (cases rule: graph_insert_cases [of FullExtraction s d]) (auto simp: record_full_def)
next
  case (RecordIncremental f)
  show ?thesis
  proof (cases "incremental_snapshot f d")
    case (Inr s)
    then show ?thesis using RecordIncremental incremental_snapshot_valid [OF Inr]
      by (cases rule: graph_insert_cases [of IncrementalExtraction s d]) (auto simp: record_incremental_def)
  qed (simp add: RecordIncremental record_incremental_def)
qed

lemma graph_step_keeps:
  assumes "graph_inv d"
  shows "graph_inv (graph_step d c)" "prefix (graph_extraction_runs d) (graph_extraction_runs (graph_step d c))"
  using graph_step_cases [of d c] assms adds_run_inv [OF assms] by (elim disjE exE conjE; simp)+

interpretation graph_runs_log: append_only_machine graph_step graph_inv graph_extraction_runs
  by unfold_locales (erule graph_step_keeps)+

section \<open>Recorded revisions\<close>

lemma run_consistentD:
  assumes "run_consistent r"
  shows "gn_run_id r = gs_run_id (gn_snapshot r)"
    "gn_model_context_id r = mc_model_context_id (gs_context (gn_snapshot r))"
    "gn_extraction_counter r = counter (mc_extraction_revision (gs_context (gn_snapshot r)))"
    "gn_recorded_at r = encode_utc_timestamp (mc_extracted_at (gs_context (gn_snapshot r)))"
    "GraphSnapshot_post_init (gn_snapshot r) = None" "sqlite_int (gn_extraction_counter r)"
    "unique_key attribute_key (gs_attributes (gn_snapshot r))"
proof -
  note eq = conjunct1 [OF assms [unfolded run_consistent_def]]
  show "gn_run_id r = gs_run_id (gn_snapshot r)"
    using arg_cong [OF eq, of gn_run_id] by (simp only: run_of_def graph_run_row.simps)
  show "gn_model_context_id r = mc_model_context_id (gs_context (gn_snapshot r))"
    using arg_cong [OF eq, of gn_model_context_id] by (simp only: run_of_def graph_run_row.simps)
  show "gn_extraction_counter r = counter (mc_extraction_revision (gs_context (gn_snapshot r)))"
    using arg_cong [OF eq, of gn_extraction_counter] by (simp only: run_of_def graph_run_row.simps)
  show "gn_recorded_at r = encode_utc_timestamp (mc_extracted_at (gs_context (gn_snapshot r)))"
    using arg_cong [OF eq, of gn_recorded_at] by (simp only: run_of_def graph_run_row.simps)
  show "GraphSnapshot_post_init (gn_snapshot r) = None" "sqlite_int (gn_extraction_counter r)"
    "unique_key attribute_key (gs_attributes (gn_snapshot r))"
    using assms unfolding run_consistent_def by blast+
qed

lemma graph_inv_run: "graph_inv d \<Longrightarrow> r \<in> set (graph_extraction_runs d) \<Longrightarrow> run_consistent r"
  by (simp add: graph_inv_def)

abbreviation run_key :: "graph_run_row \<Rightarrow> string \<times> int" where
  "run_key r \<equiv> (gn_model_context_id r, gn_extraction_counter r)"

lemma graph_revision_InrD:
  assumes "graph_inv d" "graph_revision c n d = Inr s"
  obtains r where "r \<in> set (graph_extraction_runs d)" "gn_snapshot r = s" "run_key r = (c, n)"
    "mc_model_context_id (gs_context s) = c" "counter (mc_extraction_revision (gs_context s)) = n"
proof -
  from assms(2) obtain r where look: "lookup_row run_key (c, n) (graph_extraction_runs d) = Some r" and s: "gn_snapshot r = s"
    by (auto simp: graph_revision_def checked_Inr_iff split: option.splits)
  note r = lookup_row_SomeD [OF look]
  then have "run_consistent r" by (intro graph_inv_run [OF assms(1)]) simp
  with run_consistentD(2,3) [of r] r s show thesis by (intro that [of r]) simp_all
qed

lemma graph_revision_InrI:
  assumes "graph_inv d" "r \<in> set (graph_extraction_runs d)"
  shows "graph_revision (gn_model_context_id r) (gn_extraction_counter r) d = Inr (gn_snapshot r)"
proof -
  have "unique_key run_key (graph_extraction_runs d)" using assms(1) by (simp add: graph_inv_def)
  then have "lookup_row run_key (run_key r) (graph_extraction_runs d) = Some r" by (rule lookup_row_unique [OF _ assms(2)])
  with run_consistentD(6) [OF graph_inv_run [OF assms]] show ?thesis by (simp add: graph_revision_def require_def)
qed

lemma run_rows:
  assumes "unique_key gn_run_id runs" "\<And>r. r \<in> set runs \<Longrightarrow> gs_run_id (gn_snapshot r) = gn_run_id r"
    and "\<And>s x. x \<in> set (rows s) \<Longrightarrow> fst (fst x) = gs_run_id s" and "r \<in> set runs"
  shows "filter (\<lambda>x. fst (fst x) = gn_run_id r) (concat (map (\<lambda>r. rows (gn_snapshot r)) runs)) = rows (gn_snapshot r)"
  using assms(1,2,4)
proof (induction runs)
  case (Cons a runs)
  have none: "filter (\<lambda>x. fst (fst x) = gn_run_id b) (concat (map (\<lambda>r. rows (gn_snapshot r)) runs)) = []"
    if "gn_run_id b \<notin> gn_run_id ` set runs" for b
    using that assms(3) Cons.prems(2) by (fastforce simp: filter_empty_conv)
  have other: "filter (\<lambda>x. fst (fst x) = gn_run_id b) (rows (gn_snapshot a)) = (if gn_run_id b = gn_run_id a then rows (gn_snapshot a) else [])"
    for b using assms(3) Cons.prems(2) [of a] by (auto simp: filter_empty_conv filter_id_conv)
  from Cons.prems(1) have fresh: "gn_run_id a \<notin> gn_run_id ` set runs" "unique_key gn_run_id runs"
    by (auto simp: unique_key_def)
  show ?case
  proof (cases "r = a")
    case True
    then show ?thesis using none [OF fresh(1)] other [of a] by simp
  next
    case False
    then have r: "r \<in> set runs" using Cons.prems(3) by simp
    then have "gn_run_id r \<noteq> gn_run_id a" using fresh(1) by (metis image_eqI)
    with Cons.IH [OF fresh(2) _ r] Cons.prems(2) other [of r] show ?thesis by simp
  qed
qed simp

definition empty_graph_db :: graph_db where
  "empty_graph_db = \<lparr>graph_contexts = [], graph_extraction_runs = [], graph_asset_rows = [],
     graph_attribute_rows = [], graph_relationship_rows = [], graph_provenance_rows = []\<rparr>"

lemma empty_graph_inv: "graph_inv empty_graph_db"
  by (simp add: graph_inv_def empty_graph_db_def unique_key_def)

abbreviation graph_after :: "graph_command list \<Rightarrow> graph_db" where
  "graph_after cs \<equiv> run_ops graph_step empty_graph_db cs"

lemma graph_after_inv: "graph_inv (graph_after cs)"
  by (rule graph_runs_log.run_inv [OF empty_graph_inv])

lemma graph_rows_of_run:
  assumes "graph_inv d" "r \<in> set (graph_extraction_runs d)"
  shows "filter (\<lambda>x. fst (fst x) = gn_run_id r) (graph_asset_rows d) = asset_rows_of (gn_snapshot r)"
    "filter (\<lambda>x. fst (fst x) = gn_run_id r) (graph_attribute_rows d) = attribute_rows_of (gn_snapshot r)"
    "filter (\<lambda>x. fst (fst x) = gn_run_id r) (graph_relationship_rows d) = relationship_rows_of (gn_snapshot r)"
    "filter (\<lambda>x. fst (fst x) = gn_run_id r) (graph_provenance_rows d) = provenance_rows_of (gn_snapshot r)"
proof -
  note inv = assms(1) [unfolded graph_inv_def]
  have u: "unique_key gn_run_id (graph_extraction_runs d)" using inv by blast
  have same: "gs_run_id (gn_snapshot r) = gn_run_id r" if "r \<in> set (graph_extraction_runs d)" for r
    using run_consistentD(1) [OF graph_inv_run [OF assms(1) that]] by simp
  have a: "fst (fst x) = gs_run_id s" if "x \<in> set (asset_rows_of s)" for s x
    using that by (auto simp: asset_rows_of_def)
  have b: "fst (fst x) = gs_run_id s" if "x \<in> set (attribute_rows_of s)" for s x
    using that by (auto simp: attribute_rows_of_def)
  have c: "fst (fst x) = gs_run_id s" if "x \<in> set (relationship_rows_of s)" for s x
    using that by (auto simp: relationship_rows_of_def)
  have e: "fst (fst x) = gs_run_id s" if "x \<in> set (provenance_rows_of s)" for s x
    using that by (auto simp: provenance_rows_of_def)
  show "filter (\<lambda>x. fst (fst x) = gn_run_id r) (graph_asset_rows d) = asset_rows_of (gn_snapshot r)"
    "filter (\<lambda>x. fst (fst x) = gn_run_id r) (graph_attribute_rows d) = attribute_rows_of (gn_snapshot r)"
    "filter (\<lambda>x. fst (fst x) = gn_run_id r) (graph_relationship_rows d) = relationship_rows_of (gn_snapshot r)"
    "filter (\<lambda>x. fst (fst x) = gn_run_id r) (graph_provenance_rows d) = provenance_rows_of (gn_snapshot r)"
    using run_rows [OF u same a assms(2)] run_rows [OF u same b assms(2)] run_rows [OF u same c assms(2)]
      run_rows [OF u same e assms(2)] inv by simp_all
qed

section \<open>An incremental refresh\<close>

lemma merged_asset:
  assumes "unique_key asset_key (gs_assets prior)" "unique_key asset_key (gi_changed_assets f)"
  shows "lookup_row asset_key k (gs_assets (merged_snapshot f prior)) =
    (case lookup_row asset_key k (gi_changed_assets f) of Some a \<Rightarrow> Some a | None \<Rightarrow> lookup_row asset_key k (gs_assets prior))"
proof -
  have "unique_key asset_key (merged_assets f prior)"
    by (simp add: merged_assets_def unique_key_put_all unique_key_def [of _ "[]"])
  then show ?thesis
    using assms by (simp add: merged_snapshot_def lookup_sort_key merged_assets_def lookup_put_all lookup_row_rev
        split: option.split)
qed

lemma merged_attribute:
  assumes "unique_key attribute_key (gs_attributes prior)"
  shows "lookup_row attribute_key k (gs_attributes (merged_snapshot f prior)) =
    (case lookup_row attribute_key k (rev (gi_changed_attributes f)) of Some t \<Rightarrow> Some t
     | None \<Rightarrow> if fst k \<in> asset_key ` set (gi_changed_assets f) then None
        else lookup_row attribute_key k (gs_attributes prior))"
proof -
  let ?kept = "delete_where (\<lambda>t. fst (attribute_key t) \<in> asset_key ` set (gi_changed_assets f))
    (put_all attribute_key (gs_attributes prior) [])"
  have u: "unique_key attribute_key ?kept"
    by (simp add: unique_key_delete_where unique_key_put_all unique_key_def [of _ "[]"])
  have look: "lookup_row attribute_key k ?kept = (if fst k \<in> asset_key ` set (gi_changed_assets f) then None
        else lookup_row attribute_key k (put_all attribute_key (gs_attributes prior) []))"
    for k by (rule lookup_delete_keys [where P = "\<lambda>j. fst j \<in> asset_key ` set (gi_changed_assets f)"])
  have "unique_key attribute_key (put_all attribute_key (gi_changed_attributes f) ?kept)"
    by (rule unique_key_put_all [OF u])
  then show ?thesis using assms
    by (simp add: merged_snapshot_def merged_attributes_def Let_def lookup_sort_key lookup_put_all look lookup_row_rev
        split: option.split)
qed

lemma merged_relationship:
  assumes "unique_key gr_relationship_id (gs_relationships prior)"
  shows "lookup_row gr_relationship_id k (gs_relationships (merged_snapshot f prior)) =
    (case lookup_row gr_relationship_id k (rev (gi_changed_relationships f)) of Some r \<Rightarrow> Some r
     | None \<Rightarrow> if k \<in> set (gi_removed_relationship_ids f) then None
        else lookup_row gr_relationship_id k (gs_relationships prior))"
proof -
  have "unique_key gr_relationship_id (merged_relationships f prior)"
    by (simp add: merged_relationships_def unique_key_put_all unique_key_pop_all unique_key_def [of _ "[]"])
  then show ?thesis using assms
    by (simp add: merged_snapshot_def lookup_sort_key merged_relationships_def lookup_put_all lookup_pop_all lookup_row_rev
        split: option.split)
qed

section \<open>What was inserted is there\<close>

lemma graph_insert_recorded:
  assumes "graph_inv d" "GraphSnapshot_post_init s = None" "graph_insert mode s d = (Inr (), d')"
  shows "graph_inv d'" "prefix (graph_extraction_runs d) (graph_extraction_runs d')"
    "graph_revision (mc_model_context_id (gs_context s)) (counter (mc_extraction_revision (gs_context s))) d' = Inr s"
proof -
  have add: "adds_run mode s d d'"
    by (cases rule: graph_insert_cases [of mode s d]) (use assms(3) in auto)
  show inv: "graph_inv d'" "prefix (graph_extraction_runs d) (graph_extraction_runs d')"
    by (rule adds_run_inv [OF assms(1) add assms(2)])+
  have "run_of mode s \<in> set (graph_extraction_runs d')" using add by (simp add: adds_run_def)
  from graph_revision_InrI [OF inv(1) this] show
    "graph_revision (mc_model_context_id (gs_context s)) (counter (mc_extraction_revision (gs_context s))) d' = Inr s"
    by (simp add: run_of_def)
qed

lemma graph_revision_keeps:
  assumes "graph_inv d" "graph_inv d'" "set (graph_extraction_runs d) \<subseteq> set (graph_extraction_runs d')"
    and "graph_revision c n d = Inr s"
  shows "graph_revision c n d' = Inr s"
proof -
  from assms(1,4) obtain r where r: "r \<in> set (graph_extraction_runs d)" "gn_snapshot r = s" "run_key r = (c, n)"
    by (rule graph_revision_InrD)
  then have "r \<in> set (graph_extraction_runs d')" using assms(3) by blast
  from graph_revision_InrI [OF assms(2) this] r show ?thesis by simp
qed

lemma newest_run_member: "newest_run rs = Some r \<Longrightarrow> r \<in> set rs"
  by (induction rs arbitrary: r) (auto split: option.splits if_splits)

lemma graph_latest_InrD:
  assumes "graph_latest c k d = Inr s"
  shows "\<exists>r \<in> set (graph_extraction_runs d). gn_snapshot r = s"
proof -
  from assms obtain rows r where "newest_run rows = Some r" "set rows \<subseteq> set (graph_extraction_runs d)" "gn_snapshot r = s"
    unfolding graph_latest_def Let_def by (force split: option.splits if_splits)
  then show ?thesis using newest_run_member by blast
qed

end
