(* ===== verification/Graph_Search.thy ===== *)
theory Graph_Search
  imports Graph_Queries
begin

text \<open>
  What the queries rely on in NetworkX: the nodes within a number of hops, and a shortest
  path between two nodes of a graph.  The contract is a locale over the two searches,
  instantiated by breadth-first searches over the model's graphs.
\<close>

section \<open>Walks\<close>

lemma walk_nodes: "walk nodes edges n u v \<Longrightarrow> u \<in> set nodes \<and> v \<in> set nodes"
  by (induction n arbitrary: v) auto

lemma walk_mono: "walk nodes edges n u v \<Longrightarrow> n \<le> m \<Longrightarrow> walk nodes edges m u v"
  by (induction m) (auto simp: le_Suc_eq)

lemma chain_snoc: "p \<noteq> [] \<Longrightarrow> chain edges (p @ [v]) \<longleftrightarrow> chain edges p \<and> joined edges (last p) v"
  by (induction edges p rule: chain.induct) auto

lemma chain_walk: "chain edges p \<Longrightarrow> p \<noteq> [] \<Longrightarrow> set p \<subseteq> set nodes \<Longrightarrow> walk nodes edges (length p - 1) (hd p) (last p)"
proof (induction p rule: rev_induct)
  case (snoc v p)
  show ?case
  proof (cases "p = []")
    case False
    then obtain n where n: "length p = Suc n" by (cases p) auto
    have "walk nodes edges n (hd p) (last p)" "joined edges (last p) v"
      using snoc False n by (simp_all add: chain_snoc)
    moreover have "last p \<in> set nodes" "v \<in> set nodes" using snoc.prems False by auto
    ultimately show ?thesis using False n by auto
  qed (use snoc in simp)
qed simp

section \<open>The contract\<close>

locale graph_search =
  fixes reach :: "string list \<Rightarrow> (string \<times> string) list \<Rightarrow> string \<Rightarrow> nat \<Rightarrow> string list"
    and route :: "string list \<Rightarrow> (string \<times> string) list \<Rightarrow> string \<Rightarrow> string \<Rightarrow> nx_path"
  assumes reach_nodes: "u \<in> set nodes \<Longrightarrow> set (reach nodes edges u n) = {v. walk nodes edges n u v}"
    and reach_distinct: "u \<in> set nodes \<Longrightarrow> distinct (reach nodes edges u n)"
    and route_found: "route nodes edges s t = NxPath p \<Longrightarrow> route_between nodes edges s t p
      \<and> (\<forall>p'. route_between nodes edges s t p' \<longrightarrow> length p \<le> length p')"
    and route_absent: "route nodes edges s t = NxNoPath \<Longrightarrow> \<not> route_between nodes edges s t p"
    and route_unknown: "route nodes edges s t = NxNodeNotFound \<longleftrightarrow> s \<notin> set nodes \<or> t \<notin> set nodes"
begin

lemma route_total:
  assumes "s \<in> set nodes" "t \<in> set nodes" "route_between nodes edges s t p"
  obtains p' where "route nodes edges s t = NxPath p'" "route_between nodes edges s t p'" "length p' \<le> length p"
  using assms route_found route_absent route_unknown by (cases "route nodes edges s t") blast+

lemma reach_self: "u \<in> set nodes \<Longrightarrow> u \<in> set (reach nodes edges u n)"
  using walk_mono [of nodes edges 0 u u n] by (simp add: reach_nodes)

end

section \<open>Breadth-first searches\<close>

fun reach_bfs :: "string list \<Rightarrow> (string \<times> string) list \<Rightarrow> string \<Rightarrow> nat \<Rightarrow> string list" where
  "reach_bfs nodes edges u 0 = filter (\<lambda>v. v = u) (remdups nodes)"
| "reach_bfs nodes edges u (Suc n) = (let near = reach_bfs nodes edges u n in
     filter (\<lambda>v. v \<in> set near \<or> list_ex (\<lambda>w. joined edges w v) near) (remdups nodes))"

lemma reach_bfs_walk: "set (reach_bfs nodes edges u n) = {v. walk nodes edges n u v}"
proof (induction n)
  case (Suc n)
  then show ?case using walk_nodes by (fastforce simp: Let_def list_ex_iff)
qed auto

lemma reach_bfs_distinct: "distinct (reach_bfs nodes edges u n)"
  by (cases n) (simp_all add: Let_def)

text \<open>The way back along decreasing distance.\<close>

fun trace_back :: "string list \<Rightarrow> (string \<times> string) list \<Rightarrow> string \<Rightarrow> nat \<Rightarrow> string \<Rightarrow> string list" where
  "trace_back nodes edges s 0 t = [t]"
| "trace_back nodes edges s (Suc n) t =
     (case find (\<lambda>w. joined edges w t) (reach_bfs nodes edges s n) of
        None \<Rightarrow> [t] | Some w \<Rightarrow> trace_back nodes edges s n w @ [t])"

definition route_bfs :: "string list \<Rightarrow> (string \<times> string) list \<Rightarrow> string \<Rightarrow> string \<Rightarrow> nx_path" where
  "route_bfs nodes edges s t =
     (if s \<notin> set nodes \<or> t \<notin> set nodes then NxNodeNotFound
      else case find (\<lambda>n. t \<in> set (reach_bfs nodes edges s n)) [0..<length nodes] of
        None \<Rightarrow> NxNoPath | Some n \<Rightarrow> NxPath (trace_back nodes edges s n t))"

lemma back_route:
  assumes "walk nodes edges n s t" "\<And>m. m < n \<Longrightarrow> \<not> walk nodes edges m s t"
  shows "route_between nodes edges s t (trace_back nodes edges s n t) \<and> length (trace_back nodes edges s n t) = Suc n
    \<and> (\<forall>v \<in> set (trace_back nodes edges s n t). walk nodes edges n s v)"
  using assms
proof (induction n arbitrary: t)
  case 0
  then show ?case by (auto simp: route_between_def)
next
  case (Suc n)
  have far: "\<not> walk nodes edges n s t" using Suc.prems(2) by simp
  with Suc.prems(1) obtain w where "walk nodes edges n s w" "joined edges w t" by auto
  then have "find (\<lambda>w. joined edges w t) (reach_bfs nodes edges s n) \<noteq> None"
    using reach_bfs_walk by (auto simp: find_None_iff)
  then obtain w where find: "find (\<lambda>w. joined edges w t) (reach_bfs nodes edges s n) = Some w" by blast
  then have w: "walk nodes edges n s w" "joined edges w t"
    using reach_bfs_walk by (auto simp: find_Some_iff dest: nth_mem)
  have t: "t \<in> set nodes" using walk_nodes [OF Suc.prems(1)] by simp
  have "\<not> walk nodes edges m s w" if "m < n" for m
  proof
    assume "walk nodes edges m s w"
    then have "walk nodes edges (Suc m) s t" using w(2) t walk_nodes by auto
    with far that show False using walk_mono [of nodes edges "Suc m" s t n] by simp
  qed
  note IH = Suc.IH [OF w(1) this]
  let ?p = "trace_back nodes edges s n w"
  have "t \<notin> set ?p" using IH far by blast
  with IH w t have "route_between nodes edges s t (?p @ [t])"
    by (auto simp: route_between_def chain_snoc hd_append)
  moreover have "\<forall>v \<in> set (?p @ [t]). walk nodes edges (Suc n) s v" using IH Suc.prems(1) by auto
  ultimately show ?case using find IH by simp
qed

lemma route_between_walk:
  assumes "route_between nodes edges s t p"
  shows "walk nodes edges (length p - 1) s t" "length p - 1 < length nodes"
proof -
  have p: "p \<noteq> []" "set p \<subseteq> set nodes" "distinct p" using assms by (simp_all add: route_between_def)
  then show "walk nodes edges (length p - 1) s t"
    using chain_walk [of edges p nodes] assms by (auto simp: route_between_def)
  have "length p \<le> card (set nodes)" using p by (metis card_mono List.finite_set distinct_card)
  then show "length p - 1 < length nodes" using p(1) card_length [of nodes] by (cases p) auto
qed

lemma nearest:
  assumes "find (\<lambda>n. t \<in> set (reach_bfs nodes edges s n)) [0..<k] = Some n"
  shows "walk nodes edges n s t" "m < n \<Longrightarrow> \<not> walk nodes edges m s t"
proof -
  from assms obtain i where "i < k" "n = i" "t \<in> set (reach_bfs nodes edges s i)"
    "\<forall>j<i. t \<notin> set (reach_bfs nodes edges s j)"
    unfolding find_Some_iff by auto
  then show "walk nodes edges n s t" "m < n \<Longrightarrow> \<not> walk nodes edges m s t"
    by (simp_all add: reach_bfs_walk)
qed

lemma route_bfs_found:
  assumes "route_bfs nodes edges s t = NxPath p"
  shows "route_between nodes edges s t p" "route_between nodes edges s t p' \<Longrightarrow> length p \<le> length p'"
proof -
  from assms obtain n where find: "find (\<lambda>n. t \<in> set (reach_bfs nodes edges s n)) [0..<length nodes] = Some n"
    and p: "p = trace_back nodes edges s n t"
    by (auto simp: route_bfs_def split: if_splits option.splits)
  note near = back_route [OF nearest(1) [OF find] nearest(2) [OF find]]
  then show "route_between nodes edges s t p" by (simp add: p)
  assume other: "route_between nodes edges s t p'"
  then have "\<not> length p' - 1 < n" using nearest(2) [OF find] route_between_walk(1) by blast
  moreover have "p' \<noteq> []" using other by (simp add: route_between_def)
  ultimately show "length p \<le> length p'" using near by (cases p') (simp_all add: p)
qed

lemma route_bfs_absent:
  assumes "route_bfs nodes edges s t = NxNoPath"
  shows "\<not> route_between nodes edges s t p"
proof
  assume p: "route_between nodes edges s t p"
  from assms have "find (\<lambda>n. t \<in> set (reach_bfs nodes edges s n)) [0..<length nodes] = None"
    by (auto simp: route_bfs_def split: if_splits option.splits)
  then have "\<forall>m < length nodes. \<not> walk nodes edges m s t" by (simp add: find_None_iff reach_bfs_walk)
  with route_between_walk [OF p] show False by blast
qed

interpretation bfs: graph_search reach_bfs route_bfs
proof
  show "route_bfs nodes edges s t = NxNodeNotFound \<longleftrightarrow> s \<notin> set nodes \<or> t \<notin> set nodes" for nodes edges s t
    by (simp add: route_bfs_def split: option.split)
qed (simp_all add: reach_bfs_walk reach_bfs_distinct route_bfs_found route_bfs_absent)

end
