(* ===== verification/Graph_Answers.thy ===== *)
theory Graph_Answers
  imports Graph_Laws Graph_Search
begin

text \<open>
  The answers of the graph queries: no query on a recorded extraction fails on its own
  result, and each answer is the bounded, ordered view of the set it is named for.
\<close>

section \<open>Results are always well formed\<close>

lemma length_nat_str: "n < 10 ^ Suc k \<Longrightarrow> length (nat_str n) \<le> Suc k"
proof (induction k arbitrary: n)
  case 0
  then show ?case by (subst nat_str.simps) simp
next
  case (Suc k)
  have "n div 10 < 10 ^ Suc k" using Suc.prems by auto
  from Suc.IH [OF this] show ?case by (subst nat_str.simps) simp
qed

lemma strip_text_plain: "v \<noteq> [] \<Longrightarrow> \<not> is_space (hd v) \<Longrightarrow> \<not> is_space (last v) \<Longrightarrow> strip_text v = v"
proof -
  assume v: "v \<noteq> []" "\<not> is_space (hd v)" "\<not> is_space (last v)"
  then have "dropWhile is_space v = v" by (simp add: dropWhile_eq_self_iff)
  moreover have "dropWhile is_space (rev v) = rev v" using v by (simp add: dropWhile_eq_self_iff hd_rev)
  ultimately show ?thesis by (simp add: strip_text_def)
qed

definition plain_label :: "string \<Rightarrow> bool" where
  "plain_label l \<longleftrightarrow> l \<noteq> [] \<and> \<not> is_space (hd l) \<and> length l \<le> 64"

lemma summary_ok:
  assumes "plain_label l" "n \<le> MAX_COLLECTION_LENGTH" "m \<le> MAX_COLLECTION_LENGTH"
  shows "require_text_max 512 (result_summary l n m) field = None"
proof -
  have "length (nat_str n) \<le> 5" "length (nat_str m) \<le> 5"
    using length_nat_str [of _ 4] assms(2,3) by (simp_all add: MAX_COLLECTION_LENGTH_def)
  then have "length (result_summary l n m) \<le> 512" using assms(1) by (simp add: result_summary_def plain_label_def)
  moreover have "hd (result_summary l n m) = hd l" "result_summary l n m \<noteq> []"
    using assms(1) by (simp_all add: result_summary_def plain_label_def)
  moreover have "last (result_summary l n m) = CHR ''s''" by (simp add: result_summary_def)
  moreover have "\<not> is_space (CHR ''s'')" by code_simp
  ultimately show ?thesis using assms(1) by (simp add: require_text_max_None_iff plain_label_def strip_text_plain)
qed


text \<open>The ordered view of a set, as far as the limit of the query goes.\<close>

definition view :: "graph_query \<Rightarrow> string set \<Rightarrow> string list" where
  "view q S = take (nat (gq_limit q)) (sorted_list_of_set S)"

definition reference_keys :: "graph_query_result \<Rightarrow> string list" where
  "reference_keys x = map (\<lambda>a. pi_value (ar_product_identity a)) (gx_asset_references x)"

text \<open>An answer shows a set of assets and a set of relationships of the snapshot.\<close>

definition answers :: "graph_query \<Rightarrow> graph_snapshot \<Rightarrow> string set \<Rightarrow> string set \<Rightarrow> graph_query_result \<Rightarrow> bool" where
  "answers q s A R x \<longleftrightarrow> reference_keys x = view q A \<and> set (gx_asset_references x) \<subseteq> ga_asset ` set (gs_assets s)
     \<and> gx_relationship_ids x = view q R \<and> gx_total_matches x = int (card A)
     \<and> gx_truncated x = (gq_limit q < int (card A) \<or> gq_limit q < int (card R))"

lemma sort_view: "distinct xs \<Longrightarrow> take (nat (gq_limit q)) (sort xs) = view q (set xs)"
  by (simp add: view_def sorted_list_of_set_sort_remdups distinct_remdups_id)

lemma map_filter_total:
  "(\<And>x. x \<in> set xs \<Longrightarrow> \<exists>y. f x = Some y \<and> g y = x) \<Longrightarrow> map g (List.map_filter f xs) = xs"
proof (induction xs)
  case (Cons x xs)
  obtain y where "f x = Some y" "g y = x" using Cons.prems [of x] by auto
  with Cons show ?case by (simp add: map_filter_simps)
qed (simp add: map_filter_simps)

lemma map_filter_lookup_subset:
  "set (List.map_filter (\<lambda>i. map_option f (lookup_row key i rows)) xs) \<subseteq> f ` set rows"
proof
  fix b
  assume "b \<in> set (List.map_filter (\<lambda>i. map_option f (lookup_row key i rows)) xs)"
  then obtain i y where y: "lookup_row key i rows = Some y" "b = f y" by (auto simp: List.map_filter_def)
  from lookup_row_SomeD [OF y(1)] y(2) show "b \<in> f ` set rows" by simp
qed

lemma graph_result_ok:
  assumes "GraphSnapshot_post_init s = None" "GraphQuery_post_init q = None"
    and ids: "distinct ids" "set ids \<subseteq> asset_key ` set (gs_assets s)"
    and rels: "distinct rels" "length rels \<le> MAX_COLLECTION_LENGTH" and "plain_label label"
  obtains x where "graph_result q s ids rels label = Inr x" "answers q s (set ids) (set rels) x"
proof -
  let ?find = "\<lambda>i. lookup_row asset_key i (gs_assets s)"
  let ?x = "\<lparr>gx_query = q,
      gx_asset_references = List.map_filter (\<lambda>i. map_option ga_asset (?find i)) (take (nat (gq_limit q)) (sort ids)),
      gx_relationship_ids = take (nat (gq_limit q)) (sort rels), gx_total_matches = int (length ids),
      gx_truncated = (gq_limit q < int (length ids) \<or> gq_limit q < int (length rels)),
      gx_summary = result_summary label (length ids) (length rels)\<rparr>"
  note snap = GraphSnapshot_okD [OF assms(1)]
  have limit: "1 \<le> gq_limit q" "gq_limit q \<le> 100"
    using assms(2) by (simp_all add: GraphQuery_post_init_def bounded_def MAX_GRAPH_RESULTS_def MAX_PAGE_SIZE_def)
  have few: "length ids \<le> MAX_COLLECTION_LENGTH"
  proof -
    have "length ids = card (set ids)" using ids(1) by (simp add: distinct_card)
    also have "\<dots> \<le> card (asset_key ` set (gs_assets s))" using ids(2) by (intro card_mono) simp_all
    also have "\<dots> \<le> length (gs_assets s)" using card_length [of "map asset_key (gs_assets s)"] by simp
    finally show ?thesis using snap(8) by simp
  qed
  have known: "\<exists>a. map_option ga_asset (?find i) = Some a \<and> pi_value (ar_product_identity a) = i"
    if "i \<in> set (take (nat (gq_limit q)) (sort ids))" for i
  proof -
    have "i \<in> asset_key ` set (gs_assets s)" using that ids(2) in_set_takeD by fastforce
    then obtain a where "?find i = Some a" "asset_key a = i"
      using lookup_row_None_iff [of asset_key i "gs_assets s"] lookup_row_SomeD [of asset_key i "gs_assets s"]
      by (auto simp: has_key_iff_image dest: option.exhaust)
    then show ?thesis by (auto simp: asset_key_def)
  qed
  have keys: "reference_keys ?x = take (nat (gq_limit q)) (sort ids)"
    unfolding reference_keys_def by (simp, rule map_filter_total) (rule known)
  then have refs: "length (gx_asset_references ?x) = length (take (nat (gq_limit q)) (sort ids))"
    unfolding reference_keys_def by (metis length_map)
  have "ordered_unique (reference_keys ?x)" "ordered_unique (gx_relationship_ids ?x)"
    using ids(1) rels(1) by (simp_all add: keys ordered_unique_iff sorted_wrt_take)
  moreover have "require_text_max 512 (gx_summary ?x) ''GraphQueryResult.summary'' = None"
    using summary_ok [OF assms(7) few rels(2)] by simp
  ultimately have "GraphQueryResult_post_init ?x = None"
    using limit few refs rels(2)
    by (simp add: GraphQueryResult_post_init_def reference_keys_def Let_def require_collection_None_iff bounded_def
        MAX_COLLECTION_LENGTH_def min_def) linarith
  then have "graph_result q s ids rels label = Inr ?x"
    by (simp add: graph_result_def Let_def build_record_def)
  moreover have "set (gx_asset_references ?x) \<subseteq> ga_asset ` set (gs_assets s)"
    by (simp add: map_filter_lookup_subset)
  then have "answers q s (set ids) (set rels) ?x"
    using ids(1) rels(1) sort_view [of ids q] sort_view [of rels q] keys
    by (simp add: answers_def distinct_card)
  ultimately show thesis by (rule that)
qed

section \<open>The neighborhood query\<close>

lemma projection_for_Inr:
  "projection_for q d = Inr (s, g) \<longleftrightarrow> graph_revision (gq_model_context_id q) (counter (gq_extraction_revision q)) d = Inr s
     \<and> mc_extraction_revision (gs_context s) = gq_extraction_revision q \<and> g = projection s"
  by (auto simp: projection_for_def attempt_Inr_iff split: if_splits sum.splits)

lemma revision_valid:
  assumes "graph_inv d" "graph_revision c n d = Inr s"
  shows "GraphSnapshot_post_init s = None"
proof -
  from assms obtain r where r: "r \<in> set (graph_extraction_runs d)" "gn_snapshot r = s" by (rule graph_revision_InrD)
  from run_consistentD(5) [OF graph_inv_run [OF assms(1) r(1)]] r(2) show ?thesis by simp
qed

definition inner_relationships :: "graph_snapshot \<Rightarrow> string set \<Rightarrow> string set" where
  "inner_relationships s A = gr_relationship_id ` {r \<in> set (gs_relationships s). source_key r \<in> A \<and> target_key r \<in> A}"

lemma relationships_for_nodes_facts:
  assumes "GraphSnapshot_post_init s = None"
  shows "distinct (relationships_for_nodes (projection s) ids)"
    "length (relationships_for_nodes (projection s) ids) \<le> MAX_COLLECTION_LENGTH"
    "set (relationships_for_nodes (projection s) ids) = inner_relationships s (set ids)"
proof -
  note snap = GraphSnapshot_okD [OF assms]
  show "distinct (relationships_for_nodes (projection s) ids)"
    using snap(5) by (simp add: relationships_for_nodes_def projection_def distinct_map_filter)
  have "length (filter P (gs_relationships s)) \<le> MAX_COLLECTION_LENGTH" for P
    using length_filter_le [of P "gs_relationships s"] snap(9) by (rule order_trans)
  then show "length (relationships_for_nodes (projection s) ids) \<le> MAX_COLLECTION_LENGTH"
    by (simp add: relationships_for_nodes_def projection_def)
  show "set (relationships_for_nodes (projection s) ids) = inner_relationships s (set ids)"
    by (auto simp: relationships_for_nodes_def projection_def inner_relationships_def)
qed

lemma graph_result_nodes:
  assumes "GraphSnapshot_post_init s = None" "GraphQuery_post_init q = None"
    and "distinct ids" "set ids \<subseteq> asset_key ` set (gs_assets s)" "plain_label label"
  obtains x where "graph_result q s ids (relationships_for_nodes (projection s) ids) label = Inr x"
    "answers q s (set ids) (inner_relationships s (set ids)) x"
  using graph_result_ok [OF assms(1-4) relationships_for_nodes_facts(1,2) [OF assms(1)] assms(5)]
    relationships_for_nodes_facts(3) [OF assms(1)] by metis

text \<open>A query whose context has the revision it asks for.\<close>

definition asks_for :: "graph_query \<Rightarrow> graph_db \<Rightarrow> graph_snapshot \<Rightarrow> bool" where
  "asks_for q d s \<longleftrightarrow> GraphQuery_post_init q = None \<and> graph_inv d
     \<and> graph_revision (gq_model_context_id q) (counter (gq_extraction_revision q)) d = Inr s
     \<and> mc_extraction_revision (gs_context s) = gq_extraction_revision q"

lemma asks_forD:
  assumes "asks_for q d s"
  shows "GraphQuery_post_init q = None" "GraphSnapshot_post_init s = None" "projection_for q d = Inr (s, projection s)"
    "node_keys (projection s) = map asset_key (gs_assets s)" "gp_assets (projection s) = gs_assets s"
    "gp_relationships (projection s) = gs_relationships s"
  using assms revision_valid by (auto simp: asks_for_def projection_for_Inr node_keys_def projection_def)

definition near :: "graph_snapshot \<Rightarrow> string \<Rightarrow> nat \<Rightarrow> string set" where
  "near s u n = {v. walk (map asset_key (gs_assets s)) (edge_keys (gs_relationships s)) n u v}"

lemma near_known: "near s u n \<subseteq> asset_key ` set (gs_assets s)"
  using walk_nodes by (fastforce simp: near_def)

lemma plain_labels:
  "plain_label ''neighborhood''" "plain_label ''electrical path''" "plain_label ''area/zone assets''"
  "plain_label ''outage/change impact''"
  by code_simp+

definition energized_nodes :: "graph_snapshot \<Rightarrow> string list" where
  "energized_nodes s = filter (energized_key (projection s)) (map asset_key (gs_assets s))"

definition energized_edges :: "graph_snapshot \<Rightarrow> (string \<times> string) list" where
  "energized_edges s = edge_keys (energized_relationships (projection s))"

lemma energized_known: "set (energized_nodes s) \<subseteq> asset_key ` set (gs_assets s)"
  by (auto simp: energized_nodes_def)

context graph_search begin

lemma neighborhood_near:
  assumes "asks_for (nq_query q) d s" "pi_value (nq_center_identity q) \<in> asset_key ` set (gs_assets s)"
  obtains x where "neighborhood reach q d = Inr x"
    "answers (nq_query q) s (near s (pi_value (nq_center_identity q)) (nat (nq_hops q)))
       (inner_relationships s (near s (pi_value (nq_center_identity q)) (nat (nq_hops q)))) x"
proof -
  note ask = asks_forD [OF assms(1)]
  let ?ids = "sort (reach (map asset_key (gs_assets s)) (edge_keys (gs_relationships s))
    (pi_value (nq_center_identity q)) (nat (nq_hops q)))"
  have ids: "set ?ids = near s (pi_value (nq_center_identity q)) (nat (nq_hops q))" "distinct ?ids"
    using assms(2) by (simp_all add: near_def reach_nodes reach_distinct)
  then have "set ?ids \<subseteq> asset_key ` set (gs_assets s)" using near_known by simp
  then obtain x where x: "graph_result (nq_query q) s ?ids (relationships_for_nodes (projection s) ?ids) ''neighborhood'' = Inr x"
    "answers (nq_query q) s (set ?ids) (inner_relationships s (set ?ids)) x"
    by (rule graph_result_nodes [OF ask(2) ask(1) ids(2) _ plain_labels(1)])
  show thesis using x assms(2) unfolding ids(1)
    by (intro that [of x]) (simp_all add: neighborhood_def ask require_node_def require_def Let_def)
qed

lemma impact_near:
  assumes "asks_for (iq_query q) d s" "pi_value (iq_changed_identity q) \<in> asset_key ` set (gs_assets s)"
  obtains x where "impact reach q d = Inr x"
    "answers (iq_query q) s (near s (pi_value (iq_changed_identity q)) (nat (iq_hops q)) - {pi_value (iq_changed_identity q)})
       (inner_relationships s (near s (pi_value (iq_changed_identity q)) (nat (iq_hops q)) - {pi_value (iq_changed_identity q)})) x"
proof -
  note ask = asks_forD [OF assms(1)]
  let ?c = "pi_value (iq_changed_identity q)"
  let ?ids = "sort (filter (\<lambda>i. i \<noteq> ?c \<and> i \<in> set (map asset_key (gs_assets s)) - {?c})
    (reach (map asset_key (gs_assets s)) (edge_keys (gs_relationships s)) ?c (nat (iq_hops q))))"
  have "?c \<in> set (map asset_key (gs_assets s))" using assms(2) by simp
  note reached = reach_nodes [OF this, of "edge_keys (gs_relationships s)" "nat (iq_hops q)", folded near_def]
    and unique = reach_distinct [OF this, of "edge_keys (gs_relationships s)" "nat (iq_hops q)"]
  have ids: "set ?ids = near s ?c (nat (iq_hops q)) - {?c}"
    using near_known [of s ?c "nat (iq_hops q)"] unfolding set_sort set_filter set_map reached by blast
  have "distinct ?ids" using unique by simp
  note ids = ids this
  then have "set ?ids \<subseteq> asset_key ` set (gs_assets s)" using near_known by auto
  then obtain x where x: "graph_result (iq_query q) s ?ids (relationships_for_nodes (projection s) ?ids) ''outage/change impact'' = Inr x"
    "answers (iq_query q) s (set ?ids) (inner_relationships s (set ?ids)) x"
    by (rule graph_result_nodes [OF ask(2) ask(1) ids(2) _ plain_labels(4)])
  have "require_node (projection s) ?c = None" using assms(2) unfolding require_node_def require_def ask(4) by simp
  then have "impact reach q d = graph_result (iq_query q) s ?ids (relationships_for_nodes (projection s) ?ids) ''outage/change impact''"
    by (simp only: impact_def ask(3-6) Let_def attempt_simps checked_simps prod.case)
  with x show thesis unfolding ids(1) by (intro that [of x]) simp_all
qed

lemma electrical_path_route:
  assumes "asks_for (eq_query q) d s" "{pi_value (eq_source_identity q), pi_value (eq_target_identity q)} \<subseteq> asset_key ` set (gs_assets s)"
    and "route (energized_nodes s) (energized_edges s) (pi_value (eq_source_identity q)) (pi_value (eq_target_identity q)) = NxPath p"
  obtains x where "electrical_path route q d = Inr x" "answers (eq_query q) s (set p) (inner_relationships s (set p)) x"
proof -
  note ask = asks_forD [OF assms(1)]
  have p: "distinct p" "set p \<subseteq> asset_key ` set (gs_assets s)"
    using conjunct1 [OF route_found [OF assms(3)]] energized_known [of s] unfolding route_between_def by blast+
  from p(2) obtain x where x: "graph_result (eq_query q) s p (relationships_for_nodes (projection s) p) ''electrical path'' = Inr x"
    "answers (eq_query q) s (set p) (inner_relationships s (set p)) x"
    by (rule graph_result_nodes [OF ask(2) ask(1) p(1) _ plain_labels(2)])
  show thesis using x assms(2,3)
    by (intro that [of x]) (simp_all add: electrical_path_def ask require_node_def require_def Let_def energized_nodes_def
        energized_edges_def first_error.simps)
qed

lemma electrical_path_none:
  assumes "asks_for (eq_query q) d s" "{pi_value (eq_source_identity q), pi_value (eq_target_identity q)} \<subseteq> asset_key ` set (gs_assets s)"
  shows "route (energized_nodes s) (energized_edges s) (pi_value (eq_source_identity q)) (pi_value (eq_target_identity q)) = NxNoPath
      \<Longrightarrow> electrical_path route q d = Inl (GraphQueryError ''no in-service electrical path exists'')"
    "route (energized_nodes s) (energized_edges s) (pi_value (eq_source_identity q)) (pi_value (eq_target_identity q)) = NxNodeNotFound
      \<Longrightarrow> electrical_path route q d = Inl NodeNotFound"
proof -
  note ask = asks_forD [OF assms(1)]
  show "route (energized_nodes s) (energized_edges s) (pi_value (eq_source_identity q)) (pi_value (eq_target_identity q)) = NxNoPath
      \<Longrightarrow> electrical_path route q d = Inl (GraphQueryError ''no in-service electrical path exists'')"
    "route (energized_nodes s) (energized_edges s) (pi_value (eq_source_identity q)) (pi_value (eq_target_identity q)) = NxNodeNotFound
      \<Longrightarrow> electrical_path route q d = Inl NodeNotFound"
    using assms(2) by (simp_all add: electrical_path_def ask require_node_def require_def Let_def energized_nodes_def
        energized_edges_def first_error.simps)
qed

end

lemma area_answer:
  assumes "asks_for (az_query q) d s"
    and A: "A = asset_key ` {a \<in> set (gs_assets s). az_area_identity q \<noteq> None \<and> ga_area_identity a = az_area_identity q
           \<or> az_zone_key q \<noteq> None \<and> ga_zone_key a = az_zone_key q}"
  obtains x where "assets_in_area_or_zone q d = Inr x" "answers (az_query q) s A (inner_relationships s A) x"
proof -
  note ask = asks_forD [OF assms(1)]
  let ?ids = "sort (map asset_key (filter (\<lambda>a. (az_area_identity q \<noteq> None \<and> ga_area_identity a = az_area_identity q)
           \<or> (az_zone_key q \<noteq> None \<and> ga_zone_key a = az_zone_key q)) (gs_assets s)))"
  have ids: "set ?ids = A" unfolding A by simp
  have unique: "distinct ?ids" using GraphSnapshot_okD(2) [OF ask(2)] by (simp add: distinct_map_filter)
  have "set ?ids \<subseteq> asset_key ` set (gs_assets s)" unfolding ids A by blast
  then obtain x where x: "graph_result (az_query q) s ?ids (relationships_for_nodes (projection s) ?ids) ''area/zone assets'' = Inr x"
    "answers (az_query q) s (set ?ids) (inner_relationships s (set ?ids)) x"
    by (rule graph_result_nodes [OF ask(2) ask(1) unique _ plain_labels(3)])
  have "assets_in_area_or_zone q d = graph_result (az_query q) s ?ids (relationships_for_nodes (projection s) ?ids) ''area/zone assets''"
    by (simp only: assets_in_area_or_zone_def ask(3,5) Let_def attempt_simps prod.case)
  with x show thesis unfolding ids by (intro that [of x]) simp_all
qed

end
