(* ===== verification/Asset_Samples.thy ===== *)
theory Asset_Samples
  imports Encodings Samples
begin

text \<open>Concrete locators, product identities and asset references for the witnesses.\<close>

definition sample_locator :: "nat \<Rightarrow> powerfactory_locator" where
  "sample_locator n = \<lparr>pl_locator_version_id = sample_uuid (500 + n), pl_locator_kind = CANONICAL_PATH_FALLBACK,
     pl_project_provenance = \<lparr>pp_installation_id = ''i'', pp_profile_id = ''p'', pp_project_key = ''k'',
       pp_project_evidence = ''e''\<rparr>, pl_object_class = ''ElmTerm'', pl_native_field = None, pl_native_value = None,
     pl_canonical_path = Some ''x'', pl_evidence_schema = \<lparr>les_name = ''s'', les_version = ''1'',
       les_gateway_adapter_version = ''1''\<rparr>, pl_observed_at = sample_time 0 0, pl_session_id = sample_uuid 400,
     pl_trust = FALLBACK, pl_native_evidence_accepted = False\<rparr>"

definition sample_product :: "nat \<Rightarrow> product_identity" where
  "sample_product n = ProductIdentity (sample_uuid (100 + n))"

definition sample_asset :: "nat \<Rightarrow> asset_reference" where
  "sample_asset n = \<lparr>ar_product_identity = sample_product n, ar_locator = sample_locator n,
     ar_display_name = ''a'', ar_asset_kind = TERMINAL, ar_project_key = ''k'', ar_lifecycle_state = ACTIVE\<rparr>"

end
