(* ===== verification/Graph_Samples.thy ===== *)
theory Graph_Samples
  imports Graph_Answers Asset_Samples
begin

text \<open>Concrete assets, relationships and extractions for the witnesses.\<close>

definition plain_node :: "nat \<Rightarrow> graph_asset" where
  "plain_node n = \<lparr>ga_asset = sample_asset n, ga_area_identity = None, ga_zone_key = None, ga_in_service = True,
     ga_is_switch = False, ga_switch_closed = None, ga_transformer_winding_count = 0\<rparr>"

definition switch_node :: "nat \<Rightarrow> bool \<Rightarrow> graph_asset" where
  "switch_node n shut = (plain_node n)\<lparr>ga_is_switch := True, ga_switch_closed := Some shut\<rparr>"

definition sample_edge :: "nat \<Rightarrow> nat \<Rightarrow> nat \<Rightarrow> bool \<Rightarrow> graph_relationship" where
  "sample_edge i u v on = \<lparr>gr_relationship_id = ''r'' @ nat_str i, gr_source_identity = sample_product u,
     gr_target_identity = sample_product v, gr_kind = CONNECTS, gr_origin = EXTRACTED, gr_in_service = on\<rparr>"

definition sample_context :: "nat list \<Rightarrow> int \<Rightarrow> datetime \<Rightarrow> model_context" where
  "sample_context assets n t = \<lparr>mc_model_context_id = sample_uuid 1, mc_configuration_key = sample_key,
     mc_powerfactory_version = ''2026'', mc_assets = map sample_asset assets,
     mc_extraction_revision = \<lparr>scope_id = sample_uuid 1, counter = n\<rparr>, mc_extracted_at = t,
     mc_freshness = \<lparr>fe_level = CACHED, fe_observed_at = sample_time 0 0, fe_session_id = sample_uuid 400,
       fe_configuration_key = sample_key, fe_dependency_set = sample_name, fe_evidence_reference = ''e'',
       fe_policy_name = ''p'', fe_policy_version = ''1'', fe_operation_active = False\<rparr>,
     mc_dependency_fingerprints = []\<rparr>"

definition sample_snapshot :: "nat \<Rightarrow> nat list \<Rightarrow> int \<Rightarrow> datetime \<Rightarrow> graph_asset list \<Rightarrow> graph_relationship list \<Rightarrow> graph_snapshot" where
  "sample_snapshot run ns n t assets rels = \<lparr>gs_run_id = sample_uuid (600 + run), gs_context = sample_context ns n t,
     gs_extraction_fingerprint = sample_scope, gs_assets = assets, gs_attributes = [],
     gs_relationships = rels, gs_provenance = []\<rparr>"

definition line_snapshot :: graph_snapshot where
  "line_snapshot = sample_snapshot 1 [1, 2, 3] 1 (sample_time 0 0) [plain_node 1, plain_node 2, plain_node 3]
     [sample_edge 1 1 2 True, sample_edge 2 2 3 True]"

definition line_db :: graph_db where
  "line_db = snd (graph_write FullExtraction line_snapshot empty_graph_db)"

lemma line_snapshot_ok: "GraphSnapshot_post_init line_snapshot = None \<and> fits line_snapshot"
  by code_simp

lemma line_write: "fst (graph_write FullExtraction line_snapshot empty_graph_db) = Inr ()"
  by code_simp

lemma line_insert: "graph_insert FullExtraction line_snapshot empty_graph_db = (Inr (), line_db)"
  using line_write line_snapshot_ok by (simp add: line_db_def graph_insert_fits prod_eq_iff)

lemma line_db:
  "graph_step empty_graph_db (RecordFull line_snapshot) = line_db" "graph_inv line_db"
  "graph_revision (sample_uuid 1) 1 line_db = Inr line_snapshot"
  "graph_extraction_runs line_db = [run_of FullExtraction line_snapshot]"
  "graph_contexts line_db = [context_of line_snapshot]"
proof -
  show step: "graph_step empty_graph_db (RecordFull line_snapshot) = line_db"
    using line_snapshot_ok by (simp add: record_full_def line_insert)
  note rec = graph_insert_recorded [OF empty_graph_inv _ line_insert]
  show "graph_inv line_db" "graph_revision (sample_uuid 1) 1 line_db = Inr line_snapshot"
    using rec(1,3) line_snapshot_ok
    by (simp_all add: line_snapshot_def sample_snapshot_def sample_context_def)
  have "adds_run FullExtraction line_snapshot empty_graph_db line_db"
    by (cases rule: graph_insert_cases [of FullExtraction line_snapshot empty_graph_db]) (use line_insert in auto)
  note eq = conjunct1 [OF this [unfolded adds_run_def]]
  show "graph_extraction_runs line_db = [run_of FullExtraction line_snapshot]"
    by (subst eq) (simp add: empty_graph_db_def)
  show "graph_contexts line_db = [context_of line_snapshot]"
    by (subst eq) (simp add: empty_graph_db_def upsert_def)
qed

text \<open>A second revision with a fractional instant in the same second, in which the third
  terminal has been taken off; and a refresh of the first one.\<close>

definition moved_snapshot :: graph_snapshot where
  "moved_snapshot = sample_snapshot 2 [1, 2, 3] 2 (sample_time 0 500000) [plain_node 1, plain_node 2, plain_node 3]
     [sample_edge 1 1 2 True]"

definition line_refresh :: graph_incremental_refresh where
  "line_refresh = \<lparr>gi_run_id = sample_uuid 603, gi_context = sample_context [1, 2, 3] 3 (sample_time 1 0),
     gi_extraction_fingerprint = sample_scope, gi_changed_assets = [switch_node 3 False], gi_changed_attributes = [],
     gi_changed_relationships = [], gi_removed_relationship_ids = [''r2''], gi_provenance = []\<rparr>"

definition line_refreshed :: graph_snapshot where
  "line_refreshed = merged_snapshot line_refresh line_snapshot"

lemma line_refresh_ok: "GraphIncrementalRefresh_post_init line_refresh = None"
  by code_simp

lemma line_refreshed_ok: "GraphSnapshot_post_init line_refreshed = None \<and> fits line_refreshed"
  by code_simp

lemma line_latest: "graph_latest (Some (sample_uuid 1)) None line_db = Inr line_snapshot"
  by (simp add: graph_latest_def line_db(4,5) run_of_def context_of_def line_snapshot_def sample_snapshot_def
      sample_context_def)

lemma line_refresh_write: "fst (graph_write IncrementalExtraction line_refreshed line_db) = Inr ()"
  by code_simp

lemma line_refresh_sources:
  "mc_model_context_id (gi_context line_refresh) = sample_uuid 1"
  "mc_configuration_key (gs_context line_snapshot) = mc_configuration_key (gi_context line_refresh)"
  "counter (mc_extraction_revision (gs_context line_snapshot)) < counter (mc_extraction_revision (gi_context line_refresh))"
  by (simp_all add: line_refresh_def line_snapshot_def sample_snapshot_def sample_context_def)

lemma line_refresh_keys: "map asset_key (merged_assets line_refresh line_snapshot) = context_keys (gi_context line_refresh)"
  by code_simp

lemma line_refresh_recorded:
  "record_incremental line_refresh line_db = (Inr line_refreshed, snd (graph_write IncrementalExtraction line_refreshed line_db))"
proof -
  have "incremental_snapshot line_refresh line_db = Inr line_refreshed"
    unfolding incremental_snapshot_def line_refresh_sources(1) line_latest attempt_simps line_refresh_keys
    using line_refreshed_ok line_refresh_sources(2,3)
    by (simp add: build_record_def flip: line_refreshed_def)
  then show ?thesis using line_refresh_write line_refreshed_ok
    by (simp add: record_incremental_def graph_insert_fits Let_def case_prod_unfold)
qed

end
