(* ===== verification/Graph_Properties.thy ===== *)
theory Graph_Properties
  imports Graph_Samples
begin

text \<open>
  The properties of the recorded extractions and of the queries over them, with their
  witnesses on a line of three terminals.
\<close>

section \<open>Recording\<close>

text \<open>C34: after any sequence of complete and incremental recordings every stored run
  satisfies the checks of its snapshot's constructor, its row agrees with the snapshot, its
  context is stored, no attribute is listed twice, and its counter fits the column.\<close>

theorem recorded_extractions_are_well_formed:
  "list_all (\<lambda>r. GraphSnapshot_post_init (gn_snapshot r) = None \<and> r = run_of (gn_mode r) (gn_snapshot r)
      \<and> has_key gc_model_context_id (gn_model_context_id r) (graph_contexts (run_ops graph_step empty_graph_db cs))
      \<and> unique_key attribute_key (gs_attributes (gn_snapshot r)) \<and> sqlite_int (gn_extraction_counter r))
    (graph_extraction_runs (run_ops graph_step empty_graph_db cs))"
  using graph_after_inv [of cs] unfolding graph_inv_def run_consistent_def list_all_iff by blast

text \<open>C29: a recorded revision is immutable: whatever is recorded later, asking for its
  context and counter returns the same snapshot, and the normalised asset, attribute,
  relationship and provenance rows of its run are exactly those of the snapshot.\<close>

theorem recorded_revision_is_immutable:
  assumes "graph_revision c n (run_ops graph_step empty_graph_db cs) = Inr s"
    and later: "d = run_ops graph_step empty_graph_db (cs @ cs')"
  shows "graph_revision c n d = Inr s
    \<and> filter (\<lambda>x. fst (fst x) = gs_run_id s) (graph_asset_rows d) = asset_rows_of s
    \<and> filter (\<lambda>x. fst (fst x) = gs_run_id s) (graph_attribute_rows d) = attribute_rows_of s
    \<and> filter (\<lambda>x. fst (fst x) = gs_run_id s) (graph_relationship_rows d) = relationship_rows_of s
    \<and> filter (\<lambda>x. fst (fst x) = gs_run_id s) (graph_provenance_rows d) = provenance_rows_of s"
proof -
  note inv = graph_after_inv [of cs] graph_after_inv [of "cs @ cs'", folded later]
  have "prefix (graph_extraction_runs (graph_after cs)) (graph_extraction_runs d)"
    unfolding later run_ops_append by (rule graph_runs_log.run_log_prefix [OF inv(1)])
  then have "set (graph_extraction_runs (graph_after cs)) \<subseteq> set (graph_extraction_runs d)"
    by (rule set_mono_prefix)
  from graph_revision_keeps [OF inv this assms(1)] have s: "graph_revision c n d = Inr s" .
  with inv(2) obtain r where r: "r \<in> set (graph_extraction_runs d)" "gn_snapshot r = s" by (rule graph_revision_InrD)
  then have "gn_run_id r = gs_run_id s" using run_consistentD(1) [OF graph_inv_run [OF inv(2) r(1)]] by simp
  with s graph_rows_of_run [OF inv(2) r(1)] r(2) show ?thesis by simp
qed

lemma recorded_revision_is_immutable_witness:
  "graph_revision (sample_uuid 1) 1 (run_ops graph_step empty_graph_db ([RecordFull line_snapshot]
     @ [RecordFull moved_snapshot])) = Inr line_snapshot"
proof (rule conjunct1 [OF recorded_revision_is_immutable [OF _ refl]])
  show "graph_revision (sample_uuid 1) 1 (run_ops graph_step empty_graph_db [RecordFull line_snapshot]) = Inr line_snapshot"
    unfolding run_ops.simps line_db(1) by (rule line_db(3))
qed

text \<open>The stored snapshots of a context, and what makes one the newest of them by some
  measure of time, the extraction counter deciding between equal times.\<close>

definition context_snapshots :: "string \<Rightarrow> graph_db \<Rightarrow> graph_snapshot list" where
  "context_snapshots c d = map gn_snapshot (filter (\<lambda>r. gn_model_context_id r = c) (graph_extraction_runs d))"

definition extracted_at :: "graph_snapshot \<Rightarrow> datetime" where
  "extracted_at s = mc_extracted_at (gs_context s)"

definition newest_by :: "(datetime \<Rightarrow> 'a::linorder) \<Rightarrow> graph_snapshot \<Rightarrow> graph_snapshot list \<Rightarrow> bool" where
  "newest_by time s xs \<longleftrightarrow> s \<in> set xs \<and> list_all (\<lambda>x. time (extracted_at x) < time (extracted_at s)
     \<or> time (extracted_at x) = time (extracted_at s)
       \<and> counter (mc_extraction_revision (gs_context x)) \<le> counter (mc_extraction_revision (gs_context s))) xs"

definition fractions_alike :: "graph_snapshot list \<Rightarrow> bool" where
  "fractions_alike xs \<longleftrightarrow> list_all (\<lambda>x. dt_valid (extracted_at x)) xs
     \<and> (list_all (\<lambda>x. dt_micro (extracted_at x) = 0) xs \<or> list_all (\<lambda>x. dt_micro (extracted_at x) \<noteq> 0) xs)"

lemma newest_run_None: "newest_run rs = None \<longleftrightarrow> rs = []"
  by (cases rs) (auto split: option.splits)

lemma newest_run_last: "newest_run rs = Some r \<Longrightarrow> x \<in> set rs \<Longrightarrow> \<not> run_precedes r x"
proof (induction rs arbitrary: r)
  case (Cons a rs)
  have trans: "\<not> run_precedes b c \<Longrightarrow> run_precedes b a \<Longrightarrow> \<not> run_precedes a c"
    "\<not> run_precedes b c \<Longrightarrow> \<not> run_precedes a b \<Longrightarrow> \<not> run_precedes a c" for b c
    by (auto simp: run_precedes_def not_less)
  have irrefl: "\<not> run_precedes a a" by (simp add: run_precedes_def)
  show ?case
  proof (cases "newest_run rs")
    case None
    with Cons.prems irrefl newest_run_None [of rs] show ?thesis by simp
  next
    case (Some b)
    have asym: "run_precedes a b \<Longrightarrow> \<not> run_precedes b a" by (auto simp: run_precedes_def)
    from Cons.prems Some Cons.IH [OF Some] irrefl asym trans show ?thesis by (auto split: if_splits)
  qed
qed simp

lemma graph_latest_newest:
  assumes "graph_inv d" "graph_latest (Some c) None d = Inr s"
  shows "newest_by encode_utc_timestamp s (context_snapshots c d)"
proof -
  let ?rows = "filter (\<lambda>r. gn_model_context_id r = c) (graph_extraction_runs d)"
  have rows: "filter (\<lambda>r. has_key gc_model_context_id (gn_model_context_id r) (graph_contexts d)
      \<and> gn_model_context_id r = c) (graph_extraction_runs d) = ?rows"
    using assms(1) by (intro filter_cong) (auto simp: graph_inv_def)
  from assms(2) obtain r where r: "newest_run ?rows = Some r" "gn_snapshot r = s"
    unfolding graph_latest_def Let_def option.case rows by (auto split: option.splits if_splits)
  have run: "run_consistent x" if "x \<in> set ?rows" for x using that by (auto intro: graph_inv_run [OF assms(1)])
  have "x \<in> set ?rows \<Longrightarrow> encode_utc_timestamp (extracted_at (gn_snapshot x)) < encode_utc_timestamp (extracted_at s)
     \<or> encode_utc_timestamp (extracted_at (gn_snapshot x)) = encode_utc_timestamp (extracted_at s)
       \<and> counter (mc_extraction_revision (gs_context (gn_snapshot x))) \<le> counter (mc_extraction_revision (gs_context s))" for x
    using newest_run_last [OF r(1), of x] run_consistentD(3,4) [OF run, of x]
      run_consistentD(3,4) [OF run [OF newest_run_member [OF r(1)]]] r(2)
    by (auto simp: run_precedes_def extracted_at_def not_less)
  then show ?thesis
    using newest_run_member [OF r(1)] r(2) by (auto simp: newest_by_def context_snapshots_def list_all_iff)
qed

lemma newest_by_time:
  assumes "newest_by encode_utc_timestamp s xs" "fractions_alike xs"
  shows "newest_by (\<lambda>t. t) s xs"
proof -
  have s: "s \<in> set xs" using assms(1) by (simp add: newest_by_def)
  have le: "encode_utc_timestamp (extracted_at x) \<le> encode_utc_timestamp (extracted_at y) \<longleftrightarrow> extracted_at x \<le> extracted_at y"
    if "x \<in> set xs" "y \<in> set xs" for x y
    using that assms(2) by (intro encode_utc_timestamp_le_iff) (auto simp: fractions_alike_def list_all_iff)
  show ?thesis
    using assms(1) le s unfolding newest_by_def list_all_iff
    by (metis (no_types, lifting) less_le_not_le order.antisym order.refl)
qed

text \<open>C30: an incremental refresh that succeeds starts from the snapshot the store calls the
  latest of the context, with the same configuration key and a smaller counter: of the
  context's stored snapshots the last by the text of its extraction time, the larger counter
  deciding between equal texts.  Where the extraction times of the context all carry a
  fraction of a second, or none does, that is the snapshot extracted last; otherwise it
  need not be.  The refresh records the snapshot that has every changed asset, attribute and
  relationship, no removed relationship, no old attribute of a changed asset, and everything
  else as the prior snapshot has it.\<close>

theorem incremental_refresh_merges:
  assumes "graph_inv d" "GraphIncrementalRefresh_post_init f = None" "record_incremental f d = (Inr s, d')"
    and stored: "old = context_snapshots (mc_model_context_id (gi_context f)) d"
  shows "\<exists>prior. newest_by encode_utc_timestamp prior old
    \<and> (fractions_alike old \<longrightarrow> newest_by (\<lambda>t. t) prior old)
    \<and> mc_configuration_key (gs_context prior) = mc_configuration_key (gi_context f)
    \<and> counter (mc_extraction_revision (gs_context prior)) < counter (mc_extraction_revision (gi_context f))
    \<and> gs_context s = gi_context f
    \<and> (\<forall>k. lookup_row asset_key k (gs_assets s) =
        (case lookup_row asset_key k (gi_changed_assets f) of Some a \<Rightarrow> Some a
         | None \<Rightarrow> lookup_row asset_key k (gs_assets prior)))
    \<and> (\<forall>k. lookup_row attribute_key k (gs_attributes s) =
        (case lookup_row attribute_key k (rev (gi_changed_attributes f)) of Some t \<Rightarrow> Some t
         | None \<Rightarrow> if fst k \<in> asset_key ` set (gi_changed_assets f) then None
            else lookup_row attribute_key k (gs_attributes prior)))
    \<and> (\<forall>k. lookup_row gr_relationship_id k (gs_relationships s) =
        (case lookup_row gr_relationship_id k (rev (gi_changed_relationships f)) of Some r \<Rightarrow> Some r
         | None \<Rightarrow> if k \<in> set (gi_removed_relationship_ids f) then None
            else lookup_row gr_relationship_id k (gs_relationships prior)))
    \<and> graph_latest (Some (mc_model_context_id (gi_context f))) None d = Inr prior
    \<and> graph_revision (mc_model_context_id (gi_context f)) (counter (mc_extraction_revision (gi_context f))) d' = Inr s"
proof -
  from assms(3) obtain u where inc: "incremental_snapshot f d = Inr s"
    and ins: "graph_insert IncrementalExtraction s d = (Inr u, d')"
    by (auto simp: record_incremental_def Let_def case_prod_unfold map_sum_def prod_eq_iff split: sum.splits)
  from inc obtain prior where prior: "graph_latest (Some (mc_model_context_id (gi_context f))) None d = Inr prior"
    "mc_configuration_key (gs_context prior) = mc_configuration_key (gi_context f)"
    "counter (mc_extraction_revision (gs_context prior)) < counter (mc_extraction_revision (gi_context f))"
    and s: "s = merged_snapshot f prior" and ok: "GraphSnapshot_post_init s = None"
    by (auto simp: incremental_snapshot_def attempt_Inr_iff build_record_Inr_iff split: if_splits)
  obtain r where r: "r \<in> set (graph_extraction_runs d)" "gn_snapshot r = prior"
    using graph_latest_InrD [OF prior(1)] by blast
  note run = run_consistentD [OF graph_inv_run [OF assms(1) r(1)], unfolded r(2)]
  note valid = GraphSnapshot_okD [OF run(5)]
  have "unique_key asset_key (gi_changed_assets f)"
    using assms(2) by (simp add: GraphIncrementalRefresh_post_init_def Let_def length_remdups_distinct unique_key_def)
  moreover have "unique_key asset_key (gs_assets prior)" "unique_key gr_relationship_id (gs_relationships prior)"
    using valid(2,5) by (simp_all add: unique_key_def)
  moreover have "gs_context s = gi_context f" by (simp add: s merged_snapshot_def)
  moreover have "graph_revision (mc_model_context_id (gs_context s)) (counter (mc_extraction_revision (gs_context s))) d' = Inr s"
    using graph_insert_recorded(3) [OF assms(1) ok] ins by simp
  moreover have "newest_by encode_utc_timestamp prior old" unfolding stored by (rule graph_latest_newest [OF assms(1) prior(1)])
  ultimately show ?thesis
    using prior run(7) newest_by_time by (intro exI [of _ prior]) (simp add: s merged_asset merged_attribute merged_relationship)
qed

text \<open>The witness: the second line of the sample is removed and a third terminal goes
  out of service.\<close>

lemma incremental_refresh_merges_witness:
  "map gr_relationship_id (gs_relationships line_refreshed) = [''r1''] \<and>
   (\<exists>prior. newest_by (\<lambda>t. t) prior [line_snapshot] \<and>
     lookup_row gr_relationship_id ''r1'' (gs_relationships line_refreshed)
       = lookup_row gr_relationship_id ''r1'' (gs_relationships prior))"
proof -
  have old: "[line_snapshot] = context_snapshots (mc_model_context_id (gi_context line_refresh)) line_db"
    by (simp add: context_snapshots_def line_db(4) line_refresh_sources(1) run_of_def line_snapshot_def
        sample_snapshot_def sample_context_def)
  have alike: "fractions_alike [line_snapshot]" by code_simp
  from incremental_refresh_merges [OF line_db(2) line_refresh_ok line_refresh_recorded old]
  obtain prior where "fractions_alike [line_snapshot] \<longrightarrow> newest_by (\<lambda>t. t) prior [line_snapshot]"
    "\<forall>k. lookup_row gr_relationship_id k (gs_relationships line_refreshed) =
        (case lookup_row gr_relationship_id k (rev (gi_changed_relationships line_refresh)) of Some r \<Rightarrow> Some r
         | None \<Rightarrow> if k \<in> set (gi_removed_relationship_ids line_refresh) then None
            else lookup_row gr_relationship_id k (gs_relationships prior))" by blast
  moreover have "map gr_relationship_id (gs_relationships line_refreshed) = [''r1'']" by code_simp
  ultimately show ?thesis using alike by (auto simp: line_refresh_def sample_context_def)
qed

section \<open>Queries\<close>

text \<open>C35: a neighborhood query on a recorded revision returns, for any search that reaches
  exactly the nodes within the hops, the references of all assets within that many
  relationships of the center and the relationships among them, in order and cut at the
  limit, with the number found; it fails only when the center is not in the extraction.\<close>

theorem neighborhood_answer:
  assumes "graph_search reach route" "asks_for (nq_query q) d s"
    and near: "A = near s (pi_value (nq_center_identity q)) (nat (nq_hops q))"
  shows "if pi_value (nq_center_identity q) \<in> asset_key ` set (gs_assets s)
    then \<exists>x. neighborhood reach q d = Inr x \<and> answers (nq_query q) s A (inner_relationships s A) x
    else neighborhood reach q d = Inl (GraphQueryError ''asset identity is not present in the extraction'')"
proof (cases "pi_value (nq_center_identity q) \<in> asset_key ` set (gs_assets s)")
  case True
  with graph_search.neighborhood_near [OF assms(1,2) True] show ?thesis unfolding near by metis
next
  case False
  with asks_forD [OF assms(2)] show ?thesis
    by (simp add: neighborhood_def require_node_def require_def Let_def)
qed

text \<open>An impact query returns what a neighborhood query around the changed asset would,
  without that asset and without the relationships to it.\<close>

theorem impact_answer:
  assumes "graph_search reach route" "asks_for (iq_query q) d s"
    and near: "A = near s (pi_value (iq_changed_identity q)) (nat (iq_hops q)) - {pi_value (iq_changed_identity q)}"
  shows "if pi_value (iq_changed_identity q) \<in> asset_key ` set (gs_assets s)
    then \<exists>x. impact reach q d = Inr x \<and> answers (iq_query q) s A (inner_relationships s A) x
    else impact reach q d = Inl (GraphQueryError ''asset identity is not present in the extraction'')"
proof (cases "pi_value (iq_changed_identity q) \<in> asset_key ` set (gs_assets s)")
  case True
  with graph_search.impact_near [OF assms(1,2) True] show ?thesis unfolding near by metis
next
  case False
  with asks_forD [OF assms(2)] show ?thesis
    by (simp add: impact_def require_node_def require_def Let_def)
qed

text \<open>C27: an electrical path query between two assets of a recorded revision goes through
  assets in service, closed switches and relationships in service only.  When both
  endpoints are such assets, it answers with the assets of a shortest path of that kind and
  with every recorded relationship among those assets, in service or not, in key order and
  cut at the limit, and fails with
  \<open>GraphQueryError\<close> when there is no such path.  When an endpoint is out of service or an open
  switch, the search library's \<open>NodeNotFound\<close> reaches the caller instead.\<close>

theorem electrical_path_answer:
  assumes "graph_search reach route" "asks_for (eq_query q) d s"
    and ends: "u = pi_value (eq_source_identity q)" "v = pi_value (eq_target_identity q)"
    and known: "{u, v} \<subseteq> asset_key ` set (gs_assets s)"
  shows "if {u, v} \<subseteq> set (energized_nodes s)
    then if \<exists>p. route_between (energized_nodes s) (energized_edges s) u v p
      then \<exists>p x. route_between (energized_nodes s) (energized_edges s) u v p
        \<and> (\<forall>p'. route_between (energized_nodes s) (energized_edges s) u v p' \<longrightarrow> length p \<le> length p')
        \<and> electrical_path route q d = Inr x \<and> answers (eq_query q) s (set p) (inner_relationships s (set p)) x
      else electrical_path route q d = Inl (GraphQueryError ''no in-service electrical path exists'')
    else electrical_path route q d = Inl NodeNotFound"
proof (cases "route (energized_nodes s) (energized_edges s) u v")
  case (NxPath p)
  have best: "route_between (energized_nodes s) (energized_edges s) u v p"
      "\<forall>p'. route_between (energized_nodes s) (energized_edges s) u v p' \<longrightarrow> length p \<le> length p'"
    using graph_search.route_found [OF assms(1) NxPath] by blast+
  have "{u, v} \<subseteq> set (energized_nodes s)"
    using graph_search.route_unknown [OF assms(1), of "energized_nodes s" "energized_edges s" u v] NxPath by simp
  moreover obtain x where "electrical_path route q d = Inr x" "answers (eq_query q) s (set p) (inner_relationships s (set p)) x"
    using graph_search.electrical_path_route [OF assms(1,2) known [unfolded ends] NxPath [unfolded ends]] .
  ultimately show ?thesis using best by auto
next
  case NxNoPath
  have none: "\<not> (\<exists>p. route_between (energized_nodes s) (energized_edges s) u v p)"
    using graph_search.route_absent [OF assms(1) NxNoPath] by blast
  have "{u, v} \<subseteq> set (energized_nodes s)"
    using graph_search.route_unknown [OF assms(1), of "energized_nodes s" "energized_edges s" u v] NxNoPath by simp
  with none graph_search.electrical_path_none(1) [OF assms(1,2) known [unfolded ends] NxNoPath [unfolded ends]]
  show ?thesis by simp
next
  case NxNodeNotFound
  have "\<not> {u, v} \<subseteq> set (energized_nodes s)"
    using graph_search.route_unknown [OF assms(1), of "energized_nodes s" "energized_edges s" u v] NxNodeNotFound by auto
  with graph_search.electrical_path_none(2) [OF assms(1,2) known [unfolded ends] NxNodeNotFound [unfolded ends]]
  show ?thesis by simp
qed

section \<open>Witnesses on the line of three terminals\<close>

definition sample_query :: "graph_query_kind \<Rightarrow> int \<Rightarrow> graph_query" where
  "sample_query k n = \<lparr>gq_kind = k, gq_model_context_id = sample_uuid 1,
     gq_extraction_revision = \<lparr>scope_id = sample_uuid 1, counter = 1\<rparr>, gq_limit = n\<rparr>"

lemma sample_query_valid:
  "GraphQuery_post_init (sample_query NEIGHBORHOOD 1) = None \<and> GraphQuery_post_init (sample_query ELECTRICAL_PATH 25) = None
    \<and> GraphQuery_post_init (sample_query IMPACT 25) = None"
  by code_simp

lemma sample_query_asks:
  "GraphQuery_post_init (sample_query k n) = None \<Longrightarrow> asks_for (sample_query k n) line_db line_snapshot"
  unfolding asks_for_def using line_db(2,3)
  by (simp add: sample_query_def line_snapshot_def sample_snapshot_def sample_context_def)

lemma line_facts:
  "map asset_key (gs_assets line_snapshot) = [sample_uuid 101, sample_uuid 102, sample_uuid 103]"
  "reach_bfs (map asset_key (gs_assets line_snapshot)) (edge_keys (gs_relationships line_snapshot)) (sample_uuid 101) 1
        = [sample_uuid 101, sample_uuid 102]"
  "energized_nodes line_snapshot = [sample_uuid 101, sample_uuid 102, sample_uuid 103]"
  "energized_edges line_snapshot = [(sample_uuid 101, sample_uuid 102), (sample_uuid 102, sample_uuid 103)]"
  "distinct [sample_uuid 101, sample_uuid 102, sample_uuid 103]"
  by code_simp+

lemma line_near: "near line_snapshot (sample_uuid 101) 1 = {sample_uuid 101, sample_uuid 102}"
proof -
  have "near line_snapshot (sample_uuid 101) 1 = set (reach_bfs (map asset_key (gs_assets line_snapshot))
      (edge_keys (gs_relationships line_snapshot)) (sample_uuid 101) 1)"
    unfolding near_def by (rule reach_bfs_walk [symmetric])
  also have "\<dots> = {sample_uuid 101, sample_uuid 102}" unfolding line_facts(2) by simp
  finally show ?thesis .
qed

lemma line_keys: "asset_key ` set (gs_assets line_snapshot) = {sample_uuid 101, sample_uuid 102, sample_uuid 103}"
  using arg_cong [OF line_facts(1), of set] by simp

lemma line_distinct: "sample_uuid 101 \<noteq> sample_uuid 102"
  using line_facts(5) by simp

lemma neighborhood_answer_witness:
  "\<exists>x. neighborhood reach_bfs \<lparr>nq_query = sample_query NEIGHBORHOOD 1, nq_center_identity = sample_product 1, nq_hops = 1\<rparr>
      line_db = Inr x \<and> gx_total_matches x = 2 \<and> gx_truncated x"
proof -
  let ?q = "\<lparr>nq_query = sample_query NEIGHBORHOOD 1, nq_center_identity = sample_product 1, nq_hops = 1\<rparr>"
  have center: "pi_value (nq_center_identity ?q) = sample_uuid 101" by (simp add: sample_product_def)
  have ask: "asks_for (nq_query ?q) line_db line_snapshot" using sample_query_asks sample_query_valid by simp
  from neighborhood_answer [OF bfs.graph_search_axioms ask refl, unfolded center] obtain x where
    x: "neighborhood reach_bfs ?q line_db = Inr x"
      "answers (nq_query ?q) line_snapshot (near line_snapshot (sample_uuid 101) (nat (nq_hops ?q)))
        (inner_relationships line_snapshot (near line_snapshot (sample_uuid 101) (nat (nq_hops ?q)))) x"
    using line_keys by (auto split: if_splits)
  have "near line_snapshot (sample_uuid 101) (nat (nq_hops ?q)) = {sample_uuid 101, sample_uuid 102}"
    using line_near by simp
  with x(2) have "gx_total_matches x = 2 \<and> gx_truncated x"
    using line_distinct by (simp add: answers_def sample_query_def)
  with x(1) show ?thesis by blast
qed

lemma impact_answer_witness:
  "\<exists>x. impact reach_bfs \<lparr>iq_query = sample_query IMPACT 25, iq_changed_identity = sample_product 1, iq_hops = 1\<rparr>
      line_db = Inr x \<and> gx_total_matches x = 1"
proof -
  let ?q = "\<lparr>iq_query = sample_query IMPACT 25, iq_changed_identity = sample_product 1, iq_hops = 1\<rparr>"
  have changed: "pi_value (iq_changed_identity ?q) = sample_uuid 101" by (simp add: sample_product_def)
  have ask: "asks_for (iq_query ?q) line_db line_snapshot" using sample_query_asks sample_query_valid by simp
  have "near line_snapshot (sample_uuid 101) (nat (iq_hops ?q)) - {sample_uuid 101} = {sample_uuid 102}"
    using line_near line_distinct by auto
  from impact_answer [OF bfs.graph_search_axioms ask refl, unfolded changed this] obtain x where
    "impact reach_bfs ?q line_db = Inr x"
    "answers (iq_query ?q) line_snapshot {sample_uuid 102} (inner_relationships line_snapshot {sample_uuid 102}) x"
    using line_keys by (auto split: if_splits)
  then show ?thesis by (auto simp: answers_def)
qed

lemma electrical_path_answer_witness:
  "\<exists>p x. electrical_path route_bfs \<lparr>eq_query = sample_query ELECTRICAL_PATH 25, eq_source_identity = sample_product 1,
      eq_target_identity = sample_product 3\<rparr> line_db = Inr x \<and> length p \<le> 3
      \<and> answers (sample_query ELECTRICAL_PATH 25) line_snapshot (set p) (inner_relationships line_snapshot (set p)) x"
proof -
  let ?q = "\<lparr>eq_query = sample_query ELECTRICAL_PATH 25, eq_source_identity = sample_product 1,
      eq_target_identity = sample_product 3\<rparr>"
  let ?p = "[sample_uuid 101, sample_uuid 102, sample_uuid 103]"
  have ends: "sample_uuid 101 = pi_value (eq_source_identity ?q)" "sample_uuid 103 = pi_value (eq_target_identity ?q)"
    by (simp_all add: sample_product_def)
  have ask: "asks_for (eq_query ?q) line_db line_snapshot" using sample_query_asks sample_query_valid by simp
  have route: "route_between (energized_nodes line_snapshot) (energized_edges line_snapshot) (sample_uuid 101) (sample_uuid 103) ?p"
    using line_facts(5) by (simp add: line_facts(3,4) route_between_def joined_def)
  have "{sample_uuid 101, sample_uuid 103} \<subseteq> set (energized_nodes line_snapshot)"
    "{sample_uuid 101, sample_uuid 103} \<subseteq> asset_key ` set (gs_assets line_snapshot)"
    by (simp_all add: line_facts(3) line_keys)
  with electrical_path_answer [OF bfs.graph_search_axioms ask ends] route obtain p x where
    "\<forall>p'. route_between (energized_nodes line_snapshot) (energized_edges line_snapshot) (sample_uuid 101) (sample_uuid 103) p'
        \<longrightarrow> length p \<le> length p'"
    "electrical_path route_bfs ?q line_db = Inr x"
    "answers (eq_query ?q) line_snapshot (set p) (inner_relationships line_snapshot (set p)) x" by (auto split: if_splits)
  moreover from this(1) route have "length p \<le> length ?p" by blast
  ultimately show ?thesis by (intro exI [of _ p] exI [of _ x]) simp
qed

end
