(* ===== verification/Graph_Order.thy ===== *)
theory Graph_Order
  imports Graph_Samples
begin

text \<open>
  Two behaviours of the model graph on concrete extractions: which snapshot counts as
  the latest, and which relationships an electrical path reports.
\<close>

section \<open>The latest snapshot\<close>

definition two_db :: graph_db where
  "two_db = snd (graph_write FullExtraction moved_snapshot line_db)"

lemma moved_snapshot_ok: "GraphSnapshot_post_init moved_snapshot = None \<and> fits moved_snapshot"
  by code_simp

lemma moved_write: "fst (graph_write FullExtraction moved_snapshot line_db) = Inr ()"
  by code_simp

lemma moved_insert: "graph_insert FullExtraction moved_snapshot line_db = (Inr (), two_db)"
  using moved_write moved_snapshot_ok by (simp add: two_db_def graph_insert_fits prod_eq_iff)

lemma two_db:
  "run_ops graph_step empty_graph_db [RecordFull line_snapshot, RecordFull moved_snapshot] = two_db"
  "graph_revision (sample_uuid 1) 2 two_db = Inr moved_snapshot"
  "graph_extraction_runs two_db = [run_of FullExtraction line_snapshot, run_of FullExtraction moved_snapshot]"
  "graph_contexts two_db = [context_of moved_snapshot]"
proof -
  have "graph_step line_db (RecordFull moved_snapshot) = two_db"
    using moved_snapshot_ok by (simp add: record_full_def moved_insert)
  then show "run_ops graph_step empty_graph_db [RecordFull line_snapshot, RecordFull moved_snapshot] = two_db"
    unfolding run_ops.simps line_db(1) .
  note rec = graph_insert_recorded [OF line_db(2) _ moved_insert]
  show "graph_revision (sample_uuid 1) 2 two_db = Inr moved_snapshot"
    using rec(3) moved_snapshot_ok by (simp add: moved_snapshot_def sample_snapshot_def sample_context_def)
  have "adds_run FullExtraction moved_snapshot line_db two_db"
    by (cases rule: graph_insert_cases [of FullExtraction moved_snapshot line_db]) (use moved_insert in auto)
  note eq = conjunct1 [OF this [unfolded adds_run_def]]
  show "graph_extraction_runs two_db = [run_of FullExtraction line_snapshot, run_of FullExtraction moved_snapshot]"
    by (subst eq) (simp add: line_db(4))
  have "gc_model_context_id (context_of moved_snapshot) = gc_model_context_id (context_of line_snapshot)"
    by (simp add: context_of_def line_snapshot_def moved_snapshot_def sample_snapshot_def sample_context_def)
  then show "graph_contexts two_db = [context_of moved_snapshot]"
    by (subst eq) (simp add: line_db(5) upsert_def update_where_def)
qed

lemma moved_precedes: "run_precedes (run_of FullExtraction moved_snapshot) (run_of FullExtraction line_snapshot)"
  by code_simp

text \<open>the latest snapshot of a context need not be its newest: runs are ordered by the
  text of their instant, and an instant with a fraction sorts before the whole second it
  lies in, so that after revision 1 of 10:00:00 and revision 2 of 10:00:00.5 the latest
  snapshot is revision 1, from which an incremental refresh would go on.\<close>

theorem latest_extraction_can_be_the_older_one:
  "let d = run_ops graph_step empty_graph_db [RecordFull line_snapshot, RecordFull moved_snapshot] in
    graph_revision (sample_uuid 1) 2 d = Inr moved_snapshot
    \<and> mc_extracted_at (gs_context line_snapshot) = Datetime 2026 1 2 10 0 0 0
    \<and> mc_extracted_at (gs_context moved_snapshot) = Datetime 2026 1 2 10 0 0 500000
    \<and> graph_latest (Some (sample_uuid 1)) None d = Inr line_snapshot"
proof -
  have "gn_model_context_id (run_of FullExtraction line_snapshot) = sample_uuid 1"
    "gn_model_context_id (run_of FullExtraction moved_snapshot) = sample_uuid 1"
    "gc_model_context_id (context_of moved_snapshot) = sample_uuid 1"
    "gn_snapshot (run_of FullExtraction line_snapshot) = line_snapshot"
    by (simp_all add: run_of_def context_of_def line_snapshot_def moved_snapshot_def sample_snapshot_def sample_context_def)
  moreover have "\<not> run_precedes (run_of FullExtraction line_snapshot) (run_of FullExtraction moved_snapshot)"
    using moved_precedes by (auto simp: run_precedes_def)
  ultimately have "graph_latest (Some (sample_uuid 1)) None two_db = Inr line_snapshot"
    by (simp add: graph_latest_def two_db(3,4))
  then show ?thesis using two_db(2) unfolding two_db(1) Let_def
    by (simp add: line_snapshot_def moved_snapshot_def sample_snapshot_def sample_context_def sample_time_def)
qed

section \<open>Relationships of an electrical path\<close>

text \<open>Two parallel relationships, one of them out of service.\<close>

definition parallel_snapshot :: graph_snapshot where
  "parallel_snapshot = sample_snapshot 1 [1, 2] 1 (sample_time 0 0) [plain_node 1, plain_node 2]
     [sample_edge 1 1 2 True, sample_edge 2 1 2 False]"

definition parallel_db :: graph_db where
  "parallel_db = snd (graph_write FullExtraction parallel_snapshot empty_graph_db)"

lemma parallel_snapshot_ok: "GraphSnapshot_post_init parallel_snapshot = None \<and> fits parallel_snapshot
    \<and> fst (graph_write FullExtraction parallel_snapshot empty_graph_db) = Inr ()"
  by code_simp

lemma parallel_insert: "graph_insert FullExtraction parallel_snapshot empty_graph_db = (Inr (), parallel_db)"
  using parallel_snapshot_ok by (simp add: parallel_db_def graph_insert_fits prod_eq_iff)

definition parallel_query :: electrical_path_query where
  "parallel_query = \<lparr>eq_query = \<lparr>gq_kind = ELECTRICAL_PATH, gq_model_context_id = sample_uuid 1,
       gq_extraction_revision = \<lparr>scope_id = sample_uuid 1, counter = 1\<rparr>, gq_limit = 25\<rparr>,
     eq_source_identity = sample_product 1, eq_target_identity = sample_product 2\<rparr>"

lemma parallel_query_ok: "GraphQuery_post_init (eq_query parallel_query) = None"
  by code_simp

lemma parallel_asks: "asks_for (eq_query parallel_query) parallel_db parallel_snapshot"
proof -
  note rec = graph_insert_recorded [OF empty_graph_inv _ parallel_insert]
  show ?thesis using rec(1,3) parallel_snapshot_ok parallel_query_ok
    by (simp add: asks_for_def parallel_query_def parallel_snapshot_def sample_snapshot_def sample_context_def)
qed

lemma parallel_facts:
  "map asset_key (gs_assets parallel_snapshot) = [sample_uuid 101, sample_uuid 102]"
  "route_bfs (energized_nodes parallel_snapshot) (energized_edges parallel_snapshot) (sample_uuid 101) (sample_uuid 102)
     = NxPath [sample_uuid 101, sample_uuid 102]"
  "map gr_relationship_id (filter (\<lambda>r. source_key r \<in> set [sample_uuid 101, sample_uuid 102]
     \<and> target_key r \<in> set [sample_uuid 101, sample_uuid 102]) (gs_relationships parallel_snapshot)) = [''r1'', ''r2'']"
  "take 25 (sorted_list_of_set (set [''r1'', ''r2''])) = [''r1'', ''r2'']"
  "map (\<lambda>r. (gr_relationship_id r, gr_in_service r)) (gs_relationships parallel_snapshot) = [(''r1'', True), (''r2'', False)]"
  by code_simp+

text \<open>An electrical path reports every relationship among its assets, also one that is
  out of service: between two terminals joined by a relationship in service and a parallel
  one out of service, both are reported.\<close>

theorem electrical_path_reports_out_of_service:
  "\<exists>x. electrical_path route_bfs parallel_query parallel_db = Inr x \<and> gx_relationship_ids x = [''r1'', ''r2'']
    \<and> projection_for (eq_query parallel_query) parallel_db = Inr (parallel_snapshot, projection parallel_snapshot)
    \<and> map (\<lambda>r. (gr_relationship_id r, gr_in_service r)) (gs_relationships parallel_snapshot) = [(''r1'', True), (''r2'', False)]"
proof -
  let ?p = "[sample_uuid 101, sample_uuid 102]"
  have ends: "pi_value (eq_source_identity parallel_query) = sample_uuid 101"
    "pi_value (eq_target_identity parallel_query) = sample_uuid 102"
    by (simp_all add: parallel_query_def sample_product_def)
  have "{sample_uuid 101, sample_uuid 102} \<subseteq> asset_key ` set (gs_assets parallel_snapshot)"
    using arg_cong [OF parallel_facts(1), of set] by simp
  then obtain x where x: "electrical_path route_bfs parallel_query parallel_db = Inr x"
    "answers (eq_query parallel_query) parallel_snapshot (set ?p) (inner_relationships parallel_snapshot (set ?p)) x"
    using bfs.electrical_path_route [OF parallel_asks, unfolded ends, OF _ parallel_facts(2)] by blast
  have "inner_relationships parallel_snapshot (set ?p) = set [''r1'', ''r2'']"
    using arg_cong [OF parallel_facts(3), of set] by (simp add: inner_relationships_def)
  with x(2) have "gx_relationship_ids x = take 25 (sorted_list_of_set (set [''r1'', ''r2'']))"
    by (simp add: answers_def view_def parallel_query_def)
  with x(1) asks_forD(3) [OF parallel_asks] show ?thesis by (simp only: parallel_facts(4,5) simp_thms ex_simps) blast
qed

end
