(* ===== verification/Identity_Store.thy ===== *)
theory Identity_Store
  imports Encodings
begin

text \<open>
  \<open>persistence/identity_store.py\<close> over migration 9 of \<open>persistence/database.py\<close>: product
  identities, their immutable locator versions, lifecycle events and tombstones.  The
  methods that change a lifecycle read the current binding first and write in a
  transaction of their own, so each is given here as its check, its write, and their
  composition.
\<close>

section \<open>Records\<close>

record identity_lifecycle_record =
  il_product_identity :: product_identity
  il_state :: identity_lifecycle_state
  il_observed_at :: datetime
  il_evidence_reference :: string

definition IdentityLifecycleRecord_post_init :: "identity_lifecycle_record \<Rightarrow> error option" where
  "IdentityLifecycleRecord_post_init r = first_error
     [require_aware (il_observed_at r) ''IdentityLifecycleRecord.observed_at'',
      require_text (il_evidence_reference r) ''IdentityLifecycleRecord.evidence_reference'']"

record locator_rebind =
  lr_product_identity :: product_identity
  lr_prior_locator :: powerfactory_locator
  lr_replacement_locator :: powerfactory_locator
  lr_accepted_native_equality_evidence :: bool
  lr_evidence_reference :: string

definition LocatorRebind_post_init :: "locator_rebind \<Rightarrow> error option" where
  "LocatorRebind_post_init r = first_error
     [require_text (lr_evidence_reference r) ''LocatorRebind.evidence_reference'',
      require (lr_accepted_native_equality_evidence r)
        (ValueError ''locator rebind requires accepted native equality evidence''),
      require (pl_object_class (lr_prior_locator r) = pl_object_class (lr_replacement_locator r))
        (ValueError ''locator rebind cannot change object class''),
      require (pl_project_provenance (lr_prior_locator r) = pl_project_provenance (lr_replacement_locator r))
        (ValueError ''locator rebind cannot change project provenance'')]"

record identity_tombstone =
  it_product_identity :: product_identity
  it_evidence_revision :: extraction_revision
  it_reason :: string
  it_tombstoned_at :: datetime
  it_complete_absence_evidence :: bool

definition IdentityTombstone_post_init :: "identity_tombstone \<Rightarrow> error option" where
  "IdentityTombstone_post_init t = first_error
     [require_text (it_reason t) ''IdentityTombstone.reason'',
      require_aware (it_tombstoned_at t) ''IdentityTombstone.tombstoned_at'',
      require (it_complete_absence_evidence t) (ValueError ''tombstoning requires complete absence evidence'')]"

record identity_binding =
  ib_product_identity :: product_identity
  ib_lifecycle_state :: identity_lifecycle_state
  ib_current_locator :: powerfactory_locator
  ib_first_evidence_reference :: string
  ib_last_evidence_reference :: string
  ib_created_at :: datetime
  ib_updated_at :: datetime

section \<open>Tables\<close>

record identity_product_row =
  ip_product_identity :: product_identity
  ip_installation_id :: string
  ip_profile_id :: string
  ip_project_key :: string
  ip_object_class :: string
  ip_lifecycle_state :: identity_lifecycle_state
  ip_current_locator_version_id :: string
  ip_first_evidence_reference :: string
  ip_last_evidence_reference :: string
  ip_created_at :: datetime
  ip_updated_at :: datetime

record identity_locator_row =
  ll_locator_version_id :: string
  ll_product_identity :: product_identity
  ll_locator_signature :: string
  ll_locator :: powerfactory_locator

record identity_db =
  identity_products :: "identity_product_row list"
  identity_locators :: "identity_locator_row list"
  identity_lifecycle_events :: "identity_lifecycle_record list"
  identity_tombstones :: "identity_tombstone list"

datatype identity_error =
    IdentityNotFoundError string | IdentityConflictError string | IdentityAmbiguousError string
  | IdentityDomainError error | IdentitySerializationError ser_error | IdentityIntegrityError string

type_synonym 'a identity_result = "identity_error + 'a"

section \<open>Signatures and evidence\<close>

text \<open>The digest of what a locator says about its object; \<open>sha\<close> is \<open>sha256(_).hexdigest()\<close>.\<close>

definition locator_signature :: "(string \<Rightarrow> string) \<Rightarrow> powerfactory_locator \<Rightarrow> string identity_result" where
  "locator_signature sha l = map_error IdentitySerializationError
     (canonical_digest sha ''locator-signature'' ''v1'' (let p = pl_project_provenance l; e = pl_evidence_schema l in PyMap
       [(Some ''installation_id'', PyStr (pp_installation_id p)), (Some ''profile_id'', PyStr (pp_profile_id p)),
        (Some ''project_key'', PyStr (pp_project_key p)), (Some ''object_class'', PyStr (pl_object_class l)),
        (Some ''locator_kind'', PyEnum (locator_kind_value (pl_locator_kind l))),
        (Some ''native_field'', py_optional PyStr (pl_native_field l)),
        (Some ''native_value'', py_optional PyStr (pl_native_value l)),
        (Some ''canonical_path'', py_optional PyStr (pl_canonical_path l)),
        (Some ''evidence_schema'', PyModel ''LocatorEvidenceSchema''
           [(''name'', PyStr (les_name e)), (''version'', PyStr (les_version e)),
            (''gateway_adapter_version'', PyStr (les_gateway_adapter_version e))])]))"

definition py_lifecycle_record :: "identity_lifecycle_record \<Rightarrow> py_value" where
  "py_lifecycle_record r = PyModel ''IdentityLifecycleRecord''
     [(''product_identity'', py_identity (il_product_identity r)),
      (''state'', PyEnum (identity_lifecycle_state_value (il_state r))),
      (''observed_at'', PyDatetime (il_observed_at r)), (''evidence_reference'', PyStr (il_evidence_reference r))]"

definition py_tombstone :: "identity_tombstone \<Rightarrow> py_value" where
  "py_tombstone t = PyModel ''IdentityTombstone''
     [(''product_identity'', py_identity (it_product_identity t)),
      (''evidence_revision'', PyModel ''ExtractionRevision''
         [(''scope_id'', PyStr (scope_id (it_evidence_revision t))), (''counter'', PyInt (counter (it_evidence_revision t)))]),
      (''reason'', PyStr (it_reason t)), (''tombstoned_at'', PyDatetime (it_tombstoned_at t)),
      (''complete_absence_evidence'', PyBool (it_complete_absence_evidence t))]"

definition encoded :: "py_value \<Rightarrow> string identity_result" where
  "encoded v = map_error IdentitySerializationError (canonical_json MAX_SERIALIZED_BYTES v)"

section \<open>Writers\<close>

definition insert_locator ::
  "(string \<Rightarrow> string) \<Rightarrow> product_identity \<Rightarrow> powerfactory_locator \<Rightarrow> identity_db \<Rightarrow> identity_db identity_result" where
  "insert_locator sha i l d =
     attempt (locator_signature sha l) (\<lambda>signature.
     attempt (encoded (py_locator l)) (\<lambda>_.
     if has_key ll_locator_version_id (pl_locator_version_id l) (identity_locators d)
     then Inl (IdentityIntegrityError ''identity_locators.locator_version_id'')
     else if \<not> has_key ip_product_identity i (identity_products d)
     then Inl (IdentityIntegrityError ''FOREIGN KEY'')
     else Inr (d\<lparr>identity_locators := identity_locators d @ [\<lparr>ll_locator_version_id = pl_locator_version_id l,
            ll_product_identity = i, ll_locator_signature = signature, ll_locator = l\<rparr>]\<rparr>)))"

definition insert_lifecycle :: "identity_lifecycle_record \<Rightarrow> identity_db \<Rightarrow> identity_db identity_result" where
  "insert_lifecycle r d =
     attempt (encoded (py_lifecycle_record r)) (\<lambda>_.
     if \<not> has_key ip_product_identity (il_product_identity r) (identity_products d)
     then Inl (IdentityIntegrityError ''FOREIGN KEY'')
     else Inr (d\<lparr>identity_lifecycle_events := identity_lifecycle_events d @ [r]\<rparr>))"

definition update_product ::
  "product_identity \<Rightarrow> (identity_product_row \<Rightarrow> identity_product_row) \<Rightarrow> identity_db \<Rightarrow> identity_db" where
  "update_product i f d = d\<lparr>identity_products :=
     update_where (\<lambda>r. ip_product_identity r = i) f (identity_products d)\<rparr>"

section \<open>Reading\<close>

definition identity_get :: "product_identity \<Rightarrow> identity_db \<Rightarrow> identity_binding identity_result" where
  "identity_get i d = (case lookup_row ip_product_identity i (identity_products d) of
      None \<Rightarrow> Inl (IdentityNotFoundError ''product identity was not found'')
    | Some r \<Rightarrow> (case lookup_row ll_locator_version_id (ip_current_locator_version_id r) (identity_locators d) of
          None \<Rightarrow> Inl (IdentityConflictError ''identity has no current locator evidence'')
        | Some l \<Rightarrow> Inr \<lparr>ib_product_identity = i, ib_lifecycle_state = ip_lifecycle_state r,
            ib_current_locator = ll_locator l, ib_first_evidence_reference = ip_first_evidence_reference r,
            ib_last_evidence_reference = ip_last_evidence_reference r, ib_created_at = ip_created_at r,
            ib_updated_at = ip_updated_at r\<rparr>))"

text \<open>The products of a locator signature, over the join of the two tables.\<close>

definition bound_products ::
  "(identity_lifecycle_state \<Rightarrow> bool) \<Rightarrow> string \<Rightarrow> identity_db \<Rightarrow> product_identity list" where
  "bound_products admitted signature d = map ip_product_identity (concat (map (\<lambda>l.
     filter (\<lambda>p. ip_product_identity p = ll_product_identity l \<and> admitted (ip_lifecycle_state p)) (identity_products d))
     (filter (\<lambda>l. ll_locator_signature l = signature) (identity_locators d))))"

definition resolve_exact ::
  "(string \<Rightarrow> string) \<Rightarrow> powerfactory_locator \<Rightarrow> identity_db \<Rightarrow> identity_binding identity_result" where
  "resolve_exact sha l d = attempt (locator_signature sha l) (\<lambda>signature.
     case remdups (bound_products (\<lambda>s. s = ACTIVE) signature d) of
       [] \<Rightarrow> Inl (IdentityNotFoundError ''exact active locator binding was not found'')
     | [i] \<Rightarrow> identity_get i d
     | _ \<Rightarrow> Inl (IdentityAmbiguousError ''exact locator evidence resolves to multiple product identities''))"

definition lifecycle :: "product_identity \<Rightarrow> identity_db \<Rightarrow> identity_lifecycle_record list" where
  "lifecycle i d = filter (\<lambda>r. il_product_identity r = i) (identity_lifecycle_events d)"

section \<open>Creating\<close>

definition new_product :: "product_identity \<Rightarrow> powerfactory_locator \<Rightarrow> string \<Rightarrow> identity_product_row" where
  "new_product i l ev = (let p = pl_project_provenance l in
     \<lparr>ip_product_identity = i, ip_installation_id = pp_installation_id p, ip_profile_id = pp_profile_id p,
      ip_project_key = pp_project_key p, ip_object_class = pl_object_class l, ip_lifecycle_state = ACTIVE,
      ip_current_locator_version_id = pl_locator_version_id l, ip_first_evidence_reference = ev,
      ip_last_evidence_reference = ev, ip_created_at = pl_observed_at l, ip_updated_at = pl_observed_at l\<rparr>)"

definition identity_create ::
  "(string \<Rightarrow> string) \<Rightarrow> string \<Rightarrow> powerfactory_locator \<Rightarrow> string \<Rightarrow> product_identity option \<Rightarrow> identity_db
     \<Rightarrow> identity_binding identity_result \<times> identity_db" where
  "identity_create sha fresh l ev given d0 =
     (case attempt (case given of Some i \<Rightarrow> Inr i
               | None \<Rightarrow> map_error IdentityDomainError (build_record ProductIdentity_post_init (ProductIdentity fresh))) (\<lambda>i.
            attempt (locator_signature sha l) (\<lambda>signature.
            attempt (map_error IdentityDomainError (build_record IdentityLifecycleRecord_post_init
               \<lparr>il_product_identity = i, il_state = ACTIVE, il_observed_at = pl_observed_at l, il_evidence_reference = ev\<rparr>)) (\<lambda>event.
            Inr (i, signature, event)))) of
        Inl e \<Rightarrow> (Inl e, d0)
      | Inr (i, signature, event) \<Rightarrow> (let (r, d') = transaction (\<lambda>d.
          if bound_products (\<lambda>s. s \<noteq> TOMBSTONED) signature d \<noteq> []
          then Inl (IdentityConflictError ''locator evidence is already bound to a live product identity'')
          else if has_key ip_product_identity i (identity_products d)
          then Inl (IdentityConflictError ''product identity or locator binding already exists'')
          else attempt (insert_locator sha i l (d\<lparr>identity_products := identity_products d @ [new_product i l ev]\<rparr>)) (\<lambda>d1.
            attempt (insert_lifecycle event d1) (\<lambda>d2. Inr ((), d2)))) d0
          in (attempt r (\<lambda>_. identity_get i d'), d')))"

section \<open>Changing the lifecycle\<close>

datatype identity_call =
    MarkUnresolved product_identity datetime string
  | Rebind locator_rebind datetime
  | Bury identity_tombstone

fun call_identity :: "identity_call \<Rightarrow> product_identity" where
  "call_identity (MarkUnresolved i t ev) = i"
| "call_identity (Rebind r t) = lr_product_identity r"
| "call_identity (Bury t) = it_product_identity t"

text \<open>The lifecycle record a call builds before its transaction.\<close>

fun call_event :: "identity_call \<Rightarrow> identity_lifecycle_record" where
  "call_event (MarkUnresolved i t ev) =
     \<lparr>il_product_identity = i, il_state = UNRESOLVED, il_observed_at = t, il_evidence_reference = ev\<rparr>"
| "call_event (Rebind r t) = \<lparr>il_product_identity = lr_product_identity r, il_state = ACTIVE,
     il_observed_at = t, il_evidence_reference = lr_evidence_reference r\<rparr>"
| "call_event (Bury t) = \<lparr>il_product_identity = it_product_identity t, il_state = TOMBSTONED,
     il_observed_at = it_tombstoned_at t, il_evidence_reference = it_reason t\<rparr>"

text \<open>
  What a method does before its transaction: \<open>Some b\<close> when it returns \<open>b\<close> at once,
  \<open>None\<close> when it goes on to write.
\<close>

definition call_check :: "identity_call \<Rightarrow> identity_db \<Rightarrow> identity_binding option identity_result" where
  "call_check c d = attempt (identity_get (call_identity c) d) (\<lambda>current.
     let write = attempt (map_error IdentityDomainError (build_record IdentityLifecycleRecord_post_init (call_event c)))
           (\<lambda>_. Inr None) in
     case c of
       MarkUnresolved i t ev \<Rightarrow>
         if ib_lifecycle_state current = TOMBSTONED
         then Inl (IdentityConflictError ''tombstoned product identities cannot transition'') else write
     | Rebind r t \<Rightarrow>
         if ib_lifecycle_state current = TOMBSTONED
         then Inl (IdentityConflictError ''tombstoned product identities cannot be rebound'')
         else if ib_current_locator current \<noteq> lr_prior_locator r
         then Inl (IdentityConflictError ''rebind prior locator is not current'') else write
     | Bury t \<Rightarrow> if ib_lifecycle_state current = TOMBSTONED then Inr (Some current) else write)"

definition call_write :: "(string \<Rightarrow> string) \<Rightarrow> identity_call \<Rightarrow> identity_db \<Rightarrow> unit identity_result \<times> identity_db" where
  "call_write sha c = transaction (\<lambda>d.
     let event = call_event c;
         stamp = (\<lambda>p. p\<lparr>ip_lifecycle_state := il_state event, ip_last_evidence_reference := il_evidence_reference event,
           ip_updated_at := il_observed_at event\<rparr>) in
     attempt (case c of
         MarkUnresolved i t ev \<Rightarrow> Inr (update_product i stamp d)
       | Rebind r t \<Rightarrow>
           attempt (insert_locator sha (lr_product_identity r) (lr_replacement_locator r) d) (\<lambda>d1.
           Inr (update_product (lr_product_identity r) (\<lambda>p. (stamp p)\<lparr>ip_current_locator_version_id :=
             pl_locator_version_id (lr_replacement_locator r)\<rparr>) d1))
       | Bury t \<Rightarrow>
           attempt (encoded (py_tombstone t)) (\<lambda>_.
           if has_key it_product_identity (it_product_identity t) (identity_tombstones d)
           then Inl (IdentityIntegrityError ''identity_tombstones.product_identity'')
           else if \<not> has_key ip_product_identity (it_product_identity t) (identity_products d)
           then Inl (IdentityIntegrityError ''FOREIGN KEY'')
           else Inr (update_product (it_product_identity t) stamp
             (d\<lparr>identity_tombstones := identity_tombstones d @ [t]\<rparr>))))
       (\<lambda>d1. attempt (insert_lifecycle event d1) (\<lambda>d2. Inr ((), d2))))"

definition identity_change ::
  "(string \<Rightarrow> string) \<Rightarrow> identity_call \<Rightarrow> identity_db \<Rightarrow> identity_binding identity_result \<times> identity_db" where
  "identity_change sha c d = (case call_check c d of
      Inl e \<Rightarrow> (Inl e, d)
    | Inr (Some b) \<Rightarrow> (Inr b, d)
    | Inr None \<Rightarrow> (let (r, d') = call_write sha c d in (attempt r (\<lambda>_. identity_get (call_identity c) d'), d')))"

definition mark_unresolved ::
  "(string \<Rightarrow> string) \<Rightarrow> product_identity \<Rightarrow> datetime \<Rightarrow> string \<Rightarrow> identity_db \<Rightarrow> identity_binding identity_result \<times> identity_db" where
  "mark_unresolved sha i t ev = identity_change sha (MarkUnresolved i t ev)"

definition rebind ::
  "(string \<Rightarrow> string) \<Rightarrow> locator_rebind \<Rightarrow> datetime \<Rightarrow> identity_db \<Rightarrow> identity_binding identity_result \<times> identity_db" where
  "rebind sha r t = identity_change sha (Rebind r t)"

definition tombstone ::
  "(string \<Rightarrow> string) \<Rightarrow> identity_tombstone \<Rightarrow> identity_db \<Rightarrow> identity_binding identity_result \<times> identity_db" where
  "tombstone sha t = identity_change sha (Bury t)"

end
