(* ===== verification/Identity_Laws.thy ===== *)
theory Identity_Laws
  imports Identity_Store Encoding_Bounds
begin

text \<open>
  The identity store keeps one binding per product: its current locator is one of its
  own, every locator has the scope of its product, and the state is that of the last
  lifecycle event, whatever calls interleave.  That a tombstone is final holds for calls
  that do not overlap.
\<close>

section \<open>What a write does\<close>

definition stamped :: "identity_call \<Rightarrow> identity_product_row \<Rightarrow> identity_product_row" where
  "stamped c = (\<lambda>p. p\<lparr>ip_lifecycle_state := il_state (call_event c),
     ip_last_evidence_reference := il_evidence_reference (call_event c),
     ip_updated_at := il_observed_at (call_event c),
     ip_current_locator_version_id := (case c of
         Rebind r t \<Rightarrow> pl_locator_version_id (lr_replacement_locator r) | _ \<Rightarrow> ip_current_locator_version_id p)\<rparr>)"

definition locator_row :: "string \<Rightarrow> product_identity \<Rightarrow> powerfactory_locator \<Rightarrow> identity_locator_row" where
  "locator_row signature i l = \<lparr>ll_locator_version_id = pl_locator_version_id l, ll_product_identity = i,
     ll_locator_signature = signature, ll_locator = l\<rparr>"

definition new_locators :: "(string \<Rightarrow> string) \<Rightarrow> identity_call \<Rightarrow> identity_locator_row list" where
  "new_locators sha c = (case c of
      Rebind r t \<Rightarrow> (case locator_signature sha (lr_replacement_locator r) of
          Inr signature \<Rightarrow> [locator_row signature (lr_product_identity r) (lr_replacement_locator r)] | Inl e \<Rightarrow> [])
    | _ \<Rightarrow> [])"

definition new_tombstones :: "identity_call \<Rightarrow> identity_tombstone list" where
  "new_tombstones c = (case c of Bury t \<Rightarrow> [t] | _ \<Rightarrow> [])"

definition wrote :: "(string \<Rightarrow> string) \<Rightarrow> identity_call \<Rightarrow> identity_db \<Rightarrow> identity_db \<Rightarrow> bool" where
  "wrote sha c d d' \<longleftrightarrow> has_key ip_product_identity (call_identity c) (identity_products d)
     \<and> identity_products d' = update_where (\<lambda>p. ip_product_identity p = call_identity c) (stamped c) (identity_products d)
     \<and> identity_locators d' = identity_locators d @ new_locators sha c
     \<and> identity_lifecycle_events d' = identity_lifecycle_events d @ [call_event c]
     \<and> identity_tombstones d' = identity_tombstones d @ new_tombstones c
     \<and> (\<forall>r t. c = Rebind r t \<longrightarrow> new_locators sha c \<noteq> []
          \<and> \<not> has_key ll_locator_version_id (pl_locator_version_id (lr_replacement_locator r)) (identity_locators d))
     \<and> (\<forall>t. c = Bury t \<longrightarrow> \<not> has_key it_product_identity (it_product_identity t) (identity_tombstones d))"

lemma call_event_identity [simp]: "il_product_identity (call_event c) = call_identity c"
  by (cases c) simp_all

lemma insert_lifecycle_Inr:
  "insert_lifecycle r d = Inr d' \<longleftrightarrow> (\<exists>t. encoded (py_lifecycle_record r) = Inr t)
     \<and> has_key ip_product_identity (il_product_identity r) (identity_products d)
     \<and> d' = d\<lparr>identity_lifecycle_events := identity_lifecycle_events d @ [r]\<rparr>"
  by (auto simp: insert_lifecycle_def attempt_Inr_iff)

lemma insert_locator_Inr:
  "insert_locator sha i l d = Inr d' \<longleftrightarrow> (\<exists>s t. locator_signature sha l = Inr s \<and> encoded (py_locator l) = Inr t
     \<and> \<not> has_key ll_locator_version_id (pl_locator_version_id l) (identity_locators d)
     \<and> has_key ip_product_identity i (identity_products d)
     \<and> d' = d\<lparr>identity_locators := identity_locators d @ [locator_row s i l]\<rparr>)"
  by (auto simp: insert_locator_def attempt_Inr_iff locator_row_def)

lemma has_key_update_product:
  "(\<And>p. ip_product_identity (f p) = ip_product_identity p) \<Longrightarrow>
     has_key ip_product_identity k (identity_products (update_product i f d)) = has_key ip_product_identity k (identity_products d)"
  by (simp add: update_product_def has_key_update_where)

lemma stamped_simps [simp]:
  "ip_product_identity (stamped c p) = ip_product_identity p" "ip_lifecycle_state (stamped c p) = il_state (call_event c)"
  "ip_installation_id (stamped c p) = ip_installation_id p" "ip_profile_id (stamped c p) = ip_profile_id p"
  "ip_project_key (stamped c p) = ip_project_key p" "ip_object_class (stamped c p) = ip_object_class p"
  by (simp_all add: stamped_def)

lemma call_write_wrote:
  assumes "call_write sha c d = (Inr u, d')"
  shows "wrote sha c d d'"
proof (cases c)
  case (MarkUnresolved i t ev)
  with assms show ?thesis
    by (auto simp: call_write_def transaction_Inr_iff attempt_Inr_iff insert_lifecycle_Inr wrote_def Let_def
        update_product_def has_key_update_where stamped_def new_locators_def new_tombstones_def)
next
  case (Rebind r t)
  with assms show ?thesis
    by (auto simp: call_write_def transaction_Inr_iff attempt_Inr_iff insert_lifecycle_Inr insert_locator_Inr wrote_def Let_def
        update_product_def has_key_update_where stamped_def new_locators_def new_tombstones_def locator_row_def)
next
  case (Bury t)
  with assms show ?thesis
    by (auto simp: call_write_def transaction_Inr_iff attempt_Inr_iff insert_lifecycle_Inr wrote_def Let_def
        update_product_def has_key_update_where stamped_def new_locators_def new_tombstones_def split: if_splits)
qed

definition created :: "(string \<Rightarrow> string) \<Rightarrow> product_identity \<Rightarrow> powerfactory_locator \<Rightarrow> string \<Rightarrow> identity_db \<Rightarrow> identity_db \<Rightarrow> bool" where
  "created sha i l ev d d' \<longleftrightarrow> \<not> has_key ip_product_identity i (identity_products d)
     \<and> \<not> has_key ll_locator_version_id (pl_locator_version_id l) (identity_locators d)
     \<and> (\<exists>s. locator_signature sha l = Inr s \<and> bound_products (\<lambda>s. s \<noteq> TOMBSTONED) s d = []
        \<and> d' = \<lparr>identity_products = identity_products d @ [new_product i l ev],
             identity_locators = identity_locators d @ [locator_row s i l],
             identity_lifecycle_events = identity_lifecycle_events d @ [\<lparr>il_product_identity = i, il_state = ACTIVE,
               il_observed_at = pl_observed_at l, il_evidence_reference = ev\<rparr>],
             identity_tombstones = identity_tombstones d\<rparr>)"

lemma identity_create_cases:
  obtains (refused) e where "identity_create sha fresh l ev given d = (Inl e, d)"
  | (created) i d' where "created sha i l ev d d'" "identity_create sha fresh l ev given d = (identity_get i d', d')"
      "given = None \<and> i = ProductIdentity fresh \<or> given = Some i"
proof (cases "attempt (case given of Some i \<Rightarrow> Inr i
               | None \<Rightarrow> map_error IdentityDomainError (build_record ProductIdentity_post_init (ProductIdentity fresh))) (\<lambda>i.
            attempt (locator_signature sha l) (\<lambda>signature.
            attempt (map_error IdentityDomainError (build_record IdentityLifecycleRecord_post_init
               \<lparr>il_product_identity = i, il_state = ACTIVE, il_observed_at = pl_observed_at l, il_evidence_reference = ev\<rparr>)) (\<lambda>event.
            Inr (i, signature, event))))")
  case (Inl e)
  then show thesis by (intro refused [of e]) (simp add: identity_create_def)
next
  case (Inr x)
  obtain i s event where x: "x = (i, s, event)" by (cases x) blast
  from Inr have facts: "given = None \<and> i = ProductIdentity fresh \<or> given = Some i" "locator_signature sha l = Inr s"
    "event = \<lparr>il_product_identity = i, il_state = ACTIVE, il_observed_at = pl_observed_at l, il_evidence_reference = ev\<rparr>"
    by (auto simp: x attempt_Inr_iff build_record_Inr_iff split: option.splits)
  let ?body = "\<lambda>d. if bound_products (\<lambda>s. s \<noteq> TOMBSTONED) s d \<noteq> []
          then Inl (IdentityConflictError ''locator evidence is already bound to a live product identity'')
          else if has_key ip_product_identity i (identity_products d)
          then Inl (IdentityConflictError ''product identity or locator binding already exists'')
          else attempt (insert_locator sha i l (d\<lparr>identity_products := identity_products d @ [new_product i l ev]\<rparr>)) (\<lambda>d1.
            attempt (insert_lifecycle event d1) (\<lambda>d2. Inr ((), d2)))"
  have run: "identity_create sha fresh l ev given d =
      (let (r, d') = transaction ?body d in (attempt r (\<lambda>_. identity_get i d'), d'))"
    unfolding identity_create_def Inr x by simp
  show thesis
  proof (cases "?body d")
    case (Inl e)
    have "transaction ?body d = (Inl e, d)" using Inl by (rule transaction_error)
    then show thesis using run by (intro refused [of e]) simp
  next
    case (Inr y)
    obtain u d' where y: "y = (u, d')" by (cases y) blast
    have "transaction ?body d = (Inr u, d')" using Inr y by (intro transaction_ok) simp
    moreover have "created sha i l ev d d'"
      using Inr facts(2,3) by (auto simp: y created_def attempt_Inr_iff insert_locator_Inr insert_lifecycle_Inr split: if_splits)
    ultimately show thesis using run facts(1) by (intro created [of i d']) simp_all
  qed
qed

section \<open>The invariant under any interleaving\<close>

definition scope_matches :: "identity_product_row \<Rightarrow> powerfactory_locator \<Rightarrow> bool" where
  "scope_matches p l \<longleftrightarrow> ip_installation_id p = pp_installation_id (pl_project_provenance l)
     \<and> ip_profile_id p = pp_profile_id (pl_project_provenance l)
     \<and> ip_project_key p = pp_project_key (pl_project_provenance l) \<and> ip_object_class p = pl_object_class l"

definition product_ok :: "identity_db \<Rightarrow> identity_product_row \<Rightarrow> bool" where
  "product_ok d p \<longleftrightarrow>
     (\<exists>l \<in> set (identity_locators d). ll_locator_version_id l = ip_current_locator_version_id p
        \<and> ll_product_identity l = ip_product_identity p)
     \<and> (\<forall>l \<in> set (identity_locators d). ll_product_identity l = ip_product_identity p \<longrightarrow> scope_matches p (ll_locator l))
     \<and> lifecycle (ip_product_identity p) d \<noteq> []
     \<and> il_state (last (lifecycle (ip_product_identity p) d)) = ip_lifecycle_state p
     \<and> (ip_lifecycle_state p = TOMBSTONED \<longrightarrow> has_key it_product_identity (ip_product_identity p) (identity_tombstones d))"

definition identity_base :: "(string \<Rightarrow> string) \<Rightarrow> identity_db \<Rightarrow> bool" where
  "identity_base sha d \<longleftrightarrow> unique_key ip_product_identity (identity_products d)
     \<and> unique_key ll_locator_version_id (identity_locators d) \<and> unique_key it_product_identity (identity_tombstones d)
     \<and> (\<forall>l \<in> set (identity_locators d). has_key ip_product_identity (ll_product_identity l) (identity_products d)
          \<and> ll_locator_version_id l = pl_locator_version_id (ll_locator l)
          \<and> locator_signature sha (ll_locator l) = Inr (ll_locator_signature l))
     \<and> (\<forall>e \<in> set (identity_lifecycle_events d). has_key ip_product_identity (il_product_identity e) (identity_products d))
     \<and> (\<forall>t \<in> set (identity_tombstones d). has_key ip_product_identity (it_product_identity t) (identity_products d))
     \<and> (\<forall>p \<in> set (identity_products d). product_ok d p)"

text \<open>What a call that passed its check may rely on until it writes.\<close>

definition admissible :: "identity_call \<Rightarrow> identity_db \<Rightarrow> bool" where
  "admissible c d \<longleftrightarrow> (\<forall>r t. c = Rebind r t \<longrightarrow> LocatorRebind_post_init r = None
     \<and> (\<exists>l \<in> set (identity_locators d). ll_locator l = lr_prior_locator r \<and> ll_product_identity l = lr_product_identity r))"

lemma lifecycle_snoc:
  "identity_lifecycle_events d' = identity_lifecycle_events d @ [e] \<Longrightarrow>
     lifecycle i d' = lifecycle i d @ (if il_product_identity e = i then [e] else [])"
  by (simp add: lifecycle_def)

lemma created_base:
  assumes "identity_base sha d" "created sha i l ev d d'"
  shows "identity_base sha d'"
proof -
  from assms(2) obtain s where fresh: "\<not> has_key ip_product_identity i (identity_products d)"
      "\<not> has_key ll_locator_version_id (pl_locator_version_id l) (identity_locators d)" "locator_signature sha l = Inr s"
    and d': "identity_products d' = identity_products d @ [new_product i l ev]"
      "identity_locators d' = identity_locators d @ [locator_row s i l]"
      "identity_lifecycle_events d' = identity_lifecycle_events d @ [\<lparr>il_product_identity = i, il_state = ACTIVE,
         il_observed_at = pl_observed_at l, il_evidence_reference = ev\<rparr>]"
      "identity_tombstones d' = identity_tombstones d" by (auto simp: created_def)
  note base = assms(1) [unfolded identity_base_def]
  have new: "ip_product_identity (new_product i l ev) = i" "ip_current_locator_version_id (new_product i l ev) = pl_locator_version_id l"
    "ip_lifecycle_state (new_product i l ev) = ACTIVE" "scope_matches (new_product i l ev) l"
    by (simp_all add: new_product_def Let_def scope_matches_def)
  have row: "ll_locator_version_id (locator_row s i l) = pl_locator_version_id l" "ll_product_identity (locator_row s i l) = i"
    "ll_locator_signature (locator_row s i l) = s" "ll_locator (locator_row s i l) = l" by (simp_all add: locator_row_def)
  have none: "ll_product_identity x \<noteq> i" if "x \<in> set (identity_locators d)" for x using that base fresh(1) by blast
  note life = lifecycle_snoc [OF d'(3)]
  have "product_ok d' p" if p: "p \<in> set (identity_products d')" for p
  proof (cases "p = new_product i l ev")
    case True
    then show ?thesis using none by (auto simp: product_ok_def d' new row life)
  next
    case False
    then have old: "p \<in> set (identity_products d)" using p d'(1) by simp
    then have "ip_product_identity p \<noteq> i" using fresh(1) by (auto simp: has_key_iff_image)
    with base old show ?thesis by (auto simp: product_ok_def d' row life)
  qed
  then show ?thesis using base fresh by (auto simp: identity_base_def d' new row unique_key_snoc)
qed

lemma new_locatorsD:
  assumes "x \<in> set (new_locators sha c)"
  obtains r t where "c = Rebind r t" "ll_product_identity x = lr_product_identity r"
    "ll_locator x = lr_replacement_locator r" "ll_locator_version_id x = pl_locator_version_id (lr_replacement_locator r)"
    "locator_signature sha (ll_locator x) = Inr (ll_locator_signature x)"
  using assms by (auto simp: new_locators_def locator_row_def split: identity_call.splits sum.splits)

lemma rebind_scope:
  assumes "LocatorRebind_post_init r = None" "scope_matches p (lr_prior_locator r)"
  shows "scope_matches p (lr_replacement_locator r)"
  using assms by (simp add: LocatorRebind_post_init_def scope_matches_def)

lemma wrote_facts:
  assumes "wrote sha c d d'"
  shows "has_key ip_product_identity k (identity_products d') = has_key ip_product_identity k (identity_products d)"
    "lifecycle i d' = lifecycle i d @ (if call_identity c = i then [call_event c] else [])"
    "set (identity_locators d') = set (identity_locators d) \<union> set (new_locators sha c)"
    "set (identity_tombstones d') = set (identity_tombstones d) \<union> set (new_tombstones c)"
    "has_key ip_product_identity (call_identity c) (identity_products d)"
    "p' \<in> set (identity_products d') \<Longrightarrow> \<exists>p \<in> set (identity_products d).
       p' = (if ip_product_identity p = call_identity c then stamped c p else p)"
proof -
  note w = assms [unfolded wrote_def]
  show "has_key ip_product_identity k (identity_products d') = has_key ip_product_identity k (identity_products d)"
    using w by (simp add: has_key_update_where)
  show "p' \<in> set (identity_products d') \<Longrightarrow> \<exists>p \<in> set (identity_products d).
       p' = (if ip_product_identity p = call_identity c then stamped c p else p)"
    using w by (auto simp: update_where_def)
qed (use assms lifecycle_snoc [of d' d "call_event c" i] in \<open>auto simp: wrote_def\<close>)

lemma wrote_unique:
  assumes "identity_base sha d" "wrote sha c d d'"
  shows "unique_key ip_product_identity (identity_products d')" "unique_key ll_locator_version_id (identity_locators d')"
    "unique_key it_product_identity (identity_tombstones d')"
proof -
  note base = assms(1) [unfolded identity_base_def] and w = assms(2) [unfolded wrote_def]
  show "unique_key ip_product_identity (identity_products d')"
    using w base by (simp add: unique_key_update_where)
  show "unique_key ll_locator_version_id (identity_locators d')"
  proof (cases c)
    case (Rebind r t)
    then obtain s where "new_locators sha c = [locator_row s (lr_product_identity r) (lr_replacement_locator r)]"
      using w by (auto simp: new_locators_def split: sum.splits)
    then show ?thesis using w base Rebind by (simp add: unique_key_snoc locator_row_def)
  qed (use w base in \<open>simp_all add: new_locators_def\<close>)
  show "unique_key it_product_identity (identity_tombstones d')"
    by (cases c) (use w base in \<open>auto simp: new_tombstones_def unique_key_snoc\<close>)
qed

lemma wrote_current_locator:
  assumes "product_ok d p" "wrote sha c d d'" "ip_product_identity p = call_identity c"
  shows "\<exists>l \<in> set (identity_locators d'). ll_locator_version_id l = ip_current_locator_version_id (stamped c p)
      \<and> ll_product_identity l = ip_product_identity p"
proof (cases c)
  case (Rebind r t)
  then obtain x where "x \<in> set (new_locators sha c)" "ll_product_identity x = lr_product_identity r"
      "ll_locator_version_id x = pl_locator_version_id (lr_replacement_locator r)"
    using assms(2) by (auto simp: wrote_def new_locators_def locator_row_def split: sum.splits)
  then show ?thesis using assms(3) Rebind wrote_facts(3) [OF assms(2)] by (auto simp: stamped_def)
qed (use assms wrote_facts(3) [OF assms(2)] in \<open>auto simp: product_ok_def stamped_def\<close>)

lemma new_locator_scope:
  assumes "admissible c d" "product_ok d p" "ip_product_identity p = call_identity c" "x \<in> set (new_locators sha c)"
  shows "scope_matches p (ll_locator x)"
proof -
  obtain r t where r: "c = Rebind r t" "ll_locator x = lr_replacement_locator r" by (rule new_locatorsD [OF assms(4)])
  with assms(1) obtain l where "LocatorRebind_post_init r = None" "l \<in> set (identity_locators d)"
    "ll_locator l = lr_prior_locator r" "ll_product_identity l = ip_product_identity p"
    using assms(3) by (auto simp: admissible_def)
  then show ?thesis using assms(2) rebind_scope [of r p] r(2) by (auto simp: product_ok_def)
qed

lemma wrote_product:
  assumes "product_ok d p" "admissible c d" "wrote sha c d d'"
  shows "product_ok d' (if ip_product_identity p = call_identity c then stamped c p else p)"
proof (cases "ip_product_identity p = call_identity c")
  case False
  then have "ll_product_identity x \<noteq> ip_product_identity p" if "x \<in> set (new_locators sha c)" for x
    using new_locatorsD [OF that] by (metis call_identity.simps(2))
  with assms(1) False show ?thesis
    by (auto simp: product_ok_def wrote_facts(2-4) [OF assms(3)] has_key_iff_image)
next
  case True
  have "scope_matches (stamped c p) = scope_matches p" by (simp add: scope_matches_def fun_eq_iff)
  moreover have "has_key it_product_identity (ip_product_identity p) (identity_tombstones d')"
    if "il_state (call_event c) = TOMBSTONED"
    using that True wrote_facts(4) [OF assms(3)] by (cases c) (auto simp: new_tombstones_def has_key_iff_image)
  ultimately show ?thesis
    using assms(1) True wrote_current_locator [OF assms(1,3) True] new_locator_scope [OF assms(2,1) True]
    by (auto simp: product_ok_def wrote_facts(2,3) [OF assms(3)])
qed

lemma wrote_locator_rows:
  assumes "identity_base sha d" "wrote sha c d d'" "l \<in> set (identity_locators d')"
  shows "has_key ip_product_identity (ll_product_identity l) (identity_products d')"
    "ll_locator_version_id l = pl_locator_version_id (ll_locator l)"
    "locator_signature sha (ll_locator l) = Inr (ll_locator_signature l)"
proof -
  note facts = wrote_facts [OF assms(2)]
  consider "l \<in> set (identity_locators d)" | "l \<in> set (new_locators sha c)" using facts(3) assms(3) by blast
  then have "has_key ip_product_identity (ll_product_identity l) (identity_products d')
      \<and> ll_locator_version_id l = pl_locator_version_id (ll_locator l)
      \<and> locator_signature sha (ll_locator l) = Inr (ll_locator_signature l)"
  proof cases
    case 1
    with assms(1) show ?thesis by (simp add: identity_base_def facts(1))
  next
    case 2
    then obtain r t where "c = Rebind r t" "ll_product_identity l = lr_product_identity r"
      "ll_locator l = lr_replacement_locator r" "ll_locator_version_id l = pl_locator_version_id (lr_replacement_locator r)"
      "locator_signature sha (ll_locator l) = Inr (ll_locator_signature l)" by (rule new_locatorsD)
    with facts(5) show ?thesis by (simp add: facts(1))
  qed
  then show "has_key ip_product_identity (ll_product_identity l) (identity_products d')"
    "ll_locator_version_id l = pl_locator_version_id (ll_locator l)"
    "locator_signature sha (ll_locator l) = Inr (ll_locator_signature l)" by blast+
qed

lemma wrote_base:
  assumes "identity_base sha d" "admissible c d" "wrote sha c d d'"
  shows "identity_base sha d'"
proof -
  note base = assms(1) [unfolded identity_base_def] and facts = wrote_facts [OF assms(3)]
  have "product_ok d' p'" if "p' \<in> set (identity_products d')" for p'
    using facts(6) [OF that] base wrote_product [OF _ assms(2,3)] by blast
  moreover have "\<forall>t \<in> set (identity_tombstones d'). has_key ip_product_identity (it_product_identity t) (identity_products d')"
    by (cases c) (use base facts(1,4,5) in \<open>auto simp: new_tombstones_def\<close>)
  moreover have "\<forall>e \<in> set (identity_lifecycle_events d'). has_key ip_product_identity (il_product_identity e) (identity_products d')"
    using assms(3) base facts(1,5) by (auto simp: wrote_def)
  ultimately show ?thesis using wrote_unique [OF assms(1,3)] wrote_locator_rows [OF assms(1,3)]
    unfolding identity_base_def by blast
qed

section \<open>Interleaved calls\<close>

text \<open>A call is an argument only if the constructors of its records accepted it.\<close>

fun call_ok :: "identity_call \<Rightarrow> bool" where
  "call_ok (MarkUnresolved i t ev) = True"
| "call_ok (Rebind r t) = (LocatorRebind_post_init r = None)"
| "call_ok (Bury t) = (IdentityTombstone_post_init t = None)"

record identity_world =
  iw_db :: identity_db
  iw_pending :: "identity_call list"

text \<open>A caller may be anywhere between its check and its write when another one runs.\<close>

datatype identity_event =
    CreateIdentity string powerfactory_locator string "product_identity option"
  | CheckCall identity_call
  | WriteCall nat

fun interleaved_step :: "(string \<Rightarrow> string) \<Rightarrow> identity_world \<Rightarrow> identity_event \<Rightarrow> identity_world" where
  "interleaved_step sha w (CreateIdentity fresh l ev given) =
     w\<lparr>iw_db := snd (identity_create sha fresh l ev given (iw_db w))\<rparr>"
| "interleaved_step sha w (CheckCall c) =
     (if call_ok c \<and> call_check c (iw_db w) = Inr None then w\<lparr>iw_pending := iw_pending w @ [c]\<rparr> else w)"
| "interleaved_step sha w (WriteCall n) =
     (if n < length (iw_pending w)
      then w\<lparr>iw_db := snd (call_write sha (iw_pending w ! n) (iw_db w)),
             iw_pending := take n (iw_pending w) @ drop (Suc n) (iw_pending w)\<rparr>
      else w)"

definition interleaved_inv :: "(string \<Rightarrow> string) \<Rightarrow> identity_world \<Rightarrow> bool" where
  "interleaved_inv sha w \<longleftrightarrow> identity_base sha (iw_db w) \<and> (\<forall>c \<in> set (iw_pending w). admissible c (iw_db w))"

lemma call_write_cases: "snd (call_write sha c d) = d \<or> wrote sha c d (snd (call_write sha c d))"
proof (cases "call_write sha c d")
  case (Pair r d')
  show ?thesis
  proof (cases r)
    case (Inl e)
    with Pair have "d' = d" by (simp add: call_write_def transaction_Inl_iff)
    with Pair show ?thesis by simp
  next
    case (Inr u)
    with Pair call_write_wrote [of sha c d u d'] show ?thesis by simp
  qed
qed

lemma admissible_mono: "admissible c d \<Longrightarrow> prefix (identity_locators d) (identity_locators d') \<Longrightarrow> admissible c d'"
  by (auto simp: admissible_def prefix_def)

lemma current_locator_row:
  assumes "identity_base sha d" "p \<in> set (identity_products d)"
  obtains l where "lookup_row ll_locator_version_id (ip_current_locator_version_id p) (identity_locators d) = Some l"
    "l \<in> set (identity_locators d)" "ll_product_identity l = ip_product_identity p"
proof -
  from assms obtain l where l: "l \<in> set (identity_locators d)" "ll_locator_version_id l = ip_current_locator_version_id p"
    "ll_product_identity l = ip_product_identity p" by (auto simp: identity_base_def product_ok_def)
  with assms(1) lookup_row_unique [of ll_locator_version_id "identity_locators d" l] show thesis
    by (intro that [of l]) (simp_all add: identity_base_def)
qed

lemma identity_get_Inr:
  "identity_get i d = Inr b \<longleftrightarrow> (\<exists>p l. lookup_row ip_product_identity i (identity_products d) = Some p
     \<and> lookup_row ll_locator_version_id (ip_current_locator_version_id p) (identity_locators d) = Some l
     \<and> b = \<lparr>ib_product_identity = i, ib_lifecycle_state = ip_lifecycle_state p, ib_current_locator = ll_locator l,
         ib_first_evidence_reference = ip_first_evidence_reference p, ib_last_evidence_reference = ip_last_evidence_reference p,
         ib_created_at = ip_created_at p, ib_updated_at = ip_updated_at p\<rparr>)"
  by (auto simp: identity_get_def split: option.splits)

lemma call_check_None:
  assumes "call_check c d = Inr None"
  obtains b where "identity_get (call_identity c) d = Inr b" "ib_lifecycle_state b \<noteq> TOMBSTONED"
    "\<forall>r t. c = Rebind r t \<longrightarrow> ib_current_locator b = lr_prior_locator r"
  using assms by (cases c) (auto simp: call_check_def attempt_Inr_iff Let_def split: if_splits)

lemma check_admissible:
  assumes "identity_base sha d" "call_ok c" "call_check c d = Inr None"
  shows "admissible c d"
proof -
  obtain b where b: "identity_get (call_identity c) d = Inr b"
    "\<forall>r t. c = Rebind r t \<longrightarrow> ib_current_locator b = lr_prior_locator r" using call_check_None [OF assms(3)] by metis
  then obtain p l where p: "lookup_row ip_product_identity (call_identity c) (identity_products d) = Some p"
    "lookup_row ll_locator_version_id (ip_current_locator_version_id p) (identity_locators d) = Some l"
    "ib_current_locator b = ll_locator l" by (auto simp: identity_get_Inr)
  from lookup_row_SomeD [OF p(1)] have "p \<in> set (identity_products d)" "ip_product_identity p = call_identity c" by simp_all
  with current_locator_row [OF assms(1)] p(2) have "l \<in> set (identity_locators d)" "ll_product_identity l = call_identity c"
    by (metis option.inject)+
  with assms(2) b(2) p(3) show ?thesis by (auto simp: admissible_def)
qed

lemma interleaved_step_db:
  assumes "interleaved_inv sha w"
  shows "iw_db (interleaved_step sha w e) = iw_db w
    \<or> (\<exists>i l ev. created sha i l ev (iw_db w) (iw_db (interleaved_step sha w e)))
    \<or> (\<exists>c. admissible c (iw_db w) \<and> wrote sha c (iw_db w) (iw_db (interleaved_step sha w e)))"
proof (cases e)
  case (CreateIdentity fresh l ev given)
  show ?thesis
    by (cases rule: identity_create_cases [of sha fresh l ev given "iw_db w"]) (use CreateIdentity in auto)
next
  case (WriteCall n)
  show ?thesis
  proof (cases "n < length (iw_pending w)")
    case True
    with assms have "admissible (iw_pending w ! n) (iw_db w)" by (simp add: interleaved_inv_def)
    with True WriteCall call_write_cases [of sha "iw_pending w ! n" "iw_db w"] show ?thesis by auto
  qed (simp add: WriteCall)
qed simp

lemma interleaved_locators: "interleaved_inv sha w \<Longrightarrow>
    prefix (identity_locators (iw_db w)) (identity_locators (iw_db (interleaved_step sha w e)))
    \<and> prefix (identity_lifecycle_events (iw_db w)) (identity_lifecycle_events (iw_db (interleaved_step sha w e)))
    \<and> prefix (identity_tombstones (iw_db w)) (identity_tombstones (iw_db (interleaved_step sha w e)))"
  using interleaved_step_db [of sha w e] by (auto simp: created_def wrote_def)

lemma interleaved_step_inv:
  assumes "interleaved_inv sha w"
  shows "interleaved_inv sha (interleaved_step sha w e)"
proof -
  have base: "identity_base sha (iw_db w)" using assms by (simp add: interleaved_inv_def)
  then have new: "identity_base sha (iw_db (interleaved_step sha w e))"
    using interleaved_step_db [OF assms, of e] created_base wrote_base by metis
  have grown: "admissible c (iw_db (interleaved_step sha w e))" if "admissible c (iw_db w)" for c
    using admissible_mono [OF that] interleaved_locators [OF assms] by blast
  have "admissible c (iw_db w)" if "c \<in> set (iw_pending (interleaved_step sha w e))" for c
    using that assms check_admissible [OF base]
    by (cases e) (auto simp: interleaved_inv_def split: if_splits dest: in_set_takeD in_set_dropD)
  with new grown show ?thesis by (simp add: interleaved_inv_def)
qed

interpretation identity_events_log: append_only_machine "interleaved_step sha" "interleaved_inv sha"
    "\<lambda>w. identity_lifecycle_events (iw_db w)"
  by unfold_locales (use interleaved_step_inv interleaved_locators in blast)+

definition empty_identity_db :: identity_db where
  "empty_identity_db = \<lparr>identity_products = [], identity_locators = [], identity_lifecycle_events = [], identity_tombstones = []\<rparr>"

definition empty_identity_world :: identity_world where
  "empty_identity_world = \<lparr>iw_db = empty_identity_db, iw_pending = []\<rparr>"

lemma empty_identity_base: "identity_base sha empty_identity_db"
  by (simp add: identity_base_def empty_identity_db_def)

lemma empty_interleaved_inv: "interleaved_inv sha empty_identity_world"
  by (simp add: interleaved_inv_def empty_identity_world_def empty_identity_base)

section \<open>Calls one after the other\<close>

datatype identity_command =
    CreateCommand string powerfactory_locator string "product_identity option"
  | ChangeCommand identity_call

fun identity_step :: "(string \<Rightarrow> string) \<Rightarrow> identity_db \<Rightarrow> identity_command \<Rightarrow> identity_db" where
  "identity_step sha d (CreateCommand fresh l ev given) = snd (identity_create sha fresh l ev given d)"
| "identity_step sha d (ChangeCommand c) = (if call_ok c then snd (identity_change sha c d) else d)"

definition identity_inv :: "(string \<Rightarrow> string) \<Rightarrow> identity_db \<Rightarrow> bool" where
  "identity_inv sha d \<longleftrightarrow> identity_base sha d \<and> (\<forall>p \<in> set (identity_products d).
     has_key it_product_identity (ip_product_identity p) (identity_tombstones d) \<longrightarrow> ip_lifecycle_state p = TOMBSTONED)"

lemma identity_change_cases:
  obtains (same) "snd (identity_change sha c d) = d"
  | (written) d' where "call_check c d = Inr None" "wrote sha c d d'" "identity_change sha c d = (identity_get (call_identity c) d', d')"
proof (cases "call_check c d")
  case (Inl e)
  then show thesis by (intro same) (simp add: identity_change_def)
next
  case (Inr x)
  show thesis
  proof (cases x)
    case (Some b)
    with Inr show thesis by (intro same) (simp add: identity_change_def)
  next
    case None
    obtain r d' where w: "call_write sha c d = (r, d')" by (cases "call_write sha c d")
    show thesis
    proof (cases r)
      case (Inl e)
      with w have "d' = d" by (simp add: call_write_def transaction_Inl_iff)
      with Inr None w show thesis by (intro same) (simp add: identity_change_def)
    next
      case (Inr u)
      with \<open>call_check c d = Inr x\<close> None w call_write_wrote [of sha c d u d'] show thesis
        by (intro written [of d']) (simp_all add: identity_change_def)
    qed
  qed
qed

lemma identity_step_cases:
  obtains (same) "identity_step sha d k = d"
  | (made) i l ev where "created sha i l ev d (identity_step sha d k)"
  | (written) c where "call_ok c" "call_check c d = Inr None" "wrote sha c d (identity_step sha d k)"
proof (cases k)
  case (CreateCommand fresh l ev given)
  show thesis
    by (cases rule: identity_create_cases [of sha fresh l ev given d]) (use CreateCommand same made in auto)
next
  case (ChangeCommand c)
  show thesis
  proof (cases "call_ok c")
    case True
    show thesis
      by (cases rule: identity_change_cases [of sha c d]) (use ChangeCommand True same written in auto)
  qed (use ChangeCommand same in simp)
qed

lemma checked_state:
  assumes "call_check c d = Inr None" "unique_key ip_product_identity (identity_products d)"
    and "p \<in> set (identity_products d)" "ip_product_identity p = call_identity c"
  shows "ip_lifecycle_state p \<noteq> TOMBSTONED"
proof -
  obtain b where "identity_get (call_identity c) d = Inr b" "ib_lifecycle_state b \<noteq> TOMBSTONED"
    by (rule call_check_None [OF assms(1)])
  with lookup_row_unique [OF assms(2,3)] assms(4) show ?thesis by (auto simp: identity_get_Inr)
qed

lemma identity_step_inv:
  assumes "identity_inv sha d"
  shows "identity_inv sha (identity_step sha d k)"
proof (cases rule: identity_step_cases [of sha d k])
  case (made i l ev)
  have base: "identity_base sha d" using assms by (simp add: identity_inv_def)
  from made have d': "identity_products (identity_step sha d k) = identity_products d @ [new_product i l ev]"
    "identity_tombstones (identity_step sha d k) = identity_tombstones d"
    and fresh: "\<not> has_key ip_product_identity i (identity_products d)" by (auto simp: created_def)
  have "\<not> has_key it_product_identity i (identity_tombstones d)"
    using base fresh by (auto simp: identity_base_def has_key_iff_image)
  then show ?thesis using assms created_base [OF base made]
    by (auto simp: identity_inv_def d' new_product_def Let_def)
next
  case (written c)
  have base: "identity_base sha d" using assms by (simp add: identity_inv_def)
  note facts = wrote_facts [OF written(3)]
  have "ip_lifecycle_state p' = TOMBSTONED"
    if p': "p' \<in> set (identity_products (identity_step sha d k))"
      and grave: "has_key it_product_identity (ip_product_identity p') (identity_tombstones (identity_step sha d k))" for p'
  proof -
    from facts(6) [OF p'] obtain p where p: "p \<in> set (identity_products d)"
      "p' = (if ip_product_identity p = call_identity c then stamped c p else p)" by blast
    have "ip_lifecycle_state p \<noteq> TOMBSTONED" if "ip_product_identity p = call_identity c"
      using checked_state [OF written(2) _ p(1) that] base by (simp add: identity_base_def)
    with p grave facts(4) assms show ?thesis
      by (cases c) (auto simp: identity_inv_def new_tombstones_def has_key_iff_image split: if_splits)
  qed
  moreover have "admissible c d" by (rule check_admissible [OF base written(1,2)])
  ultimately show ?thesis using wrote_base [OF base _ written(3)] by (simp add: identity_inv_def)
qed (simp add: assms)

interpretation identity_machine: invariant_machine "identity_step sha" "identity_inv sha"
  by unfold_locales (rule identity_step_inv)

section \<open>Bindings\<close>

abbreviation identity_after :: "(string \<Rightarrow> string) \<Rightarrow> identity_command list \<Rightarrow> identity_db" where
  "identity_after sha ks \<equiv> run_ops (identity_step sha) empty_identity_db ks"

lemma identity_after_inv: "identity_inv sha (identity_after sha ks)"
  by (rule identity_machine.run_inv) (simp add: identity_inv_def empty_identity_base, simp add: empty_identity_db_def)

lemma identity_get_grown:
  assumes "lookup_row ip_product_identity i (identity_products d') = lookup_row ip_product_identity i (identity_products d)"
    and "identity_locators d' = identity_locators d @ ls" "identity_get i d = Inr b"
  shows "identity_get i d' = Inr b"
  using assms by (auto simp: identity_get_Inr lookup_row_append)

lemma buried_step:
  assumes "identity_inv sha d" "identity_get i d = Inr b" "ib_lifecycle_state b = TOMBSTONED"
  shows "identity_get i (identity_step sha d k) = Inr b"
proof (cases rule: identity_step_cases [of sha d k])
  case (made j l ev)
  then obtain ls where grown: "identity_locators (identity_step sha d k) = identity_locators d @ ls"
    "identity_products (identity_step sha d k) = identity_products d @ [new_product j l ev]"
    by (auto simp: created_def)
  obtain p where "lookup_row ip_product_identity i (identity_products d) = Some p"
    using assms(2) by (auto simp: identity_get_Inr)
  then have "lookup_row ip_product_identity i (identity_products (identity_step sha d k))
      = lookup_row ip_product_identity i (identity_products d)" by (simp add: grown(2) lookup_row_append)
  then show ?thesis by (rule identity_get_grown [OF _ grown(1) assms(2)])
next
  case (written c)
  have "i \<noteq> call_identity c"
  proof
    assume i: "i = call_identity c"
    obtain b' where "identity_get (call_identity c) d = Inr b'" "ib_lifecycle_state b' \<noteq> TOMBSTONED"
      by (rule call_check_None [OF written(2)])
    with assms(2,3) i show False by simp
  qed
  moreover obtain p where p: "lookup_row ip_product_identity i (identity_products d) = Some p"
    using assms(2) by (auto simp: identity_get_Inr)
  moreover have "ip_product_identity p = i" using lookup_row_SomeD [OF p] by simp
  ultimately have "lookup_row ip_product_identity i (identity_products (identity_step sha d k))
      = lookup_row ip_product_identity i (identity_products d)"
    using written(3) by (simp add: wrote_def lookup_update_where)
  moreover have "identity_locators (identity_step sha d k) = identity_locators d @ new_locators sha c"
    using written(3) by (simp add: wrote_def)
  ultimately show ?thesis by (intro identity_get_grown [OF _ _ assms(2)])
qed (simp add: assms(2))

lemma buried_run:
  "identity_inv sha d \<Longrightarrow> identity_get i d = Inr b \<Longrightarrow> ib_lifecycle_state b = TOMBSTONED \<Longrightarrow>
     identity_get i (run_ops (identity_step sha) d ks) = Inr b"
  by (induction ks arbitrary: d) (simp_all add: buried_step identity_step_inv)

lemma bound_products_in:
  "i \<in> set (bound_products P s d) \<longleftrightarrow> (\<exists>p \<in> set (identity_products d). \<exists>l \<in> set (identity_locators d).
     ip_product_identity p = i \<and> ll_product_identity l = i \<and> P (ip_lifecycle_state p) \<and> ll_locator_signature l = s)"
proof -
  have "i \<in> set (bound_products P s d) \<longleftrightarrow> (\<exists>l \<in> {l \<in> set (identity_locators d). ll_locator_signature l = s}.
      \<exists>p \<in> {p \<in> set (identity_products d). ip_product_identity p = ll_product_identity l \<and> P (ip_lifecycle_state p)}.
      i = ip_product_identity p)"
    by (simp add: bound_products_def image_UN image_iff)
  then show ?thesis by (auto; metis)
qed

lemma remdups_single: "remdups xs = [x] \<longleftrightarrow> set xs = {x}"
proof
  assume x: "set xs = {x}"
  then have "length (remdups xs) = Suc 0" by (simp add: length_remdups_card_conv)
  then obtain y where y: "remdups xs = [y]" by (auto simp: length_Suc_conv)
  then have "set xs = {y}" using set_remdups [of xs] by simp
  with x y show "remdups xs = [x]" by simp
next
  assume "remdups xs = [x]"
  then show "set xs = {x}" using set_remdups [of xs] by simp
qed

lemma resolve_exact_single:
  assumes "locator_signature sha l = Inr s" "set (bound_products (\<lambda>s. s = ACTIVE) s d) = {i}"
  shows "resolve_exact sha l d = identity_get i d"
proof -
  have "remdups (bound_products (\<lambda>s. s = ACTIVE) s d) = [i]" using assms(2) by (simp add: remdups_single)
  with assms(1) show ?thesis by (simp add: resolve_exact_def)
qed

lemma resolve_exact_Inr:
  assumes "resolve_exact sha l d = Inr b"
  obtains s i where "locator_signature sha l = Inr s" "set (bound_products (\<lambda>s. s = ACTIVE) s d) = {i}" "identity_get i d = Inr b"
proof -
  from assms obtain s where s: "locator_signature sha l = Inr s" by (auto simp: resolve_exact_def attempt_Inr_iff)
  with assms obtain i where i: "remdups (bound_products (\<lambda>s. s = ACTIVE) s d) = [i]" "identity_get i d = Inr b"
    by (auto simp: resolve_exact_def split: list.splits)
  then have "set (bound_products (\<lambda>s. s = ACTIVE) s d) = {i}" by (simp add: remdups_single)
  with s i(2) show thesis by (intro that)
qed

lemma resolve_exact_active:
  assumes "identity_base sha d" "resolve_exact sha l d = Inr b"
  shows "ib_lifecycle_state b = ACTIVE"
proof -
  obtain s i where i: "set (bound_products (\<lambda>s. s = ACTIVE) s d) = {i}" "identity_get i d = Inr b"
    by (rule resolve_exact_Inr [OF assms(2)])
  then obtain p where "p \<in> set (identity_products d)" "ip_product_identity p = i" "ip_lifecycle_state p = ACTIVE"
    using bound_products_in [of i "\<lambda>s. s = ACTIVE" s d] by auto
  with assms(1) i(2) lookup_row_unique [of ip_product_identity "identity_products d" p] show ?thesis
    by (auto simp: identity_get_Inr identity_base_def)
qed

end
