(* ===== verification/Identity_Properties.thy ===== *)
theory Identity_Properties
  imports Identity_Laws Asset_Samples
begin

text \<open>The properties of the identity store, with their witnesses.\<close>

section \<open>Helpers\<close>

lemma new_fields:
  "ip_product_identity (new_product i l ev) = i" "ip_lifecycle_state (new_product i l ev) = ACTIVE"
  "ip_current_locator_version_id (new_product i l ev) = pl_locator_version_id l"
  "ll_locator_version_id (locator_row s i l) = pl_locator_version_id l" "ll_locator (locator_row s i l) = l"
  by (simp_all add: new_product_def Let_def locator_row_def)

lemma identity_change_Inr:
  assumes "identity_change sha c d = (Inr b, d')"
  obtains (kept) "call_check c d = Inr (Some b)" "d' = d"
  | (wrote) "call_check c d = Inr None" "wrote sha c d d'" "identity_get (call_identity c) d' = Inr b"
proof (cases "call_check c d")
  case (Inl e)
  with assms show thesis by (simp add: identity_change_def)
next
  case (Inr x)
  show thesis
  proof (cases x)
    case (Some a)
    with Inr assms show thesis by (intro kept) (simp_all add: identity_change_def)
  next
    case None
    with Inr assms obtain u where "call_write sha c d = (Inr u, d')" "identity_get (call_identity c) d' = Inr b"
      by (cases "call_write sha c d") (auto simp: identity_change_def attempt_Inr_iff)
    with Inr None call_write_wrote [of sha c d u d'] show thesis by (intro wrote) simp_all
  qed
qed

lemma identity_get_defined:
  assumes "identity_base sha d" "has_key ip_product_identity i (identity_products d)"
  shows "\<exists>b. identity_get i d = Inr b"
proof -
  from assms(2) obtain p where p: "p \<in> set (identity_products d)" "ip_product_identity p = i"
    unfolding has_key_iff_image by (elim imageE) simp
  then have "lookup_row ip_product_identity i (identity_products d) = Some p"
    using lookup_row_unique [of ip_product_identity "identity_products d" p] assms(1) by (simp add: identity_base_def)
  moreover obtain l where "lookup_row ll_locator_version_id (ip_current_locator_version_id p) (identity_locators d) = Some l"
    by (rule current_locator_row [OF assms(1) p(1)])
  ultimately show ?thesis by (simp add: identity_get_def)
qed

lemma identity_change_succeeds:
  assumes "identity_inv sha d" "call_ok c" "call_check c d = Inr None" "call_write sha c d = (Inr u, d')"
  obtains b where "identity_change sha c d = (Inr b, d')" "identity_get (call_identity c) d' = Inr b"
proof -
  have base: "identity_base sha d" using assms(1) by (simp add: identity_inv_def)
  note w = call_write_wrote [OF assms(4)]
  have "identity_base sha d'" by (rule wrote_base [OF base check_admissible [OF base assms(2,3)] w])
  then obtain b where "identity_get (call_identity c) d' = Inr b"
    using identity_get_defined wrote_facts(1,5) [OF w] by blast
  with assms(3,4) show thesis by (intro that) (simp_all add: identity_change_def)
qed

lemma rebind_check: "call_check (Rebind r t) d \<noteq> Inr (Some a)"
  by (auto simp: call_check_def attempt_Inr_iff Let_def split: if_splits)

lemma wrote_get:
  assumes "identity_base sha d" "wrote sha c d d'" "identity_get (call_identity c) d' = Inr b"
  shows "ib_lifecycle_state b = il_state (call_event c)"
    "c = Rebind r t \<Longrightarrow> ib_current_locator b = lr_replacement_locator r"
proof -
  note facts = wrote_facts [OF assms(2)] and unique = wrote_unique [OF assms(1,2)]
  from assms(3) obtain p' l where p': "lookup_row ip_product_identity (call_identity c) (identity_products d') = Some p'"
    "lookup_row ll_locator_version_id (ip_current_locator_version_id p') (identity_locators d') = Some l"
    and b: "ib_lifecycle_state b = ip_lifecycle_state p'" "ib_current_locator b = ll_locator l"
    by (auto simp: identity_get_Inr)
  from lookup_row_SomeD [OF p'(1)] facts(6) [of p'] obtain p where p: "p' = stamped c p"
    by (auto split: if_splits)
  then show "ib_lifecycle_state b = il_state (call_event c)" using b by simp
  assume c: "c = Rebind r t"
  with assms(2) obtain s where "locator_row s (lr_product_identity r) (lr_replacement_locator r) \<in> set (identity_locators d')"
    using facts(3) by (auto simp: wrote_def new_locators_def split: sum.splits)
  from lookup_row_unique [OF unique(2) this] have "lookup_row ll_locator_version_id
      (pl_locator_version_id (lr_replacement_locator r)) (identity_locators d')
      = Some (locator_row s (lr_product_identity r) (lr_replacement_locator r))" by (simp add: new_fields)
  moreover have "ip_current_locator_version_id p' = pl_locator_version_id (lr_replacement_locator r)"
    using p c by (simp add: stamped_def)
  ultimately show "ib_current_locator b = lr_replacement_locator r" using p'(2) b(2) by (metis new_fields(5) option.inject)
qed

lemma created_bound:
  assumes "identity_base sha d" "created sha i l ev d d'" "locator_signature sha l = Inr s"
  shows "set (bound_products (\<lambda>s. s = ACTIVE) s d') = {i}"
proof -
  from assms(2,3) have none: "bound_products (\<lambda>s. s \<noteq> TOMBSTONED) s d = []"
    and fresh: "\<not> has_key ip_product_identity i (identity_products d)"
    and d': "identity_products d' = identity_products d @ [new_product i l ev]"
      "identity_locators d' = identity_locators d @ [locator_row s i l]" by (auto simp: created_def)
  have old: "\<not> (p \<in> set (identity_products d) \<and> x \<in> set (identity_locators d) \<and> ip_product_identity p = j
      \<and> ll_product_identity x = j \<and> ip_lifecycle_state p = ACTIVE \<and> ll_locator_signature x = s)" for p x j
    using none bound_products_in [of j "\<lambda>s. s \<noteq> TOMBSTONED" s d] by fastforce
  have gone: "ll_product_identity x \<noteq> i" if "x \<in> set (identity_locators d)" for x
    using that assms(1) fresh by (auto simp: identity_base_def)
  have "j \<in> set (bound_products (\<lambda>s. s = ACTIVE) s d') \<longleftrightarrow> j = i" for j
  proof -
    have "ip_product_identity p \<noteq> i" if "p \<in> set (identity_products d)" for p
      using that fresh by (auto simp: has_key_iff_image)
    then show ?thesis using old [of _ _ j] gone
      by (auto simp: bound_products_in d' new_product_def Let_def locator_row_def)
  qed
  then show ?thesis by blast
qed

lemma rebound_products:
  assumes "wrote sha (Rebind r t) d d'" "lr_product_identity r \<in> set (bound_products (\<lambda>s. s = ACTIVE) s d)"
  shows "set (bound_products (\<lambda>s. s = ACTIVE) s d') = set (bound_products (\<lambda>s. s = ACTIVE) s d)"
proof -
  let ?i = "lr_product_identity r"
  note facts = wrote_facts [OF assms(1), unfolded call_identity.simps]
  have others: "k \<in> set (bound_products (\<lambda>s. s = ACTIVE) s d') \<longleftrightarrow> k \<in> set (bound_products (\<lambda>s. s = ACTIVE) s d)"
    if k: "k \<noteq> ?i" for k
  proof -
    have "p \<in> set (identity_products d') \<longleftrightarrow> p \<in> set (identity_products d)" if "ip_product_identity p = k" for p
      using that k assms(1) by (auto simp: wrote_def update_where_def)
    moreover have "l \<in> set (identity_locators d') \<longleftrightarrow> l \<in> set (identity_locators d)" if "ll_product_identity l = k" for l
      using that k facts(3) by (auto elim!: new_locatorsD)
    ultimately show ?thesis unfolding bound_products_in by blast
  qed
  moreover have "?i \<in> set (bound_products (\<lambda>s. s = ACTIVE) s d')"
  proof -
    from assms(2) obtain p l where p: "p \<in> set (identity_products d)" "ip_product_identity p = ?i"
      and l: "l \<in> set (identity_locators d)" "ll_product_identity l = ?i" "ll_locator_signature l = s"
      by (auto simp: bound_products_in)
    have "stamped (Rebind r t) p \<in> set (identity_products d')"
      using assms(1) p by (auto simp: wrote_def update_where_def)
    moreover have "l \<in> set (identity_locators d')" using l(1) facts(3) by blast
    ultimately show ?thesis using p(2) l(2,3) unfolding bound_products_in
      by (intro bexI [of _ "stamped (Rebind r t) p"] bexI [of _ l]) simp_all
  qed
  ultimately show ?thesis using assms(2) by (intro set_eqI) (metis)
qed

lemma identity_create_given:
  assumes "locator_signature sha l = Inr s" "event = \<lparr>il_product_identity = i, il_state = ACTIVE,
      il_observed_at = pl_observed_at l, il_evidence_reference = ev\<rparr>"
    and "IdentityLifecycleRecord_post_init event = None"
    and "bound_products (\<lambda>s. s \<noteq> TOMBSTONED) s d = []" "\<not> has_key ip_product_identity i (identity_products d)"
    and "insert_locator sha i l (d\<lparr>identity_products := identity_products d @ [new_product i l ev]\<rparr>) = Inr d1"
    and "insert_lifecycle event d1 = Inr d'"
  shows "identity_create sha fresh l ev (Some i) d = (identity_get i d', d')"
proof -
  have "build_record IdentityLifecycleRecord_post_init event = Inr event" using assms(3) by (simp add: build_record_def)
  moreover have "transaction (\<lambda>d. if bound_products (\<lambda>s. s \<noteq> TOMBSTONED) s d \<noteq> []
          then Inl (IdentityConflictError ''locator evidence is already bound to a live product identity'')
          else if has_key ip_product_identity i (identity_products d)
          then Inl (IdentityConflictError ''product identity or locator binding already exists'')
          else attempt (insert_locator sha i l (d\<lparr>identity_products := identity_products d @ [new_product i l ev]\<rparr>)) (\<lambda>d1.
            attempt (insert_lifecycle event d1) (\<lambda>d2. Inr ((), d2)))) d = (Inr (), d')"
    by (rule transaction_ok) (simp add: assms(4-7))
  ultimately show ?thesis unfolding identity_create_def assms(1) option.case attempt_simps assms(2) [symmetric] by simp
qed

section \<open>Properties\<close>

text \<open>C31: under any interleaving of the checks and the writes of concurrent calls every
  product has one row, whose current locator is one of its own, whose locators all have
  its installation, profile, project and class, whose state is that of its last lifecycle
  event, and which has a tombstone if it is tombstoned.\<close>

theorem identity_bindings_stay_consistent:
  "let d = iw_db (run_ops (interleaved_step sha) empty_identity_world es) in
     unique_key ip_product_identity (identity_products d) \<and> unique_key ll_locator_version_id (identity_locators d)
     \<and> list_all (product_ok d) (identity_products d)"
  using identity_events_log.run_inv [OF empty_interleaved_inv, of sha es]
  by (simp add: interleaved_inv_def identity_base_def list_all_iff Let_def)

text \<open>C28: for calls that do not overlap a tombstone is final: whatever is called later, the
  binding of a tombstoned product is exactly what it was, and no locator resolves to it.\<close>

theorem tombstoned_identity_is_final:
  assumes "identity_get i (run_ops (identity_step sha) empty_identity_db ks) = Inr b" "ib_lifecycle_state b = TOMBSTONED"
    and later: "d = run_ops (identity_step sha) empty_identity_db (ks @ ks')"
  shows "identity_get i d = Inr b \<and> resolve_exact sha l d \<noteq> Inr b"
proof -
  have "identity_get i d = Inr b"
    unfolding later run_ops_append by (rule buried_run [OF identity_after_inv assms(1,2)])
  moreover have "identity_base sha d" using identity_after_inv [of sha "ks @ ks'"] later by (simp add: identity_inv_def)
  ultimately show ?thesis using resolve_exact_active [of sha d l b] assms(2) by auto
qed

text \<open>when a product identity is created for a locator, that locator resolves exactly to
  the binding that was returned, active and with the locator as its current one.\<close>

theorem created_identity_resolves:
  assumes "identity_inv sha d" "identity_create sha fresh l ev given d = (Inr b, d')"
  shows "resolve_exact sha l d' = Inr b \<and> ib_current_locator b = l \<and> ib_lifecycle_state b = ACTIVE
    \<and> ib_product_identity b = (case given of Some i \<Rightarrow> i | None \<Rightarrow> ProductIdentity fresh)"
proof (cases rule: identity_create_cases [of sha fresh l ev given d])
  case (created i d1)
  have base: "identity_base sha d" using assms(1) by (simp add: identity_inv_def)
  have d1: "d1 = d'" "identity_get i d' = Inr b" using created(2) assms(2) by auto
  note base' = created_base [OF base created(1), unfolded d1(1)]
  from created(1) obtain s where s: "locator_signature sha l = Inr s"
    and d': "new_product i l ev \<in> set (identity_products d')" "locator_row s i l \<in> set (identity_locators d')"
    unfolding d1(1) by (auto simp: created_def)
  have "resolve_exact sha l d' = Inr b"
    using resolve_exact_single [OF s created_bound [OF base created(1) s, unfolded d1(1)]] d1(2) by simp
  moreover have "unique_key ip_product_identity (identity_products d')" "unique_key ll_locator_version_id (identity_locators d')"
    using base' by (simp_all add: identity_base_def)
  then have "lookup_row ip_product_identity i (identity_products d') = Some (new_product i l ev)"
    "lookup_row ll_locator_version_id (pl_locator_version_id l) (identity_locators d') = Some (locator_row s i l)"
    using lookup_row_unique [OF _ d'(1), of ip_product_identity] lookup_row_unique [OF _ d'(2), of ll_locator_version_id]
    by (simp_all add: new_fields)
  ultimately show ?thesis using d1(2) created(3) by (auto simp: identity_get_Inr new_fields)
qed (use assms in simp)

text \<open>a locator that has been superseded still resolves: after a product is rebound from
  a locator that resolved to it, the old locator resolves to the product with its new
  locator.\<close>

theorem superseded_locator_still_resolves:
  assumes "identity_inv sha d" "resolve_exact sha (lr_prior_locator r) d = Inr a"
    and same: "ib_product_identity a = lr_product_identity r"
    and rebound: "rebind sha r t d = (Inr b, d')"
  shows "resolve_exact sha (lr_prior_locator r) d' = Inr b \<and> ib_current_locator b = lr_replacement_locator r"
  using rebound [unfolded rebind_def]
proof (cases rule: identity_change_Inr)
  case kept
  with rebind_check show ?thesis by blast
next
  case wrote
  let ?i = "lr_product_identity r"
  have base: "identity_base sha d" using assms(1) by (simp add: identity_inv_def)
  note facts = wrote_facts [OF wrote(2), unfolded call_identity.simps]
  from assms(2) obtain s j where s: "locator_signature sha (lr_prior_locator r) = Inr s"
    and j: "set (bound_products (\<lambda>s. s = ACTIVE) s d) = {j}" "identity_get j d = Inr a" by (rule resolve_exact_Inr)
  have only: "set (bound_products (\<lambda>s. s = ACTIVE) s d) = {?i}" using j same by (auto simp: identity_get_Inr)
  have "set (bound_products (\<lambda>s. s = ACTIVE) s d') = {?i}"
    using rebound_products [OF wrote(2)] only by simp
  from resolve_exact_single [OF s this] wrote(3) wrote_get(2) [OF base wrote(2,3)] show ?thesis by simp
qed

text \<open>C40: the check of a call is not repeated when it writes: when the write of a tombstone
  falls between the check and the write of \<open>mark_unresolved\<close>, the product ends up
  unresolved although its tombstone is recorded.\<close>

theorem late_write_resurrects:
  assumes "identity_inv sha d" and mark: "m = MarkUnresolved i t ev" "call_check m d = Inr None"
    and event: "encoded (py_lifecycle_record (call_event m)) = Inr j"
    and bury: "call_ok (Bury tm)" "it_product_identity tm = i" "call_check (Bury tm) d = Inr None"
      "call_write sha (Bury tm) d = (Inr u, d1)"
  shows "let w = run_ops (interleaved_step sha) \<lparr>iw_db = d, iw_pending = []\<rparr>
        [CheckCall m, CheckCall (Bury tm), WriteCall 1, WriteCall 0] in
    iw_pending w = [] \<and> has_key it_product_identity i (identity_tombstones (iw_db w))
    \<and> (\<exists>b. identity_get i (iw_db w) = Inr b \<and> ib_lifecycle_state b = UNRESOLVED)"
proof -
  have base: "identity_base sha d" using assms(1) by (simp add: identity_inv_def)
  note w1 = call_write_wrote [OF bury(4)]
  note f1 = wrote_facts [OF w1, unfolded call_identity.simps bury(2)]
  have base1: "identity_base sha d1" using check_admissible [OF base bury(1,3)] wrote_base [OF base _ w1] by blast
  have "has_key ip_product_identity i (identity_products d1)" using f1(1,5) by simp
  then have "\<exists>d2. call_write sha m d1 = (Inr (), d2)"
    using event unfolding mark(1) call_write_def
    by (intro exI transaction_ok) (simp add: insert_lifecycle_def has_key_update_product Let_def)
  then obtain d2 where d2: "call_write sha m d1 = (Inr (), d2)" by blast
  note w2 = call_write_wrote [OF d2]
  have final: "run_ops (interleaved_step sha) \<lparr>iw_db = d, iw_pending = []\<rparr>
        [CheckCall m, CheckCall (Bury tm), WriteCall 1, WriteCall 0] = \<lparr>iw_db = d2, iw_pending = []\<rparr>"
    using mark bury d2 by simp
  have base2: "identity_base sha d2" using wrote_base [OF base1 _ w2] by (simp add: mark(1) admissible_def)
  have grave: "has_key it_product_identity i (identity_tombstones d2)"
    using w1 w2 bury(2) by (simp add: wrote_def new_tombstones_def mark(1))
  have "has_key ip_product_identity i (identity_products d2)" using f1(1,5) wrote_facts(1) [OF w2] by simp
  from identity_get_defined [OF base2 this] obtain b where b: "identity_get i d2 = Inr b" by blast
  have "ib_lifecycle_state b = UNRESOLVED"
    using wrote_get(1) [OF base1 w2, of b] b by (simp add: mark(1))
  with b grave show ?thesis unfolding final Let_def by simp
qed

section \<open>Witnesses\<close>

text \<open>The digest function of the witnesses returns its argument.\<close>

definition moved_locator :: powerfactory_locator where
  "moved_locator = (sample_locator 3)\<lparr>pl_canonical_path := Some ''y''\<rparr>"

definition text_of :: "string identity_result \<Rightarrow> string" where
  "text_of r = (case r of Inl e \<Rightarrow> [] | Inr t \<Rightarrow> t)"

definition first_signature :: string where
  "first_signature = text_of (locator_signature (\<lambda>t. t) (sample_locator 2))"

definition moved_signature :: string where
  "moved_signature = text_of (locator_signature (\<lambda>t. t) moved_locator)"

definition one_event :: "identity_lifecycle_state \<Rightarrow> nat \<Rightarrow> string \<Rightarrow> identity_lifecycle_record" where
  "one_event s n ev = \<lparr>il_product_identity = sample_product 2, il_state = s, il_observed_at = sample_time n 0,
     il_evidence_reference = ev\<rparr>"

definition one_tombstone :: identity_tombstone where
  "one_tombstone = \<lparr>it_product_identity = sample_product 2, it_evidence_revision = \<lparr>scope_id = sample_uuid 2, counter = 1\<rparr>,
     it_reason = ''gone'', it_tombstoned_at = sample_time 5 0, it_complete_absence_evidence = True\<rparr>"

definition one_rebind :: locator_rebind where
  "one_rebind = \<lparr>lr_product_identity = sample_product 2, lr_prior_locator = sample_locator 2,
     lr_replacement_locator = moved_locator, lr_accepted_native_equality_evidence = True, lr_evidence_reference = ''m''\<rparr>"

lemma is_text: "(case r of Inl e \<Rightarrow> False | Inr t \<Rightarrow> True) \<Longrightarrow> r = Inr (text_of r)"
  by (simp add: text_of_def split: sum.splits)

lemma signatures:
  "locator_signature (\<lambda>t. t) (sample_locator 2) = Inr first_signature"
  "locator_signature (\<lambda>t. t) moved_locator = Inr moved_signature"
  unfolding first_signature_def moved_signature_def by (rule is_text, code_simp)+

lemma one_event_fields: "il_product_identity (one_event s n ev) = sample_product 2" "il_state (one_event s n ev) = s"
  by (simp_all add: one_event_def)

lemma is_encoded: "(case r of Inl e \<Rightarrow> False | Inr t \<Rightarrow> True) \<Longrightarrow> \<exists>t. r = Inr t"
  by (simp split: sum.splits)

lemma encodings:
  "\<exists>t. encoded (py_locator (sample_locator 2)) = Inr t"
  "\<exists>t. encoded (py_locator moved_locator) = Inr t"
  "\<exists>t. encoded (py_lifecycle_record (one_event ACTIVE 0 ''e'')) = Inr t"
  "\<exists>t. encoded (py_lifecycle_record (one_event ACTIVE 6 ''m'')) = Inr t"
  "\<exists>t. encoded (py_lifecycle_record (one_event UNRESOLVED 4 ''u'')) = Inr t"
  "\<exists>t. encoded (py_lifecycle_record (one_event TOMBSTONED 5 ''gone'')) = Inr t"
  "\<exists>t. encoded (py_tombstone one_tombstone) = Inr t"
  by (rule is_encoded, code_simp)+

lemma valid_events:
  "IdentityLifecycleRecord_post_init (one_event ACTIVE 0 ''e'') = None"
  "IdentityLifecycleRecord_post_init (one_event ACTIVE 6 ''m'') = None"
  "IdentityLifecycleRecord_post_init (one_event UNRESOLVED 4 ''u'') = None"
  "IdentityLifecycleRecord_post_init (one_event TOMBSTONED 5 ''gone'') = None"
  "IdentityTombstone_post_init one_tombstone = None" "LocatorRebind_post_init one_rebind = None"
  by code_simp+

definition one_db :: identity_db where
  "one_db = \<lparr>identity_products = [new_product (sample_product 2) (sample_locator 2) ''e''],
     identity_locators = [locator_row first_signature (sample_product 2) (sample_locator 2)],
     identity_lifecycle_events = [one_event ACTIVE 0 ''e''], identity_tombstones = []\<rparr>"

definition one_binding :: identity_binding where
  "one_binding = \<lparr>ib_product_identity = sample_product 2, ib_lifecycle_state = ACTIVE,
     ib_current_locator = sample_locator 2, ib_first_evidence_reference = ''e'', ib_last_evidence_reference = ''e'',
     ib_created_at = sample_time 0 0, ib_updated_at = sample_time 0 0\<rparr>"

definition buried_binding :: identity_binding where
  "buried_binding = one_binding\<lparr>ib_lifecycle_state := TOMBSTONED, ib_last_evidence_reference := ''gone'',
     ib_updated_at := sample_time 5 0\<rparr>"

definition moved_binding :: identity_binding where
  "moved_binding = one_binding\<lparr>ib_current_locator := moved_locator, ib_last_evidence_reference := ''m'',
     ib_updated_at := sample_time 6 0\<rparr>"

lemma locator_fields:
  "pl_observed_at (sample_locator 2) = sample_time 0 0" "pl_locator_version_id (sample_locator 2) = sample_uuid 502"
  "pl_locator_version_id moved_locator = sample_uuid 503" "sample_uuid 502 \<noteq> sample_uuid 503"
  by (simp_all add: sample_locator_def moved_locator_def, code_simp)

lemma one_get: "identity_get (sample_product 2) one_db = Inr one_binding"
  by (simp add: identity_get_def one_db_def new_product_def Let_def locator_row_def one_binding_def locator_fields)

lemma one_created: "identity_create (\<lambda>t. t) [] (sample_locator 2) ''e'' (Some (sample_product 2)) empty_identity_db
    = (Inr one_binding, one_db)"
proof -
  have event: "\<lparr>il_product_identity = sample_product 2, il_state = ACTIVE, il_observed_at = pl_observed_at (sample_locator 2),
      il_evidence_reference = ''e''\<rparr> = one_event ACTIVE 0 ''e''" by (simp add: one_event_def locator_fields)
  let ?d = "empty_identity_db\<lparr>identity_products := identity_products empty_identity_db
      @ [new_product (sample_product 2) (sample_locator 2) ''e'']\<rparr>"
  have "insert_locator (\<lambda>t. t) (sample_product 2) (sample_locator 2) ?d = Inr (one_db\<lparr>identity_lifecycle_events := []\<rparr>)"
    by (simp add: insert_locator_Inr signatures encodings(1) empty_identity_db_def one_db_def new_product_def Let_def)
  moreover have "insert_lifecycle (one_event ACTIVE 0 ''e'') (one_db\<lparr>identity_lifecycle_events := []\<rparr>) = Inr one_db"
    by (simp add: insert_lifecycle_Inr encodings(3) one_db_def one_event_fields new_product_def Let_def)
  moreover have "bound_products (\<lambda>s. s \<noteq> TOMBSTONED) first_signature empty_identity_db = []"
    "\<not> has_key ip_product_identity (sample_product 2) (identity_products empty_identity_db)"
    by (simp_all add: bound_products_def empty_identity_db_def)
  ultimately have "identity_create (\<lambda>t. t) [] (sample_locator 2) ''e'' (Some (sample_product 2)) empty_identity_db
      = (identity_get (sample_product 2) one_db, one_db)"
    by (intro identity_create_given [OF signatures(1) event [symmetric] valid_events(1)])
  then show ?thesis unfolding one_get .
qed

lemma one_inv: "identity_inv (\<lambda>t. t) one_db"
  using identity_after_inv [of "\<lambda>t. t" "[CreateCommand [] (sample_locator 2) ''e'' (Some (sample_product 2))]"]
  by (simp add: one_created)

lemma created_identity_resolves_witness: "resolve_exact (\<lambda>t. t) (sample_locator 2) one_db = Inr one_binding"
  using created_identity_resolves [OF _ one_created] identity_after_inv [of "\<lambda>t. t" "[]"] by simp

lemma one_checks:
  "call_check (Bury one_tombstone) one_db = Inr None" "call_check (Rebind one_rebind (sample_time 6 0)) one_db = Inr None"
  "call_check (MarkUnresolved (sample_product 2) (sample_time 4 0) ''u'') one_db = Inr None"
  using valid_events
  by (simp_all add: call_check_def one_tombstone_def one_rebind_def one_get one_binding_def build_record_def Let_def
      flip: one_event_def [unfolded])

lemma one_has: "has_key ip_product_identity (sample_product 2) (identity_products one_db)"
  by (simp add: one_db_def new_product_def Let_def)

lemma one_bury_written: "\<exists>d'. call_write (\<lambda>t. t) (Bury one_tombstone) one_db = (Inr (), d')"
proof -
  obtain t t' where "encoded (py_tombstone one_tombstone) = Inr t"
    "encoded (py_lifecycle_record (one_event TOMBSTONED 5 ''gone'')) = Inr t'" using encodings(6,7) by blast
  moreover have "call_event (Bury one_tombstone) = one_event TOMBSTONED 5 ''gone''"
    "it_product_identity one_tombstone = sample_product 2" by (simp_all add: one_event_def one_tombstone_def)
  moreover have "identity_tombstones one_db = []" by (simp add: one_db_def)
  ultimately show ?thesis using one_has unfolding call_write_def
    by (intro exI transaction_ok) (simp add: insert_lifecycle_def has_key_update_product Let_def one_event_fields)
qed

lemma one_rebind_written: "\<exists>d'. call_write (\<lambda>t. t) (Rebind one_rebind (sample_time 6 0)) one_db = (Inr (), d')"
proof -
  obtain t t' where "encoded (py_locator moved_locator) = Inr t"
    "encoded (py_lifecycle_record (one_event ACTIVE 6 ''m'')) = Inr t'" using encodings(2,4) by blast
  moreover have "call_event (Rebind one_rebind (sample_time 6 0)) = one_event ACTIVE 6 ''m''"
    "lr_product_identity one_rebind = sample_product 2" "lr_replacement_locator one_rebind = moved_locator"
    by (simp_all add: one_event_def one_rebind_def)
  moreover have "\<not> has_key ll_locator_version_id (pl_locator_version_id moved_locator) (identity_locators one_db)"
    by (simp add: one_db_def locator_row_def locator_fields)
  ultimately show ?thesis using one_has unfolding call_write_def
    by (intro exI transaction_ok)
      (simp add: insert_locator_def signatures insert_lifecycle_def has_key_update_product Let_def one_event_fields)
qed

lemma tombstoned_identity_is_final_witness:
  "\<exists>b. identity_get (sample_product 2) (run_ops (identity_step (\<lambda>t. t)) empty_identity_db
      ([CreateCommand [] (sample_locator 2) ''e'' (Some (sample_product 2)), ChangeCommand (Bury one_tombstone)]
       @ [ChangeCommand (MarkUnresolved (sample_product 2) (sample_time 7 0) ''u'')])) = Inr b
    \<and> ib_lifecycle_state b = TOMBSTONED"
proof -
  obtain d' where d': "call_write (\<lambda>t. t) (Bury one_tombstone) one_db = (Inr (), d')" using one_bury_written by blast
  have ok: "call_ok (Bury one_tombstone)" using valid_events(5) by simp
  obtain b where b: "identity_change (\<lambda>t. t) (Bury one_tombstone) one_db = (Inr b, d')"
      "identity_get (call_identity (Bury one_tombstone)) d' = Inr b"
    by (rule identity_change_succeeds [OF one_inv ok one_checks(1) d'])
  have "identity_base (\<lambda>t. t) one_db" using one_inv by (simp add: identity_inv_def)
  from wrote_get(1) [OF this call_write_wrote [OF d'] b(2)] have state: "ib_lifecycle_state b = TOMBSTONED" by simp
  have "identity_get (sample_product 2) (run_ops (identity_step (\<lambda>t. t)) empty_identity_db
      [CreateCommand [] (sample_locator 2) ''e'' (Some (sample_product 2)), ChangeCommand (Bury one_tombstone)]) = Inr b"
    using b ok by (simp add: one_created one_tombstone_def)
  from tombstoned_identity_is_final [OF this state refl] state show ?thesis by blast
qed

lemma superseded_locator_still_resolves_witness:
  "\<exists>b d'. rebind (\<lambda>t. t) one_rebind (sample_time 6 0) one_db = (Inr b, d')
     \<and> resolve_exact (\<lambda>t. t) (sample_locator 2) d' = Inr b \<and> ib_current_locator b = moved_locator"
proof -
  obtain d' where d': "call_write (\<lambda>t. t) (Rebind one_rebind (sample_time 6 0)) one_db = (Inr (), d')"
    using one_rebind_written by blast
  have ok: "call_ok (Rebind one_rebind (sample_time 6 0))" using valid_events(6) by simp
  obtain b where "identity_change (\<lambda>t. t) (Rebind one_rebind (sample_time 6 0)) one_db = (Inr b, d')"
    by (rule identity_change_succeeds [OF one_inv ok one_checks(2) d'])
  then have rebound: "rebind (\<lambda>t. t) one_rebind (sample_time 6 0) one_db = (Inr b, d')" by (simp add: rebind_def)
  have fields: "lr_prior_locator one_rebind = sample_locator 2" "lr_replacement_locator one_rebind = moved_locator"
    "ib_product_identity one_binding = lr_product_identity one_rebind" by (simp_all add: one_rebind_def one_binding_def)
  have "resolve_exact (\<lambda>t. t) (lr_prior_locator one_rebind) one_db = Inr one_binding"
    unfolding fields(1) using one_get
    by (simp add: resolve_exact_def signatures bound_products_def one_db_def new_product_def Let_def locator_row_def)
  from superseded_locator_still_resolves [OF one_inv this fields(3) rebound] rebound show ?thesis
    unfolding fields(1,2) by blast
qed

lemma late_write_resurrects_witness:
  "\<exists>b. identity_get (sample_product 2) (iw_db (run_ops (interleaved_step (\<lambda>t. t)) \<lparr>iw_db = one_db, iw_pending = []\<rparr>
      [CheckCall (MarkUnresolved (sample_product 2) (sample_time 4 0) ''u''), CheckCall (Bury one_tombstone),
       WriteCall 1, WriteCall 0])) = Inr b
    \<and> ib_lifecycle_state b = UNRESOLVED"
proof -
  obtain d1 where d1: "call_write (\<lambda>t. t) (Bury one_tombstone) one_db = (Inr (), d1)" using one_bury_written by blast
  have "call_event (MarkUnresolved (sample_product 2) (sample_time 4 0) ''u'') = one_event UNRESOLVED 4 ''u''"
    by (simp add: one_event_def)
  then obtain j where "encoded (py_lifecycle_record (call_event (MarkUnresolved (sample_product 2) (sample_time 4 0) ''u''))) = Inr j"
    using encodings(5) by auto
  moreover have "call_ok (Bury one_tombstone)" "it_product_identity one_tombstone = sample_product 2"
    using valid_events(5) by (simp_all add: one_tombstone_def)
  ultimately show ?thesis
    using late_write_resurrects [OF one_inv refl one_checks(3) _ _ _ one_checks(1) d1] unfolding Let_def by blast
qed

end
