(* ===== verification/Inventory.thy ===== *)
theory Inventory
  imports Models "HOL-Library.Sublist"
begin

text \<open>
  \<open>domain/inventory.py\<close>, the inventory records of \<open>domain/models.py\<close>, and the bounded
  inventory service of \<open>operations/inventory.py\<close> over a gateway that is an argument: what
  it answers may depend on the number of the call.
\<close>

section \<open>Records\<close>

definition MAX_INVENTORY_WARNING_EXAMPLES :: int where "MAX_INVENTORY_WARNING_EXAMPLES = 20"

definition MAX_INVENTORY_SAMPLES_PER_KIND :: int where "MAX_INVENTORY_SAMPLES_PER_KIND = 20"

definition require_bounded_int :: "int \<Rightarrow> string \<Rightarrow> int \<Rightarrow> int \<Rightarrow> error option" where
  "require_bounded_int v field minimum maximum = require (minimum \<le> v \<and> v \<le> maximum)
     (ValueError (field @ '' must be between '' @ int_str minimum @ '' and '' @ int_str maximum))"

datatype page_cursor = PageCursor (cursor_token: string)

definition PageCursor_post_init :: "page_cursor \<Rightarrow> error option" where
  "PageCursor_post_init c = require_text_max 4096 (cursor_token c) ''PageCursor.token''"

record inventory_query =
  vq_configuration_key :: configuration_key
  vq_extraction_revision :: extraction_revision
  vq_asset_kind :: "asset_kind option"
  vq_exact_project_key :: "string option"
  vq_page_size :: int
  vq_cursor :: "page_cursor option"
  vq_sort_specification :: string

definition InventoryQuery_post_init :: "inventory_query \<Rightarrow> error option" where
  "InventoryQuery_post_init q = first_error
     [require_optional (\<lambda>k. require_text k ''InventoryQuery.exact_project_key'') (vq_exact_project_key q),
      require (1 \<le> vq_page_size q \<and> vq_page_size q \<le> 100)
        (ValueError ''InventoryQuery.page_size must be between 1 and 100''),
      require (vq_sort_specification q = ''product_uuid_asc'')
        (ValueError ''only deterministic product_uuid_asc ordering is admitted'')]"

record inventory_page =
  vp_query :: inventory_query
  vp_items :: "asset_reference list"
  vp_next_cursor :: "page_cursor option"
  vp_deterministic_order :: bool

definition reference_key :: "asset_reference \<Rightarrow> string" where
  "reference_key a = pi_value (ar_product_identity a)"

definition InventoryPage_post_init :: "inventory_page \<Rightarrow> error option" where
  "InventoryPage_post_init p = first_error
     [require_collection True (vp_items p) ''InventoryPage.items'',
      require (vp_deterministic_order p) (ValueError ''inventory pages must declare deterministic ordering''),
      require (map reference_key (vp_items p) = sort (map reference_key (vp_items p)))
        (ValueError ''inventory items must be ordered by product UUID''),
      require (int (length (vp_items p)) \<le> vq_page_size (vp_query p))
        (ValueError ''inventory page exceeds requested page size'')]"

datatype extraction_warning_code = UNSUPPORTED_OBJECT_CLASS | UNRESOLVED_IDENTITY

fun warning_code_value :: "extraction_warning_code \<Rightarrow> string" where
  "warning_code_value UNSUPPORTED_OBJECT_CLASS = ''unsupported_object_class''"
| "warning_code_value UNRESOLVED_IDENTITY = ''unresolved_identity''"

record extraction_warning =
  ew_code :: extraction_warning_code
  ew_count :: int
  ew_examples :: "string list"

definition ExtractionWarning_post_init :: "extraction_warning \<Rightarrow> error option" where
  "ExtractionWarning_post_init w = first_error
     ([require_bounded_int (ew_count w) ''ExtractionWarning.count'' 1 (int MAX_COLLECTION_LENGTH),
       require_collection True (ew_examples w) ''ExtractionWarning.examples'',
       require (int (length (ew_examples w)) \<le> MAX_INVENTORY_WARNING_EXAMPLES)
         (ValueError ''ExtractionWarning.examples exceeds the hard boundary limit'')]
      @ map (\<lambda>e. require_text_max 512 e ''ExtractionWarning.examples entry'') (ew_examples w)
      @ [require (length (remdups (ew_examples w)) = length (ew_examples w))
         (ValueError ''ExtractionWarning.examples must be unique'')])"

record inventory_binding =
  vb_configuration_key :: configuration_key
  vb_extraction_revision :: extraction_revision
  vb_freshness :: freshness_evidence
  vb_exact_project_key :: string

definition InventoryBinding_post_init :: "inventory_binding \<Rightarrow> error option" where
  "InventoryBinding_post_init b = first_error
     [require_text_max 512 (vb_exact_project_key b) ''InventoryBinding.exact_project_key'',
      require (fe_configuration_key (vb_freshness b) = vb_configuration_key b)
        (ValueError ''inventory freshness must bind the configuration key'')]"

record model_summary_request =
  sr_exact_project_key :: string
  sr_page_size :: int
  sr_inventory_limit :: int
  sr_sample_limit_per_kind :: int
  sr_warning_example_limit :: int

definition ModelSummaryRequest_post_init :: "model_summary_request \<Rightarrow> error option" where
  "ModelSummaryRequest_post_init r = first_error
     [require_text_max 512 (sr_exact_project_key r) ''ModelSummaryRequest.exact_project_key'',
      require_bounded_int (sr_page_size r) ''ModelSummaryRequest.page_size'' 1 MAX_PAGE_SIZE,
      require_bounded_int (sr_inventory_limit r) ''ModelSummaryRequest.inventory_limit'' 1 (int MAX_COLLECTION_LENGTH),
      require_bounded_int (sr_sample_limit_per_kind r) ''ModelSummaryRequest.sample_limit_per_kind'' 0
        MAX_INVENTORY_SAMPLES_PER_KIND,
      require_bounded_int (sr_warning_example_limit r) ''ModelSummaryRequest.warning_example_limit'' 0
        MAX_INVENTORY_WARNING_EXAMPLES]"

record asset_kind_summary =
  ks_asset_kind :: asset_kind
  ks_total_count :: int
  ks_supported_count :: int
  ks_unsupported_count :: int
  ks_unresolved_count :: int
  ks_sample_references :: "asset_reference list"

definition AssetKindSummary_post_init :: "asset_kind_summary \<Rightarrow> error option" where
  "AssetKindSummary_post_init k = (let identities = map reference_key (ks_sample_references k) in first_error
     [require_bounded_int (ks_total_count k) ''AssetKindSummary.total_count'' 0 (int MAX_COLLECTION_LENGTH),
      require_bounded_int (ks_supported_count k) ''AssetKindSummary.supported_count'' 0 (int MAX_COLLECTION_LENGTH),
      require_bounded_int (ks_unsupported_count k) ''AssetKindSummary.unsupported_count'' 0 (int MAX_COLLECTION_LENGTH),
      require_bounded_int (ks_unresolved_count k) ''AssetKindSummary.unresolved_count'' 0 (int MAX_COLLECTION_LENGTH),
      require (ks_total_count k = ks_supported_count k + ks_unsupported_count k + ks_unresolved_count k)
        (ValueError ''asset-kind counts must partition the total''),
      require_collection True (ks_sample_references k) ''AssetKindSummary.sample_references'',
      require (int (length (ks_sample_references k)) \<le> MAX_INVENTORY_SAMPLES_PER_KIND)
        (ValueError ''AssetKindSummary.sample_references exceeds the hard boundary limit''),
      require (identities = sort identities \<and> length (remdups identities) = length identities)
        (ValueError ''sample references must have unique product UUID ordering''),
      require (list_all (\<lambda>a. ar_asset_kind a = ks_asset_kind k) (ks_sample_references k))
        (ValueError ''sample references must match the summarized asset kind'')])"

definition asset_kinds :: "asset_kind list" where
  "asset_kinds = sort_key asset_kind_value [AREA, BUS, LINE, LOAD, TERMINAL, TRANSFORMER]"

record model_summary =
  ms_request :: model_summary_request
  ms_binding :: inventory_binding
  ms_categories :: "asset_kind_summary list"
  ms_total_count :: int
  ms_supported_count :: int
  ms_unsupported_count :: int
  ms_unresolved_count :: int
  ms_warnings :: "extraction_warning list"

text \<open>The warning codes of a result: unique and in order.\<close>

definition warning_codes_ok :: "extraction_warning list \<Rightarrow> bool" where
  "warning_codes_ok ws = (let codes = map (\<lambda>w. warning_code_value (ew_code w)) ws in
     codes = sort codes \<and> length (remdups codes) = length codes)"

definition count_check :: "string \<Rightarrow> (asset_kind_summary \<Rightarrow> int) \<Rightarrow> int \<Rightarrow> model_summary \<Rightarrow> error option list" where
  "count_check field f v s =
     [require_bounded_int v (''ModelSummary.'' @ field) 0 (sr_inventory_limit (ms_request s)),
      require (v = sum_list (map f (ms_categories s)))
        (ValueError (''ModelSummary.'' @ field @ '' must equal the category sum''))]"

definition ModelSummary_post_init :: "model_summary \<Rightarrow> error option" where
  "ModelSummary_post_init s = first_error
     ([require (vb_exact_project_key (ms_binding s) = sr_exact_project_key (ms_request s))
         (ValueError ''model summary request and binding project must match''),
       require_collection False (ms_categories s) ''ModelSummary.categories'',
       require (map ks_asset_kind (ms_categories s) = asset_kinds)
         (ValueError ''model summary must contain every admitted asset kind in deterministic order''),
       require (list_all (\<lambda>k. int (length (ks_sample_references k)) \<le> sr_sample_limit_per_kind (ms_request s)) (ms_categories s))
         (ValueError ''model summary sample count exceeds the requested limit''),
       require (list_all (\<lambda>k. list_all (\<lambda>a. ar_project_key a = vb_exact_project_key (ms_binding s)) (ks_sample_references k))
           (ms_categories s))
         (ValueError ''model summary samples must match the exact project binding'')]
      @ count_check ''total_count'' ks_total_count (ms_total_count s) s
      @ count_check ''supported_count'' ks_supported_count (ms_supported_count s) s
      @ count_check ''unsupported_count'' ks_unsupported_count (ms_unsupported_count s) s
      @ count_check ''unresolved_count'' ks_unresolved_count (ms_unresolved_count s) s
      @ [require (ms_total_count s = ms_supported_count s + ms_unsupported_count s + ms_unresolved_count s)
           (ValueError ''model summary counts must partition the total''),
         require_collection True (ms_warnings s) ''ModelSummary.warnings'',
         require (warning_codes_ok (ms_warnings s))
           (ValueError ''model summary warnings must have unique deterministic code ordering''),
         require (list_all (\<lambda>w. int (length (ew_examples w)) \<le> sr_warning_example_limit (ms_request s)) (ms_warnings s))
           (ValueError ''model summary warning examples exceed the requested limit''),
         require (set (map (\<lambda>w. (ew_code w, ew_count w)) (ms_warnings s))
             = set (filter (\<lambda>(c, n). n \<noteq> 0) [(UNSUPPORTED_OBJECT_CLASS, ms_unsupported_count s),
                 (UNRESOLVED_IDENTITY, ms_unresolved_count s)]))
           (ValueError ''model summary warning counts must match unsupported and unresolved totals'')])"

record component_list_request =
  cr_asset_kind :: asset_kind
  cr_exact_project_key :: string
  cr_page_size :: int
  cr_cursor :: "page_cursor option"

definition ComponentListRequest_post_init :: "component_list_request \<Rightarrow> error option" where
  "ComponentListRequest_post_init r = first_error
     [require_text_max 512 (cr_exact_project_key r) ''ComponentListRequest.exact_project_key'',
      require_bounded_int (cr_page_size r) ''ComponentListRequest.page_size'' 1 MAX_PAGE_SIZE]"

record component_page =
  cp_request :: component_list_request
  cp_binding :: inventory_binding
  cp_items :: "asset_reference list"
  cp_next_cursor :: "page_cursor option"
  cp_warnings :: "extraction_warning list"

definition ComponentPage_post_init :: "component_page \<Rightarrow> error option" where
  "ComponentPage_post_init p = (let identities = map reference_key (cp_items p) in first_error
     [require (vb_exact_project_key (cp_binding p) = cr_exact_project_key (cp_request p))
        (ValueError ''component request and binding project must match''),
      require_collection True (cp_items p) ''ComponentPage.items'',
      require (int (length (cp_items p)) \<le> cr_page_size (cp_request p))
        (ValueError ''component page exceeds the requested page size''),
      require (identities = sort identities \<and> length (remdups identities) = length identities)
        (ValueError ''component page items must have unique product UUID ordering''),
      require (list_all (\<lambda>a. ar_asset_kind a = cr_asset_kind (cp_request p)) (cp_items p))
        (ValueError ''component page item kind must match the request''),
      require (list_all (\<lambda>a. ar_project_key a = vb_exact_project_key (cp_binding p)) (cp_items p))
        (ValueError ''component page items must match the exact project binding''),
      require_collection True (cp_warnings p) ''ComponentPage.warnings'',
      require (warning_codes_ok (cp_warnings p))
        (ValueError ''component page warnings must have unique deterministic code ordering'')])"

record asset_lookup_request =
  lq_product_identity :: product_identity
  lq_asset_kind :: asset_kind
  lq_exact_object_class :: string
  lq_exact_project_key :: string
  lq_page_size :: int
  lq_inventory_limit :: int

definition AssetLookupRequest_post_init :: "asset_lookup_request \<Rightarrow> error option" where
  "AssetLookupRequest_post_init r = first_error
     [require_text_max 128 (lq_exact_object_class r) ''AssetLookupRequest.exact_object_class'',
      require_text_max 512 (lq_exact_project_key r) ''AssetLookupRequest.exact_project_key'',
      require_bounded_int (lq_page_size r) ''AssetLookupRequest.page_size'' 1 MAX_PAGE_SIZE,
      require_bounded_int (lq_inventory_limit r) ''AssetLookupRequest.inventory_limit'' 1 (int MAX_COLLECTION_LENGTH)]"

record asset_lookup_result =
  lx_request :: asset_lookup_request
  lx_binding :: inventory_binding
  lx_asset :: asset_reference

definition AssetLookupResult_post_init :: "asset_lookup_result \<Rightarrow> error option" where
  "AssetLookupResult_post_init x = first_error
     [require (vb_exact_project_key (lx_binding x) = lq_exact_project_key (lx_request x))
        (ValueError ''lookup request and binding project must match''),
      require (ar_product_identity (lx_asset x) = lq_product_identity (lx_request x))
        (ValueError ''lookup result product UUID must match exactly''),
      require (ar_asset_kind (lx_asset x) = lq_asset_kind (lx_request x))
        (ValueError ''lookup result asset kind must match exactly''),
      require (pl_object_class (ar_locator (lx_asset x)) = lq_exact_object_class (lx_request x))
        (ValueError ''lookup result object class must match exactly''),
      require (ar_project_key (lx_asset x) = lq_exact_project_key (lx_request x))
        (ValueError ''lookup result project must match exactly'')]"

end
