(* ===== verification/Inventory_Service.thy ===== *)
theory Inventory_Service
  imports Inventory
begin

text \<open>
  \<open>operations/inventory.py\<close>: the bounded views over a paged gateway.  The traversal
  \<open>_scan\<close> is a generator; it is given here as a fold of the consumer's loop body over the
  items, in the order in which the code interleaves pages and items.  Nothing but the
  item limit and the repeated cursor stops it, so it is a partial function.
\<close>

section \<open>Errors and the gateway\<close>

datatype inventory_service_error_code =
    BOUND_EXCEEDED | CLASS_MISMATCH | CONFIGURATION_MISMATCH | CURSOR_LOOP | DUPLICATE_PRODUCT_IDENTITY
  | INVALID_GATEWAY_RESPONSE | INVENTORY_NOT_FOUND | PROJECT_MISMATCH | REVISION_MISMATCH | UNRESOLVED_PRODUCT_IDENTITY

datatype inventory_error =
    InventoryServiceError inventory_service_error_code string
  | InventoryDomainError error
  | GatewayRaised string

text \<open>What a call of the gateway does: answer, answer with an object of another class, raise.\<close>

datatype 'a gateway_reply = Reply 'a | WrongType | Raises string

record inventory_gateway =
  ig_active_context :: "model_context gateway_reply"
  ig_inventory :: "nat \<Rightarrow> inventory_query \<Rightarrow> inventory_page gateway_reply"

definition supported_object_classes :: "asset_kind \<Rightarrow> string list" where
  "supported_object_classes k = (case k of
      AREA \<Rightarrow> [''ElmArea''] | BUS \<Rightarrow> [''ElmTerm''] | LINE \<Rightarrow> [''ElmLne''] | LOAD \<Rightarrow> [''ElmLod'']
    | TERMINAL \<Rightarrow> [''ElmTerm''] | TRANSFORMER \<Rightarrow> [''ElmTr2'', ''ElmTr3''])"

section \<open>Checked gateway calls\<close>

definition active_context :: "inventory_gateway \<Rightarrow> string \<Rightarrow> inventory_error + model_context" where
  "active_context gw exact_project_key = (case ig_active_context gw of
      Raises m \<Rightarrow> Inl (GatewayRaised m)
    | WrongType \<Rightarrow> Inl (InventoryServiceError INVALID_GATEWAY_RESPONSE ''active_context returned an invalid response'')
    | Reply c \<Rightarrow> (let project_keys = remdups (map ar_project_key (mc_assets c)) in
        if project_keys = []
        then Inl (InventoryServiceError INVALID_GATEWAY_RESPONSE ''active context does not contain project evidence'')
        else if length project_keys \<noteq> 1
        then Inl (InventoryServiceError INVALID_GATEWAY_RESPONSE ''active context contains ambiguous project evidence'')
        else if set project_keys \<noteq> {exact_project_key}
        then Inl (InventoryServiceError PROJECT_MISMATCH ''requested project does not match the active context'')
        else Inr c))"

definition binding_of :: "model_context \<Rightarrow> string \<Rightarrow> inventory_error + inventory_binding" where
  "binding_of c exact_project_key = map_error InventoryDomainError (build_record InventoryBinding_post_init
     \<lparr>vb_configuration_key = mc_configuration_key c, vb_extraction_revision = mc_extraction_revision c,
      vb_freshness = mc_freshness c, vb_exact_project_key = exact_project_key\<rparr>)"

definition inventory_page_for :: "inventory_gateway \<Rightarrow> nat \<Rightarrow> inventory_query \<Rightarrow> inventory_error + inventory_page" where
  "inventory_page_for gw n q = (case ig_inventory gw n q of
      Raises m \<Rightarrow> Inl (GatewayRaised m)
    | WrongType \<Rightarrow> Inl (InventoryServiceError INVALID_GATEWAY_RESPONSE ''inventory returned an invalid response'')
    | Reply p \<Rightarrow>
        if vq_configuration_key (vp_query p) \<noteq> vq_configuration_key q
        then Inl (InventoryServiceError CONFIGURATION_MISMATCH ''inventory page is bound to another configuration'')
        else if vq_extraction_revision (vp_query p) \<noteq> vq_extraction_revision q
        then Inl (InventoryServiceError REVISION_MISMATCH ''inventory page is bound to another extraction revision'')
        else if vp_query p \<noteq> q
        then Inl (InventoryServiceError INVALID_GATEWAY_RESPONSE ''inventory page query binding does not match the request'')
        else Inr p)"

section \<open>The traversal\<close>

definition bound_exceeded :: inventory_error where
  "bound_exceeded = InventoryServiceError BOUND_EXCEEDED ''inventory traversal exceeded its configured item limit''"

text \<open>The items of one page, each handed to the consumer unless the limit is passed.\<close>

fun feed :: "('s \<Rightarrow> asset_reference \<Rightarrow> inventory_error + 's) \<Rightarrow> int \<Rightarrow> int \<Rightarrow> 's \<Rightarrow> asset_reference list
    \<Rightarrow> inventory_error + int \<times> 's" where
  "feed body limit scanned s [] = Inr (scanned, s)"
| "feed body limit scanned s (x # xs) =
     (if limit < scanned + 1 then Inl bound_exceeded
      else attempt (body s x) (\<lambda>s'. feed body limit (scanned + 1) s' xs))"

definition next_query :: "inventory_query \<Rightarrow> string \<Rightarrow> inventory_error + inventory_query" where
  "next_query q token = attempt (map_error InventoryDomainError (build_record PageCursor_post_init (PageCursor token)))
     (\<lambda>c. map_error InventoryDomainError (build_record InventoryQuery_post_init (q\<lparr>vq_cursor := Some c\<rparr>)))"

text \<open>
  One round of the loop, from the call numbered \<open>n\<close>: it stops with an error or the final
  state of the consumer, or goes on with a query, the cursors seen, and the count.
\<close>

definition scan_round :: "inventory_gateway \<Rightarrow> ('s \<Rightarrow> asset_reference \<Rightarrow> inventory_error + 's) \<Rightarrow> int
    \<Rightarrow> inventory_query \<Rightarrow> string list \<Rightarrow> int \<Rightarrow> nat \<Rightarrow> 's
    \<Rightarrow> (inventory_error + 's) + (inventory_query \<times> string list \<times> int \<times> 's)" where
  "scan_round gw body limit q seen scanned n s = (case inventory_page_for gw n q of
      Inl e \<Rightarrow> Inl (Inl e)
    | Inr p \<Rightarrow> (case feed body limit scanned s (vp_items p) of
        Inl e \<Rightarrow> Inl (Inl e)
      | Inr (scanned', s') \<Rightarrow> (case vp_next_cursor p of
          None \<Rightarrow> Inl (Inr s')
        | Some c \<Rightarrow> (let token = cursor_token c in
            if token \<in> set seen \<or> vq_cursor q = Some (PageCursor token)
            then Inl (Inl (InventoryServiceError CURSOR_LOOP ''inventory cursor repeated''))
            else (case next_query q token of
              Inl e \<Rightarrow> Inl (Inl e)
            | Inr q' \<Rightarrow> Inr (q', token # seen, scanned', s'))))))"

partial_function (option) scan_from :: "inventory_gateway \<Rightarrow> ('s \<Rightarrow> asset_reference \<Rightarrow> inventory_error + 's) \<Rightarrow> int
    \<Rightarrow> inventory_query \<Rightarrow> string list \<Rightarrow> int \<Rightarrow> nat \<Rightarrow> 's \<Rightarrow> ((inventory_error + 's) \<times> nat) option" where
  "scan_from gw body limit q seen scanned n s = (case scan_round gw body limit q seen scanned n s of
      Inl r \<Rightarrow> Some (r, Suc n)
    | Inr (q', seen', scanned', s') \<Rightarrow> scan_from gw body limit q' seen' scanned' (Suc n) s')"

definition scan :: "inventory_gateway \<Rightarrow> ('s \<Rightarrow> asset_reference \<Rightarrow> inventory_error + 's) \<Rightarrow> int
    \<Rightarrow> inventory_query \<Rightarrow> nat \<Rightarrow> 's \<Rightarrow> ((inventory_error + 's) \<times> nat) option" where
  "scan gw body limit q n s = (if limit < 0 then Some (Inl bound_exceeded, n) else scan_from gw body limit q [] 0 n s)"

section \<open>Items\<close>

definition admit_unique :: "asset_reference \<Rightarrow> string list \<Rightarrow> inventory_error + string list" where
  "admit_unique item seen = (if reference_key item \<in> set seen
     then Inl (InventoryServiceError DUPLICATE_PRODUCT_IDENTITY ''inventory contains a duplicate product UUID'')
     else Inr (reference_key item # seen))"

definition validate_item_scope :: "asset_reference \<Rightarrow> asset_kind \<Rightarrow> string \<Rightarrow> inventory_error option" where
  "validate_item_scope item kind exact_project_key = first_error
     [require (ar_asset_kind item = kind)
        (InventoryServiceError CLASS_MISMATCH ''inventory item kind does not match the exact category query''),
      require (ar_project_key item = exact_project_key
          \<and> pp_project_key (pl_project_provenance (ar_locator item)) = exact_project_key)
        (InventoryServiceError PROJECT_MISMATCH ''inventory item does not match the exact project query'')]"

text \<open>The warnings gathered so far: per code the count and the first distinct examples.\<close>

type_synonym warning_table = "(extraction_warning_code \<times> int \<times> string list) list"

definition warn :: "warning_table \<Rightarrow> extraction_warning_code \<Rightarrow> string \<Rightarrow> int \<Rightarrow> warning_table" where
  "warn w code example example_limit =
     (let (count, examples) = (case lookup_row fst code w of None \<Rightarrow> (0, []) | Some (_, c) \<Rightarrow> c);
          examples' = (if int (length examples) < example_limit \<and> example \<notin> set examples
                       then examples @ [example] else examples)
      in upsert fst (code, count + 1, examples') w)"

fun warnings_of :: "warning_table \<Rightarrow> inventory_error + extraction_warning list" where
  "warnings_of [] = Inr []"
| "warnings_of ((code, count, examples) # w) =
     attempt (map_error InventoryDomainError (build_record ExtractionWarning_post_init
       \<lparr>ew_code = code, ew_count = count, ew_examples = examples\<rparr>)) (\<lambda>x. attempt (warnings_of w) (\<lambda>xs. Inr (x # xs)))"

definition warnings :: "warning_table \<Rightarrow> inventory_error + extraction_warning list" where
  "warnings w = warnings_of (sort_key (\<lambda>x. warning_code_value (fst x)) w)"

datatype item_class = ItemUnresolved | ItemUnsupported | ItemSupported

definition classify_item :: "asset_kind \<Rightarrow> asset_reference \<Rightarrow> item_class" where
  "classify_item kind item =
     (if ar_lifecycle_state item \<noteq> ACTIVE then ItemUnresolved
      else if pl_object_class (ar_locator item) \<notin> set (supported_object_classes kind) then ItemUnsupported
      else ItemSupported)"

definition warn_item :: "asset_kind \<Rightarrow> asset_reference \<Rightarrow> int \<Rightarrow> warning_table \<Rightarrow> warning_table" where
  "warn_item kind item example_limit w = (case classify_item kind item of
      ItemUnresolved \<Rightarrow> warn w UNRESOLVED_IDENTITY
        (reference_key item @ '':'' @ identity_lifecycle_state_value (ar_lifecycle_state item)) example_limit
    | ItemUnsupported \<Rightarrow> warn w UNSUPPORTED_OBJECT_CLASS
        (reference_key item @ '':'' @ pl_object_class (ar_locator item)) example_limit
    | ItemSupported \<Rightarrow> w)"

section \<open>Summaries\<close>

record kind_state =
  kt_seen :: "string list"
  kt_warnings :: warning_table
  kt_scanned :: int
  kt_total :: int
  kt_supported :: int
  kt_unsupported :: int
  kt_unresolved :: int
  kt_samples :: "asset_reference list"

definition summary_item :: "model_summary_request \<Rightarrow> asset_kind \<Rightarrow> kind_state \<Rightarrow> asset_reference
    \<Rightarrow> inventory_error + kind_state" where
  "summary_item r kind t item =
     attempt (admit_unique item (kt_seen t)) (\<lambda>seen.
     checked (validate_item_scope item kind (sr_exact_project_key r))
     (Inr \<lparr>kt_seen = seen, kt_warnings = warn_item kind item (sr_warning_example_limit r) (kt_warnings t),
        kt_scanned = kt_scanned t + 1, kt_total = kt_total t + 1,
        kt_supported = kt_supported t + (if classify_item kind item = ItemSupported then 1 else 0),
        kt_unsupported = kt_unsupported t + (if classify_item kind item = ItemUnsupported then 1 else 0),
        kt_unresolved = kt_unresolved t + (if classify_item kind item = ItemUnresolved then 1 else 0),
        kt_samples = (if int (length (kt_samples t)) < sr_sample_limit_per_kind r then kt_samples t @ [item]
          else kt_samples t)\<rparr>))"

definition initial_query :: "model_context \<Rightarrow> asset_kind \<Rightarrow> string \<Rightarrow> int \<Rightarrow> page_cursor option
    \<Rightarrow> inventory_error + inventory_query" where
  "initial_query c kind exact_project_key page_size cursor =
     map_error InventoryDomainError (build_record InventoryQuery_post_init
       \<lparr>vq_configuration_key = mc_configuration_key c, vq_extraction_revision = mc_extraction_revision c,
        vq_asset_kind = Some kind, vq_exact_project_key = Some exact_project_key, vq_page_size = page_size,
        vq_cursor = cursor, vq_sort_specification = ''product_uuid_asc''\<rparr>)"

text \<open>The loop over the items of one kind, from the call numbered \<open>n\<close>.\<close>

definition scan_kind :: "inventory_gateway \<Rightarrow> model_summary_request \<Rightarrow> model_context \<Rightarrow> asset_kind \<Rightarrow> nat
    \<Rightarrow> string list \<Rightarrow> warning_table \<Rightarrow> int \<Rightarrow> ((inventory_error + kind_state) \<times> nat) option" where
  "scan_kind gw r c kind n seen w scanned =
     (case initial_query c kind (sr_exact_project_key r) (sr_page_size r) None of
        Inl e \<Rightarrow> Some (Inl e, n)
      | Inr q \<Rightarrow> scan gw (summary_item r kind) (sr_inventory_limit r - scanned) q n
          \<lparr>kt_seen = seen, kt_warnings = w, kt_scanned = scanned, kt_total = 0, kt_supported = 0,
           kt_unsupported = 0, kt_unresolved = 0, kt_samples = []\<rparr>)"

definition kind_summary :: "asset_kind \<Rightarrow> kind_state \<Rightarrow> inventory_error + asset_kind_summary" where
  "kind_summary kind t = map_error InventoryDomainError (build_record AssetKindSummary_post_init
     \<lparr>ks_asset_kind = kind, ks_total_count = kt_total t, ks_supported_count = kt_supported t,
      ks_unsupported_count = kt_unsupported t, ks_unresolved_count = kt_unresolved t,
      ks_sample_references = kt_samples t\<rparr>)"

fun summarize_kinds :: "inventory_gateway \<Rightarrow> model_summary_request \<Rightarrow> model_context \<Rightarrow> asset_kind list \<Rightarrow> nat
    \<Rightarrow> string list \<Rightarrow> warning_table \<Rightarrow> int \<Rightarrow> asset_kind_summary list
    \<Rightarrow> (inventory_error + warning_table \<times> asset_kind_summary list) option" where
  "summarize_kinds gw r c [] n seen w scanned acc = Some (Inr (w, acc))"
| "summarize_kinds gw r c (kind # kinds) n seen w scanned acc =
     (case scan_kind gw r c kind n seen w scanned of
        None \<Rightarrow> None
      | Some (res, m) \<Rightarrow> (case attempt res (\<lambda>t. attempt (kind_summary kind t) (\<lambda>k. Inr (t, k))) of
          Inl e \<Rightarrow> Some (Inl e)
        | Inr (t, k) \<Rightarrow> summarize_kinds gw r c kinds m (kt_seen t) (kt_warnings t) (kt_scanned t) (acc @ [k])))"

definition summarize :: "inventory_gateway \<Rightarrow> model_summary_request \<Rightarrow> (inventory_error + model_summary) option" where
  "summarize gw r =
     (case attempt (active_context gw (sr_exact_project_key r)) (\<lambda>c.
            attempt (binding_of c (sr_exact_project_key r)) (\<lambda>b. Inr (c, b))) of
        Inl e \<Rightarrow> Some (Inl e)
      | Inr (c, b) \<Rightarrow> map_option (\<lambda>res. attempt res (\<lambda>(w, categories).
          attempt (warnings w) (\<lambda>ws.
          map_error InventoryDomainError (build_record ModelSummary_post_init
            \<lparr>ms_request = r, ms_binding = b, ms_categories = categories,
             ms_total_count = sum_list (map ks_total_count categories),
             ms_supported_count = sum_list (map ks_supported_count categories),
             ms_unsupported_count = sum_list (map ks_unsupported_count categories),
             ms_unresolved_count = sum_list (map ks_unresolved_count categories), ms_warnings = ws\<rparr>))))
          (summarize_kinds gw r c asset_kinds 0 [] [] 0 []))"

section \<open>Components and look-up\<close>

fun list_items :: "component_list_request \<Rightarrow> asset_reference list \<Rightarrow> string list \<Rightarrow> warning_table
    \<Rightarrow> inventory_error + warning_table" where
  "list_items r [] seen w = Inr w"
| "list_items r (item # items) seen w = attempt (admit_unique item seen) (\<lambda>seen'.
     checked (validate_item_scope item (cr_asset_kind r) (cr_exact_project_key r))
     (list_items r items seen' (warn_item (cr_asset_kind r) item 3 w)))"

definition list_components :: "inventory_gateway \<Rightarrow> component_list_request \<Rightarrow> inventory_error + component_page" where
  "list_components gw r =
     attempt (active_context gw (cr_exact_project_key r)) (\<lambda>c.
     attempt (initial_query c (cr_asset_kind r) (cr_exact_project_key r) (cr_page_size r) (cr_cursor r)) (\<lambda>q.
     attempt (inventory_page_for gw 0 q) (\<lambda>p.
     attempt (list_items r (vp_items p) [] []) (\<lambda>w.
     if cr_cursor r \<noteq> None \<and> vp_next_cursor p = cr_cursor r
     then Inl (InventoryServiceError CURSOR_LOOP ''inventory cursor did not advance'')
     else attempt (binding_of c (cr_exact_project_key r)) (\<lambda>b.
       attempt (warnings w) (\<lambda>ws.
       map_error InventoryDomainError (build_record ComponentPage_post_init
         \<lparr>cp_request = r, cp_binding = b, cp_items = vp_items p, cp_next_cursor = vp_next_cursor p, cp_warnings = ws\<rparr>)))))))"

definition lookup_item :: "asset_lookup_request \<Rightarrow> string list \<times> asset_reference option \<Rightarrow> asset_reference
    \<Rightarrow> inventory_error + string list \<times> asset_reference option" where
  "lookup_item r t item = attempt (admit_unique item (fst t)) (\<lambda>seen.
     checked (validate_item_scope item (lq_asset_kind r) (lq_exact_project_key r))
     (Inr (seen, if ar_product_identity item = lq_product_identity r then Some item else snd t)))"

definition lookup_answer :: "asset_lookup_request \<Rightarrow> model_context \<Rightarrow> asset_reference option
    \<Rightarrow> inventory_error + asset_lookup_result" where
  "lookup_answer r c found = (case found of
      None \<Rightarrow> Inl (InventoryServiceError INVENTORY_NOT_FOUND ''product UUID was not found in the exact scope'')
    | Some a \<Rightarrow>
        if ar_lifecycle_state a \<noteq> ACTIVE
        then Inl (InventoryServiceError UNRESOLVED_PRODUCT_IDENTITY ''product UUID is present but its identity is unresolved'')
        else if pl_object_class (ar_locator a) \<noteq> lq_exact_object_class r
        then Inl (InventoryServiceError CLASS_MISMATCH ''product UUID resolved to a different object class'')
        else attempt (binding_of c (lq_exact_project_key r)) (\<lambda>b.
          map_error InventoryDomainError (build_record AssetLookupResult_post_init
            \<lparr>lx_request = r, lx_binding = b, lx_asset = a\<rparr>)))"

definition lookup_asset :: "inventory_gateway \<Rightarrow> asset_lookup_request \<Rightarrow> (inventory_error + asset_lookup_result) option" where
  "lookup_asset gw r =
     (if lq_exact_object_class r \<notin> set (supported_object_classes (lq_asset_kind r))
      then Some (Inl (InventoryServiceError CLASS_MISMATCH ''requested object class is not admitted for the asset kind''))
      else case active_context gw (lq_exact_project_key r) of
        Inl e \<Rightarrow> Some (Inl e)
      | Inr c \<Rightarrow> (case initial_query c (lq_asset_kind r) (lq_exact_project_key r) (lq_page_size r) None of
          Inl e \<Rightarrow> Some (Inl e)
        | Inr q \<Rightarrow> map_option (\<lambda>(res, n). attempt res (\<lambda>t. lookup_answer r c (snd t)))
            (scan gw (lookup_item r) (lq_inventory_limit r) q 0 ([], None))))"

end
