(* ===== verification/Inventory_Laws.thy ===== *)
theory Inventory_Laws
  imports Inventory_Service
begin

text \<open>
  The traversal as a chain of pages: what \<open>_scan\<close> hands to its consumer, when it ends,
  and how many requests it makes.  The look-up, the summary and the list are read off it.
\<close>

section \<open>The consumer\<close>

fun consume :: "('s \<Rightarrow> 'a \<Rightarrow> 'e + 's) \<Rightarrow> 's \<Rightarrow> 'a list \<Rightarrow> 'e + 's" where
  "consume body s [] = Inr s"
| "consume body s (x # xs) = attempt (body s x) (\<lambda>s'. consume body s' xs)"

lemma consume_append: "consume body s (xs @ ys) = attempt (consume body s xs) (\<lambda>s'. consume body s' ys)"
  by (induction xs arbitrary: s) (simp_all add: attempt_def split: sum.splits)

lemma feed_Inr_iff:
  "k \<le> limit \<Longrightarrow> feed body limit k s xs = Inr (k', s')
     \<longleftrightarrow> k' = k + int (length xs) \<and> k' \<le> limit \<and> consume body s xs = Inr s'"
proof (induction xs arbitrary: k s)
  case Nil
  then show ?case by auto
next
  case (Cons x xs)
  show ?case
  proof (cases "limit < k + 1")
    case True
    then show ?thesis by auto
  next
    case False
    then show ?thesis using Cons.IH [of "k + 1"] by (auto simp: attempt_Inr_iff)
  qed
qed

lemma feed_Inl:
  assumes "feed body limit k s xs = Inl e" "k + int (length xs) \<le> limit"
  shows "consume body s xs \<noteq> Inr s'"
proof
  assume "consume body s xs = Inr s'"
  with assms(2) have "feed body limit k s xs = Inr (k + int (length xs), s')" by (simp add: feed_Inr_iff)
  with assms(1) show False by simp
qed

section \<open>Chains of pages\<close>

text \<open>
  The pages that a gateway serves from the call numbered \<open>n\<close> on: each answers its query,
  each but the last names the cursor of the next query, the last names none.
\<close>

fun page_chain :: "inventory_gateway \<Rightarrow> inventory_query \<Rightarrow> nat \<Rightarrow> inventory_page list \<Rightarrow> bool" where
  "page_chain gw q n [] \<longleftrightarrow> False"
| "page_chain gw q n (p # ps) \<longleftrightarrow> inventory_page_for gw n q = Inr p \<and>
     (case vp_next_cursor p of
        None \<Rightarrow> ps = []
      | Some c \<Rightarrow> (case next_query q (cursor_token c) of
            Inl e \<Rightarrow> False
          | Inr q' \<Rightarrow> page_chain gw q' (Suc n) ps))"

definition page_tokens :: "inventory_page list \<Rightarrow> string list" where
  "page_tokens ps = List.map_filter (\<lambda>p. map_option cursor_token (vp_next_cursor p)) ps"

definition page_items :: "inventory_page list \<Rightarrow> asset_reference list" where
  "page_items ps = concat (map vp_items ps)"

lemma page_tokens_simps [simp]:
  "page_tokens [] = []"
  "vp_next_cursor p = None \<Longrightarrow> page_tokens (p # ps) = page_tokens ps"
  "vp_next_cursor p = Some c \<Longrightarrow> page_tokens (p # ps) = cursor_token c # page_tokens ps"
  by (simp_all add: page_tokens_def List.map_filter_def)

lemma page_items_simps [simp]: "page_items [] = []" "page_items (p # ps) = vp_items p @ page_items ps"
  by (simp_all add: page_items_def)

lemma next_query_Inr_iff:
  "next_query q token = Inr q' \<longleftrightarrow> PageCursor_post_init (PageCursor token) = None
     \<and> q' = q\<lparr>vq_cursor := Some (PageCursor token)\<rparr> \<and> InventoryQuery_post_init q' = None"
  by (auto simp: next_query_def result_iffs)

text \<open>Whether the current query's own cursor is already among the cursors seen.\<close>

definition cursor_seen :: "inventory_query \<Rightarrow> string list \<Rightarrow> bool" where
  "cursor_seen q seen \<longleftrightarrow> (\<forall>token. vq_cursor q = Some (PageCursor token) \<longrightarrow> token \<in> set seen)"

lemma cursor_seen_simps [simp]:
  "vq_cursor q = None \<Longrightarrow> cursor_seen q seen"
  "cursor_seen (q\<lparr>vq_cursor := Some c\<rparr>) (cursor_token c # seen)"
  by (auto simp: cursor_seen_def)

lemma scan_round_goes_on:
  assumes "k \<le> limit" "cursor_seen q seen"
  shows "scan_round gw body limit q seen k n s = Inr (q', seen', k', s') \<longleftrightarrow>
    (\<exists>p c. inventory_page_for gw n q = Inr p \<and> vp_next_cursor p = Some c \<and> cursor_token c \<notin> set seen
       \<and> next_query q (cursor_token c) = Inr q' \<and> seen' = cursor_token c # seen
       \<and> k' = k + int (length (vp_items p)) \<and> k' \<le> limit \<and> consume body s (vp_items p) = Inr s')"
  using assms
  by (auto simp: scan_round_def feed_Inr_iff cursor_seen_def Let_def split: sum.splits option.splits dest: feed_Inl)

lemma scan_round_returns:
  assumes "k \<le> limit"
  shows "scan_round gw body limit q seen k n s = Inl (Inr s') \<longleftrightarrow>
    (\<exists>p. inventory_page_for gw n q = Inr p \<and> vp_next_cursor p = None
       \<and> k + int (length (vp_items p)) \<le> limit \<and> consume body s (vp_items p) = Inr s')"
  using assms by (auto simp: scan_round_def feed_Inr_iff Let_def split: sum.splits option.splits dest: feed_Inl)

section \<open>The traversal ends\<close>

text \<open>The cursors that a gateway can still name: a finite supply, since a cursor is bounded.\<close>

definition unseen_tokens :: "string list \<Rightarrow> nat" where
  "unseen_tokens seen = card ({t :: string. length t \<le> 4096} - set seen)"

lemma finite_tokens: "finite {t :: string. length t \<le> 4096}"
  using finite_lists_length_le [of "UNIV :: char set" 4096] by simp

lemma unseen_tokens_Cons:
  "length t \<le> 4096 \<Longrightarrow> t \<notin> set seen \<Longrightarrow> unseen_tokens (t # seen) < unseen_tokens seen"
  unfolding unseen_tokens_def by (rule psubset_card_mono) (use finite_tokens in auto)

lemma PageCursor_length: "PageCursor_post_init (PageCursor t) = None \<Longrightarrow> length t \<le> 4096"
  by (simp add: PageCursor_post_init_def require_text_max_def)

lemma scan_round_progress:
  assumes "scan_round gw body limit q seen k n s = Inr (q', seen', k', s')"
  shows "unseen_tokens seen' < unseen_tokens seen"
  using assms
  by (auto simp: scan_round_def next_query_Inr_iff Let_def split: sum.splits option.splits if_splits
        intro!: unseen_tokens_Cons PageCursor_length)

lemma scan_from_returns: "\<exists>r m. scan_from gw body limit q seen k n s = Some (r, m)"
proof (induction "unseen_tokens seen" arbitrary: q seen k n s rule: less_induct)
  case less
  show ?case
  proof (cases "scan_round gw body limit q seen k n s")
    case (Inl r)
    then show ?thesis by (simp add: scan_from.simps)
  next
    case (Inr z)
    obtain q' seen' k' s' where z: "z = (q', seen', k', s')" by (cases z)
    have "unseen_tokens seen' < unseen_tokens seen"
      using Inr z by (simp add: scan_round_progress)
    from less [OF this] Inr z show ?thesis by (subst scan_from.simps) simp
  qed
qed

section \<open>What a traversal returns\<close>

lemma scan_from_chain:
  assumes "scan_from gw body limit q seen k n s = Some (Inr s', m)" "k \<le> limit" "cursor_seen q seen"
  shows "\<exists>ps. page_chain gw q n ps \<and> distinct (page_tokens ps) \<and> set (page_tokens ps) \<inter> set seen = {}
    \<and> k + int (length (page_items ps)) \<le> limit \<and> consume body s (page_items ps) = Inr s' \<and> m = n + length ps"
  using assms
proof (induction "unseen_tokens seen" arbitrary: q seen k n s rule: less_induct)
  case less
  show ?case
  proof (cases "scan_round gw body limit q seen k n s")
    case (Inl r)
    with less.prems(1) have r: "r = Inr s'" "m = Suc n" by (simp_all add: scan_from.simps)
    from Inl r less.prems(2) obtain p where "inventory_page_for gw n q = Inr p" "vp_next_cursor p = None"
      "k + int (length (vp_items p)) \<le> limit" "consume body s (vp_items p) = Inr s'"
      by (auto simp: scan_round_returns)
    with r show ?thesis by (intro exI [of _ "[p]"]) simp
  next
    case (Inr z)
    obtain q' seen' k' s'' where z: "z = (q', seen', k', s'')" by (cases z)
    with Inr have round: "scan_round gw body limit q seen k n s = Inr (q', seen', k', s'')" by simp
    then obtain p c where p: "inventory_page_for gw n q = Inr p" "vp_next_cursor p = Some c"
        "cursor_token c \<notin> set seen" "next_query q (cursor_token c) = Inr q'" "seen' = cursor_token c # seen"
        "k' = k + int (length (vp_items p))" "k' \<le> limit" "consume body s (vp_items p) = Inr s''"
      using less.prems(2,3) by (auto simp: scan_round_goes_on)
    have rest: "scan_from gw body limit q' seen' k' (Suc n) s'' = Some (Inr s', m)"
      using less.prems(1) round by (subst (asm) scan_from.simps) simp
    have "cursor_seen q' seen'" using p(4,5) by (auto simp: next_query_Inr_iff)
    from less.hyps [OF scan_round_progress [OF round] rest p(7) this] obtain ps where
      "page_chain gw q' (Suc n) ps" "distinct (page_tokens ps)" "set (page_tokens ps) \<inter> set seen' = {}"
      "k' + int (length (page_items ps)) \<le> limit" "consume body s'' (page_items ps) = Inr s'" "m = Suc n + length ps"
      by blast
    with p show ?thesis by (intro exI [of _ "p # ps"]) (simp add: consume_append)
  qed
qed

lemma chain_scan_from:
  assumes "page_chain gw q n ps" "distinct (page_tokens ps)" "set (page_tokens ps) \<inter> set seen = {}"
    "k + int (length (page_items ps)) \<le> limit" "consume body s (page_items ps) = Inr s'" "cursor_seen q seen"
  shows "scan_from gw body limit q seen k n s = Some (Inr s', n + length ps)"
  using assms
proof (induction ps arbitrary: q n seen k s)
  case Nil
  then show ?case by simp
next
  case (Cons p ps)
  from Cons.prems(5) obtain s1 where s1: "consume body s (vp_items p) = Inr s1"
      "consume body s1 (page_items ps) = Inr s'"
    by (auto simp: consume_append attempt_Inr_iff)
  have k: "k \<le> limit" "k + int (length (vp_items p)) \<le> limit" using Cons.prems(4) by simp_all
  show ?case
  proof (cases "vp_next_cursor p")
    case None
    with Cons.prems(1) have "inventory_page_for gw n q = Inr p" "ps = []" by simp_all
    moreover from this None s1(1) k have "scan_round gw body limit q seen k n s = Inl (Inr s1)"
      by (auto simp: scan_round_returns)
    ultimately show ?thesis using s1(2) by (simp add: scan_from.simps)
  next
    case (Some c)
    with Cons.prems(1) obtain q' where p: "inventory_page_for gw n q = Inr p"
        "next_query q (cursor_token c) = Inr q'" "page_chain gw q' (Suc n) ps"
      by (auto split: sum.splits)
    have fresh: "cursor_token c \<notin> set seen" "cursor_token c \<notin> set (page_tokens ps)"
      using Cons.prems(2,3) Some by auto
    let ?k = "k + int (length (vp_items p))" and ?seen = "cursor_token c # seen"
    have round: "scan_round gw body limit q seen k n s = Inr (q', ?seen, ?k, s1)"
      using k Cons.prems(6) p Some fresh(1) s1(1) by (simp add: scan_round_goes_on)
    have "scan_from gw body limit q' ?seen ?k (Suc n) s1 = Some (Inr s', Suc n + length ps)"
    proof (rule Cons.IH [OF p(3) _ _ _ s1(2)])
      show "distinct (page_tokens ps)" using Cons.prems(2) Some by simp
      show "set (page_tokens ps) \<inter> set ?seen = {}" using Cons.prems(3) Some fresh by auto
      show "?k + int (length (page_items ps)) \<le> limit" using Cons.prems(4) by simp
      show "cursor_seen q' ?seen" using p(2) by (auto simp: next_query_Inr_iff)
    qed
    with round show ?thesis by (subst scan_from.simps) simp
  qed
qed

lemma scan_Inr_iff:
  assumes "vq_cursor q = None"
  shows "scan gw body limit q n s = Some (Inr s', m) \<longleftrightarrow>
    (\<exists>ps. page_chain gw q n ps \<and> distinct (page_tokens ps) \<and> int (length (page_items ps)) \<le> limit
       \<and> consume body s (page_items ps) = Inr s' \<and> m = n + length ps)"
proof (cases "limit < 0")
  case True
  then show ?thesis by (auto simp: scan_def)
next
  case False
  then show ?thesis
    using scan_from_chain [of gw body limit q "[]" 0 n s s' m] chain_scan_from [of gw q n _ "[]" 0 limit body s s'] assms
    by (auto simp: scan_def)
qed

text \<open>A page that names another page carries items: what the item limit needs to bound the requests.\<close>

definition pages_carry_items :: "inventory_gateway \<Rightarrow> bool" where
  "pages_carry_items gw \<longleftrightarrow> (\<forall>n q p. inventory_page_for gw n q = Inr p \<longrightarrow> vp_next_cursor p \<noteq> None \<longrightarrow> vp_items p \<noteq> [])"

lemma scan_from_requests:
  assumes "scan_from gw body limit q seen k n s = Some (r, m)" "k \<le> limit" "cursor_seen q seen" "pages_carry_items gw"
  shows "int m \<le> int n + (limit - k) + 1"
  using assms
proof (induction "unseen_tokens seen" arbitrary: q seen k n s rule: less_induct)
  case less
  show ?case
  proof (cases "scan_round gw body limit q seen k n s")
    case (Inl r')
    with less.prems show ?thesis by (simp add: scan_from.simps)
  next
    case (Inr z)
    obtain q' seen' k' s'' where z: "z = (q', seen', k', s'')" by (cases z)
    with Inr have round: "scan_round gw body limit q seen k n s = Inr (q', seen', k', s'')" by simp
    then obtain p c where p: "inventory_page_for gw n q = Inr p" "vp_next_cursor p = Some c"
        "next_query q (cursor_token c) = Inr q'" "seen' = cursor_token c # seen"
        "k' = k + int (length (vp_items p))" "k' \<le> limit"
      using less.prems(2,3) by (auto simp: scan_round_goes_on)
    have rest: "scan_from gw body limit q' seen' k' (Suc n) s'' = Some (r, m)"
      using less.prems(1) round by (subst (asm) scan_from.simps) simp
    have "cursor_seen q' seen'" using p(3,4) by (auto simp: next_query_Inr_iff)
    from less.hyps [OF scan_round_progress [OF round] rest p(6) this less.prems(4)]
    have "int m \<le> int (Suc n) + (limit - k') + 1" .
    moreover have "vp_items p \<noteq> []" using less.prems(4) p(1,2) unfolding pages_carry_items_def by blast
    then have "k + 1 \<le> k'" using p(5) by (cases "vp_items p") auto
    ultimately show ?thesis by simp
  qed
qed

end
