(* ===== verification/Inventory_Answers.thy ===== *)
theory Inventory_Answers
  imports Inventory_Laws
begin

text \<open>
  What the three views of the inventory service answer, in terms of the items of the pages
  that the gateway served.
\<close>

section \<open>The consumers\<close>

definition in_scope :: "asset_kind \<Rightarrow> string \<Rightarrow> asset_reference \<Rightarrow> bool" where
  "in_scope kind project a \<longleftrightarrow> ar_asset_kind a = kind \<and> ar_project_key a = project
     \<and> pp_project_key (pl_project_provenance (ar_locator a)) = project"

lemma validate_item_scope_None_iff: "validate_item_scope a kind project = None \<longleftrightarrow> in_scope kind project a"
  by (simp add: validate_item_scope_def in_scope_def)

lemma admit_unique_Inr_iff: "admit_unique a seen = Inr seen' \<longleftrightarrow> reference_key a \<notin> set seen \<and> seen' = reference_key a # seen"
  by (auto simp: admit_unique_def)

lemma consume_lookup:
  "consume (lookup_item r) (seen, found) items = Inr t \<longleftrightarrow>
     distinct (map reference_key items) \<and> set (map reference_key items) \<inter> set seen = {}
     \<and> list_all (in_scope (lq_asset_kind r) (lq_exact_project_key r)) items
     \<and> t = (rev (map reference_key items) @ seen,
         fold (\<lambda>a f. if ar_product_identity a = lq_product_identity r then Some a else f) items found)"
  by (induction items arbitrary: seen found)
    (auto simp: lookup_item_def result_iffs admit_unique_Inr_iff validate_item_scope_None_iff)

text \<open>With distinct identities the last match is the only one.\<close>

lemma fold_found:
  "fold (\<lambda>a f. if ar_product_identity a = i then Some a else f) items found
     = (case rev (filter (\<lambda>a. ar_product_identity a = i) items) of [] \<Rightarrow> found | a # _ \<Rightarrow> Some a)"
  by (induction items arbitrary: found) (auto split: list.splits)

lemma found_Some:
  assumes "fold (\<lambda>a f. if ar_product_identity a = i then Some a else f) items None = Some a"
  shows "a \<in> set items \<and> ar_product_identity a = i"
proof -
  obtain as where "rev (filter (\<lambda>a. ar_product_identity a = i) items) = a # as"
    using assms by (auto simp: fold_found split: list.splits)
  then have "a \<in> set (rev (filter (\<lambda>a. ar_product_identity a = i) items))" by simp
  then show ?thesis by simp
qed

lemma found_None:
  "fold (\<lambda>a f. if ar_product_identity a = i then Some a else f) items None = None
     \<longleftrightarrow> (\<forall>a \<in> set items. ar_product_identity a \<noteq> i)"
proof -
  have "fold (\<lambda>a f. if ar_product_identity a = i then Some a else f) items None = None
      \<longleftrightarrow> filter (\<lambda>a. ar_product_identity a = i) items = []"
    by (simp add: fold_found split: list.splits)
  then show ?thesis by (simp add: filter_empty_conv)
qed

section \<open>Listings\<close>

text \<open>A complete listing of one kind: the chain of pages from the initial query on.\<close>

definition kind_listing :: "inventory_gateway \<Rightarrow> model_context \<Rightarrow> asset_kind \<Rightarrow> string \<Rightarrow> int \<Rightarrow> nat
    \<Rightarrow> inventory_page list \<Rightarrow> bool" where
  "kind_listing gw c kind project page_size n ps \<longleftrightarrow>
     (\<exists>q. initial_query c kind project page_size None = Inr q \<and> page_chain gw q n ps \<and> distinct (page_tokens ps))"

lemma initial_query_cursor: "initial_query c kind project page_size cursor = Inr q \<Longrightarrow> vq_cursor q = cursor"
  by (auto simp: initial_query_def result_iffs)

section \<open>Look-up\<close>

lemma lookup_answer_Inr:
  assumes "lookup_answer r c found = Inr x"
  shows "found = Some (lx_asset x)" "ar_lifecycle_state (lx_asset x) = ACTIVE"
    "pl_object_class (ar_locator (lx_asset x)) = lq_exact_object_class r" "lx_request x = r"
  using assms by (auto simp: lookup_answer_def result_iffs split: option.splits if_splits)

lemma lookup_scan:
  assumes "vq_cursor q = None"
    and "scan gw (lookup_item r) limit q n ([], None) = Some (Inr (seen, found), m)"
  shows "\<exists>ps. page_chain gw q n ps \<and> distinct (page_tokens ps) \<and> int (length (page_items ps)) \<le> limit
    \<and> distinct (map reference_key (page_items ps))
    \<and> list_all (in_scope (lq_asset_kind r) (lq_exact_project_key r)) (page_items ps)
    \<and> fold (\<lambda>a f. if ar_product_identity a = lq_product_identity r then Some a else f) (page_items ps) None = found"
  using assms(2) unfolding scan_Inr_iff [OF assms(1)] consume_lookup by auto

text \<open>What a successful look-up found: the one asset of the complete listing with that identity.\<close>

definition finds :: "asset_lookup_request \<Rightarrow> asset_reference list \<Rightarrow> asset_reference \<Rightarrow> bool" where
  "finds r items a \<longleftrightarrow> a \<in> set items \<and> ar_product_identity a = lq_product_identity r
     \<and> distinct (map reference_key items) \<and> list_all (in_scope (lq_asset_kind r) (lq_exact_project_key r)) items
     \<and> int (length items) \<le> lq_inventory_limit r"

lemma lookup_asset_Inr:
  assumes "lookup_asset gw r = Some (Inr x)"
  shows "\<exists>c ps. active_context gw (lq_exact_project_key r) = Inr c
    \<and> kind_listing gw c (lq_asset_kind r) (lq_exact_project_key r) (lq_page_size r) 0 ps
    \<and> finds r (page_items ps) (lx_asset x) \<and> ar_lifecycle_state (lx_asset x) = ACTIVE
    \<and> pl_object_class (ar_locator (lx_asset x)) = lq_exact_object_class r
    \<and> lq_exact_object_class r \<in> set (supported_object_classes (lq_asset_kind r)) \<and> lx_request x = r"
proof -
  from assms have supported: "lq_exact_object_class r \<in> set (supported_object_classes (lq_asset_kind r))"
    by (simp add: lookup_asset_def split: if_splits)
  from assms supported obtain c where c: "active_context gw (lq_exact_project_key r) = Inr c"
    by (simp add: lookup_asset_def split: sum.splits)
  from assms supported c obtain q where
      q: "initial_query c (lq_asset_kind r) (lq_exact_project_key r) (lq_page_size r) None = Inr q"
    by (simp add: lookup_asset_def split: sum.splits)
  from assms supported c q obtain res n where
      scan: "scan gw (lookup_item r) (lq_inventory_limit r) q 0 ([], None) = Some (res, n)"
      and answer: "attempt res (\<lambda>t. lookup_answer r c (snd t)) = Inr x"
    by (auto simp: lookup_asset_def)
  from answer obtain seen found where res: "res = Inr (seen, found)" and x: "lookup_answer r c found = Inr x"
    by (auto simp: attempt_Inr_iff)
  from lookup_scan [OF initial_query_cursor [OF q] scan [unfolded res]] obtain ps where
      ps: "page_chain gw q 0 ps" "distinct (page_tokens ps)" "int (length (page_items ps)) \<le> lq_inventory_limit r"
      "distinct (map reference_key (page_items ps))"
      "list_all (in_scope (lq_asset_kind r) (lq_exact_project_key r)) (page_items ps)"
      "fold (\<lambda>a f. if ar_product_identity a = lq_product_identity r then Some a else f) (page_items ps) None = found"
    by blast
  note x' = lookup_answer_Inr [OF x]
  have "finds r (page_items ps) (lx_asset x)"
    using found_Some [OF ps(6) [unfolded x'(1)]] ps(3-5) by (simp add: finds_def)
  moreover have "kind_listing gw c (lq_asset_kind r) (lq_exact_project_key r) (lq_page_size r) 0 ps"
    unfolding kind_listing_def using q ps(1,2) by blast
  ultimately show ?thesis using c x'(2-4) supported by blast
qed

lemma lookup_asset_not_found:
  assumes "active_context gw (lq_exact_project_key r) = Inr c"
    and "kind_listing gw c (lq_asset_kind r) (lq_exact_project_key r) (lq_page_size r) 0 ps"
    and "int (length (page_items ps)) \<le> lq_inventory_limit r" "distinct (map reference_key (page_items ps))"
    and "list_all (in_scope (lq_asset_kind r) (lq_exact_project_key r)) (page_items ps)"
    and "lq_exact_object_class r \<in> set (supported_object_classes (lq_asset_kind r))"
    and "\<forall>a \<in> set (page_items ps). ar_product_identity a \<noteq> lq_product_identity r"
  shows "lookup_asset gw r
    = Some (Inl (InventoryServiceError INVENTORY_NOT_FOUND ''product UUID was not found in the exact scope''))"
proof -
  from assms(2) obtain q where q: "initial_query c (lq_asset_kind r) (lq_exact_project_key r) (lq_page_size r) None = Inr q"
      "page_chain gw q 0 ps" "distinct (page_tokens ps)"
    unfolding kind_listing_def by blast
  have found: "fold (\<lambda>a f. if ar_product_identity a = lq_product_identity r then Some a else f) (page_items ps) None = None"
    using assms(7) by (simp only: found_None)
  have "consume (lookup_item r) ([], None) (page_items ps) = Inr (rev (map reference_key (page_items ps)) @ [], None)"
    unfolding consume_lookup found using assms(4,5) by simp
  then have "scan gw (lookup_item r) (lq_inventory_limit r) q 0 ([], None)
      = Some (Inr (rev (map reference_key (page_items ps)) @ [], None), 0 + length ps)"
    using q(2,3) assms(3) by (intro scan_Inr_iff [OF initial_query_cursor [OF q(1)], THEN iffD2] exI [of _ ps]) simp
  with assms(1,6) q(1) show ?thesis by (simp add: lookup_asset_def lookup_answer_def)
qed

section \<open>Summary\<close>

definition counted :: "asset_kind \<Rightarrow> item_class \<Rightarrow> asset_reference list \<Rightarrow> int" where
  "counted kind cl items = int (length (filter (\<lambda>a. classify_item kind a = cl) items))"

lemma counted_simps [simp]:
  "counted kind cl [] = 0"
  "counted kind cl (a # items) = (if classify_item kind a = cl then 1 else 0) + counted kind cl items"
  by (simp_all add: counted_def)

definition sampled :: "int \<Rightarrow> asset_reference list \<Rightarrow> asset_reference list \<Rightarrow> asset_reference list" where
  "sampled limit samples items = samples @ take (nat (limit - int (length samples))) items"

lemma sampled_Cons:
  "sampled limit (if int (length samples) < limit then samples @ [x] else samples) items = sampled limit samples (x # items)"
proof (cases "int (length samples) < limit")
  case True
  then have "nat (limit - int (length samples)) = Suc (nat (limit - int (length (samples @ [x]))))" by simp
  with True show ?thesis by (simp add: sampled_def)
next
  case False
  then show ?thesis by (simp add: sampled_def)
qed

text \<open>The state of the loop of one kind after its items.\<close>

definition advance :: "model_summary_request \<Rightarrow> asset_kind \<Rightarrow> asset_reference list \<Rightarrow> kind_state \<Rightarrow> kind_state" where
  "advance r kind items t =
     \<lparr>kt_seen = rev (map reference_key items) @ kt_seen t,
      kt_warnings = fold (\<lambda>a. warn_item kind a (sr_warning_example_limit r)) items (kt_warnings t),
      kt_scanned = kt_scanned t + int (length items), kt_total = kt_total t + int (length items),
      kt_supported = kt_supported t + counted kind ItemSupported items,
      kt_unsupported = kt_unsupported t + counted kind ItemUnsupported items,
      kt_unresolved = kt_unresolved t + counted kind ItemUnresolved items,
      kt_samples = sampled (sr_sample_limit_per_kind r) (kt_samples t) items\<rparr>"

lemma summary_item_Inr_iff:
  "summary_item r kind t x = Inr t' \<longleftrightarrow>
     reference_key x \<notin> set (kt_seen t) \<and> in_scope kind (sr_exact_project_key r) x \<and> t' = advance r kind [x] t"
  unfolding summary_item_def advance_def attempt_Inr_iff checked_Inr_iff admit_unique_Inr_iff validate_item_scope_None_iff
  by (auto simp: sampled_def)

lemma advance_Cons: "advance r kind xs (advance r kind [x] t) = advance r kind (x # xs) t"
proof -
  have "sampled l (sampled l s [x]) xs = sampled l s (x # xs)" for l s
    using sampled_Cons [of l s x "[]"] sampled_Cons [of l s x xs] by (simp add: sampled_def split: if_splits)
  then show ?thesis by (simp add: advance_def add.assoc add.left_commute)
qed

lemma consume_summary:
  "consume (summary_item r kind) t items = Inr t' \<longleftrightarrow>
     distinct (map reference_key items) \<and> set (map reference_key items) \<inter> set (kt_seen t) = {}
     \<and> list_all (in_scope kind (sr_exact_project_key r)) items \<and> t' = advance r kind items t"
proof (induction items arbitrary: t)
  case Nil
  then show ?case by (auto simp: advance_def sampled_def)
next
  case (Cons x xs)
  have seen: "kt_seen (advance r kind [x] t) = reference_key x # kt_seen t" by (simp add: advance_def)
  show ?case
    unfolding consume.simps attempt_Inr_iff summary_item_Inr_iff
    by (auto simp: Cons.IH seen advance_Cons)
qed

text \<open>The summary of one kind, counted from its items.\<close>

definition summary_of :: "model_summary_request \<Rightarrow> asset_kind \<Rightarrow> asset_reference list \<Rightarrow> asset_kind_summary" where
  "summary_of r kind items =
     \<lparr>ks_asset_kind = kind, ks_total_count = int (length items),
      ks_supported_count = counted kind ItemSupported items,
      ks_unsupported_count = counted kind ItemUnsupported items,
      ks_unresolved_count = counted kind ItemUnresolved items,
      ks_sample_references = take (nat (sr_sample_limit_per_kind r)) items\<rparr>"

fun listings :: "inventory_gateway \<Rightarrow> model_summary_request \<Rightarrow> model_context \<Rightarrow> asset_kind list \<Rightarrow> nat
    \<Rightarrow> inventory_page list list \<Rightarrow> bool" where
  "listings gw r c [] n pss \<longleftrightarrow> pss = []"
| "listings gw r c (kind # kinds) n pss \<longleftrightarrow> (case pss of
      [] \<Rightarrow> False
    | ps # pss' \<Rightarrow> kind_listing gw c kind (sr_exact_project_key r) (sr_page_size r) n ps
        \<and> list_all (in_scope kind (sr_exact_project_key r)) (page_items ps)
        \<and> listings gw r c kinds (n + length ps) pss')"

definition all_items :: "inventory_page list list \<Rightarrow> asset_reference list" where
  "all_items pss = concat (map page_items pss)"

lemma scan_kind_Inr:
  assumes "scan_kind gw r c kind n seen w scanned = Some (Inr t, m)"
  shows "\<exists>ps. kind_listing gw c kind (sr_exact_project_key r) (sr_page_size r) n ps
    \<and> list_all (in_scope kind (sr_exact_project_key r)) (page_items ps) \<and> m = n + length ps
    \<and> distinct (map reference_key (page_items ps)) \<and> set (map reference_key (page_items ps)) \<inter> set seen = {}
    \<and> scanned + int (length (page_items ps)) \<le> sr_inventory_limit r
    \<and> kt_seen t = rev (map reference_key (page_items ps)) @ seen
    \<and> kt_scanned t = scanned + int (length (page_items ps))
    \<and> (\<forall>k. kind_summary kind t = Inr k \<longrightarrow> k = summary_of r kind (page_items ps))"
proof -
  let ?t = "\<lparr>kt_seen = seen, kt_warnings = w, kt_scanned = scanned, kt_total = 0, kt_supported = 0,
      kt_unsupported = 0, kt_unresolved = 0, kt_samples = []\<rparr>"
  from assms obtain q where q: "initial_query c kind (sr_exact_project_key r) (sr_page_size r) None = Inr q"
    by (cases "initial_query c kind (sr_exact_project_key r) (sr_page_size r) None") (simp_all add: scan_kind_def)
  with assms have "scan gw (summary_item r kind) (sr_inventory_limit r - scanned) q n ?t = Some (Inr t, m)"
    by (simp add: scan_kind_def)
  then obtain ps where ps: "page_chain gw q n ps" "distinct (page_tokens ps)"
      "int (length (page_items ps)) \<le> sr_inventory_limit r - scanned" "m = n + length ps"
      and t: "distinct (map reference_key (page_items ps))" "set (map reference_key (page_items ps)) \<inter> set (kt_seen ?t) = {}"
        "list_all (in_scope kind (sr_exact_project_key r)) (page_items ps)" "t = advance r kind (page_items ps) ?t"
    unfolding scan_Inr_iff [OF initial_query_cursor [OF q]] consume_summary by blast
  have "kind_listing gw c kind (sr_exact_project_key r) (sr_page_size r) n ps"
    unfolding kind_listing_def using q ps(1,2) by blast
  moreover have "kind_summary kind t = Inr k \<longrightarrow> k = summary_of r kind (page_items ps)" for k
    unfolding kind_summary_def t(4) by (simp add: build_record_Inr_iff advance_def sampled_def summary_of_def)
  moreover have "kt_seen t = rev (map reference_key (page_items ps)) @ seen"
      "kt_scanned t = scanned + int (length (page_items ps))"
    unfolding t(4) by (simp_all add: advance_def)
  moreover have "set (map reference_key (page_items ps)) \<inter> set seen = {}" using t(2) by simp
  moreover have "scanned + int (length (page_items ps)) \<le> sr_inventory_limit r" using ps(3) by simp
  ultimately show ?thesis using ps(4) t(1,3) by blast
qed

lemma summarize_kinds_Inr:
  assumes "summarize_kinds gw r c kinds n seen w scanned acc = Some (Inr (w', cats))" "scanned \<le> sr_inventory_limit r"
  shows "\<exists>pss. listings gw r c kinds n pss \<and> cats = acc @ map2 (summary_of r) kinds (map page_items pss)
    \<and> distinct (map reference_key (all_items pss)) \<and> set (map reference_key (all_items pss)) \<inter> set seen = {}
    \<and> scanned + int (length (all_items pss)) \<le> sr_inventory_limit r"
  using assms
proof (induction kinds arbitrary: n seen w scanned acc)
  case Nil
  then show ?case by (simp add: all_items_def)
next
  case (Cons kind kinds)
  from Cons.prems(1) obtain res m where scan: "scan_kind gw r c kind n seen w scanned = Some (res, m)"
    by (cases "scan_kind gw r c kind n seen w scanned") auto
  with Cons.prems(1) obtain t k where "attempt res (\<lambda>t. attempt (kind_summary kind t) (\<lambda>k. Inr (t, k))) = Inr (t, k)"
      and rest: "summarize_kinds gw r c kinds m (kt_seen t) (kt_warnings t) (kt_scanned t) (acc @ [k]) = Some (Inr (w', cats))"
    by (auto split: sum.splits)
  then have res: "res = Inr t" and k: "kind_summary kind t = Inr k" by (auto simp: attempt_Inr_iff)
  from scan_kind_Inr [OF scan [unfolded res]] k obtain ps where
      ps: "kind_listing gw c kind (sr_exact_project_key r) (sr_page_size r) n ps"
        "list_all (in_scope kind (sr_exact_project_key r)) (page_items ps)" "m = n + length ps"
        "distinct (map reference_key (page_items ps))" "set (map reference_key (page_items ps)) \<inter> set seen = {}"
        "scanned + int (length (page_items ps)) \<le> sr_inventory_limit r"
      and t: "kt_seen t = rev (map reference_key (page_items ps)) @ seen"
        "kt_scanned t = scanned + int (length (page_items ps))" "k = summary_of r kind (page_items ps)"
    by blast
  have "kt_scanned t \<le> sr_inventory_limit r" using t(2) ps(6) by simp
  from Cons.IH [OF rest this] obtain pss where pss: "listings gw r c kinds m pss"
      "cats = (acc @ [k]) @ map2 (summary_of r) kinds (map page_items pss)"
      "distinct (map reference_key (all_items pss))" "set (map reference_key (all_items pss)) \<inter> set (kt_seen t) = {}"
      "kt_scanned t + int (length (all_items pss)) \<le> sr_inventory_limit r"
    by blast
  have "listings gw r c (kind # kinds) n (ps # pss)" using pss(1) ps(1-3) by simp
  moreover have "distinct (map reference_key (all_items (ps # pss)))"
    using ps(4) pss(3,4) t(1) by (auto simp: all_items_def)
  moreover have "set (map reference_key (all_items (ps # pss))) \<inter> set seen = {}"
  proof -
    have "set (map reference_key (all_items (ps # pss)))
        = set (map reference_key (page_items ps)) \<union> set (map reference_key (all_items pss))"
      by (simp add: all_items_def image_Un)
    with ps(5) pss(4) show ?thesis unfolding t(1) set_append set_rev by blast
  qed
  moreover have "scanned + int (length (all_items (ps # pss))) \<le> sr_inventory_limit r"
    using t(2) pss(5) by (simp add: all_items_def)
  ultimately show ?case using pss(2) t(3) by (intro exI [of _ "ps # pss"]) simp
qed

end
