(* ===== verification/Inventory_Properties.thy ===== *)
theory Inventory_Properties
  imports Inventory_Answers Graph_Samples
begin

text \<open>The properties of the inventory service, with a small paged gateway for their witnesses.\<close>

section \<open>A paged gateway\<close>

text \<open>Two terminals on two pages; every other kind has one empty page.\<close>

definition sample_page :: "inventory_query \<Rightarrow> inventory_page" where
  "sample_page q =
     (if vq_asset_kind q \<noteq> Some TERMINAL
      then \<lparr>vp_query = q, vp_items = [], vp_next_cursor = None, vp_deterministic_order = True\<rparr>
      else if vq_cursor q = None
      then \<lparr>vp_query = q, vp_items = [sample_asset 2], vp_next_cursor = Some (PageCursor ''next''), vp_deterministic_order = True\<rparr>
      else \<lparr>vp_query = q, vp_items = [sample_asset 3], vp_next_cursor = None, vp_deterministic_order = True\<rparr>)"

definition paged_gateway :: inventory_gateway where
  "paged_gateway = \<lparr>ig_active_context = Reply (sample_context [2, 3] 1 (sample_time 0 0)),
     ig_inventory = (\<lambda>n q. Reply (sample_page q))\<rparr>"

definition sample_lookup :: asset_lookup_request where
  "sample_lookup = \<lparr>lq_product_identity = sample_product 3, lq_asset_kind = TERMINAL, lq_exact_object_class = ''ElmTerm'',
     lq_exact_project_key = ''k'', lq_page_size = 1, lq_inventory_limit = 2\<rparr>"

definition sample_summary :: model_summary_request where
  "sample_summary = \<lparr>sr_exact_project_key = ''k'', sr_page_size = 1, sr_inventory_limit = 5,
     sr_sample_limit_per_kind = 1, sr_warning_example_limit = 3\<rparr>"

declare scan_from.simps [code]

definition sample_query :: inventory_query where
  "sample_query = \<lparr>vq_configuration_key = sample_key, vq_extraction_revision = \<lparr>scope_id = sample_uuid 1, counter = 1\<rparr>,
     vq_asset_kind = Some TERMINAL, vq_exact_project_key = Some ''k'', vq_page_size = 1, vq_cursor = None,
     vq_sort_specification = ''product_uuid_asc''\<rparr>"

lemma paged_gateway_carries_items: "pages_carry_items paged_gateway"
  by (auto simp: pages_carry_items_def inventory_page_for_def paged_gateway_def sample_page_def split: if_splits)

text \<open>A gateway of \<open>k\<close> empty pages, each naming a cursor of its own, and a last empty page.\<close>

definition hollow_cursor :: "nat \<Rightarrow> page_cursor" where
  "hollow_cursor n = PageCursor (replicate (Suc n) CHR ''x'')"

definition hollow_gateway :: "nat \<Rightarrow> inventory_gateway" where
  "hollow_gateway k = \<lparr>ig_active_context = Reply (sample_context [2, 3] 1 (sample_time 0 0)),
     ig_inventory = (\<lambda>n q. Reply \<lparr>vp_query = q, vp_items = [],
       vp_next_cursor = (if n < k then Some (hollow_cursor n) else None), vp_deterministic_order = True\<rparr>)\<rparr>"

lemma strip_text_replicate: "strip_text (replicate n CHR ''x'') = replicate n CHR ''x''"
  by (rule strip_text_no_space) (simp add: is_space_def)

lemma hollow_cursor_ok: "n < 4096 \<Longrightarrow> PageCursor_post_init (hollow_cursor n) = None"
  by (simp only: PageCursor_post_init_def hollow_cursor_def require_text_max_None_iff page_cursor.sel
        strip_text_replicate length_replicate) simp

lemma hollow_chain:
  assumes "n \<le> k" "k \<le> 4096" "InventoryQuery_post_init q = None"
  shows "\<exists>ps. page_chain (hollow_gateway k) q n ps \<and> length ps = Suc (k - n) \<and> page_items ps = []
    \<and> page_tokens ps = map (\<lambda>i. cursor_token (hollow_cursor i)) [n..<k]"
  using assms
proof (induction "k - n" arbitrary: n q)
  case 0
  then have "n = k" by simp
  let ?p = "\<lparr>vp_query = q, vp_items = [], vp_next_cursor = None, vp_deterministic_order = True\<rparr>"
  from \<open>n = k\<close> show ?case
    by (intro exI [of _ "[?p]"]) (simp add: hollow_gateway_def inventory_page_for_def)
next
  case (Suc d)
  then have less: "n < k" by simp
  let ?c = "hollow_cursor n"
  let ?q = "q\<lparr>vq_cursor := Some ?c\<rparr>"
  let ?p = "\<lparr>vp_query = q, vp_items = [], vp_next_cursor = Some ?c, vp_deterministic_order = True\<rparr>"
  have q: "InventoryQuery_post_init ?q = None" using Suc.prems(3) by (simp add: InventoryQuery_post_init_def)
  with less Suc.prems(2) have "next_query q (cursor_token ?c) = Inr ?q"
    by (simp add: next_query_Inr_iff hollow_cursor_ok)
  moreover have "d = k - Suc n" "Suc n \<le> k" using Suc.hyps(2) less by simp_all
  with Suc.hyps(1) [OF _ _ Suc.prems(2) q] obtain ps where
      "page_chain (hollow_gateway k) ?q (Suc n) ps" "length ps = Suc (k - Suc n)" "page_items ps = []"
      "page_tokens ps = map (\<lambda>i. cursor_token (hollow_cursor i)) [Suc n..<k]"
    by blast
  ultimately show ?case using less
    by (intro exI [of _ "?p # ps"])
      (simp add: hollow_gateway_def inventory_page_for_def upt_conv_Cons)
qed

section \<open>The traversal\<close>

text \<open>C18: The traversal reads the inventory as it is served.  From a query without a cursor it
  ends without an error in a state of its consumer exactly when the gateway serves a chain of
  pages with pairwise distinct cursors whose last page names none, the chain has no more items
  than the limit, and the consumer accepts its items in order and reaches that state; it then
  has made one request per page of the chain.\<close>

theorem scan_reads_the_listing:
  assumes "vq_cursor q = None"
  shows "scan gw body limit q n s = Some (Inr s', m) \<longleftrightarrow>
    (\<exists>ps. page_chain gw q n ps \<and> distinct (page_tokens ps) \<and> int (length (page_items ps)) \<le> limit
       \<and> consume body s (page_items ps) = Inr s' \<and> m = n + length ps)"
  by (rule scan_Inr_iff [OF assms])

theorem scan_reads_the_listing_witness:
  "\<exists>ps. page_chain paged_gateway sample_query 0 ps \<and> distinct (page_tokens ps) \<and> length (page_items ps) = 2"
proof -
  have q: "vq_cursor sample_query = None" by (simp add: sample_query_def)
  have scan: "scan paged_gateway (\<lambda>k x. Inr (Suc k)) 2 sample_query 0 0 = Some (Inr 2, 2)" by code_simp
  from scan [unfolded scan_reads_the_listing [OF q]] obtain ps where
      ps: "page_chain paged_gateway sample_query 0 ps" "distinct (page_tokens ps)"
      "consume (\<lambda>k x. Inr (Suc k)) 0 (page_items ps) = (Inr 2 :: inventory_error + nat)"
    by (elim exE conjE)
  have "consume (\<lambda>k x. Inr (Suc k)) k xs = (Inr (k + length xs) :: inventory_error + nat)" for k and xs :: "asset_reference list"
    by (induction xs arbitrary: k) simp_all
  with ps show ?thesis by auto
qed

text \<open>The traversal always returns, whatever the gateway answers: cursors are bounded in
  length and none is followed twice, so every sequence of pages ends in a result or an error.\<close>

theorem scan_always_returns: "\<exists>r m. scan gw body limit q n s = Some (r, m)"
  using scan_from_returns [of gw body limit q "[]" 0 n s] by (simp add: scan_def)

text \<open>C36: When every page that names another page carries items, the traversal makes progress
  towards its limit: with or without an error it returns after at most one request more than
  the limit has items.\<close>

theorem scan_requests_bounded:
  assumes "pages_carry_items gw" "vq_cursor q = None" "0 \<le> limit"
  shows "\<exists>r m. scan gw body limit q n s = Some (r, m) \<and> int m \<le> int n + limit + 1"
proof -
  obtain r m where scan: "scan_from gw body limit q [] 0 n s = Some (r, m)"
    using scan_from_returns [of gw body limit q "[]" 0 n s] by (elim exE)
  have "cursor_seen q []" using assms(2) by (simp add: cursor_seen_def)
  with scan have "int m \<le> int n + (limit - 0) + 1" using assms(1,3) by (intro scan_from_requests)
  with scan assms(3) show ?thesis by (simp add: scan_def)
qed

theorem scan_requests_bounded_witness:
  "\<exists>r m. scan paged_gateway (\<lambda>k x. Inr (Suc k)) 1 sample_query 0 0 = Some (r, m) \<and> int m \<le> int 0 + 1 + 1"
  by (rule scan_requests_bounded [OF paged_gateway_carries_items]) (simp_all add: sample_query_def)

text \<open>The item limit alone does not bound the requests: a gateway that answers with empty
  pages under fresh cursors is asked for all of them, even under a limit of no items at all.\<close>

theorem item_limit_does_not_bound_requests:
  assumes "k \<le> 4096" "InventoryQuery_post_init q = None" "vq_cursor q = None"
  shows "scan (hollow_gateway k) body 0 q 0 s = Some (Inr s, Suc k)"
proof -
  from hollow_chain [OF _ assms(1,2), of 0] obtain ps where ps: "page_chain (hollow_gateway k) q 0 ps"
      "length ps = Suc k" "page_items ps = []" "page_tokens ps = map (\<lambda>i. cursor_token (hollow_cursor i)) [0..<k]"
    by auto
  have "inj_on (\<lambda>i. cursor_token (hollow_cursor i)) A" for A
    by (rule inj_onI) (metis Suc_inject hollow_cursor_def length_replicate page_cursor.sel)
  with ps(4) have "distinct (page_tokens ps)" by (simp add: distinct_map)
  with ps(1-3) show ?thesis by (intro scan_Inr_iff [OF assms(3), THEN iffD2] exI [of _ ps]) simp
qed

theorem item_limit_does_not_bound_requests_witness:
  "scan (hollow_gateway 1000) (\<lambda>k x. Inr (Suc k)) 0 sample_query 0 0 = Some (Inr 0, Suc 1000)"
  by (rule item_limit_does_not_bound_requests) (code_simp | simp add: sample_query_def)+

section \<open>Look-up and summary\<close>

lemma paged_lookup: "case lookup_asset paged_gateway sample_lookup of Some (Inr x) \<Rightarrow> lx_asset x = sample_asset 3 | _ \<Rightarrow> False"
  by code_simp

lemma paged_summary: "case summarize paged_gateway sample_summary of Some (Inr s) \<Rightarrow> ms_total_count s = 2 | _ \<Rightarrow> False"
  by code_simp

text \<open>C19: A look-up that succeeds has read the complete listing of the kind in the active
  context's project, within the item limit, and returns the one asset in it with the requested
  identity; that asset is active, in the exact project, and of the requested and admitted class.\<close>

theorem lookup_finds_the_one_asset:
  assumes "lookup_asset gw r = Some (Inr x)"
  shows "\<exists>c ps. active_context gw (lq_exact_project_key r) = Inr c
    \<and> kind_listing gw c (lq_asset_kind r) (lq_exact_project_key r) (lq_page_size r) 0 ps
    \<and> finds r (page_items ps) (lx_asset x)
    \<and> (\<forall>b \<in> set (page_items ps). ar_product_identity b = lq_product_identity r \<longrightarrow> b = lx_asset x)
    \<and> ar_lifecycle_state (lx_asset x) = ACTIVE \<and> ar_project_key (lx_asset x) = lq_exact_project_key r
    \<and> pl_object_class (ar_locator (lx_asset x)) = lq_exact_object_class r
    \<and> lq_exact_object_class r \<in> set (supported_object_classes (lq_asset_kind r)) \<and> lx_request x = r"
proof -
  from lookup_asset_Inr [OF assms] obtain c ps where c: "active_context gw (lq_exact_project_key r) = Inr c"
      and ps: "kind_listing gw c (lq_asset_kind r) (lq_exact_project_key r) (lq_page_size r) 0 ps"
      and found: "finds r (page_items ps) (lx_asset x)"
      and rest: "ar_lifecycle_state (lx_asset x) = ACTIVE" "pl_object_class (ar_locator (lx_asset x)) = lq_exact_object_class r"
        "lq_exact_object_class r \<in> set (supported_object_classes (lq_asset_kind r))" "lx_request x = r"
    by blast
  have "b = lx_asset x" if "b \<in> set (page_items ps)" "ar_product_identity b = lq_product_identity r" for b
    using found that by (intro inj_onD [of reference_key "set (page_items ps)"])
      (auto simp: finds_def distinct_map reference_key_def)
  moreover have "ar_project_key (lx_asset x) = lq_exact_project_key r"
    using found by (auto simp: finds_def list_all_iff in_scope_def)
  ultimately show ?thesis using c ps found rest by blast
qed

theorem lookup_finds_the_one_asset_witness:
  "\<exists>x c ps. lookup_asset paged_gateway sample_lookup = Some (Inr x) \<and> active_context paged_gateway ''k'' = Inr c
     \<and> kind_listing paged_gateway c TERMINAL ''k'' 1 0 ps \<and> finds sample_lookup (page_items ps) (lx_asset x)"
proof -
  obtain x where x: "lookup_asset paged_gateway sample_lookup = Some (Inr x)"
    using paged_lookup by (auto split: option.splits sum.splits)
  have "lq_exact_project_key sample_lookup = ''k''" "lq_asset_kind sample_lookup = TERMINAL" "lq_page_size sample_lookup = 1"
    by (simp_all add: sample_lookup_def)
  with lookup_finds_the_one_asset [OF x] x show ?thesis by (smt (verit))
qed

text \<open>C20: A summary that succeeds counts the inventory: there is one complete listing per asset
  kind, in order, all identities in them are distinct and together they stay within the item
  limit; each kind's summary has exactly the counts of its supported, unsupported and unresolved
  items and its first items as samples, and the totals are the totals over all listings.\<close>

theorem summary_counts_the_inventory:
  assumes "summarize gw r = Some (Inr s)" "0 \<le> sr_inventory_limit r"
  shows "\<exists>c pss. active_context gw (sr_exact_project_key r) = Inr c \<and> listings gw r c asset_kinds 0 pss
    \<and> ms_categories s = map2 (summary_of r) asset_kinds (map page_items pss)
    \<and> distinct (map reference_key (all_items pss)) \<and> int (length (all_items pss)) \<le> sr_inventory_limit r
    \<and> ms_total_count s = sum_list (map ks_total_count (ms_categories s))
    \<and> ms_total_count s = ms_supported_count s + ms_unsupported_count s + ms_unresolved_count s"
proof -
  from assms(1) obtain c b where c: "active_context gw (sr_exact_project_key r) = Inr c"
      and b: "binding_of c (sr_exact_project_key r) = Inr b"
    by (auto simp: summarize_def attempt_Inr_iff split: sum.splits)
  with assms(1) obtain res where kinds: "summarize_kinds gw r c asset_kinds 0 [] [] 0 [] = Some res"
    by (auto simp: summarize_def)
  with assms(1) c b obtain w cats where res: "res = Inr (w, cats)" by (cases res) (auto simp: summarize_def)
  from assms(1) c b kinds res obtain ws where s: "ms_categories s = cats"
      "ms_total_count s = sum_list (map ks_total_count cats)" and ok: "ModelSummary_post_init s = None"
    by (auto simp: summarize_def result_iffs)
  from summarize_kinds_Inr [OF kinds [unfolded res] assms(2)] obtain pss where
      "listings gw r c asset_kinds 0 pss" "cats = map2 (summary_of r) asset_kinds (map page_items pss)"
      "distinct (map reference_key (all_items pss))" "int (length (all_items pss)) \<le> sr_inventory_limit r"
    by auto
  moreover have "ms_total_count s = ms_supported_count s + ms_unsupported_count s + ms_unresolved_count s"
    using ok by (simp add: ModelSummary_post_init_def)
  ultimately show ?thesis using c s by (intro exI [of _ c] exI [of _ pss]) simp
qed

theorem summary_counts_the_inventory_witness:
  "\<exists>s c pss. summarize paged_gateway sample_summary = Some (Inr s) \<and> ms_total_count s = 2
     \<and> listings paged_gateway sample_summary c asset_kinds 0 pss \<and> distinct (map reference_key (all_items pss))"
proof -
  obtain s where s: "summarize paged_gateway sample_summary = Some (Inr s)" "ms_total_count s = 2"
    using paged_summary by (auto split: option.splits sum.splits)
  have "0 \<le> sr_inventory_limit sample_summary" by (simp add: sample_summary_def)
  from summary_counts_the_inventory [OF s(1) this] s show ?thesis by blast
qed

end
