(* ===== verification/Gateway_Contracts.thy ===== *)
theory Gateway_Contracts
  imports Inventory
begin

text \<open>
  \<open>domain/gateway.py\<close>: the records that cross the vendor boundary.  Each has the fields of
  its class; \<open>*_post_init\<close> is \<open>__post_init__\<close>, its checks in their order.  What the code
  checks with \<open>isinstance\<close> is the type of the field here.
\<close>

section \<open>Bounds and primitive values\<close>

definition MAX_GATEWAY_WARNINGS :: nat where "MAX_GATEWAY_WARNINGS = 16"

definition MAX_LOG_BYTES :: int where "MAX_LOG_BYTES = 65536"

definition require_limit :: "int \<Rightarrow> string \<Rightarrow> error option" where
  "require_limit v field = require (1 \<le> v \<and> v \<le> MAX_PAGE_SIZE)
     (ValueError (field @ '' must be between 1 and '' @ int_str MAX_PAGE_SIZE))"

datatype primitive_value = PrimText string | PrimBool bool | PrimInt int | PrimQuantity quantity

definition require_primitive :: "primitive_value \<Rightarrow> string \<Rightarrow> error option" where
  "require_primitive v field = (case v of PrimText s \<Rightarrow> require_text s field | _ \<Rightarrow> None)"

text \<open>Python's \<open>==\<close> on primitive values: a truth value equals the integer 0 or 1.\<close>

fun primitive_eq :: "primitive_value \<Rightarrow> primitive_value \<Rightarrow> bool" where
  "primitive_eq (PrimBool b) (PrimInt i) \<longleftrightarrow> i = of_bool b"
| "primitive_eq (PrimInt i) (PrimBool b) \<longleftrightarrow> i = of_bool b"
| "primitive_eq v w \<longleftrightarrow> v = w"

text \<open>The checks that each entry of a collection of text meets.\<close>

definition require_entries :: "nat \<Rightarrow> string list \<Rightarrow> string \<Rightarrow> error option list" where
  "require_entries maximum vs name = map (\<lambda>v. require_text_max maximum v (name @ '' entry'')) vs"

section \<open>Selectors\<close>

datatype gateway_readiness = READY | NOT_READY
datatype command_completion = COMMAND_SUCCEEDED | COMMAND_FAILED
datatype log_severity = LOG_DEBUG | LOG_INFO | LOG_WARNING | LOG_ERROR
datatype object_class_kind = GRID_CLASS | TERMINAL_CLASS | LINE_CLASS | LOAD_CLASS | TRANSFORMER_CLASS
datatype relationship_kind = CONNECTED_TERMINAL
datatype result_variable_kind = BUS_VOLTAGE | EQUIPMENT_LOADING | RESULT_ACTIVE_POWER | BUS_CURRENT | ROTOR_ANGLE
datatype command_kind = LOAD_FLOW | RMS_SIMULATION
datatype object_query_scope = ACTIVE_GRIDS | ACTIVE_PROJECT
datatype out_of_service_policy = EXCLUDE | INCLUDE | ONLY
datatype gateway_warning_code = QUERY_TRUNCATED | UNSUPPORTED_SELECTOR
datatype result_cell_status = AVAILABLE | MISSING | CELL_UNSUPPORTED | NON_FINITE
datatype attribute_write_disposition = CONFIRMED | PRECONDITION_REJECTED | EFFECT_UNCERTAIN

fun result_variable_value :: "result_variable_kind \<Rightarrow> string" where
  "result_variable_value BUS_VOLTAGE = ''bus_voltage''"
| "result_variable_value EQUIPMENT_LOADING = ''equipment_loading''"
| "result_variable_value RESULT_ACTIVE_POWER = ''active_power''"
| "result_variable_value BUS_CURRENT = ''bus_current''"
| "result_variable_value ROTOR_ANGLE = ''rotor_angle''"

record object_class_selector =
  oc_kind :: object_class_kind
  oc_contract :: versioned_name

record relationship_selector =
  rs_kind :: relationship_kind
  rs_contract :: versioned_name

record result_variable_selector =
  rv_kind :: result_variable_kind
  rv_contract :: versioned_name

record command_selector =
  cs_kind :: command_kind
  cs_contract :: versioned_name

record primitive_field =
  pf_selector :: attribute_selector
  pf_value :: primitive_value

definition PrimitiveField_post_init :: "primitive_field \<Rightarrow> error option" where
  "PrimitiveField_post_init f = require_primitive (pf_value f) ''PrimitiveField.value''"

record primitive_object_selector =
  po_project_key :: string
  po_object_class :: object_class_selector
  po_native_field :: "string option"
  po_native_value :: "string option"
  po_canonical_path :: "string option"

definition PrimitiveObjectSelector_post_init :: "primitive_object_selector \<Rightarrow> error option" where
  "PrimitiveObjectSelector_post_init s = first_error
     [require_text_max 512 (po_project_key s) ''PrimitiveObjectSelector.project_key'',
      require ((po_native_field s = None) = (po_native_value s = None))
        (ValueError ''native_field and native_value must be present together''),
      require_optional (\<lambda>x. require_text_max 128 x ''PrimitiveObjectSelector.native_field'') (po_native_field s),
      require_optional (\<lambda>x. require_text x ''PrimitiveObjectSelector.native_value'') (po_native_value s),
      require_optional (\<lambda>x. require_text x ''PrimitiveObjectSelector.canonical_path'') (po_canonical_path s),
      require (po_native_value s \<noteq> None \<or> po_canonical_path s \<noteq> None)
        (ValueError ''selector requires native evidence or a canonical path'')]"

section \<open>Session and context\<close>

record session_start_request =
  ss_installation_id :: string
  ss_profile_id :: string
  ss_requested_release :: string
  ss_requested_service_pack :: string
  ss_read_only :: bool

definition SessionStartRequest_post_init :: "session_start_request \<Rightarrow> error option" where
  "SessionStartRequest_post_init r = first_error
     [require_text_max 256 (ss_installation_id r) ''SessionStartRequest.installation_id'',
      require_text_max 256 (ss_profile_id r) ''SessionStartRequest.profile_id'',
      require_text_max 256 (ss_requested_release r) ''SessionStartRequest.requested_release'',
      require_text_max 256 (ss_requested_service_pack r) ''SessionStartRequest.requested_service_pack'']"

record session_observation =
  so_session_id :: string
  so_adapter_version :: string
  so_powerfactory_version :: string
  so_python_abi :: string
  so_architecture :: string
  so_readiness :: gateway_readiness
  so_capabilities :: "string list"
  so_started_at :: datetime

definition SessionObservation_post_init :: "session_observation \<Rightarrow> error option" where
  "SessionObservation_post_init x = first_error
     ([require_text_max 256 (so_session_id x) ''SessionObservation.session_id'',
       require_text_max 256 (so_adapter_version x) ''SessionObservation.adapter_version'',
       require_text_max 256 (so_powerfactory_version x) ''SessionObservation.powerfactory_version'',
       require_text_max 256 (so_python_abi x) ''SessionObservation.python_abi'',
       require_text_max 256 (so_architecture x) ''SessionObservation.architecture'',
       require_collection True (so_capabilities x) ''SessionObservation.capabilities'']
      @ require_entries 128 (so_capabilities x) ''SessionObservation.capabilities''
      @ [require (distinct (so_capabilities x)) (ValueError ''SessionObservation.capabilities must be unique''),
         require_aware (so_started_at x) ''SessionObservation.started_at''])"

record variant_stage_observation =
  vs_variant_key :: string
  vs_stage_key :: string
  vs_active :: bool

definition VariantStageObservation_post_init :: "variant_stage_observation \<Rightarrow> error option" where
  "VariantStageObservation_post_init v = first_error
     [require_text_max 512 (vs_variant_key v) ''VariantStageObservation.variant_key'',
      require_text_max 512 (vs_stage_key v) ''VariantStageObservation.stage_key'']"

record context_observation =
  xo_session_id :: string
  xo_project_key :: "string option"
  xo_study_case_key :: "string option"
  xo_operational_scenario_key :: "string option"
  xo_variant_stages :: "variant_stage_observation list"
  xo_active_grid_keys :: "string list"
  xo_configuration_key :: "configuration_key option"
  xo_verified :: bool
  xo_observed_at :: datetime

definition ContextObservation_post_init :: "context_observation \<Rightarrow> error option" where
  "ContextObservation_post_init x = first_error
     ([require_text_max 256 (xo_session_id x) ''ContextObservation.session_id'',
       require_optional (\<lambda>v. require_text_max 512 v ''ContextObservation.project_key'') (xo_project_key x),
       require_optional (\<lambda>v. require_text_max 512 v ''ContextObservation.study_case_key'') (xo_study_case_key x),
       require_optional (\<lambda>v. require_text_max 512 v ''ContextObservation.operational_scenario_key'')
         (xo_operational_scenario_key x),
       require_collection True (xo_variant_stages x) ''ContextObservation.variant_stages'',
       require_collection True (xo_active_grid_keys x) ''ContextObservation.active_grid_keys'']
      @ require_entries 512 (xo_active_grid_keys x) ''ContextObservation.active_grid_keys''
      @ [require (distinct (xo_active_grid_keys x)) (ValueError ''ContextObservation.active_grid_keys must be unique''),
         require (xo_verified x \<longrightarrow> xo_project_key x \<noteq> None \<and> xo_study_case_key x \<noteq> None
             \<and> xo_active_grid_keys x \<noteq> [] \<and> xo_configuration_key x \<noteq> None)
           (ValueError ''verified context requires project, study case, active grids, and key''),
         require_aware (xo_observed_at x) ''ContextObservation.observed_at''])"

record context_activation_request =
  ca_project_key :: string
  ca_study_case_key :: string
  ca_operational_scenario_key :: "string option"

definition ContextActivationRequest_post_init :: "context_activation_request \<Rightarrow> error option" where
  "ContextActivationRequest_post_init r = first_error
     [require_text_max 512 (ca_project_key r) ''ContextActivationRequest.project_key'',
      require_text_max 512 (ca_study_case_key r) ''ContextActivationRequest.study_case_key'',
      require_optional (\<lambda>v. require_text_max 512 v ''ContextActivationRequest.operational_scenario_key'')
        (ca_operational_scenario_key r)]"

record context_activation_observation =
  co_requested :: context_activation_request
  co_context :: context_observation
  co_changed :: bool

definition ContextActivationObservation_post_init :: "context_activation_observation \<Rightarrow> error option" where
  "ContextActivationObservation_post_init x = first_error
     [require (xo_verified (co_context x)) (ValueError ''activation observation requires a verified context''),
      require (xo_project_key (co_context x) = Some (ca_project_key (co_requested x))
          \<and> xo_study_case_key (co_context x) = Some (ca_study_case_key (co_requested x))
          \<and> xo_operational_scenario_key (co_context x) = ca_operational_scenario_key (co_requested x))
        (ValueError ''activation observation must match the requested context'')]"

section \<open>Object queries\<close>

record gateway_warning =
  gw_code :: gateway_warning_code
  gw_message :: string
  gw_count :: int

definition GatewayWarning_post_init :: "gateway_warning \<Rightarrow> error option" where
  "GatewayWarning_post_init w = first_error
     [require_text (gw_message w) ''GatewayWarning.message'',
      require (1 \<le> gw_count w) (ValueError ''GatewayWarning.count must be a positive integer'')]"

record object_query_request =
  oq_configuration_key :: configuration_key
  oq_scope :: object_query_scope
  oq_out_of_service :: out_of_service_policy
  oq_object_classes :: "object_class_selector list"
  oq_attributes :: "attribute_selector list"
  oq_limit :: int
  oq_cursor :: "page_cursor option"

definition ObjectQueryRequest_post_init :: "object_query_request \<Rightarrow> error option" where
  "ObjectQueryRequest_post_init q = first_error
     [require_collection False (oq_object_classes q) ''ObjectQueryRequest.object_classes'',
      require_collection True (oq_attributes q) ''ObjectQueryRequest.attributes'',
      require (distinct (oq_object_classes q)) (ValueError ''ObjectQueryRequest.object_classes must be unique''),
      require (distinct (oq_attributes q)) (ValueError ''ObjectQueryRequest.attributes must be unique''),
      require_limit (oq_limit q) ''ObjectQueryRequest.limit'']"

record object_observation =
  oo_selector :: primitive_object_selector
  oo_display_name :: string
  oo_fields :: "primitive_field list"

definition ObjectObservation_post_init :: "object_observation \<Rightarrow> error option" where
  "ObjectObservation_post_init x = first_error
     [require_text (oo_display_name x) ''ObjectObservation.display_name'',
      require_collection True (oo_fields x) ''ObjectObservation.fields'',
      require (distinct (map pf_selector (oo_fields x))) (ValueError ''ObjectObservation.fields must have unique selectors'')]"

record object_query_batch =
  ob_configuration_key :: configuration_key
  ob_records :: "object_observation list"
  ob_next_cursor :: "page_cursor option"
  ob_complete :: bool
  ob_truncated :: bool
  ob_warnings :: "gateway_warning list"
  ob_observed_at :: datetime

definition ObjectQueryBatch_post_init :: "object_query_batch \<Rightarrow> error option" where
  "ObjectQueryBatch_post_init b = first_error
     [require_collection True (ob_records b) ''ObjectQueryBatch.records'',
      require_collection True (ob_warnings b) ''ObjectQueryBatch.warnings'',
      require (length (ob_warnings b) \<le> MAX_GATEWAY_WARNINGS)
        (ValueError (''ObjectQueryBatch.warnings exceeds '' @ nat_str MAX_GATEWAY_WARNINGS @ '' entries'')),
      require (ob_complete b \<noteq> ob_truncated b) (ValueError ''exactly one of complete or truncated must be true''),
      require (ob_truncated b = (ob_next_cursor b \<noteq> None)) (ValueError ''truncated batches require a continuation cursor''),
      require_aware (ob_observed_at b) ''ObjectQueryBatch.observed_at'']"

section \<open>Dependencies\<close>

record dependency_read_request =
  dr_configuration_key :: configuration_key
  dr_objects :: "primitive_object_selector list"
  dr_attributes :: "attribute_selector list"
  dr_relationships :: "relationship_selector list"
  dr_limit :: int

definition DependencyReadRequest_post_init :: "dependency_read_request \<Rightarrow> error option" where
  "DependencyReadRequest_post_init r = first_error
     [require_collection False (dr_objects r) ''DependencyReadRequest.objects'',
      require_collection True (dr_attributes r) ''DependencyReadRequest.attributes'',
      require_collection True (dr_relationships r) ''DependencyReadRequest.relationships'',
      require (int (length (dr_objects r)) \<le> MAX_PAGE_SIZE)
        (ValueError (''DependencyReadRequest.objects exceeds '' @ int_str MAX_PAGE_SIZE @ '' entries'')),
      require (distinct (dr_attributes r) \<and> distinct (dr_relationships r))
        (ValueError ''dependency selectors must be unique''),
      require_limit (dr_limit r) ''DependencyReadRequest.limit'']"

record relationship_observation =
  ro_selector :: relationship_selector
  ro_target :: primitive_object_selector

record object_dependency_observation =
  do_selector :: primitive_object_selector
  do_fields :: "primitive_field list"
  do_relationships :: "relationship_observation list"

definition ObjectDependencyObservation_post_init :: "object_dependency_observation \<Rightarrow> error option" where
  "ObjectDependencyObservation_post_init x = first_error
     [require_collection True (do_fields x) ''ObjectDependencyObservation.fields'',
      require_collection True (do_relationships x) ''ObjectDependencyObservation.relationships'']"

record dependency_observation =
  dx_configuration_key :: configuration_key
  dx_objects :: "object_dependency_observation list"
  dx_complete :: bool
  dx_fingerprint :: live_state_fingerprint
  dx_observed_at :: datetime

definition DependencyObservation_post_init :: "dependency_observation \<Rightarrow> error option" where
  "DependencyObservation_post_init x = first_error
     [require_collection True (dx_objects x) ''DependencyObservation.objects'',
      require_aware (dx_observed_at x) ''DependencyObservation.observed_at'']"

section \<open>Commands\<close>

datatype setting_value = SettingText string | SettingBool bool | SettingQuantity quantity

record command_setting =
  st_name :: string
  st_value :: setting_value

definition CommandSetting_post_init :: "command_setting \<Rightarrow> error option" where
  "CommandSetting_post_init s = first_error
     [require_text_max 128 (st_name s) ''CommandSetting.name'',
      (case st_value s of SettingText t \<Rightarrow> require_text t ''CommandSetting.value'' | _ \<Rightarrow> None)]"

record command_execution_request =
  ce_configuration_key :: configuration_key
  ce_command :: command_selector
  ce_settings :: "command_setting list"
  ce_idempotency_key :: string

definition CommandExecutionRequest_post_init :: "command_execution_request \<Rightarrow> error option" where
  "CommandExecutionRequest_post_init r = first_error
     [require_collection True (ce_settings r) ''CommandExecutionRequest.settings'',
      require_text_max 256 (ce_idempotency_key r) ''CommandExecutionRequest.idempotency_key'',
      require (distinct (map st_name (ce_settings r)))
        (ValueError ''CommandExecutionRequest.settings must have unique names'')]"

record command_execution_observation =
  cx_execution_id :: string
  cx_command :: command_selector
  cx_completion :: command_completion
  cx_return_code :: int
  cx_diagnostic_messages :: "string list"
  cx_started_at :: datetime
  cx_completed_at :: datetime

definition CommandExecutionObservation_post_init :: "command_execution_observation \<Rightarrow> error option" where
  "CommandExecutionObservation_post_init x = first_error
     ([require_text_max 256 (cx_execution_id x) ''CommandExecutionObservation.execution_id'',
       require_collection True (cx_diagnostic_messages x) ''CommandExecutionObservation.diagnostic_messages'']
      @ require_entries MAX_TEXT_LENGTH (cx_diagnostic_messages x) ''CommandExecutionObservation.diagnostic_messages''
      @ [require_aware (cx_started_at x) ''CommandExecutionObservation.started_at'',
         require_aware (cx_completed_at x) ''CommandExecutionObservation.completed_at'',
         require (\<not> cx_completed_at x < cx_started_at x)
           (ValueError ''CommandExecutionObservation.completed_at cannot precede started_at''),
         require ((cx_return_code x = 0) = (cx_completion x = COMMAND_SUCCEEDED))
           (ValueError ''command completion must agree with its return code'')])"

section \<open>Results and logs\<close>

record result_collection_request =
  rc_configuration_key :: configuration_key
  rc_execution_id :: string
  rc_objects :: "primitive_object_selector list"
  rc_variables :: "result_variable_selector list"
  rc_limit :: int
  rc_cursor :: "page_cursor option"

definition ResultCollectionRequest_post_init :: "result_collection_request \<Rightarrow> error option" where
  "ResultCollectionRequest_post_init r = first_error
     [require_text_max 256 (rc_execution_id r) ''ResultCollectionRequest.execution_id'',
      require_collection False (rc_objects r) ''ResultCollectionRequest.objects'',
      require_collection False (rc_variables r) ''ResultCollectionRequest.variables'',
      require (int (length (rc_objects r)) \<le> MAX_PAGE_SIZE)
        (ValueError (''ResultCollectionRequest.objects exceeds '' @ int_str MAX_PAGE_SIZE @ '' entries'')),
      require (distinct (rc_variables r)) (ValueError ''ResultCollectionRequest.variables must be unique''),
      require_limit (rc_limit r) ''ResultCollectionRequest.limit'']"

text \<open>
  What a cell or a metric may claim for its status: source and normalized value when the
  value is available, source evidence alone when it is not finite, nothing otherwise.
\<close>

definition status_claims :: "result_cell_status \<Rightarrow> string option \<Rightarrow> string option \<Rightarrow> quantity option
    \<Rightarrow> string \<Rightarrow> string \<Rightarrow> string \<Rightarrow> error option" where
  "status_claims status source_value source_unit normalized available non_finite absent = (case status of
      AVAILABLE \<Rightarrow> require (source_value \<noteq> None \<and> source_unit \<noteq> None \<and> normalized \<noteq> None) (ValueError available)
    | NON_FINITE \<Rightarrow> require (source_value \<noteq> None \<and> source_unit \<noteq> None \<and> normalized = None) (ValueError non_finite)
    | _ \<Rightarrow> require (source_value = None \<and> source_unit = None \<and> normalized = None) (ValueError absent))"

record result_cell =
  rl_variable :: result_variable_selector
  rl_status :: result_cell_status
  rl_source_value :: "string option"
  rl_source_unit :: "string option"
  rl_normalized :: "quantity option"
  rl_diagnostic :: "string option"

definition ResultCell_post_init :: "result_cell \<Rightarrow> error option" where
  "ResultCell_post_init c = first_error
     [require_optional (\<lambda>v. require_text v ''ResultCell.source_value'') (rl_source_value c),
      require_optional (\<lambda>v. require_text v ''ResultCell.source_unit'') (rl_source_unit c),
      require_optional (\<lambda>v. require_text v ''ResultCell.diagnostic'') (rl_diagnostic c),
      status_claims (rl_status c) (rl_source_value c) (rl_source_unit c) (rl_normalized c)
        ''available result cells require source and normalized values''
        ''non-finite cells preserve source evidence without a normalized value''
        ''missing and unsupported cells cannot claim source or normalized values'']"

record result_row =
  rr_selector :: primitive_object_selector
  rr_cells :: "result_cell list"

definition ResultRow_post_init :: "result_row \<Rightarrow> error option" where
  "ResultRow_post_init r = first_error
     [require_collection True (rr_cells r) ''ResultRow.cells'',
      require (distinct (map rl_variable (rr_cells r))) (ValueError ''ResultRow.cells must have unique variables'')]"

record result_batch =
  rb_execution_id :: string
  rb_rows :: "result_row list"
  rb_next_cursor :: "page_cursor option"
  rb_complete :: bool
  rb_observed_at :: datetime

definition ResultBatch_post_init :: "result_batch \<Rightarrow> error option" where
  "ResultBatch_post_init b = first_error
     [require_text_max 256 (rb_execution_id b) ''ResultBatch.execution_id'',
      require_collection True (rb_rows b) ''ResultBatch.rows'',
      require_aware (rb_observed_at b) ''ResultBatch.observed_at'']"

record log_read_request =
  lr_execution_id :: "string option"
  lr_entry_limit :: int
  lr_byte_limit :: int
  lr_cursor :: "page_cursor option"

definition LogReadRequest_post_init :: "log_read_request \<Rightarrow> error option" where
  "LogReadRequest_post_init r = first_error
     [require_optional (\<lambda>v. require_text_max 256 v ''LogReadRequest.execution_id'') (lr_execution_id r),
      require_limit (lr_entry_limit r) ''LogReadRequest.entry_limit'',
      require (1 \<le> lr_byte_limit r \<and> lr_byte_limit r \<le> MAX_LOG_BYTES)
        (ValueError (''LogReadRequest.byte_limit must be between 1 and '' @ int_str MAX_LOG_BYTES))]"

record log_entry =
  le_sequence :: int
  le_execution_id :: "string option"
  le_severity :: log_severity
  le_category :: string
  le_message :: string
  le_observed_at :: datetime

definition LogEntry_post_init :: "log_entry \<Rightarrow> error option" where
  "LogEntry_post_init e = first_error
     [require (0 \<le> le_sequence e) (ValueError ''LogEntry.sequence must be a nonnegative integer''),
      require_optional (\<lambda>v. require_text_max 256 v ''LogEntry.execution_id'') (le_execution_id e),
      require_text_max 128 (le_category e) ''LogEntry.category'',
      require_text (le_message e) ''LogEntry.message'',
      require_aware (le_observed_at e) ''LogEntry.observed_at'']"

record log_batch =
  lb_entries :: "log_entry list"
  lb_next_cursor :: "page_cursor option"
  lb_bytes_returned :: int
  lb_truncated :: bool
  lb_redaction_applied :: bool

definition LogBatch_post_init :: "log_batch \<Rightarrow> error option" where
  "LogBatch_post_init b = first_error
     [require_collection True (lb_entries b) ''LogBatch.entries'',
      require (0 \<le> lb_bytes_returned b) (ValueError ''LogBatch.bytes_returned must be a nonnegative integer''),
      require (lb_truncated b = (lb_next_cursor b \<noteq> None))
        (ValueError ''truncated log batches require a continuation cursor'')]"

section \<open>Attribute writes and cleanup\<close>

record attribute_write_request =
  aw_configuration_key :: configuration_key
  aw_selector :: primitive_object_selector
  aw_attribute :: attribute_selector
  aw_expected_before :: primitive_value
  aw_proposed :: primitive_value
  aw_operation_id :: string

fun quantity_sides :: "primitive_value \<Rightarrow> primitive_value \<Rightarrow> error option" where
  "quantity_sides (PrimQuantity p) (PrimQuantity q) =
     require (q_unit p = q_unit q) (ValueError ''quantity write units must match'')"
| "quantity_sides (PrimQuantity p) v = Some (ValueError ''quantity writes require quantities on both sides'')"
| "quantity_sides v (PrimQuantity q) = Some (ValueError ''quantity writes require quantities on both sides'')"
| "quantity_sides v w = None"

definition AttributeWriteRequest_post_init :: "attribute_write_request \<Rightarrow> error option" where
  "AttributeWriteRequest_post_init r = first_error
     [require_primitive (aw_expected_before r) ''AttributeWriteRequest.expected_before'',
      require_primitive (aw_proposed r) ''AttributeWriteRequest.proposed'',
      require_text_max 256 (aw_operation_id r) ''AttributeWriteRequest.operation_id'',
      quantity_sides (aw_expected_before r) (aw_proposed r)]"

record attribute_write_observation =
  ax_operation_id :: string
  ax_selector :: primitive_object_selector
  ax_attribute :: attribute_selector
  ax_observed_before :: primitive_value
  ax_proposed :: primitive_value
  ax_confirmed :: "primitive_value option"
  ax_disposition :: attribute_write_disposition
  ax_observed_at :: datetime

definition confirms :: "primitive_value option \<Rightarrow> primitive_value \<Rightarrow> bool" where
  "confirms c v \<longleftrightarrow> (case c of None \<Rightarrow> False | Some x \<Rightarrow> primitive_eq x v)"

definition AttributeWriteObservation_post_init :: "attribute_write_observation \<Rightarrow> error option" where
  "AttributeWriteObservation_post_init x = first_error
     [require_text_max 256 (ax_operation_id x) ''AttributeWriteObservation.operation_id'',
      require_primitive (ax_observed_before x) ''AttributeWriteObservation.observed_before'',
      require_primitive (ax_proposed x) ''AttributeWriteObservation.proposed'',
      require_optional (\<lambda>v. require_primitive v ''AttributeWriteObservation.confirmed'') (ax_confirmed x),
      require_aware (ax_observed_at x) ''AttributeWriteObservation.observed_at'',
      require (ax_disposition x = CONFIRMED \<longrightarrow> confirms (ax_confirmed x) (ax_proposed x))
        (ValueError ''confirmed writes require matching readback''),
      require (ax_disposition x = PRECONDITION_REJECTED \<longrightarrow> confirms (ax_confirmed x) (ax_observed_before x))
        (ValueError ''precondition rejection must confirm the unchanged observed value''),
      require (ax_disposition x = EFFECT_UNCERTAIN \<longrightarrow> ax_confirmed x = None)
        (ValueError ''effect-uncertain writes cannot claim a confirmed value'')]"

record cleanup_observation =
  cu_session_id :: "string option"
  cu_was_open :: bool
  cu_cleanup_succeeded :: bool
  cu_diagnostic_messages :: "string list"
  cu_observed_at :: datetime

definition CleanupObservation_post_init :: "cleanup_observation \<Rightarrow> error option" where
  "CleanupObservation_post_init x = first_error
     ([require_optional (\<lambda>v. require_text_max 256 v ''CleanupObservation.session_id'') (cu_session_id x),
       require_collection True (cu_diagnostic_messages x) ''CleanupObservation.diagnostic_messages'']
      @ require_entries MAX_TEXT_LENGTH (cu_diagnostic_messages x) ''CleanupObservation.diagnostic_messages''
      @ [require_aware (cu_observed_at x) ''CleanupObservation.observed_at''])"

end
