(* ===== verification/Calculations.thy ===== *)
theory Calculations
  imports Gateway_Contracts
begin

text \<open>
  \<open>domain/calculations.py\<close>: the records of load-flow runs, result snapshots and their policy
  evaluation, and \<open>domain/calculation_projection.py\<close>.
\<close>

section \<open>Metrics\<close>

definition MAX_CALCULATION_METRICS :: nat where "MAX_CALCULATION_METRICS = 1000"

definition positive_decimal :: "quantity \<Rightarrow> string \<Rightarrow> error option" where
  "positive_decimal v field = require (0 \<le> q_value v) (ValueError (field @ '' must not be negative''))"

datatype metric_kind = METRIC_BUS_VOLTAGE | METRIC_EQUIPMENT_LOADING

fun metric_kind_value :: "metric_kind \<Rightarrow> string" where
  "metric_kind_value METRIC_BUS_VOLTAGE = ''bus_voltage''"
| "metric_kind_value METRIC_EQUIPMENT_LOADING = ''equipment_loading''"

datatype evaluation_status = SAFE | VIOLATION | NOT_EVALUATED_MISSING_LIMIT | NOT_EVALUATED_DATA

datatype finding_trend = NEW | RESOLVED | UNCHANGED | NOT_EVALUATED

datatype calculation_overlay_kind = RESULT | VIOLATION_OVERLAY

record metric_definition =
  md_definition_id :: string
  md_asset_identity :: product_identity
  md_metric_kind :: metric_kind
  md_object_selector :: primitive_object_selector
  md_variable :: result_variable_selector
  md_canonical_unit :: string
  md_lower_limit :: "quantity option"
  md_upper_limit :: "quantity option"
  md_critical_margin :: quantity
  md_equivalence_tolerance :: quantity
  md_materiality_threshold :: quantity
  md_limit_source :: string

definition canonical_unit_check :: "metric_definition \<Rightarrow> quantity \<Rightarrow> string \<Rightarrow> error option" where
  "canonical_unit_check d v field = require (q_unit v = md_canonical_unit d)
     (ValueError (''MetricDefinition.'' @ field @ '' unit must be canonical''))"

definition MetricDefinition_post_init :: "metric_definition \<Rightarrow> error option" where
  "MetricDefinition_post_init d = first_error
     ([require_text_max 256 (md_definition_id d) ''MetricDefinition.definition_id'',
       require_text_max 64 (md_canonical_unit d) ''MetricDefinition.canonical_unit'',
       require_text_max 512 (md_limit_source d) ''MetricDefinition.limit_source'',
       require_optional (\<lambda>v. canonical_unit_check d v ''lower_limit'') (md_lower_limit d),
       require_optional (\<lambda>v. canonical_unit_check d v ''upper_limit'') (md_upper_limit d),
       canonical_unit_check d (md_critical_margin d) ''critical_margin'',
       canonical_unit_check d (md_equivalence_tolerance d) ''equivalence_tolerance'',
       canonical_unit_check d (md_materiality_threshold d) ''materiality_threshold'',
       positive_decimal (md_critical_margin d) ''MetricDefinition.critical_margin'',
       positive_decimal (md_equivalence_tolerance d) ''MetricDefinition.equivalence_tolerance'',
       positive_decimal (md_materiality_threshold d) ''MetricDefinition.materiality_threshold'',
       (case (md_lower_limit d, md_upper_limit d) of
          (Some l, Some u) \<Rightarrow> require (q_value l \<le> q_value u)
            (ValueError ''MetricDefinition lower limit cannot exceed upper limit'')
        | _ \<Rightarrow> None)]
      @ (case md_metric_kind d of
          METRIC_BUS_VOLTAGE \<Rightarrow>
            [require (result_variable_value (rv_kind (md_variable d)) = ''bus_voltage'')
              (ValueError ''voltage metric requires the bus_voltage result selector'')]
        | METRIC_EQUIPMENT_LOADING \<Rightarrow>
            [require (result_variable_value (rv_kind (md_variable d)) = ''equipment_loading'')
              (ValueError ''loading metric requires the equipment_loading result selector''),
             require (md_lower_limit d = None) (ValueError ''loading metrics admit an upper limit only'')]))"

section \<open>Requests and runs\<close>

record load_flow_request =
  lf_context_id :: string
  lf_configuration_key :: configuration_key
  lf_extraction_revision :: extraction_revision
  lf_command :: command_selector
  lf_command_settings :: "command_setting list"
  lf_metric_catalog :: "metric_definition list"
  lf_policy :: versioned_name
  lf_idempotency_key :: string

definition asset_of :: "metric_definition \<Rightarrow> string" where
  "asset_of d = pi_value (md_asset_identity d)"

definition LoadFlowRequest_post_init :: "load_flow_request \<Rightarrow> error option" where
  "LoadFlowRequest_post_init r = (let definitions = map md_definition_id (lf_metric_catalog r) in first_error
     [require_uuid4 (lf_context_id r) ''LoadFlowRequest.context_id'',
      require (scope_id (lf_extraction_revision r) = lf_context_id r)
        (ValueError ''load-flow extraction revision must belong to context''),
      require_collection True (lf_command_settings r) ''LoadFlowRequest.command_settings'',
      require_collection False (lf_metric_catalog r) ''LoadFlowRequest.metric_catalog'',
      require (length (lf_metric_catalog r) \<le> MAX_CALCULATION_METRICS)
        (ValueError ''load-flow metric catalog exceeds bound''),
      require (distinct (map st_name (lf_command_settings r)))
        (ValueError ''load-flow command settings must be unique''),
      require (definitions = sort definitions \<and> distinct definitions)
        (ValueError ''metric catalog requires ordered unique definition IDs''),
      require (distinct (map asset_of (lf_metric_catalog r)))
        (ValueError ''metric catalog permits one metric per asset in this policy version''),
      require_text_max 256 (lf_idempotency_key r) ''LoadFlowRequest.idempotency_key''])"

record calculation_run =
  cr_run_id :: string
  cr_context_id :: string
  cr_configuration_key :: configuration_key
  cr_extraction_revision :: extraction_revision
  cr_calculation_input_digest :: calculation_input_digest
  cr_command :: command_selector
  cr_command_settings :: "command_setting list"
  cr_policy :: versioned_name
  cr_convergence_state :: convergence_state
  cr_execution_id :: "string option"
  cr_diagnostic_messages :: "string list"
  cr_log_references :: "string list"
  cr_result_snapshot_id :: "string option"
  cr_started_at :: datetime
  cr_completed_at :: datetime

definition CalculationRun_post_init :: "calculation_run \<Rightarrow> error option" where
  "CalculationRun_post_init r = first_error
     ([require_uuid4 (cr_run_id r) ''CalculationRun.run_id'',
       require_uuid4 (cr_context_id r) ''CalculationRun.context_id'',
       require (scope_id (cr_extraction_revision r) = cr_context_id r)
         (ValueError ''calculation run extraction revision must belong to context''),
       require_optional (\<lambda>v. require_text_max 256 v ''CalculationRun.execution_id'') (cr_execution_id r),
       require_optional (\<lambda>v. require_uuid4 v ''CalculationRun.result_snapshot_id'') (cr_result_snapshot_id r),
       require (cr_convergence_state r = CONVERGED \<longrightarrow> cr_result_snapshot_id r \<noteq> None)
         (ValueError ''converged runs require an immutable result snapshot''),
       require (cr_convergence_state r \<noteq> CONVERGED \<longrightarrow> cr_result_snapshot_id r = None)
         (ValueError ''non-converged and failed runs cannot claim a result snapshot''),
       require_collection True (cr_command_settings r) ''CalculationRun.command_settings'',
       require_collection True (cr_diagnostic_messages r) ''CalculationRun.diagnostic_messages'',
       require_collection True (cr_log_references r) ''CalculationRun.log_references'']
      @ require_entries 1024 (cr_diagnostic_messages r) ''CalculationRun.diagnostic_messages''
      @ require_entries 1024 (cr_log_references r) ''CalculationRun.log_references''
      @ [require_aware (cr_started_at r) ''CalculationRun.started_at'',
         require_aware (cr_completed_at r) ''CalculationRun.completed_at'',
         require (\<not> cr_completed_at r < cr_started_at r)
           (ValueError ''calculation run cannot complete before it starts'')])"

section \<open>Metrics, evaluations and snapshots\<close>

record result_metric =
  rm_definition :: metric_definition
  rm_status :: result_cell_status
  rm_source_value :: "string option"
  rm_source_unit :: "string option"
  rm_normalized :: "quantity option"
  rm_diagnostic :: "string option"

definition metric_id :: "result_metric \<Rightarrow> string" where
  "metric_id m = md_definition_id (rm_definition m)"

definition ResultMetric_post_init :: "result_metric \<Rightarrow> error option" where
  "ResultMetric_post_init m = first_error
     [require_optional (\<lambda>v. require_text_max 1024 v ''ResultMetric.source_value'') (rm_source_value m),
      require_optional (\<lambda>v. require_text_max 1024 v ''ResultMetric.source_unit'') (rm_source_unit m),
      require_optional (\<lambda>v. require_text_max 1024 v ''ResultMetric.diagnostic'') (rm_diagnostic m),
      status_claims (rm_status m) (rm_source_value m) (rm_source_unit m) (rm_normalized m)
        ''available metrics require source and normalized value''
        ''non-finite metrics retain source evidence only''
        ''missing or unsupported metrics cannot have values'',
      require (rm_status m = AVAILABLE \<longrightarrow> (case rm_normalized m of None \<Rightarrow> False
          | Some v \<Rightarrow> q_unit v = md_canonical_unit (rm_definition m)))
        (ValueError ''available metric must use its canonical unit'')]"

record policy_violation =
  pv_violation_key :: string
  pv_definition_id :: string
  pv_asset_identity :: product_identity
  pv_metric_kind :: metric_kind
  pv_measured_value :: quantity
  pv_limit :: quantity
  pv_severity :: violation_severity
  pv_direction :: string

definition PolicyViolation_post_init :: "policy_violation \<Rightarrow> error option" where
  "PolicyViolation_post_init v = first_error
     [require_text_max 512 (pv_violation_key v) ''PolicyViolation.violation_key'',
      require_text_max 256 (pv_definition_id v) ''PolicyViolation.definition_id'',
      require (pv_direction v = ''lower'' \<or> pv_direction v = ''upper'')
        (ValueError ''violation direction must be lower or upper''),
      require (q_unit (pv_measured_value v) = q_unit (pv_limit v))
        (ValueError ''violation measurement and limit units must match'')]"

record metric_evaluation =
  me_definition_id :: string
  me_status :: evaluation_status
  me_observed_status :: result_cell_status
  me_violation :: "policy_violation option"
  me_reason :: "string option"

definition MetricEvaluation_post_init :: "metric_evaluation \<Rightarrow> error option" where
  "MetricEvaluation_post_init e = first_error
     [require_text_max 256 (me_definition_id e) ''MetricEvaluation.definition_id'',
      require_optional (\<lambda>v. require_text_max 1024 v ''MetricEvaluation.reason'') (me_reason e),
      require (me_status e = VIOLATION \<longrightarrow> me_violation e \<noteq> None)
        (ValueError ''violation evaluation requires a violation''),
      require (me_status e \<noteq> VIOLATION \<longrightarrow> me_violation e = None)
        (ValueError ''only violation evaluations may include a violation''),
      require (me_status e = NOT_EVALUATED_MISSING_LIMIT \<longrightarrow> me_observed_status e = AVAILABLE)
        (ValueError ''missing-limit evaluation requires available data''),
      require (me_status e = NOT_EVALUATED_DATA \<longrightarrow> me_observed_status e \<noteq> AVAILABLE)
        (ValueError ''available data must be evaluated or report a missing limit'')]"

record result_snapshot =
  sn_snapshot_id :: string
  sn_run_id :: string
  sn_context_id :: string
  sn_configuration_key :: configuration_key
  sn_extraction_revision :: extraction_revision
  sn_calculation_input_digest :: calculation_input_digest
  sn_policy :: versioned_name
  sn_metrics :: "result_metric list"
  sn_evaluations :: "metric_evaluation list"
  sn_captured_at :: datetime

definition ResultSnapshot_post_init :: "result_snapshot \<Rightarrow> error option" where
  "ResultSnapshot_post_init s = (let ids = map metric_id (sn_metrics s) in first_error
     [require_uuid4 (sn_snapshot_id s) ''ResultSnapshot.snapshot_id'',
      require_uuid4 (sn_run_id s) ''ResultSnapshot.run_id'',
      require_uuid4 (sn_context_id s) ''ResultSnapshot.context_id'',
      require (scope_id (sn_extraction_revision s) = sn_context_id s)
        (ValueError ''snapshot extraction revision must belong to context''),
      require_collection False (sn_metrics s) ''ResultSnapshot.metrics'',
      require_collection True (sn_evaluations s) ''ResultSnapshot.evaluations'',
      require (ids = sort ids \<and> distinct ids) (ValueError ''snapshot metrics require ordered unique definition IDs''),
      require (map me_definition_id (sn_evaluations s) = ids)
        (ValueError ''snapshot evaluations must align exactly with metrics''),
      require_aware (sn_captured_at s) ''ResultSnapshot.captured_at''])"

section \<open>Comparisons and overlays\<close>

record metric_comparison =
  mc_definition_id :: string
  mc_before_status :: result_cell_status
  mc_after_status :: result_cell_status
  mc_before_value :: "quantity option"
  mc_after_value :: "quantity option"
  mc_delta :: "quantity option"
  mc_equivalent :: bool
  mc_material :: bool

definition MetricComparison_post_init :: "metric_comparison \<Rightarrow> error option" where
  "MetricComparison_post_init c = first_error
     [require_text_max 256 (mc_definition_id c) ''MetricComparison.definition_id'',
      require ((mc_before_value c = None) = (mc_after_value c = None))
        (ValueError ''metric comparisons retain both values or neither''),
      require ((mc_before_value c = None) = (mc_delta c = None))
        (ValueError ''metric comparisons retain a delta only with values''),
      require (map_option q_unit (mc_before_value c) = map_option q_unit (mc_after_value c))
        (ValueError ''metric comparisons require a shared unit''),
      require (map_option q_unit (mc_delta c) = map_option q_unit (mc_before_value c))
        (ValueError ''metric comparison delta requires the shared unit''),
      require (mc_before_value c = None \<longrightarrow> \<not> mc_equivalent c \<and> \<not> mc_material c)
        (ValueError ''non-comparable metrics cannot claim equivalent or material''),
      require (\<not> (mc_equivalent c \<and> mc_material c)) (ValueError ''equivalent metrics cannot be material'')]"

record finding_comparison =
  fc_violation_key :: string
  fc_trend :: finding_trend
  fc_baseline_status :: evaluation_status
  fc_candidate_status :: evaluation_status

definition not_evaluated :: "evaluation_status \<Rightarrow> bool" where
  "not_evaluated s \<longleftrightarrow> s = NOT_EVALUATED_DATA \<or> s = NOT_EVALUATED_MISSING_LIMIT"

definition FindingComparison_post_init :: "finding_comparison \<Rightarrow> error option" where
  "FindingComparison_post_init f = first_error
     [require_text_max 512 (fc_violation_key f) ''FindingComparison.violation_key'',
      require (\<not> (fc_trend f = NOT_EVALUATED \<and> \<not> not_evaluated (fc_baseline_status f)
          \<and> \<not> not_evaluated (fc_candidate_status f)))
        (ValueError ''not-evaluated trend requires an un-evaluated finding'')]"

record calculation_comparison =
  kc_comparison_id :: string
  kc_baseline_snapshot_id :: string
  kc_candidate_snapshot_id :: string
  kc_policy :: versioned_name
  kc_result_equivalent :: bool
  kc_comparable_metric_count :: int
  kc_comparisons :: "metric_comparison list"
  kc_findings :: "finding_comparison list"
  kc_compared_at :: datetime

definition CalculationComparison_post_init :: "calculation_comparison \<Rightarrow> error option" where
  "CalculationComparison_post_init c = first_error
     [require_uuid4 (kc_comparison_id c) ''CalculationComparison.comparison_id'',
      require_uuid4 (kc_baseline_snapshot_id c) ''CalculationComparison.baseline_snapshot_id'',
      require_uuid4 (kc_candidate_snapshot_id c) ''CalculationComparison.candidate_snapshot_id'',
      require (kc_baseline_snapshot_id c \<noteq> kc_candidate_snapshot_id c)
        (ValueError ''comparison requires two distinct snapshots''),
      require (0 \<le> kc_comparable_metric_count c) (ValueError ''comparable metric count must be nonnegative''),
      require_collection True (kc_comparisons c) ''CalculationComparison.comparisons'',
      require_collection True (kc_findings c) ''CalculationComparison.findings'',
      require (kc_comparable_metric_count c = int (length (filter (\<lambda>x. mc_before_value x \<noteq> None) (kc_comparisons c))))
        (ValueError ''comparable metric count must match comparison values''),
      require_aware (kc_compared_at c) ''CalculationComparison.compared_at'']"

record calculation_overlay =
  ov_overlay_id :: string
  ov_overlay_kind :: calculation_overlay_kind
  ov_product_identity :: product_identity
  ov_run_id :: string
  ov_snapshot_id :: string
  ov_policy :: versioned_name
  ov_definition_id :: string
  ov_violation_key :: "string option"

definition CalculationOverlay_post_init :: "calculation_overlay \<Rightarrow> error option" where
  "CalculationOverlay_post_init x = first_error
     [require_text_max 512 (ov_overlay_id x) ''CalculationOverlay.overlay_id'',
      require_uuid4 (ov_run_id x) ''CalculationOverlay.run_id'',
      require_uuid4 (ov_snapshot_id x) ''CalculationOverlay.snapshot_id'',
      require_text_max 256 (ov_definition_id x) ''CalculationOverlay.definition_id'',
      require (ov_overlay_kind x = VIOLATION_OVERLAY \<longrightarrow> ov_violation_key x \<noteq> None)
        (ValueError ''violation overlay requires a violation key''),
      require (ov_overlay_kind x \<noteq> VIOLATION_OVERLAY \<longrightarrow> ov_violation_key x = None)
        (ValueError ''result overlay cannot include a violation key''),
      require_optional (\<lambda>v. require_text_max 512 v ''CalculationOverlay.violation_key'') (ov_violation_key x)]"

end
