(* ===== verification/Calculation_Policy.thy ===== *)
theory Calculation_Policy
  imports Calculations
begin

text \<open>
  The pure part of \<open>operations/calculations.py\<close>: policy evaluation of a metric, comparison of
  two snapshots, bounded messages; and the projection of \<open>domain/calculation_projection.py\<close>.
  \<open>Decimal\<close> subtraction and \<open>abs\<close> round to the default context: 28 digits, half to even
  (exponents are taken to stay within the context's range).
\<close>

section \<open>Decimal arithmetic\<close>

definition ten_pow :: "int \<Rightarrow> rat" where
  "ten_pow k = (if 0 \<le> k then 10 ^ nat k else 1 / 10 ^ nat (- k))"

text \<open>The exponent of the leading digit of a positive number.\<close>

definition leading_exponent :: "rat \<Rightarrow> int" where
  "leading_exponent x =
     (let (p, q) = quotient_of x; k = int (length (nat_str (nat p))) - int (length (nat_str (nat q)))
      in if ten_pow k \<le> x then k else k - 1)"

definition round_half_even :: "rat \<Rightarrow> int" where
  "round_half_even y = (let r = \<lfloor>y + 1 / 2\<rfloor> in if of_int r = y + 1 / 2 \<and> odd r then r - 1 else r)"

definition decimal_round :: "rat \<Rightarrow> rat" where
  "decimal_round x = (if x = 0 then 0
     else let u = ten_pow (leading_exponent \<bar>x\<bar> - 27) in sgn x * (of_int (round_half_even (\<bar>x\<bar> / u)) * u))"

definition decimal_sub :: "rat \<Rightarrow> rat \<Rightarrow> rat" where
  "decimal_sub x y = decimal_round (x - y)"

definition decimal_abs :: "rat \<Rightarrow> rat" where
  "decimal_abs x = decimal_round \<bar>x\<bar>"

section \<open>Evaluation\<close>

definition violation_key_of :: "metric_definition \<Rightarrow> string \<Rightarrow> string" where
  "violation_key_of d direction = asset_of d @ '':'' @ metric_kind_value (md_metric_kind d) @ '':'' @ direction"

definition violation_severity_of :: "metric_definition \<Rightarrow> quantity \<Rightarrow> quantity \<Rightarrow> string \<Rightarrow> violation_severity" where
  "violation_severity_of d v limit direction =
     (let delta = (if direction = ''lower'' then decimal_sub (q_value limit) (q_value v)
                   else decimal_sub (q_value v) (q_value limit))
      in if q_value (md_critical_margin d) < delta then CRITICAL else WARNING)"

definition violation_evaluation :: "result_metric \<Rightarrow> quantity \<Rightarrow> quantity \<Rightarrow> string \<Rightarrow> error + metric_evaluation" where
  "violation_evaluation m v limit direction = (let d = rm_definition m in
     attempt (build_record PolicyViolation_post_init
       \<lparr>pv_violation_key = violation_key_of d direction, pv_definition_id = md_definition_id d,
        pv_asset_identity = md_asset_identity d, pv_metric_kind = md_metric_kind d, pv_measured_value = v,
        pv_limit = limit, pv_severity = violation_severity_of d v limit direction, pv_direction = direction\<rparr>)
     (\<lambda>x. build_record MetricEvaluation_post_init
       \<lparr>me_definition_id = md_definition_id d, me_status = VIOLATION, me_observed_status = rm_status m,
        me_violation = Some x, me_reason = None\<rparr>))"

definition plain_evaluation :: "result_metric \<Rightarrow> evaluation_status \<Rightarrow> string option \<Rightarrow> error + metric_evaluation" where
  "plain_evaluation m status reason = build_record MetricEvaluation_post_init
     \<lparr>me_definition_id = metric_id m, me_status = status, me_observed_status = rm_status m,
      me_violation = None, me_reason = reason\<rparr>"

definition below_limit :: "rat \<Rightarrow> quantity option \<Rightarrow> bool" where
  "below_limit x limit \<longleftrightarrow> (case limit of None \<Rightarrow> False | Some l \<Rightarrow> x < q_value l)"

definition above_limit :: "rat \<Rightarrow> quantity option \<Rightarrow> bool" where
  "above_limit x limit \<longleftrightarrow> (case limit of None \<Rightarrow> False | Some l \<Rightarrow> q_value l < x)"

definition evaluate_metric :: "result_metric \<Rightarrow> error + metric_evaluation" where
  "evaluate_metric m = (let d = rm_definition m in case rm_normalized m of
      None \<Rightarrow> plain_evaluation m NOT_EVALUATED_DATA (Some (case rm_diagnostic m of
          Some t \<Rightarrow> if t = [] then ''result data is unavailable, unsupported, or non-finite'' else t
        | None \<Rightarrow> ''result data is unavailable, unsupported, or non-finite''))
    | Some v \<Rightarrow>
        if rm_status m \<noteq> AVAILABLE
        then plain_evaluation m NOT_EVALUATED_DATA (Some (case rm_diagnostic m of
            Some t \<Rightarrow> if t = [] then ''result data is unavailable, unsupported, or non-finite'' else t
          | None \<Rightarrow> ''result data is unavailable, unsupported, or non-finite''))
        else if md_lower_limit d = None \<and> md_upper_limit d = None
        then plain_evaluation m NOT_EVALUATED_MISSING_LIMIT (Some ''no admitted engineering limit is available'')
        else if below_limit (q_value v) (md_lower_limit d)
        then violation_evaluation m v (the (md_lower_limit d)) ''lower''
        else if above_limit (q_value v) (md_upper_limit d)
        then violation_evaluation m v (the (md_upper_limit d)) ''upper''
        else plain_evaluation m SAFE None)"

section \<open>Comparison of two snapshots\<close>

datatype calculation_error =
    CalculationServiceError string | CalculationOperationFailed string | CalculationOperationTimedOut string
  | CalculationPaginationError string | CalculationDomainError error | CalculationKeyError string
  | CalculationAssertion | OwnerRaised string

text \<open>A dictionary by identifier: the last entry with a key stands.\<close>

definition dict_get :: "('r \<Rightarrow> string) \<Rightarrow> string \<Rightarrow> 'r list \<Rightarrow> calculation_error + 'r" where
  "dict_get key k rows = (case lookup_row key k (rev rows) of None \<Rightarrow> Inl (CalculationKeyError k) | Some r \<Rightarrow> Inr r)"

definition compare_metric :: "string \<Rightarrow> result_metric \<Rightarrow> result_metric \<Rightarrow> calculation_error + metric_comparison" where
  "compare_metric i prior current =
     (let build = (\<lambda>bv av dq eq mat. map_error CalculationDomainError (build_record MetricComparison_post_init
            \<lparr>mc_definition_id = i, mc_before_status = rm_status prior, mc_after_status = rm_status current,
             mc_before_value = bv, mc_after_value = av, mc_delta = dq, mc_equivalent = eq, mc_material = mat\<rparr>))
      in if rm_status prior = AVAILABLE \<and> rm_status current = AVAILABLE
         then (case (rm_normalized prior, rm_normalized current) of
             (Some bv, Some av) \<Rightarrow>
               (let delta = decimal_sub (q_value av) (q_value bv) in
                attempt (map_error CalculationDomainError (make_quantity (FromDecimal (Finite delta)) (q_unit av)))
                  (\<lambda>dq. build (Some bv) (Some av) (Some dq)
                    (decimal_abs delta \<le> q_value (md_equivalence_tolerance (rm_definition current)))
                    (q_value (md_materiality_threshold (rm_definition current)) < decimal_abs delta)))
           | _ \<Rightarrow> Inl CalculationAssertion)
         else build None None None False False)"

definition trend_of :: "metric_evaluation \<Rightarrow> metric_evaluation \<Rightarrow> finding_trend" where
  "trend_of before after =
     (if not_evaluated (me_status before) \<or> not_evaluated (me_status after) then NOT_EVALUATED
      else if me_violation before = None \<and> me_violation after \<noteq> None then NEW
      else if me_violation before \<noteq> None \<and> me_violation after = None then RESOLVED
      else UNCHANGED)"

definition finding_key :: "metric_evaluation \<Rightarrow> metric_evaluation \<Rightarrow> metric_definition \<Rightarrow> string" where
  "finding_key before after d = (case me_violation after of
      Some v \<Rightarrow> pv_violation_key v
    | None \<Rightarrow> (case me_violation before of Some v \<Rightarrow> pv_violation_key v | None \<Rightarrow> violation_key_of d ''evaluated''))"

definition compare_finding :: "metric_evaluation \<Rightarrow> metric_evaluation \<Rightarrow> metric_definition
    \<Rightarrow> calculation_error + finding_comparison" where
  "compare_finding before after d = map_error CalculationDomainError (build_record FindingComparison_post_init
     \<lparr>fc_violation_key = finding_key before after d, fc_trend = trend_of before after,
      fc_baseline_status = me_status before, fc_candidate_status = me_status after\<rparr>)"

fun compare_ids :: "result_snapshot \<Rightarrow> result_snapshot \<Rightarrow> string list
    \<Rightarrow> calculation_error + (metric_comparison \<times> finding_comparison) list" where
  "compare_ids baseline candidate [] = Inr []"
| "compare_ids baseline candidate (i # ids) =
     attempt (dict_get metric_id i (sn_metrics baseline)) (\<lambda>prior.
     attempt (dict_get metric_id i (sn_metrics candidate)) (\<lambda>current.
     attempt (compare_metric i prior current) (\<lambda>c.
     attempt (dict_get me_definition_id i (sn_evaluations baseline)) (\<lambda>be.
     attempt (dict_get me_definition_id i (sn_evaluations candidate)) (\<lambda>ae.
     attempt (compare_finding be ae (rm_definition prior)) (\<lambda>f.
     attempt (compare_ids baseline candidate ids) (\<lambda>rest. Inr ((c, f) # rest))))))))"

definition compare_result_snapshots :: "string \<Rightarrow> datetime \<Rightarrow> result_snapshot \<Rightarrow> result_snapshot
    \<Rightarrow> calculation_error + calculation_comparison" where
  "compare_result_snapshots uuid now baseline candidate =
     (if sn_configuration_key baseline \<noteq> sn_configuration_key candidate
      then Inl (CalculationServiceError ''snapshot comparison requires matching configuration keys'')
      else if sn_policy baseline \<noteq> sn_policy candidate
      then Inl (CalculationServiceError ''snapshot comparison requires matching policy versions'')
      else if set (map metric_id (sn_metrics baseline)) \<noteq> set (map metric_id (sn_metrics candidate))
      then Inl (CalculationServiceError ''snapshot metric catalogs do not align'')
      else attempt (compare_ids baseline candidate (sort (remdups (map metric_id (sn_metrics baseline))))) (\<lambda>cfs.
        let comparisons = map fst cfs;
            comparable = filter (\<lambda>c. mc_before_value c \<noteq> None) comparisons
        in map_error CalculationDomainError (build_record CalculationComparison_post_init
          \<lparr>kc_comparison_id = uuid, kc_baseline_snapshot_id = sn_snapshot_id baseline,
           kc_candidate_snapshot_id = sn_snapshot_id candidate, kc_policy = sn_policy baseline,
           kc_result_equivalent = (comparable \<noteq> [] \<and> list_all mc_equivalent comparable),
           kc_comparable_metric_count = int (length comparable),
           kc_comparisons = comparisons, kc_findings = map snd cfs, kc_compared_at = now\<rparr>)))"

section \<open>Messages and overlays\<close>

definition bounded_messages :: "string list \<Rightarrow> string list" where
  "bounded_messages messages = map (take 1024) (take 16 messages)"

definition overlay_of :: "result_snapshot \<Rightarrow> metric_definition \<Rightarrow> string \<Rightarrow> calculation_overlay_kind \<Rightarrow> string option
    \<Rightarrow> error + calculation_overlay" where
  "overlay_of s d overlay_id kind key = build_record CalculationOverlay_post_init
     \<lparr>ov_overlay_id = overlay_id, ov_overlay_kind = kind, ov_product_identity = md_asset_identity d,
      ov_run_id = sn_run_id s, ov_snapshot_id = sn_snapshot_id s, ov_policy = sn_policy s,
      ov_definition_id = md_definition_id d, ov_violation_key = key\<rparr>"

definition metric_overlays :: "result_snapshot \<Rightarrow> result_metric \<Rightarrow> calculation_error + calculation_overlay list" where
  "metric_overlays s m = (let d = rm_definition m in
     attempt (map_error CalculationDomainError (overlay_of s d
       (''result:'' @ sn_snapshot_id s @ '':'' @ asset_of d @ '':'' @ md_definition_id d) RESULT None)) (\<lambda>r.
     attempt (dict_get me_definition_id (md_definition_id d) (sn_evaluations s)) (\<lambda>e.
     case me_violation e of
       None \<Rightarrow> Inr [r]
     | Some v \<Rightarrow> attempt (map_error CalculationDomainError (overlay_of s d
         (''violation:'' @ sn_snapshot_id s @ '':'' @ pv_violation_key v) VIOLATION_OVERLAY (Some (pv_violation_key v))))
         (\<lambda>x. Inr [r, x]))))"

fun snapshot_overlays :: "result_snapshot \<Rightarrow> result_metric list \<Rightarrow> calculation_error + calculation_overlay list" where
  "snapshot_overlays s [] = Inr []"
| "snapshot_overlays s (m # ms) =
     attempt (metric_overlays s m) (\<lambda>xs. attempt (snapshot_overlays s ms) (\<lambda>ys. Inr (xs @ ys)))"

definition build_calculation_overlays :: "result_snapshot \<Rightarrow> calculation_error + calculation_overlay list" where
  "build_calculation_overlays s = attempt (snapshot_overlays s (sn_metrics s)) (\<lambda>xs. Inr (sort_key ov_overlay_id xs))"

end
