(* ===== verification/Calculation_Encodings.thy ===== *)
theory Calculation_Encodings
  imports Calculation_Policy Encodings
begin

text \<open>
  The calculation records as values of the encoder in \<open>serialization.py\<close>, with their fields
  in the order of their classes.
\<close>

section \<open>Numbers and enumerations\<close>

text \<open>
  A finite decimal as coefficient and exponent, with the fewest decimal places.  The canonical
  text depends on the number only, so this is the text of every equal \<open>Decimal\<close>.
\<close>

definition dec_of :: "rat \<Rightarrow> dec_value" where
  "dec_of x = (let (p, q) = quotient_of x in
     case List.find (\<lambda>k. (10 :: int) ^ k mod q = 0) [0..<Suc (4 * length (nat_str (nat q)))] of
       None \<Rightarrow> DecSpecial
     | Some k \<Rightarrow> Dec (p * (10 ^ k div q)) (- int k))"

fun object_class_kind_value :: "object_class_kind \<Rightarrow> string" where
  "object_class_kind_value GRID_CLASS = ''grid''"
| "object_class_kind_value TERMINAL_CLASS = ''terminal''"
| "object_class_kind_value LINE_CLASS = ''line''"
| "object_class_kind_value LOAD_CLASS = ''load''"
| "object_class_kind_value TRANSFORMER_CLASS = ''transformer''"

fun command_kind_value :: "command_kind \<Rightarrow> string" where
  "command_kind_value LOAD_FLOW = ''load_flow''"
| "command_kind_value RMS_SIMULATION = ''rms_simulation''"

fun result_cell_status_value :: "result_cell_status \<Rightarrow> string" where
  "result_cell_status_value AVAILABLE = ''available''"
| "result_cell_status_value MISSING = ''missing''"
| "result_cell_status_value CELL_UNSUPPORTED = ''unsupported''"
| "result_cell_status_value NON_FINITE = ''non_finite''"

fun evaluation_status_value :: "evaluation_status \<Rightarrow> string" where
  "evaluation_status_value SAFE = ''safe''"
| "evaluation_status_value VIOLATION = ''violation''"
| "evaluation_status_value NOT_EVALUATED_MISSING_LIMIT = ''not_evaluated_missing_limit''"
| "evaluation_status_value NOT_EVALUATED_DATA = ''not_evaluated_data''"

fun finding_trend_value :: "finding_trend \<Rightarrow> string" where
  "finding_trend_value NEW = ''new''"
| "finding_trend_value RESOLVED = ''resolved''"
| "finding_trend_value UNCHANGED = ''unchanged''"
| "finding_trend_value NOT_EVALUATED = ''not_evaluated''"

fun calculation_overlay_kind_value :: "calculation_overlay_kind \<Rightarrow> string" where
  "calculation_overlay_kind_value RESULT = ''result''"
| "calculation_overlay_kind_value VIOLATION_OVERLAY = ''violation''"

fun convergence_state_value :: "convergence_state \<Rightarrow> string" where
  "convergence_state_value CONVERGED = ''converged''"
| "convergence_state_value NOT_CONVERGED = ''not_converged''"
| "convergence_state_value CALCULATION_FAILED = ''failed''"

fun violation_severity_value :: "violation_severity \<Rightarrow> string" where
  "violation_severity_value INFO = ''info''"
| "violation_severity_value WARNING = ''warning''"
| "violation_severity_value CRITICAL = ''critical''"

section \<open>Records\<close>

definition py_quantity :: "quantity \<Rightarrow> py_value" where
  "py_quantity q = PyModel ''Quantity'' [(''value'', PyDecimal (dec_of (q_value q))), (''unit'', PyStr (q_unit q))]"

definition py_revision :: "string \<Rightarrow> revision \<Rightarrow> py_value" where
  "py_revision c r = PyModel c [(''scope_id'', PyStr (scope_id r)), (''counter'', PyInt (counter r))]"

definition py_object_selector :: "primitive_object_selector \<Rightarrow> py_value" where
  "py_object_selector s = PyModel ''PrimitiveObjectSelector''
     [(''project_key'', PyStr (po_project_key s)),
      (''object_class'', PyModel ''ObjectClassSelector''
         [(''kind'', PyEnum (object_class_kind_value (oc_kind (po_object_class s)))),
          (''contract'', py_pair ''VersionedName'' (oc_contract (po_object_class s)))]),
      (''native_field'', py_optional PyStr (po_native_field s)), (''native_value'', py_optional PyStr (po_native_value s)),
      (''canonical_path'', py_optional PyStr (po_canonical_path s))]"

definition py_result_variable :: "result_variable_selector \<Rightarrow> py_value" where
  "py_result_variable v = PyModel ''ResultVariableSelector''
     [(''kind'', PyEnum (result_variable_value (rv_kind v))), (''contract'', py_pair ''VersionedName'' (rv_contract v))]"

definition py_command :: "command_selector \<Rightarrow> py_value" where
  "py_command c = PyModel ''CommandSelector''
     [(''kind'', PyEnum (command_kind_value (cs_kind c))), (''contract'', py_pair ''VersionedName'' (cs_contract c))]"

definition py_setting :: "command_setting \<Rightarrow> py_value" where
  "py_setting s = PyModel ''CommandSetting''
     [(''name'', PyStr (st_name s)),
      (''value'', (case st_value s of SettingText t \<Rightarrow> PyStr t | SettingBool b \<Rightarrow> PyBool b | SettingQuantity q \<Rightarrow> py_quantity q))]"

definition py_metric_definition :: "metric_definition \<Rightarrow> py_value" where
  "py_metric_definition d = PyModel ''MetricDefinition''
     [(''definition_id'', PyStr (md_definition_id d)), (''asset_identity'', py_identity (md_asset_identity d)),
      (''metric_kind'', PyEnum (metric_kind_value (md_metric_kind d))),
      (''object_selector'', py_object_selector (md_object_selector d)), (''variable'', py_result_variable (md_variable d)),
      (''canonical_unit'', PyStr (md_canonical_unit d)), (''lower_limit'', py_optional py_quantity (md_lower_limit d)),
      (''upper_limit'', py_optional py_quantity (md_upper_limit d)), (''critical_margin'', py_quantity (md_critical_margin d)),
      (''equivalence_tolerance'', py_quantity (md_equivalence_tolerance d)),
      (''materiality_threshold'', py_quantity (md_materiality_threshold d)), (''limit_source'', PyStr (md_limit_source d))]"

definition py_calculation_run :: "calculation_run \<Rightarrow> py_value" where
  "py_calculation_run r = PyModel ''CalculationRun''
     [(''run_id'', PyStr (cr_run_id r)), (''context_id'', PyStr (cr_context_id r)),
      (''configuration_key'', py_wrapped ''ConfigurationKey'' (ck_value (cr_configuration_key r))),
      (''extraction_revision'', py_revision ''ExtractionRevision'' (cr_extraction_revision r)),
      (''calculation_input_digest'', py_wrapped ''CalculationInputDigest'' (cid_value (cr_calculation_input_digest r))),
      (''command'', py_command (cr_command r)), (''command_settings'', PyTuple (map py_setting (cr_command_settings r))),
      (''policy'', py_pair ''VersionedName'' (cr_policy r)),
      (''convergence_state'', PyEnum (convergence_state_value (cr_convergence_state r))),
      (''execution_id'', py_optional PyStr (cr_execution_id r)),
      (''diagnostic_messages'', PyTuple (map PyStr (cr_diagnostic_messages r))),
      (''log_references'', PyTuple (map PyStr (cr_log_references r))),
      (''result_snapshot_id'', py_optional PyStr (cr_result_snapshot_id r)),
      (''started_at'', PyDatetime (cr_started_at r)), (''completed_at'', PyDatetime (cr_completed_at r))]"

definition py_result_metric :: "result_metric \<Rightarrow> py_value" where
  "py_result_metric m = PyModel ''ResultMetric''
     [(''definition'', py_metric_definition (rm_definition m)), (''status'', PyEnum (result_cell_status_value (rm_status m))),
      (''source_value'', py_optional PyStr (rm_source_value m)), (''source_unit'', py_optional PyStr (rm_source_unit m)),
      (''normalized'', py_optional py_quantity (rm_normalized m)), (''diagnostic'', py_optional PyStr (rm_diagnostic m))]"

definition py_violation :: "policy_violation \<Rightarrow> py_value" where
  "py_violation v = PyModel ''PolicyViolation''
     [(''violation_key'', PyStr (pv_violation_key v)), (''definition_id'', PyStr (pv_definition_id v)),
      (''asset_identity'', py_identity (pv_asset_identity v)), (''metric_kind'', PyEnum (metric_kind_value (pv_metric_kind v))),
      (''measured_value'', py_quantity (pv_measured_value v)), (''limit'', py_quantity (pv_limit v)),
      (''severity'', PyEnum (violation_severity_value (pv_severity v))), (''direction'', PyStr (pv_direction v))]"

definition py_evaluation :: "metric_evaluation \<Rightarrow> py_value" where
  "py_evaluation e = PyModel ''MetricEvaluation''
     [(''definition_id'', PyStr (me_definition_id e)), (''status'', PyEnum (evaluation_status_value (me_status e))),
      (''observed_status'', PyEnum (result_cell_status_value (me_observed_status e))),
      (''violation'', py_optional py_violation (me_violation e)), (''reason'', py_optional PyStr (me_reason e))]"

definition py_result_snapshot :: "result_snapshot \<Rightarrow> py_value" where
  "py_result_snapshot s = PyModel ''ResultSnapshot''
     [(''snapshot_id'', PyStr (sn_snapshot_id s)), (''run_id'', PyStr (sn_run_id s)), (''context_id'', PyStr (sn_context_id s)),
      (''configuration_key'', py_wrapped ''ConfigurationKey'' (ck_value (sn_configuration_key s))),
      (''extraction_revision'', py_revision ''ExtractionRevision'' (sn_extraction_revision s)),
      (''calculation_input_digest'', py_wrapped ''CalculationInputDigest'' (cid_value (sn_calculation_input_digest s))),
      (''policy'', py_pair ''VersionedName'' (sn_policy s)), (''metrics'', PyTuple (map py_result_metric (sn_metrics s))),
      (''evaluations'', PyTuple (map py_evaluation (sn_evaluations s))), (''captured_at'', PyDatetime (sn_captured_at s))]"

definition py_metric_comparison :: "metric_comparison \<Rightarrow> py_value" where
  "py_metric_comparison c = PyModel ''MetricComparison''
     [(''definition_id'', PyStr (mc_definition_id c)),
      (''before_status'', PyEnum (result_cell_status_value (mc_before_status c))),
      (''after_status'', PyEnum (result_cell_status_value (mc_after_status c))),
      (''before_value'', py_optional py_quantity (mc_before_value c)), (''after_value'', py_optional py_quantity (mc_after_value c)),
      (''delta'', py_optional py_quantity (mc_delta c)), (''equivalent'', PyBool (mc_equivalent c)),
      (''material'', PyBool (mc_material c))]"

definition py_finding :: "finding_comparison \<Rightarrow> py_value" where
  "py_finding f = PyModel ''FindingComparison''
     [(''violation_key'', PyStr (fc_violation_key f)), (''trend'', PyEnum (finding_trend_value (fc_trend f))),
      (''baseline_status'', PyEnum (evaluation_status_value (fc_baseline_status f))),
      (''candidate_status'', PyEnum (evaluation_status_value (fc_candidate_status f)))]"

definition py_calculation_comparison :: "calculation_comparison \<Rightarrow> py_value" where
  "py_calculation_comparison c = PyModel ''CalculationComparison''
     [(''comparison_id'', PyStr (kc_comparison_id c)), (''baseline_snapshot_id'', PyStr (kc_baseline_snapshot_id c)),
      (''candidate_snapshot_id'', PyStr (kc_candidate_snapshot_id c)), (''policy'', py_pair ''VersionedName'' (kc_policy c)),
      (''result_equivalent'', PyBool (kc_result_equivalent c)),
      (''comparable_metric_count'', PyInt (kc_comparable_metric_count c)),
      (''comparisons'', PyTuple (map py_metric_comparison (kc_comparisons c))),
      (''findings'', PyTuple (map py_finding (kc_findings c))), (''compared_at'', PyDatetime (kc_compared_at c))]"

definition py_calculation_overlay :: "calculation_overlay \<Rightarrow> py_value" where
  "py_calculation_overlay x = PyModel ''CalculationOverlay''
     [(''overlay_id'', PyStr (ov_overlay_id x)), (''overlay_kind'', PyEnum (calculation_overlay_kind_value (ov_overlay_kind x))),
      (''product_identity'', py_identity (ov_product_identity x)), (''run_id'', PyStr (ov_run_id x)),
      (''snapshot_id'', PyStr (ov_snapshot_id x)), (''policy'', py_pair ''VersionedName'' (ov_policy x)),
      (''definition_id'', PyStr (ov_definition_id x)), (''violation_key'', py_optional PyStr (ov_violation_key x))]"

end
