(* ===== verification/Calculation_Store.thy ===== *)
theory Calculation_Store
  imports Calculation_Encodings Operation_Store
begin

text \<open>
  \<open>persistence/calculation_store.py\<close> over migration 3 of \<open>persistence/database.py\<close>: runs,
  snapshots and comparisons, which are only ever inserted, and the overlays of each snapshot.
  A JSON column keeps the record it encodes; the encodings themselves are computed, since an
  object beyond the limit of \<open>serialization.py\<close> is refused.
\<close>

section \<open>Tables\<close>

record run_row =
  un_run_id :: string
  un_context_id :: string
  un_configuration_key :: string
  un_extraction_counter :: int
  un_input_digest :: string
  un_policy :: "string \<times> string"
  un_convergence_state :: string
  un_result_snapshot_id :: "string option"
  un_run :: calculation_run
  un_recorded_at :: string

record snapshot_row =
  sw_snapshot_id :: string
  sw_run_id :: string
  sw_context_id :: string
  sw_configuration_key :: string
  sw_extraction_counter :: int
  sw_input_digest :: string
  sw_policy :: "string \<times> string"
  sw_snapshot :: result_snapshot
  sw_recorded_at :: string

record comparison_row =
  kw_comparison_id :: string
  kw_baseline_snapshot_id :: string
  kw_candidate_snapshot_id :: string
  kw_comparison :: calculation_comparison
  kw_recorded_at :: string

record overlay_row =
  ow_overlay_id :: string
  ow_snapshot_id :: string
  ow_product_identity :: string
  ow_overlay_kind :: string
  ow_overlay :: calculation_overlay

record calculation_db =
  calculation_runs :: "run_row list"
  calculation_snapshots :: "snapshot_row list"
  calculation_comparisons :: "comparison_row list"
  calculation_overlays :: "overlay_row list"

definition empty_calculation_db :: calculation_db where
  "empty_calculation_db = \<lparr>calculation_runs = [], calculation_snapshots = [], calculation_comparisons = [],
     calculation_overlays = []\<rparr>"

datatype calculation_store_error =
    CalculationNotFoundError string | CalculationContextMismatchError string | StoreValueError string
  | StoreSerialization ser_error | StoreIntegrityError string | StoreOverflow | ProjectionError calculation_error

section \<open>Recording a run\<close>

definition require_snapshot_matches_run :: "calculation_run \<Rightarrow> result_snapshot \<Rightarrow> calculation_store_error option" where
  "require_snapshot_matches_run r s = first_error
     [require (cr_result_snapshot_id r = Some (sn_snapshot_id s) \<and> cr_run_id r = sn_run_id s)
        (StoreValueError ''snapshot must bind the exact run and snapshot ID''),
      require (cr_context_id r = sn_context_id s \<and> cr_configuration_key r = sn_configuration_key s
          \<and> cr_extraction_revision r = sn_extraction_revision s
          \<and> cr_calculation_input_digest r = sn_calculation_input_digest s \<and> cr_policy r = sn_policy s)
        (CalculationContextMismatchError ''snapshot scope does not match calculation run'')]"

definition pair_of :: "versioned_name \<Rightarrow> string \<times> string" where
  "pair_of v = (vp_name v, vp_version v)"

definition run_row_of :: "calculation_run \<Rightarrow> run_row" where
  "run_row_of r = \<lparr>un_run_id = cr_run_id r, un_context_id = cr_context_id r,
     un_configuration_key = ck_value (cr_configuration_key r), un_extraction_counter = counter (cr_extraction_revision r),
     un_input_digest = cid_value (cr_calculation_input_digest r), un_policy = pair_of (cr_policy r),
     un_convergence_state = convergence_state_value (cr_convergence_state r),
     un_result_snapshot_id = cr_result_snapshot_id r, un_run = r,
     un_recorded_at = encode_utc_timestamp (cr_completed_at r)\<rparr>"

definition snapshot_row_of :: "result_snapshot \<Rightarrow> snapshot_row" where
  "snapshot_row_of s = \<lparr>sw_snapshot_id = sn_snapshot_id s, sw_run_id = sn_run_id s, sw_context_id = sn_context_id s,
     sw_configuration_key = ck_value (sn_configuration_key s), sw_extraction_counter = counter (sn_extraction_revision s),
     sw_input_digest = cid_value (sn_calculation_input_digest s), sw_policy = pair_of (sn_policy s),
     sw_snapshot = s, sw_recorded_at = encode_utc_timestamp (sn_captured_at s)\<rparr>"

definition overlay_row_of :: "string \<Rightarrow> calculation_overlay \<Rightarrow> overlay_row" where
  "overlay_row_of snapshot_id x = \<lparr>ow_overlay_id = ov_overlay_id x, ow_snapshot_id = snapshot_id,
     ow_product_identity = pi_value (ov_product_identity x),
     ow_overlay_kind = calculation_overlay_kind_value (ov_overlay_kind x), ow_overlay = x\<rparr>"

definition encoded_as :: "py_value \<Rightarrow> calculation_store_error + string" where
  "encoded_as v = map_error StoreSerialization (canonical_json MAX_SERIALIZED_BYTES v)"

definition insert_run_row :: "calculation_run \<Rightarrow> calculation_db \<Rightarrow> calculation_store_error + calculation_db" where
  "insert_run_row r d = attempt (encoded_as (py_calculation_run r)) (\<lambda>_.
     if \<not> sqlite_int (counter (cr_extraction_revision r)) then Inl StoreOverflow
     else if has_key un_run_id (cr_run_id r) (calculation_runs d)
     then Inl (StoreIntegrityError ''calculation_runs.run_id'')
     else Inr (d\<lparr>calculation_runs := calculation_runs d @ [run_row_of r]\<rparr>))"

definition insert_snapshot_row :: "result_snapshot \<Rightarrow> calculation_db \<Rightarrow> calculation_store_error + calculation_db" where
  "insert_snapshot_row s d = attempt (encoded_as (py_result_snapshot s)) (\<lambda>_.
     if \<not> sqlite_int (counter (sn_extraction_revision s)) then Inl StoreOverflow
     else if has_key sw_snapshot_id (sn_snapshot_id s) (calculation_snapshots d)
     then Inl (StoreIntegrityError ''calculation_snapshots.snapshot_id'')
     else if has_key sw_run_id (sn_run_id s) (calculation_snapshots d)
     then Inl (StoreIntegrityError ''calculation_snapshots.run_id'')
     else if \<not> has_key un_run_id (sn_run_id s) (calculation_runs d)
     then Inl (StoreIntegrityError ''FOREIGN KEY'')
     else Inr (d\<lparr>calculation_snapshots := calculation_snapshots d @ [snapshot_row_of s]\<rparr>))"

fun insert_overlays :: "string \<Rightarrow> calculation_overlay list \<Rightarrow> overlay_row list \<Rightarrow> calculation_store_error + overlay_row list" where
  "insert_overlays snapshot_id [] rows = Inr rows"
| "insert_overlays snapshot_id (x # xs) rows = attempt (encoded_as (py_calculation_overlay x)) (\<lambda>_.
     if has_key ow_overlay_id (ov_overlay_id x) rows then Inl (StoreIntegrityError ''calculation_overlays.overlay_id'')
     else insert_overlays snapshot_id xs (rows @ [overlay_row_of snapshot_id x]))"

definition insert_snapshot :: "result_snapshot \<Rightarrow> calculation_db \<Rightarrow> calculation_store_error + calculation_db" where
  "insert_snapshot s d = attempt (insert_snapshot_row s d) (\<lambda>d1.
     attempt (map_error ProjectionError (build_calculation_overlays s)) (\<lambda>xs.
     attempt (insert_overlays (sn_snapshot_id s) xs (calculation_overlays d1)) (\<lambda>rows.
     Inr (d1\<lparr>calculation_overlays := rows\<rparr>))))"

definition record_calculation :: "calculation_run \<Rightarrow> result_snapshot option \<Rightarrow> calculation_db
    \<Rightarrow> (calculation_store_error + calculation_run) \<times> calculation_db" where
  "record_calculation r snapshot d0 =
     (if (snapshot = None) \<noteq> (cr_result_snapshot_id r = None)
      then (Inl (StoreValueError ''run and snapshot must agree about immutable result capture''), d0)
      else case (case snapshot of None \<Rightarrow> None | Some s \<Rightarrow> require_snapshot_matches_run r s) of
        Some e \<Rightarrow> (Inl e, d0)
      | None \<Rightarrow> transaction (\<lambda>d. attempt (insert_run_row r d) (\<lambda>d1.
          attempt (case snapshot of None \<Rightarrow> Inr d1 | Some s \<Rightarrow> insert_snapshot s d1) (\<lambda>d2. Inr (r, d2)))) d0)"

section \<open>Reading\<close>

definition stored_run :: "string \<Rightarrow> calculation_db \<Rightarrow> calculation_store_error + calculation_run" where
  "stored_run i d = (case lookup_row un_run_id i (calculation_runs d) of
      None \<Rightarrow> Inl (CalculationNotFoundError i) | Some r \<Rightarrow> Inr (un_run r))"

definition stored_snapshot :: "string \<Rightarrow> string option \<Rightarrow> calculation_db \<Rightarrow> calculation_store_error + result_snapshot" where
  "stored_snapshot i expected_configuration_key d = (case lookup_row sw_snapshot_id i (calculation_snapshots d) of
      None \<Rightarrow> Inl (CalculationNotFoundError i)
    | Some r \<Rightarrow>
        if expected_configuration_key \<noteq> None \<and> expected_configuration_key \<noteq> Some (sw_configuration_key r)
        then Inl (CalculationContextMismatchError ''snapshot configuration key does not match requested context'')
        else Inr (sw_snapshot r))"

definition stored_comparison :: "string \<Rightarrow> calculation_db \<Rightarrow> calculation_store_error + calculation_comparison" where
  "stored_comparison i d = (case lookup_row kw_comparison_id i (calculation_comparisons d) of
      None \<Rightarrow> Inl (CalculationNotFoundError i) | Some r \<Rightarrow> Inr (kw_comparison r))"

definition rebuild_overlays :: "string \<Rightarrow> calculation_db \<Rightarrow> calculation_store_error + calculation_overlay list" where
  "rebuild_overlays i d = attempt (stored_snapshot i None d) (\<lambda>s. map_error ProjectionError (build_calculation_overlays s))"

definition overlays_of :: "string \<Rightarrow> calculation_db \<Rightarrow> calculation_overlay list" where
  "overlays_of i d = map ow_overlay (sort_key ow_overlay_id (filter (\<lambda>r. ow_snapshot_id r = i) (calculation_overlays d)))"

section \<open>Recording a comparison\<close>

definition comparison_row_of :: "calculation_comparison \<Rightarrow> comparison_row" where
  "comparison_row_of c = \<lparr>kw_comparison_id = kc_comparison_id c, kw_baseline_snapshot_id = kc_baseline_snapshot_id c,
     kw_candidate_snapshot_id = kc_candidate_snapshot_id c, kw_comparison = c,
     kw_recorded_at = encode_utc_timestamp (kc_compared_at c)\<rparr>"

definition insert_comparison :: "calculation_comparison \<Rightarrow> calculation_db \<Rightarrow> calculation_store_error + calculation_db" where
  "insert_comparison c d = attempt (encoded_as (py_calculation_comparison c)) (\<lambda>_.
     if has_key kw_comparison_id (kc_comparison_id c) (calculation_comparisons d)
     then Inl (StoreIntegrityError ''calculation_comparisons.comparison_id'')
     else if \<not> has_key sw_snapshot_id (kc_baseline_snapshot_id c) (calculation_snapshots d)
       \<or> \<not> has_key sw_snapshot_id (kc_candidate_snapshot_id c) (calculation_snapshots d)
     then Inl (StoreIntegrityError ''FOREIGN KEY'')
     else Inr (d\<lparr>calculation_comparisons := calculation_comparisons d @ [comparison_row_of c]\<rparr>))"

definition record_comparison :: "calculation_comparison \<Rightarrow> calculation_db
    \<Rightarrow> (calculation_store_error + calculation_comparison) \<times> calculation_db" where
  "record_comparison c d0 =
     (case attempt (stored_snapshot (kc_baseline_snapshot_id c) None d0) (\<lambda>baseline.
        attempt (stored_snapshot (kc_candidate_snapshot_id c) None d0) (\<lambda>candidate.
        if sn_configuration_key baseline \<noteq> sn_configuration_key candidate
        then Inl (CalculationContextMismatchError ''comparisons require matching configuration keys'')
        else if sn_policy baseline \<noteq> kc_policy c \<or> sn_policy candidate \<noteq> kc_policy c
        then Inl (StoreValueError ''comparison policy must match both snapshots'')
        else Inr ())) of
        Inl e \<Rightarrow> (Inl e, d0)
      | Inr _ \<Rightarrow> transaction (\<lambda>d. attempt (insert_comparison c d) (\<lambda>d1. Inr (c, d1))) d0)"

section \<open>Commands of the store\<close>

datatype calculation_command =
  RecordRun calculation_run "result_snapshot option" | RecordComparison calculation_comparison

definition calculation_step :: "calculation_db \<Rightarrow> calculation_command \<Rightarrow> calculation_db" where
  "calculation_step d c = (case c of
      RecordRun r s \<Rightarrow> snd (record_calculation r s d) | RecordComparison k \<Rightarrow> snd (record_comparison k d))"

end
