(* ===== verification/Load_Flow_Service.thy ===== *)
theory Load_Flow_Service
  imports Calculation_Store
begin

text \<open>
  The \<open>LoadFlowService\<close> of \<open>operations/calculations.py\<close>.  The owner it drives is an argument:
  for each submitted request, what the submission does, the states that the polls of \<open>_await\<close>
  see before the deadline, and what \<open>completed_result\<close> gives.  The identifiers and the clock are
  the successive results of \<open>uuid.uuid4\<close> and \<open>_utc_now\<close>.
\<close>

section \<open>Waiting for the owner\<close>

datatype 'a owner_result = OwnerResult 'a | ResultUnavailable | ResultRaises string

datatype 'a owner_call = SubmitRaises string | NoRecord | Submitted "operation_state list" "'a owner_result"

record calculation_owner =
  cw_execute_command :: "command_execution_request \<Rightarrow> string \<Rightarrow> command_execution_observation owner_call"
  cw_collect_results :: "result_collection_request \<Rightarrow> string \<Rightarrow> result_batch owner_call"
  cw_read_logs :: "log_read_request \<Rightarrow> string \<Rightarrow> log_batch owner_call"

fun poll_states :: "operation_state list \<Rightarrow> 'a owner_result \<Rightarrow> calculation_error + 'a" where
  "poll_states [] result =
     Inl (CalculationOperationTimedOut ''owner operation did not become terminal before service timeout'')"
| "poll_states (st # sts) result =
     (if st \<in> set TERMINAL_STATES
      then (case result of
          OwnerResult x \<Rightarrow> Inr x
        | ResultUnavailable \<Rightarrow>
            Inl (CalculationOperationFailed (''owner operation ended as '' @ operation_state_value st))
        | ResultRaises m \<Rightarrow> Inl (OwnerRaised m))
      else if st = ENGINE_UNRESPONSIVE \<or> st = RECONCILIATION_NEEDED
      then Inl (CalculationOperationFailed (''owner operation requires reconciliation: '' @ operation_state_value st))
      else poll_states sts result)"

definition await_call :: "'a owner_call \<Rightarrow> calculation_error + 'a" where
  "await_call c = (case c of
      SubmitRaises m \<Rightarrow> Inl (OwnerRaised m)
    | NoRecord \<Rightarrow> Inl (CalculationServiceError ''owner did not return a durable operation record'')
    | Submitted states result \<Rightarrow> poll_states states result)"

text \<open>The errors that \<open>except CalculationServiceError\<close> catches, and their text.\<close>

fun service_error_text :: "calculation_error \<Rightarrow> string option" where
  "service_error_text (CalculationServiceError m) = Some m"
| "service_error_text (CalculationOperationFailed m) = Some m"
| "service_error_text (CalculationOperationTimedOut m) = Some m"
| "service_error_text (CalculationPaginationError m) = Some m"
| "service_error_text _ = None"

section \<open>Collecting the results\<close>

record load_flow_config =
  lc_result_page_size :: int
  lc_log_entry_limit :: int
  lc_log_byte_limit :: int

text \<open>The checks of the constructor.\<close>

definition load_flow_config_check :: "load_flow_config \<Rightarrow> bool \<Rightarrow> calculation_error option" where
  "load_flow_config_check cfg positive_wait = first_error
     [require (1 \<le> lc_result_page_size cfg \<and> lc_result_page_size cfg \<le> 100)
        (CalculationDomainError (ValueError ''result_page_size must be between 1 and 100'')),
      require (1 \<le> lc_log_entry_limit cfg \<and> lc_log_entry_limit cfg \<le> 100
          \<and> 1 \<le> lc_log_byte_limit cfg \<and> lc_log_byte_limit cfg \<le> 65536)
        (CalculationDomainError (ValueError ''log bounds are invalid'')),
      require positive_wait (CalculationDomainError (ValueError ''owner wait timeout must be positive''))]"

type_synonym result_table = "(primitive_object_selector \<times> result_cell list) list"

fun add_rows :: "result_row list \<Rightarrow> result_table \<Rightarrow> calculation_error + result_table" where
  "add_rows [] results = Inr results"
| "add_rows (r # rows) results =
     (if has_key fst (rr_selector r) results
      then Inl (CalculationPaginationError ''result collection repeated an object selector'')
      else add_rows rows (results @ [(rr_selector r, rr_cells r)]))"

text \<open>\<open>tuple(dict.fromkeys(xs))\<close>: the first occurrence of every element.\<close>

definition from_keys :: "'a list \<Rightarrow> 'a list" where
  "from_keys xs = rev (remdups (rev xs))"

definition collect_request :: "load_flow_config \<Rightarrow> load_flow_request \<Rightarrow> string \<Rightarrow> page_cursor option
    \<Rightarrow> calculation_error + result_collection_request" where
  "collect_request cfg r execution_id cursor = map_error CalculationDomainError
     (build_record ResultCollectionRequest_post_init
       \<lparr>rc_configuration_key = lf_configuration_key r, rc_execution_id = execution_id,
        rc_objects = map md_object_selector (lf_metric_catalog r),
        rc_variables = from_keys (map md_variable (lf_metric_catalog r)),
        rc_limit = lc_result_page_size cfg, rc_cursor = cursor\<rparr>)"

text \<open>One page: the result of the loop, or the results, cursor and cursors seen for the next.\<close>

definition collect_round :: "calculation_owner \<Rightarrow> load_flow_config \<Rightarrow> load_flow_request \<Rightarrow> string \<Rightarrow> result_table
    \<Rightarrow> page_cursor option \<Rightarrow> string list
    \<Rightarrow> (calculation_error + result_table) + (result_table \<times> page_cursor \<times> string list)" where
  "collect_round w cfg r execution_id results cursor seen =
     (case attempt (collect_request cfg r execution_id cursor) (\<lambda>q.
           attempt (await_call (cw_collect_results w q
             (lf_idempotency_key r @ '':results:'' @ nat_str (length seen)))) (\<lambda>b.
           if rb_execution_id b \<noteq> execution_id
           then Inl (CalculationServiceError ''owner returned results for another execution'')
           else attempt (add_rows (rb_rows b) results) (\<lambda>results'. Inr (b, results')))) of
        Inl e \<Rightarrow> Inl (Inl e)
      | Inr (b, results') \<Rightarrow>
          if rb_complete b then Inl (Inr results')
          else (case rb_next_cursor b of
              None \<Rightarrow> Inl (Inl (CalculationPaginationError ''result collection cursor did not make progress''))
            | Some c \<Rightarrow>
                if cursor_token c \<in> set seen
                then Inl (Inl (CalculationPaginationError ''result collection cursor did not make progress''))
                else if length (lf_metric_catalog r) < Suc (length seen)
                then Inl (Inl (CalculationPaginationError ''result collection exceeded bounded object pages''))
                else Inr (results', c, cursor_token c # seen)))"

lemma collect_round_progress:
  "collect_round w cfg r x results cursor seen = Inr (results', c, seen')
     \<Longrightarrow> length seen' = Suc (length seen) \<and> length seen < length (lf_metric_catalog r)"
  by (auto simp: collect_round_def split: sum.splits if_splits option.splits)

function collect_pages :: "calculation_owner \<Rightarrow> load_flow_config \<Rightarrow> load_flow_request \<Rightarrow> string \<Rightarrow> result_table
    \<Rightarrow> page_cursor option \<Rightarrow> string list \<Rightarrow> calculation_error + result_table" where
  "collect_pages w cfg r execution_id results cursor seen =
     (case collect_round w cfg r execution_id results cursor seen of
        Inl res \<Rightarrow> res
      | Inr (results', c, seen') \<Rightarrow> collect_pages w cfg r execution_id results' (Some c) seen')"
  by pat_completeness auto
termination
  by (relation "measure (\<lambda>(w, cfg, r, x, results, cursor, seen). length (lf_metric_catalog r) - length seen)")
    (auto dest: collect_round_progress)

definition metric_from :: "result_table \<Rightarrow> metric_definition \<Rightarrow> error + result_metric" where
  "metric_from results d =
     (case lookup_row rl_variable (md_variable d)
         (rev (case lookup_row fst (md_object_selector d) results of None \<Rightarrow> [] | Some (_, cells) \<Rightarrow> cells)) of
        None \<Rightarrow> build_record ResultMetric_post_init
          \<lparr>rm_definition = d, rm_status = MISSING, rm_source_value = None, rm_source_unit = None,
           rm_normalized = None, rm_diagnostic = Some ''result cell was absent''\<rparr>
      | Some c \<Rightarrow> build_record ResultMetric_post_init
          \<lparr>rm_definition = d, rm_status = rl_status c, rm_source_value = rl_source_value c,
           rm_source_unit = rl_source_unit c, rm_normalized = rl_normalized c, rm_diagnostic = rl_diagnostic c\<rparr>)"

definition collect_metrics :: "calculation_owner \<Rightarrow> load_flow_config \<Rightarrow> load_flow_request \<Rightarrow> string
    \<Rightarrow> calculation_error + result_metric list" where
  "collect_metrics w cfg r execution_id =
     attempt (collect_pages w cfg r execution_id [] None []) (\<lambda>results.
       map_error CalculationDomainError (collect (map (metric_from results) (lf_metric_catalog r))))"

section \<open>Logs\<close>

definition log_reference :: "string \<Rightarrow> log_entry \<Rightarrow> string" where
  "log_reference execution_id e = ''execution:'' @ execution_id @ '':log:'' @ int_str (le_sequence e)"

definition logs :: "calculation_owner \<Rightarrow> load_flow_config \<Rightarrow> string \<Rightarrow> string
    \<Rightarrow> calculation_error + string list \<times> string list" where
  "logs w cfg execution_id key =
     (case attempt (map_error CalculationDomainError (build_record LogReadRequest_post_init
           \<lparr>lr_execution_id = Some execution_id, lr_entry_limit = lc_log_entry_limit cfg,
            lr_byte_limit = lc_log_byte_limit cfg, lr_cursor = None\<rparr>)) (\<lambda>q.
         await_call (cw_read_logs w q (key @ '':logs''))) of
        Inl e \<Rightarrow> (case service_error_text e of
            Some m \<Rightarrow> Inr ([], [''log collection unavailable: '' @ m])
          | None \<Rightarrow> Inl e)
      | Inr b \<Rightarrow> Inr (map (log_reference execution_id) (lb_entries b),
          bounded_messages (map le_message
            (filter (\<lambda>e. le_severity e = LOG_WARNING \<or> le_severity e = LOG_ERROR) (lb_entries b)))))"

section \<open>The validated load flow\<close>

datatype load_flow_error =
  ServiceRaised calculation_error | StoreRaised calculation_store_error | DigestRaised ser_error

definition py_digest_input :: "load_flow_request \<Rightarrow> py_value" where
  "py_digest_input r = PyMap
     [(Some ''configuration_key'', py_wrapped ''ConfigurationKey'' (ck_value (lf_configuration_key r))),
      (Some ''extraction_revision'', py_revision ''ExtractionRevision'' (lf_extraction_revision r)),
      (Some ''command'', py_command (lf_command r)),
      (Some ''command_settings'', PyTuple (map py_setting (lf_command_settings r))),
      (Some ''metric_catalog'', PyTuple (map py_metric_definition (lf_metric_catalog r))),
      (Some ''policy'', py_pair ''VersionedName'' (lf_policy r))]"

definition input_digest :: "(string \<Rightarrow> string) \<Rightarrow> load_flow_request \<Rightarrow> load_flow_error + calculation_input_digest" where
  "input_digest sha256_hex r =
     attempt (map_error DigestRaised (canonical_digest sha256_hex ''calculation-input'' ''v1'' (py_digest_input r)))
       (\<lambda>t. map_error (ServiceRaised \<circ> CalculationDomainError)
         (build_record CalculationInputDigest_post_init (CalculationInputDigest t)))"

definition run_of_request :: "load_flow_request \<Rightarrow> string \<Rightarrow> calculation_input_digest \<Rightarrow> convergence_state \<Rightarrow> string option
    \<Rightarrow> string list \<Rightarrow> string list \<Rightarrow> string option \<Rightarrow> datetime \<Rightarrow> datetime \<Rightarrow> calculation_run" where
  "run_of_request r run_id digest state execution_id messages references snapshot_id started completed =
     \<lparr>cr_run_id = run_id, cr_context_id = lf_context_id r, cr_configuration_key = lf_configuration_key r,
      cr_extraction_revision = lf_extraction_revision r, cr_calculation_input_digest = digest,
      cr_command = lf_command r, cr_command_settings = lf_command_settings r, cr_policy = lf_policy r,
      cr_convergence_state = state, cr_execution_id = execution_id,
      cr_diagnostic_messages = bounded_messages messages, cr_log_references = references,
      cr_result_snapshot_id = snapshot_id, cr_started_at = started, cr_completed_at = completed\<rparr>"

definition snapshot_of_request :: "load_flow_request \<Rightarrow> string \<Rightarrow> string \<Rightarrow> calculation_input_digest
    \<Rightarrow> result_metric list \<Rightarrow> metric_evaluation list \<Rightarrow> datetime \<Rightarrow> result_snapshot" where
  "snapshot_of_request r snapshot_id run_id digest metrics evaluations captured =
     \<lparr>sn_snapshot_id = snapshot_id, sn_run_id = run_id, sn_context_id = lf_context_id r,
      sn_configuration_key = lf_configuration_key r, sn_extraction_revision = lf_extraction_revision r,
      sn_calculation_input_digest = digest, sn_policy = lf_policy r, sn_metrics = metrics,
      sn_evaluations = evaluations, sn_captured_at = captured\<rparr>"

text \<open>
  Everything before the call of the store: the run to record, with its snapshot when the
  command succeeded and its results were collected.
\<close>

definition build_run :: "calculation_run \<Rightarrow> calculation_error + calculation_run" where
  "build_run r = map_error CalculationDomainError (build_record CalculationRun_post_init r)"

definition execute_command :: "calculation_owner \<Rightarrow> load_flow_request \<Rightarrow> calculation_error + command_execution_observation" where
  "execute_command w r = attempt (map_error CalculationDomainError (build_record CommandExecutionRequest_post_init
       \<lparr>ce_configuration_key = lf_configuration_key r, ce_command = lf_command r, ce_settings = lf_command_settings r,
        ce_idempotency_key = lf_idempotency_key r\<rparr>))
     (\<lambda>q. await_call (cw_execute_command w q (lf_idempotency_key r)))"

definition captured_run :: "load_flow_request \<Rightarrow> (nat \<Rightarrow> string) \<Rightarrow> (nat \<Rightarrow> datetime) \<Rightarrow> calculation_input_digest
    \<Rightarrow> command_execution_observation \<Rightarrow> string list \<Rightarrow> string list \<Rightarrow> result_metric list
    \<Rightarrow> calculation_error + calculation_run \<times> result_snapshot option" where
  "captured_run r ids clock digest x references diagnostics metrics =
     attempt (map_error CalculationDomainError (collect (map evaluate_metric metrics))) (\<lambda>evaluations.
     attempt (map_error CalculationDomainError (build_record ResultSnapshot_post_init
       (snapshot_of_request r (ids 1) (ids 0) digest metrics evaluations (clock 1)))) (\<lambda>s.
     attempt (build_run (run_of_request r (ids 0) digest CONVERGED (Some (cx_execution_id x))
       (cx_diagnostic_messages x @ diagnostics) references (Some (ids 1)) (clock 0) (clock 2))) (\<lambda>run. Inr (run, Some s))))"

definition load_flow_outcome :: "calculation_owner \<Rightarrow> load_flow_config \<Rightarrow> load_flow_request \<Rightarrow> (nat \<Rightarrow> string)
    \<Rightarrow> (nat \<Rightarrow> datetime) \<Rightarrow> calculation_input_digest \<Rightarrow> calculation_error + calculation_run \<times> result_snapshot option" where
  "load_flow_outcome w cfg r ids clock digest =
     (case execute_command w r of
        Inl e \<Rightarrow> (case service_error_text e of
            None \<Rightarrow> Inl e
          | Some m \<Rightarrow> attempt (build_run (run_of_request r (ids 0) digest CALCULATION_FAILED None [m] [] None (clock 0) (clock 1)))
              (\<lambda>run. Inr (run, None)))
      | Inr x \<Rightarrow> attempt (logs w cfg (cx_execution_id x) (lf_idempotency_key r)) (\<lambda>(references, diagnostics).
          if cx_completion x \<noteq> COMMAND_SUCCEEDED
          then attempt (build_run (run_of_request r (ids 0) digest NOT_CONVERGED (Some (cx_execution_id x))
            (cx_diagnostic_messages x @ diagnostics) references None (clock 0) (clock 1))) (\<lambda>run. Inr (run, None))
          else (case collect_metrics w cfg r (cx_execution_id x) of
              Inl e \<Rightarrow> (case service_error_text e of
                  None \<Rightarrow> Inl e
                | Some m \<Rightarrow> attempt (build_run (run_of_request r (ids 0) digest CALCULATION_FAILED
                    (Some (cx_execution_id x)) [m] references None (clock 0) (clock 1))) (\<lambda>run. Inr (run, None)))
            | Inr metrics \<Rightarrow> captured_run r ids clock digest x references diagnostics metrics)))"

definition run_validated_load_flow :: "(string \<Rightarrow> string) \<Rightarrow> (nat \<Rightarrow> string) \<Rightarrow> (nat \<Rightarrow> datetime) \<Rightarrow> calculation_owner
    \<Rightarrow> load_flow_config \<Rightarrow> load_flow_request \<Rightarrow> calculation_db \<Rightarrow> (load_flow_error + calculation_run) \<times> calculation_db" where
  "run_validated_load_flow sha256_hex ids clock w cfg r d =
     (case attempt (input_digest sha256_hex r) (\<lambda>digest.
          map_error ServiceRaised (load_flow_outcome w cfg r ids clock digest)) of
        Inl e \<Rightarrow> (Inl e, d)
      | Inr (run, snapshot) \<Rightarrow> (case record_calculation run snapshot d of (res, d') \<Rightarrow> (map_error StoreRaised res, d')))"

section \<open>Comparisons and findings\<close>

definition compare_snapshots :: "string \<Rightarrow> datetime \<Rightarrow> string \<Rightarrow> string \<Rightarrow> calculation_db
    \<Rightarrow> (load_flow_error + calculation_comparison) \<times> calculation_db" where
  "compare_snapshots uuid now baseline_id candidate_id d =
     (case attempt (map_error StoreRaised (stored_snapshot baseline_id None d)) (\<lambda>b.
          attempt (map_error StoreRaised (stored_snapshot candidate_id None d)) (\<lambda>c.
          map_error ServiceRaised (compare_result_snapshots uuid now b c))) of
        Inl e \<Rightarrow> (Inl e, d)
      | Inr k \<Rightarrow> (case record_comparison k d of (res, d') \<Rightarrow> (map_error StoreRaised res, d')))"

definition find_violations :: "string \<Rightarrow> calculation_db \<Rightarrow> calculation_store_error + policy_violation list" where
  "find_violations snapshot_id d = attempt (stored_snapshot snapshot_id None d)
     (\<lambda>s. Inr (List.map_filter me_violation (sn_evaluations s)))"

end
