(* ===== verification/Calculation_Laws.thy ===== *)
theory Calculation_Laws
  imports Calculation_Policy Graph_Answers
begin

text \<open>
  The policy evaluation of valid metrics and the comparison of valid snapshots: the verdict of
  each, on every branch, and the cases in which the comparison of valid input fails.
\<close>

section \<open>Text\<close>

lemma stripped_ends:
  assumes "v \<noteq> []" "v = strip_text v"
  shows "\<not> is_space (hd v) \<and> \<not> is_space (last v)"
proof -
  let ?u = "dropWhile is_space v"
  have eq: "rev v = dropWhile is_space (rev ?u)" using arg_cong [OF assms(2), of rev] by (simp add: strip_text_def)
  have "length (dropWhile is_space (rev ?u)) \<le> length ?u" using length_dropWhile_le [of is_space "rev ?u"] by simp
  with eq have "length v \<le> length ?u" by (metis length_rev)
  then have "?u = v" using length_dropWhile_le [of is_space v]
    by (metis append_eq_append_conv append_Nil le_antisym takeWhile_dropWhile_id)
  with eq have "dropWhile is_space (rev v) = rev v" by simp
  with \<open>?u = v\<close> assms(1) show ?thesis by (simp add: dropWhile_eq_self_iff hd_rev)
qed

lemma joined_text:
  assumes "v \<noteq> []" "\<not> is_space (hd v)" "w \<noteq> []" "\<not> is_space (last w)" "length v + length u + length w \<le> n"
  shows "require_text_max n (v @ u @ w) field = None"
  using assms by (simp add: require_text_max_None_iff strip_text_plain)

lemma uuid_text: "canonical_uuid4 v \<Longrightarrow> v \<noteq> [] \<and> \<not> is_space (hd v) \<and> length v \<le> 36"
  using stripped_ends [of v] require_uuid4_iff [of v "[]"]
  by (auto simp: require_uuid4_def require_text_max_None_iff)

section \<open>Decimal arithmetic\<close>

lemma ten_pow_pos: "0 < ten_pow k"
  by (simp add: ten_pow_def)

lemma decimal_round_minus: "decimal_round (- x) = - decimal_round x"
  by (simp add: decimal_round_def Let_def sgn_minus)

lemma decimal_abs_minus: "decimal_abs (- x) = decimal_abs x"
  by (simp add: decimal_abs_def)

lemma decimal_sub_swap: "decimal_sub y x = - decimal_sub x y"
  using decimal_round_minus [of "x - y"] by (simp add: decimal_sub_def)

lemma round_half_even_near: "\<bar>of_int (round_half_even y) - y\<bar> \<le> 1 / 2"
proof -
  let ?r = "\<lfloor>y + 1 / 2\<rfloor>"
  have "of_int ?r \<le> y + 1 / 2" "y + 1 / 2 < of_int ?r + 1" by linarith+
  then have near: "\<bar>of_int ?r - y\<bar> \<le> 1 / 2" unfolding abs_le_iff by linarith
  show ?thesis
  proof (cases "of_int ?r = y + 1 / 2 \<and> odd ?r")
    case True
    then have "round_half_even y = ?r - 1" by (simp add: round_half_even_def Let_def)
    moreover have "of_int ?r - 1 - y = - 1 / 2" unfolding conjunct1 [OF True] by simp
    ultimately show ?thesis by (simp only: of_int_diff of_int_1)
  next
    case False
    then have "round_half_even y = ?r" by (simp add: round_half_even_def Let_def)
    with near show ?thesis by simp
  qed
qed

text \<open>The rounding error is at most half a unit of the 28th digit.\<close>

lemma decimal_round_near: "\<bar>decimal_round x - x\<bar> \<le> ten_pow (leading_exponent \<bar>x\<bar> - 27) / 2"
proof (cases "x = 0")
  case True
  then show ?thesis using ten_pow_pos [of "leading_exponent \<bar>x\<bar> - 27"] by (simp add: decimal_round_def)
next
  case False
  let ?u = "ten_pow (leading_exponent \<bar>x\<bar> - 27)"
  let ?n = "of_int (round_half_even (\<bar>x\<bar> / ?u)) :: rat"
  have u: "0 < ?u" by (rule ten_pow_pos)
  have "x = sgn x * \<bar>x\<bar>" by (simp add: mult.commute sgn_mult_abs abs_mult_sgn)
  moreover have "decimal_round x = sgn x * (?n * ?u)" using False by (simp add: decimal_round_def Let_def)
  ultimately have "decimal_round x - x = sgn x * ((?n - \<bar>x\<bar> / ?u) * ?u)"
    using u by (simp add: algebra_simps)
  then have "\<bar>decimal_round x - x\<bar> = \<bar>?n - \<bar>x\<bar> / ?u\<bar> * ?u"
    using False u by (simp add: abs_mult abs_sgn_eq)
  also have "\<dots> \<le> 1 / 2 * ?u"
    using round_half_even_near [of "\<bar>x\<bar> / ?u"] u by (intro mult_right_mono) auto
  finally show ?thesis by simp
qed

section \<open>Evaluation\<close>

definition metric_ok :: "result_metric \<Rightarrow> bool" where
  "metric_ok m \<longleftrightarrow> ResultMetric_post_init m = None \<and> MetricDefinition_post_init (rm_definition m) = None
     \<and> ProductIdentity_post_init (md_asset_identity (rm_definition m)) = None"

definition has_limit :: "metric_definition \<Rightarrow> bool" where
  "has_limit d \<longleftrightarrow> md_lower_limit d \<noteq> None \<or> md_upper_limit d \<noteq> None"

definition within_limits :: "metric_definition \<Rightarrow> rat \<Rightarrow> bool" where
  "within_limits d x \<longleftrightarrow> (\<forall>l. md_lower_limit d = Some l \<longrightarrow> q_value l \<le> x)
     \<and> (\<forall>u. md_upper_limit d = Some u \<longrightarrow> x \<le> q_value u)"

lemma below_limit_iff: "below_limit x limit \<longleftrightarrow> (\<exists>l. limit = Some l \<and> x < q_value l)"
  by (simp add: below_limit_def split: option.splits)

lemma above_limit_iff: "above_limit x limit \<longleftrightarrow> (\<exists>l. limit = Some l \<and> q_value l < x)"
  by (simp add: above_limit_def split: option.splits)

lemma within_limits_iff:
  "within_limits d x \<longleftrightarrow> \<not> below_limit x (md_lower_limit d) \<and> \<not> above_limit x (md_upper_limit d)"
  by (auto simp: within_limits_def below_limit_def above_limit_def split: option.splits)

lemma metric_ok_value:
  "metric_ok m \<Longrightarrow> rm_normalized m = Some v \<longleftrightarrow> rm_status m = AVAILABLE \<and> rm_normalized m = Some v"
  by (cases "rm_status m") (auto simp: metric_ok_def ResultMetric_post_init_def status_claims_def)

lemma metric_ok_available:
  assumes "metric_ok m" "rm_status m = AVAILABLE"
  obtains v where "rm_normalized m = Some v" "q_unit v = md_canonical_unit (rm_definition m)"
  using assms by (auto simp: metric_ok_def ResultMetric_post_init_def status_claims_def split: option.splits)

lemma metric_ok_id: "metric_ok m \<Longrightarrow> require_text_max 256 (metric_id m) field = None"
  by (simp add: metric_ok_def metric_id_def MetricDefinition_post_init_def require_text_max_None_iff)

lemma plain_evaluation_Inr:
  assumes "metric_ok m" "require_optional (\<lambda>v. require_text_max 1024 v ''MetricEvaluation.reason'') reason = None"
    "status \<noteq> VIOLATION" "status = NOT_EVALUATED_MISSING_LIMIT \<longrightarrow> rm_status m = AVAILABLE"
    "status = NOT_EVALUATED_DATA \<longrightarrow> rm_status m \<noteq> AVAILABLE"
  shows "plain_evaluation m status reason = Inr \<lparr>me_definition_id = metric_id m, me_status = status,
      me_observed_status = rm_status m, me_violation = None, me_reason = reason\<rparr>"
  using assms metric_ok_id [OF assms(1)]
  by (simp add: plain_evaluation_def build_record_Inr_iff MetricEvaluation_post_init_def)

definition violation_of :: "result_metric \<Rightarrow> quantity \<Rightarrow> quantity \<Rightarrow> string \<Rightarrow> policy_violation" where
  "violation_of m v limit direction = (let d = rm_definition m in
     \<lparr>pv_violation_key = violation_key_of d direction, pv_definition_id = md_definition_id d,
      pv_asset_identity = md_asset_identity d, pv_metric_kind = md_metric_kind d, pv_measured_value = v,
      pv_limit = limit, pv_severity = violation_severity_of d v limit direction, pv_direction = direction\<rparr>)"

lemma violation_key_text:
  assumes "metric_ok m" "direction = ''lower'' \<or> direction = ''upper'' \<or> direction = ''evaluated''"
  shows "require_text_max 512 (violation_key_of (rm_definition m) direction) field = None"
proof -
  have "canonical_uuid4 (asset_of (rm_definition m))"
    using assms(1) by (simp add: metric_ok_def ProductIdentity_post_init_def require_uuid4_iff asset_of_def)
  note uuid = uuid_text [OF this]
  have ends: "direction \<noteq> []" "\<not> is_space (last direction)" "length direction \<le> 9"
    using assms(2) by (auto simp: is_space_def)
  have kind: "length (metric_kind_value k) \<le> 17" for k by (cases k) simp_all
  show ?thesis
    using joined_text [of "asset_of (rm_definition m)" direction
        "'':'' @ metric_kind_value (md_metric_kind (rm_definition m)) @ '':''" 512] uuid ends
        kind [of "md_metric_kind (rm_definition m)"]
    by (simp add: violation_key_of_def)
qed

lemma violation_evaluation_Inr:
  assumes "metric_ok m" "direction = ''lower'' \<or> direction = ''upper''" "q_unit v = q_unit limit"
  shows "violation_evaluation m v limit direction = Inr \<lparr>me_definition_id = metric_id m, me_status = VIOLATION,
      me_observed_status = rm_status m, me_violation = Some (violation_of m v limit direction), me_reason = None\<rparr>"
proof -
  have "require_text_max 512 (violation_key_of (rm_definition m) direction) field = None" for field
    using assms(1,2) by (intro violation_key_text) auto
  then show ?thesis using assms metric_ok_id [OF assms(1)]
    by (simp add: violation_evaluation_def violation_of_def Let_def attempt_Inr_iff build_record_Inr_iff
        PolicyViolation_post_init_def MetricEvaluation_post_init_def require_optional_None_iff metric_id_def)
qed

lemma limit_units:
  assumes "metric_ok m" "rm_normalized m = Some v" "rm_status m = AVAILABLE"
  shows "md_lower_limit (rm_definition m) = Some l \<Longrightarrow> q_unit v = q_unit l"
    "md_upper_limit (rm_definition m) = Some u \<Longrightarrow> q_unit v = q_unit u"
  using assms
  by (simp_all add: metric_ok_def ResultMetric_post_init_def MetricDefinition_post_init_def
      require_optional_None_iff canonical_unit_check_def)

text \<open>The direction in which a value breaks its limits, with the limit it breaks.\<close>

definition breach :: "metric_definition \<Rightarrow> rat \<Rightarrow> (string \<times> quantity) option" where
  "breach d x = (if below_limit x (md_lower_limit d) then Some (''lower'', the (md_lower_limit d))
     else if above_limit x (md_upper_limit d) then Some (''upper'', the (md_upper_limit d)) else None)"

lemma breach_None_iff: "breach d x = None \<longleftrightarrow> within_limits d x"
  by (simp add: breach_def within_limits_iff)

definition verdict :: "result_metric \<Rightarrow> evaluation_status" where
  "verdict m = (if rm_status m \<noteq> AVAILABLE then NOT_EVALUATED_DATA
     else if \<not> has_limit (rm_definition m) then NOT_EVALUATED_MISSING_LIMIT
     else if within_limits (rm_definition m) (q_value (the (rm_normalized m))) then SAFE else VIOLATION)"

lemma evaluate_metric_total:
  assumes "metric_ok m"
  shows "\<exists>e. evaluate_metric m = Inr e \<and> me_definition_id e = metric_id m \<and> me_observed_status e = rm_status m
    \<and> me_status e = verdict m
    \<and> me_violation e = (if verdict m = VIOLATION
        then map_option (\<lambda>(direction, limit). violation_of m (the (rm_normalized m)) limit direction)
          (breach (rm_definition m) (q_value (the (rm_normalized m)))) else None)"
proof (cases "rm_status m = AVAILABLE")
  case False
  then have "rm_normalized m = None" using metric_ok_value [OF assms] by (cases "rm_normalized m") auto
  moreover have "require_text_max 1024 t field = None" if "rm_diagnostic m = Some t" for t field
    using assms that by (simp add: metric_ok_def ResultMetric_post_init_def require_optional_None_iff require_text_max_None_iff)
  moreover have "require_text_max 1024 ''result data is unavailable, unsupported, or non-finite'' field = None" for field
    by (simp add: require_text_max_None_iff strip_text_plain is_space_def)
  ultimately show ?thesis using False plain_evaluation_Inr [OF assms, of "Some _" NOT_EVALUATED_DATA]
    by (auto simp: evaluate_metric_def verdict_def require_optional_None_iff split: option.splits)
next
  case True
  then obtain v where v: "rm_normalized m = Some v" using metric_ok_available [OF assms] by blast
  note units = limit_units [OF assms v True]
  have missing: "require_text_max 1024 ''no admitted engineering limit is available'' field = None" for field
    by (simp add: require_text_max_None_iff strip_text_plain is_space_def)
  consider (none) "\<not> has_limit (rm_definition m)"
    | (lower) l where "has_limit (rm_definition m)" "md_lower_limit (rm_definition m) = Some l" "q_value v < q_value l"
    | (upper) u where "has_limit (rm_definition m)" "\<not> below_limit (q_value v) (md_lower_limit (rm_definition m))"
        "md_upper_limit (rm_definition m) = Some u" "q_value u < q_value v"
    | (safe) "has_limit (rm_definition m)" "within_limits (rm_definition m) (q_value v)"
    unfolding within_limits_iff below_limit_iff above_limit_iff by blast
  then show ?thesis
  proof cases
    case none
    then show ?thesis using True v missing plain_evaluation_Inr [OF assms, of "Some _" NOT_EVALUATED_MISSING_LIMIT]
      by (simp add: evaluate_metric_def verdict_def has_limit_def require_optional_None_iff)
  next
    case lower
    then have "\<not> within_limits (rm_definition m) (q_value v)" by (simp add: within_limits_iff below_limit_def)
    with lower show ?thesis
      using True v violation_evaluation_Inr [OF assms, of "''lower''" v l] units(1) [of l]
      by (simp add: evaluate_metric_def verdict_def breach_def below_limit_def has_limit_def)
  next
    case upper
    then have "\<not> within_limits (rm_definition m) (q_value v)" by (simp add: within_limits_iff above_limit_def)
    with upper show ?thesis
      using True v violation_evaluation_Inr [OF assms, of "''upper''" v u] units(2) [of u]
      by (simp add: evaluate_metric_def verdict_def breach_def above_limit_def has_limit_def)
  next
    case safe
    then show ?thesis using True v plain_evaluation_Inr [OF assms, of None SAFE]
      by (auto simp: evaluate_metric_def verdict_def has_limit_def within_limits_iff require_optional_None_iff Let_def)
  qed
qed

section \<open>Comparing two metrics\<close>

definition both_available :: "result_metric \<Rightarrow> result_metric \<Rightarrow> bool" where
  "both_available prior current \<longleftrightarrow> rm_status prior = AVAILABLE \<and> rm_status current = AVAILABLE"

definition metric_delta :: "result_metric \<Rightarrow> result_metric \<Rightarrow> rat" where
  "metric_delta prior current = decimal_sub (q_value (the (rm_normalized current))) (q_value (the (rm_normalized prior)))"

definition is_equivalent :: "result_metric \<Rightarrow> result_metric \<Rightarrow> bool" where
  "is_equivalent prior current \<longleftrightarrow>
     decimal_abs (metric_delta prior current) \<le> q_value (md_equivalence_tolerance (rm_definition current))"

definition is_material :: "result_metric \<Rightarrow> result_metric \<Rightarrow> bool" where
  "is_material prior current \<longleftrightarrow>
     q_value (md_materiality_threshold (rm_definition current)) < decimal_abs (metric_delta prior current)"

text \<open>The comparison that two metrics of one definition have.\<close>

definition comparison_of :: "result_metric \<Rightarrow> result_metric \<Rightarrow> metric_comparison" where
  "comparison_of prior current =
     (if both_available prior current
      then \<lparr>mc_definition_id = metric_id prior, mc_before_status = AVAILABLE, mc_after_status = AVAILABLE,
        mc_before_value = rm_normalized prior, mc_after_value = rm_normalized current,
        mc_delta = Some \<lparr>q_value = metric_delta prior current, q_unit = md_canonical_unit (rm_definition current)\<rparr>,
        mc_equivalent = is_equivalent prior current, mc_material = is_material prior current\<rparr>
      else \<lparr>mc_definition_id = metric_id prior, mc_before_status = rm_status prior, mc_after_status = rm_status current,
        mc_before_value = None, mc_after_value = None, mc_delta = None, mc_equivalent = False, mc_material = False\<rparr>)"

text \<open>A change above the materiality threshold but within the tolerance: the definition of a
  metric does not exclude it, the comparison record does.\<close>

definition between_thresholds :: "result_metric \<Rightarrow> result_metric \<Rightarrow> bool" where
  "between_thresholds prior current \<longleftrightarrow>
     both_available prior current \<and> is_equivalent prior current \<and> is_material prior current"

definition overlap_error :: calculation_error where
  "overlap_error = CalculationDomainError (ValueError ''equivalent metrics cannot be material'')"

lemma compare_metric_eq:
  assumes ok: "metric_ok prior" "metric_ok current" "rm_definition prior = rm_definition current"
  shows "compare_metric (metric_id prior) prior current
    = (if between_thresholds prior current then Inl overlap_error else Inr (comparison_of prior current))"
proof (cases "both_available prior current")
  case False
  then show ?thesis using metric_ok_id [OF ok(1)]
    by (auto simp: compare_metric_def both_available_def between_thresholds_def comparison_of_def Let_def
        build_record_Inr_iff MetricComparison_post_init_def)
next
  case True
  then have avail: "rm_status prior = AVAILABLE" "rm_status current = AVAILABLE" by (simp_all add: both_available_def)
  from metric_ok_available [OF ok(1) avail(1)] obtain bv where
      bv: "rm_normalized prior = Some bv" "q_unit bv = md_canonical_unit (rm_definition current)"
    using ok(3) by metis
  from metric_ok_available [OF ok(2) avail(2)] obtain av where
      av: "rm_normalized current = Some av" "q_unit av = md_canonical_unit (rm_definition current)" by metis
  let ?d = "decimal_sub (q_value av) (q_value bv)"
  have "require_text_max 64 (md_canonical_unit (rm_definition current)) ''Quantity.unit'' = None"
    using ok(2) by (simp add: metric_ok_def MetricDefinition_post_init_def require_text_max_None_iff)
  then have quantity: "make_quantity (FromDecimal (Finite ?d)) (q_unit av) = Inr \<lparr>q_value = ?d, q_unit = q_unit av\<rparr>"
    using av(2) by (simp add: make_quantity_def quantity_number_def)
  have delta: "metric_delta prior current = ?d" using av(1) bv(1) by (simp add: metric_delta_def)
  show ?thesis
  proof (cases "between_thresholds prior current")
    case True
    with avail av bv quantity metric_ok_id [OF ok(1)] show ?thesis
      by (simp add: compare_metric_def Let_def between_thresholds_def is_equivalent_def is_material_def delta
          overlap_error_def build_record_def MetricComparison_post_init_def first_error.simps require_def)
  next
    case False
    with avail av bv quantity metric_ok_id [OF ok(1)] True show ?thesis
      by (auto simp: compare_metric_def Let_def between_thresholds_def comparison_of_def is_equivalent_def is_material_def delta
          build_record_Inr_iff MetricComparison_post_init_def)
  qed
qed

section \<open>Comparing two snapshots\<close>

definition snapshot_ok :: "result_snapshot \<Rightarrow> bool" where
  "snapshot_ok s \<longleftrightarrow> ResultSnapshot_post_init s = None \<and> (\<forall>m \<in> set (sn_metrics s). metric_ok m)
     \<and> (\<forall>e \<in> set (sn_evaluations s). MetricEvaluation_post_init e = None)
     \<and> (\<forall>e \<in> set (sn_evaluations s). \<forall>v. me_violation e = Some v \<longrightarrow> PolicyViolation_post_init v = None)"

definition finding_of :: "metric_evaluation \<Rightarrow> metric_evaluation \<Rightarrow> metric_definition \<Rightarrow> finding_comparison" where
  "finding_of before after d = \<lparr>fc_violation_key = finding_key before after d, fc_trend = trend_of before after,
     fc_baseline_status = me_status before, fc_candidate_status = me_status after\<rparr>"

lemma compare_finding_eq:
  assumes "metric_ok m" "\<And>v. me_violation before = Some v \<Longrightarrow> PolicyViolation_post_init v = None"
    "\<And>v. me_violation after = Some v \<Longrightarrow> PolicyViolation_post_init v = None"
  shows "compare_finding before after (rm_definition m) = Inr (finding_of before after (rm_definition m))"
proof -
  have "require_text_max 512 (finding_key before after (rm_definition m)) field = None" for field
    using assms violation_key_text [OF assms(1), of "''evaluated''" field]
    by (auto simp: finding_key_def PolicyViolation_post_init_def require_text_max_None_iff split: option.splits)
  then show ?thesis
    by (auto simp: compare_finding_def finding_of_def build_record_Inr_iff FindingComparison_post_init_def trend_of_def)
qed

lemma dict_get_distinct: "distinct (map key rows) \<Longrightarrow> r \<in> set rows \<Longrightarrow> dict_get key (key r) rows = Inr r"
  using lookup_row_unique [of key "rev rows" r]
  by (simp add: dict_get_def unique_key_def rev_map [symmetric] del: rev_map)

text \<open>The entries of two aligned snapshots: a metric and an evaluation of each.\<close>

type_synonym entry = "(result_metric \<times> result_metric) \<times> (metric_evaluation \<times> metric_evaluation)"

definition entries :: "result_snapshot \<Rightarrow> result_snapshot \<Rightarrow> entry list" where
  "entries b c = zip (zip (sn_metrics b) (sn_metrics c)) (zip (sn_evaluations b) (sn_evaluations c))"

definition entry_id :: "entry \<Rightarrow> string" where
  "entry_id x = metric_id (fst (fst x))"

definition compared :: "entry \<Rightarrow> metric_comparison \<times> finding_comparison" where
  "compared x = (comparison_of (fst (fst x)) (snd (fst x)),
     finding_of (fst (snd x)) (snd (snd x)) (rm_definition (fst (fst x))))"

definition overlaps :: "entry \<Rightarrow> bool" where
  "overlaps x \<longleftrightarrow> between_thresholds (fst (fst x)) (snd (fst x))"

definition aligned :: "result_snapshot \<Rightarrow> result_snapshot \<Rightarrow> bool" where
  "aligned b c \<longleftrightarrow> snapshot_ok b \<and> snapshot_ok c \<and> sn_configuration_key b = sn_configuration_key c
     \<and> sn_policy b = sn_policy c \<and> map rm_definition (sn_metrics b) = map rm_definition (sn_metrics c)"

lemma snapshot_okD:
  assumes "snapshot_ok s"
  shows "distinct (map metric_id (sn_metrics s))" "sort (map metric_id (sn_metrics s)) = map metric_id (sn_metrics s)"
    "map me_definition_id (sn_evaluations s) = map metric_id (sn_metrics s)"
    "length (sn_evaluations s) = length (sn_metrics s)" "length (sn_metrics s) \<le> MAX_COLLECTION_LENGTH"
  using assms arg_cong [of _ _ length]
  by (auto simp: snapshot_ok_def ResultSnapshot_post_init_def Let_def require_collection_None_iff dest: map_eq_imp_length_eq)

lemma aligned_ids: "aligned b c \<Longrightarrow> map metric_id (sn_metrics c) = map metric_id (sn_metrics b)"
  unfolding aligned_def metric_id_def
  by (metis (mono_tags, lifting) list.map_comp map_eq_conv o_apply)

lemma entry_parts:
  assumes "aligned b c" "x \<in> set (entries b c)"
  obtains m m' e e' where "x = ((m, m'), (e, e'))" "m \<in> set (sn_metrics b)" "m' \<in> set (sn_metrics c)"
    "e \<in> set (sn_evaluations b)" "e' \<in> set (sn_evaluations c)" "rm_definition m = rm_definition m'"
    "me_definition_id e = metric_id m" "me_definition_id e' = metric_id m"
proof -
  note ok = assms(1) [unfolded aligned_def]
  note lb = snapshot_okD [OF conjunct1 [OF ok]] and lc = snapshot_okD [OF conjunct1 [OF conjunct2 [OF ok]]]
  from assms(2) obtain i where "i < length (entries b c)" and xi: "x = entries b c ! i"
    unfolding in_set_conv_nth by blast
  then have i: "i < length (sn_metrics b)" "i < length (sn_metrics c)" "i < length (sn_evaluations b)"
      "i < length (sn_evaluations c)"
    by (simp_all add: entries_def)
  let ?m = "sn_metrics b ! i" and ?m' = "sn_metrics c ! i" and ?e = "sn_evaluations b ! i" and ?e' = "sn_evaluations c ! i"
  have x: "x = ((?m, ?m'), (?e, ?e'))" using xi i by (simp add: entries_def)
  have "map rm_definition (sn_metrics b) ! i = map rm_definition (sn_metrics c) ! i" using ok by simp
  then have d: "rm_definition ?m = rm_definition ?m'" using i by simp
  have "map me_definition_id (sn_evaluations b) ! i = map metric_id (sn_metrics b) ! i" by (simp only: lb(3))
  then have e: "me_definition_id ?e = metric_id ?m" using i by simp
  have "map me_definition_id (sn_evaluations c) ! i = map metric_id (sn_metrics c) ! i" by (simp only: lc(3))
  then have e': "me_definition_id ?e' = metric_id ?m" using i d by (simp add: metric_id_def)
  show ?thesis using i by (intro that [OF x _ _ _ _ d e e']) simp_all
qed

lemma compare_ids_eq:
  assumes "aligned b c" "set xs \<subseteq> set (entries b c)"
  shows "compare_ids b c (map entry_id xs)
    = (if list_ex overlaps xs then Inl overlap_error else Inr (map compared xs))"
  using assms(2)
proof (induction xs)
  case (Cons x xs)
  then have "x \<in> set (entries b c)" by simp
  then obtain m m' e e' where x: "x = ((m, m'), (e, e'))" "m \<in> set (sn_metrics b)" "m' \<in> set (sn_metrics c)"
      "e \<in> set (sn_evaluations b)" "e' \<in> set (sn_evaluations c)" "rm_definition m = rm_definition m'"
      "me_definition_id e = metric_id m" "me_definition_id e' = metric_id m"
    using entry_parts [OF assms(1)] by metis
  have b: "snapshot_ok b" and c: "snapshot_ok c" using assms(1) by (simp_all add: aligned_def)
  note db = snapshot_okD [OF b] and dc = snapshot_okD [OF c]
  have ids: "metric_id m' = metric_id m" using x(6) by (simp add: metric_id_def)
  have gets: "dict_get metric_id (metric_id m) (sn_metrics b) = Inr m" "dict_get metric_id (metric_id m) (sn_metrics c) = Inr m'"
      "dict_get me_definition_id (metric_id m) (sn_evaluations b) = Inr e"
      "dict_get me_definition_id (metric_id m) (sn_evaluations c) = Inr e'"
    using dict_get_distinct [OF db(1) x(2)] dict_get_distinct [OF dc(1) x(3), unfolded ids]
      dict_get_distinct [of me_definition_id "sn_evaluations b" e, unfolded db(3) x(7), OF db(1) x(4)]
      dict_get_distinct [of me_definition_id "sn_evaluations c" e', unfolded dc(3) x(8), OF dc(1) x(5)]
    by simp_all
  have m: "metric_ok m" "metric_ok m'" using b c x(2,3) by (simp_all add: snapshot_ok_def)
  have "compare_finding e e' (rm_definition m) = Inr (finding_of e e' (rm_definition m))"
    using b c x(4,5) by (intro compare_finding_eq [OF m(1)]) (simp_all add: snapshot_ok_def)
  moreover note compare_metric_eq [OF m x(6)]
  moreover have "compare_ids b c (map entry_id xs)
      = (if list_ex overlaps xs then Inl overlap_error else Inr (map compared xs))"
    using Cons by simp
  moreover have "entry_id x = metric_id m" "overlaps x = between_thresholds m m'"
      "compared x = (comparison_of m m', finding_of e e' (rm_definition m))"
    by (simp_all add: x(1) entry_id_def overlaps_def compared_def)
  ultimately show ?case using gets by simp
qed simp

lemma entry_ids: "aligned b c \<Longrightarrow> map entry_id (entries b c) = map metric_id (sn_metrics b)"
proof -
  assume a: "aligned b c"
  then have "snapshot_ok b" "snapshot_ok c" by (simp_all add: aligned_def)
  note lb = snapshot_okD(4) [OF this(1)] and lc = snapshot_okD(4) [OF this(2)]
  have "length (sn_metrics b) = length (sn_metrics c)" using arg_cong [OF aligned_ids [OF a], of length] by simp
  then have "map fst (map fst (entries b c)) = sn_metrics b"
    using lb lc by (simp add: entries_def)
  moreover have "map entry_id (entries b c) = map metric_id (map fst (map fst (entries b c)))"
    by (simp add: entry_id_def)
  ultimately show ?thesis by simp
qed

definition comparison_record :: "string \<Rightarrow> datetime \<Rightarrow> result_snapshot \<Rightarrow> result_snapshot \<Rightarrow> calculation_comparison" where
  "comparison_record uuid now b c = (let cs = map fst (map compared (entries b c));
       comparable = filter (\<lambda>x. mc_before_value x \<noteq> None) cs in
     \<lparr>kc_comparison_id = uuid, kc_baseline_snapshot_id = sn_snapshot_id b, kc_candidate_snapshot_id = sn_snapshot_id c,
      kc_policy = sn_policy b, kc_result_equivalent = (comparable \<noteq> [] \<and> list_all mc_equivalent comparable),
      kc_comparable_metric_count = int (length comparable), kc_comparisons = cs,
      kc_findings = map snd (map compared (entries b c)), kc_compared_at = now\<rparr>)"

lemma compare_result_snapshots_eq:
  assumes a: "aligned b c" and ids: "sn_snapshot_id b \<noteq> sn_snapshot_id c"
    and uuid: "canonical_uuid4 uuid" and now: "dt_valid now"
  shows "compare_result_snapshots uuid now b c
    = (if list_ex overlaps (entries b c) then Inl overlap_error else Inr (comparison_record uuid now b c))"
proof -
  have ok: "snapshot_ok b" "snapshot_ok c" using a by (simp_all add: aligned_def)
  note lb = snapshot_okD [OF ok(1)]
  have "sort (remdups (map metric_id (sn_metrics b))) = map entry_id (entries b c)"
    using lb(1,2) entry_ids [OF a] by (simp add: distinct_remdups_id)
  then have cmp: "compare_ids b c (sort (remdups (map metric_id (sn_metrics b))))
      = (if list_ex overlaps (entries b c) then Inl overlap_error else Inr (map compared (entries b c)))"
    using compare_ids_eq [OF a order_refl] by simp
  have "length (entries b c) \<le> length (sn_metrics b)" by (simp add: entries_def)
  then have len: "length (entries b c) \<le> MAX_COLLECTION_LENGTH" using lb(5) by simp
  have "CalculationComparison_post_init (comparison_record uuid now b c) = None"
    using ok uuid now ids len
    by (simp add: CalculationComparison_post_init_def comparison_record_def Let_def require_uuid4_iff require_collection_None_iff
        require_aware_def snapshot_ok_def ResultSnapshot_post_init_def)
  then have built: "build_record CalculationComparison_post_init (comparison_record uuid now b c)
      = Inr (comparison_record uuid now b c)"
    by (simp add: build_record_Inr_iff)
  have same: "set (map metric_id (sn_metrics b)) = set (map metric_id (sn_metrics c))"
    by (simp only: aligned_ids [OF a])
  show ?thesis
  proof (cases "list_ex overlaps (entries b c)")
    case True
    with a cmp same show ?thesis by (simp add: compare_result_snapshots_def aligned_def)
  next
    case False
    then have "compare_ids b c (sort (remdups (map metric_id (sn_metrics b)))) = Inr (map compared (entries b c))"
      using cmp by simp
    then have "compare_result_snapshots uuid now b c
        = map_error CalculationDomainError (build_record CalculationComparison_post_init (comparison_record uuid now b c))"
      using a same unfolding compare_result_snapshots_def aligned_def comparison_record_def Let_def
      by (simp only: attempt_simps simp_thms if_False)
    with False built show ?thesis by simp
  qed
qed

end
