(* ===== verification/Calculation_Store_Laws.thy ===== *)
theory Calculation_Store_Laws
  imports Calculation_Store
begin

text \<open>
  The calculation store: what each command changes, the invariant of its tables, and that its
  evidence only grows.
\<close>

section \<open>What the commands change\<close>

lemma insert_overlays_Inr:
  "insert_overlays i xs rows = Inr rows' \<Longrightarrow> rows' = rows @ map (overlay_row_of i) xs
     \<and> (unique_key ow_overlay_id rows \<longrightarrow> unique_key ow_overlay_id rows')"
proof (induction xs arbitrary: rows)
  case (Cons x xs)
  then have fresh: "\<not> has_key ow_overlay_id (ov_overlay_id x) rows"
    and rest: "insert_overlays i xs (rows @ [overlay_row_of i x]) = Inr rows'"
    by (auto simp: attempt_Inr_iff split: if_splits)
  have "unique_key ow_overlay_id (rows @ [overlay_row_of i x])" if "unique_key ow_overlay_id rows"
    using that fresh by (simp add: unique_key_snoc overlay_row_of_def)
  with Cons.IH [OF rest] show ?case by auto
qed simp

text \<open>A run without a snapshot, and a run with its snapshot.\<close>

definition adds_bare_run :: "calculation_run \<Rightarrow> calculation_db \<Rightarrow> calculation_db \<Rightarrow> bool" where
  "adds_bare_run r d d' \<longleftrightarrow> cr_result_snapshot_id r = None \<and> \<not> has_key un_run_id (cr_run_id r) (calculation_runs d)
     \<and> d' = d\<lparr>calculation_runs := calculation_runs d @ [run_row_of r]\<rparr>"

definition adds_captured_run :: "calculation_run \<Rightarrow> result_snapshot \<Rightarrow> calculation_db \<Rightarrow> calculation_db \<Rightarrow> bool" where
  "adds_captured_run r s d d' \<longleftrightarrow> require_snapshot_matches_run r s = None
     \<and> \<not> has_key un_run_id (cr_run_id r) (calculation_runs d)
     \<and> \<not> has_key sw_snapshot_id (sn_snapshot_id s) (calculation_snapshots d)
     \<and> \<not> has_key sw_run_id (sn_run_id s) (calculation_snapshots d)
     \<and> (\<exists>xs. build_calculation_overlays s = Inr xs
         \<and> insert_overlays (sn_snapshot_id s) xs (calculation_overlays d) = Inr (calculation_overlays d')
         \<and> d' = d\<lparr>calculation_runs := calculation_runs d @ [run_row_of r],
              calculation_snapshots := calculation_snapshots d @ [snapshot_row_of s],
              calculation_overlays := calculation_overlays d'\<rparr>)"

definition adds_comparison :: "calculation_comparison \<Rightarrow> calculation_db \<Rightarrow> calculation_db \<Rightarrow> bool" where
  "adds_comparison c d d' \<longleftrightarrow> \<not> has_key kw_comparison_id (kc_comparison_id c) (calculation_comparisons d)
     \<and> d' = d\<lparr>calculation_comparisons := calculation_comparisons d @ [comparison_row_of c]\<rparr>
     \<and> (\<exists>b k. stored_snapshot (kc_baseline_snapshot_id c) None d = Inr b
         \<and> stored_snapshot (kc_candidate_snapshot_id c) None d = Inr k
         \<and> sn_configuration_key b = sn_configuration_key k \<and> sn_policy b = kc_policy c \<and> sn_policy k = kc_policy c)"

lemma insert_run_row_Inr:
  "insert_run_row r d = Inr d' \<Longrightarrow> \<not> has_key un_run_id (cr_run_id r) (calculation_runs d)
     \<and> d' = d\<lparr>calculation_runs := calculation_runs d @ [run_row_of r]\<rparr>"
  by (simp add: insert_run_row_def attempt_Inr_iff split: if_splits)

lemma insert_snapshot_Inr:
  assumes "insert_snapshot s d = Inr d'"
  shows "\<not> has_key sw_snapshot_id (sn_snapshot_id s) (calculation_snapshots d)
    \<and> \<not> has_key sw_run_id (sn_run_id s) (calculation_snapshots d)
    \<and> (\<exists>xs. build_calculation_overlays s = Inr xs
        \<and> insert_overlays (sn_snapshot_id s) xs (calculation_overlays d) = Inr (calculation_overlays d')
        \<and> d' = d\<lparr>calculation_snapshots := calculation_snapshots d @ [snapshot_row_of s],
             calculation_overlays := calculation_overlays d'\<rparr>)"
proof -
  from assms obtain d1 where d1: "insert_snapshot_row s d = Inr d1"
    by (auto simp: insert_snapshot_def attempt_Inr_iff)
  then have row: "\<not> has_key sw_snapshot_id (sn_snapshot_id s) (calculation_snapshots d)"
      "\<not> has_key sw_run_id (sn_run_id s) (calculation_snapshots d)"
      "d1 = d\<lparr>calculation_snapshots := calculation_snapshots d @ [snapshot_row_of s]\<rparr>"
    by (simp_all add: insert_snapshot_row_def attempt_Inr_iff split: if_splits)
  from assms d1 row(3) obtain xs rows where "build_calculation_overlays s = Inr xs"
      "insert_overlays (sn_snapshot_id s) xs (calculation_overlays d) = Inr rows"
      "d' = d\<lparr>calculation_snapshots := calculation_snapshots d @ [snapshot_row_of s], calculation_overlays := rows\<rparr>"
    by (auto simp: insert_snapshot_def attempt_Inr_iff)
  with row show ?thesis by simp
qed

lemma record_calculation_cases:
  obtains (refused) e where "record_calculation r snapshot d = (Inl e, d)"
  | (bare) d' where "snapshot = None" "record_calculation r snapshot d = (Inr r, d')" "adds_bare_run r d d'"
  | (captured) s d' where "snapshot = Some s" "record_calculation r snapshot d = (Inr r, d')" "adds_captured_run r s d d'"
proof (cases "fst (record_calculation r snapshot d)")
  case (Inl e)
  then have "record_calculation r snapshot d = (Inl e, d)"
    by (auto simp: record_calculation_def transaction_def split: if_splits option.splits sum.splits)
  then show ?thesis by (rule refused)
next
  case (Inr r')
  show ?thesis
  proof (cases snapshot)
    case None
    with Inr obtain d1 where "cr_result_snapshot_id r = None" "insert_run_row r d = Inr d1"
        "record_calculation r snapshot d = (Inr r, d1)"
      by (auto simp: record_calculation_def transaction_def attempt_def split: if_splits sum.splits)
    with insert_run_row_Inr [of r d d1] show ?thesis by (intro bare [OF None]) (simp_all add: adds_bare_run_def)
  next
    case (Some s)
    with Inr have m: "require_snapshot_matches_run r s = None"
      by (auto simp: record_calculation_def split: if_splits option.splits)
    with Inr Some obtain d1 d2 where d: "insert_run_row r d = Inr d1" "insert_snapshot s d1 = Inr d2"
        "record_calculation r snapshot d = (Inr r, d2)"
      by (auto simp: record_calculation_def transaction_def attempt_def split: if_splits sum.splits)
    note run = insert_run_row_Inr [OF d(1)] and snap = insert_snapshot_Inr [OF d(2)]
    from run snap m have "adds_captured_run r s d d2" by (auto simp: adds_captured_run_def)
    with Some d(3) show ?thesis by (rule captured)
  qed
qed

lemma record_comparison_cases:
  obtains (refused) e where "record_comparison c d = (Inl e, d)"
  | (added) d' where "record_comparison c d = (Inr c, d')" "adds_comparison c d d'"
proof (cases "fst (record_comparison c d)")
  case (Inl e)
  then have "record_comparison c d = (Inl e, d)"
    by (auto simp: record_comparison_def transaction_def split: sum.splits)
  then show ?thesis by (rule refused)
next
  case (Inr c')
  then obtain b k d' where "stored_snapshot (kc_baseline_snapshot_id c) None d = Inr b"
      "stored_snapshot (kc_candidate_snapshot_id c) None d = Inr k" "sn_configuration_key b = sn_configuration_key k"
      "sn_policy b = kc_policy c" "sn_policy k = kc_policy c" "insert_comparison c d = Inr d'"
      "record_comparison c d = (Inr c, d')"
    by (auto simp: record_comparison_def transaction_def attempt_def split: if_splits sum.splits)
  then show ?thesis by (intro added) (auto simp: insert_comparison_def adds_comparison_def attempt_Inr_iff split: if_splits)
qed

section \<open>The invariant\<close>

definition calculation_inv :: "calculation_db \<Rightarrow> bool" where
  "calculation_inv d \<longleftrightarrow>
     unique_key un_run_id (calculation_runs d) \<and> unique_key sw_snapshot_id (calculation_snapshots d)
     \<and> unique_key sw_run_id (calculation_snapshots d) \<and> unique_key kw_comparison_id (calculation_comparisons d)
     \<and> (\<forall>u \<in> set (calculation_runs d). u = run_row_of (un_run u)
         \<and> (\<forall>i. cr_result_snapshot_id (un_run u) = Some i \<longrightarrow> has_key sw_snapshot_id i (calculation_snapshots d)))
     \<and> (\<forall>w \<in> set (calculation_snapshots d). w = snapshot_row_of (sw_snapshot w)
         \<and> (\<exists>u \<in> set (calculation_runs d). require_snapshot_matches_run (un_run u) (sw_snapshot w) = None)
         \<and> (\<exists>xs. build_calculation_overlays (sw_snapshot w) = Inr xs
             \<and> filter (\<lambda>o'. ow_snapshot_id o' = sw_snapshot_id w) (calculation_overlays d)
               = map (overlay_row_of (sw_snapshot_id w)) xs))
     \<and> (\<forall>o' \<in> set (calculation_overlays d). has_key sw_snapshot_id (ow_snapshot_id o') (calculation_snapshots d))"

lemma calculation_inv_empty: "calculation_inv empty_calculation_db"
  by (simp add: calculation_inv_def empty_calculation_db_def)

lemma calculation_inv_bare: "calculation_inv d \<Longrightarrow> adds_bare_run r d d' \<Longrightarrow> calculation_inv d'"
  by (auto simp: calculation_inv_def adds_bare_run_def unique_key_snoc run_row_of_def)

lemma calculation_inv_comparison: "calculation_inv d \<Longrightarrow> adds_comparison c d d' \<Longrightarrow> calculation_inv d'"
  by (auto simp: calculation_inv_def adds_comparison_def unique_key_snoc comparison_row_of_def)

lemma overlay_row_snapshot [simp]: "ow_snapshot_id (overlay_row_of i x) = i" "ow_overlay (overlay_row_of i x) = x"
  "ow_overlay_id (overlay_row_of i x) = ov_overlay_id x"
  by (simp_all add: overlay_row_of_def)

lemma calculation_inv_captured:
  assumes inv: "calculation_inv d" and adds: "adds_captured_run r s d d'"
  shows "calculation_inv d'"
proof -
  let ?i = "sn_snapshot_id s"
  from adds obtain xs where bound: "require_snapshot_matches_run r s = None"
      and fresh: "\<not> has_key un_run_id (cr_run_id r) (calculation_runs d)"
        "\<not> has_key sw_snapshot_id ?i (calculation_snapshots d)" "\<not> has_key sw_run_id (sn_run_id s) (calculation_snapshots d)"
      and xs: "build_calculation_overlays s = Inr xs"
        "insert_overlays ?i xs (calculation_overlays d) = Inr (calculation_overlays d')"
      and d': "d' = d\<lparr>calculation_runs := calculation_runs d @ [run_row_of r],
          calculation_snapshots := calculation_snapshots d @ [snapshot_row_of s],
          calculation_overlays := calculation_overlays d'\<rparr>"
    unfolding adds_captured_run_def by blast
  have rows: "calculation_overlays d' = calculation_overlays d @ map (overlay_row_of ?i) xs"
    using insert_overlays_Inr [OF xs(2)] by simp
  have tables: "calculation_runs d' = calculation_runs d @ [run_row_of r]"
      "calculation_snapshots d' = calculation_snapshots d @ [snapshot_row_of s]"
      "calculation_comparisons d' = calculation_comparisons d"
    by (subst d', simp)+
  have row: "sw_snapshot_id (snapshot_row_of s) = ?i" "sw_run_id (snapshot_row_of s) = sn_run_id s"
      "sw_snapshot (snapshot_row_of s) = s" "un_run_id (run_row_of r) = cr_run_id r" "un_run (run_row_of r) = r"
    by (simp_all add: snapshot_row_of_def run_row_of_def)
  have old: "ow_snapshot_id o' \<noteq> ?i" if "o' \<in> set (calculation_overlays d)" for o'
    using inv fresh(2) that by (auto simp: calculation_inv_def)
  have new_rows: "filter (\<lambda>o'. ow_snapshot_id o' = ?i) (calculation_overlays d') = map (overlay_row_of ?i) xs"
    using old by (simp add: rows filter_empty_conv filter_map o_def)
  have old_rows: "filter (\<lambda>o'. ow_snapshot_id o' = sw_snapshot_id w) (calculation_overlays d')
      = filter (\<lambda>o'. ow_snapshot_id o' = sw_snapshot_id w) (calculation_overlays d)"
    if "w \<in> set (calculation_snapshots d)" for w
    using fresh(2) that by (auto simp: rows filter_map o_def has_key_def filter_empty_conv)
  have "cr_result_snapshot_id r = Some ?i" using bound by (simp add: require_snapshot_matches_run_def)
  then show ?thesis
    using inv fresh bound xs(1) new_rows old_rows row
    unfolding calculation_inv_def tables
    by (simp add: unique_key_snoc rows ball_Un)
qed

lemma calculation_step_inv:
  assumes inv: "calculation_inv d"
  shows "calculation_inv (calculation_step d c)"
proof (cases c)
  case (RecordRun r s)
  show ?thesis
  proof (cases rule: record_calculation_cases [of r s d])
    case (refused e)
    with RecordRun inv show ?thesis by (simp add: calculation_step_def)
  next
    case (bare d')
    with RecordRun calculation_inv_bare [OF inv bare(3)] show ?thesis by (simp add: calculation_step_def)
  next
    case (captured s' d')
    with RecordRun calculation_inv_captured [OF inv captured(3)] show ?thesis by (simp add: calculation_step_def)
  qed
next
  case (RecordComparison k)
  show ?thesis
  proof (cases rule: record_comparison_cases [of k d])
    case (refused e)
    with RecordComparison inv show ?thesis by (simp add: calculation_step_def)
  next
    case (added d')
    with RecordComparison calculation_inv_comparison [OF inv added(2)] show ?thesis by (simp add: calculation_step_def)
  qed
qed

interpretation calculation: invariant_machine calculation_step calculation_inv
  by unfold_locales (rule calculation_step_inv)

text \<open>The evidence tables only grow.\<close>

definition grows :: "calculation_db \<Rightarrow> calculation_db \<Rightarrow> bool" where
  "grows d d' \<longleftrightarrow> prefix (calculation_runs d) (calculation_runs d')
     \<and> prefix (calculation_snapshots d) (calculation_snapshots d')
     \<and> prefix (calculation_comparisons d) (calculation_comparisons d')"

lemma grows_refl: "grows d d"
  by (simp add: grows_def)

lemma grows_bare: "adds_bare_run r d d' \<Longrightarrow> grows d d'"
  unfolding adds_bare_run_def grows_def by (elim conjE) simp

lemma grows_comparison: "adds_comparison c d d' \<Longrightarrow> grows d d'"
  unfolding adds_comparison_def grows_def by (elim conjE) simp

lemma captured_tables:
  assumes "adds_captured_run r s d d'"
  shows "calculation_runs d' = calculation_runs d @ [run_row_of r]"
    "calculation_snapshots d' = calculation_snapshots d @ [snapshot_row_of s]"
    "calculation_comparisons d' = calculation_comparisons d"
    "\<not> has_key un_run_id (cr_run_id r) (calculation_runs d)"
    "\<not> has_key sw_snapshot_id (sn_snapshot_id s) (calculation_snapshots d)"
proof -
  from assms obtain rows where d': "d' = d\<lparr>calculation_runs := calculation_runs d @ [run_row_of r],
      calculation_snapshots := calculation_snapshots d @ [snapshot_row_of s], calculation_overlays := rows\<rparr>"
    unfolding adds_captured_run_def by (elim conjE exE)
  show "calculation_runs d' = calculation_runs d @ [run_row_of r]"
    "calculation_snapshots d' = calculation_snapshots d @ [snapshot_row_of s]"
    "calculation_comparisons d' = calculation_comparisons d"
    unfolding d' by simp_all
  show "\<not> has_key un_run_id (cr_run_id r) (calculation_runs d)"
    "\<not> has_key sw_snapshot_id (sn_snapshot_id s) (calculation_snapshots d)"
    using assms [unfolded adds_captured_run_def] by blast+
qed

lemma grows_captured: "adds_captured_run r s d d' \<Longrightarrow> grows d d'"
  by (simp add: grows_def captured_tables)

lemma calculation_step_grows: "grows d (calculation_step d c)"
proof (cases c)
  case (RecordRun r s)
  show ?thesis
  proof (cases rule: record_calculation_cases [of r s d])
    case (refused e)
    with RecordRun show ?thesis by (simp add: calculation_step_def grows_refl)
  next
    case (bare d')
    with RecordRun grows_bare [OF bare(3)] show ?thesis by (simp add: calculation_step_def)
  next
    case (captured s' d')
    with RecordRun grows_captured [OF captured(3)] show ?thesis by (simp add: calculation_step_def)
  qed
next
  case (RecordComparison k)
  show ?thesis
  proof (cases rule: record_comparison_cases [of k d])
    case (refused e)
    with RecordComparison show ?thesis by (simp add: calculation_step_def grows_refl)
  next
    case (added d')
    with RecordComparison grows_comparison [OF added(2)] show ?thesis by (simp add: calculation_step_def)
  qed
qed

interpretation run_log: append_only_machine calculation_step calculation_inv calculation_runs
  by unfold_locales (rule calculation_step_grows [unfolded grows_def, THEN conjunct1])

interpretation snapshot_log: append_only_machine calculation_step calculation_inv calculation_snapshots
  by unfold_locales (rule calculation_step_grows [unfolded grows_def, THEN conjunct2, THEN conjunct1])

interpretation comparison_log: append_only_machine calculation_step calculation_inv calculation_comparisons
  by unfold_locales (rule calculation_step_grows [unfolded grows_def, THEN conjunct2, THEN conjunct2])

section \<open>Reading back\<close>

lemma lookup_prefix: "prefix rows rows' \<Longrightarrow> lookup_row key k rows = Some r \<Longrightarrow> lookup_row key k rows' = Some r"
  by (auto simp: prefix_def lookup_row_append)

lemma lookup_fresh: "\<not> has_key key (key r) rows \<Longrightarrow> lookup_row key (key r) (rows @ [r]) = Some r"
  by (simp add: lookup_row_append lookup_row_None_iff [THEN iffD2])

lemma recorded_run_found:
  assumes "record_calculation r snapshot d = (Inr r', d')"
  shows "r' = r" "lookup_row un_run_id (cr_run_id r) (calculation_runs d') = Some (run_row_of r)"
proof -
  have row: "un_run_id (run_row_of r) = cr_run_id r" by (simp add: run_row_of_def)
  have "r' = r \<and> lookup_row un_run_id (cr_run_id r) (calculation_runs d') = Some (run_row_of r)"
  proof (cases rule: record_calculation_cases [of r snapshot d])
    case (refused e)
    with assms show ?thesis by simp
  next
    case (bare d1)
    from conjunct2 [OF conjunct2 [OF bare(3) [unfolded adds_bare_run_def]]]
    have "calculation_runs d1 = calculation_runs d @ [run_row_of r]" by simp
    with bare(2) conjunct1 [OF conjunct2 [OF bare(3) [unfolded adds_bare_run_def]]] assms lookup_fresh [of un_run_id "run_row_of r"] show ?thesis by (simp add: row)
  next
    case (captured s d1)
    with captured_tables [OF captured(3)] assms lookup_fresh [of un_run_id "run_row_of r"] show ?thesis by (simp add: row)
  qed
  then show "r' = r" "lookup_row un_run_id (cr_run_id r) (calculation_runs d') = Some (run_row_of r)" by simp_all
qed

lemma recorded_snapshot_found:
  assumes "record_calculation r (Some s) d = (Inr r', d')"
  shows "lookup_row sw_snapshot_id (sn_snapshot_id s) (calculation_snapshots d') = Some (snapshot_row_of s)"
proof -
  have row: "sw_snapshot_id (snapshot_row_of s) = sn_snapshot_id s" by (simp add: snapshot_row_of_def)
  show ?thesis
  proof (cases rule: record_calculation_cases [of r "Some s" d])
    case (captured s' d1)
    then have s': "s' = s" by simp
    with captured(2) captured_tables [OF captured(3)] assms lookup_fresh [of sw_snapshot_id "snapshot_row_of s"]
    show ?thesis by (simp add: row)
  qed (use assms in simp_all)
qed

lemma overlays_projected:
  assumes "calculation_inv d" "stored_snapshot i None d = Inr s"
  shows "rebuild_overlays i d = Inr (overlays_of i d)"
proof -
  from assms(2) obtain w where w: "lookup_row sw_snapshot_id i (calculation_snapshots d) = Some w" "sw_snapshot w = s"
    by (auto simp: stored_snapshot_def split: option.splits)
  then have "w \<in> set (calculation_snapshots d)" "sw_snapshot_id w = i" using lookup_row_SomeD by fastforce+
  with assms(1) w(2) obtain xs where xs: "build_calculation_overlays s = Inr xs"
      "filter (\<lambda>o'. ow_snapshot_id o' = i) (calculation_overlays d) = map (overlay_row_of i) xs"
    unfolding calculation_inv_def by blast
  have "sorted (map ov_overlay_id xs)"
    using xs(1) by (auto simp: build_calculation_overlays_def attempt_Inr_iff)
  then have "sort_key ow_overlay_id (map (overlay_row_of i) xs) = map (overlay_row_of i) xs"
    by (intro sort_key_id_if_sorted) (simp add: o_def)
  then have "overlays_of i d = xs" by (simp add: overlays_of_def xs(2) o_def)
  with assms(2) xs(1) show ?thesis by (simp add: rebuild_overlays_def)
qed

end
