(* ===== verification/Load_Flow_Laws.thy ===== *)
theory Load_Flow_Laws
  imports Load_Flow_Service Calculation_Laws Calculation_Store_Laws
begin

text \<open>
  The load-flow service: how many result pages it asks for, which run it builds for each
  outcome of the command, and the runs it cannot build.
\<close>

declare collect_pages.simps [simp del]

section \<open>Pages\<close>

text \<open>Two owners that answer the result requests numbered up to \<open>n\<close> alike.\<close>

definition same_pages :: "load_flow_request \<Rightarrow> nat \<Rightarrow> calculation_owner \<Rightarrow> calculation_owner \<Rightarrow> bool" where
  "same_pages r n w w' \<longleftrightarrow> (\<forall>i \<le> n. \<forall>q.
     cw_collect_results w q (lf_idempotency_key r @ '':results:'' @ nat_str i)
       = cw_collect_results w' q (lf_idempotency_key r @ '':results:'' @ nat_str i))"

lemma collect_round_same:
  "same_pages r n w w' \<Longrightarrow> length seen \<le> n
     \<Longrightarrow> collect_round w cfg r x results cursor seen = collect_round w' cfg r x results cursor seen"
  by (simp add: collect_round_def same_pages_def)

lemma collect_pages_same:
  assumes "same_pages r (length (lf_metric_catalog r)) w w'" "length seen \<le> length (lf_metric_catalog r)"
  shows "collect_pages w cfg r x results cursor seen = collect_pages w' cfg r x results cursor seen"
  using assms(2)
proof (induction "length (lf_metric_catalog r) - length seen" arbitrary: results cursor seen rule: less_induct)
  case less
  have round: "collect_round w cfg r x results cursor seen = collect_round w' cfg r x results cursor seen"
    by (rule collect_round_same [OF assms(1) less.prems])
  show ?case
  proof (cases "collect_round w' cfg r x results cursor seen")
    case (Inl res)
    with round show ?thesis by (simp add: collect_pages.simps)
  next
    case (Inr z)
    obtain results' c seen' where z: "z = (results', c, seen')" by (cases z)
    with Inr have progress: "length seen' = Suc (length seen)" "length seen < length (lf_metric_catalog r)"
      using collect_round_progress [of w' cfg r x results cursor seen results' c seen'] by simp_all
    then have "collect_pages w cfg r x results' (Some c) seen' = collect_pages w' cfg r x results' (Some c) seen'"
      by (intro less.hyps) simp_all
    with round Inr z show ?thesis
      by (subst (1 2) collect_pages.simps) simp
  qed
qed

section \<open>Metrics of the catalog\<close>

lemma metric_from_Inr: "metric_from results d = Inr m \<Longrightarrow> rm_definition m = d \<and> ResultMetric_post_init m = None"
  by (auto simp: metric_from_def build_record_Inr_iff split: option.splits)

lemma collect_Inr: "collect xs = Inr ys \<Longrightarrow> xs = map Inr ys"
  by (induction xs arbitrary: ys) (auto simp: attempt_Inr_iff)

lemma collected_map_Inr: "collect (map f xs) = Inr ys \<Longrightarrow> list_all2 (\<lambda>x y. f x = Inr y) xs ys"
  using collect_Inr [of "map f xs" ys] by (simp add: list_all2_conv_all_nth list_eq_iff_nth_eq)

lemma collect_metrics_Inr:
  assumes "collect_metrics w cfg r x = Inr metrics"
  shows "map rm_definition metrics = lf_metric_catalog r" "\<forall>m \<in> set metrics. ResultMetric_post_init m = None"
proof -
  from assms obtain results where "collect (map (metric_from results) (lf_metric_catalog r)) = Inr metrics"
    by (auto simp: collect_metrics_def attempt_Inr_iff)
  then have all: "list_all2 (\<lambda>d m. metric_from results d = Inr m) (lf_metric_catalog r) metrics" by (rule collected_map_Inr)
  then show "map rm_definition metrics = lf_metric_catalog r"
    by (induction rule: list_all2_induct) (auto dest: metric_from_Inr)
  from all show "\<forall>m \<in> set metrics. ResultMetric_post_init m = None"
    by (induction rule: list_all2_induct) (auto dest: metric_from_Inr)
qed

section \<open>The runs that are built\<close>

text \<open>The request that a run and a snapshot are bound to.\<close>

definition run_binds :: "load_flow_request \<Rightarrow> calculation_input_digest \<Rightarrow> calculation_run \<Rightarrow> bool" where
  "run_binds r digest run \<longleftrightarrow> cr_context_id run = lf_context_id r \<and> cr_configuration_key run = lf_configuration_key r
     \<and> cr_extraction_revision run = lf_extraction_revision r \<and> cr_calculation_input_digest run = digest
     \<and> cr_command run = lf_command r \<and> cr_command_settings run = lf_command_settings r \<and> cr_policy run = lf_policy r
     \<and> CalculationRun_post_init run = None"

lemma build_run_Inr:
  "build_run (run_of_request r i digest st x ms refs sid t0 t1) = Inr run \<Longrightarrow> run_binds r digest run
     \<and> cr_convergence_state run = st \<and> cr_result_snapshot_id run = sid \<and> cr_execution_id run = x \<and> cr_run_id run = i"
  by (auto simp: build_run_def run_binds_def run_of_request_def build_record_Inr_iff)

definition captures :: "calculation_owner \<Rightarrow> load_flow_config \<Rightarrow> load_flow_request \<Rightarrow> calculation_input_digest
    \<Rightarrow> calculation_run \<Rightarrow> result_snapshot \<Rightarrow> bool" where
  "captures w cfg r digest run s \<longleftrightarrow> (\<exists>x. execute_command w r = Inr x \<and> cx_completion x = COMMAND_SUCCEEDED
     \<and> cr_execution_id run = Some (cx_execution_id x)
     \<and> collect_metrics w cfg r (cx_execution_id x) = Inr (sn_metrics s))
     \<and> map rm_definition (sn_metrics s) = lf_metric_catalog r
     \<and> list_all2 (\<lambda>m e. evaluate_metric m = Inr e) (sn_metrics s) (sn_evaluations s)
     \<and> ResultSnapshot_post_init s = None \<and> require_snapshot_matches_run run s = None"

lemma captured_run_Inr:
  assumes "captured_run r ids clock digest x refs diags metrics = Inr (run, snapshot)"
  shows "\<exists>s. snapshot = Some s \<and> run_binds r digest run \<and> cr_convergence_state run = CONVERGED
    \<and> cr_execution_id run = Some (cx_execution_id x) \<and> sn_metrics s = metrics \<and> ResultSnapshot_post_init s = None
    \<and> list_all2 (\<lambda>m e. evaluate_metric m = Inr e) metrics (sn_evaluations s) \<and> require_snapshot_matches_run run s = None"
proof -
  from assms obtain evaluations s where ev: "collect (map evaluate_metric metrics) = Inr evaluations"
      and s: "s = snapshot_of_request r (ids 1) (ids 0) digest metrics evaluations (clock 1)" "ResultSnapshot_post_init s = None"
      and run: "build_run (run_of_request r (ids 0) digest CONVERGED (Some (cx_execution_id x))
        (cx_diagnostic_messages x @ diags) refs (Some (ids 1)) (clock 0) (clock 2)) = Inr run"
      and "snapshot = Some s"
    by (auto simp: captured_run_def attempt_Inr_iff build_record_Inr_iff)
  then show ?thesis
    using build_run_Inr [OF run] collected_map_Inr [OF ev]
    by (auto simp: s(1) snapshot_of_request_def run_binds_def require_snapshot_matches_run_def)
qed

lemma load_flow_outcome_Inr:
  assumes "load_flow_outcome w cfg r ids clock digest = Inr (run, snapshot)"
  shows "run_binds r digest run \<and> (case snapshot of
      None \<Rightarrow> cr_convergence_state run \<noteq> CONVERGED \<and> cr_result_snapshot_id run = None
    | Some s \<Rightarrow> cr_convergence_state run = CONVERGED \<and> captures w cfg r digest run s)"
proof (cases "execute_command w r")
  case (Inl e)
  with assms show ?thesis
    by (auto simp: load_flow_outcome_def attempt_Inr_iff split: option.splits dest: build_run_Inr)
next
  case (Inr x)
  with assms obtain refs diags where logs: "logs w cfg (cx_execution_id x) (lf_idempotency_key r) = Inr (refs, diags)"
    by (auto simp: load_flow_outcome_def attempt_Inr_iff)
  show ?thesis
  proof (cases "cx_completion x = COMMAND_SUCCEEDED")
    case False
    with assms Inr logs show ?thesis
      by (auto simp: load_flow_outcome_def attempt_Inr_iff dest: build_run_Inr)
  next
    case True
    show ?thesis
    proof (cases "collect_metrics w cfg r (cx_execution_id x)")
      case (Inl e)
      with assms Inr logs True show ?thesis
        by (auto simp: load_flow_outcome_def attempt_Inr_iff split: option.splits dest: build_run_Inr)
    next
      case (Inr metrics)
      with assms \<open>execute_command w r = Inr x\<close> logs True
      have "captured_run r ids clock digest x refs diags metrics = Inr (run, snapshot)"
        by (simp add: load_flow_outcome_def)
      from captured_run_Inr [OF this] obtain s where s: "snapshot = Some s" "run_binds r digest run"
          "cr_convergence_state run = CONVERGED" "cr_execution_id run = Some (cx_execution_id x)" "sn_metrics s = metrics"
          "ResultSnapshot_post_init s = None" "list_all2 (\<lambda>m e. evaluate_metric m = Inr e) metrics (sn_evaluations s)"
          "require_snapshot_matches_run run s = None"
        by blast
      with Inr True \<open>execute_command w r = Inr x\<close> collect_metrics_Inr(1) [OF Inr]
      have "captures w cfg r digest run s" unfolding captures_def by blast
      with s show ?thesis by simp
    qed
  qed
qed

lemma run_validated_load_flow_Inr:
  assumes "run_validated_load_flow sha ids clock w cfg r d = (Inr run, d')"
  obtains digest snapshot where "input_digest sha r = Inr digest"
    "load_flow_outcome w cfg r ids clock digest = Inr (run, snapshot)" "record_calculation run snapshot d = (Inr run, d')"
proof -
  from assms obtain digest where digest: "input_digest sha r = Inr digest"
    by (cases "input_digest sha r") (auto simp: run_validated_load_flow_def)
  from assms digest obtain run' snapshot where out: "load_flow_outcome w cfg r ids clock digest = Inr (run', snapshot)"
    by (cases "load_flow_outcome w cfg r ids clock digest") (auto simp: run_validated_load_flow_def)
  with assms digest have "map_error StoreRaised (fst (record_calculation run' snapshot d)) = Inr run"
      and d': "snd (record_calculation run' snapshot d) = d'"
    by (auto simp: run_validated_load_flow_def split: prod.splits)
  then have rec: "record_calculation run' snapshot d = (Inr run, d')" by (cases "record_calculation run' snapshot d") auto
  then have "run' = run" using recorded_run_found(1) by metis
  with digest out rec show ?thesis by (intro that) simp_all
qed

section \<open>Runs that cannot be built\<close>

lemma run_validated_Inl:
  assumes "\<And>digest. \<exists>e. load_flow_outcome w cfg r ids clock digest = Inl e"
  shows "\<exists>e. run_validated_load_flow sha ids clock w cfg r d = (Inl e, d)"
proof (cases "input_digest sha r")
  case (Inl e)
  then show ?thesis by (simp add: run_validated_load_flow_def)
next
  case (Inr digest)
  moreover obtain e where "load_flow_outcome w cfg r ids clock digest = Inl e" using assms by blast
  ultimately show ?thesis by (simp add: run_validated_load_flow_def)
qed

lemma large_catalog_request:
  assumes "100 < length (lf_metric_catalog r)" "length (lf_metric_catalog r) \<le> MAX_CALCULATION_METRICS"
    and "CommandExecutionObservation_post_init x = None"
  shows "collect_metrics w cfg r (cx_execution_id x)
    = Inl (CalculationDomainError (ValueError ''ResultCollectionRequest.objects exceeds 100 entries''))"
proof -
  let ?q = "\<lparr>rc_configuration_key = lf_configuration_key r, rc_execution_id = cx_execution_id x,
        rc_objects = map md_object_selector (lf_metric_catalog r),
        rc_variables = from_keys (map md_variable (lf_metric_catalog r)),
        rc_limit = lc_result_page_size cfg, rc_cursor = None\<rparr>"
  have "length (from_keys (map md_variable (lf_metric_catalog r))) \<le> length (lf_metric_catalog r)"
    using length_remdups_leq [of "rev (map md_variable (lf_metric_catalog r))"] by (simp add: from_keys_def)
  moreover have some: "lf_metric_catalog r \<noteq> []" "from_keys (map md_variable (lf_metric_catalog r)) \<noteq> []"
    using assms(1) by (auto simp: from_keys_def)
  ultimately have "require_collection False (from_keys (map md_variable (lf_metric_catalog r))) field = None" for field
    using assms(2) by (simp add: require_collection_None_iff MAX_CALCULATION_METRICS_def MAX_COLLECTION_LENGTH_def)
  moreover have "require_collection False (map md_object_selector (lf_metric_catalog r)) field = None" for field
    using assms(2) some by (simp add: require_collection_None_iff MAX_CALCULATION_METRICS_def MAX_COLLECTION_LENGTH_def)
  moreover have "require_text_max 256 (cx_execution_id x) field = None" for field
    using assms(3) by (simp add: CommandExecutionObservation_post_init_def require_text_max_None_iff)
  moreover have "int_str MAX_PAGE_SIZE = ''100''" by code_simp
  ultimately have "ResultCollectionRequest_post_init ?q
      = Some (ValueError ''ResultCollectionRequest.objects exceeds 100 entries'')"
    using assms(1)
    by (simp add: ResultCollectionRequest_post_init_def first_error.simps require_def MAX_PAGE_SIZE_def)
  then have "collect_request cfg r (cx_execution_id x) None
      = Inl (CalculationDomainError (ValueError ''ResultCollectionRequest.objects exceeds 100 entries''))"
    by (simp add: collect_request_def build_record_def)
  then show ?thesis by (simp add: collect_metrics_def collect_pages.simps collect_round_def)
qed

text \<open>A message that is cut behind a blank is no admissible diagnostic message.\<close>

lemma cut_message_refused:
  assumes "i < 16" "i < length ms" "1024 < length (ms ! i)" "is_space (ms ! i ! 1023)"
  shows "\<exists>e. build_run (run_of_request r rid digest st x ms refs sid t0 t1) = Inl e"
proof -
  let ?run = "run_of_request r rid digest st x ms refs sid t0 t1"
  have "take 1024 (ms ! i) \<in> set (bounded_messages ms)"
    using assms(1,2) nth_mem [of i "take 16 ms"] by (simp add: bounded_messages_def)
  moreover have "\<not> require_text_max 1024 (take 1024 (ms ! i)) field = None" for field
  proof
    assume "require_text_max 1024 (take 1024 (ms ! i)) field = None"
    then have "\<not> is_space (last (take 1024 (ms ! i)))"
      using stripped_ends [of "take 1024 (ms ! i)"] by (simp add: require_text_max_None_iff)
    moreover have "last (take 1024 (ms ! i)) = ms ! i ! 1023"
      using assms(3) by (subst last_conv_nth) auto
    ultimately show False using assms(4) by simp
  qed
  ultimately have bad: "\<exists>m \<in> set (bounded_messages ms). require_text_max 1024 m field \<noteq> None" for field by blast
  have "CalculationRun_post_init ?run \<noteq> None"
  proof
    assume "CalculationRun_post_init ?run = None"
    then have "list_all (\<lambda>c. c = None)
        (require_entries 1024 (bounded_messages ms) ''CalculationRun.diagnostic_messages'')"
      by (simp add: CalculationRun_post_init_def run_of_request_def)
    with bad [of "''CalculationRun.diagnostic_messages entry''"] show False by (auto simp: require_entries_def list_all_iff)
  qed
  then show ?thesis by (auto simp: build_run_def build_record_def)
qed

end
