(* ===== verification/Calculation_Samples.thy ===== *)
theory Calculation_Samples
  imports Load_Flow_Laws Asset_Samples
begin

text \<open>
  A load flow over one bus, for the witnesses: its metric, its request, an owner that answers it,
  and the run and snapshot that it records.
\<close>

section \<open>A load flow over one bus\<close>

definition pu :: "rat \<Rightarrow> quantity" where
  "pu x = \<lparr>q_value = x, q_unit = ''pu''\<rparr>"

definition voltage_variable :: result_variable_selector where
  "voltage_variable = \<lparr>rv_kind = BUS_VOLTAGE, rv_contract = sample_name\<rparr>"

definition bus_selector :: "string \<Rightarrow> primitive_object_selector" where
  "bus_selector path = \<lparr>po_project_key = ''k'', po_object_class = \<lparr>oc_kind = TERMINAL_CLASS, oc_contract = sample_name\<rparr>,
     po_native_field = None, po_native_value = None, po_canonical_path = Some path\<rparr>"

definition bus_metric :: "string \<Rightarrow> product_identity \<Rightarrow> metric_definition" where
  "bus_metric i asset = \<lparr>md_definition_id = i, md_asset_identity = asset, md_metric_kind = METRIC_BUS_VOLTAGE,
     md_object_selector = bus_selector i, md_variable = voltage_variable, md_canonical_unit = ''pu'',
     md_lower_limit = Some (pu (9 / 10)), md_upper_limit = Some (pu (11 / 10)), md_critical_margin = pu (1 / 20),
     md_equivalence_tolerance = pu (1 / 50), md_materiality_threshold = pu (1 / 100), md_limit_source = ''grid code''\<rparr>"

definition bus_definition :: metric_definition where
  "bus_definition = bus_metric ''d1'' (sample_product 1)"

definition voltage_metric :: "rat \<Rightarrow> result_metric" where
  "voltage_metric x = \<lparr>rm_definition = bus_definition, rm_status = result_cell_status.AVAILABLE, rm_source_value = Some ''x'',
     rm_source_unit = Some ''p.u.'', rm_normalized = Some (pu x), rm_diagnostic = None\<rparr>"

definition voltage_evaluation :: "rat \<Rightarrow> metric_evaluation" where
  "voltage_evaluation x = (case evaluate_metric (voltage_metric x) of Inr e \<Rightarrow> e | Inl _ \<Rightarrow> undefined)"

definition bus_digest :: calculation_input_digest where
  "bus_digest = CalculationInputDigest (''calculation-input:v1:sha256:'' @ sample_hex)"

definition bus_clock :: "nat \<Rightarrow> datetime" where
  "bus_clock n = sample_time n 0"

definition voltage_snapshot :: "nat \<Rightarrow> rat \<Rightarrow> result_snapshot" where
  "voltage_snapshot n x = \<lparr>sn_snapshot_id = sample_ids n 1, sn_run_id = sample_ids n 0,
     sn_context_id = sample_uuid 1, sn_configuration_key = sample_key,
     sn_extraction_revision = \<lparr>scope_id = sample_uuid 1, counter = 1\<rparr>,
     sn_calculation_input_digest = bus_digest, sn_policy = sample_name, sn_metrics = [voltage_metric x],
     sn_evaluations = [voltage_evaluation x], sn_captured_at = bus_clock 1\<rparr>"

definition bus_request :: "metric_definition list \<Rightarrow> load_flow_request" where
  "bus_request catalog = \<lparr>lf_context_id = sample_uuid 1, lf_configuration_key = sample_key,
     lf_extraction_revision = \<lparr>scope_id = sample_uuid 1, counter = 1\<rparr>,
     lf_command = \<lparr>cs_kind = LOAD_FLOW, cs_contract = sample_name\<rparr>, lf_command_settings = [],
     lf_metric_catalog = catalog, lf_policy = sample_name, lf_idempotency_key = ''key''\<rparr>"

definition bus_observation :: command_execution_observation where
  "bus_observation = \<lparr>cx_execution_id = ''x'', cx_command = \<lparr>cs_kind = LOAD_FLOW, cs_contract = sample_name\<rparr>,
     cx_completion = COMMAND_SUCCEEDED, cx_return_code = 0, cx_diagnostic_messages = [],
     cx_started_at = sample_time 0 0, cx_completed_at = sample_time 1 0\<rparr>"

text \<open>An owner whose bus is at 0.8 per unit, with one page of results and one warning in its log.\<close>

definition bus_owner :: calculation_owner where
  "bus_owner = \<lparr>cw_execute_command = (\<lambda>q key. Submitted [QUEUED, COMPLETED_OPERATION] (OwnerResult bus_observation)),
     cw_collect_results = (\<lambda>q key. Submitted [COMPLETED_OPERATION] (OwnerResult
       \<lparr>rb_execution_id = ''x'',
        rb_rows = [\<lparr>rr_selector = bus_selector ''d1'', rr_cells = [\<lparr>rl_variable = voltage_variable, rl_status = result_cell_status.AVAILABLE,
          rl_source_value = Some ''x'', rl_source_unit = Some ''p.u.'', rl_normalized = Some (pu (4 / 5)), rl_diagnostic = None\<rparr>]\<rparr>],
        rb_next_cursor = None, rb_complete = True, rb_observed_at = sample_time 1 0\<rparr>)),
     cw_read_logs = (\<lambda>q key. Submitted [COMPLETED_OPERATION] (OwnerResult
       \<lparr>lb_entries = [\<lparr>le_sequence = 1, le_execution_id = Some ''x'', le_severity = LOG_WARNING, le_category = ''c'',
          le_message = ''low voltage'', le_observed_at = sample_time 1 0\<rparr>], lb_next_cursor = None,
        lb_bytes_returned = 11, lb_truncated = False, lb_redaction_applied = False\<rparr>))\<rparr>"

definition bus_config :: load_flow_config where
  "bus_config = \<lparr>lc_result_page_size = 100, lc_log_entry_limit = 32, lc_log_byte_limit = 16384\<rparr>"

abbreviation bus_load_flow :: "calculation_db \<Rightarrow> (load_flow_error + calculation_run) \<times> calculation_db" where
  "bus_load_flow \<equiv> run_validated_load_flow (\<lambda>_. sample_hex) (sample_ids 900) bus_clock bus_owner bus_config
     (bus_request [bus_definition])"

definition bus_run :: calculation_run where
  "bus_run = run_of_request (bus_request [bus_definition]) (sample_ids 900 0) bus_digest CONVERGED (Some ''x'')
     [''low voltage''] [''execution:x:log:1''] (Some (sample_ids 900 1)) (bus_clock 0) (bus_clock 2)"

abbreviation bus_snapshot :: result_snapshot where
  "bus_snapshot \<equiv> voltage_snapshot 900 (4 / 5)"

lemma bus_outcome:
  "load_flow_outcome bus_owner bus_config (bus_request [bus_definition]) (sample_ids 900) bus_clock bus_digest
     = Inr (bus_run, Some bus_snapshot)"
  by code_simp

lemma bus_input_digest: "input_digest (\<lambda>_. sample_hex) (bus_request [bus_definition]) = Inr bus_digest"
  by code_simp

lemma bus_run_text: "isl (encoded_as (py_calculation_run bus_run)) = False"
  by code_simp

lemma bus_snapshot_text: "isl (encoded_as (py_result_snapshot bus_snapshot)) = False"
  by code_simp

lemma bus_overlays_text: "case build_calculation_overlays bus_snapshot of Inl _ \<Rightarrow> False
    | Inr xs \<Rightarrow> isl (insert_overlays (sn_snapshot_id bus_snapshot) xs []) = False"
  by code_simp

lemma bus_run_captured:
  obtains d where "record_calculation bus_run (Some bus_snapshot) empty_calculation_db = (Inr bus_run, d)"
    "bus_load_flow empty_calculation_db = (Inr bus_run, d)"
proof -
  obtain xs rows where xs: "build_calculation_overlays bus_snapshot = Inr xs"
      "insert_overlays (sn_snapshot_id bus_snapshot) xs [] = Inr rows"
    using bus_overlays_text
    by (cases "build_calculation_overlays bus_snapshot"; cases "insert_overlays (sn_snapshot_id bus_snapshot) (projr (build_calculation_overlays bus_snapshot)) []")
      simp_all
  obtain t where t: "encoded_as (py_calculation_run bus_run) = Inr t"
    using bus_run_text by (cases "encoded_as (py_calculation_run bus_run)") simp_all
  obtain u where u: "encoded_as (py_result_snapshot bus_snapshot) = Inr u"
    using bus_snapshot_text by (cases "encoded_as (py_result_snapshot bus_snapshot)") simp_all
  have small: "sqlite_int (counter (cr_extraction_revision bus_run))" "sqlite_int (counter (sn_extraction_revision bus_snapshot))"
    by code_simp+
  have matches: "require_snapshot_matches_run bus_run bus_snapshot = None" "cr_result_snapshot_id bus_run \<noteq> None"
      "cr_run_id bus_run = sn_run_id bus_snapshot"
    by code_simp+
  obtain d where rec: "record_calculation bus_run (Some bus_snapshot) empty_calculation_db = (Inr bus_run, d)"
    using xs t u small matches by (simp add: record_calculation_def transaction_def insert_run_row_def
        insert_snapshot_def insert_snapshot_row_def empty_calculation_db_def run_row_of_def)
  moreover have "bus_load_flow empty_calculation_db = (Inr bus_run, d)"
    using rec by (simp add: run_validated_load_flow_def bus_input_digest bus_outcome)
  ultimately show ?thesis by (rule that)
qed

end
