(* ===== verification/Calculation_Properties.thy ===== *)
theory Calculation_Properties
  imports Calculation_Samples
begin

text \<open>
  The properties of the load-flow calculations: the verdict on a metric, the comparison of two
  snapshots, what the service records and what the store keeps.
\<close>

section \<open>Evaluation\<close>

lemma bus_parts:
  "rm_definition (voltage_metric x) = bus_definition" "rm_normalized (voltage_metric x) = Some (pu x)"
  "rm_status (voltage_metric x) = result_cell_status.AVAILABLE" "q_value (pu x) = x"
  "q_value (md_equivalence_tolerance bus_definition) = 1 / 50" "q_value (md_critical_margin bus_definition) = 1 / 20"
  "q_value (md_materiality_threshold bus_definition) = 1 / 100"
  by (simp_all add: voltage_metric_def pu_def bus_definition_def bus_metric_def)

text \<open>By how much a violation breaks its limit, as the code computes it.\<close>

definition violation_excess :: "policy_violation \<Rightarrow> rat" where
  "violation_excess v = decimal_round (if pv_direction v = ''lower'' then q_value (pv_limit v) - q_value (pv_measured_value v)
     else q_value (pv_measured_value v) - q_value (pv_limit v))"

text \<open>C15: The verdict on a metric with valid records.  It is always given; it is a violation exactly
  when an available value lies outside a limit that is set, it names the limit that is broken and
  the direction (the lower one first), and it is critical exactly when the excess, rounded to 28
  digits, is above the critical margin.  Unavailable data and missing limits are never called safe.\<close>

theorem metric_verdict:
  assumes "metric_ok m"
  shows "\<exists>e. evaluate_metric m = Inr e \<and> me_definition_id e = metric_id m \<and> me_observed_status e = rm_status m
    \<and> me_status e = (if rm_status m \<noteq> result_cell_status.AVAILABLE then NOT_EVALUATED_DATA
        else if \<not> has_limit (rm_definition m) then NOT_EVALUATED_MISSING_LIMIT
        else if within_limits (rm_definition m) (q_value (the (rm_normalized m))) then SAFE else VIOLATION)
    \<and> (me_violation e \<noteq> None \<longleftrightarrow> me_status e = VIOLATION)
    \<and> (\<forall>v. me_violation e = Some v \<longrightarrow>
         breach (rm_definition m) (q_value (the (rm_normalized m))) = Some (pv_direction v, pv_limit v)
         \<and> pv_definition_id v = metric_id m \<and> Some (pv_measured_value v) = rm_normalized m
         \<and> (pv_severity v = CRITICAL \<longleftrightarrow> q_value (md_critical_margin (rm_definition m))
              < violation_excess v)
         \<and> (pv_severity v \<noteq> CRITICAL \<longrightarrow> pv_severity v = WARNING))"
proof -
  obtain e where e: "evaluate_metric m = Inr e" "me_definition_id e = metric_id m" "me_observed_status e = rm_status m"
      "me_status e = verdict m" and
    v: "me_violation e = (if verdict m = VIOLATION
        then map_option (\<lambda>(direction, limit). violation_of m (the (rm_normalized m)) limit direction)
          (breach (rm_definition m) (q_value (the (rm_normalized m)))) else None)"
    using evaluate_metric_total [OF assms] by (elim exE conjE)
  have bad: "breach (rm_definition m) (q_value (the (rm_normalized m))) \<noteq> None \<and> Some (the (rm_normalized m)) = rm_normalized m"
    if "verdict m = VIOLATION"
    using that metric_ok_available [OF assms] breach_None_iff
    by (fastforce simp: verdict_def split: if_splits)
  have iff: "me_violation e \<noteq> None \<longleftrightarrow> me_status e = VIOLATION" using bad v e(4) by auto
  have found: "\<exists>direction limit. verdict m = VIOLATION
      \<and> breach (rm_definition m) (q_value (the (rm_normalized m))) = Some (direction, limit)
      \<and> x = violation_of m (the (rm_normalized m)) limit direction" if "me_violation e = Some x" for x
    using that by (auto simp: v split: if_splits)
  have report: "breach (rm_definition m) (q_value (the (rm_normalized m))) = Some (pv_direction x, pv_limit x)
      \<and> pv_definition_id x = metric_id m \<and> Some (pv_measured_value x) = rm_normalized m
      \<and> (pv_severity x = CRITICAL \<longleftrightarrow> q_value (md_critical_margin (rm_definition m)) < violation_excess x)
      \<and> (pv_severity x \<noteq> CRITICAL \<longrightarrow> pv_severity x = WARNING)" if "me_violation e = Some x" for x
    using found [OF that] bad
    by (elim exE conjE) (simp add: violation_of_def violation_severity_of_def violation_excess_def decimal_sub_def metric_id_def Let_def)
  show ?thesis
    using e(1-4) iff report unfolding verdict_def by (intro exI [of _ e] conjI allI impI) blast+
qed

theorem metric_verdict_witness:
  "\<exists>e v. evaluate_metric (voltage_metric (4 / 5)) = Inr e \<and> me_violation e = Some v \<and> pv_severity v = CRITICAL"
proof -
  have ok: "metric_ok (voltage_metric (4 / 5))" unfolding metric_ok_def by code_simp
  have bad: "\<not> within_limits bus_definition (4 / 5)" "has_limit bus_definition"
      "breach bus_definition (4 / 5) = Some (''lower'', pu (9 / 10))"
      "decimal_round (1 / 10) = 1 / 10"
    unfolding within_limits_iff by code_simp+
  note verdict = metric_verdict [OF ok, unfolded bus_parts option.sel]
  obtain e where e: "evaluate_metric (voltage_metric (4 / 5)) = Inr e" "me_violation e \<noteq> None"
      and v: "\<And>v. me_violation e = Some v \<Longrightarrow> breach bus_definition (4 / 5) = Some (pv_direction v, pv_limit v)
         \<and> Some (pv_measured_value v) = Some (pu (4 / 5))
         \<and> (pv_severity v = CRITICAL \<longleftrightarrow> 1 / 20 < violation_excess v)"
    using verdict bad(1,2) by auto
  from e(2) obtain v where some: "me_violation e = Some v" by auto
  have "pv_direction v = ''lower''" "pv_limit v = pu (9 / 10)" "pv_measured_value v = pu (4 / 5)"
    using v [OF some] bad(3) by simp_all
  then have "violation_excess v = 1 / 10" using bad(4) by (simp add: violation_excess_def pu_def)
  with v [OF some] e(1) some show ?thesis by (auto simp: bus_parts)
qed

section \<open>Comparison\<close>

lemma voltage_snapshot_ok:
  assumes "ResultSnapshot_post_init (voltage_snapshot n x) = None" "metric_ok (voltage_metric x)"
    "MetricEvaluation_post_init (voltage_evaluation x) = None" "me_violation (voltage_evaluation x) = None"
  shows "snapshot_ok (voltage_snapshot n x)"
  using assms(1) unfolding snapshot_ok_def by (simp add: voltage_snapshot_def assms(2-4))

text \<open>C21: The comparison of two valid snapshots of one catalog under one policy.  It compares every
  metric and every finding of the catalog in order, counts the comparable metrics, and calls the
  results equivalent exactly when there are comparable metrics and each changed by no more than
  its tolerance.  It fails only when some change is within the tolerance of its metric and above
  its materiality threshold, which the definition of a metric admits.\<close>

theorem comparison_verdict:
  assumes "aligned b c" "sn_snapshot_id b \<noteq> sn_snapshot_id c" "canonical_uuid4 uuid" "dt_valid now"
  shows "compare_result_snapshots uuid now b c
    = (if list_ex overlaps (entries b c) then Inl overlap_error else Inr (comparison_record uuid now b c))"
  by (rule compare_result_snapshots_eq [OF assms])

theorem comparison_verdict_witness:
  "compare_result_snapshots (sample_uuid 5) (sample_time 2 0) (voltage_snapshot 900 1) (voltage_snapshot 910 (203 / 200))
     = Inl overlap_error"
proof -
  have ok: "snapshot_ok (voltage_snapshot 900 1)" "snapshot_ok (voltage_snapshot 910 (203 / 200))"
    by (rule voltage_snapshot_ok; (unfold metric_ok_def)?; code_simp)+
  have other: "sn_snapshot_id (voltage_snapshot 900 1) \<noteq> sn_snapshot_id (voltage_snapshot 910 (203 / 200))"
    "canonical_uuid4 (sample_uuid 5)" "dt_valid (sample_time 2 0)"
    by code_simp+
  have "aligned (voltage_snapshot 900 1) (voltage_snapshot 910 (203 / 200))"
    using ok by (simp add: aligned_def voltage_snapshot_def voltage_metric_def)
  moreover have near: "decimal_round (3 / 200) = 3 / 200" by code_simp
  have delta: "metric_delta (voltage_metric 1) (voltage_metric (203 / 200)) = 3 / 200"
    using near by (simp add: metric_delta_def decimal_sub_def bus_parts)
  have "decimal_abs (metric_delta (voltage_metric 1) (voltage_metric (203 / 200))) = 3 / 200"
    unfolding delta decimal_abs_def using near by simp
  then have "between_thresholds (voltage_metric 1) (voltage_metric (203 / 200))"
    by (simp only: between_thresholds_def both_available_def is_equivalent_def is_material_def bus_parts) simp
  then have "list_ex overlaps (entries (voltage_snapshot 900 1) (voltage_snapshot 910 (203 / 200)))"
    by (simp add: entries_def overlaps_def voltage_snapshot_def)
  ultimately show ?thesis using comparison_verdict other by presburger
qed

section \<open>The service and its evidence\<close>

text \<open>The reachable stores, and what a run of the service leaves in them.\<close>

lemma calculation_reachable: "calculation_inv (run_ops calculation_step empty_calculation_db cs)"
  by (rule calculation.run_inv [OF calculation_inv_empty])

lemma recorded_evidence:
  assumes "run_validated_load_flow sha ids clock w cfg r d = (Inr run, d')"
  obtains digest snapshot where "input_digest sha r = Inr digest"
    "load_flow_outcome w cfg r ids clock digest = Inr (run, snapshot)" "d' = calculation_step d (RecordRun run snapshot)"
    "stored_run (cr_run_id run) d' = Inr run"
    "\<And>s. snapshot = Some s \<Longrightarrow> stored_snapshot (sn_snapshot_id s) None d' = Inr s"
proof -
  from run_validated_load_flow_Inr [OF assms] obtain digest snapshot where o': "input_digest sha r = Inr digest"
      "load_flow_outcome w cfg r ids clock digest = Inr (run, snapshot)" and rec: "record_calculation run snapshot d = (Inr run, d')"
    by blast
  have "d' = calculation_step d (RecordRun run snapshot)" using rec by (simp add: calculation_step_def)
  moreover have "stored_run (cr_run_id run) d' = Inr run"
    using recorded_run_found(2) [OF rec] by (simp add: stored_run_def run_row_of_def)
  moreover have "stored_snapshot (sn_snapshot_id s) None d' = Inr s" if "snapshot = Some s" for s
    using recorded_snapshot_found [OF rec [unfolded that]] by (simp add: stored_snapshot_def snapshot_row_of_def)
  ultimately show ?thesis using o' by (intro that)
qed

lemma stored_run_kept:
  assumes "calculation_inv d" "stored_run i d = Inr run"
  shows "stored_run i (run_ops calculation_step d cs) = Inr run"
proof -
  from assms(2) obtain u where u: "lookup_row un_run_id i (calculation_runs d) = Some u" "un_run u = run"
    by (auto simp: stored_run_def split: option.splits)
  from lookup_prefix [OF run_log.run_log_prefix [OF assms(1)] u(1), of cs] u(2) show ?thesis by (simp add: stored_run_def)
qed

lemma stored_snapshot_kept:
  assumes "calculation_inv d" "stored_snapshot i None d = Inr s"
  shows "stored_snapshot i None (run_ops calculation_step d cs) = Inr s"
proof -
  from assms(2) obtain u where u: "lookup_row sw_snapshot_id i (calculation_snapshots d) = Some u" "sw_snapshot u = s"
    by (auto simp: stored_snapshot_def split: option.splits)
  from lookup_prefix [OF snapshot_log.run_log_prefix [OF assms(1)] u(1), of cs] u(2) show ?thesis by (simp add: stored_snapshot_def)
qed

text \<open>C22: What the service returned stays readable.  After a load flow on a reachable store returned a
  run, every later sequence of recordings leaves that run readable unchanged under its identifier,
  and when the run names a snapshot, exactly one snapshot is readable under that name, unchanged,
  and it binds the run's context, configuration, extraction revision, input digest and policy.\<close>

theorem recorded_run_is_kept:
  assumes "run_validated_load_flow sha ids clock w cfg r (run_ops calculation_step empty_calculation_db cs) = (Inr run, d)"
  shows "stored_run (cr_run_id run) (run_ops calculation_step d ds) = Inr run
    \<and> (\<forall>i. cr_result_snapshot_id run = Some i \<longrightarrow> (\<exists>s. stored_snapshot i None d = Inr s
        \<and> stored_snapshot i None (run_ops calculation_step d ds) = Inr s \<and> require_snapshot_matches_run run s = None))"
proof -
  from recorded_evidence [OF assms] obtain digest snapshot where out: "load_flow_outcome w cfg r ids clock digest = Inr (run, snapshot)"
      and d: "d = calculation_step (run_ops calculation_step empty_calculation_db cs) (RecordRun run snapshot)"
      and run: "stored_run (cr_run_id run) d = Inr run"
      and snap: "\<And>s. snapshot = Some s \<Longrightarrow> stored_snapshot (sn_snapshot_id s) None d = Inr s"
    by metis
  have inv: "calculation_inv d" unfolding d by (rule calculation_step_inv [OF calculation_reachable])
  note bound = load_flow_outcome_Inr [OF out]
  have "\<exists>s. stored_snapshot i None d = Inr s \<and> stored_snapshot i None (run_ops calculation_step d ds) = Inr s
      \<and> require_snapshot_matches_run run s = None" if i: "cr_result_snapshot_id run = Some i" for i
  proof (cases snapshot)
    case None
    with bound i show ?thesis by simp
  next
    case (Some s)
    with bound have m: "require_snapshot_matches_run run s = None" by (simp add: captures_def)
    with i have "sn_snapshot_id s = i" by (simp add: require_snapshot_matches_run_def)
    with snap [OF Some] m stored_snapshot_kept [OF inv, of i s ds] show ?thesis by blast
  qed
  with stored_run_kept [OF inv run] show ?thesis by blast
qed

theorem recorded_run_is_kept_witness:
  "\<exists>d. bus_load_flow empty_calculation_db = (Inr bus_run, d) \<and> stored_run (sample_ids 900 0)
     (run_ops calculation_step d [RecordRun bus_run (Some bus_snapshot)]) = Inr bus_run"
proof -
  obtain d where d: "bus_load_flow empty_calculation_db = (Inr bus_run, d)" by (rule bus_run_captured)
  have "run_ops calculation_step empty_calculation_db [] = empty_calculation_db" by simp
  with d have "bus_load_flow (run_ops calculation_step empty_calculation_db []) = (Inr bus_run, d)" by simp
  from conjunct1 [OF recorded_run_is_kept [OF this, of "[RecordRun bus_run (Some bus_snapshot)]"]] d show ?thesis
    by (simp add: bus_run_def run_of_request_def)
qed

lemma violations_of_valid_metrics:
  assumes "list_all2 (\<lambda>m e. evaluate_metric m = Inr e) metrics evaluations" "\<forall>m \<in> set metrics. metric_ok m"
  shows "map pv_definition_id (List.map_filter me_violation evaluations)
    = map metric_id (filter (\<lambda>m. verdict m = VIOLATION) metrics)"
  using assms
proof (induction rule: list_all2_induct)
  case (Cons m ms e es)
  then have "metric_ok m" by simp
  from evaluate_metric_total [OF this] Cons(1)
  have v: "me_violation e = (if verdict m = VIOLATION
      then map_option (\<lambda>(direction, limit). violation_of m (the (rm_normalized m)) limit direction)
        (breach (rm_definition m) (q_value (the (rm_normalized m)))) else None)"
    by auto
  have "breach (rm_definition m) (q_value (the (rm_normalized m))) \<noteq> None" if "verdict m = VIOLATION"
    using that by (simp add: breach_None_iff verdict_def split: if_splits)
  with v have "map pv_definition_id (List.map_filter me_violation (e # es))
      = (if verdict m = VIOLATION then [metric_id m] else []) @ map pv_definition_id (List.map_filter me_violation es)"
    by (auto simp: List.map_filter_simps violation_of_def metric_id_def Let_def split: option.splits)
  with Cons show ?case by simp
qed (simp add: List.map_filter_simps)

text \<open>C16: What a recorded run says of its request.  The run has the request's context, configuration,
  revision, command, settings and policy and the digest of its input; it is converged exactly when
  it names a snapshot.  That snapshot has one metric for every entry of the catalog, in order, from
  the results collected for the command's own execution, and when the catalog is valid the
  violations found in it are those of exactly the metrics whose available value breaks a limit.\<close>

theorem captured_run_reports_every_violation:
  assumes "run_validated_load_flow sha ids clock w cfg r d = (Inr run, d')"
    and "\<forall>m \<in> set (lf_metric_catalog r). MetricDefinition_post_init m = None
      \<and> ProductIdentity_post_init (md_asset_identity m) = None"
  shows "\<exists>digest. input_digest sha r = Inr digest \<and> run_binds r digest run
    \<and> (cr_convergence_state run = CONVERGED \<longleftrightarrow> cr_result_snapshot_id run \<noteq> None)
    \<and> (\<forall>i. cr_result_snapshot_id run = Some i \<longrightarrow>
        (\<exists>s vs. stored_snapshot i None d' = Inr s \<and> captures w cfg r digest run s \<and> find_violations i d' = Inr vs
           \<and> map pv_definition_id vs = map metric_id (filter (\<lambda>m. verdict m = VIOLATION) (sn_metrics s))))"
proof -
  from recorded_evidence [OF assms(1)] obtain digest snapshot where digest: "input_digest sha r = Inr digest"
      and out: "load_flow_outcome w cfg r ids clock digest = Inr (run, snapshot)"
      and snap: "\<And>s. snapshot = Some s \<Longrightarrow> stored_snapshot (sn_snapshot_id s) None d' = Inr s"
    by metis
  note bound = load_flow_outcome_Inr [OF out]
  have found: "\<exists>s vs. stored_snapshot i None d' = Inr s \<and> captures w cfg r digest run s \<and> find_violations i d' = Inr vs
      \<and> map pv_definition_id vs = map metric_id (filter (\<lambda>m. verdict m = VIOLATION) (sn_metrics s))"
    if i: "cr_result_snapshot_id run = Some i" for i
  proof -
    obtain s where s: "snapshot = Some s" using bound i by (cases snapshot) simp_all
    with bound have c: "captures w cfg r digest run s" by simp
    then have "sn_snapshot_id s = i" using i by (simp add: captures_def require_snapshot_matches_run_def)
    with snap [OF s] have stored: "stored_snapshot i None d' = Inr s" by simp
    from c obtain x where "collect_metrics w cfg r x = Inr (sn_metrics s)" unfolding captures_def by blast
    note metrics = collect_metrics_Inr [OF this]
    have "metric_ok m" if "m \<in> set (sn_metrics s)" for m
    proof -
      have "rm_definition m \<in> set (lf_metric_catalog r)" using that by (simp flip: metrics(1))
      with assms(2) metrics(2) that show ?thesis by (simp add: metric_ok_def)
    qed
    with c have "map pv_definition_id (List.map_filter me_violation (sn_evaluations s))
        = map metric_id (filter (\<lambda>m. verdict m = VIOLATION) (sn_metrics s))"
      unfolding captures_def by (intro violations_of_valid_metrics) blast+
    moreover have "find_violations i d' = Inr (List.map_filter me_violation (sn_evaluations s))"
      using stored by (simp add: find_violations_def)
    ultimately show ?thesis using stored c by blast
  qed
  have "cr_convergence_state run = CONVERGED \<longleftrightarrow> cr_result_snapshot_id run \<noteq> None"
    using bound by (cases snapshot) (auto simp: captures_def require_snapshot_matches_run_def)
  with digest bound found show ?thesis by blast
qed

theorem captured_run_reports_every_violation_witness:
  "\<exists>d s vs. bus_load_flow empty_calculation_db = (Inr bus_run, d) \<and> stored_snapshot (sample_ids 900 1) None d = Inr s
     \<and> find_violations (sample_ids 900 1) d = Inr vs
     \<and> map pv_definition_id vs = map metric_id (filter (\<lambda>m. verdict m = VIOLATION) (sn_metrics s))"
proof -
  obtain d where d: "bus_load_flow empty_calculation_db = (Inr bus_run, d)" by (rule bus_run_captured)
  have "MetricDefinition_post_init bus_definition = None \<and> ProductIdentity_post_init (md_asset_identity bus_definition) = None"
    by code_simp
  then have "\<forall>m \<in> set (lf_metric_catalog (bus_request [bus_definition])). MetricDefinition_post_init m = None
      \<and> ProductIdentity_post_init (md_asset_identity m) = None"
    by (simp add: bus_request_def)
  from captured_run_reports_every_violation [OF d this] obtain s vs where
      "stored_snapshot (sample_ids 900 1) None d = Inr s" "find_violations (sample_ids 900 1) d = Inr vs"
      "map pv_definition_id vs = map metric_id (filter (\<lambda>m. verdict m = VIOLATION) (sn_metrics s))"
    by (auto simp: bus_run_def run_of_request_def)
  with d show ?thesis by blast
qed

text \<open>C23: The stored overlays of a snapshot are its projection.  After any recordings from the empty
  store, the overlay rows of every readable snapshot are exactly the overlays that are rebuilt
  from the snapshot alone, in their order.\<close>

theorem overlays_are_the_projection:
  assumes "stored_snapshot i None (run_ops calculation_step empty_calculation_db cs) = Inr s"
  shows "rebuild_overlays i (run_ops calculation_step empty_calculation_db cs)
    = Inr (overlays_of i (run_ops calculation_step empty_calculation_db cs))"
  by (rule overlays_projected [OF calculation_reachable assms])

theorem overlays_are_the_projection_witness:
  "let d = run_ops calculation_step empty_calculation_db [RecordRun bus_run (Some bus_snapshot)]
   in rebuild_overlays (sample_ids 900 1) d = Inr (overlays_of (sample_ids 900 1) d) \<and> stored_snapshot (sample_ids 900 1) None d = Inr bus_snapshot"
proof -
  obtain d where rec: "record_calculation bus_run (Some bus_snapshot) empty_calculation_db = (Inr bus_run, d)"
    by (rule bus_run_captured)
  then have d: "run_ops calculation_step empty_calculation_db [RecordRun bus_run (Some bus_snapshot)] = d"
    by (simp add: calculation_step_def)
  have stored: "stored_snapshot (sample_ids 900 1) None d = Inr bus_snapshot"
    using recorded_snapshot_found [OF rec] by (simp add: stored_snapshot_def snapshot_row_of_def voltage_snapshot_def)
  show ?thesis using overlays_are_the_projection [of "sample_ids 900 1" "[RecordRun bus_run (Some bus_snapshot)]" bus_snapshot] stored
    unfolding d Let_def by simp
qed

section \<open>Bounds of the collection\<close>

text \<open>C37: The collection of results is bounded by the catalog.  It always returns, and it asks for at
  most one page more than the catalog has entries: owners that answer those requests alike, and
  any later request differently, give the same metrics or the same error.\<close>

theorem result_pages_bounded:
  assumes "same_pages r (length (lf_metric_catalog r)) w w'"
  shows "collect_metrics w cfg r x = collect_metrics w' cfg r x"
  using collect_pages_same [OF assms, of "[]" cfg x "[]" None] by (simp add: collect_metrics_def)

definition forgetful_owner :: calculation_owner where
  "forgetful_owner = bus_owner\<lparr>cw_collect_results := (\<lambda>q key.
     if key = ''key:results:0'' \<or> key = ''key:results:1'' then cw_collect_results bus_owner q key else SubmitRaises ''gone'')\<rparr>"

theorem result_pages_bounded_witness:
  "collect_metrics forgetful_owner bus_config (bus_request [bus_definition]) ''x''
     = collect_metrics bus_owner bus_config (bus_request [bus_definition]) ''x''"
proof (rule result_pages_bounded)
  have "nat_str 0 = ''0''" "nat_str 1 = ''1''" by code_simp+
  then have "nat_str n = ''0'' \<or> nat_str n = ''1''" if "n \<le> 1" for n
    using that by (cases n) auto
  then show "same_pages (bus_request [bus_definition]) (length (lf_metric_catalog (bus_request [bus_definition])))
      forgetful_owner bus_owner"
    by (auto simp: same_pages_def forgetful_owner_def bus_request_def)
qed

text \<open>C38: A catalog of more than 100 metrics never leaves evidence.  A load-flow request admits up to
  1000 metrics, but the request for their results names all objects at once and is refused above
  100: when the command has succeeded and its log was read, the service raises and the store is
  unchanged, although the calculation ran.\<close>

theorem large_catalog_is_never_recorded:
  assumes "LoadFlowRequest_post_init r = None" "100 < length (lf_metric_catalog r)"
    and "execute_command w r = Inr x" "cx_completion x = COMMAND_SUCCEEDED" "CommandExecutionObservation_post_init x = None"
    and "logs w cfg (cx_execution_id x) (lf_idempotency_key r) = Inr messages"
  shows "\<exists>e. run_validated_load_flow sha ids clock w cfg r d = (Inl e, d)"
proof (rule run_validated_Inl)
  have "length (lf_metric_catalog r) \<le> MAX_CALCULATION_METRICS"
    using assms(1) by (simp add: LoadFlowRequest_post_init_def Let_def)
  from large_catalog_request [OF assms(2) this assms(5)]
  have "load_flow_outcome w cfg r ids clock digest
      = Inl (CalculationDomainError (ValueError ''ResultCollectionRequest.objects exceeds 100 entries''))" for digest
    using assms(3,4,6) by (simp add: load_flow_outcome_def split: prod.splits)
  then show "\<exists>e. load_flow_outcome w cfg r ids clock digest = Inl e" for digest by simp
qed

definition large_request :: "nat \<Rightarrow> load_flow_request" where
  "large_request n = bus_request
     (map (\<lambda>i. bus_metric (pad 3 i) (ProductIdentity (pad 8 i @ ''-0000-4000-8000-000000000000''))) [0..<n])"

lemma bus_request_parts:
  "lf_context_id (bus_request c) = sample_uuid 1" "scope_id (lf_extraction_revision (bus_request c)) = sample_uuid 1"
  "lf_command_settings (bus_request c) = []" "lf_metric_catalog (bus_request c) = c"
  "lf_idempotency_key (bus_request c) = ''key''"
  by (simp_all add: bus_request_def)

lemma bus_executes: "execute_command bus_owner (bus_request c) = Inr bus_observation"
  by code_simp

lemma large_request_ok:
  assumes "0 < n" "n \<le> 1000"
  shows "LoadFlowRequest_post_init (large_request n) = None"
proof -
  let ?catalog = "lf_metric_catalog (large_request n)"
  have ids: "map md_definition_id ?catalog = map (pad 3) [0..<n]"
    and assets: "map asset_of ?catalog = map (\<lambda>i. pad 8 i @ ''-0000-4000-8000-000000000000'') [0..<n]"
    by (simp_all add: large_request_def bus_request_def bus_metric_def asset_of_def)
  have "sorted (map (pad 3) [0..<n])"
    unfolding sorted_map using assms(2) by (intro sorted_wrt_mono_rel [OF _ sorted_wrt_upt]) (simp add: less_imp_le pad_less_iff)
  moreover have "distinct (map (pad 3) [0..<n])" "distinct (map asset_of ?catalog)"
    unfolding assets using assms(2) by (auto simp: distinct_map pad_inject intro!: inj_onI)
  moreover have "length ?catalog = n" "?catalog \<noteq> []"
    using assms(1) by (simp_all add: large_request_def bus_request_parts)
  moreover have "require_uuid4 (sample_uuid 1) ''LoadFlowRequest.context_id'' = None"
      "require_text_max 256 ''key'' ''LoadFlowRequest.idempotency_key'' = None"
    by code_simp+
  moreover have "lf_context_id (large_request n) = sample_uuid 1" "lf_command_settings (large_request n) = []"
      "scope_id (lf_extraction_revision (large_request n)) = sample_uuid 1" "lf_idempotency_key (large_request n) = ''key''"
    by (simp_all add: large_request_def bus_request_parts)
  ultimately show ?thesis
    using assms(2) unfolding LoadFlowRequest_post_init_def Let_def ids
    by (simp add: require_collection_None_iff sorted_sort_id MAX_CALCULATION_METRICS_def MAX_COLLECTION_LENGTH_def)
qed

theorem large_catalog_is_never_recorded_witness:
  "\<exists>e. run_validated_load_flow (\<lambda>_. sample_hex) (sample_ids 900) bus_clock bus_owner bus_config (large_request 101)
     empty_calculation_db = (Inl e, empty_calculation_db)"
proof (rule large_catalog_is_never_recorded)
  show "LoadFlowRequest_post_init (large_request 101) = None" by (rule large_request_ok) simp_all
  show "100 < length (lf_metric_catalog (large_request 101))" by (simp add: large_request_def bus_request_parts)
  show "execute_command bus_owner (large_request 101) = Inr bus_observation"
    unfolding large_request_def by (rule bus_executes)
  show "cx_completion bus_observation = COMMAND_SUCCEEDED" "CommandExecutionObservation_post_init bus_observation = None"
    by code_simp+
  show "logs bus_owner bus_config (cx_execution_id bus_observation) (lf_idempotency_key (large_request 101))
      = Inr ([''execution:x:log:1''], [''low voltage''])"
    unfolding large_request_def bus_request_parts by code_simp
qed

section \<open>Cases the code does not expect\<close>

text \<open>A run that did not converge is lost when one of its first 16 messages is longer than 1024
  characters and has a blank as its 1024th: the cut message is refused as diagnostic text.\<close>

lemma cut_message_loses_the_run:
  assumes "execute_command w r = Inr x" "cx_completion x = COMMAND_FAILED"
    and "logs w cfg (cx_execution_id x) (lf_idempotency_key r) = Inr (references, diagnostics)"
    and "i < 16" "i < length (cx_diagnostic_messages x @ diagnostics)"
    and "1024 < length ((cx_diagnostic_messages x @ diagnostics) ! i)"
    and "is_space ((cx_diagnostic_messages x @ diagnostics) ! i ! 1023)"
  shows "\<exists>e. run_validated_load_flow sha ids clock w cfg r d = (Inl e, d)"
proof (rule run_validated_Inl)
  fix digest
  from cut_message_refused [OF assms(4-7)] obtain e where
      "build_run (run_of_request r (ids 0) digest NOT_CONVERGED (Some (cx_execution_id x))
        (cx_diagnostic_messages x @ diagnostics) references None (clock 0) (clock 1)) = Inl e"
    by blast
  with assms(1-3) show "\<exists>e. load_flow_outcome w cfg r ids clock digest = Inl e"
    by (simp add: load_flow_outcome_def)
qed

text \<open>A voltage that was too low and is now too high is one unchanged finding, under the new key.\<close>

lemma flipped_violation_is_unchanged:
  "case compare_finding (voltage_evaluation (4 / 5)) (voltage_evaluation (6 / 5)) bus_definition of
     Inl _ \<Rightarrow> False
   | Inr f \<Rightarrow> fc_trend f = UNCHANGED \<and> fc_violation_key f = violation_key_of bus_definition ''upper''
       \<and> map_option pv_violation_key (me_violation (voltage_evaluation (4 / 5))) = Some (violation_key_of bus_definition ''lower'')"
  by code_simp

end
