(* ===== verification/Spec2Isabelle.thy ===== *)
theory Spec2Isabelle
  imports Json_Scanning Store_System Worker_System Gateway_Laws Graph_Properties Graph_Order Identity_Properties
    Inventory_Properties Calculation_Properties
begin

text \<open>
  A verification development for the PowerFactory agent under
  \<open>src/src/powerfactory_agent\<close>: a service that lets an AI client inspect and, behind an
  approval gate, change models of the power-system tool PowerFactory.  All paths below
  are relative to that directory.

  \<^bold>\<open>The program.\<close>  Requests arrive over MCP (\<open>mcp/\<close>) and become operations of a
  gateway to the engine (\<open>gateway/\<close>), which may be called from one thread only and whose
  calls cannot be interrupted.  \<open>gateway/owner.py\<close> is the typed facade, \<open>gateway/worker.py\<close>
  the single owner thread with its queue and watchdog, and
  \<open>persistence/operation_store.py\<close> the durable record of each operation.  A change of
  the model needs a workflow (\<open>persistence/workflow_store.py\<close>), an approved
  authorization used once (\<open>persistence/approval_store.py\<close>), a fenced lease on the
  context (\<open>persistence/lease_store.py\<close>) and a write-ahead intent
  (\<open>persistence/reconciliation_store.py\<close>); \<open>persistence/execution_admission.py\<close> commits
  all five in one transaction.  The records of \<open>domain/\<close> check themselves on construction
  and \<open>serialization.py\<close> turns them into canonical JSON and back.

  \<^bold>\<open>How the code is modelled.\<close>  A frozen dataclass is a \<open>record\<close> and its \<open>__post_init__\<close> a
  definition \<open><Class>_post_init\<close>, the first failing check in the order of the code.  An
  enum is a \<open>datatype\<close>.  An exception is a value of an error datatype, and a method that
  may raise returns \<open>error + 'a\<close>; a method that writes is a function on the database that
  returns its result with the new database, and \<open>transaction\<close> restores the old one when
  its body raises.  A table is a list of rows with look-up, conditional update and
  insertion guarded by the constraints of the schema.  Stores other than the operation
  store keep JSON columns as the record they encode; the operation store keeps text and
  goes through the codec.  Strings are lists of characters below 256, timestamps are
  calendar fields in UTC, Python's integers are \<open>int\<close>, with the 64-bit bound of SQLite
  columns written out in the operation store.  Time and \<open>uuid.uuid4\<close> are arguments.

  \<^bold>\<open>The theories.\<close>
  \<^item> \<open>Prelude\<close>: results and first-error checks, tables, transactions, and the interfaces
    \<open>invariant_machine\<close>, \<open>append_only_machine\<close> and \<open>monotone_counter\<close>, the contracts each
    store is shown to keep.
  \<^item> \<open>Values\<close>, \<open>Timestamps\<close>, \<open>Models\<close>, \<open>Workflow_Domain\<close>, \<open>Lease_Domain\<close>,
    \<open>Approval_Domain\<close>, \<open>Reconciliation_Domain\<close>: the records of \<open>domain/\<close> with their checks.
  \<^item> \<open>Database\<close>: the tables of \<open>persistence/database.py\<close> and the shared writers of
    \<open>persistence/_transactional_writers.py\<close>.  \<open>Samples\<close>: concrete values for witnesses.
  \<^item> \<open>Lease_Store\<close>, \<open>Lease_Laws\<close>: leases.  Every operation is shown to be one of a few
    abstract changes, from which follow the strictly increasing fencing tokens, the
    rejection of stale holders and the fate of in-flight leases.
  \<^item> \<open>Workflow_Store\<close>, \<open>Workflow_Laws\<close>: workflow transitions, exact replays, unbroken legal
    histories, one winner per version.
  \<^item> \<open>Approval_Store\<close>, \<open>Approval_Laws\<close>: approval and single-use authorizations.
  \<^item> \<open>Reconciliation_Store\<close>, \<open>Reconciliation_Laws\<close>: intents, observations and supported
    classifications.
  \<^item> \<open>Execution_Admission\<close>, \<open>Store_System\<close>: the admission transaction, and all stores
    interleaved on one database.
  \<^item> \<open>Json\<close>, \<open>Serialization\<close>, \<open>Serialization_Laws\<close>: JSON text, \<open>to_primitive\<close>,
    \<open>canonical_json\<close>, the annotation-driven decoder, and that values read back.  A text with
    a constant such as \<open>NaN\<close> is refused like other invalid text; the code's own message for
    it is not kept apart.  \<open>Json_Scanning\<close>: the fuel of the reader is no bound.
  \<^item> \<open>Operation_Store\<close>, \<open>Operation_Laws\<close>: the durable operation records, their legal
    moves, idempotent admission, restart.
  \<^item> \<open>Worker\<close>, \<open>Worker_Laws\<close>, \<open>Worker_System\<close>: the threads of the worker as events of one
    step relation; the invariant \<open>worker_inv\<close> of all reachable states, and what follows
    from it: one call at a time, calls once and in order, closing that drains.  \<open>close\<close> is two
    events, the stopping flag and the cancellation of the queued rows, between which the
    owner may still start an operation; \<open>closing_starts_nothing\<close> says what holds after each.
  \<^item> \<open>Gateway_Owner\<close>, \<open>Gateway_Laws\<close>: the typed facade, and that requests and results
    cross text, table and threads unchanged.
  \<^item> \<open>Encodings\<close>, \<open>Encoding_Bounds\<close>: the domain objects as values of the encoder, and a
    bound under which a value is never refused for its size.  \<open>Asset_Samples\<close>: concrete
    locators and assets.
  \<^item> \<open>Topology\<close>, \<open>Graph_Store\<close>, \<open>Graph_Queries\<close>: \<open>domain/topology.py\<close>, the recorded
    extractions of \<open>persistence/model_graph_store.py\<close> and the queries of
    \<open>operations/model_graph.py\<close>.  \<open>Graph_Search\<close> states what the queries rely on in NetworkX
    as the locale \<open>graph_search\<close> and instantiates it by breadth-first searches;
    \<open>Graph_Laws\<close> has the invariant of the tables and the merge of a refresh,
    \<open>Graph_Answers\<close> and \<open>Graph_Properties\<close> what each query returns, \<open>Graph_Order\<close> two
    behaviours on concrete extractions (\<open>Graph_Samples\<close>).
  \<^item> \<open>Identity_Store\<close>, \<open>Identity_Laws\<close>, \<open>Identity_Properties\<close>: product identities and their
    locators; the invariant under interleaved calls, the finality of tombstones for calls
    that do not overlap, and what overlapping calls can do.
  \<^item> \<open>Inventory\<close>, \<open>Inventory_Service\<close>: \<open>domain/inventory.py\<close> and \<open>operations/inventory.py\<close>,
    whose traversal of a paged gateway is a partial function.  \<open>Inventory_Laws\<close> shows that it
    always returns and equals the fold of its consumer over a chain of pages;
    \<open>Inventory_Answers\<close> and \<open>Inventory_Properties\<close> what summaries and look-ups return.
  \<^item> \<open>Gateway_Contracts\<close>, \<open>Calculations\<close>: the records of \<open>domain/gateway.py\<close> and
    \<open>domain/calculations.py\<close> with their checks.
  \<^item> \<open>Calculation_Policy\<close>, \<open>Calculation_Laws\<close>: the evaluation and comparison of
    \<open>operations/calculations.py\<close> and the projection of \<open>domain/calculation_projection.py\<close>, over
    decimals rounded to 28 digits; the verdict on every branch.
  \<^item> \<open>Calculation_Encodings\<close>, \<open>Calculation_Store\<close>, \<open>Calculation_Store_Laws\<close>:
    \<open>persistence/calculation_store.py\<close>, its tables and their invariant, evidence that only grows.
  \<^item> \<open>Load_Flow_Service\<close>, \<open>Load_Flow_Laws\<close>, \<open>Calculation_Properties\<close>: the load-flow service
    over an owner that is an argument, the runs it records and those it cannot record
    (\<open>Calculation_Samples\<close>: a load flow over one bus, for the witnesses).

  \<^bold>\<open>Bounds and termination.\<close>  One group of definitions carries fuel, the JSON scanner
  \<open>scan_value\<close>, \<open>scan_elements\<close> and \<open>scan_members\<close>: \<open>json_loads\<close> gives it one more than the text
  has characters, and \<open>json_loads_needs_no_fuel\<close> in \<open>Json_Scanning\<close> shows that it then finds
  whatever it finds with any fuel.  String literals are scanned and values decoded by
  recursion on decreasing input with proved measures.  The collection of result pages decreases
  the catalog entries less the cursors seen; the inventory traversal decreases the cursors of
  admissible length that were not seen, so both always return.  \<open>closing_drains\<close> bounds the events of
  the owner thread after \<open>close\<close> by a measure of the queue and of its program counter; a
  handler that never returns is the absence of its event.

  \<^bold>\<open>Assumed.\<close>  Arguments of the definitions stand for code outside the repository: the
  hash function, \<open>datetime.fromisoformat\<close> (assumed to invert \<open>isoformat\<close>, and shown to be
  satisfiable by \<open>parse_iso\<close>), the class table that the dataclass machinery gives the
  decoder, the gateway methods, what the owner and the paged gateway answer, and the graph searches of
  NetworkX.  Unicode normalisation is the identity on the characters modelled.

  \<^bold>\<open>Not modelled.\<close>  The adapters \<open>gateway/powerfactory2026.py\<close>,
  \<open>gateway/native_powerfactory2026.py\<close> and \<open>probes/\<close> drive a proprietary engine; \<open>mcp/\<close> and
  \<open>config/\<close> are wiring, protocol and file access; \<open>gateway/fake.py\<close> and
  \<open>gateway/primitive_fake.py\<close> are test doubles; \<open>domain/schema.py\<close> exports JSON schemas.  The
  preview, restore and rollback records of \<open>domain/models.py\<close> have no operation in the program
  yet, and the disposable graph projection with calculation overlays of
  \<open>operations/model_graph.py\<close> builds an object of NetworkX.
\<close>

end
